(* ===== verification/Prelude.thy ===== *)
theory Prelude
  imports Main
begin

text \<open>
  Shared vocabulary of the development: the proof collections, the operations on tables (lists of
  rows in insertion order) that every repository of the program uses, and the fragment of the Go
  standard library the services rely on (byte strings, \<open>int\<close> arithmetic at 64 bits, hex).
  Instants are integers (nanoseconds of UTC), so \<open>time.UTC()\<close> is the identity; a Go string is the
  list of its bytes and the case and space functions treat the ASCII range.
\<close>

named_theorems wp_simps "weakest preconditions of the primitive operations"
named_theorems aborts_intros "a failed operation leaves a state predicate as it was"
named_theorems keeps_intros "preservation of a state predicate by an operation"

type_synonym uuid = nat
type_synonym instant = int

definition uuid_nil :: uuid where
  "uuid_nil = 0"

section \<open>Tables\<close>

text \<open>\<open>modify p f\<close> is an \<open>UPDATE ... WHERE p\<close>; \<open>upsert\<close> is GORM's \<open>Save\<close>: all columns of the row with
  the same key are written, and a row that is missing is inserted.\<close>

definition modify :: "('r \<Rightarrow> bool) \<Rightarrow> ('r \<Rightarrow> 'r) \<Rightarrow> 'r list \<Rightarrow> 'r list" where
  "modify p f rs = map (\<lambda>r. if p r then f r else r) rs"

definition has_key :: "('r \<Rightarrow> 'k) \<Rightarrow> 'k \<Rightarrow> 'r list \<Rightarrow> bool" where
  "has_key key k rs = list_ex (\<lambda>r. key r = k) rs"

definition upsert :: "('r \<Rightarrow> 'k) \<Rightarrow> 'r \<Rightarrow> 'r list \<Rightarrow> 'r list" where
  "upsert key r rs =
     (if has_key key (key r) rs then modify (\<lambda>x. key x = key r) (\<lambda>_. r) rs else rs @ [r])"

definition by_key :: "('r \<Rightarrow> 'k) \<Rightarrow> 'k \<Rightarrow> 'r list \<Rightarrow> 'r option" where
  "by_key key k rs = find (\<lambda>r. key r = k) rs"

definition count_where :: "('r \<Rightarrow> bool) \<Rightarrow> 'r list \<Rightarrow> int" where
  "count_where p rs = int (length (filter p rs))"

definition sum_where :: "('r \<Rightarrow> bool) \<Rightarrow> ('r \<Rightarrow> int) \<Rightarrow> 'r list \<Rightarrow> int" where
  "sum_where p f rs = sum_list (map f (filter p rs))"

definition keyed :: "('r \<Rightarrow> 'k) \<Rightarrow> 'r list \<Rightarrow> bool" where
  "keyed key rs = distinct (map key rs)"

definition page_of :: "int \<Rightarrow> int \<Rightarrow> 'r list \<Rightarrow> 'r list" where
  "page_of limit offset rs =
     (let rest = drop (nat offset) rs in if limit < 0 then rest else take (nat limit) rest)"

text \<open>GORM's \<open>First\<close> orders by the primary key; it matters only for keys that are not unique.\<close>

definition by_pk :: "('r \<Rightarrow> uuid) \<Rightarrow> 'r list \<Rightarrow> 'r list" where
  "by_pk key rs = sort_key key rs"

lemma set_by_pk [simp]: "set (by_pk key rs) = set rs"
  by (simp add: by_pk_def)

lemma modify_Nil [simp]: "modify p f [] = []"
  by (simp add: modify_def)

lemma modify_Cons [simp]: "modify p f (r # rs) = (if p r then f r else r) # modify p f rs"
  by (simp add: modify_def)

lemma length_modify [simp]: "length (modify p f rs) = length rs"
  by (simp add: modify_def)

lemma set_modify: "set (modify p f rs) = (\<lambda>r. if p r then f r else r) ` set rs"
  by (simp add: modify_def)

lemma keyed_inj: "keyed key rs \<Longrightarrow> a \<in> set rs \<Longrightarrow> b \<in> set rs \<Longrightarrow> key a = key b \<Longrightarrow> a = b"
  by (auto simp: keyed_def distinct_map dest: inj_onD)

lemma has_key_iff: "has_key key k rs \<longleftrightarrow> k \<in> key ` set rs"
  by (auto simp: has_key_def list_ex_iff)

lemma by_key_Some: "by_key key k rs = Some r \<Longrightarrow> r \<in> set rs \<and> key r = k"
  by (auto simp: by_key_def find_Some_iff)

lemma by_key_key: "by_key key k rs = Some r \<Longrightarrow> key r = k"
  by (drule by_key_Some) simp

lemma by_key_None: "by_key key k rs = None \<longleftrightarrow> k \<notin> key ` set rs"
  by (auto simp: by_key_def find_None_iff)

lemma by_key_keyed: "keyed key rs \<Longrightarrow> r \<in> set rs \<Longrightarrow> by_key key (key r) rs = Some r"
  by (induction rs) (auto simp: keyed_def by_key_def)

lemma map_key_modify:
  assumes "\<And>r. p r \<Longrightarrow> key (f r) = key r"
  shows "map key (modify p f rs) = map key rs"
  using assms by (induction rs) auto

lemma key_image_modify: "(\<And>r. p r \<Longrightarrow> key (f r) = key r) \<Longrightarrow> key ` set (modify p f rs) = key ` set rs"
  unfolding set_map [symmetric] by (simp only: map_key_modify)

lemma keyed_modify [simp]: "(\<And>r. p r \<Longrightarrow> key (f r) = key r) \<Longrightarrow> keyed key (modify p f rs) = keyed key rs"
  by (simp add: keyed_def map_key_modify)

lemma keyed_upsert [simp]: "keyed key rs \<Longrightarrow> keyed key (upsert key r rs)"
proof (cases "has_key key (key r) rs")
  case True
  have "map key (modify (\<lambda>x. key x = key r) (\<lambda>_. r) rs) = map key rs"
    by (rule map_key_modify) simp
  with True show "keyed key rs \<Longrightarrow> ?thesis" by (simp add: upsert_def keyed_def)
next
  case False
  then show "keyed key rs \<Longrightarrow> ?thesis" by (simp add: upsert_def keyed_def has_key_iff)
qed

lemma keyed_snoc [simp]: "keyed key (rs @ [r]) \<longleftrightarrow> keyed key rs \<and> \<not> has_key key (key r) rs"
  by (auto simp: keyed_def has_key_iff)

lemma keyed_Nil [simp]: "keyed key []"
  by (simp add: keyed_def)

lemma upsert_present: "by_key key (key r) rs = Some r0 \<Longrightarrow>
    upsert key r rs = modify (\<lambda>x. key x = key r) (\<lambda>_. r) rs"
  using by_key_Some [of key "key r" rs r0] by (auto simp: upsert_def has_key_iff image_iff)

lemma by_key_snoc: "by_key key k (rs @ [r]) =
    (case by_key key k rs of None \<Rightarrow> (if key r = k then Some r else None) | Some x \<Rightarrow> Some x)"
  by (induction rs) (auto simp: by_key_def)

lemma by_key_modify:
  assumes "\<And>r. key (f r) = key r"
  shows "by_key key k (modify p f rs) = map_option (\<lambda>r. if p r then f r else r) (by_key key k rs)"
  using assms by (induction rs) (auto simp: by_key_def)

lemma by_key_modify_const:
  "by_key key k (modify (\<lambda>x. key x = key r) (\<lambda>_. r) rs) =
     (if k = key r then map_option (\<lambda>_. r) (by_key key k rs) else by_key key k rs)"
  by (induction rs) (auto simp: by_key_def)

lemma by_key_upsert [simp]:
  "by_key key k (upsert key r rs) = (if k = key r then Some r else by_key key k rs)"
proof (cases "by_key key (key r) rs")
  case None
  then have "upsert key r rs = rs @ [r]" by (simp add: upsert_def has_key_iff by_key_None)
  with None show ?thesis by (auto simp: by_key_snoc split: option.split)
next
  case (Some r0)
  then show ?thesis by (simp add: upsert_present by_key_modify_const)
qed

lemma modify_notin: "(\<And>r. r \<in> set rs \<Longrightarrow> \<not> p r) \<Longrightarrow> modify p f rs = rs"
  by (induction rs) auto

lemma sum_where_Nil [simp]: "sum_where p f [] = 0"
  by (simp add: sum_where_def)

lemma sum_where_Cons [simp]: "sum_where p f (r # rs) = (if p r then f r else 0) + sum_where p f rs"
  by (simp add: sum_where_def)

lemma sum_where_append [simp]: "sum_where p f (rs @ ss) = sum_where p f rs + sum_where p f ss"
  by (simp add: sum_where_def)

lemma count_where_Nil [simp]: "count_where p [] = 0"
  by (simp add: count_where_def)

lemma count_where_Cons [simp]: "count_where p (r # rs) = (if p r then 1 else 0) + count_where p rs"
  by (simp add: count_where_def)

lemma count_where_append [simp]: "count_where p (rs @ ss) = count_where p rs + count_where p ss"
  by (simp add: count_where_def)

lemma count_where_nonneg [simp]: "0 \<le> count_where p rs"
  by (simp add: count_where_def)

lemma count_where_sum: "count_where p rs = sum_where p (\<lambda>_. 1) rs"
  by (induction rs) auto

lemma count_where_pos: "0 < count_where p rs \<longleftrightarrow> (\<exists>r \<in> set rs. p r)"
  by (induction rs) (auto simp: add_pos_nonneg)

text \<open>Writing the one row with a given key moves an aggregate by exactly the change in that row.\<close>

lemma sum_where_replace:
  assumes "keyed key rs" and "by_key key (key r) rs = Some r0"
  shows "sum_where p f (modify (\<lambda>x. key x = key r) (\<lambda>_. r) rs) =
     sum_where p f rs - (if p r0 then f r0 else 0) + (if p r then f r else 0)"
  using assms
proof (induction rs)
  case Nil
  then show ?case by (simp add: by_key_def)
next
  case (Cons x xs)
  show ?case
  proof (cases "key x = key r")
    case True
    then have "modify (\<lambda>x. key x = key r) (\<lambda>_. r) xs = xs"
      using Cons.prems(1) by (intro modify_notin) (auto simp: keyed_def image_iff)
    with True Cons.prems(2) show ?thesis by (simp add: by_key_def)
  next
    case False
    with Cons show ?thesis by (simp add: by_key_def keyed_def)
  qed
qed

lemma sum_where_upsert:
  assumes "keyed key rs" and "by_key key (key r) rs = Some r0"
  shows "sum_where p f (upsert key r rs) =
     sum_where p f rs - (if p r0 then f r0 else 0) + (if p r then f r else 0)"
  using assms by (simp add: upsert_present sum_where_replace)

lemma count_where_upsert:
  assumes "keyed key rs" and "by_key key (key r) rs = Some r0"
  shows "count_where p (upsert key r rs) =
     count_where p rs - (if p r0 then 1 else 0) + (if p r then 1 else 0)"
  using assms by (simp add: count_where_sum sum_where_upsert)

lemma sum_where_nonneg: "(\<And>r. r \<in> set rs \<Longrightarrow> 0 \<le> f r) \<Longrightarrow> 0 \<le> sum_where p f rs"
  by (induction rs) auto

lemma sum_where_member_le:
  assumes "r \<in> set rs" and "p r" and "\<And>x. x \<in> set rs \<Longrightarrow> 0 \<le> f x"
  shows "f r \<le> sum_where p f rs"
  using assms
proof (induction rs)
  case Nil
  then show ?case by simp
next
  case (Cons x xs)
  have "0 \<le> sum_where p f xs" using Cons.prems(3) by (intro sum_where_nonneg) auto
  with Cons show ?case by (cases "r = x") force+
qed

section \<open>Go integers\<close>

text \<open>Go's \<open>int\<close> and \<open>int64\<close> wrap at 64 bits; the \<open>INTEGER\<close> columns of the schema hold 32 bits.\<close>

definition wrap64 :: "int \<Rightarrow> int" where
  "wrap64 x = (x + 2 ^ 63) mod 2 ^ 64 - 2 ^ 63"

definition fits64 :: "int \<Rightarrow> bool" where
  "fits64 x = (- (2 ^ 63) \<le> x \<and> x < 2 ^ 63)"

definition fits32 :: "int \<Rightarrow> bool" where
  "fits32 x = (- (2 ^ 31) \<le> x \<and> x < 2 ^ 31)"

lemma wrap64_id: "fits64 x \<Longrightarrow> wrap64 x = x"
  by (simp add: wrap64_def fits64_def)

lemma wrap64_fits: "fits64 (wrap64 x)"
  by (simp add: wrap64_def fits64_def)

lemma wrap64_small: "- 9000000000000000000 \<le> x \<Longrightarrow> x \<le> 9000000000000000000 \<Longrightarrow> wrap64 x = x"
  by (rule wrap64_id) (simp add: fits64_def)

lemma fits32_bounds: "fits32 x \<longleftrightarrow> - 2147483648 \<le> x \<and> x < 2147483648"
  by (simp add: fits32_def)

end
