(* ===== verification/Errors.thy ===== *)
theory Errors
  imports Prelude
begin

text \<open>
  The sentinel errors of every package (the \<open>errors.go\<close> files), and the one type of errors that
  flows between the packages. Go compares sentinels by identity (\<open>errors.Is\<close>), so a sentinel is a
  constructor of its package's datatype: \<open>order.ErrSoldOut\<close> and \<open>ticketing.ErrSoldOut\<close> differ.
  \<open>RecordNotFound\<close> is \<open>gorm.ErrRecordNotFound\<close>, \<open>UniqueViolation\<close> an error whose message names a
  violated unique index, \<open>DbError\<close> any other failure of the database and \<open>ExtError\<close> a failure of a
  library or an external service.
\<close>

datatype order_err =
    ErrOrderNotFound | ErrForbidden | ErrTicketGone | ErrSoldOut | ErrTooMany | ErrInvalidQty
  | ErrInvalidStatus

datatype ticketing_err =
    ErrTicketNotFound | ErrForbidden | ErrInvalidName | ErrInvalidPrice | ErrInvalidQty
  | ErrInvalidWindow | ErrInvalidStatus | ErrEventCapacity | ErrEventUnresolved | ErrHasSales
  | ErrSoldOut | ErrNotOnSale | ErrTooMany

datatype attendee_err = ErrAttendeeNotFound | ErrForbidden | ErrInvalidEmail | ErrInvalidStatus

datatype checkin_err =
    ErrCheckinNotFound | ErrForbidden | ErrBatchTooLarge | ErrQRSecretUnset | ErrAttendeeNotFound
  | ErrNotCheckedIn | ErrCollectionsOutstanding

datatype kit_err =
    ErrKitNotFound | ErrCollectionNotFound | ErrAttendeeNotFound | ErrForbidden
  | ErrInvalidQuantity | ErrInvalidStatus | ErrNotCheckedIn | ErrQuantityExhausted
  | ErrAlreadyCollected | ErrQuantityBelowCollected | ErrKitHasCollections

datatype event_err =
    ErrEventNotFound | ErrForbidden | ErrSlugTaken | ErrInvalidSlug | ErrInvalidTitle
  | ErrInvalidDates | ErrInvalidCap | ErrInvalidStatus | ErrOrgUnresolved | ErrCoverTooLarge
  | ErrCoverType | ErrCoverRequired | ErrTooManyFiles

datatype org_err =
    ErrOrgNotFound | ErrForbidden | ErrSlugTaken | ErrInvalidSlug | ErrInvalidName
  | ErrAlreadyMember | ErrUserNotFound | ErrLastOwner | ErrInvalidInvite | ErrInviteConsumed
  | ErrInviteEmailMismatch | ErrInvalidRoleName | ErrRoleReserved | ErrRoleExists
  | ErrRoleNotFound | ErrRoleCapReached | ErrRoleAssigned | ErrInvalidRolePermissions
  | ErrApiKeyNotFound | ErrInvalidApiKeyName | ErrInvalidApiKeyScope | ErrInvalidApiKeyExpiry

datatype auth_err =
    ErrUserExists | ErrInvalidCredentials | ErrEmailNotVerified | ErrAccountSuspended | ErrAccountDeleted
  | ErrAccountInactive | ErrInvalidToken | ErrTokenUsed | ErrOTPAttemptsExceeded | ErrSessionRevoked
  | ErrTooManyRequests

datatype admin_err = ErrOrgNotFound | ErrUserNotFound

datatype sub_err =
    ErrSubscriptionNotFound | ErrForbidden | ErrInvalidPlan | ErrAlreadySubscribed
  | ErrNoSubscription | ErrBillingUnavailable | ErrUpgradeRequired | ErrEventAtCapacity

datatype payment_err = ErrProviderDown | ErrNoPaymentRequired | ErrInvalidOrderState

text \<open>The messages of the payment domain's \<open>FulfillError\<close>; the wrapped cause does not matter to
  any caller, only the prefix of the message does.\<close>

datatype fulfill_msg =
    SecretUnconfigured | BadSignature | BillingFailed | BadSessionPayload | MissingOrderId
  | MarkPaidFailed

datatype err =
    RecordNotFound | UniqueViolation | DbError | ExtError
  | OrderE order_err | TicketE ticketing_err | AttendeeE attendee_err | CheckinE checkin_err
  | KitE kit_err | AuthE auth_err | AdminE admin_err | EventE event_err | OrgE org_err | SubE sub_err | PaymentE payment_err
  | FulfillError fulfill_msg

end
