(* ===== verification/Store.thy ===== *)
theory Store
  imports Errors
begin

text \<open>
  The database as every service sees it. An operation takes the state of the store and returns a
  result or an error together with the new state. The state \<open>base\<close> carries what is common to all
  tables: the clock read by \<open>time.Now\<close>, a script of database failures, and how many UUIDs and random
  tokens have been drawn. Each component extends this record with its tables.

  Every access to the database may fail: \<open>faults\<close> lists, for the accesses to come, which of them
  return an infrastructure error; past the end of the list they all succeed. A theorem that holds
  for every state therefore covers every combination of database failures. \<open>tx\<close> is
  \<open>db.Transaction(func ...)\<close>: begin and commit are accesses that may fail, and on any error of the body the
  tables are those of the start, while the clock, the script and the draws go on.
\<close>

record base =
  clock :: instant
  faults :: "bool list"
  drawn_uuids :: nat
  drawn_tokens :: nat

type_synonym ('s, 'a) op = "'s \<Rightarrow> (err + 'a) \<times> 's"

text \<open>Library code that is not part of the repository: \<open>google/uuid\<close> (the \<open>n\<close>-th UUID drawn, parsing
  and printing) and the hash, HMAC and random source used for tokens.\<close>

record lib =
  uuid_new :: "nat \<Rightarrow> uuid"
  uuid_parse :: "string \<Rightarrow> uuid option"
  uuid_text :: "uuid \<Rightarrow> string"
  sha256 :: "string \<Rightarrow> string"
  hmac_sha256 :: "string \<Rightarrow> string \<Rightarrow> string"
  rand_bytes :: "nat \<Rightarrow> nat \<Rightarrow> string"

section \<open>Sequencing and errors\<close>

definition ret :: "'a \<Rightarrow> ('s, 'a) op" where
  "ret x = (\<lambda>w. (Inr x, w))"

definition fail :: "err \<Rightarrow> ('s, 'a) op" where
  "fail e = (\<lambda>w. (Inl e, w))"

definition bnd :: "('s, 'a) op \<Rightarrow> ('a \<Rightarrow> ('s, 'b) op) \<Rightarrow> ('s, 'b) op" where
  "bnd m f = (\<lambda>w. case m w of (Inl e, w') \<Rightarrow> (Inl e, w') | (Inr x, w') \<Rightarrow> f x w')"

text \<open>\<open>v, err := m()\<close> with the error kept as a value.\<close>

definition attempt :: "('s, 'a) op \<Rightarrow> ('s, err + 'a) op" where
  "attempt m = (\<lambda>w. case m w of (r, w') \<Rightarrow> (Inr r, w'))"

definition on_error :: "('s, 'a) op \<Rightarrow> (err \<Rightarrow> err) \<Rightarrow> ('s, 'a) op" where
  "on_error m h = bnd (attempt m) (\<lambda>r. case r of Inl e \<Rightarrow> fail (h e) | Inr x \<Rightarrow> ret x)"

text \<open>\<open>if errors.Is(err, gorm.ErrRecordNotFound) { return e }; return err\<close>.\<close>

definition not_found_as :: "err \<Rightarrow> err \<Rightarrow> err" where
  "not_found_as e err = (if err = RecordNotFound then e else err)"

definition unique_as :: "err \<Rightarrow> err \<Rightarrow> err" where
  "unique_as e err = (if err = UniqueViolation then e else err)"

definition guard :: "bool \<Rightarrow> err \<Rightarrow> ('s, unit) op" where
  "guard c e = (if c then ret () else fail e)"

definition the_or_fail :: "err \<Rightarrow> 'a option \<Rightarrow> ('s, 'a) op" where
  "the_or_fail e x = (case x of None \<Rightarrow> fail e | Some y \<Rightarrow> ret y)"

definition gets :: "('s \<Rightarrow> 'a) \<Rightarrow> ('s, 'a) op" where
  "gets g = (\<lambda>w. (Inr (g w), w))"

definition puts :: "('s \<Rightarrow> 's) \<Rightarrow> ('s, unit) op" where
  "puts u = (\<lambda>w. (Inr (), u w))"

fun for_each :: "('a \<Rightarrow> ('s, 'b) op) \<Rightarrow> 'a list \<Rightarrow> ('s, 'b list) op" where
  "for_each f [] = ret []"
| "for_each f (x # xs) = bnd (f x) (\<lambda>y. bnd (for_each f xs) (\<lambda>ys. ret (y # ys)))"

section \<open>Accesses to the database\<close>

definition trips :: "'z base_scheme \<Rightarrow> bool" where
  "trips w = (case faults w of [] \<Rightarrow> False | b # _ \<Rightarrow> b)"

definition tick :: "'z base_scheme \<Rightarrow> 'z base_scheme" where
  "tick w = w\<lparr>faults := tl (faults w)\<rparr>"

definition db :: "('z base_scheme, 'a) op \<Rightarrow> ('z base_scheme, 'a) op" where
  "db f = (\<lambda>w. if trips w then (Inl DbError, tick w) else f (tick w))"

definition select :: "('z base_scheme \<Rightarrow> 'a) \<Rightarrow> ('z base_scheme, 'a) op" where
  "select g = db (gets g)"

definition select_first :: "('z base_scheme \<Rightarrow> 'a option) \<Rightarrow> ('z base_scheme, 'a) op" where
  "select_first g = db (\<lambda>w. case g w of None \<Rightarrow> (Inl RecordNotFound, w) | Some x \<Rightarrow> (Inr x, w))"

text \<open>A write is refused with an error when the constraints of the schema refuse it.\<close>

definition write_db :: "('z base_scheme \<Rightarrow> err option) \<Rightarrow> ('z base_scheme \<Rightarrow> 'z base_scheme)
    \<Rightarrow> ('z base_scheme, unit) op" where
  "write_db chk u = db (\<lambda>w. case chk w of Some e \<Rightarrow> (Inl e, w) | None \<Rightarrow> (Inr (), u w))"

definition rollback :: "'z base_scheme \<Rightarrow> 'z base_scheme \<Rightarrow> 'z base_scheme" where
  "rollback w w' = w\<lparr>faults := faults w', drawn_uuids := drawn_uuids w',
      drawn_tokens := drawn_tokens w'\<rparr>"

definition tx :: "('z base_scheme, 'a) op \<Rightarrow> ('z base_scheme, 'a) op" where
  "tx m = bnd (db (ret ())) (\<lambda>_. \<lambda>w. case m w of
       (Inl e, w') \<Rightarrow> (Inl e, rollback w w')
     | (Inr x, w') \<Rightarrow> if trips w' then (Inl DbError, rollback w (tick w')) else (Inr x, tick w'))"

definition time_now :: "('z base_scheme, instant) op" where
  "time_now = gets clock"

definition draw_uuid :: "lib \<Rightarrow> ('z base_scheme, uuid) op" where
  "draw_uuid l = (\<lambda>w. (Inr (uuid_new l (drawn_uuids w)), w\<lparr>drawn_uuids := Suc (drawn_uuids w)\<rparr>))"

text \<open>The \<open>BeforeCreate\<close> hook of every model.\<close>

definition before_create :: "lib \<Rightarrow> uuid \<Rightarrow> ('z base_scheme, uuid) op" where
  "before_create l i = (if i = uuid_nil then draw_uuid l else ret i)"

text \<open>The random source may fail; \<open>draw_bytes l n\<close> reads \<open>n\<close> bytes.\<close>

definition draw_bytes :: "lib \<Rightarrow> nat \<Rightarrow> ('z base_scheme, string) op" where
  "draw_bytes l n = (\<lambda>w. if trips w then (Inl ExtError, tick w)
     else (Inr (rand_bytes l (drawn_tokens w) n), (tick w)\<lparr>drawn_tokens := Suc (drawn_tokens w)\<rparr>))"

text \<open>Two states that differ only in the script and the draws hold the same tables.\<close>

definition same_store :: "'z base_scheme \<Rightarrow> 'z base_scheme \<Rightarrow> bool" where
  "same_store w w' \<longleftrightarrow> w' = rollback w w'"

definition no_faults :: "'z base_scheme \<Rightarrow> bool" where
  "no_faults w \<longleftrightarrow> faults w = []"

section \<open>Weakest preconditions\<close>

definition wp :: "('s, 'a) op \<Rightarrow> ('a \<Rightarrow> 's \<Rightarrow> bool) \<Rightarrow> (err \<Rightarrow> 's \<Rightarrow> bool) \<Rightarrow> 's \<Rightarrow> bool" where
  "wp m Q E w = (case m w of (Inl e, w') \<Rightarrow> E e w' | (Inr x, w') \<Rightarrow> Q x w')"

lemma wp_ret [wp_simps]: "wp (ret x) Q E = Q x"
  by (rule ext) (simp add: wp_def ret_def)

lemma wp_fail [wp_simps]: "wp (fail e) Q E = E e"
  by (rule ext) (simp add: wp_def fail_def)

lemma wp_bnd [wp_simps]: "wp (bnd m f) Q E = wp m (\<lambda>x. wp (f x) Q E) E"
  by (rule ext) (auto simp: wp_def bnd_def split: prod.splits sum.splits)

lemma wp_attempt [wp_simps]: "wp (attempt m) Q E = wp m (\<lambda>x. Q (Inr x)) (\<lambda>e. Q (Inl e))"
  by (rule ext) (auto simp: wp_def attempt_def split: prod.splits sum.splits)

lemma wp_on_error [wp_simps]: "wp (on_error m h) Q E = wp m Q (\<lambda>e. E (h e))"
  by (simp add: on_error_def wp_simps)

lemma wp_guard [wp_simps]: "wp (guard c e) Q E = (\<lambda>w. if c then Q () w else E e w)"
  by (rule ext) (simp add: guard_def wp_simps)

lemma wp_the_or_fail [wp_simps]:
  "wp (the_or_fail e x) Q E = (\<lambda>w. case x of None \<Rightarrow> E e w | Some y \<Rightarrow> Q y w)"
  by (rule ext) (simp add: the_or_fail_def wp_simps split: option.split)

lemma wp_gets [wp_simps]: "wp (gets g) Q E = (\<lambda>w. Q (g w) w)"
  by (rule ext) (simp add: wp_def gets_def)

lemma wp_puts [wp_simps]: "wp (puts u) Q E = (\<lambda>w. Q () (u w))"
  by (rule ext) (simp add: wp_def puts_def)

lemma wp_if [wp_simps]: "wp (if c then m else n) Q E = (\<lambda>w. if c then wp m Q E w else wp n Q E w)"
  by (rule ext) simp

lemma wp_let [wp_simps]: "wp (Let x f) Q E = wp (f x) Q E"
  by simp

lemma wp_case_option [wp_simps]:
  "wp (case x of None \<Rightarrow> m | Some y \<Rightarrow> f y) Q E =
     (\<lambda>w. case x of None \<Rightarrow> wp m Q E w | Some y \<Rightarrow> wp (f y) Q E w)"
  by (rule ext) (cases x; simp)

lemma wp_case_sum [wp_simps]:
  "wp (case x of Inl a \<Rightarrow> f a | Inr b \<Rightarrow> g b) Q E =
     (\<lambda>w. case x of Inl a \<Rightarrow> wp (f a) Q E w | Inr b \<Rightarrow> wp (g b) Q E w)"
  by (rule ext) (cases x; simp)

lemma wp_case_prod [wp_simps]:
  "wp (case x of (a, b) \<Rightarrow> f a b) Q E = (\<lambda>w. case x of (a, b) \<Rightarrow> wp (f a b) Q E w)"
  by (rule ext) (cases x; simp)

lemma wp_case_list [wp_simps]:
  "wp (case x of [] \<Rightarrow> m | y # ys \<Rightarrow> f y ys) Q E =
     (\<lambda>w. case x of [] \<Rightarrow> wp m Q E w | y # ys \<Rightarrow> wp (f y ys) Q E w)"
  by (rule ext) (cases x; simp)

lemma wp_db [wp_simps]:
  "wp (db f) Q E = (\<lambda>w. if trips w then E DbError (tick w) else wp f Q E (tick w))"
  by (rule ext) (simp add: wp_def db_def)

lemma wp_select [wp_simps]:
  "wp (select g) Q E = (\<lambda>w. if trips w then E DbError (tick w) else Q (g (tick w)) (tick w))"
  by (simp add: select_def wp_simps)

lemma wp_select_first [wp_simps]:
  "wp (select_first g) Q E =
     (\<lambda>w. if trips w then E DbError (tick w)
      else case g (tick w) of None \<Rightarrow> E RecordNotFound (tick w) | Some x \<Rightarrow> Q x (tick w))"
  by (rule ext, simp add: select_first_def wp_simps) (simp add: wp_def split: option.split)

lemma wp_write_db [wp_simps]:
  "wp (write_db chk u) Q E =
     (\<lambda>w. if trips w then E DbError (tick w)
      else case chk (tick w) of None \<Rightarrow> Q () (u (tick w)) | Some e \<Rightarrow> E e (tick w))"
  by (rule ext, simp add: write_db_def wp_simps) (simp add: wp_def split: option.split)

lemma wp_tx [wp_simps]:
  "wp (tx m) Q E =
     (\<lambda>w. if trips w then E DbError (tick w)
      else wp m (\<lambda>x w'. if trips w' then E DbError (rollback (tick w) (tick w')) else Q x (tick w'))
                (\<lambda>e w'. E e (rollback (tick w) w')) (tick w))"
  by (rule ext, simp add: tx_def wp_simps) (auto simp: wp_def split: prod.splits sum.splits)

lemma wp_time_now [wp_simps]: "wp time_now Q E = (\<lambda>w. Q (clock w) w)"
  by (simp add: time_now_def wp_simps)

lemma wp_draw_uuid [wp_simps]:
  "wp (draw_uuid l) Q E =
     (\<lambda>w. Q (uuid_new l (drawn_uuids w)) (w\<lparr>drawn_uuids := Suc (drawn_uuids w)\<rparr>))"
  by (rule ext) (simp add: wp_def draw_uuid_def)

lemma wp_before_create [wp_simps]:
  "wp (before_create l i) Q E =
     (\<lambda>w. if i = uuid_nil
      then Q (uuid_new l (drawn_uuids w)) (w\<lparr>drawn_uuids := Suc (drawn_uuids w)\<rparr>)
      else Q i w)"
  by (simp add: before_create_def wp_simps)

lemma wp_draw_bytes [wp_simps]:
  "wp (draw_bytes l n) Q E =
     (\<lambda>w. if trips w then E ExtError (tick w)
      else Q (rand_bytes l (drawn_tokens w) n) ((tick w)\<lparr>drawn_tokens := Suc (drawn_tokens w)\<rparr>))"
  by (rule ext) (simp add: wp_def draw_bytes_def)

lemma wp_mono:
  assumes "wp m Q E w" and "\<And>x w'. Q x w' \<Longrightarrow> Q' x w'" and "\<And>e w'. E e w' \<Longrightarrow> E' e w'"
  shows "wp m Q' E' w"
  using assms by (auto simp: wp_def split: prod.splits sum.splits)

lemma wp_conj:
  assumes "wp m Q E w" and "wp m Q' E' w"
  shows "wp m (\<lambda>x w'. Q x w' \<and> Q' x w') (\<lambda>e w'. E e w' \<and> E' e w') w"
  using assms by (auto simp: wp_def split: prod.splits sum.splits)

lemma wp_okD: "m w = (Inr x, w') \<Longrightarrow> wp m Q E w \<Longrightarrow> Q x w'"
  by (simp add: wp_def)

lemma wp_errD: "m w = (Inl e, w') \<Longrightarrow> wp m Q E w \<Longrightarrow> E e w'"
  by (simp add: wp_def)

lemma wp_refl: "wp m (\<lambda>x w'. m w = (Inr x, w')) (\<lambda>e w'. m w = (Inl e, w')) w"
  by (auto simp: wp_def split: prod.split sum.split)

lemma wp_all: "(\<And>x w'. m w = (Inr x, w') \<Longrightarrow> Q x w') \<Longrightarrow> (\<And>e w'. m w = (Inl e, w') \<Longrightarrow> E e w')
    \<Longrightarrow> wp m Q E w"
  by (auto simp: wp_def split: prod.split sum.split)

section \<open>The control fields\<close>

lemma trips_simps [simp]:
  "faults w = [] \<Longrightarrow> \<not> trips w"
  "trips (w\<lparr>drawn_uuids := n\<rparr>) = trips w"
  "trips (w\<lparr>drawn_tokens := n\<rparr>) = trips w"
  "trips (w\<lparr>clock := c\<rparr>) = trips w"
  by (simp_all add: trips_def)

lemma tick_simps [simp]:
  "clock (tick w) = clock w"
  "faults (tick w) = tl (faults w)"
  "drawn_uuids (tick w) = drawn_uuids w"
  "drawn_tokens (tick w) = drawn_tokens w"
  "base.more (tick w) = base.more w"
  by (simp_all add: tick_def)

lemma rollback_simps [simp]:
  "clock (rollback w w') = clock w"
  "faults (rollback w w') = faults w'"
  "drawn_uuids (rollback w w') = drawn_uuids w'"
  "drawn_tokens (rollback w w') = drawn_tokens w'"
  "base.more (rollback w w') = base.more w"
  by (simp_all add: rollback_def)

lemma no_faults_tick [simp]: "faults w = [] \<Longrightarrow> tick w = w"
  by (cases w) (simp add: tick_def)

lemma same_store_iff: "same_store w w' \<longleftrightarrow> clock w' = clock w \<and> base.more w' = base.more w"
  by (cases w; cases w') (auto simp: same_store_def rollback_def)

lemma same_store_refl [simp]: "same_store w w"
  by (simp add: same_store_iff)

lemma same_store_trans: "same_store u v \<Longrightarrow> same_store v w \<Longrightarrow> same_store u w"
  by (simp add: same_store_iff)

lemma same_store_sym: "same_store u v \<Longrightarrow> same_store v u"
  by (simp add: same_store_iff)

lemma same_store_simps [simp]:
  "same_store w (tick w') = same_store w w'"
  "same_store (tick w) w' = same_store w w'"
  "same_store w (w'\<lparr>faults := f\<rparr>) = same_store w w'"
  "same_store w (w'\<lparr>drawn_uuids := n\<rparr>) = same_store w w'"
  "same_store w (w'\<lparr>drawn_tokens := n\<rparr>) = same_store w w'"
  "same_store (w\<lparr>faults := f\<rparr>) w' = same_store w w'"
  "same_store (w\<lparr>drawn_uuids := n\<rparr>) w' = same_store w w'"
  "same_store (w\<lparr>drawn_tokens := n\<rparr>) w' = same_store w w'"
  "same_store v (rollback w w') = same_store v w"
  by (simp_all add: same_store_iff)

text \<open>A predicate on the tables does not look at the control fields.\<close>

definition on_tables :: "('z base_scheme \<Rightarrow> bool) \<Rightarrow> bool" where
  "on_tables I \<longleftrightarrow> (\<forall>w w'. same_store w w' \<longrightarrow> I w \<longrightarrow> I w')"

lemma on_tablesI: "(\<And>w f n r. I (w\<lparr>faults := f, drawn_uuids := n, drawn_tokens := r\<rparr>) = I w) \<Longrightarrow> on_tables I"
  unfolding on_tables_def same_store_def rollback_def by metis

lemma on_tables_same: "on_tables I \<Longrightarrow> same_store w w' \<Longrightarrow> I w = I w'"
  using same_store_sym unfolding on_tables_def by blast

section \<open>Preserved predicates\<close>

definition keeps :: "('s \<Rightarrow> bool) \<Rightarrow> ('s, 'a) op \<Rightarrow> bool" where
  "keeps I m \<longleftrightarrow> (\<forall>w. I w \<longrightarrow> I (snd (m w)))"

lemma keeps_wp: "keeps I m \<longleftrightarrow> (\<forall>w. I w \<longrightarrow> wp m (\<lambda>_. I) (\<lambda>_. I) w)"
  unfolding keeps_def wp_def
  by (intro iff_allI) (auto split: prod.split sum.split)

lemma keepsD: "keeps I m \<Longrightarrow> I w \<Longrightarrow> m w = (r, w') \<Longrightarrow> I w'"
  by (auto simp: keeps_def dest: spec [where x = w])

lemma keeps_run: "m w = (r, w') \<Longrightarrow> I w \<Longrightarrow> keeps I m \<Longrightarrow> I w'"
  by (rule keepsD)

lemma keepsI: "(\<And>w. I w \<Longrightarrow> wp m (\<lambda>_. I) (\<lambda>_. I) w) \<Longrightarrow> keeps I m"
  by (simp add: keeps_wp)

text \<open>After a first step that establishes the predicate, the rest need only preserve it.\<close>

lemma wp_then_keeps:
  assumes "wp m (\<lambda>_. I) (\<lambda>_. I) w" and "\<And>x. keeps I (f x)"
  shows "wp (bnd m f) (\<lambda>_. I) (\<lambda>_. I) w"
  unfolding wp_bnd by (rule wp_mono [OF assms(1)]) (use assms(2) in \<open>auto simp: keeps_wp\<close>)

lemma keeps_wpI: "keeps I m \<Longrightarrow> I w \<Longrightarrow> wp m (\<lambda>_. I) (\<lambda>_. I) w"
  by (simp add: keeps_wp)

lemma wp_rest: "keeps I m \<Longrightarrow> I w \<Longrightarrow> wp m (\<lambda>_. I) (\<lambda>_ _. True) w"
  by (rule wp_mono [OF keeps_wpI]) simp_all

lemma keeps_ret [keeps_intros]: "keeps I (ret x)"
  by (simp add: keeps_wp wp_simps)

lemma keeps_fail [keeps_intros]: "keeps I (fail e)"
  by (simp add: keeps_wp wp_simps)

lemma keeps_bnd [keeps_intros]: "keeps I m \<Longrightarrow> (\<And>x. keeps I (f x)) \<Longrightarrow> keeps I (bnd m f)"
  by (auto simp: keeps_wp wp_simps intro: wp_mono)

lemma keeps_attempt [keeps_intros]: "keeps I m \<Longrightarrow> keeps I (attempt m)"
  by (simp add: keeps_wp wp_simps)

lemma keeps_on_error [keeps_intros]: "keeps I m \<Longrightarrow> keeps I (on_error m h)"
  by (simp add: keeps_wp wp_simps)

lemma keeps_guard [keeps_intros]: "keeps I (guard c e)"
  by (simp add: keeps_wp wp_simps)

lemma keeps_the_or_fail [keeps_intros]: "keeps I (the_or_fail e x)"
  by (simp add: keeps_wp wp_simps split: option.split)

lemma keeps_gets [keeps_intros]: "keeps I (gets g)"
  by (simp add: keeps_wp wp_simps)

lemma keeps_time_now [keeps_intros]: "keeps I time_now"
  by (simp add: keeps_wp wp_simps)

lemma keeps_if [keeps_intros]: "(c \<Longrightarrow> keeps I m) \<Longrightarrow> (\<not> c \<Longrightarrow> keeps I n) \<Longrightarrow> keeps I (if c then m else n)"
  by simp

lemma keeps_let [keeps_intros]: "(\<And>x. keeps I (f x)) \<Longrightarrow> keeps I (Let x f)"
  by simp

lemma keeps_case_option [keeps_intros]:
  "keeps I m \<Longrightarrow> (\<And>y. x = Some y \<Longrightarrow> keeps I (f y)) \<Longrightarrow> keeps I (case x of None \<Rightarrow> m | Some y \<Rightarrow> f y)"
  by (cases x) simp_all

lemma keeps_case_sum [keeps_intros]:
  "(\<And>a. x = Inl a \<Longrightarrow> keeps I (f a)) \<Longrightarrow> (\<And>b. x = Inr b \<Longrightarrow> keeps I (g b))
    \<Longrightarrow> keeps I (case x of Inl a \<Rightarrow> f a | Inr b \<Rightarrow> g b)"
  by (cases x) simp_all

lemma keeps_case_prod [keeps_intros]:
  "(\<And>a b. keeps I (f a b)) \<Longrightarrow> keeps I (case x of (a, b) \<Rightarrow> f a b)"
  by (cases x) simp

lemma keeps_case_list [keeps_intros]:
  "keeps I m \<Longrightarrow> (\<And>y ys. keeps I (f y ys)) \<Longrightarrow> keeps I (case x of [] \<Rightarrow> m | y # ys \<Rightarrow> f y ys)"
  by (cases x) simp_all

lemma keeps_for_each [keeps_intros]: "(\<And>x. keeps I (f x)) \<Longrightarrow> keeps I (for_each f xs)"
  by (induction xs) (simp_all add: keeps_intros)

lemma on_tables_tick: "on_tables I \<Longrightarrow> I (tick w) = I w"
  by (rule on_tables_same) simp_all

lemma on_tables_rollback: "on_tables I \<Longrightarrow> I (rollback w w') = I w"
  by (rule on_tables_same) (simp_all add: same_store_iff)

lemma keeps_select [keeps_intros]: "on_tables I \<Longrightarrow> keeps I (select g)"
  by (simp add: keeps_wp wp_simps on_tables_tick [of I])

lemma keeps_select_first [keeps_intros]: "on_tables I \<Longrightarrow> keeps I (select_first g)"
  by (simp add: keeps_wp wp_simps on_tables_tick [of I] split: option.split)

lemma keeps_write_db [keeps_intros]:
  "on_tables I \<Longrightarrow> (\<And>w. I w \<Longrightarrow> chk w = None \<Longrightarrow> I (u w)) \<Longrightarrow> keeps I (write_db chk u)"
  by (simp add: keeps_wp wp_simps on_tables_tick [of I] split: option.split)

lemma wp_tx_keeps:
  assumes I: "on_tables I" and "I w" and m: "I (tick w) \<Longrightarrow> wp m (\<lambda>_. I) (\<lambda>_. I) (tick w)"
  shows "wp (tx m) (\<lambda>_. I) (\<lambda>_. I) w"
proof -
  have "I (tick w)" by (simp add: on_tables_tick [OF I] \<open>I w\<close>)
  then have "wp m (\<lambda>x w'. if trips w' then I (rollback (tick w) (tick w')) else I (tick w'))
      (\<lambda>e w'. I (rollback (tick w) w')) (tick w)"
    by (intro wp_mono [OF m]) (simp_all add: on_tables_tick [OF I] on_tables_rollback [OF I])
  with \<open>I (tick w)\<close> show ?thesis by (simp add: wp_simps on_tables_rollback [OF I])
qed

text \<open>An error of the body is rolled back, so only its successful runs matter.\<close>

lemma wp_tx_commit:
  assumes I: "on_tables I" and "I w" and m: "I (tick w) \<Longrightarrow> wp m (\<lambda>x w'. I w' \<and> Q x w') (\<lambda>_ _. True) (tick w)"
    and Q: "\<And>x w'. Q x w' \<Longrightarrow> Q x (tick w')"
  shows "wp (tx m) (\<lambda>x w'. I w' \<and> Q x w') (\<lambda>_. I) w"
proof -
  have "I (tick w)" by (simp add: on_tables_tick [OF I] \<open>I w\<close>)
  then have "wp m (\<lambda>x w'. if trips w' then I (rollback (tick w) (tick w')) else I (tick w') \<and> Q x (tick w'))
      (\<lambda>e w'. I (rollback (tick w) w')) (tick w)"
    by (intro wp_mono [OF m]) (auto simp: on_tables_tick [OF I] on_tables_rollback [OF I] Q)
  with \<open>I (tick w)\<close> show ?thesis by (simp add: wp_simps on_tables_rollback [OF I])
qed

lemma wp_tx_books:
  assumes "on_tables I" and "I w" and "I (tick w) \<Longrightarrow> wp m (\<lambda>_. I) (\<lambda>_ _. True) (tick w)"
  shows "wp (tx m) (\<lambda>_. I) (\<lambda>_. I) w"
  using wp_tx_commit [where Q = "\<lambda>_ _. True" and m = m, OF assms(1,2)] assms(3) by simp

lemma keeps_tx [keeps_intros]: "on_tables I \<Longrightarrow> keeps I m \<Longrightarrow> keeps I (tx m)"
  by (rule keepsI, rule wp_tx_keeps) (auto simp: keeps_wp)

lemma keeps_draw_uuid [keeps_intros]:
  assumes I: "on_tables I"
  shows "keeps I (draw_uuid l)"
proof (rule keepsI)
  fix w assume "I w"
  then show "wp (draw_uuid l) (\<lambda>_. I) (\<lambda>_. I) w"
    using on_tables_same [OF I, of w "w\<lparr>drawn_uuids := Suc (drawn_uuids w)\<rparr>"]
    by (simp add: wp_simps)
qed

lemma keeps_before_create [keeps_intros]: "on_tables I \<Longrightarrow> keeps I (before_create l i)"
  by (simp add: before_create_def keeps_intros)

lemma keeps_draw_bytes [keeps_intros]:
  assumes I: "on_tables I"
  shows "keeps I (draw_bytes l n)"
proof (rule keepsI)
  fix w assume "I w"
  then have "I ((tick w)\<lparr>drawn_tokens := Suc (drawn_tokens w)\<rparr>)"
    using on_tables_same [OF I, of w "(tick w)\<lparr>drawn_tokens := Suc (drawn_tokens w)\<rparr>"] by simp
  with \<open>I w\<close> show "wp (draw_bytes l n) (\<lambda>_. I) (\<lambda>_. I) w"
    by (simp add: wp_simps on_tables_tick [OF I])
qed

section \<open>Failed operations\<close>

text \<open>\<open>aborts I m\<close>: when \<open>m\<close> fails, \<open>I\<close> still holds; a transaction gives that for any body.\<close>

definition aborts :: "('s \<Rightarrow> bool) \<Rightarrow> ('s, 'a) op \<Rightarrow> bool" where
  "aborts I m \<longleftrightarrow> (\<forall>w. I w \<longrightarrow> wp m (\<lambda>_ _. True) (\<lambda>_. I) w)"

lemma abortsD: "aborts I m \<Longrightarrow> I w \<Longrightarrow> m w = (Inl e, w') \<Longrightarrow> I w'"
  by (auto simp: aborts_def wp_def dest: spec [where x = w])

lemma aborts_keeps: "keeps I m \<Longrightarrow> aborts I m"
  by (auto simp: aborts_def keeps_wp intro: wp_mono)

lemma aborts_tx [aborts_intros]: "on_tables I \<Longrightarrow> aborts I (tx m)"
  unfolding aborts_def wp_tx
  by (auto simp: on_tables_tick on_tables_rollback intro!: wp_all)

lemma aborts_ret [aborts_intros]: "aborts I (ret x)"
  by (simp add: aborts_def wp_simps)

lemma aborts_fail [aborts_intros]: "aborts I (fail e)"
  by (simp add: aborts_def wp_simps)

lemma aborts_finish [aborts_intros]:
  "aborts I m \<Longrightarrow> aborts I (bnd m (\<lambda>x. ret (g x)))"
  "aborts I m \<Longrightarrow> aborts I (bnd m (\<lambda>x. bnd time_now (\<lambda>now. ret (h x now))))"
  by (simp_all add: aborts_def wp_simps)

lemma aborts_bnd: "keeps I m \<Longrightarrow> (\<And>x. aborts I (f x)) \<Longrightarrow> aborts I (bnd m f)"
  unfolding aborts_def wp_bnd by (auto intro: wp_mono [OF keeps_wpI])

lemma aborts_if [aborts_intros]: "(c \<Longrightarrow> aborts I m) \<Longrightarrow> (\<not> c \<Longrightarrow> aborts I n) \<Longrightarrow> aborts I (if c then m else n)"
  by simp

lemma aborts_let [aborts_intros]: "(\<And>x. aborts I (f x)) \<Longrightarrow> aborts I (Let x f)"
  by simp

lemma aborts_case_option [aborts_intros]:
  "aborts I m \<Longrightarrow> (\<And>y. x = Some y \<Longrightarrow> aborts I (f y)) \<Longrightarrow> aborts I (case x of None \<Rightarrow> m | Some y \<Rightarrow> f y)"
  by (cases x) simp_all

lemma aborts_case_sum [aborts_intros]:
  "(\<And>a. x = Inl a \<Longrightarrow> aborts I (f a)) \<Longrightarrow> (\<And>b. x = Inr b \<Longrightarrow> aborts I (g b))
    \<Longrightarrow> aborts I (case x of Inl a \<Rightarrow> f a | Inr b \<Rightarrow> g b)"
  by (cases x) simp_all

lemma aborts_case_prod [aborts_intros]:
  "(\<And>a b. aborts I (f a b)) \<Longrightarrow> aborts I (case x of (a, b) \<Rightarrow> f a b)"
  by (cases x) simp

lemma same_store_tables [keeps_intros]: "on_tables (same_store w)"
  by (auto simp: on_tables_def intro: same_store_trans)

end
