(* ===== verification/GoLib.thy ===== *)
theory GoLib
  imports Prelude
begin

text \<open>
  The part of the Go standard library the services call on strings: \<open>strings.TrimSpace\<close>,
  \<open>ToLower\<close>, \<open>ToUpper\<close>, \<open>Split\<close>, \<open>Contains\<close>, \<open>Trim\<close>, \<open>encoding/hex\<close>, and \<open>%d\<close> of \<open>fmt\<close>, together with
  the helpers of the repository written directly on top of them: the slug regular expression, both copies of
  \<open>Slugify\<close>, \<open>FormatTime\<close>.
\<close>

definition code_of :: "char \<Rightarrow> nat" where
  "code_of c = of_char c"

definition is_space :: "char \<Rightarrow> bool" where
  "is_space c = (code_of c \<in> {9, 10, 11, 12, 13, 32})"

definition is_lower :: "char \<Rightarrow> bool" where
  "is_lower c = (97 \<le> code_of c \<and> code_of c \<le> 122)"

definition is_upper :: "char \<Rightarrow> bool" where
  "is_upper c = (65 \<le> code_of c \<and> code_of c \<le> 90)"

definition is_digit :: "char \<Rightarrow> bool" where
  "is_digit c = (48 \<le> code_of c \<and> code_of c \<le> 57)"

definition trim_left :: "(char \<Rightarrow> bool) \<Rightarrow> string \<Rightarrow> string" where
  "trim_left p s = dropWhile p s"

definition trim_right :: "(char \<Rightarrow> bool) \<Rightarrow> string \<Rightarrow> string" where
  "trim_right p s = rev (dropWhile p (rev s))"

definition trim_space :: "string \<Rightarrow> string" where
  "trim_space s = trim_right is_space (trim_left is_space s)"

definition to_lower :: "string \<Rightarrow> string" where
  "to_lower s = map (\<lambda>c. if is_upper c then char_of (code_of c + 32) else c) s"

definition to_upper :: "string \<Rightarrow> string" where
  "to_upper s = map (\<lambda>c. if is_lower c then char_of (code_of c - 32) else c) s"

fun split_on :: "char \<Rightarrow> string \<Rightarrow> string list" where
  "split_on c [] = [[]]"
| "split_on c (x # xs) =
     (if x = c then [] # split_on c xs
      else case split_on c xs of [] \<Rightarrow> [[x]] | p # ps \<Rightarrow> (x # p) # ps)"

definition has_char :: "char \<Rightarrow> string \<Rightarrow> bool" where
  "has_char c s = list_ex (\<lambda>x. x = c) s"

fun has_prefix :: "string \<Rightarrow> string \<Rightarrow> bool" where
  "has_prefix [] s = True"
| "has_prefix (x # xs) [] = False"
| "has_prefix (x # xs) (y # ys) = (x = y \<and> has_prefix xs ys)"

fun contains :: "string \<Rightarrow> string \<Rightarrow> bool" where
  "contains pat [] = (pat = [])"
| "contains pat (x # xs) = (has_prefix pat (x # xs) \<or> contains pat xs)"

fun digits_of :: "nat \<Rightarrow> string" where
  "digits_of n = (if n < 10 then [char_of (48 + n)] else digits_of (n div 10) @ [char_of (48 + n mod 10)])"

declare digits_of.simps [simp del]

definition seconds :: int where
  "seconds = 1000000000"

text \<open>RFC 3339 text in UTC shows whole seconds; a text is identified with the second it names.\<close>

definition format_time :: "instant \<Rightarrow> int" where
  "format_time t = t div seconds"

definition format_time_ptr :: "instant option \<Rightarrow> int option" where
  "format_time_ptr t = map_option format_time t"

section \<open>Splitting\<close>

lemma split_on_nonempty [simp]: "split_on c s \<noteq> []"
  by (induction s) (auto split: list.split)

lemma split_on_no_sep: "c \<notin> set s \<Longrightarrow> split_on c s = [s]"
  by (induction s) auto

lemma split_on_append: "c \<notin> set a \<Longrightarrow> split_on c (a @ c # b) = a # split_on c b"
  by (induction a) auto

text \<open>Joining the parts again gives the string that was split.\<close>

fun join_with :: "char \<Rightarrow> string list \<Rightarrow> string" where
  "join_with c [] = []"
| "join_with c [p] = p"
| "join_with c (p # q # ps) = p @ c # join_with c (q # ps)"

lemma join_split: "join_with c (split_on c s) = s"
proof (induction s)
  case Nil
  then show ?case by simp
next
  case (Cons x xs)
  obtain p ps where "split_on c xs = p # ps" by (cases "split_on c xs") auto
  with Cons show ?case by (cases ps) auto
qed

lemma split_on_parts: "p \<in> set (split_on c s) \<Longrightarrow> c \<notin> set p"
proof (induction s arbitrary: p)
  case Nil
  then show ?case by simp
next
  case (Cons x xs)
  obtain q qs where "split_on c xs = q # qs" by (cases "split_on c xs") auto
  with Cons show ?case by (auto split: if_splits)
qed

section \<open>Hexadecimal\<close>

definition hex_digit :: "nat \<Rightarrow> char" where
  "hex_digit n = char_of (if n < 10 then 48 + n else 87 + n)"

definition hex_value :: "char \<Rightarrow> nat option" where
  "hex_value c =
     (if is_digit c then Some (code_of c - 48)
      else if 97 \<le> code_of c \<and> code_of c \<le> 102 then Some (code_of c - 87)
      else if 65 \<le> code_of c \<and> code_of c \<le> 70 then Some (code_of c - 55)
      else None)"

fun hex_encode :: "string \<Rightarrow> string" where
  "hex_encode [] = []"
| "hex_encode (c # cs) = hex_digit (code_of c div 16) # hex_digit (code_of c mod 16) # hex_encode cs"

fun hex_decode :: "string \<Rightarrow> string option" where
  "hex_decode [] = Some []"
| "hex_decode [c] = None"
| "hex_decode (a # b # cs) =
     (case (hex_value a, hex_value b, hex_decode cs) of
        (Some x, Some y, Some r) \<Rightarrow> Some (char_of (16 * x + y) # r)
      | _ \<Rightarrow> None)"

lemma code_of_less [simp]: "code_of c < 256"
  by (simp add: code_of_def)

lemma code_of_char_of [simp]: "n < 256 \<Longrightarrow> code_of (char_of n) = n"
  by (simp add: code_of_def)

lemma char_of_code_of [simp]: "char_of (code_of c) = c"
  by (simp add: code_of_def)

lemma hex_value_digit: "n < 16 \<Longrightarrow> hex_value (hex_digit n) = Some n"
  by (auto simp: hex_value_def hex_digit_def is_digit_def)

lemma hex_decode_encode: "hex_decode (hex_encode s) = Some s"
proof (induction s)
  case Nil
  then show ?case by simp
next
  case (Cons c cs)
  have "code_of c div 16 < 16" using code_of_less [of c] by (simp add: less_mult_imp_div_less)
  with Cons show ?case by (simp add: hex_value_digit)
qed

lemma hex_digit_not_dot: "n < 16 \<Longrightarrow> hex_digit n \<noteq> CHR ''.''"
  by (auto simp: hex_digit_def dest!: arg_cong [where f = code_of])
     (simp add: code_of_def)+

lemma hex_encode_no_dot: "CHR ''.'' \<notin> set (hex_encode s)"
proof (induction s)
  case Nil
  then show ?case by simp
next
  case (Cons c cs)
  have "code_of c div 16 < 16" using code_of_less [of c] by (simp add: less_mult_imp_div_less)
  with Cons show ?case
    using hex_digit_not_dot [of "code_of c div 16"] hex_digit_not_dot [of "code_of c mod 16"]
    by auto
qed

lemma hex_encode_Nil [simp]: "hex_encode s = [] \<longleftrightarrow> s = []"
  by (cases s) simp_all

end
