(* ===== verification/Trail.thy ===== *)
theory Trail
  imports Store GoLib
begin

text \<open>
  The audit trail (\<open>internal/audit\<close>) and the job queue (\<open>internal/notification/jobs\<close>), the two side
  channels every service writes inside its own transactions. \<open>emit_tx\<close> appends one row to
  \<open>audit_events\<close>; the \<open>emit\<close> helper of the services does nothing when no emitter is wired. \<open>enqueue_tx\<close>
  inserts a job; only the arguments of the e-mail jobs are kept, the templates and the mail transport
  are outside the model.
\<close>

section \<open>Rows\<close>

text \<open>The values of a diff: what the services put under the keys of \<open>map[string]any\<close>.\<close>

datatype aval =
    AStr string | AInt int | ABool bool | ATime int | AId uuid | ANull | AStrs "string list"

type_synonym diff = "(string \<times> aval) list"

record audit_entry =
  ae_org :: "uuid option"
  ae_actor :: "uuid option"
  ae_action :: string
  ae_object_type :: string
  ae_object_id :: "uuid option"
  ae_before :: diff
  ae_after :: diff
  ae_ip :: "string option"
  ae_user_agent :: "string option"

definition entry :: "uuid option \<Rightarrow> uuid option \<Rightarrow> string \<Rightarrow> string \<Rightarrow> uuid option \<Rightarrow> diff \<Rightarrow> diff
    \<Rightarrow> audit_entry" where
  "entry org actor action obj oid prior after = \<lparr>ae_org = org, ae_actor = actor, ae_action = action,
     ae_object_type = obj, ae_object_id = oid, ae_before = prior, ae_after = after,
     ae_ip = None, ae_user_agent = None\<rparr>"

record audit_event =
  av_id :: uuid
  av_org :: "uuid option"
  av_actor :: "uuid option"
  av_action :: string
  av_object_type :: string
  av_object_id :: "uuid option"
  av_before :: "diff option"
  av_after :: "diff option"
  av_ip :: "string option"
  av_user_agent :: "string option"
  av_created_at :: instant

text \<open>The arguments of the queued jobs.\<close>

datatype job =
    SendVerificationEmail uuid string string string string
  | SendPasswordResetEmail uuid string string string
  | SendWelcomeEmail uuid string string string
  | SendOrgInviteEmail uuid string string string string string string string
  | SendEventPublishedEmail uuid string string string string string
  | SendOrderConfirmationEmail uuid string string string "string list"

record core_state = base +
  audit_events :: "audit_event list"
  jobs :: "job list"

lemma core_tick [simp]:
  "audit_events (tick w) = audit_events w" "jobs (tick w) = jobs w"
  "audit_events (rollback w w') = audit_events w" "jobs (rollback w w') = jobs w"
  by (simp_all add: tick_def rollback_def)

section \<open>Operations\<close>

definition marshal_diff :: "diff \<Rightarrow> diff option" where
  "marshal_diff m = (if m = [] then None else Some m)"

definition insert_event_tx :: "lib \<Rightarrow> audit_event \<Rightarrow> ('z core_state_scheme, unit) op" where
  "insert_event_tx l e = bnd (before_create l (av_id e)) (\<lambda>i. bnd time_now (\<lambda>now.
     write_db (\<lambda>w. if has_key av_id i (audit_events w) then Some UniqueViolation else None)
       (\<lambda>w. w\<lparr>audit_events := audit_events w @ [e\<lparr>av_id := i, av_created_at := now\<rparr>]\<rparr>)))"

definition emit_tx :: "lib \<Rightarrow> audit_entry \<Rightarrow> ('z core_state_scheme, unit) op" where
  "emit_tx l e = insert_event_tx l \<lparr>av_id = uuid_nil, av_org = ae_org e, av_actor = ae_actor e,
     av_action = ae_action e, av_object_type = ae_object_type e, av_object_id = ae_object_id e,
     av_before = marshal_diff (ae_before e), av_after = marshal_diff (ae_after e),
     av_ip = ae_ip e, av_user_agent = ae_user_agent e, av_created_at = 0\<rparr>"

text \<open>The services' \<open>emit\<close>: nothing without an emitter (\<open>wired\<close>).\<close>

definition emit :: "lib \<Rightarrow> bool \<Rightarrow> audit_entry \<Rightarrow> ('z core_state_scheme, unit) op" where
  "emit l wired e = (if \<not> wired then ret () else emit_tx l e)"

definition enqueue_tx :: "bool \<Rightarrow> job \<Rightarrow> ('z core_state_scheme, unit) op" where
  "enqueue_tx wired j =
     (if \<not> wired then ret () else write_db (\<lambda>_. None) (\<lambda>w. w\<lparr>jobs := jobs w @ [j]\<rparr>))"

section \<open>Reading the trail\<close>

record audit_filter =
  af_org :: "uuid option"
  af_action :: string
  af_actor :: "uuid option"
  af_object_type :: string
  af_object_id :: "uuid option"
  af_since :: "instant option"
  af_until :: "instant option"
  af_page :: int
  af_per_page :: int

definition audit_match :: "audit_filter \<Rightarrow> audit_event \<Rightarrow> bool" where
  "audit_match f e \<longleftrightarrow>
     (af_org f = None \<or> av_org e = af_org f) \<and>
     (af_action f = [] \<or> av_action e = af_action f) \<and>
     (af_actor f = None \<or> av_actor e = af_actor f) \<and>
     (af_object_type f = [] \<or> av_object_type e = af_object_type f) \<and>
     (af_object_id f = None \<or> av_object_id e = af_object_id f) \<and>
     (case af_since f of None \<Rightarrow> True | Some t \<Rightarrow> t \<le> av_created_at e) \<and>
     (case af_until f of None \<Rightarrow> True | Some t \<Rightarrow> av_created_at e \<le> t)"

text \<open>\<open>ORDER BY created_at DESC\<close>.\<close>

definition newest_first :: "('r \<Rightarrow> instant) \<Rightarrow> 'r list \<Rightarrow> 'r list" where
  "newest_first at rs = sort_key (\<lambda>r. - at r) rs"

definition clamp_page :: "int \<Rightarrow> int" where
  "clamp_page p = (if p < 1 then 1 else p)"

definition clamp_per_page :: "int \<Rightarrow> int" where
  "clamp_per_page n = (if n < 1 \<or> n > 100 then 20 else n)"

definition repo_audit_list :: "audit_filter \<Rightarrow> int \<Rightarrow> int
    \<Rightarrow> ('z core_state_scheme, audit_event list \<times> int) op" where
  "repo_audit_list f limit offset =
     bnd (select (\<lambda>w. count_where (audit_match f) (audit_events w))) (\<lambda>total.
     bnd (select (\<lambda>w. page_of limit offset
       (newest_first av_created_at (filter (audit_match f) (audit_events w))))) (\<lambda>items.
     ret (items, total)))"

definition audit_list :: "audit_filter \<Rightarrow> ('z core_state_scheme, audit_event list \<times> int) op" where
  "audit_list f =
     (let page = clamp_page (af_page f); per = clamp_per_page (af_per_page f) in
      repo_audit_list (f\<lparr>af_page := page, af_per_page := per\<rparr>) per (wrap64 ((page - 1) * per)))"

section \<open>Lemmas\<close>

text \<open>What an operation may change besides its own tables: the trail, the queue, the control fields.\<close>

definition core_frame :: "'z core_state_scheme \<Rightarrow> 'z core_state_scheme \<Rightarrow> bool" where
  "core_frame w w' \<longleftrightarrow> (\<exists>f n r es js. w' = w\<lparr>faults := f, drawn_uuids := n, drawn_tokens := r,
     audit_events := es, jobs := js\<rparr>)"

lemma core_frameE [elim]:
  assumes "core_frame w w'"
  obtains f n r es js where "w' = w\<lparr>faults := f, drawn_uuids := n, drawn_tokens := r,
     audit_events := es, jobs := js\<rparr>"
  using assms by (auto simp: core_frame_def)

lemma core_frame_iff: "core_frame w w' \<longleftrightarrow> clock w' = clock w \<and> core_state.more w' = core_state.more w"
  by (cases w; cases w') (auto simp: core_frame_def)

lemma core_frame_simps [simp]:
  "core_frame w w"
  "core_frame w (tick v) = core_frame w v"
  "core_frame w (v\<lparr>faults := f\<rparr>) = core_frame w v"
  "core_frame w (v\<lparr>drawn_uuids := n\<rparr>) = core_frame w v"
  "core_frame w (v\<lparr>drawn_tokens := n\<rparr>) = core_frame w v"
  "core_frame w (v\<lparr>audit_events := es\<rparr>) = core_frame w v"
  "core_frame w (v\<lparr>jobs := js\<rparr>) = core_frame w v"
  by (simp_all add: core_frame_iff tick_def)

lemma core_frame_trans [trans]: "core_frame u v \<Longrightarrow> core_frame v w \<Longrightarrow> core_frame u w"
  by (simp add: core_frame_iff)

lemma core_frame_same_store: "same_store w w' \<Longrightarrow> core_frame w w'"
  by (cases w; cases w') (auto simp: core_frame_iff same_store_iff)

lemma core_frame_tables [keeps_intros]: "on_tables (core_frame w)"
  by (rule on_tablesI) simp

lemma wp_by_frame:
  assumes "keeps (core_frame w) m" and "\<And>x w'. core_frame w w' \<Longrightarrow> Q x w'"
    and "\<And>e w'. core_frame w w' \<Longrightarrow> E e w'"
  shows "wp m Q E w"
proof -
  have "wp m (\<lambda>_. core_frame w) (\<lambda>_. core_frame w) w" using assms(1) by (simp add: keeps_wp)
  then show ?thesis by (rule wp_mono) (auto intro: assms(2,3))
qed

text \<open>Emitting and enqueueing touch only their own two tables.\<close>

lemma keeps_emit [keeps_intros]:
  assumes I: "on_tables I" and "\<And>w x. I w \<Longrightarrow> I (w\<lparr>audit_events := audit_events w @ [x]\<rparr>)"
  shows "keeps I (emit l wired e)"
  unfolding emit_def emit_tx_def insert_event_tx_def
  by (intro keeps_intros I) (use assms in auto)

lemma keeps_enqueue_tx [keeps_intros]:
  assumes I: "on_tables I" and "\<And>w x. I w \<Longrightarrow> I (w\<lparr>jobs := jobs w @ [x]\<rparr>)"
  shows "keeps I (enqueue_tx wired j)"
  unfolding enqueue_tx_def by (intro keeps_intros I) (use assms in auto)

lemma keeps_audit_list [keeps_intros]: "on_tables I \<Longrightarrow> keeps I (audit_list f)"
  unfolding audit_list_def repo_audit_list_def by (intro keeps_intros)

lemma wp_emit:
  assumes "\<And>w'. core_frame w w' \<Longrightarrow> Q () w'" and "\<And>e w'. core_frame w w' \<Longrightarrow> E e w'"
  shows "wp (emit l wired e) Q E w"
  by (rule wp_by_frame) (auto intro!: keeps_emit core_frame_tables assms)

lemma wp_enqueue_tx:
  assumes "\<And>w'. core_frame w w' \<Longrightarrow> Q () w'" and "\<And>e w'. core_frame w w' \<Longrightarrow> E e w'"
  shows "wp (enqueue_tx wired j) Q E w"
  by (rule wp_by_frame) (auto intro!: keeps_enqueue_tx core_frame_tables assms)

text \<open>The audit trail is append-only: what an operation finds in it stays a prefix of it.\<close>

definition trail_extends :: "audit_event list \<Rightarrow> 'z core_state_scheme \<Rightarrow> bool" where
  "trail_extends es w \<longleftrightarrow> (\<exists>new. audit_events w = es @ new)"

lemma trail_extends_tables [keeps_intros]: "on_tables (trail_extends es)"
  by (rule on_tablesI) (simp add: trail_extends_def)

lemma trail_emit [keeps_intros]: "keeps (trail_extends es) (emit l wired e)"
  unfolding emit_def emit_tx_def insert_event_tx_def
  by (intro keeps_intros) (auto simp: trail_extends_def)

end
