(* ===== verification/Users.thy ===== *)
theory Users
  imports Trail
begin

text \<open>
  The identity records other domains read through \<open>auth.UserReader\<close>: the \<open>users\<close> table with the profile
  preloaded, the two lookups of \<open>AuthRepository\<close>, and the pure helpers on e-mail addresses and display
  names that the services share. Rows with \<open>deleted_at\<close> set are invisible to every GORM read.
\<close>

datatype user_status = ACTIVE | INACTIVE | SUSPENDED | DELETED

record profile =
  pf_first_name :: "string option"
  pf_last_name :: "string option"

record user =
  us_id :: uuid
  us_email :: string
  us_email_verified :: bool
  us_phone :: "string option"
  us_phone_verified :: bool
  us_status :: user_status
  us_last_login_at :: "instant option"
  us_created_at :: instant
  us_updated_at :: instant
  us_deleted_at :: "instant option"
  us_profile :: "profile option"

record user_state = core_state +
  users :: "user list"

lemma user_tick [simp]: "users (tick w) = users w" "users (rollback w w') = users w"
  by (simp_all add: tick_def rollback_def)

definition live_users :: "'z user_state_scheme \<Rightarrow> user list" where
  "live_users w = filter (\<lambda>u. us_deleted_at u = None) (users w)"

definition get_user_by_id :: "uuid \<Rightarrow> ('z user_state_scheme, user) op" where
  "get_user_by_id i = select_first (\<lambda>w. by_key us_id i (live_users w))"

definition get_user_by_email :: "string \<Rightarrow> ('z user_state_scheme, user) op" where
  "get_user_by_email e = select_first (\<lambda>w. by_key us_email e (live_users w))"

section \<open>Helpers on addresses and names\<close>

definition normalize_email :: "string \<Rightarrow> string" where
  "normalize_email e = to_lower (trim_space e)"

fun index_of :: "char \<Rightarrow> string \<Rightarrow> nat option" where
  "index_of c [] = None"
| "index_of c (x # xs) = (if x = c then Some 0 else map_option Suc (index_of c xs))"

definition display_name :: "string \<Rightarrow> string option \<Rightarrow> string" where
  "display_name email first =
     (case first of
        Some n \<Rightarrow> (if trim_space n \<noteq> [] then trim_space n
                  else (case index_of CHR ''@'' email of
                          Some i \<Rightarrow> (if 0 < i then take i email else email) | None \<Rightarrow> email))
      | None \<Rightarrow> (case index_of CHR ''@'' email of
                  Some i \<Rightarrow> (if 0 < i then take i email else email) | None \<Rightarrow> email))"

definition display_name_of :: "user option \<Rightarrow> string" where
  "display_name_of u = (case u of None \<Rightarrow> []
     | Some u \<Rightarrow> display_name (us_email u)
         (case us_profile u of None \<Rightarrow> None | Some p \<Rightarrow> pf_first_name p))"

section \<open>Opaque tokens\<close>

text \<open>\<open>token.GenerateRawToken\<close> and \<open>token.HashToken\<close>.\<close>

definition generate_raw_token :: "lib \<Rightarrow> nat \<Rightarrow> ('z base_scheme, string) op" where
  "generate_raw_token l n = bnd (draw_bytes l (if n = 0 then 32 else n)) (\<lambda>b. ret (hex_encode b))"

definition hash_token :: "lib \<Rightarrow> string \<Rightarrow> string" where
  "hash_token l raw = hex_encode (sha256 l raw)"

lemma keeps_raw_token [keeps_intros]: "on_tables I \<Longrightarrow> keeps I (generate_raw_token l n)"
  unfolding generate_raw_token_def by (intro keeps_intros)

lemma keeps_users [keeps_intros]:
  "on_tables I \<Longrightarrow> keeps I (get_user_by_id i)" "on_tables I \<Longrightarrow> keeps I (get_user_by_email e)"
  unfolding get_user_by_id_def get_user_by_email_def by (intro keeps_intros; assumption)+

lemma live_user_by_id:
  "by_key us_id i (live_users w) = Some u \<Longrightarrow> u \<in> set (users w) \<and> us_id u = i \<and> us_deleted_at u = None"
  by (auto dest!: by_key_Some simp: live_users_def)

lemma live_user_by_email:
  "by_key us_email e (live_users w) = Some u
    \<Longrightarrow> u \<in> set (users w) \<and> us_email u = e \<and> us_deleted_at u = None"
  by (auto dest!: by_key_Some simp: live_users_def)

lemma index_of_lt: "index_of c s = Some i \<Longrightarrow> i < length s \<and> s ! i = c \<and> c \<notin> set (take i s)"
  by (induction s arbitrary: i) (auto split: if_splits)

text \<open>The greeting name of a non-empty address is never empty.\<close>

lemma display_name_nonempty: "email \<noteq> [] \<Longrightarrow> display_name email first \<noteq> []"
  by (auto simp: display_name_def split: option.split)

end
