(* ===== verification/Accounts.thy ===== *)
theory Accounts
  imports Users
begin

text \<open>
  Accounts and their secrets (\<open>internal/auth\<close>: the models beside \<open>User\<close>, \<open>auth_repository.go\<close> and
  \<open>token/\<close>): credentials, sessions, refresh tokens, verification links and codes, password resets, the login
  telemetry and the organizations' API keys. Only hashes of secrets are stored. The flows over them are in
  \<open>Auth\<close>, the API-key calls of the organization service in \<open>ApiKeys\<close>.
\<close>

section \<open>Rows\<close>

record credential =
  cd_id :: uuid
  cd_user :: uuid
  cd_hash :: string
  cd_changed_at :: "instant option"
  cd_created_at :: instant
  cd_updated_at :: instant

record session =
  sn_id :: uuid
  sn_user :: uuid
  sn_ip :: "string option"
  sn_user_agent :: "string option"
  sn_device :: "string option"
  sn_last_active_at :: "instant option"
  sn_expires_at :: "instant option"
  sn_created_at :: instant
  sn_revoked_at :: "instant option"

record refresh_token =
  rt_id :: uuid
  rt_session :: uuid
  rt_hash :: string
  rt_expires_at :: instant
  rt_revoked_at :: "instant option"
  rt_created_at :: instant

record email_verification =
  vf_id :: uuid
  vf_user :: uuid
  vf_hash :: string
  vf_expires_at :: instant
  vf_verified_at :: "instant option"
  vf_created_at :: instant

record password_reset =
  pr_id :: uuid
  pr_user :: uuid
  pr_hash :: string
  pr_expires_at :: instant
  pr_used_at :: "instant option"
  pr_created_at :: instant

record email_otp =
  ot_id :: uuid
  ot_user :: uuid
  ot_hash :: string
  ot_expires_at :: instant
  ot_attempts :: int
  ot_consumed_at :: "instant option"
  ot_created_at :: instant

record login_attempt =
  la_id :: uuid
  la_email :: "string option"
  la_user :: "uuid option"
  la_ip :: "string option"
  la_success :: bool
  la_reason :: "string option"
  la_created_at :: instant

text \<open>The scopes are kept as the list that \<open>SetScopes\<close> encodes and \<open>Scopes\<close> decodes.\<close>

record api_key =
  ak_id :: uuid
  ak_org :: uuid
  ak_created_by :: uuid
  ak_name :: string
  ak_prefix :: string
  ak_hash :: string
  ak_scopes :: "string list"
  ak_expires_at :: "instant option"
  ak_last_used_at :: "instant option"
  ak_created_at :: instant
  ak_revoked_at :: "instant option"

record auth_state = user_state +
  credentials :: "credential list"
  sessions :: "session list"
  refresh_tokens :: "refresh_token list"
  verifications :: "email_verification list"
  resets :: "password_reset list"
  otps :: "email_otp list"
  attempts :: "login_attempt list"
  api_keys :: "api_key list"

lemma auth_tick [simp]:
  "credentials (tick w) = credentials w" "sessions (tick w) = sessions w"
  "refresh_tokens (tick w) = refresh_tokens w" "verifications (tick w) = verifications w"
  "resets (tick w) = resets w" "otps (tick w) = otps w" "attempts (tick w) = attempts w"
  "api_keys (tick w) = api_keys w"
  "credentials (rollback w w') = credentials w" "sessions (rollback w w') = sessions w"
  "refresh_tokens (rollback w w') = refresh_tokens w" "verifications (rollback w w') = verifications w"
  "resets (rollback w w') = resets w" "otps (rollback w w') = otps w" "attempts (rollback w w') = attempts w"
  "api_keys (rollback w w') = api_keys w"
  by (simp_all add: tick_def rollback_def)

section \<open>Users, profiles, credentials\<close>

definition create_user :: "lib \<Rightarrow> user \<Rightarrow> ('z user_state_scheme, user) op" where
  "create_user l u = bnd (before_create l (us_id u)) (\<lambda>i. bnd time_now (\<lambda>now.
     let row = u\<lparr>us_id := i, us_created_at := now, us_updated_at := now\<rparr> in
     bnd (write_db (\<lambda>w. if has_key us_id i (users w) \<or> has_key us_email (us_email u) (users w)
                        then Some UniqueViolation else None)
            (\<lambda>w. w\<lparr>users := users w @ [row]\<rparr>)) (\<lambda>_. ret row)))"

text \<open>The profile row is kept inside its user; its unique index on \<open>user_id\<close> allows one.\<close>

definition create_profile :: "lib \<Rightarrow> uuid \<Rightarrow> profile \<Rightarrow> ('z user_state_scheme, unit) op" where
  "create_profile l user p = bnd (draw_uuid l) (\<lambda>_.
     write_db (\<lambda>w. if list_ex (\<lambda>u. us_id u = user \<and> us_profile u \<noteq> None) (users w) then Some UniqueViolation
                   else if \<not> has_key us_id user (users w) then Some DbError else None)
       (\<lambda>w. w\<lparr>users := modify (\<lambda>u. us_id u = user) (\<lambda>u. u\<lparr>us_profile := Some p\<rparr>) (users w)\<rparr>))"

text \<open>\<open>Model(&User{}).Where("id = ?")\<close> sees live rows only, and an \<open>Update\<close> stamps \<open>updated_at\<close>.\<close>

definition set_email_verified :: "uuid \<Rightarrow> ('z user_state_scheme, unit) op" where
  "set_email_verified user = bnd time_now (\<lambda>now. write_db (\<lambda>_. None)
     (\<lambda>w. w\<lparr>users := modify (\<lambda>u. us_id u = user \<and> us_deleted_at u = None)
        (\<lambda>u. u\<lparr>us_email_verified := True, us_updated_at := now\<rparr>) (users w)\<rparr>))"

definition update_last_login :: "uuid \<Rightarrow> instant \<Rightarrow> ('z user_state_scheme, unit) op" where
  "update_last_login user t = bnd time_now (\<lambda>now. write_db (\<lambda>_. None)
     (\<lambda>w. w\<lparr>users := modify (\<lambda>u. us_id u = user \<and> us_deleted_at u = None)
        (\<lambda>u. u\<lparr>us_last_login_at := Some t, us_updated_at := now\<rparr>) (users w)\<rparr>))"

definition create_credential :: "lib \<Rightarrow> credential \<Rightarrow> ('z auth_state_scheme, unit) op" where
  "create_credential l c = bnd (before_create l (cd_id c)) (\<lambda>i. bnd time_now (\<lambda>now.
     write_db (\<lambda>w. if has_key cd_id i (credentials w) \<or> has_key cd_user (cd_user c) (credentials w)
                   then Some UniqueViolation else None)
       (\<lambda>w. w\<lparr>credentials := credentials w @ [c\<lparr>cd_id := i, cd_created_at := now, cd_updated_at := now\<rparr>]\<rparr>)))"

definition get_credential_by_user :: "uuid \<Rightarrow> ('z auth_state_scheme, credential) op" where
  "get_credential_by_user user = select_first (\<lambda>w. by_key cd_user user (by_pk cd_id (credentials w)))"

definition update_credential_hash :: "uuid \<Rightarrow> string \<Rightarrow> instant \<Rightarrow> ('z auth_state_scheme, unit) op" where
  "update_credential_hash user h at = bnd time_now (\<lambda>now. write_db (\<lambda>_. None)
     (\<lambda>w. w\<lparr>credentials := modify (\<lambda>c. cd_user c = user)
        (\<lambda>c. c\<lparr>cd_hash := h, cd_changed_at := Some at, cd_updated_at := now\<rparr>) (credentials w)\<rparr>))"

section \<open>Sessions and refresh tokens\<close>

definition repo_create_session :: "lib \<Rightarrow> session \<Rightarrow> ('z auth_state_scheme, session) op" where
  "repo_create_session l s = bnd (before_create l (sn_id s)) (\<lambda>i. bnd time_now (\<lambda>now.
     let row = s\<lparr>sn_id := i, sn_created_at := now\<rparr> in
     bnd (write_db (\<lambda>w. if has_key sn_id i (sessions w) then Some UniqueViolation else None)
            (\<lambda>w. w\<lparr>sessions := sessions w @ [row]\<rparr>)) (\<lambda>_. ret row)))"

definition get_session_by_id :: "uuid \<Rightarrow> ('z auth_state_scheme, session) op" where
  "get_session_by_id i = select_first (\<lambda>w. by_key sn_id i (sessions w))"

definition touch_session :: "uuid \<Rightarrow> instant \<Rightarrow> ('z auth_state_scheme, unit) op" where
  "touch_session i at = write_db (\<lambda>_. None)
     (\<lambda>w. w\<lparr>sessions := modify (\<lambda>s. sn_id s = i) (\<lambda>s. s\<lparr>sn_last_active_at := Some at\<rparr>) (sessions w)\<rparr>)"

definition revoke_session :: "uuid \<Rightarrow> instant \<Rightarrow> ('z auth_state_scheme, unit) op" where
  "revoke_session i at = write_db (\<lambda>_. None)
     (\<lambda>w. w\<lparr>sessions := modify (\<lambda>s. sn_id s = i \<and> sn_revoked_at s = None)
        (\<lambda>s. s\<lparr>sn_revoked_at := Some at\<rparr>) (sessions w)\<rparr>)"

definition revoke_all_user_sessions :: "uuid \<Rightarrow> instant \<Rightarrow> ('z auth_state_scheme, unit) op" where
  "revoke_all_user_sessions user at = write_db (\<lambda>_. None)
     (\<lambda>w. w\<lparr>sessions := modify (\<lambda>s. sn_user s = user \<and> sn_revoked_at s = None)
        (\<lambda>s. s\<lparr>sn_revoked_at := Some at\<rparr>) (sessions w)\<rparr>)"

definition create_refresh_token :: "lib \<Rightarrow> refresh_token \<Rightarrow> ('z auth_state_scheme, unit) op" where
  "create_refresh_token l t = bnd (before_create l (rt_id t)) (\<lambda>i. bnd time_now (\<lambda>now.
     write_db (\<lambda>w. if has_key rt_id i (refresh_tokens w) then Some UniqueViolation else None)
       (\<lambda>w. w\<lparr>refresh_tokens := refresh_tokens w @ [t\<lparr>rt_id := i, rt_created_at := now\<rparr>]\<rparr>)))"

definition get_refresh_by_hash :: "string \<Rightarrow> ('z auth_state_scheme, refresh_token) op" where
  "get_refresh_by_hash h = select_first (\<lambda>w. by_key rt_hash h (by_pk rt_id (refresh_tokens w)))"

definition revoke_refresh_token :: "uuid \<Rightarrow> instant \<Rightarrow> ('z auth_state_scheme, unit) op" where
  "revoke_refresh_token i at = write_db (\<lambda>_. None)
     (\<lambda>w. w\<lparr>refresh_tokens := modify (\<lambda>t. rt_id t = i \<and> rt_revoked_at t = None)
        (\<lambda>t. t\<lparr>rt_revoked_at := Some at\<rparr>) (refresh_tokens w)\<rparr>)"

definition revoke_session_tokens :: "uuid \<Rightarrow> instant \<Rightarrow> ('z auth_state_scheme, unit) op" where
  "revoke_session_tokens session at = write_db (\<lambda>_. None)
     (\<lambda>w. w\<lparr>refresh_tokens := modify (\<lambda>t. rt_session t = session \<and> rt_revoked_at t = None)
        (\<lambda>t. t\<lparr>rt_revoked_at := Some at\<rparr>) (refresh_tokens w)\<rparr>)"

definition revoke_all_user_tokens :: "uuid \<Rightarrow> instant \<Rightarrow> ('z auth_state_scheme, unit) op" where
  "revoke_all_user_tokens user at = write_db (\<lambda>_. None)
     (\<lambda>w. w\<lparr>refresh_tokens := modify (\<lambda>t. rt_revoked_at t = None \<and>
          rt_session t \<in> sn_id ` set (filter (\<lambda>s. sn_user s = user) (sessions w)))
        (\<lambda>t. t\<lparr>rt_revoked_at := Some at\<rparr>) (refresh_tokens w)\<rparr>)"

section \<open>Links and codes\<close>

definition create_email_verification :: "lib \<Rightarrow> email_verification \<Rightarrow> ('z auth_state_scheme, unit) op" where
  "create_email_verification l v = bnd (before_create l (vf_id v)) (\<lambda>i. bnd time_now (\<lambda>now.
     write_db (\<lambda>w. if has_key vf_id i (verifications w) then Some UniqueViolation else None)
       (\<lambda>w. w\<lparr>verifications := verifications w @ [v\<lparr>vf_id := i, vf_created_at := now\<rparr>]\<rparr>)))"

definition get_email_verification_by_hash :: "string \<Rightarrow> ('z auth_state_scheme, email_verification) op" where
  "get_email_verification_by_hash h = select_first (\<lambda>w. by_key vf_hash h (by_pk vf_id (verifications w)))"

definition mark_email_verification_used :: "uuid \<Rightarrow> instant \<Rightarrow> ('z auth_state_scheme, unit) op" where
  "mark_email_verification_used i at = write_db (\<lambda>_. None)
     (\<lambda>w. w\<lparr>verifications := modify (\<lambda>v. vf_id v = i) (\<lambda>v. v\<lparr>vf_verified_at := Some at\<rparr>) (verifications w)\<rparr>)"

definition invalidate_user_verifications :: "uuid \<Rightarrow> instant \<Rightarrow> ('z auth_state_scheme, unit) op" where
  "invalidate_user_verifications user at = write_db (\<lambda>_. None)
     (\<lambda>w. w\<lparr>verifications := modify (\<lambda>v. vf_user v = user \<and> vf_verified_at v = None)
        (\<lambda>v. v\<lparr>vf_verified_at := Some at\<rparr>) (verifications w)\<rparr>)"

definition first_of :: "'r list \<Rightarrow> 'r option" where
  "first_of rs = (case rs of [] \<Rightarrow> None | r # _ \<Rightarrow> Some r)"

definition latest_email_verification_at :: "uuid \<Rightarrow> ('z auth_state_scheme, instant) op" where
  "latest_email_verification_at user = bnd (select_first (\<lambda>w.
     first_of (newest_first vf_created_at (filter (\<lambda>v. vf_user v = user) (by_pk vf_id (verifications w))))))
     (\<lambda>v. ret (vf_created_at v))"

definition create_password_reset :: "lib \<Rightarrow> password_reset \<Rightarrow> ('z auth_state_scheme, unit) op" where
  "create_password_reset l p = bnd (before_create l (pr_id p)) (\<lambda>i. bnd time_now (\<lambda>now.
     write_db (\<lambda>w. if has_key pr_id i (resets w) then Some UniqueViolation else None)
       (\<lambda>w. w\<lparr>resets := resets w @ [p\<lparr>pr_id := i, pr_created_at := now\<rparr>]\<rparr>)))"

definition get_password_reset_by_hash :: "string \<Rightarrow> ('z auth_state_scheme, password_reset) op" where
  "get_password_reset_by_hash h = select_first (\<lambda>w. by_key pr_hash h (by_pk pr_id (resets w)))"

definition mark_password_reset_used :: "uuid \<Rightarrow> instant \<Rightarrow> ('z auth_state_scheme, unit) op" where
  "mark_password_reset_used i at = write_db (\<lambda>_. None)
     (\<lambda>w. w\<lparr>resets := modify (\<lambda>p. pr_id p = i) (\<lambda>p. p\<lparr>pr_used_at := Some at\<rparr>) (resets w)\<rparr>)"

definition invalidate_user_resets :: "uuid \<Rightarrow> instant \<Rightarrow> ('z auth_state_scheme, unit) op" where
  "invalidate_user_resets user at = write_db (\<lambda>_. None)
     (\<lambda>w. w\<lparr>resets := modify (\<lambda>p. pr_user p = user \<and> pr_used_at p = None)
        (\<lambda>p. p\<lparr>pr_used_at := Some at\<rparr>) (resets w)\<rparr>)"

definition create_otp_code :: "lib \<Rightarrow> email_otp \<Rightarrow> ('z auth_state_scheme, unit) op" where
  "create_otp_code l c = bnd (before_create l (ot_id c)) (\<lambda>i. bnd time_now (\<lambda>now.
     write_db (\<lambda>w. if has_key ot_id i (otps w) then Some UniqueViolation else None)
       (\<lambda>w. w\<lparr>otps := otps w @ [c\<lparr>ot_id := i, ot_created_at := now\<rparr>]\<rparr>)))"

definition latest_pending_otp :: "uuid \<Rightarrow> ('z auth_state_scheme, email_otp) op" where
  "latest_pending_otp user = select_first (\<lambda>w. first_of (newest_first ot_created_at
     (filter (\<lambda>c. ot_user c = user \<and> ot_consumed_at c = None) (by_pk ot_id (otps w)))))"

definition increment_otp_attempts :: "uuid \<Rightarrow> ('z auth_state_scheme, unit) op" where
  "increment_otp_attempts i = write_db
     (\<lambda>w. if list_ex (\<lambda>c. ot_id c = i \<and> \<not> fits32 (ot_attempts c + 1)) (otps w) then Some DbError else None)
     (\<lambda>w. w\<lparr>otps := modify (\<lambda>c. ot_id c = i) (\<lambda>c. c\<lparr>ot_attempts := ot_attempts c + 1\<rparr>) (otps w)\<rparr>)"

definition consume_otp :: "uuid \<Rightarrow> instant \<Rightarrow> ('z auth_state_scheme, unit) op" where
  "consume_otp i at = write_db (\<lambda>_. None)
     (\<lambda>w. w\<lparr>otps := modify (\<lambda>c. ot_id c = i) (\<lambda>c. c\<lparr>ot_consumed_at := Some at\<rparr>) (otps w)\<rparr>)"

definition invalidate_user_otps :: "uuid \<Rightarrow> instant \<Rightarrow> ('z auth_state_scheme, unit) op" where
  "invalidate_user_otps user at = write_db (\<lambda>_. None)
     (\<lambda>w. w\<lparr>otps := modify (\<lambda>c. ot_user c = user \<and> ot_consumed_at c = None)
        (\<lambda>c. c\<lparr>ot_consumed_at := Some at\<rparr>) (otps w)\<rparr>)"

definition record_login_attempt :: "lib \<Rightarrow> login_attempt \<Rightarrow> ('z auth_state_scheme, unit) op" where
  "record_login_attempt l a = bnd (attempt (bnd (before_create l (la_id a)) (\<lambda>i. bnd time_now (\<lambda>now.
     write_db (\<lambda>w. if has_key la_id i (attempts w) then Some UniqueViolation else None)
       (\<lambda>w. w\<lparr>attempts := attempts w @ [a\<lparr>la_id := i, la_created_at := now\<rparr>]\<rparr>))))) (\<lambda>_. ret ())"

section \<open>API keys\<close>

definition repo_create_api_key :: "lib \<Rightarrow> api_key \<Rightarrow> ('z auth_state_scheme, api_key) op" where
  "repo_create_api_key l k = bnd (before_create l (ak_id k)) (\<lambda>i. bnd time_now (\<lambda>now.
     let row = k\<lparr>ak_id := i, ak_created_at := now\<rparr> in
     bnd (write_db (\<lambda>w. if has_key ak_id i (api_keys w) \<or> has_key ak_hash (ak_hash k) (api_keys w)
                        then Some UniqueViolation else None)
            (\<lambda>w. w\<lparr>api_keys := api_keys w @ [row]\<rparr>)) (\<lambda>_. ret row)))"

definition get_api_key_by_hash :: "string \<Rightarrow> ('z auth_state_scheme, api_key) op" where
  "get_api_key_by_hash h = select_first (\<lambda>w. by_key ak_hash h (api_keys w))"

definition get_api_key_by_id :: "uuid \<Rightarrow> ('z auth_state_scheme, api_key) op" where
  "get_api_key_by_id i = select_first (\<lambda>w. by_key ak_id i (api_keys w))"

definition list_api_keys_by_org :: "uuid \<Rightarrow> int \<Rightarrow> int \<Rightarrow> ('z auth_state_scheme, api_key list \<times> int) op" where
  "list_api_keys_by_org org limit offset =
     bnd (select (\<lambda>w. count_where (\<lambda>k. ak_org k = org) (api_keys w))) (\<lambda>total.
     bnd (select (\<lambda>w. page_of limit offset
       (newest_first ak_created_at (filter (\<lambda>k. ak_org k = org) (api_keys w))))) (\<lambda>ks.
     ret (ks, total)))"

definition repo_revoke_api_key :: "uuid \<Rightarrow> instant \<Rightarrow> ('z auth_state_scheme, unit) op" where
  "repo_revoke_api_key i at = write_db (\<lambda>_. None)
     (\<lambda>w. w\<lparr>api_keys := modify (\<lambda>k. ak_id k = i \<and> ak_revoked_at k = None)
        (\<lambda>k. k\<lparr>ak_revoked_at := Some at\<rparr>) (api_keys w)\<rparr>)"

definition touch_api_key :: "uuid \<Rightarrow> instant \<Rightarrow> ('z auth_state_scheme, unit) op" where
  "touch_api_key i at = write_db (\<lambda>_. None)
     (\<lambda>w. w\<lparr>api_keys := modify (\<lambda>k. ak_id k = i) (\<lambda>k. k\<lparr>ak_last_used_at := Some at\<rparr>) (api_keys w)\<rparr>)"

text \<open>\<open>token.GenerateApiKey\<close> and \<open>IsApiKeyShape\<close>; the URL-safe base64 of the standard library is written out.\<close>

definition base64url_digit :: "nat \<Rightarrow> char" where
  "base64url_digit n = (if n < 26 then char_of (65 + n) else if n < 52 then char_of (71 + n)
     else if n < 62 then char_of (n - 4) else if n = 62 then CHR ''-'' else CHR ''_'')"

fun base64url :: "string \<Rightarrow> string" where
  "base64url [] = []"
| "base64url [a] = (let x = code_of a in [base64url_digit (x div 4), base64url_digit (x mod 4 * 16)])"
| "base64url [a, b] = (let x = code_of a; y = code_of b in
     [base64url_digit (x div 4), base64url_digit (x mod 4 * 16 + y div 16), base64url_digit (y mod 16 * 4)])"
| "base64url (a # b # c # cs) = (let x = code_of a; y = code_of b; z = code_of c in
     [base64url_digit (x div 4), base64url_digit (x mod 4 * 16 + y div 16),
      base64url_digit (y mod 16 * 4 + z div 64), base64url_digit (z mod 64)] @ base64url cs)"

definition api_key_prefix :: string where
  "api_key_prefix = ''rk_live_''"

definition generate_api_key :: "lib \<Rightarrow> ('z base_scheme, string \<times> string \<times> string) op" where
  "generate_api_key l = bnd (draw_bytes l 32) (\<lambda>buf.
     let secret = base64url buf; raw = api_key_prefix @ secret in
     ret (raw, hash_token l raw, api_key_prefix @ (if length secret > 8 then take 8 secret else secret)))"

definition is_api_key_shape :: "string \<Rightarrow> bool" where
  "is_api_key_shape s0 = (let s = trim_space s0 in
     has_prefix api_key_prefix s \<and> length s > length api_key_prefix + 8)"

section \<open>Frame lemmas\<close>

lemma keeps_user_rows [keeps_intros]:
  assumes I: "on_tables I" and u: "\<And>w x. I w \<Longrightarrow> I (w\<lparr>users := x\<rparr>)"
  shows "keeps I (create_user l us)" "keeps I (create_profile l i p)" "keeps I (set_email_verified i)"
    "keeps I (update_last_login i t)"
  unfolding create_user_def create_profile_def set_email_verified_def update_last_login_def Let_def
  by (intro keeps_intros I u; assumption)+

lemma keeps_auth_reads [keeps_intros]:
  assumes I: "on_tables I"
  shows "keeps I (get_credential_by_user i)" "keeps I (get_session_by_id i)" "keeps I (get_refresh_by_hash h)"
    "keeps I (get_email_verification_by_hash h)" "keeps I (latest_email_verification_at i)"
    "keeps I (get_password_reset_by_hash h)" "keeps I (latest_pending_otp i)" "keeps I (get_api_key_by_hash h)"
    "keeps I (get_api_key_by_id i)" "keeps I (list_api_keys_by_org i m n)" "keeps I (generate_api_key l)"
  unfolding get_credential_by_user_def get_session_by_id_def get_refresh_by_hash_def get_email_verification_by_hash_def
    latest_email_verification_at_def get_password_reset_by_hash_def latest_pending_otp_def get_api_key_by_hash_def
    get_api_key_by_id_def list_api_keys_by_org_def generate_api_key_def Let_def
  by (intro keeps_intros I)+

lemma keeps_api_key_rows:
  assumes I: "on_tables I" and k: "\<And>w x. I w \<Longrightarrow> I (w\<lparr>api_keys := x\<rparr>)"
  shows "keeps I (repo_create_api_key l ak)" "keeps I (repo_revoke_api_key i t)" "keeps I (touch_api_key i t)"
  unfolding repo_create_api_key_def repo_revoke_api_key_def touch_api_key_def Let_def
  by (intro keeps_intros I k; assumption)+

text \<open>The writes of the authentication tables keep what does not look at those tables.\<close>

lemma keeps_auth_rows:
  assumes I: "on_tables I" and c: "\<And>w x. I w \<Longrightarrow> I (w\<lparr>credentials := x\<rparr>)" and s: "\<And>w x. I w \<Longrightarrow> I (w\<lparr>sessions := x\<rparr>)"
    and r: "\<And>w x. I w \<Longrightarrow> I (w\<lparr>refresh_tokens := x\<rparr>)" and v: "\<And>w x. I w \<Longrightarrow> I (w\<lparr>verifications := x\<rparr>)"
    and p: "\<And>w x. I w \<Longrightarrow> I (w\<lparr>resets := x\<rparr>)" and ot: "\<And>w x. I w \<Longrightarrow> I (w\<lparr>otps := x\<rparr>)"
    and a: "\<And>w x. I w \<Longrightarrow> I (w\<lparr>attempts := x\<rparr>)"
  shows "keeps I (create_credential l cr)" "keeps I (update_credential_hash i h t)"
    "keeps I (repo_create_session l sn)" "keeps I (touch_session i t)" "keeps I (revoke_session i t)"
    "keeps I (revoke_all_user_sessions i t)" "keeps I (create_refresh_token l rt)" "keeps I (revoke_refresh_token i t)"
    "keeps I (revoke_session_tokens i t)" "keeps I (revoke_all_user_tokens i t)"
    "keeps I (create_email_verification l vf)" "keeps I (mark_email_verification_used i t)"
    "keeps I (invalidate_user_verifications i t)" "keeps I (create_password_reset l pr)"
    "keeps I (mark_password_reset_used i t)" "keeps I (invalidate_user_resets i t)" "keeps I (create_otp_code l co)"
    "keeps I (increment_otp_attempts i)" "keeps I (consume_otp i t)" "keeps I (invalidate_user_otps i t)"
    "keeps I (record_login_attempt l la)"
  unfolding create_credential_def update_credential_hash_def repo_create_session_def touch_session_def
    revoke_session_def revoke_all_user_sessions_def create_refresh_token_def revoke_refresh_token_def
    revoke_session_tokens_def revoke_all_user_tokens_def create_email_verification_def mark_email_verification_used_def
    invalidate_user_verifications_def create_password_reset_def mark_password_reset_used_def invalidate_user_resets_def
    create_otp_code_def increment_otp_attempts_def consume_otp_def invalidate_user_otps_def record_login_attempt_def Let_def
  by (intro keeps_intros I c s r v p ot a; assumption)+

end
