(* ===== verification/Plans.thy ===== *)
theory Plans
  imports Accounts
begin

text \<open>
  Subscription tiers and entitlements (\<open>internal/subscription\<close>: model, repository and
  \<open>SubscriptionService.EntitlementFor\<close>), the part of the domain every enforcing domain calls. The
  billing operations that need organizations are in \<open>Subscription\<close>.
\<close>

text \<open>\<open>Plan\<close> is a string type in the source; a value outside the three constants is \<open>OtherPlan\<close>.\<close>

datatype plan = FREE | PRO | SCALE | OtherPlan string

datatype sub_status = SubActive | PastDue | Canceled

fun plan_text :: "plan \<Rightarrow> string" where
  "plan_text FREE = ''FREE''"
| "plan_text PRO = ''PRO''"
| "plan_text SCALE = ''SCALE''"
| "plan_text (OtherPlan s) = s"

definition plan_of_text :: "string \<Rightarrow> plan" where
  "plan_of_text s = (if s = ''FREE'' then FREE else if s = ''PRO'' then PRO
     else if s = ''SCALE'' then SCALE else OtherPlan s)"

fun plan_valid :: "plan \<Rightarrow> bool" where
  "plan_valid (OtherPlan s) = False"
| "plan_valid _ = True"

definition plan_paid :: "plan \<Rightarrow> bool" where
  "plan_paid p \<longleftrightarrow> p = PRO \<or> p = SCALE"

datatype feature = CustomRoles | ApiKeys | Kits

record limits =
  max_events :: int
  max_members :: int
  max_attendees_per_event :: int
  max_kits_per_event :: int

fun tier_limits :: "plan \<Rightarrow> limits" where
  "tier_limits FREE = \<lparr>max_events = 3, max_members = 5, max_attendees_per_event = 200,
     max_kits_per_event = 0\<rparr>"
| "tier_limits PRO = \<lparr>max_events = 25, max_members = 25, max_attendees_per_event = 2000,
     max_kits_per_event = 10\<rparr>"
| "tier_limits SCALE = \<lparr>max_events = 200, max_members = 200, max_attendees_per_event = 20000,
     max_kits_per_event = - 1\<rparr>"
| "tier_limits (OtherPlan _) = \<lparr>max_events = 0, max_members = 0, max_attendees_per_event = 0,
     max_kits_per_event = 0\<rparr>"

fun tier_features :: "plan \<Rightarrow> feature list" where
  "tier_features FREE = []"
| "tier_features PRO = [CustomRoles, ApiKeys, Kits]"
| "tier_features SCALE = [CustomRoles, ApiKeys, Kits]"
| "tier_features (OtherPlan _) = []"

record entitlement =
  en_plan :: plan
  en_limits :: limits
  en_features :: "feature list"

definition can :: "entitlement \<Rightarrow> feature \<Rightarrow> bool" where
  "can e f = (f \<in> set (en_features e))"

definition free_entitlement :: entitlement where
  "free_entitlement = \<lparr>en_plan = FREE, en_limits = tier_limits FREE, en_features = []\<rparr>"

definition entitlement_for_plan :: "plan \<Rightarrow> entitlement" where
  "entitlement_for_plan p = (if \<not> plan_valid p then free_entitlement
     else \<lparr>en_plan = p, en_limits = tier_limits p, en_features = tier_features p\<rparr>)"

record org_subscription =
  sb_id :: uuid
  sb_org :: uuid
  sb_plan :: plan
  sb_status :: sub_status
  sb_customer :: string
  sb_subscription :: string
  sb_period_end :: "instant option"
  sb_cancel_at_end :: bool
  sb_grace_until :: "instant option"
  sb_created_at :: instant
  sb_updated_at :: instant

record plan_state = auth_state +
  subs :: "org_subscription list"

lemma plan_tick [simp]: "subs (tick w) = subs w" "subs (rollback w w') = subs w"
  by (simp_all add: tick_def rollback_def)

section \<open>Repository\<close>

definition sub_by_org :: "uuid \<Rightarrow> ('z plan_state_scheme, org_subscription option) op" where
  "sub_by_org org = select (\<lambda>w. by_key sb_org org (subs w))"

definition sub_by_subscription_id :: "string \<Rightarrow> ('z plan_state_scheme, org_subscription option) op" where
  "sub_by_subscription_id i = select (\<lambda>w. by_key sb_subscription i (by_pk sb_id (subs w)))"

definition sub_by_customer_id :: "string \<Rightarrow> ('z plan_state_scheme, org_subscription option) op" where
  "sub_by_customer_id i = select (\<lambda>w. by_key sb_customer i (by_pk sb_id (subs w)))"

text \<open>The row of a \<open>Create\<close>: an id when none is set, both timestamps, and the unique index on \<open>org_id\<close>.\<close>

definition sub_create :: "lib \<Rightarrow> org_subscription \<Rightarrow> ('z plan_state_scheme, unit) op" where
  "sub_create l s = bnd (before_create l (sb_id s)) (\<lambda>i. bnd time_now (\<lambda>now.
     write_db (\<lambda>w. if has_key sb_id i (subs w) \<or> has_key sb_org (sb_org s) (subs w)
                   then Some UniqueViolation else None)
       (\<lambda>w. w\<lparr>subs := subs w @ [s\<lparr>sb_id := i, sb_created_at := now, sb_updated_at := now\<rparr>]\<rparr>)))"

definition sub_save :: "org_subscription \<Rightarrow> ('z plan_state_scheme, unit) op" where
  "sub_save s = bnd time_now (\<lambda>now.
     write_db (\<lambda>w. if list_ex (\<lambda>r. sb_org r = sb_org s \<and> sb_id r \<noteq> sb_id s) (subs w)
                   then Some UniqueViolation else None)
       (\<lambda>w. w\<lparr>subs := upsert sb_id (s\<lparr>sb_updated_at := now\<rparr>) (subs w)\<rparr>))"

definition sub_upsert :: "lib \<Rightarrow> org_subscription \<Rightarrow> ('z plan_state_scheme, unit) op" where
  "sub_upsert l s = bnd (sub_by_org (sb_org s)) (\<lambda>existing. case existing of
       None \<Rightarrow> sub_create l s
     | Some x \<Rightarrow> sub_save (s\<lparr>sb_id := sb_id x\<rparr>))"

section \<open>Entitlements\<close>

definition entitlement_of :: "org_subscription option \<Rightarrow> instant \<Rightarrow> entitlement" where
  "entitlement_of sub now = (case sub of
       None \<Rightarrow> free_entitlement
     | Some s \<Rightarrow>
        (if \<not> plan_valid (sb_plan s) then free_entitlement
         else (case sb_status s of
            SubActive \<Rightarrow> entitlement_for_plan (sb_plan s)
          | PastDue \<Rightarrow> (case sb_grace_until s of
                None \<Rightarrow> entitlement_for_plan (sb_plan s)
              | Some g \<Rightarrow> if now < g then entitlement_for_plan (sb_plan s) else free_entitlement)
          | Canceled \<Rightarrow> free_entitlement)))"

definition entitlement_for :: "uuid \<Rightarrow> ('z plan_state_scheme, entitlement) op" where
  "entitlement_for org = bnd (sub_by_org org) (\<lambda>sub. bnd time_now (\<lambda>now. ret (entitlement_of sub now)))"

text \<open>The services' own \<open>entitlement\<close>: Free when no provider is wired and on any error.\<close>

definition entitlement_or_free :: "bool \<Rightarrow> uuid \<Rightarrow> ('z plan_state_scheme, entitlement) op" where
  "entitlement_or_free wired org = (if \<not> wired then ret free_entitlement
     else bnd (attempt (entitlement_for org)) (\<lambda>r. case r of
            Inl _ \<Rightarrow> ret free_entitlement | Inr e \<Rightarrow> ret e))"

section \<open>Lemmas\<close>

lemma plan_of_text_text: "plan_of_text (plan_text p) = p \<longleftrightarrow>
    (\<forall>s. p = OtherPlan s \<longrightarrow> s \<notin> {''FREE'', ''PRO'', ''SCALE''})"
  by (cases p) (auto simp: plan_of_text_def)

lemma plan_text_of_text [simp]: "plan_text (plan_of_text s) = s"
  by (auto simp: plan_of_text_def)

text \<open>A grant beyond Free is only ever due to a valid plan that is active or in grace.\<close>

lemma entitlement_not_free:
  assumes "entitlement_of sub now \<noteq> free_entitlement"
  shows "\<exists>s. sub = Some s \<and> plan_valid (sb_plan s) \<and> en_plan (entitlement_of sub now) = sb_plan s \<and>
    (sb_status s = SubActive \<or>
     sb_status s = PastDue \<and> (\<forall>g. sb_grace_until s = Some g \<longrightarrow> now < g))"
  using assms
  by (auto simp: entitlement_of_def entitlement_for_plan_def
      split: option.splits if_splits sub_status.splits)

lemma free_has_no_feature [simp]: "\<not> can free_entitlement f"
  by (simp add: can_def free_entitlement_def)

lemma keeps_plans [keeps_intros]:
  assumes "on_tables I"
  shows "keeps I (sub_by_org org)" "keeps I (sub_by_subscription_id i)" "keeps I (sub_by_customer_id i)"
    "keeps I (entitlement_for org)" "keeps I (entitlement_or_free b org)"
  unfolding entitlement_or_free_def entitlement_for_def sub_by_org_def sub_by_subscription_id_def
    sub_by_customer_id_def
  using assms by (intro keeps_intros; assumption)+

end
