(* ===== verification/Iam.thy ===== *)
theory Iam
  imports Plans
begin

text \<open>
  Permissions (\<open>internal/iam\<close>). The Casbin enforcer keeps three lists of rows, mirrored in the
  \<open>casbin_rule\<close> table: \<open>p\<close> (role, org, object, action), \<open>g\<close> (user, role, org) and \<open>g2\<close> (user, superadmin).
  Its management calls add a row that is missing, remove a row that is present and say whether they
  did; each reaches the database through the adapter and may fail there. The matcher is that of
  \<open>model.conf\<close>. The mutex \<open>mu\<close> makes each closure one step, so it does not appear.
\<close>

record iam_state = plan_state +
  p_rows :: "string list list"
  g_rows :: "string list list"
  g2_rows :: "string list list"

lemma iam_tick [simp]:
  "p_rows (tick w) = p_rows w" "g_rows (tick w) = g_rows w" "g2_rows (tick w) = g2_rows w"
  "p_rows (rollback w w') = p_rows w" "g_rows (rollback w w') = g_rows w"
  "g2_rows (rollback w w') = g2_rows w"
  by (simp_all add: tick_def rollback_def)

section \<open>The enforcer's management calls\<close>

definition has_policy :: "string list \<Rightarrow> ('z iam_state_scheme, bool) op" where
  "has_policy r = gets (\<lambda>w. r \<in> set (p_rows w))"

definition add_policy :: "string list \<Rightarrow> ('z iam_state_scheme, bool) op" where
  "add_policy r = bnd (has_policy r) (\<lambda>ok. if ok then ret False
     else bnd (write_db (\<lambda>_. None) (\<lambda>w. w\<lparr>p_rows := p_rows w @ [r]\<rparr>)) (\<lambda>_. ret True))"

definition remove_policy :: "string list \<Rightarrow> ('z iam_state_scheme, bool) op" where
  "remove_policy r = bnd (has_policy r) (\<lambda>ok. if \<not> ok then ret False
     else bnd (write_db (\<lambda>_. None) (\<lambda>w. w\<lparr>p_rows := filter (\<lambda>x. x \<noteq> r) (p_rows w)\<rparr>)) (\<lambda>_. ret True))"

definition add_grouping :: "string list \<Rightarrow> ('z iam_state_scheme, bool) op" where
  "add_grouping r = bnd (gets (\<lambda>w. r \<in> set (g_rows w))) (\<lambda>ok. if ok then ret False
     else bnd (write_db (\<lambda>_. None) (\<lambda>w. w\<lparr>g_rows := g_rows w @ [r]\<rparr>)) (\<lambda>_. ret True))"

definition remove_grouping :: "string list \<Rightarrow> ('z iam_state_scheme, bool) op" where
  "remove_grouping r = bnd (gets (\<lambda>w. r \<in> set (g_rows w))) (\<lambda>ok. if \<not> ok then ret False
     else bnd (write_db (\<lambda>_. None) (\<lambda>w. w\<lparr>g_rows := filter (\<lambda>x. x \<noteq> r) (g_rows w)\<rparr>)) (\<lambda>_. ret True))"

text \<open>\<open>RemoveFilteredPolicy(1, dm)\<close> and \<open>RemoveFilteredGroupingPolicy(2, dm)\<close>.\<close>

definition remove_policies_in :: "string \<Rightarrow> ('z iam_state_scheme, unit) op" where
  "remove_policies_in dm = write_db (\<lambda>_. None)
     (\<lambda>w. w\<lparr>p_rows := filter (\<lambda>r. \<not> (1 < length r \<and> r ! 1 = dm)) (p_rows w)\<rparr>)"

definition remove_groupings_in :: "string \<Rightarrow> ('z iam_state_scheme, unit) op" where
  "remove_groupings_in dm = write_db (\<lambda>_. None)
     (\<lambda>w. w\<lparr>g_rows := filter (\<lambda>r. \<not> (2 < length r \<and> r ! 2 = dm)) (g_rows w)\<rparr>)"

section \<open>Fixed roles\<close>

type_synonym permission = "string \<times> string"

definition admin_permissions :: "permission list" where
  "admin_permissions =
     [(''org'', ''read''), (''org'', ''update''),
      (''member'', ''read''), (''member'', ''create''), (''member'', ''delete''),
      (''invite'', ''read''), (''invite'', ''create''), (''invite'', ''delete''),
      (''event'', ''read''), (''event'', ''create''), (''event'', ''update''), (''event'', ''delete''),
      (''event'', ''publish''),
      (''ticket'', ''read''), (''ticket'', ''create''), (''ticket'', ''update''), (''ticket'', ''delete''),
      (''attendee'', ''read''), (''attendee'', ''create''), (''attendee'', ''update''),
      (''checkin'', ''read''), (''checkin'', ''create''), (''checkin'', ''update''),
      (''kit'', ''read''), (''kit'', ''create''), (''kit'', ''update''), (''kit'', ''delete''),
      (''audit'', ''read''), (''role'', ''read''),
      (''apikey'', ''read''), (''apikey'', ''create''), (''apikey'', ''delete'')]"

definition member_permissions :: "permission list" where
  "member_permissions =
     [(''org'', ''read''), (''member'', ''read''), (''event'', ''read''), (''ticket'', ''read'')]"

definition org_rules :: "string \<Rightarrow> string list list" where
  "org_rules dm = [[''OWNER'', dm, ''*'', ''*'']]
     @ map (\<lambda>(ob, ac). [''ADMIN'', dm, ob, ac]) admin_permissions
     @ map (\<lambda>(ob, ac). [''MEMBER'', dm, ob, ac]) member_permissions"

text \<open>The loop shared by the seeds: rows already there are skipped, the others added one by one; the
  result counts the added ones.\<close>

fun ensure_rows :: "string list list \<Rightarrow> ('z iam_state_scheme, int) op" where
  "ensure_rows [] = ret 0"
| "ensure_rows (r # rs) = bnd (has_policy r) (\<lambda>ok. if ok then ensure_rows rs
     else bnd (add_policy r) (\<lambda>_. bnd (ensure_rows rs) (\<lambda>n. ret (n + 1))))"

definition seed_org_policies :: "lib \<Rightarrow> uuid \<Rightarrow> ('z iam_state_scheme, unit) op" where
  "seed_org_policies l org = bnd (ensure_rows (org_rules (uuid_text l org))) (\<lambda>_. ret ())"

definition remove_org_policies :: "lib \<Rightarrow> uuid \<Rightarrow> ('z iam_state_scheme, unit) op" where
  "remove_org_policies l org =
     bnd (attempt (remove_policies_in (uuid_text l org))) (\<lambda>_.
     bnd (attempt (remove_groupings_in (uuid_text l org))) (\<lambda>_. ret ()))"

section \<open>Membership sync\<close>

definition is_fixed_role :: "string \<Rightarrow> bool" where
  "is_fixed_role r = (r \<in> {''OWNER'', ''ADMIN'', ''MEMBER''})"

definition stale_rows :: "string \<Rightarrow> string \<Rightarrow> string list list \<Rightarrow> string list list" where
  "stale_rows user dm rows =
     filter (\<lambda>r. length r = 3 \<and> r ! 2 = dm \<and> is_fixed_role (r ! 1))
       (filter (\<lambda>r. 0 < length r \<and> r ! 0 = user) rows)"

definition sync_membership :: "lib \<Rightarrow> uuid \<Rightarrow> uuid \<Rightarrow> string option \<Rightarrow> ('z iam_state_scheme, unit) op" where
  "sync_membership l user org role =
     (let u = uuid_text l user; dm = uuid_text l org in
      bnd (gets (\<lambda>w. stale_rows u dm (g_rows w))) (\<lambda>rows.
      bnd (for_each remove_grouping rows) (\<lambda>_.
        case role of None \<Rightarrow> ret ()
        | Some r \<Rightarrow> bnd (add_grouping [u, r, dm]) (\<lambda>_. ret ()))))"

definition sync_custom_grouping :: "lib \<Rightarrow> uuid \<Rightarrow> uuid \<Rightarrow> string \<Rightarrow> bool \<Rightarrow> ('z iam_state_scheme, unit) op" where
  "sync_custom_grouping l user org role grant =
     (let r = [uuid_text l user, role, uuid_text l org] in
      bnd (if grant then add_grouping r else remove_grouping r) (\<lambda>_. ret ()))"

definition ensure_custom_role :: "lib \<Rightarrow> uuid \<Rightarrow> string \<Rightarrow> permission list \<Rightarrow> ('z iam_state_scheme, int) op" where
  "ensure_custom_role l org role perms =
     ensure_rows (map (\<lambda>(ob, ac). [role, uuid_text l org, ob, ac]) perms)"

fun remove_rows :: "string list list \<Rightarrow> ('z iam_state_scheme, int) op" where
  "remove_rows [] = ret 0"
| "remove_rows (r # rs) = bnd (remove_policy r) (\<lambda>ok. bnd (remove_rows rs) (\<lambda>n.
     ret (if ok then n + 1 else n)))"

definition remove_custom_role :: "lib \<Rightarrow> uuid \<Rightarrow> string \<Rightarrow> ('z iam_state_scheme, int) op" where
  "remove_custom_role l org role =
     bnd (gets (\<lambda>w. filter (\<lambda>r. 1 < length r \<and> r ! 0 = role \<and> r ! 1 = uuid_text l org) (p_rows w)))
       remove_rows"

definition sync_custom_policies :: "lib \<Rightarrow> uuid \<Rightarrow> string \<Rightarrow> permission list \<Rightarrow> bool
    \<Rightarrow> ('z iam_state_scheme, unit) op" where
  "sync_custom_policies l org role perms remove =
     (if remove then bnd (remove_custom_role l org role) (\<lambda>_. ret ())
      else bnd (ensure_custom_role l org role perms) (\<lambda>_. ret ()))"

text \<open>\<open>SeedSuperAdmins\<close>: unknown addresses are skipped, stale groupings removed, an empty list does nothing.\<close>

definition add_super :: "string \<Rightarrow> ('z iam_state_scheme, bool) op" where
  "add_super user = bnd (gets (\<lambda>w. [user, ''superadmin''] \<in> set (g2_rows w))) (\<lambda>ok. if ok then ret False
     else bnd (write_db (\<lambda>_. None) (\<lambda>w. w\<lparr>g2_rows := g2_rows w @ [[user, ''superadmin'']]\<rparr>)) (\<lambda>_. ret True))"

definition remove_super :: "string \<Rightarrow> ('z iam_state_scheme, bool) op" where
  "remove_super user = bnd (gets (\<lambda>w. [user, ''superadmin''] \<in> set (g2_rows w))) (\<lambda>ok. if \<not> ok then ret False
     else bnd (write_db (\<lambda>_. None) (\<lambda>w. w\<lparr>g2_rows := filter (\<lambda>x. x \<noteq> [user, ''superadmin'']) (g2_rows w)\<rparr>))
       (\<lambda>_. ret True))"

fun grant_supers :: "lib \<Rightarrow> string list \<Rightarrow> string list \<Rightarrow> ('z iam_state_scheme, string list) op" where
  "grant_supers l want [] = ret want"
| "grant_supers l want (email # emails) =
     bnd (attempt (get_user_by_email email)) (\<lambda>r. case r of
       Inl _ \<Rightarrow> grant_supers l want emails
     | Inr u \<Rightarrow> bnd (add_super (uuid_text l (us_id u))) (\<lambda>_.
         grant_supers l (want @ [uuid_text l (us_id u)]) emails))"

fun revoke_supers :: "string list \<Rightarrow> string list list \<Rightarrow> ('z iam_state_scheme, unit) op" where
  "revoke_supers want [] = ret ()"
| "revoke_supers want (r # rs) = (if r = [] \<or> hd r \<in> set want then revoke_supers want rs
     else bnd (remove_super (hd r)) (\<lambda>_. revoke_supers want rs))"

definition seed_super_admins :: "lib \<Rightarrow> string list \<Rightarrow> ('z iam_state_scheme, unit) op" where
  "seed_super_admins l emails = (if emails = [] then ret ()
     else bnd (grant_supers l [] emails) (\<lambda>want.
       bnd (gets (\<lambda>w. filter (\<lambda>r. 1 < length r \<and> r ! 1 = ''superadmin'') (g2_rows w)))
         (revoke_supers want)))"

section \<open>The matcher\<close>

text \<open>\<open>g(user, role, dm)\<close> follows the role links of one domain transitively; the role manager of Casbin
  stops after ten levels.\<close>

fun role_link :: "nat \<Rightarrow> string list list \<Rightarrow> string \<Rightarrow> string \<Rightarrow> string \<Rightarrow> bool" where
  "role_link n rows a b dm = (a = b \<or>
     (case n of 0 \<Rightarrow> False
      | Suc m \<Rightarrow> list_ex (\<lambda>r. length r = 3 \<and> r ! 0 = a \<and> r ! 2 = dm \<and> role_link m rows (r ! 1) b dm) rows))"

declare role_link.simps [simp del]

definition hierarchy_levels :: nat where
  "hierarchy_levels = 10"

definition super_admin_role :: string where
  "super_admin_role = ''superadmin''"

definition row_matches :: "string list list \<Rightarrow> string \<Rightarrow> string \<Rightarrow> string \<Rightarrow> string \<Rightarrow> string list \<Rightarrow> bool" where
  "row_matches gs sub dm ob ac r \<longleftrightarrow> length r = 4 \<and>
     role_link hierarchy_levels gs sub (r ! 0) dm \<and>
     (dm = r ! 1 \<or> r ! 1 = ''*'') \<and> (ob = r ! 2 \<or> r ! 2 = ''*'') \<and> (ac = r ! 3 \<or> r ! 3 = ''*'')"

text \<open>The superadmin disjunct of the matcher is evaluated per policy row as well; with no \<open>p\<close> row at all
  Casbin evaluates the matcher once against an empty row.\<close>

definition enforce :: "string \<Rightarrow> string \<Rightarrow> string \<Rightarrow> string \<Rightarrow> 'z iam_state_scheme \<Rightarrow> bool" where
  "enforce sub dm ob ac w \<longleftrightarrow>
     (if sub = [] \<or> dm = [] \<or> ob = [] \<or> ac = [] then False
      else [sub, super_admin_role] \<in> set (g2_rows w)
           \<or> list_ex (row_matches (g_rows w) sub dm ob ac) (p_rows w))"

definition is_super_admin :: "lib \<Rightarrow> uuid \<Rightarrow> 'z iam_state_scheme \<Rightarrow> bool" where
  "is_super_admin l user w \<longleftrightarrow> [uuid_text l user, super_admin_role] \<in> set (g2_rows w)"

definition count_org_policies :: "lib \<Rightarrow> uuid \<Rightarrow> 'z iam_state_scheme \<Rightarrow> int" where
  "count_org_policies l org w =
     count_where (\<lambda>r. 1 < length r \<and> r ! 1 = uuid_text l org) (p_rows w)"

definition user_groupings :: "lib \<Rightarrow> uuid \<Rightarrow> 'z iam_state_scheme \<Rightarrow> string list list" where
  "user_groupings l user w = filter (\<lambda>r. 0 < length r \<and> r ! 0 = uuid_text l user) (g_rows w)"

section \<open>Lemmas\<close>

text \<open>What an operation of this component may change.\<close>

definition iam_frame :: "'z iam_state_scheme \<Rightarrow> 'z iam_state_scheme \<Rightarrow> bool" where
  "iam_frame w w' \<longleftrightarrow> (\<exists>f n r ps gs g2s. w' = w\<lparr>faults := f, drawn_uuids := n, drawn_tokens := r,
     p_rows := ps, g_rows := gs, g2_rows := g2s\<rparr>)"

lemma keeps_iam_calls [keeps_intros]:
  assumes I: "on_tables I"
    and p: "\<And>w x. I w \<Longrightarrow> I (w\<lparr>p_rows := x\<rparr>)" and g: "\<And>w x. I w \<Longrightarrow> I (w\<lparr>g_rows := x\<rparr>)"
  shows "keeps I (add_policy r)" "keeps I (remove_policy r)" "keeps I (add_grouping r)"
    "keeps I (remove_grouping r)" "keeps I (remove_policies_in d)" "keeps I (remove_groupings_in d)"
    "keeps I (has_policy r)"
  unfolding add_policy_def remove_policy_def add_grouping_def remove_grouping_def has_policy_def
    remove_policies_in_def remove_groupings_in_def
  by (intro keeps_intros I; use p g in simp)+

lemma keeps_grouping_calls:
  assumes "on_tables I" and "\<And>w x. I w \<Longrightarrow> I (w\<lparr>g_rows := x\<rparr>)"
  shows "keeps I (add_grouping r)" "keeps I (remove_grouping r)" "keeps I (remove_groupings_in d)"
    "keeps I (sync_membership l user org role)" "keeps I (sync_custom_grouping l user org rn grant)"
proof -
  show *: "keeps I (add_grouping r)" "keeps I (remove_grouping r)" "keeps I (remove_groupings_in d)" for r d
    unfolding add_grouping_def remove_grouping_def remove_groupings_in_def by (intro keeps_intros assms; assumption)+
  show "keeps I (sync_membership l user org role)" "keeps I (sync_custom_grouping l user org rn grant)"
    unfolding sync_membership_def sync_custom_grouping_def Let_def by (intro * keeps_intros)+
qed

lemma keeps_ensure_rows [keeps_intros]:
  assumes "on_tables I" "\<And>w x. I w \<Longrightarrow> I (w\<lparr>p_rows := x\<rparr>)" "\<And>w x. I w \<Longrightarrow> I (w\<lparr>g_rows := x\<rparr>)"
  shows "keeps I (ensure_rows rs)"
  by (induction rs) (auto intro!: keeps_intros intro: assms)

lemma keeps_sync [keeps_intros]:
  assumes "on_tables I" "\<And>w x. I w \<Longrightarrow> I (w\<lparr>p_rows := x\<rparr>)" "\<And>w x. I w \<Longrightarrow> I (w\<lparr>g_rows := x\<rparr>)"
  shows "keeps I (seed_org_policies l org)" "keeps I (remove_org_policies l org)"
    "keeps I (sync_membership l user org role)" "keeps I (sync_custom_grouping l user org rn grant)"
  unfolding seed_org_policies_def remove_org_policies_def sync_membership_def
    sync_custom_grouping_def Let_def
  by (auto intro!: keeps_intros intro: assms split: sum.split)

text \<open>The seed reaches its goal, whatever part of it was there before, and adds only what was missing.\<close>

lemma ensure_rows_spec:
  "faults w = [] \<Longrightarrow> \<exists>n new. ensure_rows rs w = (Inr n, w\<lparr>p_rows := p_rows w @ new\<rparr>) \<and>
     set new = set rs - set (p_rows w) \<and> distinct new \<and> n = int (length new)"
proof (induction rs arbitrary: w)
  case Nil
  then show ?case by (auto simp: ret_def intro!: exI [of _ "[]"])
next
  case (Cons r rs)
  show ?case
  proof (cases "r \<in> set (p_rows w)")
    case True
    obtain n new where "ensure_rows rs w = (Inr n, w\<lparr>p_rows := p_rows w @ new\<rparr>)"
      "set new = set rs - set (p_rows w)" "distinct new" "n = int (length new)"
      using Cons by blast
    with True show ?thesis
      by (intro exI [of _ n] exI [of _ new]) (auto simp: has_policy_def bnd_def gets_def)
  next
    case False
    define v where "v = w\<lparr>p_rows := p_rows w @ [r]\<rparr>"
    have "faults v = []" using Cons.prems by (simp add: v_def)
    then obtain n new where ih: "ensure_rows rs v = (Inr n, v\<lparr>p_rows := p_rows v @ new\<rparr>)"
      "set new = set rs - set (p_rows v)" "distinct new" "n = int (length new)"
      using Cons.IH by blast
    have "ensure_rows (r # rs) w = (Inr (n + 1), w\<lparr>p_rows := p_rows w @ (r # new)\<rparr>)"
      using False ih(1) Cons.prems
      by (simp add: has_policy_def add_policy_def bnd_def gets_def write_db_def db_def ret_def
          v_def [symmetric]) (simp add: v_def)
    with False ih show ?thesis
      by (intro exI [of _ "n + 1"] exI [of _ "r # new"]) (auto simp: v_def)
  qed
qed

lemma org_rules_count: "length (org_rules d) = 37"
  by (simp add: org_rules_def admin_permissions_def member_permissions_def)

lemma org_rules_length: "r \<in> set (org_rules d) \<Longrightarrow> length r = 4 \<and> r ! 1 = d"
  by (auto simp: org_rules_def)

lemma role_link_refl [simp]: "role_link n rows a a d"
  by (simp add: role_link.simps)

lemma role_link_direct: "[a, b, d] \<in> set rows \<Longrightarrow> role_link (Suc n) rows a b d"
  by (subst role_link.simps) (auto simp: list_ex_iff intro!: bexI [of _ "[a, b, d]"])

end
