(* ===== verification/Slug.thy ===== *)
theory Slug
  imports GoLib
begin

text \<open>
  URL slugs: the regular expression \<open>slugRe\<close> shared by events, organizations and custom roles, and
  \<open>Slugify\<close> (identical in \<open>event/utils\<close> and \<open>organization/utils\<close>), whose loop over the title keeps the text
  built so far and whether it just wrote a hyphen. The main fact is that a slug built from any title is
  either empty (the callers then fall back to a fixed word) or matches the expression.
\<close>

definition slug_char :: "char \<Rightarrow> bool" where
  "slug_char c = (is_lower c \<or> is_digit c)"

text \<open>\<open>^[a-z0-9]+(-[a-z0-9]+)*$\<close>: the parts between hyphens are non-empty and alphanumeric.\<close>

definition slug_re :: "string \<Rightarrow> bool" where
  "slug_re s = list_all (\<lambda>p. p \<noteq> [] \<and> list_all slug_char p) (split_on CHR ''-'' s)"

fun slug_loop :: "string \<Rightarrow> string \<Rightarrow> bool \<Rightarrow> string" where
  "slug_loop [] b dash = b"
| "slug_loop (r # rs) b dash =
     (if slug_char r then slug_loop rs (b @ [r]) False
      else if r \<in> {CHR '' '', CHR ''-'', CHR ''_''} then
        (if \<not> dash \<and> b \<noteq> [] then slug_loop rs (b @ [CHR ''-'']) True else slug_loop rs b dash)
      else slug_loop rs b dash)"

definition trim_hyphens :: "string \<Rightarrow> string" where
  "trim_hyphens s = trim_right (\<lambda>c. c = CHR ''-'') (trim_left (\<lambda>c. c = CHR ''-'') s)"

definition slugify :: "string \<Rightarrow> string" where
  "slugify title = trim_hyphens (slug_loop (to_lower (trim_space title)) [] False)"

text \<open>\<open>fmt.Sprintf("%s-%d", base, i)\<close> and \<open>fmt.Sprintf("%s-%s", base, raw[:6])\<close>.\<close>

definition slug_numbered :: "string \<Rightarrow> nat \<Rightarrow> string" where
  "slug_numbered base i = base @ ''-'' @ digits_of i"

definition slug_random :: "string \<Rightarrow> string \<Rightarrow> string" where
  "slug_random base raw = base @ ''-'' @ take 6 raw"

section \<open>What the loop builds\<close>

lemma hyphen_not_slug_char [simp]: "\<not> slug_char CHR ''-''"
  by (simp add: slug_char_def is_lower_def is_digit_def code_of_def)

text \<open>The text under construction: a slug, or a slug and one hyphen, or nothing.\<close>

definition slug_part :: "string \<Rightarrow> bool \<Rightarrow> bool" where
  "slug_part b dash \<longleftrightarrow>
     (if dash then \<exists>s. b = s @ ''-'' \<and> slug_re s else b = [] \<or> slug_re b)"

lemma slug_re_append_char: "slug_re s \<Longrightarrow> slug_char c \<Longrightarrow> slug_re (s @ [c])"
proof -
  have step: "split_on CHR ''-'' (s @ [c]) =
      butlast (split_on CHR ''-'' s) @ [last (split_on CHR ''-'' s) @ [c]]" if "c \<noteq> CHR ''-''"
    using that
  proof (induction s)
    case Nil
    then show ?case by simp
  next
    case (Cons x xs)
    obtain p ps where "split_on CHR ''-'' xs = p # ps" by (cases "split_on CHR ''-'' xs") auto
    with Cons show ?case by (cases ps) auto
  qed
  assume s: "slug_re s" and c: "slug_char c"
  have "split_on CHR ''-'' s = butlast (split_on CHR ''-'' s) @ [last (split_on CHR ''-'' s)]"
    by simp
  with s have "list_all (\<lambda>p. p \<noteq> [] \<and> list_all slug_char p)
      (butlast (split_on CHR ''-'' s) @ [last (split_on CHR ''-'' s)])"
    unfolding slug_re_def by simp
  then have "list_all (\<lambda>p. p \<noteq> [] \<and> list_all slug_char p) (butlast (split_on CHR ''-'' s))"
    and "list_all slug_char (last (split_on CHR ''-'' s))"
    by (simp_all only: list_all_append list.pred_inject simp_thms)
  with c show "slug_re (s @ [c])"
    using step by (cases "c = CHR ''-''") (auto simp: slug_re_def)
qed

lemma split_hyphen_append: "split_on CHR ''-'' (a @ CHR ''-'' # b) = split_on CHR ''-'' a @ split_on CHR ''-'' b"
proof (induction a)
  case Nil
  then show ?case by simp
next
  case (Cons x xs)
  obtain p ps where "split_on CHR ''-'' xs = p # ps" by (cases "split_on CHR ''-'' xs") auto
  with Cons show ?case by auto
qed

lemma slug_re_append: "slug_re a \<Longrightarrow> slug_re b \<Longrightarrow> slug_re (a @ CHR ''-'' # b)"
  by (simp add: slug_re_def split_hyphen_append)

lemma slug_re_char: "slug_char c \<Longrightarrow> slug_re [c]"
  by (cases "c = CHR ''-''") (auto simp: slug_re_def)

lemma slug_part_char: "slug_part b dash \<Longrightarrow> slug_char c \<Longrightarrow> slug_part (b @ [c]) False"
  using slug_re_append [of _ "[c]"]
  by (auto simp: slug_part_def slug_re_char slug_re_append_char split: if_splits)

lemma slug_part_hyphen: "slug_part b False \<Longrightarrow> b \<noteq> [] \<Longrightarrow> slug_part (b @ [CHR ''-'']) True"
  by (auto simp: slug_part_def)

lemma slug_loop_part: "slug_part b dash \<Longrightarrow> \<exists>dash'. slug_part (slug_loop rs b dash) dash'"
proof (induction rs b dash rule: slug_loop.induct)
  case (1 b dash)
  then show ?case by auto
next
  case (2 r rs b dash)
  consider (char) "slug_char r"
    | (hyphen) "\<not> slug_char r" "r \<in> {CHR '' '', CHR ''-'', CHR ''_''}" "\<not> dash" "b \<noteq> []"
    | (skip) "\<not> slug_char r" "r \<notin> {CHR '' '', CHR ''-'', CHR ''_''} \<or> dash \<or> b = []"
    by blast
  then show ?case
  proof cases
    case char
    with 2 slug_part_char [of b dash r] show ?thesis by simp
  next
    case hyphen
    with 2 slug_part_hyphen [of b] show ?thesis by simp
  next
    case skip
    with 2 show ?thesis by auto
  qed
qed

lemma slug_re_ends:
  assumes "slug_re s"
  shows "s \<noteq> []" and "hd s \<noteq> CHR ''-''" and "last s \<noteq> CHR ''-''"
proof -
  show ne: "s \<noteq> []" using assms by (auto simp: slug_re_def)
  show "hd s \<noteq> CHR ''-''" using assms by (cases s) (auto simp: slug_re_def)
  show "last s \<noteq> CHR ''-''"
  proof
    assume "last s = CHR ''-''"
    with ne have "s = butlast s @ CHR ''-'' # []" by (metis append_butlast_last_id)
    then have "split_on CHR ''-'' s = split_on CHR ''-'' (butlast s) @ [[]]"
      by (metis split_hyphen_append split_on.simps(1))
    with assms show False by (simp add: slug_re_def)
  qed
qed

lemma trim_right_stop: "s \<noteq> [] \<Longrightarrow> \<not> p (last s) \<Longrightarrow> trim_right p s = s"
  by (cases s rule: rev_cases) (auto simp: trim_right_def)

lemma trim_right_snoc: "p c \<Longrightarrow> trim_right p (s @ [c]) = trim_right p s"
  by (simp add: trim_right_def)

lemma trim_left_stop: "s \<noteq> [] \<Longrightarrow> \<not> p (hd s) \<Longrightarrow> trim_left p s = s"
  by (cases s) (auto simp: trim_left_def)

lemma trim_hyphens_slug: "slug_re s \<Longrightarrow> trim_hyphens s = s \<and> trim_hyphens (s @ ''-'') = s"
  using slug_re_ends [of s]
  by (simp add: trim_hyphens_def trim_left_stop trim_right_stop trim_right_snoc)

lemma slugify_cases: "slugify title = [] \<or> slug_re (slugify title)"
proof -
  have "slug_part [] False" by (simp add: slug_part_def)
  then obtain dash where "slug_part (slug_loop (to_lower (trim_space title)) [] False) dash"
    using slug_loop_part by blast
  then consider "slug_loop (to_lower (trim_space title)) [] False = []"
    | "slug_re (slug_loop (to_lower (trim_space title)) [] False)"
    | t where "slug_loop (to_lower (trim_space title)) [] False = t @ ''-''" "slug_re t"
    by (auto simp: slug_part_def split: if_splits)
  then show ?thesis
  proof cases
    case 1
    then show ?thesis by (simp add: slugify_def trim_hyphens_def trim_left_def trim_right_def)
  next
    case 2
    with trim_hyphens_slug [OF 2] show ?thesis by (simp add: slugify_def)
  next
    case 3
    with trim_hyphens_slug [OF 3(2)] show ?thesis by (simp add: slugify_def)
  qed
qed

lemma slug_re_digits: "slug_re (digits_of n)"
proof (induction n rule: digits_of.induct)
  case (1 n)
  have d: "k < 10 \<Longrightarrow> slug_char (char_of (48 + k))" for k :: nat
    by (simp add: slug_char_def is_digit_def)
  show ?case
  proof (cases "n < 10")
    case True
    then show ?thesis by (subst digits_of.simps) (simp add: d slug_re_char)
  next
    case False
    with 1 show ?thesis
      by (subst digits_of.simps) (simp add: slug_re_append_char d)
  qed
qed

lemma slug_numbered_re: "slug_re base \<Longrightarrow> slug_re (slug_numbered base i)"
  using slug_re_append [of base "digits_of i"] by (simp add: slug_numbered_def slug_re_digits)

text \<open>Slugs are stable: building a slug from a slug changes nothing.\<close>

lemma to_lower_slug: "list_all slug_char s \<Longrightarrow> to_lower s = s"
  by (induction s) (auto simp: to_lower_def slug_char_def is_lower_def is_digit_def is_upper_def)

lemma code_hyphen [simp]: "code_of CHR ''-'' = 45"
  by (simp add: code_of_def)

lemma slug_re_chars: "slug_re s \<Longrightarrow> c \<in> set s \<Longrightarrow> slug_char c \<or> c = CHR ''-''"
proof (induction s)
  case Nil
  then show ?case by simp
next
  case (Cons x xs)
  obtain p ps where ps: "split_on CHR ''-'' xs = p # ps" by (cases "split_on CHR ''-'' xs") auto
  have all: "\<And>q y. q \<in> set (split_on CHR ''-'' (x # xs)) \<Longrightarrow> y \<in> set q \<Longrightarrow> slug_char y"
    using Cons.prems(1) by (auto simp: slug_re_def list_all_iff)
  have "c \<in> set (join_with CHR ''-'' (split_on CHR ''-'' (x # xs)))"
    using Cons.prems(2) by (simp only: join_split)
  moreover have "c \<in> set (join_with CHR ''-'' qs) \<Longrightarrow> c = CHR ''-'' \<or> (\<exists>q \<in> set qs. c \<in> set q)" for qs
    by (induction "CHR ''-''" qs rule: join_with.induct) auto
  ultimately show ?case using all by blast
qed

end
