(* ===== verification/Organization.thy ===== *)
theory Organization
  imports Iam Slug
begin

text \<open>
  Organizations, memberships and their guards (\<open>internal/organization\<close>: models, repository,
  \<open>org_service.go\<close>, \<open>member.go\<close>, \<open>utils.go\<close>). A caller who is not a member sees \<open>ErrOrgNotFound\<close>
  whatever exists; roles are ordered OWNER > ADMIN > MEMBER; the last owner can neither leave nor be
  demoted. Invites and custom roles are in \<open>Invites\<close> and \<open>Roles\<close>.
\<close>

section \<open>Rows\<close>

datatype member_role = OWNER | ADMIN | MEMBER | OtherRole string

fun role_text :: "member_role \<Rightarrow> string" where
  "role_text OWNER = ''OWNER''"
| "role_text ADMIN = ''ADMIN''"
| "role_text MEMBER = ''MEMBER''"
| "role_text (OtherRole s) = s"

fun level :: "member_role \<Rightarrow> int" where
  "level OWNER = 3"
| "level ADMIN = 2"
| "level _ = 1"

fun role_valid :: "member_role \<Rightarrow> bool" where
  "role_valid (OtherRole _) = False"
| "role_valid _ = True"

record organization =
  og_id :: uuid
  og_name :: string
  og_slug :: string
  og_logo :: "string option"
  og_created_by :: "uuid option"
  og_created_at :: instant
  og_updated_at :: instant
  og_deleted_at :: "instant option"

record membership =
  mb_id :: uuid
  mb_org :: uuid
  mb_user :: uuid
  mb_role :: member_role
  mb_notify :: bool
  mb_created_at :: instant
  mb_updated_at :: instant

record invite =
  iv_id :: uuid
  iv_org :: uuid
  iv_email :: string
  iv_role :: member_role
  iv_token_hash :: string
  iv_expires_at :: instant
  iv_accepted_at :: "instant option"
  iv_declined_at :: "instant option"
  iv_invited_by :: "uuid option"
  iv_created_at :: instant

definition invite_pending :: "invite \<Rightarrow> instant \<Rightarrow> bool" where
  "invite_pending i now \<longleftrightarrow> iv_accepted_at i = None \<and> iv_declined_at i = None \<and> now < iv_expires_at i"

record role_definition =
  rd_id :: uuid
  rd_org :: uuid
  rd_name :: string
  rd_permissions :: "permission list"
  rd_created_at :: instant
  rd_updated_at :: instant

record member_custom_role =
  cr_org :: uuid
  cr_user :: uuid
  cr_role :: string
  cr_created_at :: instant

record org_state = iam_state +
  orgs :: "organization list"
  memberships :: "membership list"
  invites :: "invite list"
  role_defs :: "role_definition list"
  custom_roles :: "member_custom_role list"

lemma org_tick [simp]:
  "orgs (tick w) = orgs w" "memberships (tick w) = memberships w" "invites (tick w) = invites w"
  "role_defs (tick w) = role_defs w" "custom_roles (tick w) = custom_roles w"
  "orgs (rollback w w') = orgs w" "memberships (rollback w w') = memberships w"
  "invites (rollback w w') = invites w" "role_defs (rollback w w') = role_defs w"
  "custom_roles (rollback w w') = custom_roles w"
  by (simp_all add: tick_def rollback_def)

text \<open>The wired collaborators of \<open>OrgService\<close>; an unwired one makes its helper do nothing.\<close>

record org_service =
  os_lib :: lib
  os_app_url :: string
  os_audited :: bool
  os_enqueues :: bool
  os_syncs :: bool
  os_seeds :: bool
  os_plans :: bool

section \<open>Repository\<close>

definition live_orgs :: "'z org_state_scheme \<Rightarrow> organization list" where
  "live_orgs w = filter (\<lambda>og. og_deleted_at og = None) (orgs w)"

definition get_org_by_id :: "uuid \<Rightarrow> ('z org_state_scheme, organization) op" where
  "get_org_by_id i = select_first (\<lambda>w. by_key og_id i (live_orgs w))"

definition get_org_by_slug :: "string \<Rightarrow> ('z org_state_scheme, organization) op" where
  "get_org_by_slug sl = select_first (\<lambda>w. by_key og_slug sl (live_orgs w))"

text \<open>The unique index on \<open>slug\<close> covers soft-deleted rows too.\<close>

definition repo_create_org :: "lib \<Rightarrow> organization \<Rightarrow> ('z org_state_scheme, organization) op" where
  "repo_create_org l og = bnd (before_create l (og_id og)) (\<lambda>i. bnd time_now (\<lambda>now.
     let row = og\<lparr>og_id := i, og_created_at := now, og_updated_at := now\<rparr> in
     bnd (write_db (\<lambda>w. if has_key og_id i (orgs w) \<or> has_key og_slug (og_slug og) (orgs w)
                        then Some UniqueViolation
                        else if \<not> slug_re (og_slug og) then Some DbError else None)
            (\<lambda>w. w\<lparr>orgs := orgs w @ [row]\<rparr>)) (\<lambda>_. ret row)))"

definition repo_update_org :: "organization \<Rightarrow> ('z org_state_scheme, unit) op" where
  "repo_update_org og = bnd time_now (\<lambda>now.
     write_db (\<lambda>w. if list_ex (\<lambda>x. og_slug x = og_slug og \<and> og_id x \<noteq> og_id og) (orgs w)
                   then Some UniqueViolation
                   else if \<not> slug_re (og_slug og) then Some DbError else None)
       (\<lambda>w. w\<lparr>orgs := upsert og_id (og\<lparr>og_updated_at := now\<rparr>) (orgs w)\<rparr>))"

text \<open>\<open>Delete\<close> on a model with \<open>gorm.DeletedAt\<close> is an update of \<open>deleted_at\<close>: nothing cascades.\<close>

definition repo_delete_org :: "uuid \<Rightarrow> ('z org_state_scheme, unit) op" where
  "repo_delete_org i = bnd time_now (\<lambda>now. write_db (\<lambda>_. None)
     (\<lambda>w. w\<lparr>orgs := modify (\<lambda>og. og_id og = i \<and> og_deleted_at og = None)
                      (\<lambda>og. og\<lparr>og_deleted_at := Some now\<rparr>) (orgs w)\<rparr>))"

definition member_row :: "uuid \<Rightarrow> uuid \<Rightarrow> membership \<Rightarrow> bool" where
  "member_row org user m \<longleftrightarrow> mb_org m = org \<and> mb_user m = user"

definition member_of :: "uuid \<Rightarrow> uuid \<Rightarrow> membership list \<Rightarrow> membership option" where
  "member_of org user ms = find (member_row org user) ms"

definition repo_create_membership :: "lib \<Rightarrow> membership \<Rightarrow> ('z org_state_scheme, membership) op" where
  "repo_create_membership l m = bnd (before_create l (mb_id m)) (\<lambda>i. bnd time_now (\<lambda>now.
     let row = m\<lparr>mb_id := i, mb_created_at := now, mb_updated_at := now\<rparr> in
     bnd (write_db (\<lambda>w. if has_key mb_id i (memberships w) \<or>
                           member_of (mb_org m) (mb_user m) (memberships w) \<noteq> None
                        then Some UniqueViolation
                        else if \<not> role_valid (mb_role m) then Some DbError else None)
            (\<lambda>w. w\<lparr>memberships := memberships w @ [row]\<rparr>)) (\<lambda>_. ret row)))"

definition get_membership :: "uuid \<Rightarrow> uuid \<Rightarrow> ('z org_state_scheme, membership) op" where
  "get_membership org user = select_first (\<lambda>w. member_of org user (memberships w))"

definition count_members :: "uuid \<Rightarrow> ('z org_state_scheme, int) op" where
  "count_members org = select (\<lambda>w. count_where (\<lambda>m. mb_org m = org) (memberships w))"

text \<open>\<open>ORDER BY created_at ASC\<close>.\<close>

definition oldest_first :: "('r \<Rightarrow> instant) \<Rightarrow> 'r list \<Rightarrow> 'r list" where
  "oldest_first at rs = sort_key at rs"

definition list_memberships :: "uuid \<Rightarrow> int \<Rightarrow> int \<Rightarrow> ('z org_state_scheme, membership list \<times> int) op" where
  "list_memberships org limit offset =
     bnd (select (\<lambda>w. count_where (\<lambda>m. mb_org m = org) (memberships w))) (\<lambda>total.
     bnd (select (\<lambda>w. page_of limit offset
       (oldest_first mb_created_at (filter (\<lambda>m. mb_org m = org) (memberships w))))) (\<lambda>ms.
     ret (ms, total)))"

definition list_user_memberships :: "uuid \<Rightarrow> ('z org_state_scheme, membership list) op" where
  "list_user_memberships user = select (\<lambda>w.
     oldest_first mb_created_at (filter (\<lambda>m. mb_user m = user) (memberships w)))"

definition repo_update_member_role :: "uuid \<Rightarrow> uuid \<Rightarrow> member_role \<Rightarrow> instant \<Rightarrow> ('z org_state_scheme, unit) op" where
  "repo_update_member_role org user role at = write_db
     (\<lambda>_. if role_valid role then None else Some DbError)
     (\<lambda>w. w\<lparr>memberships := modify (member_row org user)
        (\<lambda>m. m\<lparr>mb_role := role, mb_updated_at := at\<rparr>) (memberships w)\<rparr>)"

definition repo_set_notify :: "uuid \<Rightarrow> uuid \<Rightarrow> bool \<Rightarrow> instant \<Rightarrow> ('z org_state_scheme, unit) op" where
  "repo_set_notify org user notify at = write_db (\<lambda>_. None)
     (\<lambda>w. w\<lparr>memberships := modify (member_row org user)
        (\<lambda>m. m\<lparr>mb_notify := notify, mb_updated_at := at\<rparr>) (memberships w)\<rparr>)"

definition repo_delete_membership :: "uuid \<Rightarrow> uuid \<Rightarrow> ('z org_state_scheme, unit) op" where
  "repo_delete_membership org user = write_db (\<lambda>_. None)
     (\<lambda>w. w\<lparr>memberships := filter (\<lambda>m. \<not> member_row org user m) (memberships w)\<rparr>)"

definition owners_in :: "uuid \<Rightarrow> membership list \<Rightarrow> int" where
  "owners_in org ms = count_where (\<lambda>m. mb_org m = org \<and> mb_role m = OWNER) ms"

definition count_owners :: "uuid \<Rightarrow> ('z org_state_scheme, int) op" where
  "count_owners org = select (\<lambda>w. owners_in org (memberships w))"

definition list_user_custom_roles :: "uuid \<Rightarrow> uuid \<Rightarrow> ('z org_state_scheme, string list) op" where
  "list_user_custom_roles org user = select (\<lambda>w.
     map cr_role (filter (\<lambda>c. cr_org c = org \<and> cr_user c = user) (custom_roles w)))"

definition repo_unassign_custom_role :: "uuid \<Rightarrow> uuid \<Rightarrow> string \<Rightarrow> ('z org_state_scheme, unit) op" where
  "repo_unassign_custom_role org user role = write_db (\<lambda>_. None)
     (\<lambda>w. w\<lparr>custom_roles :=
        filter (\<lambda>c. \<not> (cr_org c = org \<and> cr_user c = user \<and> cr_role c = role)) (custom_roles w)\<rparr>)"

section \<open>Guards and reads\<close>

definition resolve_org :: "lib \<Rightarrow> string \<Rightarrow> ('z org_state_scheme, organization) op" where
  "resolve_org l ref0 = (let r = trim_space ref0 in
     case uuid_parse l r of
       Some i \<Rightarrow> on_error (get_org_by_id i) (not_found_as (OrgE org_err.ErrOrgNotFound))
     | None \<Rightarrow> on_error (get_org_by_slug (to_lower r)) (not_found_as (OrgE org_err.ErrOrgNotFound)))"

definition org_membership :: "lib \<Rightarrow> uuid \<Rightarrow> string \<Rightarrow> ('z org_state_scheme, organization \<times> membership) op" where
  "org_membership l user ref0 = bnd (resolve_org l ref0) (\<lambda>og.
     bnd (on_error (get_membership (og_id og) user) (not_found_as (OrgE org_err.ErrOrgNotFound))) (\<lambda>m.
     ret (og, m)))"

definition require_role :: "lib \<Rightarrow> uuid \<Rightarrow> string \<Rightarrow> member_role
    \<Rightarrow> ('z org_state_scheme, organization \<times> membership) op" where
  "require_role l user ref0 least = bnd (org_membership l user ref0) (\<lambda>(og, m).
     bnd (guard (\<not> level (mb_role m) < level least) (OrgE org_err.ErrForbidden)) (\<lambda>_. ret (og, m)))"

definition is_owner :: "uuid \<Rightarrow> uuid \<Rightarrow> ('z org_state_scheme, bool) op" where
  "is_owner user org = bnd (attempt (get_membership org user)) (\<lambda>r. case r of
       Inl e \<Rightarrow> (if e = RecordNotFound then ret False else fail e)
     | Inr m \<Rightarrow> ret (mb_role m = OWNER))"

definition guard_last_owner :: "uuid \<Rightarrow> ('z org_state_scheme, unit) op" where
  "guard_last_owner org = bnd (count_owners org) (\<lambda>n. guard (\<not> n \<le> 1) (OrgE org_err.ErrLastOwner))"

definition is_member :: "uuid \<Rightarrow> uuid \<Rightarrow> ('z org_state_scheme, bool) op" where
  "is_member user org = bnd (attempt (get_membership org user)) (\<lambda>r. ret (case r of Inl _ \<Rightarrow> False | Inr _ \<Rightarrow> True))"

definition can_manage :: "uuid \<Rightarrow> uuid \<Rightarrow> ('z org_state_scheme, bool) op" where
  "can_manage user org = bnd (attempt (get_membership org user)) (\<lambda>r. ret (case r of
       Inl _ \<Rightarrow> False | Inr m \<Rightarrow> level (mb_role m) \<ge> level ADMIN))"

definition resolve_org_id :: "lib \<Rightarrow> string \<Rightarrow> ('z org_state_scheme, uuid) op" where
  "resolve_org_id l ref0 = bnd (resolve_org l ref0) (\<lambda>og. ret (og_id og))"

definition org_name :: "uuid \<Rightarrow> ('z org_state_scheme, string) op" where
  "org_name org = bnd (get_org_by_id org) (\<lambda>og. ret (og_name og))"

record member_notify =
  mn_user :: uuid
  mn_email :: string
  mn_name :: string

fun notify_loop :: "membership list \<Rightarrow> ('z org_state_scheme, member_notify list) op" where
  "notify_loop [] = ret []"
| "notify_loop (m # ms) = (if \<not> mb_notify m then notify_loop ms
     else bnd (attempt (get_user_by_id (mb_user m))) (\<lambda>r. case r of
         Inl _ \<Rightarrow> notify_loop ms
       | Inr u \<Rightarrow> bnd (notify_loop ms) (\<lambda>out.
           ret (\<lparr>mn_user = us_id u, mn_email = us_email u, mn_name = display_name_of (Some u)\<rparr> # out))))"

definition notify_targets :: "uuid \<Rightarrow> ('z org_state_scheme, member_notify list) op" where
  "notify_targets org = bnd (list_memberships org 100000 0) (\<lambda>(ms, _). notify_loop ms)"

end
