(* ===== verification/Members.thy ===== *)
theory Members
  imports Organization
begin

text \<open>
  The state-changing operations of \<open>OrgService\<close> on organizations and members (\<open>org_service.go\<close>,
  \<open>member.go\<close>): create with auto-slug, rename, delete, add, change role, remove, preferences; their
  effect on the IAM rows is the best-effort sync after the commit. The invariant is that a live
  organization never loses its last owner.
\<close>

section \<open>Helpers of the service\<close>

definition os_emit :: "org_service \<Rightarrow> audit_entry \<Rightarrow> ('z org_state_scheme, unit) op" where
  "os_emit s e = emit (os_lib s) (os_audited s) e"

definition os_enqueue_tx :: "org_service \<Rightarrow> job \<Rightarrow> ('z org_state_scheme, unit) op" where
  "os_enqueue_tx s j = enqueue_tx (os_enqueues s) j"

definition os_seed :: "org_service \<Rightarrow> uuid \<Rightarrow> ('z org_state_scheme, unit) op" where
  "os_seed s org = (if \<not> os_seeds s then ret ()
     else bnd (attempt (seed_org_policies (os_lib s) org)) (\<lambda>_. ret ()))"

definition os_seed_remove :: "org_service \<Rightarrow> uuid \<Rightarrow> ('z org_state_scheme, unit) op" where
  "os_seed_remove s org = (if \<not> os_seeds s then ret () else remove_org_policies (os_lib s) org)"

definition os_sync :: "org_service \<Rightarrow> uuid \<Rightarrow> uuid \<Rightarrow> member_role option \<Rightarrow> ('z org_state_scheme, unit) op" where
  "os_sync s user org role = (if \<not> os_syncs s then ret ()
     else bnd (attempt (sync_membership (os_lib s) user org (map_option role_text role))) (\<lambda>_. ret ()))"

definition os_sync_custom_grouping :: "org_service \<Rightarrow> uuid \<Rightarrow> uuid \<Rightarrow> string \<Rightarrow> bool
    \<Rightarrow> ('z org_state_scheme, unit) op" where
  "os_sync_custom_grouping s user org role grant = (if \<not> os_syncs s then ret ()
     else bnd (attempt (sync_custom_grouping (os_lib s) user org role grant)) (\<lambda>_. ret ()))"

definition os_sync_custom_policies :: "org_service \<Rightarrow> uuid \<Rightarrow> string \<Rightarrow> permission list \<Rightarrow> bool
    \<Rightarrow> ('z org_state_scheme, unit) op" where
  "os_sync_custom_policies s org role perms remove = (if \<not> os_syncs s then ret ()
     else bnd (attempt (sync_custom_policies (os_lib s) org role perms remove)) (\<lambda>_. ret ()))"

text \<open>\<open>cleanAssets\<close>: the cleaner is the event domain's, an argument here.\<close>

definition os_clean_assets :: "(uuid \<Rightarrow> ('z org_state_scheme, unit) op) option \<Rightarrow> uuid
    \<Rightarrow> ('z org_state_scheme, unit) op" where
  "os_clean_assets cleaner org = (case cleaner of None \<Rightarrow> ret ()
     | Some c \<Rightarrow> bnd (attempt (c org)) (\<lambda>_. ret ()))"

record org_dto =
  od_id :: uuid
  od_name :: string
  od_slug :: string
  od_logo :: "string option"
  od_role :: member_role
  od_created_at :: int

definition to_org :: "organization \<Rightarrow> member_role \<Rightarrow> org_dto" where
  "to_org og role = \<lparr>od_id = og_id og, od_name = og_name og, od_slug = og_slug og,
     od_logo = og_logo og, od_role = role, od_created_at = format_time (og_created_at og)\<rparr>"

record member_dto =
  md_user :: uuid
  md_email :: string
  md_name :: string
  md_email_verified :: bool
  md_role :: member_role
  md_joined_at :: int

definition to_member :: "user \<Rightarrow> member_role \<Rightarrow> instant \<Rightarrow> member_dto" where
  "to_member u role joined = \<lparr>md_user = us_id u, md_email = us_email u,
     md_name = display_name_of (Some u), md_email_verified = us_email_verified u, md_role = role,
     md_joined_at = format_time joined\<rparr>"

section \<open>Organizations\<close>

text \<open>\<open>uniqueSlug\<close>: the base, then \<open>base-2\<close> to \<open>base-99\<close>, then a random suffix.\<close>

fun probe_slugs :: "lib \<Rightarrow> string \<Rightarrow> nat list \<Rightarrow> ('z org_state_scheme, string) op" where
  "probe_slugs l base [] = bnd (generate_raw_token l 3) (\<lambda>raw. ret (slug_random base raw))"
| "probe_slugs l base (i # is) =
     bnd (attempt (get_org_by_slug (slug_numbered base i))) (\<lambda>r. case r of
       Inl e \<Rightarrow> (if e = RecordNotFound then ret (slug_numbered base i) else fail e)
     | Inr _ \<Rightarrow> probe_slugs l base is)"

definition unique_org_slug :: "lib \<Rightarrow> string \<Rightarrow> ('z org_state_scheme, string) op" where
  "unique_org_slug l base = bnd (attempt (get_org_by_slug base)) (\<lambda>r. case r of
       Inl e \<Rightarrow> (if e = RecordNotFound then ret base else fail e)
     | Inr _ \<Rightarrow> probe_slugs l base [2..<100])"

definition create_org_tx :: "org_service \<Rightarrow> uuid \<Rightarrow> organization \<Rightarrow> ('z org_state_scheme, organization) op" where
  "create_org_tx s creator og = tx (
     bnd (on_error (repo_create_org (os_lib s) og) (unique_as (OrgE org_err.ErrSlugTaken))) (\<lambda>row.
     bnd (repo_create_membership (os_lib s) \<lparr>mb_id = uuid_nil, mb_org = og_id row, mb_user = creator,
            mb_role = OWNER, mb_notify = True, mb_created_at = 0, mb_updated_at = 0\<rparr>) (\<lambda>_.
     bnd (os_emit s (entry (Some (og_id row)) (Some creator) ''org.created'' ''org'' (Some (og_id row))
            [] [(''name'', AStr (og_name row)), (''slug'', AStr (og_slug row))])) (\<lambda>_.
     ret row))))"

text \<open>The four attempts. The id drawn by the first \<open>Create\<close> stays in the struct for the next ones.\<close>

fun create_org_loop :: "nat \<Rightarrow> org_service \<Rightarrow> uuid \<Rightarrow> bool \<Rightarrow> string \<Rightarrow> organization
    \<Rightarrow> ('z org_state_scheme, org_dto) op" where
  "create_org_loop 0 s creator auto base og = fail (OrgE org_err.ErrSlugTaken)"
| "create_org_loop (Suc n) s creator auto base og =
     bnd (if auto then unique_org_slug (os_lib s) base else ret (og_slug og)) (\<lambda>slug.
     bnd (before_create (os_lib s) (og_id og)) (\<lambda>i.
     bnd (attempt (create_org_tx s creator (og\<lparr>og_slug := slug, og_id := i\<rparr>))) (\<lambda>r. case r of
       Inr row \<Rightarrow>
         bnd (os_seed s (og_id row)) (\<lambda>_.
         bnd (os_sync s creator (og_id row) (Some OWNER)) (\<lambda>_.
         ret (to_org row OWNER)))
     | Inl e \<Rightarrow> (if e \<noteq> OrgE org_err.ErrSlugTaken \<or> \<not> auto then fail e
                else create_org_loop n s creator auto base (og\<lparr>og_slug := slug, og_id := i\<rparr>)))))"

definition create_org :: "org_service \<Rightarrow> uuid \<Rightarrow> string \<Rightarrow> string \<Rightarrow> string
    \<Rightarrow> ('z org_state_scheme, org_dto) op" where
  "create_org s creator name0 slug0 logo =
     (let name = trim_space name0; auto = (trim_space slug0 = []);
          base = (if slugify name = [] then ''org'' else slugify name);
          slug = to_lower (trim_space slug0) in
      bnd (guard (name \<noteq> []) (OrgE org_err.ErrInvalidName)) (\<lambda>_.
      bnd (guard (auto \<or> slug_re slug) (OrgE org_err.ErrInvalidSlug)) (\<lambda>_.
      create_org_loop 4 s creator auto base
        \<lparr>og_id = uuid_nil, og_name = name, og_slug = slug,
         og_logo = (if trim_space logo \<noteq> [] then Some logo else None), og_created_by = Some creator,
         og_created_at = 0, og_updated_at = 0, og_deleted_at = None\<rparr>)))"

record org_membership_dto =
  om_id :: uuid
  om_slug :: string
  om_name :: string
  om_role :: member_role
  om_joined_at :: int

fun memberships_loop :: "membership list \<Rightarrow> ('z org_state_scheme, org_membership_dto list) op" where
  "memberships_loop [] = ret []"
| "memberships_loop (m # ms) = bnd (attempt (get_org_by_id (mb_org m))) (\<lambda>r. case r of
       Inl _ \<Rightarrow> memberships_loop ms
     | Inr og \<Rightarrow> bnd (memberships_loop ms) (\<lambda>out. ret (\<lparr>om_id = og_id og, om_slug = og_slug og,
         om_name = og_name og, om_role = mb_role m, om_joined_at = format_time (mb_created_at m)\<rparr> # out)))"

definition list_org_memberships :: "uuid \<Rightarrow> ('z org_state_scheme, org_membership_dto list) op" where
  "list_org_memberships user = bnd (list_user_memberships user) memberships_loop"

definition get_org :: "org_service \<Rightarrow> uuid \<Rightarrow> string \<Rightarrow> ('z org_state_scheme, org_dto) op" where
  "get_org s user ref0 = bnd (org_membership (os_lib s) user ref0) (\<lambda>(og, m). ret (to_org og (mb_role m)))"

definition update_org :: "org_service \<Rightarrow> uuid \<Rightarrow> string \<Rightarrow> string \<Rightarrow> string \<Rightarrow> string
    \<Rightarrow> ('z org_state_scheme, org_dto) op" where
  "update_org s user ref0 name slug0 logo =
     bnd (require_role (os_lib s) user ref0 ADMIN) (\<lambda>(og, m).
     let prior = [(''name'', AStr (og_name og)), (''slug'', AStr (og_slug og))];
         og1 = (if name \<noteq> [] then og\<lparr>og_name := trim_space name\<rparr> else og);
         slug = to_lower (trim_space slug0) in
     bnd (guard (slug0 = [] \<or> slug_re slug) (OrgE org_err.ErrInvalidSlug)) (\<lambda>_.
     let og2 = (if slug0 \<noteq> [] then og1\<lparr>og_slug := slug\<rparr> else og1);
         og3 = og2\<lparr>og_logo := (if trim_space logo \<noteq> [] then Some logo else None)\<rparr>;
         after = [(''name'', AStr (og_name og3)), (''slug'', AStr (og_slug og3))] in
     bnd (tx (
       bnd (on_error (repo_update_org og3) (unique_as (OrgE org_err.ErrSlugTaken))) (\<lambda>_.
       os_emit s (entry (Some (og_id og3)) (Some user) ''org.updated'' ''org'' (Some (og_id og3))
         prior after)))) (\<lambda>_.
     ret (to_org og3 (mb_role m)))))"

definition delete_org :: "org_service \<Rightarrow> (uuid \<Rightarrow> ('z org_state_scheme, unit) op) option \<Rightarrow> uuid
    \<Rightarrow> string \<Rightarrow> ('z org_state_scheme, unit) op" where
  "delete_org s cleaner user ref0 =
     bnd (require_role (os_lib s) user ref0 OWNER) (\<lambda>(og, _).
     bnd (list_memberships (og_id og) 100000 0) (\<lambda>(members, _).
     bnd (os_clean_assets cleaner (og_id og)) (\<lambda>_.
     bnd (tx (
       bnd (os_emit s (entry (Some (og_id og)) (Some user) ''org.deleted'' ''org'' (Some (og_id og))
              [(''name'', AStr (og_name og))] [])) (\<lambda>_.
       repo_delete_org (og_id og)))) (\<lambda>_.
     bnd (for_each (\<lambda>m. os_sync s (mb_user m) (og_id og) None) members) (\<lambda>_.
     os_seed_remove s (og_id og))))))"

section \<open>Members\<close>

fun members_loop :: "membership list \<Rightarrow> ('z org_state_scheme, member_dto list) op" where
  "members_loop [] = ret []"
| "members_loop (m # ms) = bnd (attempt (get_user_by_id (mb_user m))) (\<lambda>r. case r of
       Inl _ \<Rightarrow> members_loop ms
     | Inr u \<Rightarrow> bnd (members_loop ms) (\<lambda>out. ret (to_member u (mb_role m) (mb_created_at m) # out)))"

definition list_members :: "org_service \<Rightarrow> uuid \<Rightarrow> string \<Rightarrow> int \<Rightarrow> int
    \<Rightarrow> ('z org_state_scheme, member_dto list \<times> int) op" where
  "list_members s user ref0 limit offset =
     bnd (require_role (os_lib s) user ref0 MEMBER) (\<lambda>(og, _).
     bnd (list_memberships (og_id og) limit offset) (\<lambda>(ms, total).
     bnd (members_loop ms) (\<lambda>out. ret (out, total))))"

definition add_member :: "org_service \<Rightarrow> uuid \<Rightarrow> string \<Rightarrow> string \<Rightarrow> member_role
    \<Rightarrow> ('z org_state_scheme, member_dto) op" where
  "add_member s grantor ref0 email role0 =
     bnd (require_role (os_lib s) grantor ref0 ADMIN) (\<lambda>(og, g).
     let role = (if role_valid role0 then role0 else MEMBER) in
     bnd (guard (\<not> level (mb_role g) < level role) (OrgE org_err.ErrForbidden)) (\<lambda>_.
     bnd (count_members (og_id og)) (\<lambda>n.
     bnd (entitlement_or_free (os_plans s) (og_id og)) (\<lambda>ent.
     bnd (guard (\<not> n \<ge> max_members (en_limits ent)) (SubE sub_err.ErrUpgradeRequired)) (\<lambda>_.
     bnd (on_error (get_user_by_email (normalize_email email)) (\<lambda>_. OrgE org_err.ErrUserNotFound)) (\<lambda>target.
     bnd (guard (us_status target = ACTIVE) (OrgE org_err.ErrUserNotFound)) (\<lambda>_.
     bnd (attempt (get_membership (og_id og) (us_id target))) (\<lambda>r.
     bnd (case r of Inr _ \<Rightarrow> fail (OrgE org_err.ErrAlreadyMember)
          | Inl e \<Rightarrow> if e = RecordNotFound then ret () else fail e) (\<lambda>_.
     bnd (tx (
       bnd (on_error (repo_create_membership (os_lib s) \<lparr>mb_id = uuid_nil, mb_org = og_id og,
              mb_user = us_id target, mb_role = role, mb_notify = True, mb_created_at = 0,
              mb_updated_at = 0\<rparr>) (unique_as (OrgE org_err.ErrAlreadyMember))) (\<lambda>row.
       bnd (os_emit s (entry (Some (og_id og)) (Some grantor) ''member.added'' ''member''
              (Some (us_id target)) []
              [(''email'', AStr (us_email target)), (''role'', AStr (role_text role))])) (\<lambda>_.
       ret row)))) (\<lambda>row.
     bnd (os_sync s (us_id target) (og_id og) (Some role)) (\<lambda>_.
     ret (to_member target role (mb_created_at row)))))))))))))"

text \<open>\<open>toMember\<close> of a user that can no longer be read: only the id is known.\<close>

definition blank_user :: "uuid \<Rightarrow> user" where
  "blank_user i = \<lparr>us_id = i, us_email = [], us_email_verified = False, us_phone = None,
     us_phone_verified = False, us_status = ACTIVE, us_last_login_at = None, us_created_at = 0,
     us_updated_at = 0, us_deleted_at = None, us_profile = None\<rparr>"

text \<open>Changing and removing members read and check first, outside any transaction, and then write. The
  two halves are named, since another request can run between them.\<close>

definition update_member_role_check :: "org_service \<Rightarrow> uuid \<Rightarrow> string \<Rightarrow> uuid \<Rightarrow> member_role
    \<Rightarrow> ('z org_state_scheme, organization \<times> membership) op" where
  "update_member_role_check s grantor ref0 target role =
     bnd (require_role (os_lib s) grantor ref0 OWNER) (\<lambda>(og, _).
     bnd (guard (role_valid role) (OrgE org_err.ErrForbidden)) (\<lambda>_.
     bnd (on_error (get_membership (og_id og) target) (not_found_as (OrgE org_err.ErrOrgNotFound))) (\<lambda>m.
     bnd (if mb_role m = OWNER \<and> role \<noteq> OWNER then guard_last_owner (og_id og) else ret ()) (\<lambda>_.
     ret (og, m)))))"

definition update_member_role_commit :: "org_service \<Rightarrow> uuid \<Rightarrow> organization \<Rightarrow> membership \<Rightarrow> uuid
    \<Rightarrow> member_role \<Rightarrow> ('z org_state_scheme, member_dto) op" where
  "update_member_role_commit s grantor og m target role =
     bnd time_now (\<lambda>now.
     bnd (tx (
       bnd (repo_update_member_role (og_id og) target role now) (\<lambda>_.
       os_emit s (entry (Some (og_id og)) (Some grantor) ''member.role_changed'' ''member'' (Some target)
         [(''role'', AStr (role_text (mb_role m)))] [(''role'', AStr (role_text role))])))) (\<lambda>_.
     bnd (os_sync s target (og_id og) (Some role)) (\<lambda>_.
     bnd (attempt (get_user_by_id target)) (\<lambda>r.
     ret (to_member (case r of Inr u \<Rightarrow> u | Inl _ \<Rightarrow> blank_user target) role (mb_created_at m))))))"

definition update_member_role :: "org_service \<Rightarrow> uuid \<Rightarrow> string \<Rightarrow> uuid \<Rightarrow> member_role
    \<Rightarrow> ('z org_state_scheme, member_dto) op" where
  "update_member_role s grantor ref0 target role =
     bnd (update_member_role_check s grantor ref0 target role) (\<lambda>(og, m).
     update_member_role_commit s grantor og m target role)"

definition remove_member_check :: "org_service \<Rightarrow> uuid \<Rightarrow> string \<Rightarrow> uuid
    \<Rightarrow> ('z org_state_scheme, organization \<times> membership) op" where
  "remove_member_check s grantor ref0 target =
     bnd (org_membership (os_lib s) grantor ref0) (\<lambda>(og, g).
     bnd (on_error (get_membership (og_id og) target) (not_found_as (OrgE org_err.ErrOrgNotFound))) (\<lambda>m.
     bnd (guard (grantor = target \<or> \<not> level (mb_role g) < level ADMIN) (OrgE org_err.ErrForbidden)) (\<lambda>_.
     bnd (guard (grantor = target \<or> \<not> (mb_role m = OWNER \<and> mb_role g \<noteq> OWNER))
            (OrgE org_err.ErrForbidden)) (\<lambda>_.
     bnd (if mb_role m = OWNER then guard_last_owner (og_id og) else ret ()) (\<lambda>_.
     ret (og, m))))))"

definition remove_member_commit :: "org_service \<Rightarrow> uuid \<Rightarrow> organization \<Rightarrow> membership \<Rightarrow> uuid
    \<Rightarrow> ('z org_state_scheme, unit) op" where
  "remove_member_commit s grantor og m target =
     bnd (tx (
       bnd (repo_delete_membership (og_id og) target) (\<lambda>_.
       bnd (list_user_custom_roles (og_id og) target) (\<lambda>customs.
       bnd (for_each (repo_unassign_custom_role (og_id og) target) customs) (\<lambda>_.
       bnd (os_emit s (entry (Some (og_id og)) (Some grantor) ''member.removed'' ''member'' (Some target)
              [(''role'', AStr (role_text (mb_role m)))] [])) (\<lambda>_.
       ret customs)))))) (\<lambda>customs.
     bnd (os_sync s target (og_id og) None) (\<lambda>_.
     bnd (for_each (\<lambda>role. os_sync_custom_grouping s target (og_id og) role False) customs) (\<lambda>_.
     ret ())))"

definition remove_member :: "org_service \<Rightarrow> uuid \<Rightarrow> string \<Rightarrow> uuid \<Rightarrow> ('z org_state_scheme, unit) op" where
  "remove_member s grantor ref0 target =
     bnd (remove_member_check s grantor ref0 target) (\<lambda>(og, m).
     remove_member_commit s grantor og m target)"

definition update_my_preferences :: "org_service \<Rightarrow> uuid \<Rightarrow> string \<Rightarrow> bool \<Rightarrow> ('z org_state_scheme, unit) op" where
  "update_my_preferences s user ref0 notify =
     bnd (org_membership (os_lib s) user ref0) (\<lambda>(og, _).
     bnd time_now (\<lambda>now. repo_set_notify (og_id og) user notify now))"

definition sync_user_policies :: "org_service \<Rightarrow> uuid \<Rightarrow> ('z org_state_scheme, unit) op" where
  "sync_user_policies s user = (if \<not> os_syncs s then ret ()
     else bnd (list_user_memberships user) (\<lambda>ms.
       bnd (for_each (\<lambda>m. sync_membership (os_lib s) user (mb_org m) (Some (role_text (mb_role m)))) ms)
         (\<lambda>_. ret ())))"

section \<open>Members stay unique and owned\<close>

definition member_key :: "membership \<Rightarrow> uuid \<times> uuid" where
  "member_key m = (mb_org m, mb_user m)"

text \<open>One membership per user and organization, and \<open>org\<close> has an owner.\<close>

definition owned_in :: "uuid \<Rightarrow> membership list \<Rightarrow> bool" where
  "owned_in org ms \<longleftrightarrow> keyed member_key ms \<and> 1 \<le> owners_in org ms"

definition owned :: "uuid \<Rightarrow> 'z org_state_scheme \<Rightarrow> bool" where
  "owned org w \<longleftrightarrow> owned_in org (memberships w)"

lemma owned_tables [keeps_intros]: "on_tables (owned org)"
  by (rule on_tablesI) (simp add: owned_def)

lemma owned_in_tables [keeps_intros]: "on_tables (\<lambda>w. owned_in org (memberships w))"
  by (rule on_tablesI) simp

lemma owned_other [simp]:
  "owned org (w\<lparr>p_rows := a\<rparr>) = owned org w" "owned org (w\<lparr>g_rows := a\<rparr>) = owned org w"
  "owned org (w\<lparr>audit_events := b\<rparr>) = owned org w" "owned org (w\<lparr>custom_roles := c\<rparr>) = owned org w"
  "owned org (w\<lparr>orgs := d\<rparr>) = owned org w" "owned org (w\<lparr>jobs := e\<rparr>) = owned org w"
  "owned org (w\<lparr>invites := f\<rparr>) = owned org w" "owned org (w\<lparr>role_defs := h\<rparr>) = owned org w"
  "owned org (tick w) = owned org w" "owned org (rollback w w') = owned org w"
  by (simp_all add: owned_def)

lemma member_of_Some: "member_of org user ms = Some m \<Longrightarrow> m \<in> set ms \<and> mb_org m = org \<and> mb_user m = user"
  by (auto simp: member_of_def member_row_def find_Some_iff)

lemma member_of_None: "member_of org user ms = None \<longleftrightarrow> (org, user) \<notin> member_key ` set ms"
  by (auto simp: member_of_def member_row_def find_None_iff member_key_def)

lemma keyed_filter: "keyed key rs \<Longrightarrow> keyed key (filter p rs)"
  by (induction rs) (auto simp: keyed_def)

text \<open>Dropping or changing one membership costs at most one owner, and only that of an owner's row.\<close>

lemma owners_in_drop:
  assumes "keyed member_key ms"
  shows "owners_in org (filter (\<lambda>m. \<not> member_row org' user m) ms) \<ge> owners_in org ms - 1"
  using assms
proof (induction ms)
  case Nil
  then show ?case by (simp add: owners_in_def)
next
  case (Cons m ms)
  show ?case
  proof (cases "member_row org' user m")
    case True
    then have "filter (\<lambda>m. \<not> member_row org' user m) ms = ms"
      using Cons.prems by (intro filter_True) (auto simp: keyed_def member_key_def member_row_def image_iff)
    with True show ?thesis by (simp add: owners_in_def)
  next
    case False
    with Cons show ?thesis by (auto simp: owners_in_def keyed_def)
  qed
qed

lemma owners_in_drop_other:
  assumes "keyed member_key ms" "member_of org' user ms = Some m" "mb_role m \<noteq> OWNER"
  shows "owners_in org (filter (\<lambda>m. \<not> member_row org' user m) ms) = owners_in org ms"
  using assms
proof (induction ms)
  case Nil
  then show ?case by simp
next
  case (Cons x ms)
  show ?case
  proof (cases "member_row org' user x")
    case True
    then have "filter (\<lambda>m. \<not> member_row org' user m) ms = ms"
      using Cons.prems by (intro filter_True) (auto simp: keyed_def member_key_def member_row_def image_iff)
    with True Cons.prems show ?thesis by (simp add: owners_in_def member_of_def)
  next
    case False
    with Cons show ?thesis by (auto simp: owners_in_def keyed_def member_of_def)
  qed
qed

lemma owners_in_change:
  assumes "keyed member_key ms"
  shows "owners_in org (modify (member_row org' user)
           (\<lambda>m. m\<lparr>mb_role := role, mb_updated_at := at\<rparr>) ms) \<ge>
     owners_in org (filter (\<lambda>m. \<not> member_row org' user m) ms)"
  by (induction ms) (auto simp: owners_in_def member_row_def)

lemma owners_in_promote:
  "owners_in org (modify (member_row org' user)
           (\<lambda>m. m\<lparr>mb_role := OWNER, mb_updated_at := at\<rparr>) ms) \<ge> owners_in org ms"
  by (induction ms) (auto simp: owners_in_def member_row_def)

lemma owners_in_elsewhere: "org \<noteq> org' \<Longrightarrow>
    owners_in org (filter (\<lambda>m. \<not> member_row org' user m) ms) = owners_in org ms"
  by (induction ms) (auto simp: owners_in_def member_row_def)

lemmas org_reads = resolve_org_def org_membership_def require_role_def get_org_by_id_def
  get_org_by_slug_def get_membership_def guard_last_owner_def count_owners_def Let_def

text \<open>What the guarding halves establish; they change no table.\<close>

lemma remove_member_check_spec:
  "wp (remove_member_check s grantor ref0 target)
     (\<lambda>(og, m) w'. same_store w w' \<and> member_of (og_id og) target (memberships w) = Some m \<and>
        (mb_role m = OWNER \<longrightarrow> 2 \<le> owners_in (og_id og) (memberships w)))
     (\<lambda>_ w'. same_store w w') w"
  unfolding remove_member_check_def org_reads
  by (auto simp: wp_simps split: option.split prod.split)

lemma update_member_role_check_spec:
  "wp (update_member_role_check s grantor ref0 target role)
     (\<lambda>(og, m) w'. same_store w w' \<and> member_of (og_id og) target (memberships w) = Some m \<and>
        role_valid role \<and>
        (mb_role m = OWNER \<and> role \<noteq> OWNER \<longrightarrow> 2 \<le> owners_in (og_id og) (memberships w)))
     (\<lambda>_ w'. same_store w w') w"
  unfolding update_member_role_check_def org_reads
  by (auto simp: wp_simps split: option.split prod.split)

lemma owned_drop:
  assumes "owned_in org ms" and "member_of org' user ms = Some m"
    and "mb_role m = OWNER \<longrightarrow> 2 \<le> owners_in org' ms"
  shows "owned_in org (filter (\<lambda>m. \<not> member_row org' user m) ms)"
proof (cases "org = org'")
  case True
  with assms owners_in_drop [where ms = ms and org = org and org' = org' and user = user]
    owners_in_drop_other [where ms = ms and org = org and org' = org' and user = user and m = m]
  show ?thesis by (cases "mb_role m = OWNER") (auto simp: owned_in_def keyed_filter)
next
  case False
  with assms show ?thesis by (simp add: owned_in_def keyed_filter owners_in_elsewhere)
qed

lemma owned_change:
  assumes "owned_in org ms" and "member_of org' user ms = Some m"
    and "mb_role m = OWNER \<and> role \<noteq> OWNER \<longrightarrow> 2 \<le> owners_in org' ms"
  shows "owned_in org (modify (member_row org' user) (\<lambda>m. m\<lparr>mb_role := role, mb_updated_at := at\<rparr>) ms)"
proof (cases "role = OWNER")
  case True
  with assms owners_in_promote [where ms = ms and org = org and org' = org' and user = user and at = at]
  show ?thesis by (auto simp: owned_in_def member_key_def member_row_def)
next
  case False
  then have "owned_in org (filter (\<lambda>m. \<not> member_row org' user m) ms)"
    using assms by (intro owned_drop) auto
  with assms(1) owners_in_change [where ms = ms and org = org and org' = org' and user = user
      and role = role and at = at]
  show ?thesis by (auto simp: owned_in_def member_key_def member_row_def)
qed

lemma keeps_os_helpers [keeps_intros]:
  assumes "on_tables I" "\<And>w x. I w \<Longrightarrow> I (w\<lparr>p_rows := x\<rparr>)" "\<And>w x. I w \<Longrightarrow> I (w\<lparr>g_rows := x\<rparr>)"
    "\<And>w x. I w \<Longrightarrow> I (w\<lparr>audit_events := audit_events w @ [x]\<rparr>)"
  shows "keeps I (os_emit s e)" "keeps I (os_seed s org)" "keeps I (os_seed_remove s org)"
    "keeps I (os_sync s user org role)" "keeps I (os_sync_custom_grouping s user org rn grant)"
  unfolding os_emit_def os_seed_def os_seed_remove_def os_sync_def os_sync_custom_grouping_def
  by (auto intro!: keeps_intros intro: assms)

lemma keeps_os_groupings:
  assumes "on_tables I" "\<And>w x. I w \<Longrightarrow> I (w\<lparr>g_rows := x\<rparr>)" "\<And>w x. I w \<Longrightarrow> I (w\<lparr>audit_events := audit_events w @ [x]\<rparr>)"
  shows "keeps I (os_emit s e)" "keeps I (os_sync s user org role)" "keeps I (os_sync_custom_grouping s user org rn grant)"
  unfolding os_emit_def os_sync_def os_sync_custom_grouping_def
  by (intro keeps_grouping_calls keeps_intros assms; assumption)+

lemma remove_member_commit_owned:
  assumes "owned org w" and "member_of (og_id og) target (memberships w) = Some m"
    and "mb_role m = OWNER \<longrightarrow> 2 \<le> owners_in (og_id og) (memberships w)"
  shows "wp (remove_member_commit s grantor og m target) (\<lambda>_. owned org) (\<lambda>_. owned org) w"
  unfolding remove_member_commit_def list_user_custom_roles_def repo_unassign_custom_role_def
  by (rule wp_then_keeps, rule wp_tx_keeps [OF owned_tables assms(1)], rule wp_then_keeps)
    (use assms in \<open>auto simp: repo_delete_membership_def wp_simps owned_def intro!: owned_drop keeps_intros\<close>)

lemma update_member_role_commit_owned:
  assumes "owned org w" and "member_of (og_id og) target (memberships w) = Some m"
    and "mb_role m = OWNER \<and> role \<noteq> OWNER \<longrightarrow> 2 \<le> owners_in (og_id og) (memberships w)"
  shows "wp (update_member_role_commit s grantor og m target role) (\<lambda>_. owned org) (\<lambda>_. owned org) w"
  unfolding update_member_role_commit_def wp_bnd [of time_now] wp_time_now
  by (rule wp_then_keeps, rule wp_tx_keeps [OF owned_tables assms(1)], rule wp_then_keeps)
    (use assms in \<open>auto simp: repo_update_member_role_def wp_simps owned_def intro!: owned_change keeps_intros\<close>)

lemma owned_same: "same_store w w' \<Longrightarrow> owned org w' = owned org w"
  using owned_tables on_tables_same by blast

lemma memberships_same: "same_store w w' \<Longrightarrow> memberships w' = memberships w"
  by (auto simp: same_store_def rollback_def dest: arg_cong [where f = memberships])

lemma remove_member_owned: "keeps (owned org) (remove_member s grantor ref0 target)"
proof (rule keepsI)
  fix w :: "'a org_state_scheme" assume w: "owned org w"
  show "wp (remove_member s grantor ref0 target) (\<lambda>_. owned org) (\<lambda>_. owned org) w"
    unfolding remove_member_def wp_bnd
    by (rule wp_mono [OF remove_member_check_spec])
      (auto simp: owned_same w memberships_same intro!: remove_member_commit_owned)
qed

lemma update_member_role_owned: "keeps (owned org) (update_member_role s grantor ref0 target role)"
proof (rule keepsI)
  fix w :: "'a org_state_scheme" assume w: "owned org w"
  show "wp (update_member_role s grantor ref0 target role) (\<lambda>_. owned org) (\<lambda>_. owned org) w"
    unfolding update_member_role_def wp_bnd
    by (rule wp_mono [OF update_member_role_check_spec])
      (auto simp: owned_same w memberships_same intro!: update_member_role_commit_owned)
qed

end
