(* ===== verification/Event.thy ===== *)
theory Event
  imports Members
begin

text \<open>
  Events (\<open>internal/event\<close>: models, repository, \<open>event_service.go\<close>): org-scoped events with the lifecycle
  DRAFT, PUBLISHED, CANCELLED, their gallery, the stored assets behind the \<open>CoverStorage\<close> interface and
  the cache-aside copy of the public payload. The cache and the storage are tables of the state; their
  calls can fail like a database access. The facts about these operations are in \<open>EventFacts\<close>.
\<close>

section \<open>Rows and state\<close>

datatype event_status = Draft | Published | Cancelled

fun event_status_text :: "event_status \<Rightarrow> string" where
  "event_status_text Draft = ''DRAFT''"
| "event_status_text Published = ''PUBLISHED''"
| "event_status_text Cancelled = ''CANCELLED''"

definition event_status_of :: "string \<Rightarrow> event_status option" where
  "event_status_of s = (if s = ''DRAFT'' then Some Draft else if s = ''PUBLISHED'' then Some Published
     else if s = ''CANCELLED'' then Some Cancelled else None)"

record event =
  ev_id :: uuid
  ev_org :: uuid
  ev_title :: string
  ev_slug :: string
  ev_description :: "string option"
  ev_venue :: "string option"
  ev_location :: "string option"
  ev_starts_at :: "instant option"
  ev_ends_at :: "instant option"
  ev_capacity :: "int option"
  ev_cover_url :: "string option"
  ev_status :: event_status
  ev_created_by :: "uuid option"
  ev_created_at :: instant
  ev_updated_at :: instant
  ev_deleted_at :: "instant option"

definition published :: "event \<Rightarrow> bool" where
  "published e = (ev_status e = Published)"

record event_image =
  im_id :: uuid
  im_event :: uuid
  im_url :: string
  im_public_id :: string
  im_format :: string
  im_bytes :: int
  im_width :: int
  im_height :: int
  im_created_at :: instant

record stored_image =
  si_url :: string
  si_public_id :: string
  si_format :: string
  si_bytes :: int
  si_width :: int
  si_height :: int

record event_dto =
  ed_id :: uuid
  ed_title :: string
  ed_slug :: string
  ed_description :: "string option"
  ed_venue :: "string option"
  ed_location :: "string option"
  ed_starts_at :: "int option"
  ed_ends_at :: "int option"
  ed_capacity :: "int option"
  ed_cover_url :: "string option"
  ed_status :: event_status
  ed_created_at :: int
  ed_updated_at :: int

record cache_entry =
  ce_event :: uuid
  ce_payload :: event_dto
  ce_expires :: instant

record event_state = org_state +
  events :: "event list"
  images :: "event_image list"
  assets :: "string list"
  detail_cache :: "cache_entry list"

lemma event_tick [simp]:
  "events (tick w) = events w" "images (tick w) = images w" "assets (tick w) = assets w"
  "detail_cache (tick w) = detail_cache w"
  "events (rollback w w') = events w" "images (rollback w w') = images w"
  "assets (rollback w w') = assets w" "detail_cache (rollback w w') = detail_cache w"
  by (simp_all add: tick_def rollback_def)

text \<open>\<open>es_store\<close> is the storage provider: what it returns for the \<open>n\<close>-th upload of an event, given the
  bytes and the extension; \<open>es_parse_time\<close> is \<open>time.Parse(time.RFC3339, _)\<close>.\<close>

record event_service =
  es_lib :: lib
  es_app_url :: string
  es_audited :: bool
  es_enqueues :: bool
  es_storage :: bool
  es_cached :: bool
  es_plans :: bool
  es_store :: "uuid \<Rightarrow> uuid \<Rightarrow> string \<Rightarrow> string \<Rightarrow> nat \<Rightarrow> stored_image"
  es_parse_time :: "string \<Rightarrow> instant option"

section \<open>Repository\<close>

definition live_events :: "'z event_state_scheme \<Rightarrow> event list" where
  "live_events w = filter (\<lambda>e. ev_deleted_at e = None) (events w)"

definition event_dates_ok :: "instant option \<Rightarrow> instant option \<Rightarrow> bool" where
  "event_dates_ok s e = (case (s, e) of (Some a, Some b) \<Rightarrow> a < b | _ \<Rightarrow> True)"

text \<open>The CHECK constraints of the table.\<close>

definition event_row_ok :: "event \<Rightarrow> bool" where
  "event_row_ok e \<longleftrightarrow> event_dates_ok (ev_starts_at e) (ev_ends_at e) \<and>
     (case ev_capacity e of None \<Rightarrow> True | Some c \<Rightarrow> 0 < c \<and> fits32 c)"

definition repo_create_event :: "lib \<Rightarrow> event \<Rightarrow> ('z event_state_scheme, event) op" where
  "repo_create_event l e = bnd (before_create l (ev_id e)) (\<lambda>i. bnd time_now (\<lambda>now.
     let row = e\<lparr>ev_id := i, ev_created_at := now, ev_updated_at := now\<rparr> in
     bnd (write_db (\<lambda>w. if has_key ev_id i (events w) \<or>
                           list_ex (\<lambda>x. ev_org x = ev_org e \<and> ev_slug x = ev_slug e) (events w)
                        then Some UniqueViolation
                        else if \<not> event_row_ok row then Some DbError else None)
            (\<lambda>w. w\<lparr>events := events w @ [row]\<rparr>)) (\<lambda>_. ret row)))"

definition get_event_by_id :: "uuid \<Rightarrow> ('z event_state_scheme, event) op" where
  "get_event_by_id i = select_first (\<lambda>w. by_key ev_id i (live_events w))"

definition get_event_by_slug :: "uuid \<Rightarrow> string \<Rightarrow> ('z event_state_scheme, event) op" where
  "get_event_by_slug org sl = select_first (\<lambda>w. find (\<lambda>e. ev_org e = org \<and> ev_slug e = sl) (live_events w))"

text \<open>\<open>Save\<close> writes every column and stamps \<open>updated_at\<close> in the struct as well.\<close>

definition repo_update_event :: "event \<Rightarrow> ('z event_state_scheme, event) op" where
  "repo_update_event e = bnd time_now (\<lambda>now.
     let row = e\<lparr>ev_updated_at := now\<rparr> in
     bnd (write_db (\<lambda>w. if list_ex (\<lambda>x. ev_org x = ev_org e \<and> ev_slug x = ev_slug e \<and> ev_id x \<noteq> ev_id e) (events w)
                        then Some UniqueViolation
                        else if \<not> event_row_ok row then Some DbError else None)
            (\<lambda>w. w\<lparr>events := upsert ev_id row (events w)\<rparr>)) (\<lambda>_. ret row))"

definition repo_delete_event :: "uuid \<Rightarrow> ('z event_state_scheme, unit) op" where
  "repo_delete_event i = bnd time_now (\<lambda>now. write_db (\<lambda>_. None)
     (\<lambda>w. w\<lparr>events := modify (\<lambda>e. ev_id e = i \<and> ev_deleted_at e = None)
                        (\<lambda>e. e\<lparr>ev_deleted_at := Some now\<rparr>) (events w)\<rparr>))"

definition repo_create_image :: "lib \<Rightarrow> event_image \<Rightarrow> ('z event_state_scheme, event_image) op" where
  "repo_create_image l im = bnd (before_create l (im_id im)) (\<lambda>i. bnd time_now (\<lambda>now.
     let row = im\<lparr>im_id := i, im_created_at := now\<rparr> in
     bnd (write_db (\<lambda>w. if has_key im_id i (images w) then Some UniqueViolation else None)
            (\<lambda>w. w\<lparr>images := images w @ [row]\<rparr>)) (\<lambda>_. ret row)))"

definition list_images_by_event :: "uuid \<Rightarrow> ('z event_state_scheme, event_image list) op" where
  "list_images_by_event i = select (\<lambda>w. oldest_first im_created_at (filter (\<lambda>m. im_event m = i) (images w)))"

definition count_active_by_org :: "uuid \<Rightarrow> ('z event_state_scheme, int) op" where
  "count_active_by_org org = select (\<lambda>w.
     count_where (\<lambda>e. ev_org e = org \<and> ev_status e \<noteq> Cancelled) (live_events w))"

record event_filter =
  ef_org :: "uuid option"
  ef_status :: "event_status option"
  ef_from :: "instant option"
  ef_to :: "instant option"
  ef_query :: string
  ef_include_drafts :: bool

text \<open>SQL \<open>LIKE\<close>: \<open>%\<close> any text, \<open>_\<close> any character; the query is not escaped.\<close>

fun sql_like :: "string \<Rightarrow> string \<Rightarrow> bool" where
  "sql_like [] s = (s = [])"
| "sql_like (p # ps) [] = (p = CHR ''%'' \<and> sql_like ps [])"
| "sql_like (p # ps) (c # cs) =
     (if p = CHR ''%'' then sql_like ps (c # cs) \<or> sql_like (p # ps) cs
      else (p = CHR ''_'' \<or> p = c) \<and> sql_like ps cs)"

definition event_matches :: "event_filter \<Rightarrow> event \<Rightarrow> bool" where
  "event_matches f e \<longleftrightarrow>
     (ef_org f = None \<or> ef_org f = Some (ev_org e)) \<and>
     (case ef_status f of Some st \<Rightarrow> ev_status e = st
      | None \<Rightarrow> ef_include_drafts f \<or> ev_status e = Published) \<and>
     (case (ef_from f, ev_starts_at e) of (Some t, Some s) \<Rightarrow> t \<le> s | _ \<Rightarrow> True) \<and>
     (case (ef_to f, ev_starts_at e) of (Some t, Some s) \<Rightarrow> s \<le> t | _ \<Rightarrow> True) \<and>
     (let q = trim_space (ef_query f); pat = ''%'' @ to_lower q @ ''%'' in
      q = [] \<or> sql_like pat (to_lower (ev_title e)) \<or>
      (case ev_description e of None \<Rightarrow> False | Some d \<Rightarrow> sql_like pat (to_lower d)))"

definition event_order :: "string \<Rightarrow> event list \<Rightarrow> event list" where
  "event_order srt es = (let recent = newest_first ev_created_at es in
     if srt = ''created'' then recent
     else sort_key (\<lambda>e. the (ev_starts_at e)) (filter (\<lambda>e. ev_starts_at e \<noteq> None) recent)
          @ filter (\<lambda>e. ev_starts_at e = None) recent)"

definition repo_list_events :: "event_filter \<Rightarrow> int \<Rightarrow> int \<Rightarrow> string
    \<Rightarrow> ('z event_state_scheme, event list \<times> int) op" where
  "repo_list_events f limit offset srt =
     bnd (select (\<lambda>w. count_where (event_matches f) (live_events w))) (\<lambda>total.
     bnd (select (\<lambda>w. page_of limit offset (event_order srt (filter (event_matches f) (live_events w))))) (\<lambda>es.
     ret (es, total)))"

section \<open>Cache and storage\<close>

definition public_event_ttl :: int where
  "public_event_ttl = 60 * seconds"

definition cache_get :: "uuid \<Rightarrow> ('z event_state_scheme, event_dto option) op" where
  "cache_get i = select (\<lambda>w.
     map_option ce_payload (find (\<lambda>c. ce_event c = i \<and> clock w < ce_expires c) (detail_cache w)))"

definition cache_set :: "uuid \<Rightarrow> event_dto \<Rightarrow> int \<Rightarrow> ('z event_state_scheme, unit) op" where
  "cache_set i d ttl = write_db (\<lambda>_. None) (\<lambda>w. w\<lparr>detail_cache :=
     \<lparr>ce_event = i, ce_payload = d, ce_expires = clock w + ttl\<rparr>
       # filter (\<lambda>c. ce_event c \<noteq> i) (detail_cache w)\<rparr>)"

definition cache_del :: "uuid \<Rightarrow> ('z event_state_scheme, unit) op" where
  "cache_del i = write_db (\<lambda>_. None)
     (\<lambda>w. w\<lparr>detail_cache := filter (\<lambda>c. ce_event c \<noteq> i) (detail_cache w)\<rparr>)"

definition purge_public_event :: "event_service \<Rightarrow> uuid \<Rightarrow> ('z event_state_scheme, unit) op" where
  "purge_public_event s i = (if \<not> es_cached s then ret ()
     else bnd (attempt (cache_del i)) (\<lambda>_. ret ()))"

text \<open>An upload draws a fresh name, so the provider's answer depends on how many there were.\<close>

definition storage_save_image :: "event_service \<Rightarrow> uuid \<Rightarrow> uuid \<Rightarrow> string \<Rightarrow> string
    \<Rightarrow> ('z event_state_scheme, stored_image) op" where
  "storage_save_image s org ev bytes ext =
     bnd (draw_bytes (es_lib s) 16) (\<lambda>_. bnd (gets drawn_tokens) (\<lambda>n.
     let st = es_store s org ev bytes ext n in
     bnd (write_db (\<lambda>_. None) (\<lambda>w. w\<lparr>assets := si_url st # assets w\<rparr>)) (\<lambda>_. ret st)))"

definition storage_delete :: "string \<Rightarrow> ('z event_state_scheme, unit) op" where
  "storage_delete url = write_db (\<lambda>_. None) (\<lambda>w. w\<lparr>assets := filter (\<lambda>a. a \<noteq> url) (assets w)\<rparr>)"

definition delete_cover :: "event_service \<Rightarrow> string \<Rightarrow> ('z event_state_scheme, unit) op" where
  "delete_cover s url = (if \<not> es_storage s \<or> url = [] then ret ()
     else bnd (attempt (storage_delete url)) (\<lambda>_. ret ()))"

section \<open>Create and read\<close>

definition es_emit :: "event_service \<Rightarrow> audit_entry \<Rightarrow> ('z event_state_scheme, unit) op" where
  "es_emit s e = emit (es_lib s) (es_audited s) e"

definition check_dates :: "instant option \<Rightarrow> instant option \<Rightarrow> ('z event_state_scheme, unit) op" where
  "check_dates starts ends = guard (event_dates_ok starts ends) (EventE event_err.ErrInvalidDates)"

definition to_event :: "event \<Rightarrow> event_dto" where
  "to_event e = \<lparr>ed_id = ev_id e, ed_title = ev_title e, ed_slug = ev_slug e,
     ed_description = ev_description e, ed_venue = ev_venue e, ed_location = ev_location e,
     ed_starts_at = format_time_ptr (ev_starts_at e), ed_ends_at = format_time_ptr (ev_ends_at e),
     ed_capacity = ev_capacity e, ed_cover_url = ev_cover_url e, ed_status = ev_status e,
     ed_created_at = format_time (ev_created_at e), ed_updated_at = format_time (ev_updated_at e)\<rparr>"

definition event_org_of_ref :: "event_service \<Rightarrow> string \<Rightarrow> ('z event_state_scheme, uuid) op" where
  "event_org_of_ref s orgref = on_error (resolve_org_id (es_lib s) orgref) (\<lambda>_. EventE event_err.ErrOrgUnresolved)"

definition resolve_event :: "lib \<Rightarrow> uuid \<Rightarrow> string \<Rightarrow> ('z event_state_scheme, event) op" where
  "resolve_event l org ref0 = (let r = trim_space ref0 in
     case uuid_parse l r of
       Some i \<Rightarrow> bnd (on_error (get_event_by_id i) (not_found_as (EventE event_err.ErrEventNotFound))) (\<lambda>e.
                bnd (guard (ev_org e = org) (EventE event_err.ErrEventNotFound)) (\<lambda>_. ret e))
     | None \<Rightarrow> on_error (get_event_by_slug org (to_lower r)) (not_found_as (EventE event_err.ErrEventNotFound)))"

fun probe_event_slugs :: "lib \<Rightarrow> uuid \<Rightarrow> string \<Rightarrow> nat list \<Rightarrow> ('z event_state_scheme, string) op" where
  "probe_event_slugs l org base [] = bnd (generate_raw_token l 3) (\<lambda>raw. ret (slug_random base raw))"
| "probe_event_slugs l org base (i # is) =
     bnd (attempt (get_event_by_slug org (slug_numbered base i))) (\<lambda>r. case r of
       Inl e \<Rightarrow> (if e = RecordNotFound then ret (slug_numbered base i) else fail e)
     | Inr _ \<Rightarrow> probe_event_slugs l org base is)"

definition unique_event_slug :: "lib \<Rightarrow> uuid \<Rightarrow> string \<Rightarrow> ('z event_state_scheme, string) op" where
  "unique_event_slug l org base = bnd (attempt (get_event_by_slug org base)) (\<lambda>r. case r of
       Inl e \<Rightarrow> (if e = RecordNotFound then ret base else fail e)
     | Inr _ \<Rightarrow> probe_event_slugs l org base [2..<100])"

record create_input =
  ci_title :: string
  ci_slug :: string
  ci_description :: "string option"
  ci_venue :: "string option"
  ci_location :: "string option"
  ci_starts_at :: "instant option"
  ci_ends_at :: "instant option"
  ci_capacity :: "int option"

definition create_event_tx :: "event_service \<Rightarrow> uuid \<Rightarrow> event \<Rightarrow> ('z event_state_scheme, event) op" where
  "create_event_tx s creator e = tx (
     bnd (repo_create_event (es_lib s) e) (\<lambda>row.
     bnd (es_emit s (entry (Some (ev_org e)) (Some creator) ''event.created'' ''event'' (Some (ev_id row))
            [] [(''title'', AStr (ev_title e)), (''slug'', AStr (ev_slug e))])) (\<lambda>_.
     ret row)))"

fun create_event_loop :: "nat \<Rightarrow> event_service \<Rightarrow> uuid \<Rightarrow> bool \<Rightarrow> string \<Rightarrow> event
    \<Rightarrow> ('z event_state_scheme, event_dto) op" where
  "create_event_loop 0 s creator auto base e = fail (EventE event_err.ErrSlugTaken)"
| "create_event_loop (Suc n) s creator auto base e =
     bnd (if auto then unique_event_slug (es_lib s) (ev_org e) base else ret base) (\<lambda>slug.
     bnd (before_create (es_lib s) (ev_id e)) (\<lambda>i.
     bnd (attempt (create_event_tx s creator (e\<lparr>ev_slug := slug, ev_id := i\<rparr>))) (\<lambda>r. case r of
       Inr row \<Rightarrow> ret (to_event row)
     | Inl x \<Rightarrow> (if x \<noteq> UniqueViolation \<or> \<not> auto
                then fail (unique_as (EventE event_err.ErrSlugTaken) x)
                else create_event_loop n s creator auto base (e\<lparr>ev_slug := slug, ev_id := i\<rparr>)))))"

definition create_event :: "event_service \<Rightarrow> uuid \<Rightarrow> string \<Rightarrow> create_input
    \<Rightarrow> ('z event_state_scheme, event_dto) op" where
  "create_event s creator orgref inp =
     bnd (event_org_of_ref s orgref) (\<lambda>org.
     let title = trim_space (ci_title inp) in
     bnd (guard (title \<noteq> []) (EventE event_err.ErrInvalidTitle)) (\<lambda>_.
     bnd (count_active_by_org org) (\<lambda>n.
     bnd (entitlement_or_free (es_plans s) org) (\<lambda>ent.
     bnd (guard (\<not> n \<ge> max_events (en_limits ent)) (SubE sub_err.ErrUpgradeRequired)) (\<lambda>_.
     bnd (check_dates (ci_starts_at inp) (ci_ends_at inp)) (\<lambda>_.
     bnd (guard (case ci_capacity inp of None \<Rightarrow> True | Some c \<Rightarrow> \<not> c \<le> 0) (EventE event_err.ErrInvalidCap)) (\<lambda>_.
     let auto = (trim_space (ci_slug inp) = []);
         base = (if auto then (if slugify title = [] then ''event'' else slugify title)
                 else to_lower (trim_space (ci_slug inp))) in
     bnd (guard (auto \<or> slug_re base) (EventE event_err.ErrInvalidSlug)) (\<lambda>_.
     create_event_loop 4 s creator auto base
       \<lparr>ev_id = uuid_nil, ev_org = org, ev_title = title, ev_slug = [],
        ev_description = ci_description inp, ev_venue = ci_venue inp, ev_location = ci_location inp,
        ev_starts_at = ci_starts_at inp, ev_ends_at = ci_ends_at inp, ev_capacity = ci_capacity inp,
        ev_cover_url = None, ev_status = Draft, ev_created_by = Some creator,
        ev_created_at = 0, ev_updated_at = 0, ev_deleted_at = None\<rparr>))))))))"

definition get_event :: "event_service \<Rightarrow> uuid option \<Rightarrow> string \<Rightarrow> string
    \<Rightarrow> ('z event_state_scheme, event_dto) op" where
  "get_event s caller orgref eventref =
     bnd (event_org_of_ref s orgref) (\<lambda>org.
     bnd (resolve_event (es_lib s) org eventref) (\<lambda>e.
     if published e then ret (to_event e)
     else (case caller of None \<Rightarrow> fail (EventE event_err.ErrEventNotFound)
           | Some u \<Rightarrow> bnd (is_member u org) (\<lambda>m.
               bnd (guard m (EventE event_err.ErrEventNotFound)) (\<lambda>_. ret (to_event e))))))"

definition get_public_event :: "event_service \<Rightarrow> uuid \<Rightarrow> ('z event_state_scheme, event_dto) op" where
  "get_public_event s i =
     bnd (if es_cached s then bnd (attempt (cache_get i)) (\<lambda>r. ret (case r of Inl _ \<Rightarrow> None | Inr c \<Rightarrow> c))
          else ret None) (\<lambda>hit. case hit of
       Some d \<Rightarrow> ret d
     | None \<Rightarrow>
         bnd (on_error (get_event_by_id i) (not_found_as (EventE event_err.ErrEventNotFound))) (\<lambda>e.
         bnd (guard (published e) (EventE event_err.ErrEventNotFound)) (\<lambda>_.
         bnd (if es_cached s then bnd (attempt (cache_set i (to_event e) public_event_ttl)) (\<lambda>_. ret ())
              else ret ()) (\<lambda>_.
         ret (to_event e)))))"

record wire_filter =
  wf_org :: "string option"
  wf_status :: "string option"
  wf_from :: "string option"
  wf_to :: "string option"
  wf_query :: string

definition parse_filter :: "event_service \<Rightarrow> wire_filter \<Rightarrow> uuid option \<Rightarrow> bool
    \<Rightarrow> ('z event_state_scheme, event_filter) op" where
  "parse_filter s f org drafts =
     bnd (case org of Some i \<Rightarrow> ret (Some i)
          | None \<Rightarrow> (case wf_org f of None \<Rightarrow> ret None
              | Some r \<Rightarrow> bnd (event_org_of_ref s r) (\<lambda>i. ret (Some i)))) (\<lambda>oid.
     bnd (case wf_status f of None \<Rightarrow> ret None
          | Some t \<Rightarrow> (case event_status_of (to_upper (trim_space t)) of
                None \<Rightarrow> fail (EventE event_err.ErrEventNotFound) | Some st \<Rightarrow> ret (Some st))) (\<lambda>st.
     bnd (case wf_from f of None \<Rightarrow> ret None
          | Some t \<Rightarrow> (case es_parse_time s t of
                None \<Rightarrow> fail (EventE event_err.ErrEventNotFound) | Some x \<Rightarrow> ret (Some x))) (\<lambda>from.
     bnd (case wf_to f of None \<Rightarrow> ret None
          | Some t \<Rightarrow> (case es_parse_time s t of
                None \<Rightarrow> fail (EventE event_err.ErrEventNotFound) | Some x \<Rightarrow> ret (Some x))) (\<lambda>until.
     ret \<lparr>ef_org = oid, ef_status = st, ef_from = from, ef_to = until, ef_query = wf_query f,
          ef_include_drafts = drafts\<rparr>))))"

definition list_events :: "event_filter \<Rightarrow> int \<Rightarrow> int \<Rightarrow> string
    \<Rightarrow> ('z event_state_scheme, event_dto list \<times> int) op" where
  "list_events f limit offset srt = bnd (repo_list_events f limit offset srt) (\<lambda>(es, total).
     ret (map to_event es, total))"

definition list_public :: "event_service \<Rightarrow> wire_filter \<Rightarrow> int \<Rightarrow> int \<Rightarrow> string
    \<Rightarrow> ('z event_state_scheme, event_dto list \<times> int) op" where
  "list_public s f limit offset srt =
     bnd (parse_filter s f None False) (\<lambda>rf. list_events rf limit offset srt)"

definition list_org_events :: "event_service \<Rightarrow> string \<Rightarrow> wire_filter \<Rightarrow> int \<Rightarrow> int \<Rightarrow> string
    \<Rightarrow> ('z event_state_scheme, event_dto list \<times> int) op" where
  "list_org_events s orgref f limit offset srt =
     bnd (event_org_of_ref s orgref) (\<lambda>org.
     bnd (parse_filter s f (Some org) True) (\<lambda>rf. list_events rf limit offset srt))"

section \<open>Update and lifecycle\<close>

record update_input =
  ui_title :: "string option"
  ui_slug :: "string option"
  ui_description :: "string option"
  ui_venue :: "string option"
  ui_location :: "string option"
  ui_starts_at :: "instant option"
  ui_ends_at :: "instant option"
  ui_capacity :: "int option"
  ui_clear_cover :: bool

definition event_snapshot :: "event \<Rightarrow> diff" where
  "event_snapshot e =
     [(''title'', AStr (ev_title e)), (''slug'', AStr (ev_slug e)),
      (''status'', AStr (event_status_text (ev_status e)))]
     @ (case ev_venue e of None \<Rightarrow> [] | Some v \<Rightarrow> [(''venue'', AStr v)])
     @ (case ev_capacity e of None \<Rightarrow> [] | Some c \<Rightarrow> [(''capacity'', AInt c)])"

definition diff_before :: "diff \<Rightarrow> diff \<Rightarrow> diff" where
  "diff_before prior after = filter (\<lambda>(k, b). map_of after k \<noteq> Some b) prior"

definition diff_after :: "diff \<Rightarrow> diff \<Rightarrow> diff" where
  "diff_after prior after = filter (\<lambda>(k, a). map_of prior k \<noteq> Some a) after"

definition save_with_audit :: "event_service \<Rightarrow> uuid \<Rightarrow> uuid \<Rightarrow> event \<Rightarrow> diff
    \<Rightarrow> ('z event_state_scheme, event) op" where
  "save_with_audit s actor org e prior = (let after = event_snapshot e in
     tx (bnd (on_error (repo_update_event e) (unique_as (EventE event_err.ErrSlugTaken))) (\<lambda>row.
         bnd (es_emit s (entry (Some org) (Some actor) ''event.updated'' ''event'' (Some (ev_id e))
                (diff_before prior after) (diff_after prior after))) (\<lambda>_.
         ret row))))"

text \<open>\<open>x := new\<close> when a field is given.\<close>

definition given :: "'a option \<Rightarrow> 'a \<Rightarrow> 'a" where
  "given new old = (case new of None \<Rightarrow> old | Some x \<Rightarrow> x)"

definition given_opt :: "'a option \<Rightarrow> 'a option \<Rightarrow> 'a option" where
  "given_opt new old = (case new of None \<Rightarrow> old | Some x \<Rightarrow> Some x)"

definition update_event :: "event_service \<Rightarrow> uuid \<Rightarrow> string \<Rightarrow> string \<Rightarrow> update_input
    \<Rightarrow> ('z event_state_scheme, event_dto) op" where
  "update_event s actor orgref eventref inp =
     bnd (event_org_of_ref s orgref) (\<lambda>org.
     bnd (resolve_event (es_lib s) org eventref) (\<lambda>e0.
     let prior = event_snapshot e0 in
     bnd (guard (case ui_title inp of None \<Rightarrow> True | Some t \<Rightarrow> trim_space t \<noteq> [])
            (EventE event_err.ErrInvalidTitle)) (\<lambda>_.
     let slug = map_option (\<lambda>t. to_lower (trim_space t)) (ui_slug inp) in
     bnd (guard (case slug of None \<Rightarrow> True | Some t \<Rightarrow> slug_re t) (EventE event_err.ErrInvalidSlug)) (\<lambda>_.
     let starts = given_opt (ui_starts_at inp) (ev_starts_at e0);
         ends = given_opt (ui_ends_at inp) (ev_ends_at e0) in
     bnd (check_dates starts ends) (\<lambda>_.
     bnd (guard (case ui_capacity inp of None \<Rightarrow> True | Some c \<Rightarrow> \<not> c \<le> 0)
            (EventE event_err.ErrInvalidCap)) (\<lambda>_.
     let e = e0\<lparr>ev_title := given (map_option trim_space (ui_title inp)) (ev_title e0),
                ev_slug := given slug (ev_slug e0),
                ev_description := given_opt (ui_description inp) (ev_description e0),
                ev_venue := given_opt (ui_venue inp) (ev_venue e0),
                ev_location := given_opt (ui_location inp) (ev_location e0),
                ev_starts_at := starts, ev_ends_at := ends,
                ev_capacity := given_opt (ui_capacity inp) (ev_capacity e0)\<rparr> in
     if ui_clear_cover inp then
       (let old = (case ev_cover_url e of None \<Rightarrow> [] | Some u \<Rightarrow> u) in
        bnd (save_with_audit s actor org (e\<lparr>ev_cover_url := None\<rparr>) prior) (\<lambda>row.
        bnd (if old \<noteq> [] then delete_cover s old else ret ()) (\<lambda>_.
        bnd (purge_public_event s (ev_id e)) (\<lambda>_.
        ret (to_event row)))))
     else
        bnd (save_with_audit s actor org e prior) (\<lambda>row.
        bnd (purge_public_event s (ev_id e)) (\<lambda>_.
        ret (to_event row)))))))))"

definition publish_event :: "event_service \<Rightarrow> uuid \<Rightarrow> string \<Rightarrow> string
    \<Rightarrow> ('z event_state_scheme, event_dto) op" where
  "publish_event s actor orgref eventref =
     bnd (event_org_of_ref s orgref) (\<lambda>org.
     bnd (resolve_event (es_lib s) org eventref) (\<lambda>e0.
     bnd (guard (ev_status e0 = Draft) (EventE event_err.ErrInvalidStatus)) (\<lambda>_.
     let e = e0\<lparr>ev_status := Published\<rparr> in
     bnd (notify_targets org) (\<lambda>targets.
     bnd (org_name org) (\<lambda>name.
     bnd (tx (
       bnd (repo_update_event e) (\<lambda>row.
       bnd (es_emit s (entry (Some org) (Some actor) ''event.published'' ''event'' (Some (ev_id e))
              [(''status'', AStr ''DRAFT'')] [(''status'', AStr ''PUBLISHED'')])) (\<lambda>_.
       bnd (for_each (\<lambda>t. enqueue_tx (es_enqueues s)
              (SendEventPublishedEmail (ev_id e) (ev_title e) name (mn_email t) (mn_name t)
                (es_app_url s @ ''/events/'' @ uuid_text (es_lib s) (ev_id e)))) targets) (\<lambda>_.
       ret row))))) (\<lambda>row.
     bnd (purge_public_event s (ev_id e)) (\<lambda>_.
     ret (to_event row))))))))"

definition transition_event :: "event_service \<Rightarrow> uuid \<Rightarrow> string \<Rightarrow> string \<Rightarrow> event_status \<Rightarrow> event_status
    \<Rightarrow> ('z event_state_scheme, event_dto) op" where
  "transition_event s actor orgref eventref from to =
     bnd (event_org_of_ref s orgref) (\<lambda>org.
     bnd (resolve_event (es_lib s) org eventref) (\<lambda>e0.
     bnd (guard (ev_status e0 = from) (EventE event_err.ErrInvalidStatus)) (\<lambda>_.
     let e = e0\<lparr>ev_status := to\<rparr>;
         action = (if to = Cancelled then ''event.cancelled'' else ''event.unpublished'') in
     bnd (tx (
       bnd (repo_update_event e) (\<lambda>row.
       bnd (es_emit s (entry (Some org) (Some actor) action ''event'' (Some (ev_id e))
              [(''status'', AStr (event_status_text from))] [(''status'', AStr (event_status_text to))])) (\<lambda>_.
       ret row)))) (\<lambda>row.
     bnd (purge_public_event s (ev_id e)) (\<lambda>_.
     ret (to_event row))))))"

definition unpublish_event :: "event_service \<Rightarrow> uuid \<Rightarrow> string \<Rightarrow> string
    \<Rightarrow> ('z event_state_scheme, event_dto) op" where
  "unpublish_event s actor orgref eventref = transition_event s actor orgref eventref Published Draft"

definition cancel_event :: "event_service \<Rightarrow> uuid \<Rightarrow> string \<Rightarrow> string
    \<Rightarrow> ('z event_state_scheme, event_dto) op" where
  "cancel_event s actor orgref eventref = transition_event s actor orgref eventref Published Cancelled"

definition delete_event :: "event_service \<Rightarrow> uuid \<Rightarrow> string \<Rightarrow> string \<Rightarrow> ('z event_state_scheme, unit) op" where
  "delete_event s actor orgref eventref =
     bnd (event_org_of_ref s orgref) (\<lambda>org.
     bnd (resolve_event (es_lib s) org eventref) (\<lambda>e.
     bnd (attempt (list_images_by_event (ev_id e))) (\<lambda>r.
     let covers = (case ev_cover_url e of Some u \<Rightarrow> if u \<noteq> [] then [u] else [] | None \<Rightarrow> []);
         urls = covers @ (case r of Inl _ \<Rightarrow> [] | Inr ims \<Rightarrow> map im_url ims) in
     bnd (tx (
       bnd (es_emit s (entry (Some org) (Some actor) ''event.deleted'' ''event'' (Some (ev_id e))
              [(''title'', AStr (ev_title e)), (''slug'', AStr (ev_slug e))] [])) (\<lambda>_.
       repo_delete_event (ev_id e)))) (\<lambda>_.
     bnd (purge_public_event s (ev_id e)) (\<lambda>_.
     bnd (for_each (delete_cover s) urls) (\<lambda>_. ret ()))))))"

section \<open>Gallery and covers\<close>

definition max_cover_bytes :: int where
  "max_cover_bytes = 5 * 2 ^ 20"

definition max_gallery_files :: nat where
  "max_gallery_files = 10"

definition allowed_cover_type :: "string \<Rightarrow> string option" where
  "allowed_cover_type t = (if t = ''image/jpeg'' then Some ''.jpg''
     else if t = ''image/png'' then Some ''.png'' else if t = ''image/webp'' then Some ''.webp'' else None)"

definition check_cover :: "int \<Rightarrow> string \<Rightarrow> ('z event_state_scheme, string) op" where
  "check_cover sz content_type =
     bnd (guard (\<not> sz \<le> 0) (EventE event_err.ErrCoverRequired)) (\<lambda>_.
     bnd (guard (\<not> sz > max_cover_bytes) (EventE event_err.ErrCoverTooLarge)) (\<lambda>_.
     the_or_fail (EventE event_err.ErrCoverType) (allowed_cover_type content_type)))"

record gallery_upload =
  gu_data :: string
  gu_size :: int
  gu_type :: string

definition cleanup_staged :: "event_service \<Rightarrow> stored_image list \<Rightarrow> ('z event_state_scheme, unit) op" where
  "cleanup_staged s staged = bnd (for_each (\<lambda>st. delete_cover s (si_url st)) staged) (\<lambda>_. ret ())"

text \<open>The upload loop: a refused or failed file removes what was staged before it.\<close>

fun stage_uploads :: "event_service \<Rightarrow> uuid \<Rightarrow> uuid \<Rightarrow> stored_image list \<Rightarrow> gallery_upload list
    \<Rightarrow> ('z event_state_scheme, stored_image list) op" where
  "stage_uploads s org i staged [] = ret staged"
| "stage_uploads s org i staged (up # ups) =
     bnd (attempt (bnd (check_cover (gu_size up) (gu_type up)) (\<lambda>ext.
            storage_save_image s org i (gu_data up) ext))) (\<lambda>r. case r of
       Inl x \<Rightarrow> bnd (cleanup_staged s staged) (\<lambda>_. fail x)
     | Inr st \<Rightarrow> stage_uploads s org i (staged @ [st]) ups)"

definition image_row :: "uuid \<Rightarrow> stored_image \<Rightarrow> event_image" where
  "image_row i st = \<lparr>im_id = uuid_nil, im_event = i, im_url = si_url st, im_public_id = si_public_id st,
     im_format = si_format st, im_bytes = si_bytes st, im_width = si_width st, im_height = si_height st,
     im_created_at = 0\<rparr>"

record image_dto =
  id_id :: uuid
  id_url :: string
  id_public_id :: string
  id_format :: string
  id_bytes :: int
  id_width :: int
  id_height :: int
  id_created_at :: int

definition to_event_image :: "event_image \<Rightarrow> image_dto" where
  "to_event_image m = \<lparr>id_id = im_id m, id_url = im_url m, id_public_id = im_public_id m,
     id_format = im_format m, id_bytes = im_bytes m, id_width = im_width m, id_height = im_height m,
     id_created_at = format_time (im_created_at m)\<rparr>"

definition add_gallery_images :: "event_service \<Rightarrow> string \<Rightarrow> string \<Rightarrow> gallery_upload list
    \<Rightarrow> ('z event_state_scheme, image_dto list) op" where
  "add_gallery_images s orgref eventref uploads =
     bnd (guard (es_storage s) (EventE event_err.ErrCoverRequired)) (\<lambda>_.
     bnd (guard (uploads \<noteq> []) (EventE event_err.ErrCoverRequired)) (\<lambda>_.
     bnd (guard (\<not> length uploads > max_gallery_files) (EventE event_err.ErrTooManyFiles)) (\<lambda>_.
     bnd (event_org_of_ref s orgref) (\<lambda>org.
     bnd (resolve_event (es_lib s) org eventref) (\<lambda>e.
     bnd (stage_uploads s org (ev_id e) [] uploads) (\<lambda>staged.
     let cloned = (ev_cover_url e = None \<or> ev_cover_url e = Some []) in
     bnd (attempt (tx (
       bnd (for_each (\<lambda>st. repo_create_image (es_lib s) (image_row (ev_id e) st)) staged) (\<lambda>rows.
       bnd (if cloned then bnd (repo_update_event (e\<lparr>ev_cover_url := Some (im_url (hd rows))\<rparr>)) (\<lambda>_. ret ())
            else ret ()) (\<lambda>_.
       ret rows))))) (\<lambda>r. case r of
         Inl x \<Rightarrow> bnd (cleanup_staged s staged) (\<lambda>_. fail x)
       | Inr rows \<Rightarrow>
           bnd (if cloned then purge_public_event s (ev_id e) else ret ()) (\<lambda>_.
           ret (map to_event_image rows)))))))))"

definition list_images :: "event_service \<Rightarrow> string \<Rightarrow> string \<Rightarrow> ('z event_state_scheme, image_dto list) op" where
  "list_images s orgref eventref =
     bnd (event_org_of_ref s orgref) (\<lambda>org.
     bnd (resolve_event (es_lib s) org eventref) (\<lambda>e.
     bnd (list_images_by_event (ev_id e)) (\<lambda>ims. ret (map to_event_image ims))))"

definition list_org_assets :: "uuid \<Rightarrow> ('z event_state_scheme, string list) op" where
  "list_org_assets org =
     bnd (repo_list_events \<lparr>ef_org = Some org, ef_status = None, ef_from = None, ef_to = None,
            ef_query = [], ef_include_drafts = True\<rparr> 100000 0 []) (\<lambda>(es, _).
     bnd (for_each (\<lambda>e. bnd (list_images_by_event (ev_id e)) (\<lambda>ims.
            ret ((case ev_cover_url e of Some u \<Rightarrow> if u \<noteq> [] then [u] else [] | None \<Rightarrow> [])
                 @ map im_url ims))) es) (\<lambda>urls.
     ret (concat urls)))"

definition delete_org_assets :: "event_service \<Rightarrow> uuid \<Rightarrow> ('z event_state_scheme, unit) op" where
  "delete_org_assets s org = bnd (list_org_assets org) (\<lambda>urls.
     bnd (for_each (delete_cover s) urls) (\<lambda>_. ret ()))"

definition set_cover :: "event_service \<Rightarrow> string \<Rightarrow> string \<Rightarrow> string \<Rightarrow> int \<Rightarrow> string
    \<Rightarrow> ('z event_state_scheme, event_dto) op" where
  "set_cover s orgref eventref bytes sz content_type =
     bnd (guard (es_storage s) (EventE event_err.ErrCoverRequired)) (\<lambda>_.
     bnd (event_org_of_ref s orgref) (\<lambda>org.
     bnd (resolve_event (es_lib s) org eventref) (\<lambda>e.
     bnd (check_cover sz content_type) (\<lambda>ext.
     bnd (storage_save_image s org (ev_id e) bytes ext) (\<lambda>st.
     let old = (case ev_cover_url e of None \<Rightarrow> [] | Some u \<Rightarrow> u); url = si_url st in
     bnd (attempt (repo_update_event (e\<lparr>ev_cover_url := Some url\<rparr>))) (\<lambda>r. case r of
         Inl x \<Rightarrow> bnd (delete_cover s url) (\<lambda>_. fail x)
       | Inr row \<Rightarrow>
           bnd (if old \<noteq> [] \<and> old \<noteq> url then delete_cover s old else ret ()) (\<lambda>_.
           bnd (purge_public_event s (ev_id e)) (\<lambda>_.
           ret (to_event row)))))))))"

section \<open>Cross-domain reads\<close>

definition org_of :: "uuid \<Rightarrow> ('z event_state_scheme, uuid) op" where
  "org_of i = bnd (on_error (get_event_by_id i) (not_found_as (EventE event_err.ErrEventNotFound)))
     (\<lambda>e. ret (ev_org e))"

definition event_title :: "uuid \<Rightarrow> ('z event_state_scheme, string) op" where
  "event_title i = bnd (on_error (get_event_by_id i) (not_found_as (EventE event_err.ErrEventNotFound)))
     (\<lambda>e. ret (ev_title e))"

definition resolve_event_id :: "lib \<Rightarrow> uuid \<Rightarrow> string \<Rightarrow> ('z event_state_scheme, uuid) op" where
  "resolve_event_id l org ref0 = bnd (resolve_event l org ref0) (\<lambda>e. ret (ev_id e))"

end
