(* ===== verification/Ticketing.thy ===== *)
theory Ticketing
  imports Event
begin

text \<open>
  Ticket types (\<open>internal/ticketing\<close>: model, repository, \<open>ticket_service.go\<close>, \<open>eventadapter.go\<close>): the
  priced admission tiers of an event and their inventory. \<open>reserve_tx\<close> and \<open>release_tx\<close> are the only
  operations that move \<open>quantity_sold\<close>; the edits read the row, check it and write all of it back, so
  their reading and writing halves are named separately. The facts are in \<open>Inventory\<close>.
\<close>

section \<open>Rows\<close>

datatype ticket_status = TicketDraft | TicketActive | TicketPaused

fun ticket_status_text :: "ticket_status \<Rightarrow> string" where
  "ticket_status_text TicketDraft = ''DRAFT''"
| "ticket_status_text TicketActive = ''ACTIVE''"
| "ticket_status_text TicketPaused = ''PAUSED''"

record ticket_type =
  tt_id :: uuid
  tt_event :: uuid
  tt_name :: string
  tt_description :: "string option"
  tt_price_cents :: int
  tt_currency :: string
  tt_total :: int
  tt_sold :: int
  tt_max_per_order :: "int option"
  tt_sale_starts :: "instant option"
  tt_sale_ends :: "instant option"
  tt_status :: ticket_status
  tt_created_at :: instant
  tt_updated_at :: instant
  tt_deleted_at :: "instant option"

definition sold_out :: "ticket_type \<Rightarrow> bool" where
  "sold_out t = (tt_sold t \<ge> tt_total t)"

definition remaining :: "ticket_type \<Rightarrow> int" where
  "remaining t = (let r = wrap64 (tt_total t - tt_sold t) in if r > 0 then r else 0)"

record ticket_state = event_state +
  ticket_types :: "ticket_type list"

lemma ticket_tick [simp]:
  "ticket_types (tick w) = ticket_types w" "ticket_types (rollback w w') = ticket_types w"
  by (simp_all add: tick_def rollback_def)

record ticket_service =
  ts_lib :: lib
  ts_events :: event_service
  ts_audited :: bool

section \<open>Repository\<close>

definition tt_live :: "ticket_type \<Rightarrow> bool" where
  "tt_live t = (tt_deleted_at t = None)"

definition live_types :: "'z ticket_state_scheme \<Rightarrow> ticket_type list" where
  "live_types w = filter tt_live (ticket_types w)"

text \<open>The CHECK constraints and the range of the \<open>INTEGER\<close> columns.\<close>

definition tt_row_ok :: "ticket_type \<Rightarrow> bool" where
  "tt_row_ok t \<longleftrightarrow> 0 \<le> tt_price_cents t \<and> fits32 (tt_price_cents t) \<and>
     0 < tt_total t \<and> fits32 (tt_total t) \<and> 0 \<le> tt_sold t \<and> fits32 (tt_sold t) \<and>
     (case tt_max_per_order t of None \<Rightarrow> True | Some m \<Rightarrow> 0 < m \<and> fits32 m) \<and>
     event_dates_ok (tt_sale_starts t) (tt_sale_ends t)"

definition repo_create_type :: "lib \<Rightarrow> ticket_type \<Rightarrow> ('z ticket_state_scheme, ticket_type) op" where
  "repo_create_type l t = bnd (before_create l (tt_id t)) (\<lambda>i. bnd time_now (\<lambda>now.
     let row = t\<lparr>tt_id := i, tt_created_at := now, tt_updated_at := now\<rparr> in
     bnd (write_db (\<lambda>w. if has_key tt_id i (ticket_types w) then Some UniqueViolation
                        else if \<not> tt_row_ok row then Some DbError else None)
            (\<lambda>w. w\<lparr>ticket_types := ticket_types w @ [row]\<rparr>)) (\<lambda>_. ret row)))"

definition get_type_by_id :: "uuid \<Rightarrow> ('z ticket_state_scheme, ticket_type) op" where
  "get_type_by_id i = select_first (\<lambda>w. by_key tt_id i (live_types w))"

definition list_types_by_event :: "uuid \<Rightarrow> bool \<Rightarrow> ('z ticket_state_scheme, ticket_type list) op" where
  "list_types_by_event ev drafts = select (\<lambda>w. oldest_first tt_created_at
     (filter (\<lambda>t. tt_event t = ev \<and> (drafts \<or> tt_status t = TicketActive)) (live_types w)))"

definition repo_update_type :: "ticket_type \<Rightarrow> ('z ticket_state_scheme, unit) op" where
  "repo_update_type t = bnd time_now (\<lambda>now.
     write_db (\<lambda>_. if tt_row_ok t then None else Some DbError)
       (\<lambda>w. w\<lparr>ticket_types := upsert tt_id (t\<lparr>tt_updated_at := now\<rparr>) (ticket_types w)\<rparr>))"

definition repo_delete_type :: "uuid \<Rightarrow> ('z ticket_state_scheme, unit) op" where
  "repo_delete_type i = bnd time_now (\<lambda>now. write_db (\<lambda>_. None)
     (\<lambda>w. w\<lparr>ticket_types := modify (\<lambda>t. tt_id t = i \<and> tt_live t)
                              (\<lambda>t. t\<lparr>tt_deleted_at := Some now\<rparr>) (ticket_types w)\<rparr>))"

definition lock_type :: "uuid \<Rightarrow> ('z ticket_state_scheme, ticket_type) op" where
  "lock_type i = select_first (\<lambda>w. by_key tt_id i (live_types w))"

text \<open>\<open>UPDATE ... SET quantity_sold = quantity_sold + n\<close>: refused by the CHECK on \<open>quantity_sold\<close> and by
  the range of the column and of the parameter.\<close>

definition add_sold :: "uuid \<Rightarrow> int \<Rightarrow> ('z ticket_state_scheme, unit) op" where
  "add_sold i n = bnd time_now (\<lambda>now.
     write_db (\<lambda>w. if \<not> fits32 n \<or>
                      list_ex (\<lambda>t. tt_id t = i \<and> tt_live t \<and> \<not> (0 \<le> tt_sold t + n \<and> fits32 (tt_sold t + n)))
                        (ticket_types w)
                   then Some DbError else None)
       (\<lambda>w. w\<lparr>ticket_types := modify (\<lambda>t. tt_id t = i \<and> tt_live t)
              (\<lambda>t. t\<lparr>tt_sold := tt_sold t + n, tt_updated_at := now\<rparr>) (ticket_types w)\<rparr>))"

definition allocated_total :: "uuid \<Rightarrow> uuid option \<Rightarrow> ('z ticket_state_scheme, int) op" where
  "allocated_total ev excl = select (\<lambda>w.
     sum_where (\<lambda>t. tt_event t = ev \<and> excl \<noteq> Some (tt_id t)) tt_total (live_types w))"

section \<open>Events as ticketing sees them\<close>

record event_info =
  ei_id :: uuid
  ei_status :: event_status
  ei_capacity :: "int option"

definition ei_published :: "event_info \<Rightarrow> bool" where
  "ei_published e = (ei_status e = Published)"

definition tk_get_event :: "ticket_service \<Rightarrow> uuid option \<Rightarrow> string \<Rightarrow> string
    \<Rightarrow> ('z ticket_state_scheme, event_info) op" where
  "tk_get_event s caller orgref eventref = bnd (get_event (ts_events s) caller orgref eventref) (\<lambda>e.
     ret \<lparr>ei_id = ed_id e, ei_status = ed_status e, ei_capacity = ed_capacity e\<rparr>)"

definition tk_get_public_event :: "ticket_service \<Rightarrow> uuid \<Rightarrow> ('z ticket_state_scheme, event_info) op" where
  "tk_get_public_event s i = bnd (get_public_event (ts_events s) i) (\<lambda>e.
     ret \<lparr>ei_id = i, ei_status = ed_status e, ei_capacity = ed_capacity e\<rparr>)"

section \<open>Availability\<close>

text \<open>The reasons of \<open>Availability\<close> in the order it tries them; \<open>Available\<close> is the empty reason.\<close>

datatype reason = EventUnpublished | NotActive | NotStarted | Ended | ReasonSoldOut | Available

definition availability :: "ticket_type \<Rightarrow> bool \<Rightarrow> instant \<Rightarrow> bool \<times> int \<times> reason" where
  "availability t event_published now = (let left = remaining t in
     if \<not> event_published then (False, left, EventUnpublished)
     else if tt_status t \<noteq> TicketActive then (False, left, NotActive)
     else if (case tt_sale_starts t of None \<Rightarrow> False | Some x \<Rightarrow> now < x) then (False, left, NotStarted)
     else if (case tt_sale_ends t of None \<Rightarrow> False | Some x \<Rightarrow> \<not> now < x) then (False, left, Ended)
     else if left \<le> 0 then (False, 0, ReasonSoldOut)
     else (True, left, Available))"

record ticket_dto =
  td_id :: uuid
  td_event :: uuid
  td_name :: string
  td_description :: "string option"
  td_price_cents :: int
  td_currency :: string
  td_total :: int
  td_sold :: int
  td_remaining :: int
  td_for_sale :: bool
  td_reason :: "reason option"
  td_max_per_order :: "int option"
  td_sale_starts :: "int option"
  td_sale_ends :: "int option"
  td_status :: ticket_status
  td_sold_out :: bool
  td_created_at :: int

definition to_ticket_type :: "ticket_type \<Rightarrow> bool \<Rightarrow> instant \<Rightarrow> ticket_dto" where
  "to_ticket_type t pub now = (case availability t pub now of (for_sale, left, why) \<Rightarrow>
     \<lparr>td_id = tt_id t, td_event = tt_event t, td_name = tt_name t, td_description = tt_description t,
      td_price_cents = tt_price_cents t, td_currency = tt_currency t, td_total = tt_total t,
      td_sold = tt_sold t, td_remaining = left, td_for_sale = for_sale,
      td_reason = (if why = Available then None else Some why),
      td_max_per_order = tt_max_per_order t, td_sale_starts = format_time_ptr (tt_sale_starts t),
      td_sale_ends = format_time_ptr (tt_sale_ends t), td_status = tt_status t,
      td_sold_out = sold_out t, td_created_at = format_time (tt_created_at t)\<rparr>)"

section \<open>Editing types\<close>

definition ts_emit :: "ticket_service \<Rightarrow> audit_entry \<Rightarrow> ('z ticket_state_scheme, unit) op" where
  "ts_emit s e = emit (ts_lib s) (ts_audited s) e"

definition ts_org_of :: "uuid \<Rightarrow> ('z ticket_state_scheme, uuid) op" where
  "ts_org_of i = org_of i"

definition ts_event :: "ticket_service \<Rightarrow> uuid option \<Rightarrow> string \<Rightarrow> string
    \<Rightarrow> ('z ticket_state_scheme, event_info) op" where
  "ts_event s caller orgref eventref =
     on_error (tk_get_event s caller orgref eventref) (\<lambda>_. TicketE ticketing_err.ErrEventUnresolved)"

definition check_window :: "instant option \<Rightarrow> instant option \<Rightarrow> ('z ticket_state_scheme, unit) op" where
  "check_window starts ends = guard (event_dates_ok starts ends) (TicketE ticketing_err.ErrInvalidWindow)"

definition check_event_headroom :: "event_info \<Rightarrow> int \<Rightarrow> uuid option \<Rightarrow> ('z ticket_state_scheme, unit) op" where
  "check_event_headroom ev qty excl = (case ei_capacity ev of None \<Rightarrow> ret ()
     | Some cap \<Rightarrow> bnd (allocated_total (ei_id ev) excl) (\<lambda>allocated.
         guard (\<not> wrap64 (allocated + qty) > cap) (TicketE ticketing_err.ErrEventCapacity)))"

definition resolve_type :: "lib \<Rightarrow> uuid \<Rightarrow> string \<Rightarrow> ('z ticket_state_scheme, ticket_type) op" where
  "resolve_type l ev ref0 =
     bnd (the_or_fail (TicketE ticketing_err.ErrTicketNotFound) (uuid_parse l (trim_space ref0))) (\<lambda>i.
     bnd (on_error (get_type_by_id i) (not_found_as (TicketE ticketing_err.ErrTicketNotFound))) (\<lambda>t.
     bnd (guard (tt_event t = ev) (TicketE ticketing_err.ErrTicketNotFound)) (\<lambda>_. ret t)))"

record ticket_input =
  ti_name :: string
  ti_description :: "string option"
  ti_price_cents :: int
  ti_currency :: string
  ti_total :: int
  ti_max_per_order :: "int option"
  ti_sale_starts :: "instant option"
  ti_sale_ends :: "instant option"

definition create_type :: "ticket_service \<Rightarrow> uuid option \<Rightarrow> string \<Rightarrow> string \<Rightarrow> ticket_input
    \<Rightarrow> ('z ticket_state_scheme, ticket_dto) op" where
  "create_type s caller orgref eventref inp =
     bnd (ts_event s caller orgref eventref) (\<lambda>ev.
     let name = trim_space (ti_name inp) in
     bnd (guard (name \<noteq> []) (TicketE ticketing_err.ErrInvalidName)) (\<lambda>_.
     bnd (guard (\<not> ti_price_cents inp < 0) (TicketE ticketing_err.ErrInvalidPrice)) (\<lambda>_.
     bnd (guard (\<not> ti_total inp \<le> 0) (TicketE ticketing_err.ErrInvalidQty)) (\<lambda>_.
     bnd (check_window (ti_sale_starts inp) (ti_sale_ends inp)) (\<lambda>_.
     let cur = to_upper (trim_space (ti_currency inp)); currency = (if cur = [] then ''USD'' else cur) in
     bnd (guard (case ti_max_per_order inp of None \<Rightarrow> True | Some m \<Rightarrow> \<not> m \<le> 0)
            (TicketE ticketing_err.ErrInvalidQty)) (\<lambda>_.
     bnd (check_event_headroom ev (ti_total inp) None) (\<lambda>_.
     bnd (ts_org_of (ei_id ev)) (\<lambda>org.
     bnd (tx (
       bnd (repo_create_type (ts_lib s) \<lparr>tt_id = uuid_nil, tt_event = ei_id ev, tt_name = name,
              tt_description = ti_description inp, tt_price_cents = ti_price_cents inp,
              tt_currency = currency, tt_total = ti_total inp, tt_sold = 0,
              tt_max_per_order = ti_max_per_order inp, tt_sale_starts = ti_sale_starts inp,
              tt_sale_ends = ti_sale_ends inp, tt_status = TicketDraft, tt_created_at = 0,
              tt_updated_at = 0, tt_deleted_at = None\<rparr>) (\<lambda>t.
       bnd (ts_emit s (entry (Some org) caller ''ticket.created'' ''ticket'' (Some (tt_id t)) []
              [(''name'', AStr name), (''priceCents'', AInt (ti_price_cents inp)),
               (''quantityTotal'', AInt (ti_total inp))])) (\<lambda>_.
       ret t)))) (\<lambda>t.
     bnd time_now (\<lambda>now. ret (to_ticket_type t (ei_published ev) now)))))))))))"

definition list_types :: "ticket_service \<Rightarrow> uuid option \<Rightarrow> string \<Rightarrow> string
    \<Rightarrow> ('z ticket_state_scheme, ticket_dto list) op" where
  "list_types s caller orgref eventref =
     bnd (ts_event s caller orgref eventref) (\<lambda>ev.
     bnd (list_types_by_event (ei_id ev) True) (\<lambda>ts.
     bnd time_now (\<lambda>now. ret (map (\<lambda>t. to_ticket_type t (ei_published ev) now) ts))))"

definition list_public_types :: "ticket_service \<Rightarrow> uuid \<Rightarrow> ('z ticket_state_scheme, ticket_dto list) op" where
  "list_public_types s ev =
     bnd (on_error (tk_get_public_event s ev) (\<lambda>_. TicketE ticketing_err.ErrEventUnresolved)) (\<lambda>_.
     bnd (list_types_by_event ev False) (\<lambda>ts.
     bnd time_now (\<lambda>now. ret (map (\<lambda>t. to_ticket_type t True now) ts))))"

definition get_type :: "ticket_service \<Rightarrow> uuid option \<Rightarrow> string \<Rightarrow> string \<Rightarrow> string
    \<Rightarrow> ('z ticket_state_scheme, ticket_dto) op" where
  "get_type s caller orgref eventref ref0 =
     bnd (ts_event s caller orgref eventref) (\<lambda>ev.
     bnd (resolve_type (ts_lib s) (ei_id ev) ref0) (\<lambda>t.
     bnd time_now (\<lambda>now. ret (to_ticket_type t (ei_published ev) now))))"

record ticket_update =
  tu_name :: "string option"
  tu_description :: "string option"
  tu_price_cents :: "int option"
  tu_currency :: "string option"
  tu_total :: "int option"
  tu_max_per_order :: "int option"
  tu_sale_starts :: "instant option"
  tu_sale_ends :: "instant option"

text \<open>The reading half: everything up to the write, giving the row to be saved.\<close>

definition update_type_check :: "ticket_service \<Rightarrow> uuid option \<Rightarrow> string \<Rightarrow> string \<Rightarrow> string
    \<Rightarrow> ticket_update \<Rightarrow> ('z ticket_state_scheme, event_info \<times> ticket_type) op" where
  "update_type_check s caller orgref eventref ref0 inp =
     bnd (ts_event s caller orgref eventref) (\<lambda>ev.
     bnd (resolve_type (ts_lib s) (ei_id ev) ref0) (\<lambda>t0.
     bnd (guard (case tu_name inp of None \<Rightarrow> True | Some n \<Rightarrow> trim_space n \<noteq> [])
            (TicketE ticketing_err.ErrInvalidName)) (\<lambda>_.
     bnd (guard (case tu_price_cents inp of None \<Rightarrow> True | Some p \<Rightarrow> \<not> p < 0)
            (TicketE ticketing_err.ErrInvalidPrice)) (\<lambda>_.
     bnd (guard (case tu_total inp of None \<Rightarrow> True | Some q \<Rightarrow> \<not> q \<le> 0)
            (TicketE ticketing_err.ErrInvalidQty)) (\<lambda>_.
     bnd (guard (case tu_total inp of None \<Rightarrow> True | Some q \<Rightarrow> \<not> q < tt_sold t0)
            (TicketE ticketing_err.ErrHasSales)) (\<lambda>_.
     bnd (guard (case tu_max_per_order inp of None \<Rightarrow> True | Some m \<Rightarrow> \<not> m \<le> 0)
            (TicketE ticketing_err.ErrInvalidQty)) (\<lambda>_.
     let t = t0\<lparr>tt_name := given (map_option trim_space (tu_name inp)) (tt_name t0),
                tt_description := given_opt (tu_description inp) (tt_description t0),
                tt_price_cents := given (tu_price_cents inp) (tt_price_cents t0),
                tt_currency := given (map_option (\<lambda>c. to_upper (trim_space c)) (tu_currency inp)) (tt_currency t0),
                tt_total := given (tu_total inp) (tt_total t0),
                tt_max_per_order := given_opt (tu_max_per_order inp) (tt_max_per_order t0),
                tt_sale_starts := given_opt (tu_sale_starts inp) (tt_sale_starts t0),
                tt_sale_ends := given_opt (tu_sale_ends inp) (tt_sale_ends t0)\<rparr> in
     bnd (check_window (tt_sale_starts t) (tt_sale_ends t)) (\<lambda>_.
     bnd (check_event_headroom ev (tt_total t) (Some (tt_id t))) (\<lambda>_.
     ret (ev, t))))))))))"

definition update_type :: "ticket_service \<Rightarrow> uuid option \<Rightarrow> string \<Rightarrow> string \<Rightarrow> string
    \<Rightarrow> ticket_update \<Rightarrow> ('z ticket_state_scheme, ticket_dto) op" where
  "update_type s caller orgref eventref ref0 inp =
     bnd (update_type_check s caller orgref eventref ref0 inp) (\<lambda>(ev, t).
     bnd (repo_update_type t) (\<lambda>_.
     bnd time_now (\<lambda>now. ret (to_ticket_type t (ei_published ev) now))))"

definition delete_type :: "ticket_service \<Rightarrow> uuid option \<Rightarrow> string \<Rightarrow> string \<Rightarrow> string
    \<Rightarrow> ('z ticket_state_scheme, unit) op" where
  "delete_type s caller orgref eventref ref0 =
     bnd (ts_event s caller orgref eventref) (\<lambda>ev.
     bnd (resolve_type (ts_lib s) (ei_id ev) ref0) (\<lambda>t.
     bnd (guard (\<not> tt_sold t > 0) (TicketE ticketing_err.ErrHasSales)) (\<lambda>_.
     bnd (ts_org_of (ei_id ev)) (\<lambda>org.
     tx (bnd (repo_delete_type (tt_id t)) (\<lambda>_.
         ts_emit s (entry (Some org) caller ''ticket.deleted'' ''ticket'' (Some (tt_id t))
           [(''name'', AStr (tt_name t))] [])))))))"

definition set_type_status_check :: "ticket_service \<Rightarrow> uuid option \<Rightarrow> string \<Rightarrow> string \<Rightarrow> string
    \<Rightarrow> ticket_status list \<Rightarrow> ('z ticket_state_scheme, event_info \<times> ticket_type \<times> uuid) op" where
  "set_type_status_check s caller orgref eventref ref0 from =
     bnd (ts_event s caller orgref eventref) (\<lambda>ev.
     bnd (resolve_type (ts_lib s) (ei_id ev) ref0) (\<lambda>t.
     bnd (guard (tt_status t \<in> set from) (TicketE ticketing_err.ErrInvalidStatus)) (\<lambda>_.
     bnd (ts_org_of (ei_id ev)) (\<lambda>org. ret (ev, t, org)))))"

definition set_type_status :: "ticket_service \<Rightarrow> uuid option \<Rightarrow> string \<Rightarrow> string \<Rightarrow> string
    \<Rightarrow> ticket_status \<Rightarrow> ticket_status list \<Rightarrow> ('z ticket_state_scheme, ticket_dto) op" where
  "set_type_status s caller orgref eventref ref0 to from =
     bnd (set_type_status_check s caller orgref eventref ref0 from) (\<lambda>(ev, t0, org).
     let t = t0\<lparr>tt_status := to\<rparr>;
         action = (if to = TicketPaused then ''ticket.paused'' else ''ticket.activated'') in
     bnd (tx (
       bnd (repo_update_type t) (\<lambda>_.
       ts_emit s (entry (Some org) caller action ''ticket'' (Some (tt_id t))
         [(''status'', AStr (ticket_status_text (tt_status t0)))]
         [(''status'', AStr (ticket_status_text to))])))) (\<lambda>_.
     bnd time_now (\<lambda>now. ret (to_ticket_type t (ei_published ev) now))))"

definition activate_type :: "ticket_service \<Rightarrow> uuid option \<Rightarrow> string \<Rightarrow> string \<Rightarrow> string
    \<Rightarrow> ('z ticket_state_scheme, ticket_dto) op" where
  "activate_type s caller orgref eventref ref0 =
     set_type_status s caller orgref eventref ref0 TicketActive [TicketDraft, TicketPaused]"

definition pause_type :: "ticket_service \<Rightarrow> uuid option \<Rightarrow> string \<Rightarrow> string \<Rightarrow> string
    \<Rightarrow> ('z ticket_state_scheme, ticket_dto) op" where
  "pause_type s caller orgref eventref ref0 =
     set_type_status s caller orgref eventref ref0 TicketPaused [TicketActive]"

section \<open>Reserving and releasing\<close>

definition reserve_tx :: "uuid \<Rightarrow> int \<Rightarrow> ('z ticket_state_scheme, unit) op" where
  "reserve_tx i n =
     bnd (guard (\<not> n \<le> 0) (TicketE ticketing_err.ErrInvalidQty)) (\<lambda>_.
     bnd (on_error (lock_type i) (not_found_as (TicketE ticketing_err.ErrTicketNotFound))) (\<lambda>t.
     bnd (guard (tt_status t = TicketActive) (TicketE ticketing_err.ErrNotOnSale)) (\<lambda>_.
     bnd (guard (case tt_max_per_order t of None \<Rightarrow> True | Some m \<Rightarrow> \<not> n > m)
            (TicketE ticketing_err.ErrTooMany)) (\<lambda>_.
     bnd (guard (\<not> wrap64 (tt_sold t + n) > tt_total t) (TicketE ticketing_err.ErrSoldOut)) (\<lambda>_.
     add_sold i n)))))"

definition reserve :: "uuid \<Rightarrow> int \<Rightarrow> ('z ticket_state_scheme, unit) op" where
  "reserve i n = bnd (guard (\<not> n \<le> 0) (TicketE ticketing_err.ErrInvalidQty)) (\<lambda>_. tx (reserve_tx i n))"

definition release_tx :: "uuid \<Rightarrow> int \<Rightarrow> ('z ticket_state_scheme, unit) op" where
  "release_tx i n =
     bnd (guard (\<not> n \<le> 0) (TicketE ticketing_err.ErrInvalidQty)) (\<lambda>_.
     bnd (on_error (lock_type i) (not_found_as (TicketE ticketing_err.ErrTicketNotFound))) (\<lambda>t.
     bnd (guard (\<not> wrap64 (tt_sold t - n) < 0) (TicketE ticketing_err.ErrInvalidQty)) (\<lambda>_.
     add_sold i (wrap64 (- n)))))"

definition release :: "uuid \<Rightarrow> int \<Rightarrow> ('z ticket_state_scheme, unit) op" where
  "release i n = bnd (guard (\<not> n \<le> 0) (TicketE ticketing_err.ErrInvalidQty)) (\<lambda>_. tx (release_tx i n))"

definition inspect_type :: "ticket_service \<Rightarrow> uuid \<Rightarrow> ('z ticket_state_scheme, ticket_dto \<times> bool) op" where
  "inspect_type s i =
     bnd (on_error (get_type_by_id i) (not_found_as (TicketE ticketing_err.ErrTicketNotFound))) (\<lambda>t.
     bnd (attempt (tk_get_public_event s (tt_event t))) (\<lambda>r.
     let pub = (case r of Inr _ \<Rightarrow> True | Inl _ \<Rightarrow> False) in
     bnd time_now (\<lambda>now. ret (to_ticket_type t pub now, pub))))"

end
