(* ===== verification/Attendee.thy ===== *)
theory Attendee
  imports Ticketing
begin

text \<open>
  Attendees (\<open>internal/attendee\<close>: model, repository, utils, \<open>attendee_service.go\<close>): one admission row per
  ticket unit. Holds the signed QR payload (build and verify), the idempotent mint, the status flips
  that the check-in domain drives inside its transactions, and the roster reads. The facts are in
  \<open>Door\<close>.
\<close>

section \<open>Rows\<close>

datatype attendee_status = Registered | CheckedIn | AttCancelled

fun attendee_status_text :: "attendee_status \<Rightarrow> string" where
  "attendee_status_text Registered = ''REGISTERED''"
| "attendee_status_text CheckedIn = ''CHECKED_IN''"
| "attendee_status_text AttCancelled = ''CANCELLED''"

record attendee =
  at_id :: uuid
  at_order :: "uuid option"
  at_unit :: int
  at_event :: uuid
  at_user :: "uuid option"
  at_email :: string
  at_name :: "string option"
  at_token_hash :: string
  at_status :: attendee_status
  at_checked_in_at :: "instant option"
  at_created_at :: instant
  at_updated_at :: instant

record attendee_state = ticket_state +
  attendees :: "attendee list"

lemma attendee_tick [simp]:
  "attendees (tick w) = attendees w" "attendees (rollback w w') = attendees w"
  by (simp_all add: tick_def rollback_def)

section \<open>The QR payload\<close>

definition generate_token :: "lib \<Rightarrow> ('z base_scheme, string) op" where
  "generate_token l = bnd (draw_bytes l 16) (\<lambda>b. ret (hex_encode b))"

definition build_payload :: "lib \<Rightarrow> uuid \<Rightarrow> string \<Rightarrow> string \<Rightarrow> string" where
  "build_payload l i raw secret =
     (let msg = uuid_text l i @ ''.'' @ raw in
      msg @ ''.'' @ hex_encode (hmac_sha256 l secret msg))"

definition verify_payload :: "lib \<Rightarrow> string \<Rightarrow> string \<Rightarrow> (uuid \<times> string) option" where
  "verify_payload l payload secret = (case split_on CHR ''.'' payload of
       [a, b, c] \<Rightarrow>
         if a = [] \<or> b = [] \<or> c = [] then None
         else (case uuid_parse l a of None \<Rightarrow> None
               | Some i \<Rightarrow>
                   (case hex_decode c of None \<Rightarrow> None
                    | Some want \<Rightarrow> if hmac_sha256 l secret (a @ ''.'' @ b) = want then Some (i, b) else None))
     | _ \<Rightarrow> None)"

section \<open>Repository\<close>

definition repo_create_attendee :: "lib \<Rightarrow> attendee \<Rightarrow> ('z attendee_state_scheme, attendee) op" where
  "repo_create_attendee l a = bnd (before_create l (at_id a)) (\<lambda>i. bnd time_now (\<lambda>now.
     let row = a\<lparr>at_id := i, at_created_at := now, at_updated_at := now\<rparr> in
     bnd (write_db (\<lambda>w. if has_key at_id i (attendees w) \<or>
                           (at_order a \<noteq> None \<and>
                            list_ex (\<lambda>x. at_order x = at_order a \<and> at_unit x = at_unit a) (attendees w))
                        then Some UniqueViolation
                        else if \<not> fits32 (at_unit a) then Some DbError else None)
            (\<lambda>w. w\<lparr>attendees := attendees w @ [row]\<rparr>)) (\<lambda>_. ret row)))"

definition get_attendee_by_id :: "uuid \<Rightarrow> ('z attendee_state_scheme, attendee) op" where
  "get_attendee_by_id i = select_first (\<lambda>w. by_key at_id i (attendees w))"

definition exists_for_order :: "uuid \<Rightarrow> int \<Rightarrow> ('z attendee_state_scheme, bool) op" where
  "exists_for_order order unit = bnd (select (\<lambda>w.
     count_where (\<lambda>a. at_order a = Some order \<and> at_unit a = unit) (attendees w))) (\<lambda>n. ret (n > 0))"

definition roster_match :: "uuid \<Rightarrow> string \<Rightarrow> attendee \<Rightarrow> bool" where
  "roster_match ev query a \<longleftrightarrow> at_event a = ev \<and>
     (query = [] \<or>
      (let pat = to_lower (''%'' @ query @ ''%'') in
       sql_like pat (to_lower (at_email a)) \<or>
       (case at_name a of None \<Rightarrow> False | Some n \<Rightarrow> sql_like pat (to_lower n))))"

definition list_by_event :: "uuid \<Rightarrow> string \<Rightarrow> int \<Rightarrow> int \<Rightarrow> ('z attendee_state_scheme, attendee list \<times> int) op" where
  "list_by_event ev query limit offset =
     bnd (select (\<lambda>w. count_where (roster_match ev query) (attendees w))) (\<lambda>total.
     bnd (select (\<lambda>w. page_of limit offset
       (oldest_first at_created_at (filter (roster_match ev query) (attendees w))))) (\<lambda>as.
     ret (as, total)))"

definition list_by_user :: "uuid \<Rightarrow> int \<Rightarrow> int \<Rightarrow> ('z attendee_state_scheme, attendee list \<times> int) op" where
  "list_by_user user limit offset =
     bnd (select (\<lambda>w. count_where (\<lambda>a. at_user a = Some user) (attendees w))) (\<lambda>total.
     bnd (select (\<lambda>w. page_of limit offset
       (newest_first at_created_at (filter (\<lambda>a. at_user a = Some user) (attendees w))))) (\<lambda>as.
     ret (as, total)))"

definition repo_update_attendee :: "attendee \<Rightarrow> ('z attendee_state_scheme, unit) op" where
  "repo_update_attendee a = bnd time_now (\<lambda>now. write_db (\<lambda>_. None)
     (\<lambda>w. w\<lparr>attendees := upsert at_id (a\<lparr>at_updated_at := now\<rparr>) (attendees w)\<rparr>))"

definition cancel_for_order :: "uuid \<Rightarrow> ('z attendee_state_scheme, unit) op" where
  "cancel_for_order order = bnd time_now (\<lambda>now. write_db (\<lambda>_. None)
     (\<lambda>w. w\<lparr>attendees := modify (\<lambda>a. at_order a = Some order \<and> at_status a = Registered)
        (\<lambda>a. a\<lparr>at_status := AttCancelled, at_updated_at := now\<rparr>) (attendees w)\<rparr>))"

text \<open>\<open>SELECT ... FOR UPDATE\<close>: the lock is held to the end of the transaction, which runs as one step.\<close>

definition get_for_update :: "uuid \<Rightarrow> ('z attendee_state_scheme, attendee) op" where
  "get_for_update i = select_first (\<lambda>w. by_key at_id i (attendees w))"

definition count_by_status :: "uuid \<Rightarrow> ('z attendee_state_scheme, attendee_status \<Rightarrow> int) op" where
  "count_by_status ev = select (\<lambda>w st.
     count_where (\<lambda>a. at_event a = ev \<and> at_status a = st) (attendees w))"

section \<open>Minting and edits\<close>

record minted =
  mt_id :: uuid
  mt_token :: string

definition order_attendee :: "lib \<Rightarrow> uuid \<Rightarrow> uuid \<Rightarrow> uuid \<Rightarrow> string \<Rightarrow> string \<Rightarrow> int \<Rightarrow> string \<Rightarrow> attendee" where
  "order_attendee l order user ev email name unit raw =
     \<lparr>at_id = uuid_nil, at_order = Some order, at_unit = unit, at_event = ev, at_user = Some user,
      at_email = email, at_name = (if trim_space name \<noteq> [] then Some name else None),
      at_token_hash = hash_token l raw, at_status = Registered, at_checked_in_at = None,
      at_created_at = 0, at_updated_at = 0\<rparr>"

text \<open>The loop of \<open>MintForOrder\<close> from \<open>unit\<close> on, \<open>left\<close> iterations to go.\<close>

fun mint_loop :: "nat \<Rightarrow> lib \<Rightarrow> uuid \<Rightarrow> uuid \<Rightarrow> uuid \<Rightarrow> string \<Rightarrow> string \<Rightarrow> int
    \<Rightarrow> ('z attendee_state_scheme, minted list) op" where
  "mint_loop 0 l order user ev email name unit = ret []"
| "mint_loop (Suc left) l order user ev email name unit =
     bnd (exists_for_order order unit) (\<lambda>there.
     if there then mint_loop left l order user ev email name (unit + 1)
     else
       bnd (generate_token l) (\<lambda>raw.
       bnd (repo_create_attendee l (order_attendee l order user ev email name unit raw)) (\<lambda>a.
       bnd (mint_loop left l order user ev email name (unit + 1)) (\<lambda>out.
       ret (\<lparr>mt_id = at_id a, mt_token = raw\<rparr> # out)))))"

definition mint_for_order :: "lib \<Rightarrow> uuid \<Rightarrow> uuid \<Rightarrow> uuid \<Rightarrow> string \<Rightarrow> string \<Rightarrow> int
    \<Rightarrow> ('z attendee_state_scheme, minted list) op" where
  "mint_for_order l order user ev email name quantity =
     mint_loop (nat quantity) l order user ev email name 0"

record attendee_dto =
  ad_id :: uuid
  ad_order :: "uuid option"
  ad_unit :: int
  ad_event :: uuid
  ad_user :: "uuid option"
  ad_email :: string
  ad_name :: "string option"
  ad_status :: attendee_status
  ad_qr_payload :: "string option"
  ad_checked_in_at :: "int option"
  ad_created_at :: int

definition to_attendee :: "attendee \<Rightarrow> string option \<Rightarrow> attendee_dto" where
  "to_attendee a qr = \<lparr>ad_id = at_id a, ad_order = at_order a, ad_unit = at_unit a,
     ad_event = at_event a, ad_user = at_user a, ad_email = at_email a, ad_name = at_name a,
     ad_status = at_status a, ad_qr_payload = qr, ad_checked_in_at = format_time_ptr (at_checked_in_at a),
     ad_created_at = format_time (at_created_at a)\<rparr>"

definition valid_email :: "string \<Rightarrow> bool" where
  "valid_email e \<longleftrightarrow> e \<noteq> [] \<and> has_char CHR ''@'' e"

definition add_manual :: "lib \<Rightarrow> uuid \<Rightarrow> string \<Rightarrow> string \<Rightarrow> string option
    \<Rightarrow> ('z attendee_state_scheme, attendee_dto) op" where
  "add_manual l org eventref email0 name =
     bnd (on_error (resolve_event_id l org eventref) (\<lambda>_. AttendeeE attendee_err.ErrAttendeeNotFound)) (\<lambda>ev.
     let email = to_lower (trim_space email0) in
     bnd (guard (valid_email email) (AttendeeE attendee_err.ErrInvalidEmail)) (\<lambda>_.
     bnd (generate_token l) (\<lambda>raw.
     bnd (repo_create_attendee l \<lparr>at_id = uuid_nil, at_order = None, at_unit = 0, at_event = ev,
            at_user = None, at_email = email, at_name = name, at_token_hash = hash_token l raw,
            at_status = Registered, at_checked_in_at = None, at_created_at = 0, at_updated_at = 0\<rparr>) (\<lambda>a.
     ret (to_attendee a None)))))"

definition find_attendee :: "uuid \<Rightarrow> ('z attendee_state_scheme, attendee) op" where
  "find_attendee i = on_error (get_attendee_by_id i) (not_found_as (AttendeeE attendee_err.ErrAttendeeNotFound))"

definition get_attendee :: "uuid \<Rightarrow> uuid \<Rightarrow> ('z attendee_state_scheme, attendee_dto) op" where
  "get_attendee user i = bnd (find_attendee i) (\<lambda>a.
     bnd (guard (at_user a = Some user) (AttendeeE attendee_err.ErrAttendeeNotFound)) (\<lambda>_.
     ret (to_attendee a None)))"

definition get_attendee_admin :: "uuid \<Rightarrow> uuid \<Rightarrow> ('z attendee_state_scheme, attendee_dto) op" where
  "get_attendee_admin user i = bnd (find_attendee i) (\<lambda>a.
     bnd (on_error (org_of (at_event a)) (\<lambda>_. AttendeeE attendee_err.ErrAttendeeNotFound)) (\<lambda>org.
     bnd (can_manage user org) (\<lambda>ok.
     bnd (guard ok (AttendeeE attendee_err.ErrAttendeeNotFound)) (\<lambda>_. ret (to_attendee a None)))))"

definition list_mine :: "uuid \<Rightarrow> int \<Rightarrow> int \<Rightarrow> ('z attendee_state_scheme, attendee_dto list \<times> int) op" where
  "list_mine user limit offset = bnd (list_by_user user limit offset) (\<lambda>(as, total).
     ret (map (\<lambda>a. to_attendee a None) as, total))"

definition list_event_roster :: "uuid \<Rightarrow> string \<Rightarrow> int \<Rightarrow> int
    \<Rightarrow> ('z attendee_state_scheme, attendee_dto list \<times> int) op" where
  "list_event_roster ev query limit offset = bnd (list_by_event ev query limit offset) (\<lambda>(as, total).
     ret (map (\<lambda>a. to_attendee a None) as, total))"

text \<open>\<open>CorrectName\<close> and \<open>CancelMine\<close> read the row without a lock and save all of it.\<close>

definition correct_name_check :: "uuid \<Rightarrow> string option \<Rightarrow> string option
    \<Rightarrow> ('z attendee_state_scheme, attendee) op" where
  "correct_name_check i name email =
     bnd (find_attendee i) (\<lambda>a0.
     let a1 = (case name of None \<Rightarrow> a0 | Some n \<Rightarrow> a0\<lparr>at_name := Some n\<rparr>) in
     (case email of None \<Rightarrow> ret a1
      | Some e \<Rightarrow> (let em = to_lower (trim_space e) in
          bnd (guard (valid_email em) (AttendeeE attendee_err.ErrInvalidEmail)) (\<lambda>_.
          ret (a1\<lparr>at_email := em\<rparr>)))))"

definition correct_name :: "uuid \<Rightarrow> string option \<Rightarrow> string option
    \<Rightarrow> ('z attendee_state_scheme, attendee_dto) op" where
  "correct_name i name email = bnd (correct_name_check i name email) (\<lambda>a.
     bnd (repo_update_attendee a) (\<lambda>_. ret (to_attendee a None)))"

definition correct_attendee_in_event :: "uuid \<Rightarrow> uuid \<Rightarrow> string option \<Rightarrow> string option
    \<Rightarrow> ('z attendee_state_scheme, attendee_dto) op" where
  "correct_attendee_in_event ev i name email =
     bnd (find_attendee i) (\<lambda>a.
     bnd (guard (at_event a = ev) (AttendeeE attendee_err.ErrAttendeeNotFound)) (\<lambda>_.
     correct_name i name email))"

definition cancel_mine :: "uuid \<Rightarrow> uuid \<Rightarrow> ('z attendee_state_scheme, attendee_dto) op" where
  "cancel_mine user i =
     bnd (find_attendee i) (\<lambda>a0.
     bnd (guard (at_user a0 = Some user) (AttendeeE attendee_err.ErrAttendeeNotFound)) (\<lambda>_.
     bnd (guard (at_status a0 = Registered) (AttendeeE attendee_err.ErrInvalidStatus)) (\<lambda>_.
     let a = a0\<lparr>at_status := AttCancelled\<rparr> in
     bnd (repo_update_attendee a) (\<lambda>_. ret (to_attendee a None)))))"

section \<open>The door\<close>

record scan_verdict =
  sv_event_ok :: bool
  sv_token_ok :: bool
  sv_flipped :: bool
  sv_status :: attendee_status
  sv_checked_in_at :: "instant option"

definition token_ok :: "lib \<Rightarrow> attendee \<Rightarrow> string \<Rightarrow> bool" where
  "token_ok l a raw = (if raw = [] then False else hash_token l raw = at_token_hash a)"

definition flip :: "attendee \<Rightarrow> scan_verdict \<Rightarrow> ('z attendee_state_scheme, scan_verdict) op" where
  "flip a v = bnd time_now (\<lambda>now.
     bnd (repo_update_attendee (a\<lparr>at_status := CheckedIn, at_checked_in_at := Some now\<rparr>)) (\<lambda>_.
     ret (v\<lparr>sv_flipped := True, sv_status := CheckedIn, sv_checked_in_at := Some now\<rparr>)))"

definition apply_checkin :: "lib \<Rightarrow> uuid \<Rightarrow> string \<Rightarrow> uuid \<Rightarrow> ('z attendee_state_scheme, scan_verdict) op" where
  "apply_checkin l i raw ev = bnd (get_for_update i) (\<lambda>a.
     let v = \<lparr>sv_event_ok = (at_event a = ev), sv_token_ok = token_ok l a raw, sv_flipped = False,
              sv_status = at_status a, sv_checked_in_at = None\<rparr> in
     if \<not> sv_event_ok v \<or> \<not> sv_token_ok v \<or> at_status a \<noteq> Registered then ret v else flip a v)"

definition apply_checkin_manual :: "uuid \<Rightarrow> uuid \<Rightarrow> ('z attendee_state_scheme, scan_verdict) op" where
  "apply_checkin_manual i ev = bnd (get_for_update i) (\<lambda>a.
     let v = \<lparr>sv_event_ok = (at_event a = ev), sv_token_ok = True, sv_flipped = False,
              sv_status = at_status a, sv_checked_in_at = None\<rparr> in
     if \<not> sv_event_ok v \<or> at_status a \<noteq> Registered then ret v else flip a v)"

record revert_verdict =
  rv_event_ok :: bool
  rv_reverted :: bool
  rv_status :: attendee_status

definition revert_attendee :: "uuid \<Rightarrow> uuid \<Rightarrow> ('z attendee_state_scheme, revert_verdict) op" where
  "revert_attendee i ev = bnd (get_for_update i) (\<lambda>a.
     let v = \<lparr>rv_event_ok = (at_event a = ev), rv_reverted = False, rv_status = at_status a\<rparr> in
     if \<not> rv_event_ok v \<or> at_status a \<noteq> CheckedIn then ret v
     else bnd (repo_update_attendee (a\<lparr>at_status := Registered, at_checked_in_at := None\<rparr>)) (\<lambda>_.
          ret (v\<lparr>rv_reverted := True, rv_status := Registered\<rparr>)))"

definition attendee_status_in_event :: "uuid \<Rightarrow> uuid \<Rightarrow> ('z attendee_state_scheme, attendee_status) op" where
  "attendee_status_in_event i ev = bnd (get_attendee_by_id i) (\<lambda>a.
     bnd (guard (at_event a = ev) RecordNotFound) (\<lambda>_. ret (at_status a)))"

definition count_roster :: "uuid \<Rightarrow> ('z attendee_state_scheme, int) op" where
  "count_roster ev = bnd (count_by_status ev) (\<lambda>n. ret (n Registered + n CheckedIn))"

end
