(* ===== verification/Kit.thy ===== *)
theory Kit
  imports Attendee
begin

text \<open>
  Kits (\<open>internal/kit\<close>: model, repository, \<open>kit_service.go\<close>): named handouts of an event with a stock,
  and one collection row per handout (PENDING reserves a unit, COLLECTED hands it over, VOIDED frees
  it). The two partial unique indexes of the migration are the conflict checks of the insert. \<open>collect\<close>
  reads the attendee's status before its transaction, so its two halves are named. The facts are in
  \<open>Handouts\<close>.
\<close>

section \<open>Rows\<close>

datatype collection_status = Pending | Collected | Voided

fun collection_status_text :: "collection_status \<Rightarrow> string" where
  "collection_status_text Pending = ''PENDING''"
| "collection_status_text Collected = ''COLLECTED''"
| "collection_status_text Voided = ''VOIDED''"

definition collection_status_of :: "string \<Rightarrow> collection_status option" where
  "collection_status_of s = (if s = ''PENDING'' then Some Pending
     else if s = ''COLLECTED'' then Some Collected else if s = ''VOIDED'' then Some Voided else None)"

record kit =
  kt_id :: uuid
  kt_event :: uuid
  kt_name :: string
  kt_description :: string
  kt_total :: int
  kt_created_at :: instant
  kt_updated_at :: instant

record collection =
  kc_id :: uuid
  kc_kit :: uuid
  kc_event :: uuid
  kc_attendee :: uuid
  kc_idem :: string
  kc_status :: collection_status
  kc_collected_at :: "instant option"
  kc_collected_by :: "uuid option"
  kc_created_at :: instant
  kc_updated_at :: instant

record kit_state = attendee_state +
  kits :: "kit list"
  collections :: "collection list"

lemma kit_tick [simp]:
  "kits (tick w) = kits w" "collections (tick w) = collections w"
  "kits (rollback w w') = kits w" "collections (rollback w w') = collections w"
  by (simp_all add: tick_def rollback_def)

record kit_service =
  ks_lib :: lib
  ks_audited :: bool
  ks_plans :: bool

section \<open>Repository\<close>

definition repo_create_kit :: "lib \<Rightarrow> kit \<Rightarrow> ('z kit_state_scheme, kit) op" where
  "repo_create_kit l k = bnd (before_create l (kt_id k)) (\<lambda>i. bnd time_now (\<lambda>now.
     let row = k\<lparr>kt_id := i, kt_created_at := now, kt_updated_at := now\<rparr> in
     bnd (write_db (\<lambda>w. if has_key kt_id i (kits w) then Some UniqueViolation
                        else if \<not> (0 \<le> kt_total k \<and> fits32 (kt_total k)) then Some DbError else None)
            (\<lambda>w. w\<lparr>kits := kits w @ [row]\<rparr>)) (\<lambda>_. ret row)))"

definition get_kit_by_id :: "uuid \<Rightarrow> ('z kit_state_scheme, kit) op" where
  "get_kit_by_id i = select_first (\<lambda>w. by_key kt_id i (kits w))"

definition get_kit_for_update :: "uuid \<Rightarrow> ('z kit_state_scheme, kit) op" where
  "get_kit_for_update i = select_first (\<lambda>w. by_key kt_id i (kits w))"

definition list_kits_by_event :: "uuid \<Rightarrow> ('z kit_state_scheme, kit list) op" where
  "list_kits_by_event ev = select (\<lambda>w. oldest_first kt_created_at (filter (\<lambda>k. kt_event k = ev) (kits w)))"

definition repo_update_kit :: "kit \<Rightarrow> ('z kit_state_scheme, unit) op" where
  "repo_update_kit k = bnd time_now (\<lambda>now.
     write_db (\<lambda>_. if 0 \<le> kt_total k \<and> fits32 (kt_total k) then None else Some DbError)
       (\<lambda>w. w\<lparr>kits := upsert kt_id (k\<lparr>kt_updated_at := now\<rparr>) (kits w)\<rparr>))"

text \<open>No \<open>DeletedAt\<close> here: the row goes, and its collections with it (\<open>ON DELETE CASCADE\<close>).\<close>

definition repo_delete_kit :: "uuid \<Rightarrow> ('z kit_state_scheme, unit) op" where
  "repo_delete_kit i = write_db (\<lambda>_. None)
     (\<lambda>w. w\<lparr>kits := filter (\<lambda>k. kt_id k \<noteq> i) (kits w),
            collections := filter (\<lambda>c. kc_kit c \<noteq> i) (collections w)\<rparr>)"

definition counts_by_kit :: "uuid \<Rightarrow> ('z kit_state_scheme, uuid \<Rightarrow> collection_status \<Rightarrow> int) op" where
  "counts_by_kit ev = select (\<lambda>w i st.
     count_where (\<lambda>c. kc_event c = ev \<and> kc_kit c = i \<and> kc_status c = st) (collections w))"

definition active_for :: "uuid \<Rightarrow> collection \<Rightarrow> bool" where
  "active_for i c \<longleftrightarrow> kc_kit c = i \<and> kc_status c \<noteq> Voided"

definition count_active :: "uuid \<Rightarrow> ('z kit_state_scheme, int) op" where
  "count_active i = select (\<lambda>w. count_where (active_for i) (collections w))"

definition count_collected :: "uuid \<Rightarrow> ('z kit_state_scheme, int) op" where
  "count_collected i = select (\<lambda>w. count_where (\<lambda>c. kc_kit c = i \<and> kc_status c = Collected) (collections w))"

definition has_active_collections :: "uuid \<Rightarrow> ('z kit_state_scheme, bool) op" where
  "has_active_collections a = bnd (select (\<lambda>w.
     count_where (\<lambda>c. kc_attendee c = a \<and> kc_status c \<noteq> Voided) (collections w))) (\<lambda>n. ret (n > 0))"

definition same_request :: "uuid \<Rightarrow> uuid \<Rightarrow> string \<Rightarrow> collection \<Rightarrow> bool" where
  "same_request i a key c \<longleftrightarrow> kc_kit c = i \<and> kc_attendee c = a \<and> kc_idem c = key"

definition find_collection_by_key :: "uuid \<Rightarrow> uuid \<Rightarrow> string \<Rightarrow> ('z kit_state_scheme, collection option) op" where
  "find_collection_by_key i a key = select (\<lambda>w. find (same_request i a key) (collections w))"

text \<open>\<open>uq_kit_collections_active\<close> and \<open>uq_kit_collections_idem\<close>.\<close>

definition collection_conflict :: "collection \<Rightarrow> collection \<Rightarrow> bool" where
  "collection_conflict c x \<longleftrightarrow> kc_kit x = kc_kit c \<and> kc_attendee x = kc_attendee c \<and>
     (kc_status x \<noteq> Voided \<and> kc_status c \<noteq> Voided \<or> kc_idem c \<noteq> [] \<and> kc_idem x = kc_idem c)"

definition repo_create_collection :: "lib \<Rightarrow> collection \<Rightarrow> ('z kit_state_scheme, collection) op" where
  "repo_create_collection l c = bnd (before_create l (kc_id c)) (\<lambda>i. bnd time_now (\<lambda>now.
     let row = c\<lparr>kc_id := i, kc_created_at := now, kc_updated_at := now\<rparr> in
     bnd (write_db (\<lambda>w. if has_key kc_id i (collections w) \<or> list_ex (collection_conflict c) (collections w)
                        then Some UniqueViolation else None)
            (\<lambda>w. w\<lparr>collections := collections w @ [row]\<rparr>)) (\<lambda>_. ret row)))"

definition get_collection_for_update :: "uuid \<Rightarrow> ('z kit_state_scheme, collection) op" where
  "get_collection_for_update i = select_first (\<lambda>w. by_key kc_id i (collections w))"

definition repo_update_collection :: "collection \<Rightarrow> ('z kit_state_scheme, collection) op" where
  "repo_update_collection c = bnd time_now (\<lambda>now.
     let row = c\<lparr>kc_updated_at := now\<rparr> in
     bnd (write_db (\<lambda>w. if list_ex (\<lambda>x. kc_id x \<noteq> kc_id c \<and> collection_conflict c x) (collections w)
                        then Some UniqueViolation else None)
            (\<lambda>w. w\<lparr>collections := upsert kc_id row (collections w)\<rparr>)) (\<lambda>_. ret row))"

definition repo_list_collections :: "uuid \<Rightarrow> uuid option \<Rightarrow> collection_status option \<Rightarrow> uuid option
    \<Rightarrow> ('z kit_state_scheme, collection list \<times> int) op" where
  "repo_list_collections ev kit st att =
     (let p = (\<lambda>c. kc_event c = ev \<and> (kit = None \<or> kit = Some (kc_kit c)) \<and>
                   (st = None \<or> st = Some (kc_status c)) \<and> (att = None \<or> att = Some (kc_attendee c))) in
      bnd (select (\<lambda>w. count_where p (collections w))) (\<lambda>qty.
      bnd (select (\<lambda>w. newest_first kc_created_at (filter p (collections w)))) (\<lambda>cs.
      ret (cs, qty))))"

section \<open>Kit types\<close>

definition ks_audit :: "kit_service \<Rightarrow> uuid \<Rightarrow> uuid \<Rightarrow> string \<Rightarrow> string \<Rightarrow> uuid option \<Rightarrow> diff
    \<Rightarrow> ('z kit_state_scheme, unit) op" where
  "ks_audit s org staff action obj oid after =
     emit (ks_lib s) (ks_audited s) (entry (Some org) (Some staff) action obj oid [] after)"

record kit_with_counts =
  kw_kit :: kit
  kw_pending :: int
  kw_collected :: int
  kw_voided :: int
  kw_remaining :: int

definition kit_counts :: "kit \<Rightarrow> (collection_status \<Rightarrow> int) \<Rightarrow> kit_with_counts" where
  "kit_counts k m = (let left = kt_total k - m Pending - m Collected in
     \<lparr>kw_kit = k, kw_pending = m Pending, kw_collected = m Collected, kw_voided = m Voided,
      kw_remaining = (if left < 0 then 0 else left)\<rparr>)"

definition kit_event :: "lib \<Rightarrow> uuid \<Rightarrow> string \<Rightarrow> kit_err \<Rightarrow> ('z kit_state_scheme, uuid) op" where
  "kit_event l org eventref e = on_error (resolve_event_id l org eventref) (\<lambda>_. KitE e)"

definition kit_parse :: "lib \<Rightarrow> string \<Rightarrow> kit_err \<Rightarrow> ('z kit_state_scheme, uuid) op" where
  "kit_parse l ref0 e = the_or_fail (KitE e) (uuid_parse l (trim_space ref0))"

definition create_kit :: "kit_service \<Rightarrow> uuid \<Rightarrow> string \<Rightarrow> string \<Rightarrow> string \<Rightarrow> int \<Rightarrow> uuid
    \<Rightarrow> ('z kit_state_scheme, kit_with_counts) op" where
  "create_kit s org eventref name description qty staff =
     bnd (kit_event (ks_lib s) org eventref kit_err.ErrKitNotFound) (\<lambda>ev.
     bnd (guard (trim_space name \<noteq> []) (KitE kit_err.ErrKitNotFound)) (\<lambda>_.
     bnd (guard (\<not> qty < 1) (KitE kit_err.ErrInvalidQuantity)) (\<lambda>_.
     bnd (entitlement_or_free (ks_plans s) org) (\<lambda>ent.
     bnd (guard (can ent Kits) (SubE sub_err.ErrUpgradeRequired)) (\<lambda>_.
     bnd (let most = max_kits_per_event (en_limits ent) in
          if most \<ge> 0 then bnd (list_kits_by_event ev) (\<lambda>ks.
            guard (\<not> int (length ks) \<ge> most) (SubE sub_err.ErrUpgradeRequired))
          else ret ()) (\<lambda>_.
     bnd (tx (
       bnd (repo_create_kit (ks_lib s) \<lparr>kt_id = uuid_nil, kt_event = ev, kt_name = trim_space name,
              kt_description = trim_space description, kt_total = qty, kt_created_at = 0,
              kt_updated_at = 0\<rparr>) (\<lambda>k.
       bnd (ks_audit s org staff ''kit.created'' ''kit'' (Some (kt_id k))
              [(''name'', AStr (kt_name k)), (''quantityTotal'', AInt (kt_total k))]) (\<lambda>_.
       ret k)))) (\<lambda>k.
     ret \<lparr>kw_kit = k, kw_pending = 0, kw_collected = 0, kw_voided = 0, kw_remaining = qty\<rparr>)))))))"

definition list_kits :: "kit_service \<Rightarrow> uuid \<Rightarrow> string \<Rightarrow> ('z kit_state_scheme, kit_with_counts list) op" where
  "list_kits s org eventref =
     bnd (kit_event (ks_lib s) org eventref kit_err.ErrKitNotFound) (\<lambda>ev.
     bnd (list_kits_by_event ev) (\<lambda>ks.
     bnd (counts_by_kit ev) (\<lambda>m. ret (map (\<lambda>k. kit_counts k (m (kt_id k))) ks))))"

definition with_counts :: "uuid \<Rightarrow> kit \<Rightarrow> ('z kit_state_scheme, kit_with_counts) op" where
  "with_counts ev k = bnd (counts_by_kit ev) (\<lambda>m. ret (kit_counts k (m (kt_id k))))"

definition locked_kit :: "uuid \<Rightarrow> uuid \<Rightarrow> ('z kit_state_scheme, kit) op" where
  "locked_kit i ev =
     bnd (on_error (get_kit_for_update i) (not_found_as (KitE kit_err.ErrKitNotFound))) (\<lambda>k.
     bnd (guard (kt_event k = ev) (KitE kit_err.ErrKitNotFound)) (\<lambda>_. ret k))"

definition update_kit :: "kit_service \<Rightarrow> uuid \<Rightarrow> string \<Rightarrow> string \<Rightarrow> string option \<Rightarrow> string option
    \<Rightarrow> int option \<Rightarrow> uuid \<Rightarrow> ('z kit_state_scheme, kit_with_counts) op" where
  "update_kit s org eventref kitref name description qty staff =
     bnd (kit_event (ks_lib s) org eventref kit_err.ErrKitNotFound) (\<lambda>ev.
     bnd (kit_parse (ks_lib s) kitref kit_err.ErrKitNotFound) (\<lambda>i.
     bnd (tx (
       bnd (locked_kit i ev) (\<lambda>k0.
       bnd (guard (case name of None \<Rightarrow> True | Some n \<Rightarrow> trim_space n \<noteq> []) (KitE kit_err.ErrKitNotFound)) (\<lambda>_.
       bnd (case qty of None \<Rightarrow> ret ()
            | Some q \<Rightarrow> bnd (guard (\<not> q < 1) (KitE kit_err.ErrInvalidQuantity)) (\<lambda>_.
                bnd (count_collected i) (\<lambda>n.
                guard (\<not> q < n) (KitE kit_err.ErrQuantityBelowCollected)))) (\<lambda>_.
       let k = k0\<lparr>kt_name := given (map_option trim_space name) (kt_name k0),
                  kt_description := given (map_option trim_space description) (kt_description k0),
                  kt_total := given qty (kt_total k0)\<rparr> in
       bnd (repo_update_kit k) (\<lambda>_.
       bnd (ks_audit s org staff ''kit.updated'' ''kit'' (Some (kt_id k))
              [(''name'', AStr (kt_name k)), (''quantityTotal'', AInt (kt_total k))]) (\<lambda>_.
       ret k))))))) (\<lambda>k.
     with_counts ev k)))"

definition delete_kit :: "kit_service \<Rightarrow> uuid \<Rightarrow> string \<Rightarrow> string \<Rightarrow> uuid \<Rightarrow> ('z kit_state_scheme, unit) op" where
  "delete_kit s org eventref kitref staff =
     bnd (kit_event (ks_lib s) org eventref kit_err.ErrKitNotFound) (\<lambda>ev.
     bnd (kit_parse (ks_lib s) kitref kit_err.ErrKitNotFound) (\<lambda>i.
     tx (
       bnd (locked_kit i ev) (\<lambda>k.
       bnd (count_active i) (\<lambda>n.
       bnd (guard (\<not> n > 0) (KitE kit_err.ErrKitHasCollections)) (\<lambda>_.
       bnd (repo_delete_kit i) (\<lambda>_.
       ks_audit s org staff ''kit.deleted'' ''kit'' (Some i) [(''name'', AStr (kt_name k))])))))))"

section \<open>Handouts\<close>

record collection_view =
  cv_collection :: collection
  cv_kit_name :: string

text \<open>The reading half of \<open>Collect\<close>: who, which kit, and that the attendee is checked in.\<close>

definition collect_check :: "kit_service \<Rightarrow> uuid \<Rightarrow> string \<Rightarrow> string \<Rightarrow> string
    \<Rightarrow> ('z kit_state_scheme, uuid \<times> uuid \<times> uuid) op" where
  "collect_check s org eventref kitref attref =
     bnd (kit_event (ks_lib s) org eventref kit_err.ErrKitNotFound) (\<lambda>ev.
     bnd (kit_parse (ks_lib s) kitref kit_err.ErrKitNotFound) (\<lambda>i.
     bnd (kit_parse (ks_lib s) attref kit_err.ErrAttendeeNotFound) (\<lambda>a.
     bnd (on_error (attendee_status_in_event a ev) (not_found_as (KitE kit_err.ErrAttendeeNotFound))) (\<lambda>st.
     bnd (guard (st = CheckedIn) (KitE kit_err.ErrNotCheckedIn)) (\<lambda>_.
     ret (ev, i, a))))))"

definition collect_commit :: "kit_service \<Rightarrow> uuid \<Rightarrow> uuid \<Rightarrow> uuid \<Rightarrow> uuid \<Rightarrow> bool \<Rightarrow> string \<Rightarrow> uuid
    \<Rightarrow> ('z kit_state_scheme, collection_view) op" where
  "collect_commit s org ev i a hold key staff = tx (
     bnd (locked_kit i ev) (\<lambda>k.
     bnd (if key \<noteq> [] then find_collection_by_key i a key else ret None) (\<lambda>existing.
     case existing of
       Some c \<Rightarrow> ret \<lparr>cv_collection = c, cv_kit_name = kt_name k\<rparr>
     | None \<Rightarrow>
         bnd (count_active i) (\<lambda>n.
         bnd (guard (\<not> n \<ge> kt_total k) (KitE kit_err.ErrQuantityExhausted)) (\<lambda>_.
         bnd time_now (\<lambda>now.
         let c = \<lparr>kc_id = uuid_nil, kc_kit = i, kc_event = ev, kc_attendee = a, kc_idem = key,
                  kc_status = (if hold then Pending else Collected),
                  kc_collected_at = (if hold then None else Some now),
                  kc_collected_by = (if hold then None else Some staff),
                  kc_created_at = 0, kc_updated_at = 0\<rparr> in
         bnd (on_error (repo_create_collection (ks_lib s) c) (unique_as (KitE kit_err.ErrAlreadyCollected))) (\<lambda>row.
         bnd (ks_audit s org staff (if hold then ''kit.reserved'' else ''kit.collected'') ''kit_collection''
                (Some (kc_id row))
                [(''kitId'', AId i), (''attendeeId'', AId a),
                 (''status'', AStr (collection_status_text (kc_status c)))]) (\<lambda>_.
         ret \<lparr>cv_collection = row, cv_kit_name = kt_name k\<rparr>))))))))"

definition collect :: "kit_service \<Rightarrow> uuid \<Rightarrow> string \<Rightarrow> string \<Rightarrow> string \<Rightarrow> bool \<Rightarrow> string \<Rightarrow> uuid
    \<Rightarrow> ('z kit_state_scheme, collection_view) op" where
  "collect s org eventref kitref attref hold key staff =
     bnd (collect_check s org eventref kitref attref) (\<lambda>(ev, i, a).
     collect_commit s org ev i a hold key staff)"

definition transition_collection :: "kit_service \<Rightarrow> uuid \<Rightarrow> string \<Rightarrow> string \<Rightarrow> uuid \<Rightarrow> collection_status
    \<Rightarrow> string \<Rightarrow> collection_status list \<Rightarrow> ('z kit_state_scheme, collection_view) op" where
  "transition_collection s org eventref colref staff to action from =
     bnd (kit_event (ks_lib s) org eventref kit_err.ErrCollectionNotFound) (\<lambda>ev.
     bnd (kit_parse (ks_lib s) colref kit_err.ErrCollectionNotFound) (\<lambda>i.
     tx (
       bnd (on_error (get_collection_for_update i) (not_found_as (KitE kit_err.ErrCollectionNotFound))) (\<lambda>c0.
       bnd (guard (kc_event c0 = ev) (KitE kit_err.ErrCollectionNotFound)) (\<lambda>_.
       bnd (guard (kc_status c0 \<in> set from) (KitE kit_err.ErrInvalidStatus)) (\<lambda>_.
       bnd time_now (\<lambda>now.
       let c1 = c0\<lparr>kc_status := to\<rparr>;
           c = (if to = Collected then c1\<lparr>kc_collected_at := Some now, kc_collected_by := Some staff\<rparr> else c1) in
       bnd (repo_update_collection c) (\<lambda>row.
       bnd (get_kit_by_id (kc_kit c)) (\<lambda>k.
       bnd (ks_audit s org staff action ''kit_collection'' (Some (kc_id c))
              [(''status'', AStr (collection_status_text to))]) (\<lambda>_.
       ret \<lparr>cv_collection = row, cv_kit_name = kt_name k\<rparr>))))))))))"

definition mark_collected :: "kit_service \<Rightarrow> uuid \<Rightarrow> string \<Rightarrow> string \<Rightarrow> uuid
    \<Rightarrow> ('z kit_state_scheme, collection_view) op" where
  "mark_collected s org eventref colref staff =
     transition_collection s org eventref colref staff Collected ''kit.collected'' [Pending]"

definition void_collection :: "kit_service \<Rightarrow> uuid \<Rightarrow> string \<Rightarrow> string \<Rightarrow> uuid
    \<Rightarrow> ('z kit_state_scheme, collection_view) op" where
  "void_collection s org eventref colref staff =
     transition_collection s org eventref colref staff Voided ''kit.voided'' [Pending, Collected]"

definition with_names :: "uuid \<Rightarrow> collection list \<Rightarrow> int
    \<Rightarrow> ('z kit_state_scheme, collection_view list \<times> int) op" where
  "with_names ev cs qty = bnd (list_kits_by_event ev) (\<lambda>ks.
     ret (map (\<lambda>c. \<lparr>cv_collection = c, cv_kit_name =
       (case by_key kt_id (kc_kit c) ks of None \<Rightarrow> [] | Some k \<Rightarrow> kt_name k)\<rparr>) cs, qty))"

definition list_collections :: "kit_service \<Rightarrow> uuid \<Rightarrow> string \<Rightarrow> uuid option \<Rightarrow> uuid option \<Rightarrow> string
    \<Rightarrow> ('z kit_state_scheme, collection_view list \<times> int) op" where
  "list_collections s org eventref kit att status =
     bnd (kit_event (ks_lib s) org eventref kit_err.ErrKitNotFound) (\<lambda>ev.
     bnd (guard (status = [] \<or> collection_status_of status \<noteq> None) (KitE kit_err.ErrInvalidStatus)) (\<lambda>_.
     bnd (repo_list_collections ev kit (if status = [] then None else collection_status_of status) att)
       (\<lambda>(cs, qty). with_names ev cs qty)))"

definition attendee_collections :: "kit_service \<Rightarrow> uuid \<Rightarrow> string \<Rightarrow> string
    \<Rightarrow> ('z kit_state_scheme, collection_view list) op" where
  "attendee_collections s org eventref attref =
     bnd (kit_event (ks_lib s) org eventref kit_err.ErrAttendeeNotFound) (\<lambda>ev.
     bnd (kit_parse (ks_lib s) attref kit_err.ErrAttendeeNotFound) (\<lambda>a.
     bnd (repo_list_collections ev None None (Some a)) (\<lambda>(cs, _).
     bnd (with_names ev cs (int (length cs))) (\<lambda>(views, _). ret views))))"

end
