(* ===== verification/Checkin.thy ===== *)
theory Checkin
  imports Kit
begin

text \<open>
  Check-in (\<open>internal/checkin\<close>: model, repository, \<open>checkin_service.go\<close>): scanning a QR code or a roster
  entry at the door, batches, reverts and the tally. A refusal is a successful request whose outcome
  says why; every attempt is logged. The flip itself is the attendee domain's, inside the transaction
  of the scan. The facts are in \<open>Door\<close>.
\<close>

datatype outcome = OutCheckedIn | OutAlreadyCheckedIn | OutInvalidCode | OutCancelled
  | OutWrongEvent | OutReverted

fun outcome_text :: "outcome \<Rightarrow> string" where
  "outcome_text OutCheckedIn = ''CHECKED_IN''"
| "outcome_text OutAlreadyCheckedIn = ''ALREADY_CHECKED_IN''"
| "outcome_text OutInvalidCode = ''INVALID_CODE''"
| "outcome_text OutCancelled = ''CANCELLED''"
| "outcome_text OutWrongEvent = ''WRONG_EVENT''"
| "outcome_text OutReverted = ''REVERTED''"

datatype scan_method = ByQR | Manual

fun method_text :: "scan_method \<Rightarrow> string" where
  "method_text ByQR = ''qr''"
| "method_text Manual = ''manual''"

record checkin_log =
  cl_id :: uuid
  cl_event :: uuid
  cl_attendee :: "uuid option"
  cl_scanned_by :: uuid
  cl_outcome :: outcome
  cl_method :: scan_method
  cl_created_at :: instant

record checkin_state = kit_state +
  checkin_logs :: "checkin_log list"

lemma checkin_tick [simp]:
  "checkin_logs (tick w) = checkin_logs w" "checkin_logs (rollback w w') = checkin_logs w"
  by (simp_all add: tick_def rollback_def)

text \<open>\<open>cs_collections\<close>: the kit guard is wired.\<close>

record checkin_service =
  cs_lib :: lib
  cs_secret :: string
  cs_audited :: bool
  cs_collections :: bool

text \<open>\<open>attendee_id\<close> references \<open>attendees\<close>, so a log of an attendee that is not there is refused.\<close>

definition insert_log :: "lib \<Rightarrow> checkin_log \<Rightarrow> ('z checkin_state_scheme, checkin_log) op" where
  "insert_log l g = bnd (before_create l (cl_id g)) (\<lambda>i. bnd time_now (\<lambda>now.
     let row = g\<lparr>cl_id := i, cl_created_at := now\<rparr> in
     bnd (write_db (\<lambda>w. if has_key cl_id i (checkin_logs w) then Some UniqueViolation
                        else (case cl_attendee g of None \<Rightarrow> None
                              | Some a \<Rightarrow> if has_key at_id a (attendees w) then None else Some DbError))
            (\<lambda>w. w\<lparr>checkin_logs := checkin_logs w @ [row]\<rparr>)) (\<lambda>_. ret row)))"

definition count_by_attendee :: "uuid \<Rightarrow> ('z checkin_state_scheme, int) op" where
  "count_by_attendee a = select (\<lambda>w. count_where (\<lambda>g. cl_attendee g = Some a) (checkin_logs w))"

definition cs_audit :: "checkin_service \<Rightarrow> uuid \<Rightarrow> uuid \<Rightarrow> checkin_log \<Rightarrow> ('z checkin_state_scheme, unit) op" where
  "cs_audit s org staff g = emit (cs_lib s) (cs_audited s)
     (entry (Some org) (Some staff) (''checkin.'' @ to_lower (outcome_text (cl_outcome g))) ''checkin_log''
        (Some (cl_id g)) []
        [(''outcome'', AStr (outcome_text (cl_outcome g))), (''method'', AStr (method_text (cl_method g)))])"

definition log_and_audit :: "checkin_service \<Rightarrow> uuid \<Rightarrow> uuid \<Rightarrow> uuid \<Rightarrow> uuid option \<Rightarrow> outcome \<Rightarrow> scan_method
    \<Rightarrow> ('z checkin_state_scheme, unit) op" where
  "log_and_audit s org staff ev att out meth =
     bnd (insert_log (cs_lib s) \<lparr>cl_id = uuid_nil, cl_event = ev, cl_attendee = att, cl_scanned_by = staff,
            cl_outcome = out, cl_method = meth, cl_created_at = 0\<rparr>) (\<lambda>g.
     cs_audit s org staff g)"

text \<open>The order of the cases is the source's: token, event, flip, then the status found.\<close>

definition verdict_outcome :: "scan_verdict \<Rightarrow> outcome" where
  "verdict_outcome v =
     (if \<not> sv_token_ok v then OutInvalidCode
      else if \<not> sv_event_ok v then OutWrongEvent
      else if sv_flipped v then OutCheckedIn
      else if sv_status v = CheckedIn then OutAlreadyCheckedIn
      else if sv_status v = AttCancelled then OutCancelled
      else OutInvalidCode)"

record scan_result =
  sr_outcome :: outcome
  sr_method :: scan_method
  sr_attendee :: "uuid option"
  sr_checked_in_at :: "instant option"

definition checkin_event :: "checkin_service \<Rightarrow> uuid \<Rightarrow> string \<Rightarrow> ('z checkin_state_scheme, uuid) op" where
  "checkin_event s org eventref =
     on_error (resolve_event_id (cs_lib s) org eventref) (\<lambda>_. CheckinE checkin_err.ErrCheckinNotFound)"

text \<open>The transaction of a scan whose code is authentic.\<close>

definition scan_tx :: "checkin_service \<Rightarrow> uuid \<Rightarrow> uuid \<Rightarrow> uuid \<Rightarrow> string \<Rightarrow> uuid
    \<Rightarrow> ('z checkin_state_scheme, scan_result) op" where
  "scan_tx s org ev a raw staff = tx (
     bnd (attempt (apply_checkin (cs_lib s) a raw ev)) (\<lambda>r. case r of
       Inl e \<Rightarrow> (if e = RecordNotFound
          then bnd (log_and_audit s org staff ev (Some a) OutInvalidCode ByQR) (\<lambda>_.
               ret \<lparr>sr_outcome = OutInvalidCode, sr_method = ByQR, sr_attendee = Some a,
                    sr_checked_in_at = None\<rparr>)
          else fail e)
     | Inr v \<Rightarrow>
          bnd (log_and_audit s org staff ev (Some a) (verdict_outcome v) ByQR) (\<lambda>_.
          ret \<lparr>sr_outcome = verdict_outcome v, sr_method = ByQR, sr_attendee = Some a,
               sr_checked_in_at = sv_checked_in_at v\<rparr>)))"

definition scan_qr :: "checkin_service \<Rightarrow> uuid \<Rightarrow> string \<Rightarrow> string \<Rightarrow> uuid
    \<Rightarrow> ('z checkin_state_scheme, scan_result) op" where
  "scan_qr s org eventref code staff =
     bnd (guard (cs_secret s \<noteq> []) (CheckinE checkin_err.ErrQRSecretUnset)) (\<lambda>_.
     bnd (checkin_event s org eventref) (\<lambda>ev.
     case verify_payload (cs_lib s) code (cs_secret s) of
       None \<Rightarrow>
         bnd (insert_log (cs_lib s) \<lparr>cl_id = uuid_nil, cl_event = ev, cl_attendee = None,
                cl_scanned_by = staff, cl_outcome = OutInvalidCode, cl_method = ByQR, cl_created_at = 0\<rparr>) (\<lambda>g.
         bnd (cs_audit s org staff g) (\<lambda>_.
         ret \<lparr>sr_outcome = OutInvalidCode, sr_method = ByQR, sr_attendee = None, sr_checked_in_at = None\<rparr>))
     | Some (a, raw) \<Rightarrow> scan_tx s org ev a raw staff))"

definition scan_manual :: "checkin_service \<Rightarrow> uuid \<Rightarrow> string \<Rightarrow> string \<Rightarrow> uuid
    \<Rightarrow> ('z checkin_state_scheme, scan_result) op" where
  "scan_manual s org eventref attref staff =
     bnd (checkin_event s org eventref) (\<lambda>ev.
     bnd (the_or_fail (CheckinE checkin_err.ErrAttendeeNotFound) (uuid_parse (cs_lib s) attref)) (\<lambda>a.
     tx (
       bnd (on_error (apply_checkin_manual a ev) (not_found_as (CheckinE checkin_err.ErrAttendeeNotFound))) (\<lambda>v.
       bnd (log_and_audit s org staff ev (Some a) (verdict_outcome v) Manual) (\<lambda>_.
       ret \<lparr>sr_outcome = verdict_outcome v, sr_method = Manual, sr_attendee = Some a,
            sr_checked_in_at = sv_checked_in_at v\<rparr>)))))"

definition scan :: "checkin_service \<Rightarrow> uuid \<Rightarrow> string \<Rightarrow> string \<Rightarrow> string \<Rightarrow> uuid
    \<Rightarrow> ('z checkin_state_scheme, scan_result) op" where
  "scan s org eventref code attref staff =
     (if code \<noteq> [] then scan_qr s org eventref code staff else scan_manual s org eventref attref staff)"

definition max_batch_size :: nat where
  "max_batch_size = 50"

definition scan_batch :: "checkin_service \<Rightarrow> uuid \<Rightarrow> string \<Rightarrow> string list \<Rightarrow> uuid
    \<Rightarrow> ('z checkin_state_scheme, scan_result list) op" where
  "scan_batch s org eventref codes staff =
     bnd (guard (\<not> length codes > max_batch_size) (CheckinE checkin_err.ErrBatchTooLarge)) (\<lambda>_.
     for_each (\<lambda>code. scan_qr s org eventref code staff) codes)"

definition revert_tx :: "checkin_service \<Rightarrow> uuid \<Rightarrow> uuid \<Rightarrow> uuid \<Rightarrow> uuid
    \<Rightarrow> ('z checkin_state_scheme, scan_result) op" where
  "revert_tx s org ev a staff = tx (
     bnd (if cs_collections s then bnd (has_active_collections a) (\<lambda>has.
            guard (\<not> has) (CheckinE checkin_err.ErrCollectionsOutstanding)) else ret ()) (\<lambda>_.
     bnd (on_error (revert_attendee a ev) (not_found_as (CheckinE checkin_err.ErrAttendeeNotFound))) (\<lambda>v.
     bnd (guard (rv_event_ok v) (CheckinE checkin_err.ErrAttendeeNotFound)) (\<lambda>_.
     bnd (guard (rv_reverted v) (CheckinE checkin_err.ErrNotCheckedIn)) (\<lambda>_.
     bnd (log_and_audit s org staff ev (Some a) OutReverted Manual) (\<lambda>_.
     ret \<lparr>sr_outcome = OutReverted, sr_method = Manual, sr_attendee = Some a, sr_checked_in_at = None\<rparr>))))))"

definition revert :: "checkin_service \<Rightarrow> uuid \<Rightarrow> string \<Rightarrow> string \<Rightarrow> uuid
    \<Rightarrow> ('z checkin_state_scheme, scan_result) op" where
  "revert s org eventref attref staff =
     bnd (checkin_event s org eventref) (\<lambda>ev.
     bnd (the_or_fail (CheckinE checkin_err.ErrAttendeeNotFound) (uuid_parse (cs_lib s) attref)) (\<lambda>a.
     revert_tx s org ev a staff))"

definition stats :: "checkin_service \<Rightarrow> uuid \<Rightarrow> string \<Rightarrow> ('z checkin_state_scheme, int \<times> int \<times> int) op" where
  "stats s org eventref = bnd (checkin_event s org eventref) (\<lambda>ev.
     bnd (count_by_status ev) (\<lambda>n. ret (n Registered, n CheckedIn, n AttCancelled)))"

end
