(* ===== verification/Order.thy ===== *)
theory Order
  imports Checkin
begin

text \<open>
  Orders (\<open>internal/order\<close>: model, repository, \<open>order_service.go\<close>, the sweeper job): claiming inventory,
  confirming free orders at once, holding priced ones for payment, cancelling and expiring. Cancelling,
  expiring and marking paid read the order before their transaction and save the whole row in it, so
  the reading and the writing halves have names. The facts are in \<open>OrderFacts\<close>.
\<close>

section \<open>Rows\<close>

datatype order_status = OrderPending | PendingPayment | Confirmed | OrderCancelled | Expired

fun order_status_text :: "order_status \<Rightarrow> string" where
  "order_status_text OrderPending = ''PENDING''"
| "order_status_text PendingPayment = ''PENDING_PAYMENT''"
| "order_status_text Confirmed = ''CONFIRMED''"
| "order_status_text OrderCancelled = ''CANCELLED''"
| "order_status_text Expired = ''EXPIRED''"

definition order_terminal :: "order_status \<Rightarrow> bool" where
  "order_terminal st \<longleftrightarrow> st = Confirmed \<or> st = OrderCancelled \<or> st = Expired"

record order =
  or_id :: uuid
  or_user :: uuid
  or_event :: uuid
  or_type :: uuid
  or_quantity :: int
  or_price_cents :: int
  or_currency :: string
  or_status :: order_status
  or_session :: "string option"
  or_payment_intent :: "string option"
  or_paid_at :: "instant option"
  or_key :: "string option"
  or_expires_at :: "instant option"
  or_created_at :: instant
  or_updated_at :: instant

record order_state = checkin_state +
  orders :: "order list"

lemma order_tick [simp]:
  "orders (tick w) = orders w" "orders (rollback w w') = orders w"
  by (simp_all add: tick_def rollback_def)

text \<open>\<open>rs_mints\<close>, \<open>rs_counts\<close>, \<open>rs_plans\<close>, \<open>rs_enqueues\<close> and \<open>rs_audited\<close> say which collaborators are wired.\<close>

record order_service =
  rs_lib :: lib
  rs_tickets :: ticket_service
  rs_mints :: bool
  rs_counts :: bool
  rs_plans :: bool
  rs_enqueues :: bool
  rs_secret :: string
  rs_audited :: bool

definition hold_ttl :: int where
  "hold_ttl = 15 * 60 * seconds"

section \<open>Repository\<close>

definition order_row_ok :: "order \<Rightarrow> bool" where
  "order_row_ok x \<longleftrightarrow> 0 < or_quantity x \<and> fits32 (or_quantity x) \<and>
     0 \<le> or_price_cents x \<and> fits32 (or_price_cents x)"

text \<open>\<open>UNIQUE (user_id, idempotency_key)\<close> and the unique \<open>stripe_session_id\<close>; NULLs are distinct.\<close>

definition order_conflict :: "order \<Rightarrow> order \<Rightarrow> bool" where
  "order_conflict x y \<longleftrightarrow> (or_key x \<noteq> None \<and> or_key y = or_key x \<and> or_user y = or_user x) \<or>
     (or_session x \<noteq> None \<and> or_session y = or_session x)"

definition repo_create_order :: "lib \<Rightarrow> order \<Rightarrow> ('z order_state_scheme, order) op" where
  "repo_create_order l x = bnd (before_create l (or_id x)) (\<lambda>i. bnd time_now (\<lambda>now.
     let row = x\<lparr>or_id := i, or_created_at := now, or_updated_at := now\<rparr> in
     bnd (write_db (\<lambda>w. if has_key or_id i (orders w) \<or> list_ex (order_conflict x) (orders w)
                        then Some UniqueViolation
                        else if \<not> order_row_ok x then Some DbError else None)
            (\<lambda>w. w\<lparr>orders := orders w @ [row]\<rparr>)) (\<lambda>_. ret row)))"

definition get_order_by_id :: "uuid \<Rightarrow> ('z order_state_scheme, order) op" where
  "get_order_by_id i = select_first (\<lambda>w. by_key or_id i (orders w))"

definition get_order_by_idempotency :: "uuid \<Rightarrow> string \<Rightarrow> ('z order_state_scheme, order) op" where
  "get_order_by_idempotency user key = select_first (\<lambda>w.
     find (\<lambda>x. or_user x = user \<and> or_key x = Some key) (orders w))"

definition list_user_orders :: "uuid \<Rightarrow> int \<Rightarrow> int \<Rightarrow> ('z order_state_scheme, order list \<times> int) op" where
  "list_user_orders user limit offset =
     bnd (select (\<lambda>w. count_where (\<lambda>x. or_user x = user) (orders w))) (\<lambda>n.
     bnd (select (\<lambda>w. page_of limit offset
       (newest_first or_created_at (filter (\<lambda>x. or_user x = user) (orders w))))) (\<lambda>xs.
     ret (xs, n)))"

definition repo_update_order :: "order \<Rightarrow> ('z order_state_scheme, unit) op" where
  "repo_update_order x = bnd time_now (\<lambda>now.
     write_db (\<lambda>w. if list_ex (\<lambda>y. or_id y \<noteq> or_id x \<and> order_conflict x y) (orders w)
                   then Some UniqueViolation
                   else if \<not> order_row_ok x then Some DbError else None)
       (\<lambda>w. w\<lparr>orders := upsert or_id (x\<lparr>or_updated_at := now\<rparr>) (orders w)\<rparr>))"

definition hold_expired :: "instant \<Rightarrow> order \<Rightarrow> bool" where
  "hold_expired now x \<longleftrightarrow> (or_status x = OrderPending \<or> or_status x = PendingPayment) \<and>
     (case or_expires_at x of None \<Rightarrow> False | Some t \<Rightarrow> t \<le> now)"

text \<open>No \<open>ORDER BY\<close>: the database may return any \<open>limit\<close> of the rows; here the first ones.\<close>

definition expired_pending :: "instant \<Rightarrow> int \<Rightarrow> ('z order_state_scheme, order list) op" where
  "expired_pending now limit = select (\<lambda>w. page_of limit 0 (filter (hold_expired now) (orders w)))"

section \<open>Helpers\<close>

definition rs_emit :: "order_service \<Rightarrow> audit_entry \<Rightarrow> ('z order_state_scheme, unit) op" where
  "rs_emit s e = emit (rs_lib s) (rs_audited s) e"

record order_dto =
  ot_id :: uuid
  ot_event :: uuid
  ot_type :: uuid
  ot_quantity :: int
  ot_price_cents :: int
  ot_currency :: string
  ot_status :: order_status
  ot_expires_at :: "int option"
  ot_created_at :: int

definition to_order :: "order \<Rightarrow> order_dto" where
  "to_order x = \<lparr>ot_id = or_id x, ot_event = or_event x, ot_type = or_type x,
     ot_quantity = or_quantity x, ot_price_cents = or_price_cents x, ot_currency = or_currency x,
     ot_status = or_status x, ot_expires_at = format_time_ptr (or_expires_at x),
     ot_created_at = format_time (or_created_at x)\<rparr>"

definition unavailable_err :: "reason option \<Rightarrow> err" where
  "unavailable_err r = (if r = Some ReasonSoldOut then OrderE order_err.ErrSoldOut
     else OrderE order_err.ErrTicketGone)"

definition morph_reserve_err :: "err \<Rightarrow> err" where
  "morph_reserve_err e =
     (if e = TicketE ticketing_err.ErrSoldOut then OrderE order_err.ErrSoldOut
      else if e = TicketE ticketing_err.ErrInvalidQty then OrderE order_err.ErrInvalidQty
      else if e = TicketE ticketing_err.ErrTicketNotFound \<or> e = TicketE ticketing_err.ErrNotOnSale
        then OrderE order_err.ErrTicketGone
      else if e = TicketE ticketing_err.ErrTooMany then OrderE order_err.ErrTooMany
      else OrderE order_err.ErrTicketGone)"

definition manageable :: "uuid \<Rightarrow> order \<Rightarrow> ('z order_state_scheme, bool) op" where
  "manageable user x = bnd (attempt (org_of (or_event x))) (\<lambda>r. case r of
       Inl _ \<Rightarrow> ret False | Inr org \<Rightarrow> can_manage user org)"

definition find_order_or :: "err \<Rightarrow> uuid \<Rightarrow> ('z order_state_scheme, order) op" where
  "find_order_or e i = on_error (get_order_by_id i) (not_found_as e)"

definition check_attendee_capacity :: "order_service \<Rightarrow> uuid \<Rightarrow> int \<Rightarrow> ('z order_state_scheme, unit) op" where
  "check_attendee_capacity s ev quantity = (if \<not> rs_counts s then ret ()
     else bnd (attempt (org_of ev)) (\<lambda>r. case r of
       Inl _ \<Rightarrow> ret ()
     | Inr org \<Rightarrow>
         bnd (entitlement_or_free (rs_plans s) org) (\<lambda>ent.
         bnd (count_roster ev) (\<lambda>n.
         guard (\<not> wrap64 (n + quantity) > max_attendees_per_event (en_limits ent))
           (SubE sub_err.ErrEventAtCapacity)))))"

section \<open>Claiming\<close>

definition first_name_or :: "user \<Rightarrow> string \<Rightarrow> string" where
  "first_name_or u dflt = (case us_profile u of None \<Rightarrow> dflt
     | Some p \<Rightarrow> (case pf_first_name p of None \<Rightarrow> dflt | Some n \<Rightarrow> if n = [] then dflt else n))"

definition mint_tx :: "order_service \<Rightarrow> order \<Rightarrow> uuid \<Rightarrow> ('z order_state_scheme, minted list) op" where
  "mint_tx s x user = (if \<not> rs_mints s then ret []
     else bnd (get_user_by_id user) (\<lambda>u.
       mint_for_order (rs_lib s) (or_id x) user (or_event x) (us_email u)
         (first_name_or u (us_email u)) (or_quantity x)))"

definition enqueue_confirmation :: "order_service \<Rightarrow> order \<Rightarrow> uuid \<Rightarrow> minted list
    \<Rightarrow> ('z order_state_scheme, unit) op" where
  "enqueue_confirmation s x user ms = (if \<not> rs_enqueues s \<or> ms = [] \<or> rs_secret s = [] then ret ()
     else bnd (get_user_by_id user) (\<lambda>u.
       bnd (event_title (or_event x)) (\<lambda>title.
       enqueue_tx True (SendOrderConfirmationEmail (or_id x) (us_email u)
         (first_name_or u (us_email u)) title
         (map (\<lambda>m. build_payload (rs_lib s) (mt_id m) (mt_token m) (rs_secret s)) ms)))))"

record order_input =
  oi_type :: uuid
  oi_quantity :: int
  oi_key :: string

text \<open>The transaction of \<open>CreateOrder\<close>: hold and row, then what follows from the row: audit, and for a
  free order the door records and the mail.\<close>

definition claim_effects :: "order_service \<Rightarrow> uuid \<Rightarrow> uuid \<Rightarrow> order \<Rightarrow> ('z order_state_scheme, unit) op" where
  "claim_effects s user org x =
     bnd (rs_emit s (entry (Some org) (Some user) ''order.created'' ''order'' (Some (or_id x)) []
            [(''status'', AStr (order_status_text (or_status x))), (''quantity'', AInt (or_quantity x)),
             (''priceCents'', AInt (or_price_cents x))])) (\<lambda>_.
     if or_status x = Confirmed then
       bnd (mint_tx s x user) (\<lambda>ms.
       bnd (enqueue_confirmation s x user ms) (\<lambda>_.
       rs_emit s (entry (Some org) (Some user) ''order.confirmed'' ''order'' (Some (or_id x)) []
         [(''status'', AStr (order_status_text (or_status x)))])))
     else ret ())"

definition create_order_tx :: "order_service \<Rightarrow> uuid \<Rightarrow> uuid \<Rightarrow> order \<Rightarrow> ('z order_state_scheme, order) op" where
  "create_order_tx s user org x0 = tx (
     bnd (on_error (reserve_tx (or_type x0) (or_quantity x0)) morph_reserve_err) (\<lambda>_.
     bnd (repo_create_order (rs_lib s) x0) (\<lambda>x.
     bnd (claim_effects s user org x) (\<lambda>_.
     ret x))))"

definition new_order :: "uuid \<Rightarrow> uuid \<Rightarrow> ticket_dto \<Rightarrow> int \<Rightarrow> string \<Rightarrow> instant \<Rightarrow> order" where
  "new_order user ev tt quantity key now =
     \<lparr>or_id = uuid_nil, or_user = user, or_event = ev, or_type = td_id tt, or_quantity = quantity,
      or_price_cents = td_price_cents tt, or_currency = td_currency tt,
      or_status = (if td_price_cents tt = 0 then Confirmed else PendingPayment),
      or_session = None, or_payment_intent = None, or_paid_at = None,
      or_key = (if key \<noteq> [] then Some key else None),
      or_expires_at = (if td_price_cents tt = 0 then None else Some (now + hold_ttl)),
      or_created_at = 0, or_updated_at = 0\<rparr>"

definition create_order_fresh :: "order_service \<Rightarrow> uuid \<Rightarrow> uuid \<Rightarrow> order_input \<Rightarrow> string
    \<Rightarrow> ('z order_state_scheme, order_dto) op" where
  "create_order_fresh s user ev inp key =
     bnd (on_error (inspect_type (rs_tickets s) (oi_type inp)) (\<lambda>_. OrderE order_err.ErrTicketGone))
       (\<lambda>(tt, pub).
     bnd (guard (td_event tt = ev) (OrderE order_err.ErrTicketGone)) (\<lambda>_.
     bnd (guard pub (OrderE order_err.ErrTicketGone)) (\<lambda>_.
     bnd (guard (td_for_sale tt) (unavailable_err (td_reason tt))) (\<lambda>_.
     bnd (guard (case td_max_per_order tt of None \<Rightarrow> True | Some m \<Rightarrow> \<not> oi_quantity inp > m)
            (OrderE order_err.ErrTooMany)) (\<lambda>_.
     bnd (check_attendee_capacity s ev (oi_quantity inp)) (\<lambda>_.
     bnd time_now (\<lambda>now.
     bnd (org_of ev) (\<lambda>org.
     bnd (create_order_tx s user org (new_order user ev tt (oi_quantity inp) key now)) (\<lambda>x.
     ret (to_order x))))))))))"

definition create_order :: "order_service \<Rightarrow> uuid \<Rightarrow> uuid \<Rightarrow> order_input
    \<Rightarrow> ('z order_state_scheme, order_dto) op" where
  "create_order s user ev inp =
     bnd (guard (\<not> oi_quantity inp \<le> 0) (OrderE order_err.ErrInvalidQty)) (\<lambda>_.
     let key = trim_space (oi_key inp) in
     if key \<noteq> [] then
       bnd (attempt (get_order_by_idempotency user key)) (\<lambda>r. case r of
         Inr x \<Rightarrow> ret (to_order x)
       | Inl e \<Rightarrow> (if e \<noteq> RecordNotFound then fail e else create_order_fresh s user ev inp key))
     else create_order_fresh s user ev inp key)"

section \<open>Reads\<close>

definition get_order :: "uuid \<Rightarrow> uuid \<Rightarrow> ('z order_state_scheme, order_dto) op" where
  "get_order user i = bnd (find_order_or (OrderE order_err.ErrOrderNotFound) i) (\<lambda>x.
     bnd (if or_user x \<noteq> user then manageable user x else ret True) (\<lambda>ok.
     bnd (guard ok (OrderE order_err.ErrOrderNotFound)) (\<lambda>_. ret (to_order x))))"

definition find_order :: "uuid \<Rightarrow> ('z order_state_scheme, order) op" where
  "find_order i = get_order_by_id i"

record checkout_detail =
  kd_order :: order
  kd_ticket_name :: string
  kd_event_title :: string

definition checkout_detail_of :: "order_service \<Rightarrow> uuid \<Rightarrow> uuid \<Rightarrow> ('z order_state_scheme, checkout_detail) op" where
  "checkout_detail_of s user i =
     bnd (find_order_or (OrderE order_err.ErrOrderNotFound) i) (\<lambda>x.
     bnd (guard (or_user x = user) (OrderE order_err.ErrOrderNotFound)) (\<lambda>_.
     bnd (guard (or_status x = PendingPayment) (OrderE order_err.ErrInvalidStatus)) (\<lambda>_.
     bnd (on_error (inspect_type (rs_tickets s) (or_type x)) (\<lambda>_. OrderE order_err.ErrOrderNotFound)) (\<lambda>(tt, _).
     bnd (on_error (event_title (or_event x)) (\<lambda>_. OrderE order_err.ErrOrderNotFound)) (\<lambda>title.
     ret \<lparr>kd_order = x, kd_ticket_name = td_name tt, kd_event_title = title\<rparr>)))))"

definition list_my_orders :: "uuid \<Rightarrow> int \<Rightarrow> int \<Rightarrow> ('z order_state_scheme, order_dto list \<times> int) op" where
  "list_my_orders user limit offset = bnd (list_user_orders user limit offset) (\<lambda>(xs, n).
     ret (map to_order xs, n))"

section \<open>Transitions\<close>

text \<open>\<open>MarkPaid\<close>: the write of the row found payable.\<close>

definition mark_paid_commit :: "order_service \<Rightarrow> order \<Rightarrow> string \<Rightarrow> string
    \<Rightarrow> ('z order_state_scheme, order_dto) op" where
  "mark_paid_commit s x0 session intent =
     bnd time_now (\<lambda>now.
     let x = x0\<lparr>or_status := Confirmed, or_session := Some session,
                or_payment_intent := (if intent \<noteq> [] then Some intent else or_payment_intent x0),
                or_paid_at := Some now\<rparr> in
     bnd (org_of (or_event x)) (\<lambda>org.
     bnd (tx (
       bnd (repo_update_order x) (\<lambda>_.
       rs_emit s (entry (Some org) None ''order.confirmed'' ''order'' (Some (or_id x))
         [(''status'', AStr (order_status_text (or_status x0)))]
         [(''status'', AStr (order_status_text (or_status x)))])))) (\<lambda>_.
     ret (to_order x))))"

definition mark_paid :: "order_service \<Rightarrow> uuid \<Rightarrow> string \<Rightarrow> string \<Rightarrow> ('z order_state_scheme, order_dto) op" where
  "mark_paid s i session intent =
     bnd (find_order_or (OrderE order_err.ErrOrderNotFound) i) (\<lambda>x.
     if or_status x = Confirmed then ret (to_order x)
     else bnd (guard (or_status x = PendingPayment) (OrderE order_err.ErrInvalidStatus)) (\<lambda>_.
       mark_paid_commit s x session intent))"

definition set_stripe_session :: "uuid \<Rightarrow> string \<Rightarrow> ('z order_state_scheme, unit) op" where
  "set_stripe_session i session =
     bnd (get_order_by_id i) (\<lambda>x.
     bnd (guard (or_status x = PendingPayment \<or> or_status x = Confirmed) (OrderE order_err.ErrInvalidStatus)) (\<lambda>_.
     repo_update_order (x\<lparr>or_session := Some session\<rparr>)))"

definition cancel_order_check :: "uuid \<Rightarrow> uuid \<Rightarrow> ('z order_state_scheme, order \<times> uuid) op" where
  "cancel_order_check caller i =
     bnd (find_order_or (OrderE order_err.ErrOrderNotFound) i) (\<lambda>x.
     bnd (if or_user x \<noteq> caller then manageable caller x else ret True) (\<lambda>ok.
     bnd (guard ok (OrderE order_err.ErrOrderNotFound)) (\<lambda>_.
     bnd (guard (\<not> (order_terminal (or_status x) \<and> or_status x \<noteq> Confirmed))
            (OrderE order_err.ErrInvalidStatus)) (\<lambda>_.
     bnd (org_of (or_event x)) (\<lambda>org. ret (x, org))))))"

text \<open>The transaction that gives the units back and saves the row in its end state.\<close>

definition close_order_tx :: "order_service \<Rightarrow> uuid option \<Rightarrow> uuid \<Rightarrow> string \<Rightarrow> (err \<Rightarrow> err) \<Rightarrow> order_status
    \<Rightarrow> order \<Rightarrow> ('z order_state_scheme, order) op" where
  "close_order_tx s actor org action morph to x0 = tx (
     bnd (on_error (release_tx (or_type x0) (or_quantity x0)) morph) (\<lambda>_.
     let x = x0\<lparr>or_status := to\<rparr> in
     bnd (repo_update_order x) (\<lambda>_.
     bnd (rs_emit s (entry (Some org) actor action ''order'' (Some (or_id x))
            [(''status'', AStr (order_status_text (or_status x0)))]
            [(''status'', AStr (order_status_text (or_status x)))])) (\<lambda>_.
     ret x))))"

definition cancel_order_commit :: "order_service \<Rightarrow> uuid \<Rightarrow> order \<Rightarrow> uuid \<Rightarrow> ('z order_state_scheme, order_dto) op" where
  "cancel_order_commit s caller x org =
     bnd (close_order_tx s (Some caller) org ''order.cancelled'' (\<lambda>_. OrderE order_err.ErrTicketGone)
            OrderCancelled x) (\<lambda>y.
     ret (to_order y))"

definition cancel_order :: "order_service \<Rightarrow> uuid \<Rightarrow> uuid \<Rightarrow> ('z order_state_scheme, order_dto) op" where
  "cancel_order s caller i =
     bnd (cancel_order_check caller i) (\<lambda>(x, org). cancel_order_commit s caller x org)"

definition expire_one :: "order_service \<Rightarrow> order \<Rightarrow> ('z order_state_scheme, unit) op" where
  "expire_one s x = bnd (org_of (or_event x)) (\<lambda>org.
     bnd (close_order_tx s None org ''order.expired'' (\<lambda>e. e) Expired x) (\<lambda>_. ret ()))"

text \<open>The loop of the sweeper: a failure is logged and the next order is tried.\<close>

fun sweep_loop :: "order_service \<Rightarrow> order list \<Rightarrow> ('z order_state_scheme, int) op" where
  "sweep_loop s [] = ret 0"
| "sweep_loop s (x # xs) = bnd (attempt (expire_one s x)) (\<lambda>r.
     bnd (sweep_loop s xs) (\<lambda>n. ret (case r of Inl _ \<Rightarrow> n | Inr _ \<Rightarrow> n + 1)))"

definition sweep_batch :: "int \<Rightarrow> int" where
  "sweep_batch batch = (if batch \<le> 0 \<or> batch > 500 then 100 else batch)"

definition sweep_expired :: "order_service \<Rightarrow> int \<Rightarrow> ('z order_state_scheme, int) op" where
  "sweep_expired s batch = bnd time_now (\<lambda>now.
     bnd (expired_pending now (sweep_batch batch)) (\<lambda>xs. sweep_loop s xs))"

text \<open>The River worker: nothing without a service.\<close>

definition sweep_worker :: "order_service option \<Rightarrow> ('z order_state_scheme, unit) op" where
  "sweep_worker svc = (case svc of None \<Rightarrow> ret ()
     | Some s \<Rightarrow> bnd (sweep_expired s 100) (\<lambda>_. ret ()))"

end
