(* ===== verification/Subscription.thy ===== *)
theory Subscription
  imports Members
begin

text \<open>
  Subscription billing (\<open>internal/subscription/service\<close>: the checkout and portal operations, the catalog,
  the Stripe Billing provider and the webhook handlers). Stripe is the argument \<open>billing\<close>: what its API
  answers; every call may fail. A webhook event is given decoded: \<open>None\<close> is a payload that does not
  decode. The facts are in \<open>BillingFacts\<close>.
\<close>

section \<open>Stripe\<close>

record stripe_session =
  ss_id :: string
  ss_subscription_mode :: bool
  ss_paid :: bool
  ss_payment_intent :: "string option"
  ss_subscription :: "string option"
  ss_customer :: "string option"
  ss_metadata :: "string \<Rightarrow> string"

datatype stripe_sub_status = SActive | STrialing | SPastDue | SCanceled | SUnpaid
  | SIncompleteExpired | SOther

record stripe_subscription =
  su_id :: string
  su_status :: stripe_sub_status
  su_plan :: string
  su_items :: "int list option"
  su_cancel_at_end :: bool
  su_customer :: "string option"

datatype stripe_event_type = CheckoutCompleted | AsyncPaymentSucceeded | AsyncPaymentFailed
  | InvoicePaid | InvoiceFailed | SubscriptionUpdated | SubscriptionDeleted | OtherEvent

record stripe_event =
  se_type :: stripe_event_type
  se_session :: "stripe_session option"
  se_invoice_subscription :: "string option"
  se_subscription :: "stripe_subscription option"

record sub_info =
  sn_period_end :: "instant option"
  sn_cancel_at_end :: bool
  sn_plan :: plan
  sn_customer :: string
  sn_subscription :: string

text \<open>The answers of the Stripe API.\<close>

record billing =
  bl_new_customer :: "uuid \<Rightarrow> string"
  bl_checkout :: "string \<Rightarrow> string \<Rightarrow> uuid \<Rightarrow> plan \<Rightarrow> string \<Rightarrow> string \<times> string"
  bl_portal :: "string \<Rightarrow> string \<Rightarrow> string"
  bl_retrieve :: "string \<Rightarrow> stripe_subscription option"
  bl_price :: "string \<Rightarrow> (int \<times> string) option"

record subscription_service =
  us_lib :: lib
  us_billing :: "billing option"
  us_audited :: bool
  us_price_pro :: string
  us_price_scale :: string

definition call_ext :: "'a option \<Rightarrow> ('z base_scheme, 'a) op" where
  "call_ext x = (\<lambda>w. if trips w then (Inl ExtError, tick w)
     else (case x of None \<Rightarrow> (Inl ExtError, tick w) | Some y \<Rightarrow> (Inr y, tick w)))"

definition period_end_of :: "stripe_subscription \<Rightarrow> instant option" where
  "period_end_of sub = (case su_items sub of None \<Rightarrow> None
     | Some ends \<Rightarrow> map_option (\<lambda>t. t * seconds) (find (\<lambda>t. t \<noteq> 0) ends))"

definition sub_info_from :: "stripe_subscription \<Rightarrow> sub_info" where
  "sub_info_from sub = \<lparr>sn_period_end = period_end_of sub, sn_cancel_at_end = su_cancel_at_end sub,
     sn_plan = (if plan_paid (plan_of_text (su_plan sub)) then plan_of_text (su_plan sub) else OtherPlan []),
     sn_customer = (case su_customer sub of None \<Rightarrow> [] | Some c \<Rightarrow> c), sn_subscription = su_id sub\<rparr>"

definition get_stripe_subscription :: "billing \<Rightarrow> string \<Rightarrow> ('z base_scheme, sub_info) op" where
  "get_stripe_subscription b i = bnd (call_ext (bl_retrieve b i)) (\<lambda>sub. ret (sub_info_from sub))"

definition new_customer_row :: "uuid \<Rightarrow> string \<Rightarrow> org_subscription" where
  "new_customer_row org customer = \<lparr>sb_id = uuid_nil, sb_org = org, sb_plan = FREE,
     sb_status = SubActive, sb_customer = customer, sb_subscription = [], sb_period_end = None,
     sb_cancel_at_end = False, sb_grace_until = None, sb_created_at = 0, sb_updated_at = 0\<rparr>"

definition get_or_create_customer :: "lib \<Rightarrow> billing \<Rightarrow> uuid \<Rightarrow> ('z plan_state_scheme, string) op" where
  "get_or_create_customer l b org = bnd (sub_by_org org) (\<lambda>existing.
     case (case existing of None \<Rightarrow> [] | Some x \<Rightarrow> sb_customer x) of
       [] \<Rightarrow> bnd (call_ext (Some (bl_new_customer b org))) (\<lambda>c.
              bnd (sub_upsert l (new_customer_row org c)) (\<lambda>_. ret c))
     | c # cs \<Rightarrow> ret (c # cs))"

section \<open>Checkout, portal and catalog\<close>

definition start_checkout :: "subscription_service \<Rightarrow> uuid \<Rightarrow> uuid \<Rightarrow> plan
    \<Rightarrow> ('z org_state_scheme, string \<times> string) op" where
  "start_checkout s user org plan =
     bnd (guard (plan_paid plan) (SubE sub_err.ErrInvalidPlan)) (\<lambda>_.
     bnd (the_or_fail (SubE sub_err.ErrBillingUnavailable) (us_billing s)) (\<lambda>b.
     bnd (is_owner user org) (\<lambda>ok.
     bnd (guard ok (SubE sub_err.ErrForbidden)) (\<lambda>_.
     bnd (sub_by_org org) (\<lambda>existing.
     bnd (guard (case existing of None \<Rightarrow> True
            | Some x \<Rightarrow> \<not> (sb_status x = SubActive \<and> sb_plan x = plan \<and> sb_subscription x \<noteq> []))
            (SubE sub_err.ErrAlreadySubscribed)) (\<lambda>_.
     let price = (if plan = SCALE then us_price_scale s else us_price_pro s) in
     bnd (guard (price \<noteq> []) (SubE sub_err.ErrBillingUnavailable)) (\<lambda>_.
     bnd (get_or_create_customer (us_lib s) b org) (\<lambda>customer.
     bnd (draw_uuid (us_lib s)) (\<lambda>nonce.
     let key = ''sub-'' @ uuid_text (us_lib s) org @ ''-'' @ plan_text plan @ ''-'' @ uuid_text (us_lib s) nonce in
     bnd (call_ext (Some (bl_checkout b customer price org plan key))) (\<lambda>(url, session).
     bnd (attempt (emit (us_lib s) (us_audited s)
            (entry (Some org) (Some user) ''subscription.checkout_started'' ''subscription'' None []
               [(''plan'', AStr (plan_text plan))]))) (\<lambda>_.
     ret (url, session))))))))))))"

definition create_portal_session :: "subscription_service \<Rightarrow> uuid \<Rightarrow> uuid \<Rightarrow> string
    \<Rightarrow> ('z org_state_scheme, string) op" where
  "create_portal_session s user org return_url =
     bnd (the_or_fail (SubE sub_err.ErrBillingUnavailable) (us_billing s)) (\<lambda>b.
     bnd (is_owner user org) (\<lambda>ok.
     bnd (guard ok (SubE sub_err.ErrForbidden)) (\<lambda>_.
     bnd (sub_by_org org) (\<lambda>sub.
     case sub of None \<Rightarrow> fail (SubE sub_err.ErrNoSubscription)
     | Some x \<Rightarrow>
         bnd (guard (sb_customer x \<noteq> []) (SubE sub_err.ErrNoSubscription)) (\<lambda>_.
         call_ext (Some (bl_portal b (sb_customer x) return_url)))))))"

record tier_view =
  tv_plan :: plan
  tv_name :: string
  tv_price_id :: string
  tv_monthly_cents :: int
  tv_currency :: string
  tv_limits :: limits
  tv_features :: "feature list"

definition tier_view_of :: "subscription_service \<Rightarrow> plan \<Rightarrow> string \<Rightarrow> string
    \<Rightarrow> ('z base_scheme, tier_view) op" where
  "tier_view_of s p name price =
     (let v = \<lparr>tv_plan = p, tv_name = name, tv_price_id = price, tv_monthly_cents = 0, tv_currency = [],
               tv_limits = tier_limits p,
               tv_features = filter (\<lambda>f. f \<in> set (tier_features p)) [CustomRoles, ApiKeys, Kits]\<rparr> in
      case us_billing s of
        None \<Rightarrow> ret v
      | Some b \<Rightarrow>
          (if \<not> plan_paid p \<or> price = [] then ret v
           else bnd (attempt (call_ext (bl_price b price))) (\<lambda>r. case r of
              Inl _ \<Rightarrow> ret v
            | Inr (amount, currency) \<Rightarrow> ret (v\<lparr>tv_monthly_cents := amount, tv_currency := currency\<rparr>))))"

definition catalog :: "subscription_service \<Rightarrow> ('z base_scheme, tier_view list) op" where
  "catalog s =
     bnd (tier_view_of s FREE ''Free'' []) (\<lambda>a.
     bnd (tier_view_of s PRO ''Pro'' (us_price_pro s)) (\<lambda>b.
     bnd (tier_view_of s SCALE ''Scale'' (us_price_scale s)) (\<lambda>c. ret [a, b, c])))"

section \<open>Webhook\<close>

definition past_due_grace_days :: int where
  "past_due_grace_days = 7"

definition grace_from :: "instant \<Rightarrow> instant" where
  "grace_from now = now + past_due_grace_days * 24 * 60 * 60 * seconds"

text \<open>\<open>emitBilling\<close>: the actor is the user of the metadata when it parses, and failures are dropped.\<close>

definition emit_billing :: "subscription_service \<Rightarrow> uuid \<Rightarrow> string \<Rightarrow> string \<Rightarrow> uuid \<Rightarrow> diff
    \<Rightarrow> ('z core_state_scheme, unit) op" where
  "emit_billing s org actor action oid after =
     bnd (attempt (emit (us_lib s) (us_audited s)
       (entry (Some org) (uuid_parse (us_lib s) actor) action ''subscription'' (Some oid) [] after))) (\<lambda>_. ret ())"

text \<open>The row with the period synced from Stripe when it can be read.\<close>

definition synced_period :: "subscription_service \<Rightarrow> string \<Rightarrow> org_subscription
    \<Rightarrow> ('z base_scheme, org_subscription) op" where
  "synced_period s i row = (case us_billing s of None \<Rightarrow> ret row
     | Some b \<Rightarrow> bnd (attempt (get_stripe_subscription b i)) (\<lambda>r. ret (case r of Inl _ \<Rightarrow> row
         | Inr info \<Rightarrow> row\<lparr>sb_period_end := sn_period_end info, sb_cancel_at_end := sn_cancel_at_end info\<rparr>)))"

definition on_checkout_completed :: "subscription_service \<Rightarrow> stripe_event \<Rightarrow> ('z plan_state_scheme, bool) op" where
  "on_checkout_completed s evt = (case se_session evt of
       None \<Rightarrow> ret True
     | Some ss \<Rightarrow>
        (if \<not> ss_subscription_mode ss then ret False
         else (case uuid_parse (us_lib s) (ss_metadata ss ''org_id'') of
             None \<Rightarrow> ret True
           | Some org \<Rightarrow>
              (if ss_metadata ss ''org_id'' = [] then ret True
               else let plan = plan_of_text (ss_metadata ss ''plan'') in
                 if \<not> plan_paid plan then ret True
                 else
                   let sub_id = (case ss_subscription ss of None \<Rightarrow> [] | Some i \<Rightarrow> i);
                       row = (new_customer_row org (case ss_customer ss of None \<Rightarrow> [] | Some c \<Rightarrow> c))
                               \<lparr>sb_plan := plan, sb_subscription := sub_id\<rparr> in
                   bnd (if sub_id \<noteq> [] then synced_period s sub_id row else ret row) (\<lambda>row.
                   bnd (sub_upsert (us_lib s) row) (\<lambda>_.
                   bnd (sub_by_org org) (\<lambda>saved.
                   bnd (emit_billing s org (ss_metadata ss ''user_id'') ''subscription.started''
                          (case saved of None \<Rightarrow> uuid_nil | Some x \<Rightarrow> sb_id x)
                          [(''plan'', AStr (plan_text plan))]) (\<lambda>_.
                   ret True))))))))"

definition on_invoice_paid :: "subscription_service \<Rightarrow> stripe_event \<Rightarrow> ('z plan_state_scheme, unit) op" where
  "on_invoice_paid s evt = (case se_invoice_subscription evt of
       None \<Rightarrow> ret ()
     | Some i \<Rightarrow> (if i = [] then ret ()
         else bnd (sub_by_subscription_id i) (\<lambda>found. case found of
             None \<Rightarrow> ret ()
           | Some row0 \<Rightarrow>
               bnd (synced_period s i (row0\<lparr>sb_status := SubActive, sb_grace_until := None\<rparr>)) (\<lambda>row.
               bnd (sub_save row) (\<lambda>_.
               emit_billing s (sb_org row) [] ''subscription.renewed'' (sb_id row)
                 [(''plan'', AStr (plan_text (sb_plan row)))])))))"

definition park_past_due :: "instant \<Rightarrow> org_subscription \<Rightarrow> org_subscription" where
  "park_past_due now row =
     (let r = (if sb_status row \<noteq> PastDue then row\<lparr>sb_grace_until := Some (grace_from now)\<rparr> else row) in
      r\<lparr>sb_status := PastDue\<rparr>)"

definition on_invoice_failed :: "subscription_service \<Rightarrow> stripe_event \<Rightarrow> ('z plan_state_scheme, unit) op" where
  "on_invoice_failed s evt = (case se_invoice_subscription evt of
       None \<Rightarrow> ret ()
     | Some i \<Rightarrow> (if i = [] then ret ()
         else bnd (sub_by_subscription_id i) (\<lambda>found. case found of
             None \<Rightarrow> ret ()
           | Some row0 \<Rightarrow>
               bnd time_now (\<lambda>now.
               let row = park_past_due now row0 in
               bnd (sub_save row) (\<lambda>_.
               emit_billing s (sb_org row) [] ''subscription.past_due'' (sb_id row)
                 [(''plan'', AStr (plan_text (sb_plan row)))])))))"

definition sync_status :: "stripe_sub_status \<Rightarrow> instant \<Rightarrow> org_subscription \<Rightarrow> org_subscription" where
  "sync_status st now row =
     (if st \<in> {SActive, STrialing} then row\<lparr>sb_status := SubActive, sb_grace_until := None\<rparr>
      else if st = SPastDue then park_past_due now row
      else if st \<in> {SCanceled, SUnpaid, SIncompleteExpired} then row\<lparr>sb_status := Canceled, sb_grace_until := None\<rparr>
      else row)"

fun sub_status_text :: "sub_status \<Rightarrow> string" where
  "sub_status_text SubActive = ''ACTIVE''"
| "sub_status_text PastDue = ''PAST_DUE''"
| "sub_status_text Canceled = ''CANCELED''"

definition on_subscription_updated :: "subscription_service \<Rightarrow> stripe_event \<Rightarrow> ('z plan_state_scheme, unit) op" where
  "on_subscription_updated s evt = (case se_subscription evt of
       None \<Rightarrow> ret ()
     | Some sub \<Rightarrow> bnd (sub_by_subscription_id (su_id sub)) (\<lambda>found. case found of
           None \<Rightarrow> ret ()
         | Some row0 \<Rightarrow>
             bnd time_now (\<lambda>now.
             let row1 = sync_status (su_status sub) now row0;
                 plan = plan_of_text (su_plan sub);
                 row2 = (if plan_paid plan then row1\<lparr>sb_plan := plan\<rparr> else row1);
                 row3 = (case period_end_of sub of None \<Rightarrow> row2 | Some t \<Rightarrow> row2\<lparr>sb_period_end := Some t\<rparr>);
                 row = row3\<lparr>sb_cancel_at_end := su_cancel_at_end sub\<rparr> in
             bnd (sub_save row) (\<lambda>_.
             emit_billing s (sb_org row) [] ''subscription.updated'' (sb_id row)
               [(''plan'', AStr (plan_text (sb_plan row))), (''status'', AStr (sub_status_text (sb_status row)))]))))"

definition on_subscription_deleted :: "subscription_service \<Rightarrow> stripe_event \<Rightarrow> ('z plan_state_scheme, unit) op" where
  "on_subscription_deleted s evt = (case se_subscription evt of
       None \<Rightarrow> ret ()
     | Some sub \<Rightarrow> bnd (sub_by_subscription_id (su_id sub)) (\<lambda>found. case found of
           None \<Rightarrow> ret ()
         | Some row0 \<Rightarrow>
             let row = row0\<lparr>sb_status := Canceled, sb_grace_until := None\<rparr> in
             bnd (sub_save row) (\<lambda>_.
             emit_billing s (sb_org row) [] ''subscription.canceled'' (sb_id row)
               [(''plan'', AStr (plan_text (sb_plan row)))])))"

definition handle_billing_event :: "subscription_service \<Rightarrow> stripe_event \<Rightarrow> ('z plan_state_scheme, bool) op" where
  "handle_billing_event s evt = (case se_type evt of
       CheckoutCompleted \<Rightarrow> on_checkout_completed s evt
     | InvoicePaid \<Rightarrow> bnd (on_invoice_paid s evt) (\<lambda>_. ret True)
     | InvoiceFailed \<Rightarrow> bnd (on_invoice_failed s evt) (\<lambda>_. ret True)
     | SubscriptionUpdated \<Rightarrow> bnd (on_subscription_updated s evt) (\<lambda>_. ret True)
     | SubscriptionDeleted \<Rightarrow> bnd (on_subscription_deleted s evt) (\<lambda>_. ret True)
     | _ \<Rightarrow> ret False)"

end
