(* ===== verification/Payment.thy ===== *)
theory Payment
  imports Order Subscription
begin

text \<open>
  Payments (\<open>internal/payment\<close>: \<open>payment_service.go\<close>, \<open>provider.go\<close>, \<open>payment_handler.go\<close>): hosted
  checkout sessions for priced orders, and the signature-verified webhook, the one place that
  fulfils. Stripe is a parameter: \<open>pr_create\<close> answers a session request, \<open>pm_construct\<close> is
  \<open>webhook.ConstructEventWithOptions\<close> (\<open>None\<close> is a signature that does not verify). The HTTP statuses
  are those of the two handlers. The facts are in \<open>Settling\<close>.
\<close>

section \<open>Checkout\<close>

text \<open>What \<open>CreateSession\<close> sends to Stripe.\<close>

record session_request =
  sq_success_url :: string
  sq_cancel_url :: string
  sq_integration :: string
  sq_meta_order :: string
  sq_meta_user :: string
  sq_currency :: string
  sq_name :: string
  sq_unit_amount :: int
  sq_quantity :: int
  sq_idempotency_key :: string

record checkout_provider =
  pr_create :: "session_request \<Rightarrow> (string \<times> string) option"

record payment_service =
  pm_orders :: order_service
  pm_provider :: "checkout_provider option"
  pm_billing :: "subscription_service option"
  pm_secret :: string
  pm_construct :: "string \<Rightarrow> string \<Rightarrow> string \<Rightarrow> stripe_event option"

record checkout_params =
  cp_order :: uuid
  cp_user :: uuid
  cp_name :: string
  cp_amount :: int
  cp_currency :: string
  cp_quantity :: int
  cp_success_url :: string
  cp_cancel_url :: string

definition session_request_of :: "lib \<Rightarrow> checkout_params \<Rightarrow> string \<Rightarrow> session_request" where
  "session_request_of l p suffix = \<lparr>sq_success_url = cp_success_url p, sq_cancel_url = cp_cancel_url p,
     sq_integration = ''rallya-checkout-'' @ hex_encode suffix,
     sq_meta_order = uuid_text l (cp_order p), sq_meta_user = uuid_text l (cp_user p),
     sq_currency = to_lower (cp_currency p), sq_name = cp_name p, sq_unit_amount = cp_amount p,
     sq_quantity = cp_quantity p, sq_idempotency_key = ''order-'' @ uuid_text l (cp_order p)\<rparr>"

definition create_session :: "lib \<Rightarrow> checkout_provider \<Rightarrow> checkout_params
    \<Rightarrow> ('z base_scheme, string \<times> string) op" where
  "create_session l pr p = bnd (draw_bytes l 8) (\<lambda>suffix.
     call_ext (pr_create pr (session_request_of l p suffix)))"

text \<open>The dash between the two titles is U+2014, three bytes.\<close>

definition line_name :: "checkout_detail \<Rightarrow> string" where
  "line_name d = kd_event_title d @ [CHR '' '', CHR 0xE2, CHR 0x80, CHR 0x94, CHR '' ''] @ kd_ticket_name d"

definition checkout_params_of :: "lib \<Rightarrow> checkout_detail \<Rightarrow> string \<Rightarrow> checkout_params" where
  "checkout_params_of l d app = (let x = kd_order d in
     \<lparr>cp_order = or_id x, cp_user = or_user x, cp_name = line_name d, cp_amount = or_price_cents x,
      cp_currency = or_currency x, cp_quantity = or_quantity x,
      cp_success_url = app @ ''/payment/success?order='' @ uuid_text l (or_id x),
      cp_cancel_url = app @ ''/payment/cancel?order='' @ uuid_text l (or_id x)\<rparr>)"

definition create_new :: "payment_service \<Rightarrow> checkout_provider \<Rightarrow> checkout_detail \<Rightarrow> string
    \<Rightarrow> ('z order_state_scheme, string \<times> string) op" where
  "create_new s pr d app = (let l = rs_lib (pm_orders s) in
     bnd (create_session l pr (checkout_params_of l d app)) (\<lambda>(i, url).
     bnd (set_stripe_session (or_id (kd_order d)) i) (\<lambda>_. ret (url, i))))"

definition create_checkout :: "payment_service \<Rightarrow> uuid \<Rightarrow> uuid \<Rightarrow> string
    \<Rightarrow> ('z order_state_scheme, string \<times> string) op" where
  "create_checkout s user i app =
     bnd (the_or_fail (PaymentE payment_err.ErrProviderDown) (pm_provider s)) (\<lambda>pr.
     bnd (checkout_detail_of (pm_orders s) user i) (\<lambda>d.
     bnd (guard (\<not> or_price_cents (kd_order d) \<le> 0) (PaymentE payment_err.ErrNoPaymentRequired)) (\<lambda>_.
     bnd (guard (order_status_text (or_status (kd_order d)) = ''PENDING_PAYMENT'')
            (PaymentE payment_err.ErrInvalidOrderState)) (\<lambda>_.
     case or_session (kd_order d) of
       Some (c # cs) \<Rightarrow> create_new s pr d app
     | _ \<Rightarrow> create_new s pr d app))))"

section \<open>Webhook\<close>

text \<open>The result of \<open>MarkPaid\<close> and of the billing handler is classified whatever its cause.\<close>

definition fulfill_session :: "payment_service \<Rightarrow> stripe_event \<Rightarrow> ('z order_state_scheme, unit) op" where
  "fulfill_session s evt = (case se_session evt of
       None \<Rightarrow> fail (FulfillError BadSessionPayload)
     | Some ss \<Rightarrow>
        (if \<not> ss_paid ss then ret ()
         else bnd (the_or_fail (FulfillError MissingOrderId)
                     (uuid_parse (rs_lib (pm_orders s)) (ss_metadata ss ''order_id''))) (\<lambda>i.
           bnd (guard (ss_metadata ss ''order_id'' \<noteq> []) (FulfillError MissingOrderId)) (\<lambda>_.
           bnd (on_error (mark_paid (pm_orders s) i (ss_id ss)
                   (case ss_payment_intent ss of None \<Rightarrow> [] | Some p \<Rightarrow> p))
                  (\<lambda>_. FulfillError MarkPaidFailed)) (\<lambda>_.
           ret ())))))"

definition bill :: "payment_service \<Rightarrow> stripe_event \<Rightarrow> ('z order_state_scheme, bool) op" where
  "bill s evt = (case pm_billing s of None \<Rightarrow> ret False
     | Some b \<Rightarrow> on_error (handle_billing_event b evt) (\<lambda>_. FulfillError BillingFailed))"

definition dispatch_event :: "payment_service \<Rightarrow> stripe_event \<Rightarrow> ('z order_state_scheme, unit) op" where
  "dispatch_event s evt = (case se_type evt of
       CheckoutCompleted \<Rightarrow> bnd (bill s evt) (\<lambda>handled. if handled then ret () else fulfill_session s evt)
     | AsyncPaymentSucceeded \<Rightarrow> bnd (bill s evt) (\<lambda>handled. if handled then ret () else fulfill_session s evt)
     | AsyncPaymentFailed \<Rightarrow> ret ()
     | InvoicePaid \<Rightarrow> bnd (bill s evt) (\<lambda>_. ret ())
     | InvoiceFailed \<Rightarrow> bnd (bill s evt) (\<lambda>_. ret ())
     | SubscriptionUpdated \<Rightarrow> bnd (bill s evt) (\<lambda>_. ret ())
     | SubscriptionDeleted \<Rightarrow> bnd (bill s evt) (\<lambda>_. ret ())
     | OtherEvent \<Rightarrow> ret ())"

definition handle_webhook :: "payment_service \<Rightarrow> string \<Rightarrow> string \<Rightarrow> ('z order_state_scheme, unit) op" where
  "handle_webhook s payload sig =
     bnd (guard (pm_secret s \<noteq> []) (FulfillError SecretUnconfigured)) (\<lambda>_.
     bnd (the_or_fail (FulfillError BadSignature) (pm_construct s payload sig (pm_secret s))) (\<lambda>evt.
     dispatch_event s evt))"

section \<open>Handlers\<close>

definition payment_error_status :: "err \<Rightarrow> int" where
  "payment_error_status e =
     (if e = PaymentE payment_err.ErrInvalidOrderState \<or> e = PaymentE payment_err.ErrNoPaymentRequired then 400
      else if e = PaymentE payment_err.ErrProviderDown then 503
      else if e = OrderE order_err.ErrOrderNotFound then 404
      else 500)"

definition is_signature_error :: "fulfill_msg \<Rightarrow> bool" where
  "is_signature_error m = (m = BadSignature)"

definition checkout_handler :: "payment_service \<Rightarrow> uuid \<Rightarrow> string \<Rightarrow> string
    \<Rightarrow> ('z order_state_scheme, int) op" where
  "checkout_handler s user param app = (case uuid_parse (rs_lib (pm_orders s)) (trim_space param) of
       None \<Rightarrow> ret 400
     | Some i \<Rightarrow> bnd (attempt (create_checkout s user i app)) (\<lambda>r. ret (case r of
           Inl e \<Rightarrow> payment_error_status e | Inr _ \<Rightarrow> 200)))"

definition stripe_webhook :: "payment_service \<Rightarrow> string \<Rightarrow> string \<Rightarrow> ('z order_state_scheme, int \<times> string) op" where
  "stripe_webhook s payload sig =
     (if payload = [] then ret (400, ''empty payload'')
      else bnd (attempt (handle_webhook s payload sig)) (\<lambda>r. ret (case r of
          Inr _ \<Rightarrow> (200, ''ok'')
        | Inl (FulfillError m) \<Rightarrow> (if is_signature_error m then (400, ''bad signature'') else (200, ''ignored''))
        | Inl _ \<Rightarrow> (200, ''ignored''))))"

end
