(* ===== verification/Invites.thy ===== *)
theory Invites
  imports Members
begin

text \<open>
  Invitations by e-mail (\<open>invite.go\<close>): an administrator invites an address at a role within their own, the raw
  token goes into the mail job and only its hash into the table, a new invitation supersedes the pending one, and the
  owner of the address accepts or declines. The facts about them are in \<open>Joining\<close>.
\<close>

section \<open>Repository\<close>

definition repo_create_invite :: "lib \<Rightarrow> invite \<Rightarrow> ('z org_state_scheme, unit) op" where
  "repo_create_invite l iv = bnd (before_create l (iv_id iv)) (\<lambda>i. bnd time_now (\<lambda>now.
     write_db (\<lambda>w. if has_key iv_id i (invites w) then Some UniqueViolation
                   else if \<not> role_valid (iv_role iv) then Some DbError else None)
       (\<lambda>w. w\<lparr>invites := invites w @ [iv\<lparr>iv_id := i, iv_created_at := now\<rparr>]\<rparr>)))"

definition get_invite_by_id :: "uuid \<Rightarrow> ('z org_state_scheme, invite) op" where
  "get_invite_by_id i = select_first (\<lambda>w. by_key iv_id i (invites w))"

definition get_invite_by_hash :: "string \<Rightarrow> ('z org_state_scheme, invite) op" where
  "get_invite_by_hash h = select_first (\<lambda>w. by_key iv_token_hash h (by_pk iv_id (invites w)))"

definition unanswered :: "invite \<Rightarrow> bool" where
  "unanswered iv \<longleftrightarrow> iv_accepted_at iv = None \<and> iv_declined_at iv = None"

definition waiting_for :: "uuid \<Rightarrow> string \<Rightarrow> invite \<Rightarrow> bool" where
  "waiting_for org email iv \<longleftrightarrow> iv_org iv = org \<and> iv_email iv = email \<and> unanswered iv"

definition pending_invite :: "uuid \<Rightarrow> string \<Rightarrow> ('z org_state_scheme, invite) op" where
  "pending_invite org email = select_first (\<lambda>w.
     first_of (newest_first iv_created_at (filter (waiting_for org email) (by_pk iv_id (invites w)))))"

definition repo_list_invites :: "uuid \<Rightarrow> int \<Rightarrow> int \<Rightarrow> ('z org_state_scheme, invite list \<times> int) op" where
  "repo_list_invites org limit offset =
     bnd (select (\<lambda>w. count_where (\<lambda>iv. iv_org iv = org \<and> unanswered iv) (invites w))) (\<lambda>total.
     bnd (select (\<lambda>w. page_of limit offset
       (newest_first iv_created_at (filter (\<lambda>iv. iv_org iv = org \<and> unanswered iv) (invites w))))) (\<lambda>ivs.
     ret (ivs, total)))"

definition answered :: "bool \<Rightarrow> instant \<Rightarrow> invite \<Rightarrow> invite" where
  "answered accepted at iv = (if accepted then iv\<lparr>iv_accepted_at := Some at\<rparr> else iv\<lparr>iv_declined_at := Some at\<rparr>)"

definition consume_invite :: "uuid \<Rightarrow> bool \<Rightarrow> instant \<Rightarrow> ('z org_state_scheme, unit) op" where
  "consume_invite i accepted at = write_db (\<lambda>_. None)
     (\<lambda>w. w\<lparr>invites := modify (\<lambda>iv. iv_id iv = i) (answered accepted at) (invites w)\<rparr>)"

section \<open>Service\<close>

definition invite_ttl :: int where
  "invite_ttl = 7 * 24 * 3600 * seconds"

definition invite_link :: "org_service \<Rightarrow> string \<Rightarrow> string" where
  "invite_link s raw = os_app_url s @ ''/orgs/invites/accept?token='' @ raw"

text \<open>\<open>strings.EqualFold\<close> on the ASCII range.\<close>

definition equal_fold :: "string \<Rightarrow> string \<Rightarrow> bool" where
  "equal_fold a b = (to_lower a = to_lower b)"

definition refuse_member :: "uuid \<Rightarrow> string \<Rightarrow> ('z org_state_scheme, unit) op" where
  "refuse_member org email = bnd (attempt (get_user_by_email email)) (\<lambda>r. case r of
       Inl _ \<Rightarrow> ret ()
     | Inr u \<Rightarrow> bnd (attempt (get_membership org (us_id u))) (\<lambda>m. case m of
           Inr _ \<Rightarrow> fail (OrgE org_err.ErrAlreadyMember) | Inl _ \<Rightarrow> ret ()))"

definition invite_member :: "org_service \<Rightarrow> uuid \<Rightarrow> string \<Rightarrow> string \<Rightarrow> member_role
    \<Rightarrow> ('z org_state_scheme, unit) op" where
  "invite_member s grantor ref0 email0 role0 =
     bnd (require_role (os_lib s) grantor ref0 ADMIN) (\<lambda>(og, g).
     let role = (if role_valid role0 then role0 else MEMBER) in
     bnd (guard (\<not> level (mb_role g) < level role) (OrgE org_err.ErrForbidden)) (\<lambda>_.
     let email = normalize_email email0 in
     bnd (refuse_member (og_id og) email) (\<lambda>_.
     bnd (generate_raw_token (os_lib s) 32) (\<lambda>raw.
     bnd time_now (\<lambda>now.
     bnd (attempt (get_user_by_id grantor)) (\<lambda>inviter.
     tx (
       bnd (attempt (pending_invite (og_id og) email)) (\<lambda>p.
       bnd (case p of Inr iv \<Rightarrow> consume_invite (iv_id iv) False now
            | Inl e \<Rightarrow> if e = RecordNotFound then ret () else fail e) (\<lambda>_.
       bnd (repo_create_invite (os_lib s) \<lparr>iv_id = uuid_nil, iv_org = og_id og, iv_email = email, iv_role = role,
              iv_token_hash = hash_token (os_lib s) raw, iv_expires_at = now + invite_ttl, iv_accepted_at = None,
              iv_declined_at = None, iv_invited_by = Some grantor, iv_created_at = 0\<rparr>) (\<lambda>_.
       os_enqueue_tx s (SendOrgInviteEmail (og_id og) (og_name og) (og_slug og) email (display_name email None)
         (role_text role) (display_name_of (case inviter of Inr u \<Rightarrow> Some u | Inl _ \<Rightarrow> None))
         (invite_link s raw))))))))))))"

record invite_dto =
  iw_id :: uuid
  iw_email :: string
  iw_role :: member_role
  iw_expires_at :: int
  iw_created_at :: int

definition to_invite :: "invite \<Rightarrow> invite_dto" where
  "to_invite iv = \<lparr>iw_id = iv_id iv, iw_email = iv_email iv, iw_role = iv_role iv,
     iw_expires_at = format_time (iv_expires_at iv), iw_created_at = format_time (iv_created_at iv)\<rparr>"

definition list_invites :: "org_service \<Rightarrow> uuid \<Rightarrow> string \<Rightarrow> int \<Rightarrow> int
    \<Rightarrow> ('z org_state_scheme, invite_dto list \<times> int) op" where
  "list_invites s user ref0 limit offset =
     bnd (require_role (os_lib s) user ref0 ADMIN) (\<lambda>(og, _).
     bnd (repo_list_invites (og_id og) limit offset) (\<lambda>(ivs, total).
     ret (map to_invite ivs, total)))"

definition revoke_invite :: "org_service \<Rightarrow> uuid \<Rightarrow> string \<Rightarrow> uuid \<Rightarrow> ('z org_state_scheme, unit) op" where
  "revoke_invite s user ref0 i =
     bnd (require_role (os_lib s) user ref0 ADMIN) (\<lambda>(og, _).
     bnd time_now (\<lambda>now.
     bnd (on_error (get_invite_by_id i) (not_found_as (OrgE org_err.ErrInvalidInvite))) (\<lambda>iv.
     bnd (guard (\<not> (iv_org iv \<noteq> og_id og \<or> \<not> invite_pending iv now)) (OrgE org_err.ErrInvalidInvite)) (\<lambda>_.
     consume_invite (iv_id iv) False now))))"

text \<open>Accepting: the part that reads and decides, with the answer when there is nothing to write.\<close>

definition accept_pending :: "org_service \<Rightarrow> invite \<Rightarrow> user \<Rightarrow> organization \<Rightarrow> instant
    \<Rightarrow> ('z org_state_scheme, org_dto) op" where
  "accept_pending s iv u og now =
     bnd (guard (equal_fold (us_email u) (iv_email iv)) (OrgE org_err.ErrInviteEmailMismatch)) (\<lambda>_.
     bnd (attempt (get_membership (og_id og) (us_id u))) (\<lambda>r. case r of
       Inr m \<Rightarrow> bnd (attempt (consume_invite (iv_id iv) True now)) (\<lambda>_. ret (to_org og (mb_role m)))
     | Inl _ \<Rightarrow>
       bnd (count_members (og_id og)) (\<lambda>n.
       bnd (entitlement_or_free (os_plans s) (og_id og)) (\<lambda>ent.
       bnd (guard (\<not> n \<ge> max_members (en_limits ent)) (SubE sub_err.ErrUpgradeRequired)) (\<lambda>_.
       bnd (tx (
         bnd (on_error (repo_create_membership (os_lib s) \<lparr>mb_id = uuid_nil, mb_org = og_id og,
                mb_user = us_id u, mb_role = iv_role iv, mb_notify = True, mb_created_at = 0,
                mb_updated_at = 0\<rparr>) (unique_as (OrgE org_err.ErrAlreadyMember))) (\<lambda>_.
         bnd (consume_invite (iv_id iv) True now) (\<lambda>_.
         os_emit s (entry (Some (og_id og)) (Some (us_id u)) ''member.added'' ''member'' (Some (us_id u)) []
           [(''email'', AStr (us_email u)), (''role'', AStr (role_text (iv_role iv))), (''via'', AStr ''invite'')]))))) (\<lambda>_.
       bnd (os_sync s (us_id u) (og_id og) (Some (iv_role iv))) (\<lambda>_.
       ret (to_org og (iv_role iv)))))))))"

definition accept_invite :: "org_service \<Rightarrow> uuid \<Rightarrow> string \<Rightarrow> ('z org_state_scheme, org_dto) op" where
  "accept_invite s user raw = bnd time_now (\<lambda>now.
     bnd (on_error (get_invite_by_hash (hash_token (os_lib s) raw))
            (not_found_as (OrgE org_err.ErrInvalidInvite))) (\<lambda>iv.
     bnd (on_error (get_user_by_id user) (\<lambda>_. OrgE org_err.ErrInvalidInvite)) (\<lambda>u.
     bnd (guard (us_status u = ACTIVE) (OrgE org_err.ErrForbidden)) (\<lambda>_.
     bnd (on_error (get_org_by_id (iv_org iv)) (\<lambda>_. OrgE org_err.ErrInvalidInvite)) (\<lambda>og.
     if \<not> invite_pending iv now then
       bnd (guard (iv_accepted_at iv \<noteq> None) (OrgE org_err.ErrInvalidInvite)) (\<lambda>_.
       bnd (on_error (get_membership (og_id og) (us_id u)) (\<lambda>_. OrgE org_err.ErrInvalidInvite)) (\<lambda>m.
       ret (to_org og (mb_role m))))
     else accept_pending s iv u og now)))))"

definition decline_invite :: "org_service \<Rightarrow> uuid \<Rightarrow> string \<Rightarrow> ('z org_state_scheme, unit) op" where
  "decline_invite s user raw = bnd time_now (\<lambda>now.
     bnd (on_error (get_invite_by_hash (hash_token (os_lib s) raw))
            (not_found_as (OrgE org_err.ErrInvalidInvite))) (\<lambda>iv.
     bnd (guard (iv_accepted_at iv = None) (OrgE org_err.ErrInviteConsumed)) (\<lambda>_.
     if iv_declined_at iv \<noteq> None then ret ()
     else
       bnd (guard (\<not> now > iv_expires_at iv) (OrgE org_err.ErrInvalidInvite)) (\<lambda>_.
       bnd (on_error (get_user_by_id user) (\<lambda>_. OrgE org_err.ErrInvalidInvite)) (\<lambda>u.
       bnd (guard (equal_fold (us_email u) (iv_email iv)) (OrgE org_err.ErrInviteEmailMismatch)) (\<lambda>_.
       consume_invite (iv_id iv) False now))))))"

end
