(* ===== verification/Roles.thy ===== *)
theory Roles
  imports Invites
begin

text \<open>
  Custom roles (\<open>roles.go\<close>): definitions with a validated set of grants, their assignment to members, and the
  enforcement rows materialised after the commit. The permission set is kept as the list the source encodes to JSON and
  decodes again. The facts about the rows behind them are in \<open>PolicyFacts\<close>.
\<close>

section \<open>Vocabulary\<close>

definition max_custom_roles :: int where
  "max_custom_roles = 20"

definition role_registry :: "(string \<times> string list) list" where
  "role_registry =
     [(''org'', [''read'', ''update'']),
      (''member'', [''read'', ''create'', ''delete'']),
      (''invite'', [''read'', ''create'', ''delete'']),
      (''event'', [''read'', ''create'', ''update'', ''delete'', ''publish'']),
      (''ticket'', [''read'', ''create'', ''update'', ''delete'']),
      (''attendee'', [''read'', ''create'', ''update'']),
      (''checkin'', [''read'', ''create'', ''update'']),
      (''kit'', [''read'', ''create'', ''update'', ''delete'']),
      (''audit'', [''read'']),
      (''role'', [''read'', ''create'', ''update'', ''delete'']),
      (''apikey'', [''read'', ''create'', ''delete''])]"

definition grantable :: "permission \<Rightarrow> bool" where
  "grantable p = (case map_of role_registry (fst p) of None \<Rightarrow> False | Some acts \<Rightarrow> snd p \<in> set acts)"

definition reserved_role_name :: "string \<Rightarrow> bool" where
  "reserved_role_name r = (r \<in> {''owner'', ''admin'', ''member'', ''superadmin''})"

definition normalize_role_name :: "string \<Rightarrow> err + string" where
  "normalize_role_name raw = (let name = to_lower (trim_space raw) in
     if name = [] \<or> \<not> slug_re name then Inl (OrgE org_err.ErrInvalidRoleName)
     else if reserved_role_name name then Inl (OrgE org_err.ErrRoleReserved) else Inr name)"

text \<open>The loop over the requested pairs, with what was seen so far.\<close>

fun normalize_loop :: "permission list \<Rightarrow> permission list \<Rightarrow> err + permission list" where
  "normalize_loop [] out = Inr out"
| "normalize_loop (p # ps) out = (let rp = (to_lower (trim_space (fst p)), to_lower (trim_space (snd p))) in
     if \<not> grantable rp then Inl (OrgE org_err.ErrInvalidRolePermissions)
     else if rp \<in> set out then normalize_loop ps out
     else normalize_loop ps (out @ [rp]))"

definition normalize_role_permissions :: "permission list \<Rightarrow> err + permission list" where
  "normalize_role_permissions ps =
     (if ps = [] then Inl (OrgE org_err.ErrInvalidRolePermissions) else normalize_loop ps [])"

text \<open>\<open>if err != nil { return err }\<close> on a pure result.\<close>

definition pure_result :: "err + 'a \<Rightarrow> ('s, 'a) op" where
  "pure_result r = (case r of Inl e \<Rightarrow> fail e | Inr x \<Rightarrow> ret x)"

lemma keeps_pure_result [keeps_intros]: "keeps I (pure_result r)"
  unfolding pure_result_def by (intro keeps_intros)

lemma wp_pure_result [wp_simps]:
  "wp (pure_result r) Q E = (\<lambda>w. case r of Inl e \<Rightarrow> E e w | Inr x \<Rightarrow> Q x w)"
  by (rule ext) (simp add: pure_result_def wp_simps split: sum.split)

section \<open>Repository\<close>

definition role_row :: "uuid \<Rightarrow> string \<Rightarrow> role_definition \<Rightarrow> bool" where
  "role_row org name d \<longleftrightarrow> rd_org d = org \<and> rd_name d = name"

definition create_role_def :: "lib \<Rightarrow> role_definition \<Rightarrow> ('z org_state_scheme, role_definition) op" where
  "create_role_def l d = bnd (before_create l (rd_id d)) (\<lambda>i. bnd time_now (\<lambda>now.
     let row = d\<lparr>rd_id := i, rd_created_at := now, rd_updated_at := now\<rparr> in
     bnd (write_db (\<lambda>w. if has_key rd_id i (role_defs w) \<or> list_ex (role_row (rd_org d) (rd_name d)) (role_defs w)
                        then Some UniqueViolation else None)
            (\<lambda>w. w\<lparr>role_defs := role_defs w @ [row]\<rparr>)) (\<lambda>_. ret row)))"

definition get_role_def :: "uuid \<Rightarrow> string \<Rightarrow> ('z org_state_scheme, role_definition) op" where
  "get_role_def org name = select_first (\<lambda>w. find (role_row org name) (role_defs w))"

definition list_role_defs :: "uuid \<Rightarrow> ('z org_state_scheme, role_definition list) op" where
  "list_role_defs org = select (\<lambda>w. oldest_first rd_created_at (filter (\<lambda>d. rd_org d = org) (role_defs w)))"

definition update_role_def :: "role_definition \<Rightarrow> ('z org_state_scheme, role_definition) op" where
  "update_role_def d = bnd time_now (\<lambda>now.
     let row = d\<lparr>rd_updated_at := now\<rparr> in
     bnd (write_db (\<lambda>w. if list_ex (\<lambda>x. role_row (rd_org d) (rd_name d) x \<and> rd_id x \<noteq> rd_id d) (role_defs w)
                        then Some UniqueViolation else None)
            (\<lambda>w. w\<lparr>role_defs := upsert rd_id row (role_defs w)\<rparr>)) (\<lambda>_. ret row))"

definition delete_role_def :: "uuid \<Rightarrow> string \<Rightarrow> ('z org_state_scheme, unit) op" where
  "delete_role_def org name = write_db (\<lambda>_. None)
     (\<lambda>w. w\<lparr>role_defs := filter (\<lambda>d. \<not> role_row org name d) (role_defs w)\<rparr>)"

definition count_role_defs :: "uuid \<Rightarrow> ('z org_state_scheme, int) op" where
  "count_role_defs org = select (\<lambda>w. count_where (\<lambda>d. rd_org d = org) (role_defs w))"

definition holds_role :: "uuid \<Rightarrow> uuid \<Rightarrow> string \<Rightarrow> member_custom_role \<Rightarrow> bool" where
  "holds_role org user role c \<longleftrightarrow> cr_org c = org \<and> cr_user c = user \<and> cr_role c = role"

definition assign_custom_role :: "uuid \<Rightarrow> uuid \<Rightarrow> string \<Rightarrow> ('z org_state_scheme, unit) op" where
  "assign_custom_role org user role = bnd time_now (\<lambda>now.
     write_db (\<lambda>w. if list_ex (holds_role org user role) (custom_roles w) then Some UniqueViolation else None)
       (\<lambda>w. w\<lparr>custom_roles := custom_roles w @
          [\<lparr>cr_org = org, cr_user = user, cr_role = role, cr_created_at = now\<rparr>]\<rparr>))"

definition count_role_assignments :: "uuid \<Rightarrow> string \<Rightarrow> ('z org_state_scheme, int) op" where
  "count_role_assignments org role = select (\<lambda>w.
     count_where (\<lambda>c. cr_org c = org \<and> cr_role c = role) (custom_roles w))"

definition count_role_assignees :: "uuid \<Rightarrow> ('z org_state_scheme, string \<Rightarrow> int) op" where
  "count_role_assignees org = select (\<lambda>w. (\<lambda>role.
     count_where (\<lambda>c. cr_org c = org \<and> cr_role c = role) (custom_roles w)))"

section \<open>Service\<close>

record custom_role_dto =
  cw_id :: uuid
  cw_name :: string
  cw_permissions :: "permission list"
  cw_holders :: int
  cw_created_at :: int

definition to_custom_role :: "role_definition \<Rightarrow> permission list \<Rightarrow> int \<Rightarrow> custom_role_dto" where
  "to_custom_role d perms holders = \<lparr>cw_id = rd_id d, cw_name = rd_name d, cw_permissions = perms,
     cw_holders = holders, cw_created_at = format_time (rd_created_at d)\<rparr>"

text \<open>The value of the \<open>permissions\<close> key of a diff.\<close>

definition grants_text :: "permission list \<Rightarrow> string list" where
  "grants_text ps = map (\<lambda>(ob, ac). ob @ '':'' @ ac) ps"

definition role_absent :: "uuid \<Rightarrow> string \<Rightarrow> ('z org_state_scheme, unit) op" where
  "role_absent org role = bnd (attempt (get_role_def org role)) (\<lambda>r. case r of
       Inr _ \<Rightarrow> fail (OrgE org_err.ErrRoleExists)
     | Inl e \<Rightarrow> if e = RecordNotFound then ret () else fail e)"

definition role_present :: "uuid \<Rightarrow> string \<Rightarrow> ('z org_state_scheme, role_definition) op" where
  "role_present org role = on_error (get_role_def org role) (not_found_as (OrgE org_err.ErrRoleNotFound))"

definition define_role :: "org_service \<Rightarrow> uuid \<Rightarrow> string \<Rightarrow> string \<Rightarrow> permission list
    \<Rightarrow> ('z org_state_scheme, custom_role_dto) op" where
  "define_role s grantor ref0 name perms =
     bnd (require_role (os_lib s) grantor ref0 OWNER) (\<lambda>(og, _).
     bnd (entitlement_or_free (os_plans s) (og_id og)) (\<lambda>ent.
     bnd (guard (can ent CustomRoles) (SubE sub_err.ErrUpgradeRequired)) (\<lambda>_.
     bnd (pure_result (normalize_role_name name)) (\<lambda>role.
     bnd (pure_result (normalize_role_permissions perms)) (\<lambda>norm.
     bnd (role_absent (og_id og) role) (\<lambda>_.
     bnd (count_role_defs (og_id og)) (\<lambda>n.
     bnd (guard (\<not> n \<ge> max_custom_roles) (OrgE org_err.ErrRoleCapReached)) (\<lambda>_.
     bnd (tx (
       bnd (on_error (create_role_def (os_lib s) \<lparr>rd_id = uuid_nil, rd_org = og_id og, rd_name = role,
              rd_permissions = norm, rd_created_at = 0, rd_updated_at = 0\<rparr>)
              (unique_as (OrgE org_err.ErrRoleExists))) (\<lambda>d.
       bnd (os_emit s (entry (Some (og_id og)) (Some grantor) ''role.created'' ''role'' (Some (rd_id d)) []
              [(''name'', AStr role), (''permissions'', AStrs (grants_text norm))])) (\<lambda>_.
       ret d)))) (\<lambda>d.
     bnd (os_sync_custom_policies s (og_id og) role norm False) (\<lambda>_.
     ret (to_custom_role d norm 0)))))))))))"

definition update_role :: "org_service \<Rightarrow> uuid \<Rightarrow> string \<Rightarrow> string \<Rightarrow> permission list
    \<Rightarrow> ('z org_state_scheme, custom_role_dto) op" where
  "update_role s grantor ref0 name perms =
     bnd (require_role (os_lib s) grantor ref0 OWNER) (\<lambda>(og, _).
     bnd (pure_result (normalize_role_name name)) (\<lambda>role.
     bnd (pure_result (normalize_role_permissions perms)) (\<lambda>norm.
     bnd (role_present (og_id og) role) (\<lambda>d0.
     let prior = rd_permissions d0; d = d0\<lparr>rd_permissions := norm\<rparr> in
     bnd (tx (
       bnd (update_role_def d) (\<lambda>row.
       bnd (os_emit s (entry (Some (og_id og)) (Some grantor) ''role.updated'' ''role'' (Some (rd_id d))
              [(''permissions'', AStrs (grants_text prior))] [(''permissions'', AStrs (grants_text norm))])) (\<lambda>_.
       ret row)))) (\<lambda>row.
     bnd (os_sync_custom_policies s (og_id og) role prior True) (\<lambda>_.
     bnd (os_sync_custom_policies s (og_id og) role norm False) (\<lambda>_.
     bnd (attempt (count_role_assignments (og_id og) role)) (\<lambda>n.
     ret (to_custom_role row norm (case n of Inl _ \<Rightarrow> 0 | Inr k \<Rightarrow> k))))))))))"

definition delete_role :: "org_service \<Rightarrow> uuid \<Rightarrow> string \<Rightarrow> string \<Rightarrow> ('z org_state_scheme, unit) op" where
  "delete_role s grantor ref0 name =
     bnd (require_role (os_lib s) grantor ref0 OWNER) (\<lambda>(og, _).
     bnd (pure_result (normalize_role_name name)) (\<lambda>role.
     bnd (role_present (og_id og) role) (\<lambda>d.
     bnd (count_role_assignments (og_id og) role) (\<lambda>n.
     bnd (guard (\<not> n > 0) (OrgE org_err.ErrRoleAssigned)) (\<lambda>_.
     bnd (tx (
       bnd (delete_role_def (og_id og) role) (\<lambda>_.
       os_emit s (entry (Some (og_id og)) (Some grantor) ''role.deleted'' ''role'' (Some (rd_id d))
         [(''name'', AStr role)] [])))) (\<lambda>_.
     os_sync_custom_policies s (og_id og) role (rd_permissions d) True))))))"

definition list_roles :: "org_service \<Rightarrow> uuid \<Rightarrow> string \<Rightarrow> ('z org_state_scheme, custom_role_dto list) op" where
  "list_roles s user ref0 =
     bnd (require_role (os_lib s) user ref0 ADMIN) (\<lambda>(og, _).
     bnd (list_role_defs (og_id og)) (\<lambda>defs.
     bnd (count_role_assignees (og_id og)) (\<lambda>counts.
     ret (map (\<lambda>d. to_custom_role d (rd_permissions d) (counts (rd_name d))) defs))))"

text \<open>\<open>AssignRole\<close> maps a unique violation inside its transaction to success. Whether such a transaction can still commit
  is up to the database: \<open>survives\<close> says so (SQLite commits it; PostgreSQL has aborted it and answers the \<open>COMMIT\<close>
  with \<open>ROLLBACK\<close>, which the driver reports as an error).\<close>

definition assign_role :: "org_service \<Rightarrow> bool \<Rightarrow> uuid \<Rightarrow> string \<Rightarrow> uuid \<Rightarrow> string \<Rightarrow> ('z org_state_scheme, unit) op" where
  "assign_role s survives grantor ref0 target name =
     bnd (require_role (os_lib s) grantor ref0 OWNER) (\<lambda>(og, _).
     bnd (pure_result (normalize_role_name name)) (\<lambda>role.
     bnd (role_present (og_id og) role) (\<lambda>d.
     bnd (on_error (get_membership (og_id og) target) (not_found_as (OrgE org_err.ErrOrgNotFound))) (\<lambda>_.
     bnd (tx (
       bnd (attempt (assign_custom_role (og_id og) target role)) (\<lambda>r. case r of
         Inl e \<Rightarrow> (if e \<noteq> UniqueViolation then fail e else if survives then ret () else fail DbError)
       | Inr _ \<Rightarrow>
           os_emit s (entry (Some (og_id og)) (Some grantor) ''role.assigned'' ''role'' (Some (rd_id d)) []
             [(''role'', AStr role), (''user'', AId target)])))) (\<lambda>_.
     os_sync_custom_grouping s target (og_id og) role True)))))"

definition unassign_role :: "org_service \<Rightarrow> uuid \<Rightarrow> string \<Rightarrow> uuid \<Rightarrow> string \<Rightarrow> ('z org_state_scheme, unit) op" where
  "unassign_role s grantor ref0 target name =
     bnd (require_role (os_lib s) grantor ref0 OWNER) (\<lambda>(og, _).
     bnd (pure_result (normalize_role_name name)) (\<lambda>role.
     bnd (role_present (og_id og) role) (\<lambda>d.
     bnd (tx (
       bnd (repo_unassign_custom_role (og_id og) target role) (\<lambda>_.
       os_emit s (entry (Some (og_id og)) (Some grantor) ''role.unassigned'' ''role'' (Some (rd_id d))
         [(''role'', AStr role), (''user'', AId target)] [])))) (\<lambda>_.
     os_sync_custom_grouping s target (og_id og) role False))))"

definition list_member_custom_roles :: "uuid \<Rightarrow> uuid \<Rightarrow> ('z org_state_scheme, string list) op" where
  "list_member_custom_roles org user = list_user_custom_roles org user"

end
