(* ===== verification/ApiKeys.thy ===== *)
theory ApiKeys
  imports Roles
begin

text \<open>
  The API keys of an organization (\<open>api_key.go\<close>): minted by an administrator on a plan that includes them, shown
  once, stored as a hash with a snapshot of scopes, and revoked without deleting the row. The store is always wired here.
\<close>

section \<open>Scopes\<close>

definition api_key_objects :: "string list" where
  "api_key_objects = [''org'', ''member'', ''invite'', ''event'', ''ticket'', ''attendee'', ''checkin'', ''audit'',
     ''role'', ''*'']"

definition api_key_actions :: "string list" where
  "api_key_actions = [''read'', ''create'', ''update'', ''delete'', ''manage'', ''publish'', ''*'']"

definition split_api_key_scope :: "string \<Rightarrow> (string \<times> string) option" where
  "split_api_key_scope t = (case index_of CHR '':'' t of None \<Rightarrow> None
     | Some i \<Rightarrow> if i = 0 \<or> i = length t - 1 then None else Some (take i t, drop (Suc i) t))"

fun normalize_scopes :: "string list \<Rightarrow> string list \<Rightarrow> string list" where
  "normalize_scopes [] out = out"
| "normalize_scopes (t # ts) out = (let r = to_lower (trim_space t) in
     if r = [] \<or> r \<in> set out then normalize_scopes ts out else normalize_scopes ts (out @ [r]))"

definition normalize_api_key_scopes :: "string list \<Rightarrow> string list" where
  "normalize_api_key_scopes ts = normalize_scopes ts []"

definition known_scope :: "string \<Rightarrow> bool" where
  "known_scope t = (case split_api_key_scope t of None \<Rightarrow> False
     | Some (ob, ac) \<Rightarrow> ob \<in> set api_key_objects \<and> ac \<in> set api_key_actions)"

definition validate_api_key_scopes :: "string list \<Rightarrow> bool" where
  "validate_api_key_scopes ts = list_all known_scope ts"

section \<open>Service\<close>

record api_key_dto =
  kd_id :: uuid
  kd_name :: string
  kd_prefix :: string
  kd_scopes :: "string list"
  kd_expires_at :: "int option"
  kd_last_used_at :: "int option"
  kd_revoked_at :: "int option"
  kd_created_by :: uuid
  kd_created_at :: int

definition to_api_key_dto :: "api_key \<Rightarrow> api_key_dto" where
  "to_api_key_dto k = \<lparr>kd_id = ak_id k, kd_name = ak_name k, kd_prefix = ak_prefix k, kd_scopes = ak_scopes k,
     kd_expires_at = format_time_ptr (ak_expires_at k), kd_last_used_at = format_time_ptr (ak_last_used_at k),
     kd_revoked_at = format_time_ptr (ak_revoked_at k), kd_created_by = ak_created_by k,
     kd_created_at = format_time (ak_created_at k)\<rparr>"

definition create_api_key :: "org_service \<Rightarrow> uuid \<Rightarrow> string \<Rightarrow> string \<Rightarrow> string list \<Rightarrow> instant option
    \<Rightarrow> ('z org_state_scheme, api_key_dto \<times> string) op" where
  "create_api_key s creator ref0 name0 scopes0 expires =
     bnd (require_role (os_lib s) creator ref0 ADMIN) (\<lambda>(og, _).
     bnd (entitlement_or_free (os_plans s) (og_id og)) (\<lambda>ent.
     bnd (guard (can ent ApiKeys) (SubE sub_err.ErrUpgradeRequired)) (\<lambda>_.
     let name = trim_space name0; scopes = normalize_api_key_scopes scopes0 in
     bnd (guard (\<not> (name = [] \<or> length name > 100)) (OrgE org_err.ErrInvalidApiKeyName)) (\<lambda>_.
     bnd (guard (validate_api_key_scopes scopes) (OrgE org_err.ErrInvalidApiKeyScope)) (\<lambda>_.
     bnd time_now (\<lambda>now.
     bnd (guard (case expires of None \<Rightarrow> True | Some t \<Rightarrow> t > now) (OrgE org_err.ErrInvalidApiKeyExpiry)) (\<lambda>_.
     bnd (generate_api_key (os_lib s)) (\<lambda>(raw, hash, prefix).
     bnd (tx (
       bnd (repo_create_api_key (os_lib s) \<lparr>ak_id = uuid_nil, ak_org = og_id og, ak_created_by = creator,
              ak_name = name, ak_prefix = prefix, ak_hash = hash, ak_scopes = scopes, ak_expires_at = expires,
              ak_last_used_at = None, ak_created_at = 0, ak_revoked_at = None\<rparr>) (\<lambda>k.
       bnd (os_emit s (entry (Some (og_id og)) (Some creator) ''apikey.created'' ''member'' (Some (ak_id k)) []
              [(''name'', AStr name), (''prefix'', AStr prefix), (''scopes'', AStrs scopes)])) (\<lambda>_.
       ret k)))) (\<lambda>k.
     ret (to_api_key_dto k, raw))))))))))"

definition list_api_keys :: "org_service \<Rightarrow> uuid \<Rightarrow> string \<Rightarrow> int \<Rightarrow> int
    \<Rightarrow> ('z org_state_scheme, api_key_dto list \<times> int) op" where
  "list_api_keys s user ref0 limit offset =
     bnd (require_role (os_lib s) user ref0 ADMIN) (\<lambda>(og, _).
     bnd (list_api_keys_by_org (og_id og) limit offset) (\<lambda>(ks, total).
     ret (map to_api_key_dto ks, total)))"

definition revoke_api_key :: "org_service \<Rightarrow> uuid \<Rightarrow> string \<Rightarrow> uuid \<Rightarrow> ('z org_state_scheme, unit) op" where
  "revoke_api_key s user ref0 i =
     bnd (require_role (os_lib s) user ref0 ADMIN) (\<lambda>(og, _).
     bnd (on_error (get_api_key_by_id i) (not_found_as (OrgE org_err.ErrApiKeyNotFound))) (\<lambda>k.
     bnd (guard (ak_org k = og_id og) (OrgE org_err.ErrApiKeyNotFound)) (\<lambda>_.
     if ak_revoked_at k \<noteq> None then ret ()
     else bnd time_now (\<lambda>now.
       tx (bnd (repo_revoke_api_key (ak_id k) now) (\<lambda>_.
           os_emit s (entry (Some (og_id og)) (Some user) ''apikey.revoked'' ''member'' (Some (ak_id k))
             [(''prefix'', AStr (ak_prefix k)), (''name'', AStr (ak_name k))] [])))))))"

end
