(* ===== verification/Auth.thy ===== *)
theory Auth
  imports Accounts
begin

text \<open>
  The authentication flows (\<open>auth_service.go\<close>, \<open>auth/utils\<close>, \<open>token/jwt.go\<close>): registration, the two ways of
  verifying an address, login, rotation of refresh tokens, logout and password reset. bcrypt, the JWT library and
  \<open>crypto/rand.Int\<close> are parameters; \<open>bcrypt.GenerateFromPassword\<close> draws a salt and may refuse a password,
  and what it returns depends on both.
\<close>

text \<open>The payload of an access token: \<open>sub\<close>, \<open>sid\<close> and the two times, which the library keeps as seconds.\<close>

record jwt_claims =
  jc_subject :: string
  jc_session :: uuid
  jc_issued_at :: int
  jc_expires_at :: int

record auth_service =
  au_lib :: lib
  au_enqueues :: bool
  au_app_url :: string
  au_secret :: string
  au_access_ttl :: int
  au_refresh_ttl :: int
  au_hash :: "string \<Rightarrow> string \<Rightarrow> string option"
  au_check :: "string \<Rightarrow> string \<Rightarrow> bool"
  au_sign :: "string \<Rightarrow> jwt_claims \<Rightarrow> string option"
  au_parse :: "string \<Rightarrow> instant \<Rightarrow> string \<Rightarrow> jwt_claims option"
  au_rand_int :: "nat \<Rightarrow> string \<Rightarrow> nat"

definition email_verification_ttl :: int where
  "email_verification_ttl = 24 * 3600 * seconds"

definition otp_ttl :: int where
  "otp_ttl = 10 * 60 * seconds"

definition password_reset_ttl :: int where
  "password_reset_ttl = 3600 * seconds"

definition resend_throttle :: int where
  "resend_throttle = 60 * seconds"

definition otp_max_attempts :: int where
  "otp_max_attempts = 5"

section \<open>Helpers\<close>

text \<open>\<open>fmt.Sprintf("%06d", n)\<close> of a natural number.\<close>

definition pad6 :: "nat \<Rightarrow> string" where
  "pad6 n = (let d = digits_of n in replicate (6 - length d) CHR ''0'' @ d)"

definition generate_otp :: "auth_service \<Rightarrow> ('z base_scheme, string) op" where
  "generate_otp s = bnd (draw_bytes (au_lib s) 3) (\<lambda>buf. ret (pad6 (au_rand_int s 1000000 buf)))"

definition bcrypt_hash :: "auth_service \<Rightarrow> string \<Rightarrow> ('z base_scheme, string) op" where
  "bcrypt_hash s password = bnd (draw_bytes (au_lib s) 16) (\<lambda>salt. the_or_fail ExtError (au_hash s salt password))"

definition verification_link :: "auth_service \<Rightarrow> string \<Rightarrow> string" where
  "verification_link s raw = au_app_url s @ ''/api/v1/auth/verify-email?token='' @ raw"

definition reset_link :: "auth_service \<Rightarrow> string \<Rightarrow> string" where
  "reset_link s raw = au_app_url s @ ''/reset-password?token='' @ raw"

definition generate_access_token :: "auth_service \<Rightarrow> uuid \<Rightarrow> uuid \<Rightarrow> ('z base_scheme, string) op" where
  "generate_access_token s user session = bnd time_now (\<lambda>now.
     the_or_fail ExtError (au_sign s (au_secret s)
       \<lparr>jc_subject = uuid_text (au_lib s) user, jc_session = session, jc_issued_at = format_time now,
        jc_expires_at = format_time (now + au_access_ttl s)\<rparr>))"

definition parse_access_token :: "auth_service \<Rightarrow> string \<Rightarrow> ('z base_scheme, uuid \<times> uuid) op" where
  "parse_access_token s raw = bnd time_now (\<lambda>now.
     bnd (the_or_fail ExtError (au_parse s (au_secret s) now raw)) (\<lambda>c.
     bnd (the_or_fail ExtError (uuid_parse (au_lib s) (jc_subject c))) (\<lambda>user.
     bnd (guard (jc_session c \<noteq> uuid_nil) ExtError) (\<lambda>_. ret (user, jc_session c)))))"

definition au_enqueue_tx :: "auth_service \<Rightarrow> job \<Rightarrow> ('z core_state_scheme, unit) op" where
  "au_enqueue_tx s j = enqueue_tx (au_enqueues s) j"

definition send_welcome :: "auth_service \<Rightarrow> uuid \<Rightarrow> ('z user_state_scheme, unit) op" where
  "send_welcome s user = (if \<not> au_enqueues s then ret ()
     else bnd (attempt (get_user_by_id user)) (\<lambda>r. case r of
         Inl _ \<Rightarrow> ret ()
       | Inr u \<Rightarrow> bnd (attempt (enqueue_tx True
           (SendWelcomeEmail (us_id u) (us_email u) (display_name_of (Some u)) (au_app_url s)))) (\<lambda>_. ret ())))"

definition some_text :: "string \<Rightarrow> string option" where
  "some_text t = (if t \<noteq> [] then Some t else None)"

definition record_attempt :: "auth_service \<Rightarrow> string \<Rightarrow> uuid option \<Rightarrow> string \<Rightarrow> bool \<Rightarrow> string
    \<Rightarrow> ('z auth_state_scheme, unit) op" where
  "record_attempt s email user ip success reason = record_login_attempt (au_lib s)
     \<lparr>la_id = uuid_nil, la_email = some_text email, la_user = user, la_ip = some_text ip,
      la_success = success, la_reason = some_text reason, la_created_at = 0\<rparr>"

section \<open>Registration and verification\<close>

record register_input =
  ri_email :: string
  ri_password :: string
  ri_first_name :: "string option"
  ri_last_name :: "string option"

definition new_verification :: "auth_service \<Rightarrow> uuid \<Rightarrow> string \<Rightarrow> instant \<Rightarrow> email_verification" where
  "new_verification s user raw now = \<lparr>vf_id = uuid_nil, vf_user = user, vf_hash = hash_token (au_lib s) raw,
     vf_expires_at = now + email_verification_ttl, vf_verified_at = None, vf_created_at = 0\<rparr>"

definition new_otp :: "auth_service \<Rightarrow> uuid \<Rightarrow> string \<Rightarrow> instant \<Rightarrow> email_otp" where
  "new_otp s user code now = \<lparr>ot_id = uuid_nil, ot_user = user, ot_hash = hash_token (au_lib s) code,
     ot_expires_at = now + otp_ttl, ot_attempts = 0, ot_consumed_at = None, ot_created_at = 0\<rparr>"

lemma fresh_code: "ot_attempts (new_otp s u code now) = 0"
  by (simp add: new_otp_def)

definition register :: "auth_service \<Rightarrow> register_input \<Rightarrow> ('z auth_state_scheme, unit) op" where
  "register s inp = (let l = au_lib s; email = to_lower (trim_space (ri_email inp)) in
     bnd (attempt (get_user_by_email email)) (\<lambda>r.
     bnd (case r of Inr _ \<Rightarrow> fail (AuthE auth_err.ErrUserExists)
          | Inl e \<Rightarrow> if e = RecordNotFound then ret () else fail e) (\<lambda>_.
     bnd (bcrypt_hash s (ri_password inp)) (\<lambda>hash.
     bnd (generate_raw_token l 32) (\<lambda>raw.
     bnd (generate_otp s) (\<lambda>otp.
     bnd time_now (\<lambda>now.
     tx (bnd (create_user l \<lparr>us_id = uuid_nil, us_email = email, us_email_verified = False, us_phone = None,
                us_phone_verified = False, us_status = ACTIVE, us_last_login_at = None, us_created_at = 0,
                us_updated_at = 0, us_deleted_at = None, us_profile = None\<rparr>) (\<lambda>u.
         bnd (create_profile l (us_id u) \<lparr>pf_first_name = ri_first_name inp, pf_last_name = ri_last_name inp\<rparr>) (\<lambda>_.
         bnd (create_credential l \<lparr>cd_id = uuid_nil, cd_user = us_id u, cd_hash = hash, cd_changed_at = Some now,
                cd_created_at = 0, cd_updated_at = 0\<rparr>) (\<lambda>_.
         bnd (create_email_verification l (new_verification s (us_id u) raw now)) (\<lambda>_.
         bnd (create_otp_code l (new_otp s (us_id u) otp now)) (\<lambda>_.
         au_enqueue_tx s (SendVerificationEmail (us_id u) email (display_name email (ri_first_name inp)) otp
           (verification_link s raw)))))))))))))))"

definition verify_email :: "auth_service \<Rightarrow> string \<Rightarrow> ('z auth_state_scheme, unit) op" where
  "verify_email s raw = bnd time_now (\<lambda>now.
     bnd (on_error (get_email_verification_by_hash (hash_token (au_lib s) raw))
            (not_found_as (AuthE auth_err.ErrInvalidToken))) (\<lambda>v.
     bnd (guard (vf_verified_at v = None) (AuthE auth_err.ErrTokenUsed)) (\<lambda>_.
     bnd (guard (\<not> now > vf_expires_at v) (AuthE auth_err.ErrInvalidToken)) (\<lambda>_.
     bnd (tx (bnd (set_email_verified (vf_user v)) (\<lambda>_. mark_email_verification_used (vf_id v) now))) (\<lambda>_.
     send_welcome s (vf_user v))))))"

definition verify_by_code :: "auth_service \<Rightarrow> string \<Rightarrow> string \<Rightarrow> ('z auth_state_scheme, unit) op" where
  "verify_by_code s email0 code =
     bnd (on_error (get_user_by_email (to_lower (trim_space email0))) (\<lambda>_. AuthE auth_err.ErrInvalidToken)) (\<lambda>u.
     if us_email_verified u then ret ()
     else bnd time_now (\<lambda>now.
       bnd (on_error (latest_pending_otp (us_id u)) (not_found_as (AuthE auth_err.ErrInvalidToken))) (\<lambda>c.
       bnd (guard (\<not> (now > ot_expires_at c \<or> ot_attempts c \<ge> otp_max_attempts))
              (AuthE auth_err.ErrInvalidToken)) (\<lambda>_.
       if hash_token (au_lib s) (trim_space code) \<noteq> ot_hash c then
         bnd (attempt (increment_otp_attempts (ot_id c))) (\<lambda>_.
         if ot_attempts c + 1 \<ge> otp_max_attempts then fail (AuthE auth_err.ErrOTPAttemptsExceeded)
         else fail (AuthE auth_err.ErrInvalidToken))
       else
         bnd (tx (bnd (set_email_verified (us_id u)) (\<lambda>_.
              bnd (consume_otp (ot_id c) now) (\<lambda>_.
              invalidate_user_verifications (us_id u) now)))) (\<lambda>_.
         send_welcome s (us_id u))))))"

definition resend_verification :: "auth_service \<Rightarrow> string \<Rightarrow> ('z auth_state_scheme, unit) op" where
  "resend_verification s email0 = (let l = au_lib s; email = to_lower (trim_space email0) in
     bnd (attempt (get_user_by_email email)) (\<lambda>r. case r of
       Inl e \<Rightarrow> (if e = RecordNotFound then ret () else fail e)
     | Inr u \<Rightarrow>
       if us_email_verified u then ret ()
       else bnd (attempt (latest_email_verification_at (us_id u))) (\<lambda>latest.
         bnd time_now (\<lambda>now.
         bnd (guard (case latest of Inr at \<Rightarrow> \<not> now - at < resend_throttle | Inl _ \<Rightarrow> True)
                (AuthE auth_err.ErrTooManyRequests)) (\<lambda>_.
         bnd (generate_raw_token l 32) (\<lambda>raw.
         bnd (generate_otp s) (\<lambda>otp.
         tx (bnd (invalidate_user_verifications (us_id u) now) (\<lambda>_.
             bnd (invalidate_user_otps (us_id u) now) (\<lambda>_.
             bnd (create_email_verification l (new_verification s (us_id u) raw now)) (\<lambda>_.
             bnd (create_otp_code l (new_otp s (us_id u) otp now)) (\<lambda>_.
             au_enqueue_tx s (SendVerificationEmail (us_id u) email (display_name_of (Some u)) otp
               (verification_link s raw))))))))))))))"

section \<open>Sessions\<close>

record login_context =
  lc_ip :: string
  lc_user_agent :: string
  lc_device :: string

record token_pair =
  tp_access :: string
  tp_refresh :: string

definition status_refusal :: "user_status \<Rightarrow> (string \<times> auth_err) option" where
  "status_refusal st = (case st of
       SUSPENDED \<Rightarrow> Some (''suspended'', auth_err.ErrAccountSuspended)
     | DELETED \<Rightarrow> Some (''deleted'', auth_err.ErrAccountDeleted)
     | INACTIVE \<Rightarrow> Some (''inactive'', auth_err.ErrAccountInactive)
     | ACTIVE \<Rightarrow> None)"

definition refused_login :: "auth_service \<Rightarrow> string \<Rightarrow> uuid option \<Rightarrow> login_context \<Rightarrow> string \<Rightarrow> err
    \<Rightarrow> ('z auth_state_scheme, 'a) op" where
  "refused_login s email user ctx reason e =
     bnd (record_attempt s email user (lc_ip ctx) False reason) (\<lambda>_. fail e)"

definition open_session :: "auth_service \<Rightarrow> user \<Rightarrow> login_context \<Rightarrow> ('z auth_state_scheme, session \<times> string) op" where
  "open_session s u ctx = bnd time_now (\<lambda>now.
     bnd (generate_raw_token (au_lib s) 32) (\<lambda>raw.
     bnd (tx (
       bnd (repo_create_session (au_lib s) \<lparr>sn_id = uuid_nil, sn_user = us_id u, sn_ip = some_text (lc_ip ctx),
              sn_user_agent = some_text (lc_user_agent ctx), sn_device = some_text (lc_device ctx),
              sn_last_active_at = Some now, sn_expires_at = Some (now + au_refresh_ttl s), sn_created_at = 0,
              sn_revoked_at = None\<rparr>) (\<lambda>sess.
       bnd (create_refresh_token (au_lib s) \<lparr>rt_id = uuid_nil, rt_session = sn_id sess,
              rt_hash = hash_token (au_lib s) raw, rt_expires_at = now + au_refresh_ttl s, rt_revoked_at = None,
              rt_created_at = 0\<rparr>) (\<lambda>_.
       bnd (update_last_login (us_id u) now) (\<lambda>_. ret sess))))) (\<lambda>sess. ret (sess, raw))))"

definition login :: "auth_service \<Rightarrow> string \<Rightarrow> string \<Rightarrow> login_context \<Rightarrow> ('z auth_state_scheme, token_pair) op" where
  "login s email0 password ctx = (let email = to_lower (trim_space email0) in
     bnd (attempt (get_user_by_email email)) (\<lambda>r. case r of
       Inl e \<Rightarrow> refused_login s email None ctx ''user_not_found''
                (if e = RecordNotFound then AuthE auth_err.ErrInvalidCredentials else e)
     | Inr u \<Rightarrow>
       bnd (attempt (get_credential_by_user (us_id u))) (\<lambda>c. case c of
         Inl _ \<Rightarrow> refused_login s email (Some (us_id u)) ctx ''no_credential'' (AuthE auth_err.ErrInvalidCredentials)
       | Inr cred \<Rightarrow>
         if \<not> au_check s (cd_hash cred) password then
           refused_login s email (Some (us_id u)) ctx ''bad_password'' (AuthE auth_err.ErrInvalidCredentials)
         else case status_refusal (us_status u) of
           Some (reason, x) \<Rightarrow> refused_login s email (Some (us_id u)) ctx reason (AuthE x)
         | None \<Rightarrow>
           if \<not> us_email_verified u then
             refused_login s email (Some (us_id u)) ctx ''unverified'' (AuthE auth_err.ErrEmailNotVerified)
           else
             bnd (open_session s u ctx) (\<lambda>(sess, raw).
             bnd (generate_access_token s (us_id u) (sn_id sess)) (\<lambda>access.
             bnd (record_attempt s email (Some (us_id u)) (lc_ip ctx) True []) (\<lambda>_.
             ret \<lparr>tp_access = access, tp_refresh = raw\<rparr>))))))"

text \<open>Rotation reads and checks first, outside any transaction, and then writes; the halves are named since another
  request can run between them.\<close>

definition refresh_check :: "auth_service \<Rightarrow> string \<Rightarrow> ('z auth_state_scheme, refresh_token \<times> session \<times> user) op" where
  "refresh_check s raw = bnd time_now (\<lambda>now.
     bnd (on_error (get_refresh_by_hash (hash_token (au_lib s) raw))
            (not_found_as (AuthE auth_err.ErrInvalidToken))) (\<lambda>old.
     if rt_revoked_at old \<noteq> None then
       bnd (attempt (revoke_session (rt_session old) now)) (\<lambda>_.
       bnd (attempt (revoke_session_tokens (rt_session old) now)) (\<lambda>_.
       fail (AuthE auth_err.ErrInvalidToken)))
     else
       bnd (guard (\<not> now > rt_expires_at old) (AuthE auth_err.ErrInvalidToken)) (\<lambda>_.
       bnd (on_error (get_session_by_id (rt_session old)) (\<lambda>_. AuthE auth_err.ErrInvalidToken)) (\<lambda>sess.
       bnd (guard (sn_revoked_at sess = None) (AuthE auth_err.ErrSessionRevoked)) (\<lambda>_.
       bnd (guard (case sn_expires_at sess of None \<Rightarrow> True | Some t \<Rightarrow> \<not> now > t)
              (AuthE auth_err.ErrInvalidToken)) (\<lambda>_.
       bnd (on_error (get_user_by_id (sn_user sess)) (\<lambda>_. AuthE auth_err.ErrInvalidToken)) (\<lambda>u.
       bnd (guard (us_status u = ACTIVE) (AuthE auth_err.ErrInvalidToken)) (\<lambda>_.
       ret (old, sess, u)))))))))"

definition refresh_commit :: "auth_service \<Rightarrow> refresh_token \<Rightarrow> session \<Rightarrow> user
    \<Rightarrow> ('z auth_state_scheme, token_pair) op" where
  "refresh_commit s old sess u = bnd time_now (\<lambda>now.
     bnd (generate_raw_token (au_lib s) 32) (\<lambda>raw.
     bnd (tx (
       bnd (revoke_refresh_token (rt_id old) now) (\<lambda>_.
       bnd (create_refresh_token (au_lib s) \<lparr>rt_id = uuid_nil, rt_session = sn_id sess,
              rt_hash = hash_token (au_lib s) raw, rt_expires_at = now + au_refresh_ttl s, rt_revoked_at = None,
              rt_created_at = 0\<rparr>) (\<lambda>_.
       touch_session (sn_id sess) now)))) (\<lambda>_.
     bnd (generate_access_token s (us_id u) (sn_id sess)) (\<lambda>access.
     ret \<lparr>tp_access = access, tp_refresh = raw\<rparr>))))"

definition refresh :: "auth_service \<Rightarrow> string \<Rightarrow> ('z auth_state_scheme, token_pair) op" where
  "refresh s raw = bnd (refresh_check s raw) (\<lambda>(old, sess, u). refresh_commit s old sess u)"

definition logout :: "auth_service \<Rightarrow> uuid \<Rightarrow> ('z auth_state_scheme, unit) op" where
  "logout s session = bnd time_now (\<lambda>now.
     tx (bnd (revoke_session session now) (\<lambda>_. revoke_session_tokens session now)))"

record me_dto =
  me_id :: uuid
  me_email :: string
  me_verified :: bool
  me_first_name :: "string option"
  me_last_name :: "string option"

definition me :: "uuid \<Rightarrow> ('z auth_state_scheme, me_dto) op" where
  "me user = bnd (get_user_by_id user) (\<lambda>u. ret \<lparr>me_id = us_id u, me_email = us_email u,
     me_verified = us_email_verified u,
     me_first_name = (case us_profile u of None \<Rightarrow> None | Some p \<Rightarrow> pf_first_name p),
     me_last_name = (case us_profile u of None \<Rightarrow> None | Some p \<Rightarrow> pf_last_name p)\<rparr>)"

section \<open>Password reset\<close>

definition forgot_password :: "auth_service \<Rightarrow> string \<Rightarrow> ('z auth_state_scheme, unit) op" where
  "forgot_password s email0 = (let l = au_lib s; email = to_lower (trim_space email0) in
     bnd (attempt (get_user_by_email email)) (\<lambda>r. case r of
       Inl _ \<Rightarrow> ret ()
     | Inr u \<Rightarrow>
       bnd (generate_raw_token l 32) (\<lambda>raw.
       bnd time_now (\<lambda>now.
       tx (bnd (invalidate_user_resets (us_id u) now) (\<lambda>_.
           bnd (create_password_reset l \<lparr>pr_id = uuid_nil, pr_user = us_id u, pr_hash = hash_token l raw,
                  pr_expires_at = now + password_reset_ttl, pr_used_at = None, pr_created_at = 0\<rparr>) (\<lambda>_.
           au_enqueue_tx s (SendPasswordResetEmail (us_id u) email (display_name_of (Some u))
             (reset_link s raw)))))))))"

definition reset_password :: "auth_service \<Rightarrow> string \<Rightarrow> string \<Rightarrow> ('z auth_state_scheme, unit) op" where
  "reset_password s raw password = bnd time_now (\<lambda>now.
     bnd (on_error (get_password_reset_by_hash (hash_token (au_lib s) raw))
            (not_found_as (AuthE auth_err.ErrInvalidToken))) (\<lambda>p.
     bnd (guard (pr_used_at p = None) (AuthE auth_err.ErrTokenUsed)) (\<lambda>_.
     bnd (guard (\<not> now > pr_expires_at p) (AuthE auth_err.ErrInvalidToken)) (\<lambda>_.
     bnd (bcrypt_hash s password) (\<lambda>hash.
     tx (bnd (update_credential_hash (pr_user p) hash now) (\<lambda>_.
         bnd (mark_password_reset_used (pr_id p) now) (\<lambda>_.
         bnd (invalidate_user_resets (pr_user p) now) (\<lambda>_.
         bnd (revoke_all_user_sessions (pr_user p) now) (\<lambda>_.
         revoke_all_user_tokens (pr_user p) now))))))))))"

section \<open>Frame lemmas\<close>

lemma keeps_auth_helpers [keeps_intros]:
  assumes I: "on_tables I"
  shows "keeps I (generate_otp s)" "keeps I (bcrypt_hash s pw)" "keeps I (generate_access_token s u sn)"
    "keeps I (parse_access_token s raw)" "keeps I (me user)"
  unfolding generate_otp_def bcrypt_hash_def generate_access_token_def parse_access_token_def me_def
  by (intro keeps_intros I)+

text \<open>The contract of an invariant on the authentication tables: every write of a row keeps it. The flows then keep it too;
  a wrong code is counted only under a check, so \<open>verify_by_code\<close> has its own premise.\<close>

locale auth_rows =
  fixes I :: "'z auth_state_scheme \<Rightarrow> bool"
  assumes tables: "on_tables I" and queue: "\<And>w x. I w \<Longrightarrow> I (w\<lparr>jobs := jobs w @ [x]\<rparr>)"
    and people: "keeps I (create_user l us)" "keeps I (create_profile l i p)" "keeps I (set_email_verified i)"
      "keeps I (update_last_login i t)"
    and secrets: "keeps I (create_credential l cr)" "keeps I (update_credential_hash i h t)"
    and session_rows: "keeps I (repo_create_session l sn)" "keeps I (touch_session i t)" "keeps I (revoke_session i t)"
      "keeps I (revoke_all_user_sessions i t)"
    and token_rows: "keeps I (create_refresh_token l rt)" "keeps I (revoke_refresh_token i t)"
      "keeps I (revoke_session_tokens i t)" "keeps I (revoke_all_user_tokens i t)"
    and link_rows: "keeps I (create_email_verification l vf)" "keeps I (mark_email_verification_used i t)"
      "keeps I (invalidate_user_verifications i t)" "keeps I (create_password_reset l pr)"
      "keeps I (mark_password_reset_used i t)" "keeps I (invalidate_user_resets i t)"
    and code_rows: "ot_attempts co = 0 \<Longrightarrow> keeps I (create_otp_code l co)" "keeps I (consume_otp i t)"
      "keeps I (invalidate_user_otps i t)"
    and telemetry: "keeps I (record_login_attempt l la)"
begin

lemmas rows = people secrets session_rows token_rows link_rows code_rows telemetry

lemma helpers: "keeps I (au_enqueue_tx sv jb)" "keeps I (send_welcome sv us)" "keeps I (record_attempt sv em uo ip ok why)"
  unfolding au_enqueue_tx_def send_welcome_def record_attempt_def by (intro keeps_intros tables queue rows; assumption)+

lemma login_parts: "keeps I (refused_login sv em uo ctx why e)" "keeps I (open_session sv us ctx)"
  unfolding refused_login_def open_session_def by (intro rows helpers keeps_intros tables)+

lemma refresh_parts: "keeps I (refresh_check sv raw)" "keeps I (refresh_commit sv old sess us)"
  unfolding refresh_check_def refresh_commit_def by (intro rows helpers keeps_intros tables)+

lemma flows: "keeps I (register sv inp)" "keeps I (verify_email sv raw)" "keeps I (resend_verification sv em)"
  "keeps I (login sv em pw ctx)" "keeps I (refresh sv raw)" "keeps I (logout sv sn)" "keeps I (forgot_password sv em)"
  "keeps I (reset_password sv raw pw)"
  unfolding register_def verify_email_def resend_verification_def login_def refresh_def logout_def forgot_password_def
    reset_password_def
  by (intro rows helpers login_parts refresh_parts keeps_intros tables fresh_code)+

lemma code_flow:
  assumes "\<And>i. keeps I (increment_otp_attempts i)"
  shows "keeps I (verify_by_code sv em code)"
  unfolding verify_by_code_def by (intro rows helpers assms keeps_intros tables)

end

text \<open>In particular a predicate that looks at none of the tables of this domain.\<close>

lemma auth_rows_apart:
  assumes "on_tables I" "\<And>w x. I w \<Longrightarrow> I (w\<lparr>jobs := jobs w @ [x]\<rparr>)" "\<And>w x. I w \<Longrightarrow> I (w\<lparr>users := x\<rparr>)"
    and "\<And>w x. I w \<Longrightarrow> I (w\<lparr>credentials := x\<rparr>)" "\<And>w x. I w \<Longrightarrow> I (w\<lparr>sessions := x\<rparr>)"
    and "\<And>w x. I w \<Longrightarrow> I (w\<lparr>refresh_tokens := x\<rparr>)" "\<And>w x. I w \<Longrightarrow> I (w\<lparr>verifications := x\<rparr>)"
    and "\<And>w x. I w \<Longrightarrow> I (w\<lparr>resets := x\<rparr>)" "\<And>w x. I w \<Longrightarrow> I (w\<lparr>otps := x\<rparr>)"
    and "\<And>w x. I w \<Longrightarrow> I (w\<lparr>attempts := x\<rparr>)"
  shows "auth_rows I" and "keeps I (increment_otp_attempts i)"
proof -
  note rows = keeps_auth_rows [OF assms(1,4-10)] keeps_user_rows [OF assms(1,3)]
  show "auth_rows I" by (rule auth_rows.intro) (rule rows assms; assumption?)+
  show "keeps I (increment_otp_attempts i)" by (rule rows)
qed

interpretation trail_rows: auth_rows "trail_extends es" for es
  by (rule auth_rows_apart) (rule trail_extends_tables, simp_all add: trail_extends_def)

end
