(* ===== verification/Gate.thy ===== *)
theory Gate
  imports ApiKeys Auth
begin

text \<open>
  The middlewares in front of the handlers (\<open>auth/handler/middleware.go\<close>, \<open>organization/handler/middleware.go\<close>,
  \<open>iam/middleware.go\<close>): who is calling (an access token or an organization's API key), in which organization,
  and whether the policy lets them. A middleware either aborts with a status or passes the request on with more in its
  context. The facts are in \<open>GateFacts\<close>.
\<close>

datatype refusal = Unauthorized | BadRequest | Forbidden | NotFound

text \<open>What the middlewares put into the context of a request.\<close>

record gate_context =
  gx_user :: "uuid option"
  gx_session :: "uuid option"
  gx_key :: "uuid option"
  gx_key_org :: "uuid option"
  gx_scopes :: "string list"
  gx_org :: "uuid option"
  gx_role :: "member_role option"

definition empty_context :: gate_context where
  "empty_context = \<lparr>gx_user = None, gx_session = None, gx_key = None, gx_key_org = None, gx_scopes = [],
     gx_org = None, gx_role = None\<rparr>"

text \<open>\<open>UserFromContext\<close> and its companions: present and not the nil UUID.\<close>

definition from_context :: "uuid option \<Rightarrow> uuid option" where
  "from_context v = (case v of None \<Rightarrow> None | Some i \<Rightarrow> if i = uuid_nil then None else Some i)"

section \<open>Authentication\<close>

definition validate_api_key :: "lib \<Rightarrow> string \<Rightarrow> ('z auth_state_scheme, api_key option) op" where
  "validate_api_key l raw = (if \<not> is_api_key_shape raw then ret None
     else bnd (attempt (get_api_key_by_hash (hash_token l (trim_space raw)))) (\<lambda>r. case r of
       Inl _ \<Rightarrow> ret None
     | Inr k \<Rightarrow> if ak_revoked_at k \<noteq> None then ret None
       else bnd time_now (\<lambda>now.
         if (case ak_expires_at k of None \<Rightarrow> False | Some t \<Rightarrow> \<not> now < t) then ret None
         else bnd (attempt (get_user_by_id (ak_created_by k))) (\<lambda>u. case u of
           Inl _ \<Rightarrow> ret None
         | Inr u \<Rightarrow> ret (if us_status u = ACTIVE then Some k else None)))))"

definition trim_prefix :: "string \<Rightarrow> string \<Rightarrow> string" where
  "trim_prefix p s = (if has_prefix p s then drop (length p) s else s)"

definition require_auth :: "auth_service \<Rightarrow> string \<Rightarrow> string \<Rightarrow> ('z auth_state_scheme, refusal + gate_context) op" where
  "require_auth s key_header auth_header = (let raw = trim_space key_header in
     if raw \<noteq> [] then
       bnd (validate_api_key (au_lib s) raw) (\<lambda>r. case r of
         None \<Rightarrow> ret (Inl Unauthorized)
       | Some k \<Rightarrow> bnd time_now (\<lambda>now. bnd (attempt (touch_api_key (ak_id k) now)) (\<lambda>_.
           ret (Inr (empty_context\<lparr>gx_user := Some (ak_created_by k), gx_key := Some (ak_id k),
             gx_key_org := Some (ak_org k), gx_scopes := ak_scopes k\<rparr>)))))
     else (let bearer = trim_space (trim_prefix ''Bearer '' auth_header) in
       if bearer = [] then ret (Inl Unauthorized)
       else bnd (attempt (parse_access_token s bearer)) (\<lambda>r. case r of
         Inl _ \<Rightarrow> ret (Inl Unauthorized)
       | Inr (user, session) \<Rightarrow>
         bnd (attempt (get_session_by_id session)) (\<lambda>r. case r of
           Inl _ \<Rightarrow> ret (Inl Unauthorized)
         | Inr sess \<Rightarrow> if sn_revoked_at sess \<noteq> None \<or> sn_user sess \<noteq> user then ret (Inl Unauthorized)
           else bnd (attempt (get_user_by_id user)) (\<lambda>r. case r of
             Inl _ \<Rightarrow> ret (Inl Unauthorized)
           | Inr u \<Rightarrow> if us_status u \<noteq> ACTIVE then ret (Inl Unauthorized)
             else ret (Inr (empty_context\<lparr>gx_user := Some user, gx_session := Some session\<rparr>)))))))"

section \<open>Organization and permission\<close>

definition resolve_membership :: "lib \<Rightarrow> uuid \<Rightarrow> string \<Rightarrow> ('z org_state_scheme, organization \<times> membership) op" where
  "resolve_membership l user ref0 =
     bnd (case uuid_parse l ref0 of Some i \<Rightarrow> get_org_by_id i | None \<Rightarrow> get_org_by_slug (to_lower ref0)) (\<lambda>og.
     bnd (get_membership (og_id og) user) (\<lambda>m. ret (og, m)))"

definition require_org_context :: "lib \<Rightarrow> string \<Rightarrow> gate_context
    \<Rightarrow> ('z org_state_scheme, refusal + gate_context) op" where
  "require_org_context l param cx = (case from_context (gx_user cx) of
       None \<Rightarrow> ret (Inl Unauthorized)
     | Some user \<Rightarrow> (let ref0 = trim_space param in
         if ref0 = [] then ret (Inl BadRequest)
         else bnd (attempt (resolve_membership l user ref0)) (\<lambda>r. case r of
           Inl _ \<Rightarrow> ret (Inl NotFound)
         | Inr (og, m) \<Rightarrow>
             (case from_context (gx_key_org cx) of
                Some korg \<Rightarrow> if korg \<noteq> og_id og then ret (Inl Forbidden)
                  else ret (Inr (cx\<lparr>gx_org := Some (og_id og), gx_role := Some (mb_role m)\<rparr>))
              | None \<Rightarrow> ret (Inr (cx\<lparr>gx_org := Some (og_id og), gx_role := Some (mb_role m)\<rparr>))))))"

definition split_scope :: "string \<Rightarrow> (string \<times> string) option" where
  "split_scope t = (case index_of CHR '':'' t of None \<Rightarrow> None
     | Some i \<Rightarrow> if take i t \<noteq> [] \<and> drop (Suc i) t \<noteq> [] then Some (take i t, drop (Suc i) t) else None)"

definition api_key_scope_allows :: "string list \<Rightarrow> string \<Rightarrow> string \<Rightarrow> bool" where
  "api_key_scope_allows scopes ob ac = list_ex (\<lambda>t. case split_scope t of None \<Rightarrow> False
     | Some (so, sa) \<Rightarrow> (so = ''*'' \<or> so = ob) \<and> (sa = ''*'' \<or> sa = ac)) scopes"

text \<open>\<open>e.Enforce\<close> itself, which the middleware calls without the wrapper \<open>iam.Enforce\<close>.\<close>

definition casbin_allows :: "string \<Rightarrow> string \<Rightarrow> string \<Rightarrow> string \<Rightarrow> 'z iam_state_scheme \<Rightarrow> bool" where
  "casbin_allows sub dm ob ac w \<longleftrightarrow> [sub, super_admin_role] \<in> set (g2_rows w) \<or>
     list_ex (row_matches (g_rows w) sub dm ob ac) (p_rows w)"

definition require_permission :: "lib \<Rightarrow> string \<Rightarrow> string \<Rightarrow> gate_context
    \<Rightarrow> ('z iam_state_scheme, refusal + gate_context) op" where
  "require_permission l ob ac cx = (case from_context (gx_user cx) of
       None \<Rightarrow> ret (Inl Unauthorized)
     | Some user \<Rightarrow> (case from_context (gx_org cx) of
         None \<Rightarrow> ret (Inl NotFound)
       | Some org \<Rightarrow>
         if gx_scopes cx \<noteq> [] \<and> \<not> api_key_scope_allows (gx_scopes cx) ob ac then ret (Inl Forbidden)
         else if from_context (gx_key cx) \<noteq> None \<and> (ob = ''apikey'' \<or> ob = ''admin'') then ret (Inl Forbidden)
         else bnd (gets (casbin_allows (uuid_text l user) (uuid_text l org) ob ac)) (\<lambda>ok.
           ret (if ok then Inr cx else Inl Forbidden))))"

definition require_super_admin :: "lib \<Rightarrow> gate_context \<Rightarrow> ('z iam_state_scheme, refusal + gate_context) op" where
  "require_super_admin l cx = (case from_context (gx_user cx) of
       None \<Rightarrow> ret (Inl Unauthorized)
     | Some user \<Rightarrow>
         if from_context (gx_key cx) \<noteq> None then ret (Inl Forbidden)
         else bnd (gets (is_super_admin l user)) (\<lambda>ok. ret (if ok then Inr cx else Inl Forbidden)))"

text \<open>The chain of the organization routes: authenticate, resolve the organization, check the permission.\<close>

definition then_gate :: "('s, refusal + gate_context) op \<Rightarrow> (gate_context \<Rightarrow> ('s, refusal + gate_context) op)
    \<Rightarrow> ('s, refusal + gate_context) op" where
  "then_gate m f = bnd m (\<lambda>r. case r of Inl x \<Rightarrow> ret (Inl x) | Inr cx \<Rightarrow> f cx)"

definition org_gate :: "auth_service \<Rightarrow> string \<Rightarrow> string \<Rightarrow> string \<Rightarrow> string \<Rightarrow> string
    \<Rightarrow> ('z org_state_scheme, refusal + gate_context) op" where
  "org_gate s key_header auth_header param ob ac =
     then_gate (then_gate (require_auth s key_header auth_header) (require_org_context (au_lib s) param))
       (require_permission (au_lib s) ob ac)"

end
