(* ===== verification/Admin.thy ===== *)
theory Admin
  imports Order Roles
begin

text \<open>
  Platform administration (\<open>admin_service.go\<close>): reads over every tenant, each leaving an entry in the audit trail, and the
  two repairs of the derived IAM rows, \<open>ReseedOrgPolicies\<close> and \<open>SyncUserPolicies\<close>. Go iterates over maps in any
  order; here the keys come in the order of the rows.
\<close>

record admin_service =
  ad_lib :: lib
  ad_audited :: bool

definition ad_emit :: "admin_service \<Rightarrow> uuid \<Rightarrow> uuid option \<Rightarrow> string \<Rightarrow> string \<Rightarrow> uuid option
    \<Rightarrow> ('z core_state_scheme, unit) op" where
  "ad_emit s actor org action obj i = emit (ad_lib s) (ad_audited s) (entry org (Some actor) action obj i [] [])"

section \<open>Reads\<close>

definition org_matches :: "string \<Rightarrow> organization \<Rightarrow> bool" where
  "org_matches query og = (query = [] \<or> (let pat = ''%'' @ to_lower query @ ''%'' in
     sql_like pat (to_lower (og_name og)) \<or> sql_like pat (to_lower (og_slug og))))"

definition repo_list_orgs :: "string \<Rightarrow> int \<Rightarrow> int \<Rightarrow> ('z org_state_scheme, organization list \<times> int) op" where
  "repo_list_orgs query limit offset =
     bnd (select (\<lambda>w. count_where (org_matches query) (live_orgs w))) (\<lambda>total.
     bnd (select (\<lambda>w. page_of limit offset (newest_first og_created_at (filter (org_matches query) (live_orgs w))))) (\<lambda>ogs.
     ret (ogs, total)))"

definition admin_list_orgs :: "admin_service \<Rightarrow> uuid \<Rightarrow> string \<Rightarrow> int \<Rightarrow> int
    \<Rightarrow> ('z org_state_scheme, (organization \<times> int) list \<times> int) op" where
  "admin_list_orgs s actor query limit offset =
     bnd (repo_list_orgs query limit offset) (\<lambda>(ogs, total).
     bnd (for_each (\<lambda>og. bnd (list_memberships (og_id og) 1 0) (\<lambda>(_, n). ret (og, n))) ogs) (\<lambda>out.
     bnd (ad_emit s actor None ''admin.orgs_listed'' ''org'' None) (\<lambda>_. ret (out, total))))"

fun roster_loop :: "membership list \<Rightarrow> ('z org_state_scheme, (user \<times> member_role \<times> instant) list) op" where
  "roster_loop [] = ret []"
| "roster_loop (m # ms) = bnd (attempt (get_user_by_id (mb_user m))) (\<lambda>r. case r of
       Inl _ \<Rightarrow> roster_loop ms
     | Inr u \<Rightarrow> bnd (roster_loop ms) (\<lambda>out. ret ((u, mb_role m, mb_created_at m) # out)))"

definition admin_get_org :: "admin_service \<Rightarrow> uuid \<Rightarrow> uuid
    \<Rightarrow> ('z org_state_scheme, organization \<times> (user \<times> member_role \<times> instant) list) op" where
  "admin_get_org s actor org =
     bnd (on_error (get_org_by_id org) (not_found_as (AdminE admin_err.ErrOrgNotFound))) (\<lambda>og.
     bnd (list_memberships org 10000 0) (\<lambda>(ms, _).
     bnd (roster_loop ms) (\<lambda>members.
     bnd (ad_emit s actor (Some org) ''admin.org_viewed'' ''org'' (Some org)) (\<lambda>_. ret (og, members)))))"

definition user_matches :: "string \<Rightarrow> user \<Rightarrow> bool" where
  "user_matches query u = (query = [] \<or> sql_like (''%'' @ to_lower query @ ''%'') (to_lower (us_email u)))"

definition repo_search_users :: "string \<Rightarrow> int \<Rightarrow> int \<Rightarrow> ('z user_state_scheme, user list \<times> int) op" where
  "repo_search_users query limit offset =
     bnd (select (\<lambda>w. count_where (user_matches query) (live_users w))) (\<lambda>total.
     bnd (select (\<lambda>w. page_of limit offset (newest_first us_created_at (filter (user_matches query) (live_users w))))) (\<lambda>us.
     ret (us, total)))"

definition admin_search_users :: "admin_service \<Rightarrow> uuid \<Rightarrow> string \<Rightarrow> int \<Rightarrow> int
    \<Rightarrow> ('z iam_state_scheme, (user \<times> bool) list \<times> int) op" where
  "admin_search_users s actor query limit offset =
     bnd (repo_search_users query limit offset) (\<lambda>(us, total).
     bnd (for_each (\<lambda>u. bnd (gets (is_super_admin (ad_lib s) (us_id u))) (\<lambda>b. ret (u, b))) us) (\<lambda>out.
     bnd (ad_emit s actor None ''admin.users_searched'' ''user'' None) (\<lambda>_. ret (out, total))))"

fun tenancy_loop :: "membership list \<Rightarrow> ('z org_state_scheme, (organization \<times> member_role \<times> instant) list) op" where
  "tenancy_loop [] = ret []"
| "tenancy_loop (m # ms) = bnd (attempt (get_org_by_id (mb_org m))) (\<lambda>r. case r of
       Inl _ \<Rightarrow> tenancy_loop ms
     | Inr og \<Rightarrow> bnd (tenancy_loop ms) (\<lambda>out. ret ((og, mb_role m, mb_created_at m) # out)))"

definition known_user :: "uuid \<Rightarrow> ('z user_state_scheme, user) op" where
  "known_user user = on_error (get_user_by_id user) (not_found_as (AdminE admin_err.ErrUserNotFound))"

definition admin_get_user :: "admin_service \<Rightarrow> uuid \<Rightarrow> uuid
    \<Rightarrow> ('z org_state_scheme, user \<times> bool \<times> (organization \<times> member_role \<times> instant) list) op" where
  "admin_get_user s actor user =
     bnd (known_user user) (\<lambda>u.
     bnd (list_user_memberships user) (\<lambda>ms.
     bnd (tenancy_loop ms) (\<lambda>out.
     bnd (ad_emit s actor None ''admin.user_viewed'' ''user'' (Some user)) (\<lambda>_.
     bnd (gets (is_super_admin (ad_lib s) user)) (\<lambda>b. ret (u, b, out))))))"

definition admin_list_user_orders :: "admin_service \<Rightarrow> uuid \<Rightarrow> uuid \<Rightarrow> int \<Rightarrow> int
    \<Rightarrow> ('z order_state_scheme, order_dto list \<times> int) op" where
  "admin_list_user_orders s actor user limit offset =
     bnd (known_user user) (\<lambda>_.
     bnd (list_user_orders user limit offset) (\<lambda>(xs, total).
     bnd (ad_emit s actor None ''admin.user_orders_viewed'' ''user'' (Some user)) (\<lambda>_.
     ret (map to_order xs, total))))"

section \<open>Repairing policies\<close>

record policy_diff =
  df_added :: int
  df_removed :: int
  df_total :: int

text \<open>\<open>ListCustomRolePolicies\<close>: the names of the roles with rows in the organization that are not fixed ones.\<close>

definition custom_rows :: "lib \<Rightarrow> uuid \<Rightarrow> 'z iam_state_scheme \<Rightarrow> string list list" where
  "custom_rows l org w = filter (\<lambda>r. 1 < length r \<and> r ! 1 = uuid_text l org \<and> length r = 4 \<and> \<not> is_fixed_role (r ! 0)) (p_rows w)"

definition live_custom_roles :: "lib \<Rightarrow> uuid \<Rightarrow> 'z iam_state_scheme \<Rightarrow> string list" where
  "live_custom_roles l org w = remdups (map (\<lambda>r. r ! 0) (custom_rows l org w))"

fun materialize_defs :: "lib \<Rightarrow> uuid \<Rightarrow> role_definition list \<Rightarrow> ('z iam_state_scheme, unit) op" where
  "materialize_defs l org [] = ret ()"
| "materialize_defs l org (d # ds) =
     bnd (ensure_custom_role l org (rd_name d) (rd_permissions d)) (\<lambda>_. materialize_defs l org ds)"

fun sweep_orphans :: "lib \<Rightarrow> uuid \<Rightarrow> string list \<Rightarrow> string list \<Rightarrow> int \<Rightarrow> ('z iam_state_scheme, int) op" where
  "sweep_orphans l org defined [] n = ret n"
| "sweep_orphans l org defined (role # rs) n =
     (if role \<in> set defined then sweep_orphans l org defined rs n
      else bnd (remove_custom_role l org role) (\<lambda>k. sweep_orphans l org defined rs (n + k)))"

definition rematerialize_custom_roles :: "admin_service \<Rightarrow> uuid \<Rightarrow> ('z org_state_scheme, int) op" where
  "rematerialize_custom_roles s org =
     bnd (list_role_defs org) (\<lambda>defs.
     bnd (materialize_defs (ad_lib s) org defs) (\<lambda>_.
     bnd (gets (live_custom_roles (ad_lib s) org)) (\<lambda>live.
     sweep_orphans (ad_lib s) org (map rd_name defs) live 0)))"

definition reseed_org_policies :: "admin_service \<Rightarrow> uuid \<Rightarrow> uuid \<Rightarrow> ('z org_state_scheme, policy_diff) op" where
  "reseed_org_policies s actor org =
     bnd (on_error (get_org_by_id org) (not_found_as (AdminE admin_err.ErrOrgNotFound))) (\<lambda>_.
     bnd (gets (count_org_policies (ad_lib s) org)) (\<lambda>n0.
     bnd (seed_org_policies (ad_lib s) org) (\<lambda>_.
     bnd (rematerialize_custom_roles s org) (\<lambda>removed.
     bnd (gets (count_org_policies (ad_lib s) org)) (\<lambda>n1.
     bnd (ad_emit s actor (Some org) ''admin.policies_reseeded'' ''policy'' (Some org)) (\<lambda>_.
     ret \<lparr>df_added = n1 - n0, df_removed = removed, df_total = n1\<rparr>))))))"

text \<open>\<open>groupingSet\<close>: the user's rows as \<open>role@org\<close> texts.\<close>

definition grouping_set :: "lib \<Rightarrow> uuid \<Rightarrow> 'z iam_state_scheme \<Rightarrow> string list" where
  "grouping_set l user w =
     remdups (map (\<lambda>r. r ! 1 @ ''@'' @ r ! 2) (filter (\<lambda>r. length r = 3) (user_groupings l user w)))"

definition split_grouping_key :: "string \<Rightarrow> string \<times> string" where
  "split_grouping_key key = (case index_of CHR ''@'' key of None \<Rightarrow> (key, [])
     | Some i \<Rightarrow> (take i key, drop (Suc i) key))"

definition is_custom_role_name :: "string \<Rightarrow> bool" where
  "is_custom_role_name role = (role \<notin> {''OWNER'', ''ADMIN'', ''MEMBER''})"

fun converge_memberships :: "lib \<Rightarrow> uuid \<Rightarrow> membership list \<Rightarrow> ('z org_state_scheme, unit) op" where
  "converge_memberships l user [] = ret ()"
| "converge_memberships l user (m # ms) =
     bnd (sync_membership l user (mb_org m) (Some (role_text (mb_role m)))) (\<lambda>_.
     bnd (list_user_custom_roles (mb_org m) user) (\<lambda>customs.
     bnd (for_each (\<lambda>role. sync_custom_grouping l user (mb_org m) role True) customs) (\<lambda>_.
     converge_memberships l user ms)))"

fun sweep_groupings :: "lib \<Rightarrow> uuid \<Rightarrow> string list \<Rightarrow> string list \<Rightarrow> ('z iam_state_scheme, unit) op" where
  "sweep_groupings l user keep [] = ret ()"
| "sweep_groupings l user keep (key # ks) = (let (role, orgref) = split_grouping_key key in
     if orgref \<in> set keep then sweep_groupings l user keep ks
     else case uuid_parse l orgref of None \<Rightarrow> sweep_groupings l user keep ks
       | Some org \<Rightarrow>
         bnd (if is_custom_role_name role then sync_custom_grouping l user org role False
              else sync_membership l user org None) (\<lambda>_. sweep_groupings l user keep ks))"

definition admin_sync_user :: "admin_service \<Rightarrow> uuid \<Rightarrow> uuid \<Rightarrow> ('z org_state_scheme, policy_diff) op" where
  "admin_sync_user s actor user = (let l = ad_lib s in
     bnd (known_user user) (\<lambda>_.
     bnd (gets (grouping_set l user)) (\<lambda>before.
     bnd (list_user_memberships user) (\<lambda>ms.
     bnd (converge_memberships l user ms) (\<lambda>_.
     bnd (sweep_groupings l user (map (\<lambda>m. uuid_text l (mb_org m)) ms) before) (\<lambda>_.
     bnd (gets (grouping_set l user)) (\<lambda>after.
     bnd (ad_emit s actor None ''admin.policies_synced'' ''user'' (Some user)) (\<lambda>_.
     ret \<lparr>df_added = count_where (\<lambda>k. k \<notin> set before) after, df_removed = count_where (\<lambda>k. k \<notin> set after) before,
          df_total = int (length after)\<rparr>))))))))"

end
