(* ===== verification/Reads.thy ===== *)
theory Reads
  imports Payment Gate Admin
begin

text \<open>
  What the operations leave alone. A state predicate that does not look at the audit trail, the job
  queue and the cache, or only to see them grow, is \<open>quiet\<close>; every read that crosses a domain (\<open>org_of\<close>, \<open>get_event\<close>,
  \<open>inspect_type\<close>, \<open>can_manage\<close>, the entitlement and user reads) keeps each quiet predicate. The
  lemmas feed the collection \<open>keeps_intros\<close>, which then proves preservation by following the
  structure of a definition.
\<close>

definition quiet :: "('z event_state_scheme \<Rightarrow> bool) \<Rightarrow> bool" where
  "quiet I \<longleftrightarrow> on_tables I \<and> (\<forall>w x. I w \<longrightarrow> I (w\<lparr>audit_events := audit_events w @ [x]\<rparr>)) \<and>
     (\<forall>w x. I w \<longrightarrow> I (w\<lparr>jobs := jobs w @ [x]\<rparr>)) \<and> (\<forall>w x. I w \<longrightarrow> I (w\<lparr>detail_cache := x\<rparr>))"

lemma quietI: "on_tables I \<Longrightarrow> (\<And>w x. I (w\<lparr>audit_events := x\<rparr>) = I w) \<Longrightarrow> (\<And>w x. I (w\<lparr>jobs := x\<rparr>) = I w)
    \<Longrightarrow> (\<And>w x. I (w\<lparr>detail_cache := x\<rparr>) = I w) \<Longrightarrow> quiet I"
  by (simp add: quiet_def)

lemma quiet_tables: "quiet I \<Longrightarrow> on_tables I"
  by (simp add: quiet_def)

lemma quiet_emit [keeps_intros]: "quiet I \<Longrightarrow> keeps I (emit l wired e)"
  by (rule keeps_emit) (simp_all add: quiet_def)

lemma quiet_enqueue [keeps_intros]: "quiet I \<Longrightarrow> keeps I (enqueue_tx wired j)"
  by (rule keeps_enqueue_tx) (simp_all add: quiet_def)

section \<open>Reads of the organization and the event domain\<close>

lemma keeps_org_reads [keeps_intros]:
  assumes "on_tables I"
  shows "keeps I (get_org_by_id i)" "keeps I (get_org_by_slug t)" "keeps I (get_membership org user)"
    "keeps I (resolve_org l ref0)" "keeps I (resolve_org_id l ref0)" "keeps I (is_member user org)"
    "keeps I (is_owner user org)" "keeps I (can_manage user org)" "keeps I (org_name org)"
    "keeps I (list_memberships org limit offset)"
  unfolding get_org_by_id_def get_org_by_slug_def get_membership_def resolve_org_def resolve_org_id_def
    is_member_def is_owner_def can_manage_def org_name_def list_memberships_def
  using assms by (intro keeps_intros; assumption)+

lemma keeps_notify [keeps_intros]:
  assumes "on_tables I"
  shows "keeps I (notify_loop ms)" "keeps I (notify_targets org)"
proof -
  show *: "keeps I (notify_loop ms)" for ms
    by (induction ms) (auto intro!: keeps_intros assms)
  show "keeps I (notify_targets org)"
    unfolding notify_targets_def by (intro keeps_intros assms *)
qed

lemma keeps_event_reads [keeps_intros]:
  assumes "on_tables I"
  shows "keeps I (get_event_by_id i)" "keeps I (get_event_by_slug org t)"
    "keeps I (event_org_of_ref es orgref)" "keeps I (resolve_event l org ref0)"
    "keeps I (resolve_event_id l org ref0)" "keeps I (org_of i)" "keeps I (event_title i)"
    "keeps I (get_event es caller orgref ref0)" "keeps I (cache_get i)"
    "keeps I (list_images_by_event i)" "keeps I (repo_list_events f limit offset srt)"
    "keeps I (count_active_by_org org)"
  unfolding get_event_by_id_def get_event_by_slug_def event_org_of_ref_def resolve_event_def
    resolve_event_id_def org_of_def event_title_def get_event_def cache_get_def
    list_images_by_event_def repo_list_events_def count_active_by_org_def
  using assms by (intro keeps_intros; assumption)+

text \<open>A public read fills the cache and changes nothing else.\<close>

lemma keeps_public_event:
  assumes I: "on_tables I" and c: "\<And>w x. I w \<Longrightarrow> I (w\<lparr>detail_cache := x\<rparr>)"
  shows "keeps I (get_public_event es i)" "keeps I (purge_public_event es i)"
  unfolding get_public_event_def purge_public_event_def cache_set_def cache_del_def
  by (intro keeps_intros I c; assumption)+

lemma quiet_public_event [keeps_intros]:
  assumes "quiet I"
  shows "keeps I (get_public_event es i)" "keeps I (purge_public_event es i)"
  using assms by (intro keeps_public_event; simp add: quiet_def)+

section \<open>Reads of the ticketing domain\<close>

lemma keeps_ticket_reads [keeps_intros]:
  assumes "on_tables I"
  shows "keeps I (get_type_by_id i)" "keeps I (lock_type i)" "keeps I (list_types_by_event ev drafts)"
    "keeps I (allocated_total ev excl)" "keeps I (tk_get_event s caller orgref eventref)"
    "keeps I (ts_event s caller orgref eventref)" "keeps I (check_window starts ends)"
    "keeps I (check_event_headroom info qty excl)" "keeps I (resolve_type l ev ref0)"
    "keeps I (ts_org_of ev)"
  unfolding get_type_by_id_def lock_type_def list_types_by_event_def allocated_total_def
    tk_get_event_def ts_event_def check_window_def check_event_headroom_def resolve_type_def ts_org_of_def
  using assms by (intro keeps_intros; assumption)+

lemma keeps_inspect:
  assumes I: "on_tables I" and c: "\<And>w x. I w \<Longrightarrow> I (w\<lparr>detail_cache := x\<rparr>)"
  shows "keeps I (inspect_type s i)"
  unfolding inspect_type_def tk_get_public_event_def
  by (intro keeps_intros keeps_public_event I c)

lemma quiet_inspect [keeps_intros]:
  assumes "quiet I"
  shows "keeps I (tk_get_public_event s i)" "keeps I (inspect_type s i)" "keeps I (ts_emit s e)"
  unfolding tk_get_public_event_def inspect_type_def ts_emit_def
  by (intro keeps_intros assms quiet_tables [OF assms])+

section \<open>Reads of the attendee, kit and order domains\<close>

lemma keeps_door_reads [keeps_intros]:
  assumes "on_tables I"
  shows "keeps I (get_attendee_by_id i)" "keeps I (get_for_update i)" "keeps I (exists_for_order x unit)"
    "keeps I (count_by_status ev)" "keeps I (count_roster ev)" "keeps I (find_attendee i)"
    "keeps I (attendee_status_in_event i ev)" "keeps I (generate_token l)"
    "keeps I (correct_name_check i name email)"
  unfolding get_attendee_by_id_def get_for_update_def exists_for_order_def count_by_status_def
    count_roster_def find_attendee_def attendee_status_in_event_def generate_token_def correct_name_check_def
  using assms by (intro keeps_intros; assumption)+

lemma keeps_kit_reads [keeps_intros]:
  assumes "on_tables I"
  shows "keeps I (get_kit_by_id i)" "keeps I (get_kit_for_update i)" "keeps I (locked_kit i ev)"
    "keeps I (count_active i)" "keeps I (count_collected i)" "keeps I (has_active_collections a)"
    "keeps I (find_collection_by_key i a key)" "keeps I (get_collection_for_update i)"
    "keeps I (counts_by_kit ev)" "keeps I (list_kits_by_event ev)" "keeps I (with_counts ev k)"
    "keeps I (kit_event l org ref0 e)" "keeps I (kit_parse l ref0 e)"
    "keeps I (collect_check ks org ref0 ref1 ref2)"
  unfolding get_kit_by_id_def get_kit_for_update_def locked_kit_def count_active_def count_collected_def
    has_active_collections_def find_collection_by_key_def get_collection_for_update_def counts_by_kit_def
    list_kits_by_event_def with_counts_def kit_event_def kit_parse_def collect_check_def
  using assms by (intro keeps_intros; assumption)+

lemma keeps_checkin_event [keeps_intros]: "on_tables I \<Longrightarrow> keeps I (checkin_event cs org ref0)"
  unfolding checkin_event_def by (intro keeps_intros)

lemma keeps_order_reads [keeps_intros]:
  assumes "on_tables I"
  shows "keeps I (get_order_by_id i)" "keeps I (get_order_by_idempotency user key)"
    "keeps I (find_order_or e i)" "keeps I (manageable user x)" "keeps I (expired_pending now n)"
    "keeps I (check_attendee_capacity s ev quantity)" "keeps I (cancel_order_check caller i)"
  unfolding get_order_by_id_def get_order_by_idempotency_def find_order_or_def manageable_def
    expired_pending_def check_attendee_capacity_def cancel_order_check_def
  using assms by (intro keeps_intros; assumption)+

lemma quiet_order_helpers [keeps_intros]:
  assumes "quiet I"
  shows "keeps I (rs_emit s e)" "keeps I (enqueue_confirmation s x user ms)"
  unfolding rs_emit_def enqueue_confirmation_def
  by (intro keeps_intros assms quiet_tables [OF assms])+

lemma keeps_call_ext [keeps_intros]: "on_tables I \<Longrightarrow> keeps I (call_ext x)"
  by (rule keepsI) (simp add: wp_def call_ext_def on_tables_tick split: option.split)

end
