(* ===== verification/Inventory.thy ===== *)
theory Inventory
  imports Reads
begin

text \<open>
  The books of the inventory: what \<open>quantity_sold\<close> counts. \<open>balanced d\<close> says that the count of every
  ticket type is the units of the orders that hold some, plus an imbalance \<open>d\<close>, and that no type has
  sold more than its total. Reserving and inserting an order move the imbalance in opposite
  directions, so do releasing and closing; every operation as a whole leaves it at zero.
\<close>

definition holding :: "order_status \<Rightarrow> bool" where
  "holding st \<longleftrightarrow> st \<noteq> OrderCancelled \<and> st \<noteq> Expired"

definition held :: "uuid \<Rightarrow> order list \<Rightarrow> int" where
  "held i xs = sum_where (\<lambda>x. or_type x = i \<and> holding (or_status x)) or_quantity xs"

definition stocked :: "ticket_type list \<Rightarrow> bool" where
  "stocked ts \<longleftrightarrow> keyed tt_id ts \<and>
     (\<forall>t \<in> set ts. 0 \<le> tt_sold t \<and> tt_sold t \<le> tt_total t \<and> fits32 (tt_total t))"

definition balanced :: "(uuid \<Rightarrow> int) \<Rightarrow> ticket_type list \<Rightarrow> order list \<Rightarrow> bool" where
  "balanced d ts xs \<longleftrightarrow> stocked ts \<and> keyed or_id xs \<and>
     (\<forall>x \<in> set xs. order_row_ok x \<and> or_type x \<in> tt_id ` set ts) \<and>
     (\<forall>t \<in> set ts. tt_sold t = held (tt_id t) xs + d (tt_id t))"

text \<open>The moves of an order's status, and what else of a claim never changes.\<close>

inductive order_edge :: "order_status \<Rightarrow> order_status \<Rightarrow> bool" where
  pay: "order_edge PendingPayment Confirmed"
| cancel: "holding st \<Longrightarrow> order_edge st OrderCancelled"
| expire: "st = OrderPending \<or> st = PendingPayment \<Longrightarrow> order_edge st Expired"

inductive_simps order_edge_iff: "order_edge a b"

definition same_claim :: "order \<Rightarrow> order \<Rightarrow> bool" where
  "same_claim x y \<longleftrightarrow> or_id y = or_id x \<and> or_user y = or_user x \<and> or_event y = or_event x \<and>
     or_type y = or_type x \<and> or_quantity y = or_quantity x \<and> or_price_cents y = or_price_cents x \<and>
     or_currency y = or_currency x \<and> or_key y = or_key x \<and> or_expires_at y = or_expires_at x \<and>
     order_edge\<^sup>*\<^sup>* (or_status x) (or_status y)"

definition moved :: "order list \<Rightarrow> order list \<Rightarrow> bool" where
  "moved xs0 xs \<longleftrightarrow> (\<forall>x \<in> set xs0. \<exists>y \<in> set xs. same_claim x y)"

text \<open>\<open>xs0\<close> are the orders of an earlier state; all of them are still there, moved along the edges.\<close>

definition books :: "order list \<Rightarrow> (uuid \<Rightarrow> int) \<Rightarrow> 'z order_state_scheme \<Rightarrow> bool" where
  "books xs0 d w \<longleftrightarrow> balanced d (ticket_types w) (orders w) \<and> moved xs0 (orders w)"

lemma books_tables [keeps_intros]: "on_tables (books xs0 d)"
  by (rule on_tablesI) (simp add: books_def)

lemma books_quiet [keeps_intros]: "quiet (books xs0 d)"
  by (rule quietI) (auto intro: keeps_intros simp: books_def)

lemma books_other [simp]:
  "books xs0 d (tick w) = books xs0 d w" "books xs0 d (rollback w w') = books xs0 d w"
  "books xs0 d (w\<lparr>faults := f\<rparr>) = books xs0 d w" "books xs0 d (w\<lparr>drawn_uuids := n\<rparr>) = books xs0 d w"
  "books xs0 d (w\<lparr>drawn_tokens := n\<rparr>) = books xs0 d w"
  "books xs0 d (w\<lparr>attendees := x\<rparr>) = books xs0 d w" "books xs0 d (w\<lparr>audit_events := es\<rparr>) = books xs0 d w"
  "books xs0 d (w\<lparr>jobs := js\<rparr>) = books xs0 d w"
  by (simp_all add: books_def)

section \<open>The two tables\<close>

lemma stocked_row:
  assumes "stocked ts" and "by_key tt_id i (filter tt_live ts) = Some t"
  shows "t \<in> set ts" "tt_id t = i" "tt_live t" "s \<in> set ts \<Longrightarrow> tt_id s = i \<Longrightarrow> s = t"
  using assms by (auto dest!: by_key_Some simp: stocked_def intro: keyed_inj)

lemma held_nonneg: "(\<And>x. x \<in> set xs \<Longrightarrow> order_row_ok x) \<Longrightarrow> 0 \<le> held i xs"
  unfolding held_def by (rule sum_where_nonneg) (force simp: order_row_ok_def)

lemma held_member: "(\<And>x. x \<in> set xs \<Longrightarrow> order_row_ok x) \<Longrightarrow> x \<in> set xs \<Longrightarrow> holding (or_status x)
    \<Longrightarrow> or_quantity x \<le> held (or_type x) xs"
  unfolding held_def by (rule sum_where_member_le) (force simp: order_row_ok_def)+

lemma held_none: "i \<notin> or_type ` set xs \<Longrightarrow> held i xs = 0"
  by (induction xs) (auto simp: held_def)

lemma balanced_move:
  assumes "balanced d ts xs" and "by_key tt_id i (filter tt_live ts) = Some t"
    and "0 \<le> tt_sold t + n" and "tt_sold t + n \<le> tt_total t"
  shows "balanced (d(i := d i + n)) (modify (\<lambda>t. tt_id t = i \<and> tt_live t)
           (\<lambda>t. t\<lparr>tt_sold := tt_sold t + n, tt_updated_at := now\<rparr>) ts) xs"
proof -
  have st: "stocked ts" using assms(1) by (simp add: balanced_def)
  note row = stocked_row [OF st assms(2)]
  have ids: "tt_id ` set (modify (\<lambda>t. tt_id t = i \<and> tt_live t)
      (\<lambda>t. t\<lparr>tt_sold := tt_sold t + n, tt_updated_at := now\<rparr>) ts) = tt_id ` set ts"
    by (rule key_image_modify) simp
  have "tt_sold s = tt_sold t" "tt_total s = tt_total t" if "s \<in> set ts" "tt_id s = i" for s
    using row(4) [OF that] by simp_all
  then have "stocked (modify (\<lambda>t. tt_id t = i \<and> tt_live t)
      (\<lambda>t. t\<lparr>tt_sold := tt_sold t + n, tt_updated_at := now\<rparr>) ts)"
    using st assms(3,4) by (auto simp: stocked_def set_modify)
  moreover have "tt_live s" if "s \<in> set ts" "tt_id s = i" for s
    using row(3,4) that by blast
  ultimately show ?thesis
    using assms(1) unfolding balanced_def ids by (auto simp: set_modify)
qed

lemma balanced_new_order:
  assumes "balanced d ts xs" and "\<not> has_key or_id (or_id x) xs" and "order_row_ok x"
    and "or_type x \<in> tt_id ` set ts" and "holding (or_status x)"
  shows "balanced (d(or_type x := d (or_type x) - or_quantity x)) ts (xs @ [x])"
  using assms by (auto simp: balanced_def held_def)

lemma balanced_save_order:
  assumes b: "balanced d ts xs" and x0: "by_key or_id (or_id x) xs = Some x0"
    and "order_row_ok x" and "or_type x = or_type x0" and "or_quantity x = or_quantity x0"
  shows "balanced (d(or_type x := d (or_type x) + (if holding (or_status x0) then or_quantity x else 0)
            - (if holding (or_status x) then or_quantity x else 0))) ts (upsert or_id x xs)"
proof -
  have k: "keyed or_id xs" and x0': "x0 \<in> set xs"
    using b x0 by (auto simp: balanced_def dest: by_key_Some)
  have "held i (upsert or_id x xs) = held i xs
      - (if or_type x0 = i \<and> holding (or_status x0) then or_quantity x0 else 0)
      + (if or_type x = i \<and> holding (or_status x) then or_quantity x else 0)" for i
    unfolding held_def by (rule sum_where_upsert [OF k x0])
  moreover have "set (upsert or_id x xs) \<subseteq> insert x (set xs)"
    by (auto simp: upsert_def set_modify)
  ultimately show ?thesis
    using b assms(3-5) k x0' by (auto simp: balanced_def)
qed

lemma same_claim_trans: "same_claim x y \<Longrightarrow> same_claim y z \<Longrightarrow> same_claim x z"
  by (auto simp: same_claim_def)

lemma moved_refl [simp]: "moved xs xs"
  by (auto simp: moved_def same_claim_def)

lemma moved_snoc: "moved xs0 xs \<Longrightarrow> moved xs0 (xs @ [x])"
  by (auto simp: moved_def)

lemma moved_save:
  assumes "moved xs0 xs" and "keyed or_id xs" and x0: "by_key or_id (or_id x) xs = Some x0"
    and "same_claim x0 x"
  shows "moved xs0 (upsert or_id x xs)"
  unfolding moved_def
proof
  fix z assume "z \<in> set xs0"
  then obtain y where y: "y \<in> set xs" "same_claim z y" using assms(1) by (auto simp: moved_def)
  have up: "upsert or_id x xs = modify (\<lambda>y. or_id y = or_id x) (\<lambda>_. x) xs"
    using x0 by (rule upsert_present)
  show "\<exists>y \<in> set (upsert or_id x xs). same_claim z y"
  proof (cases "or_id y = or_id x")
    case True
    then have "y = x0" using keyed_inj [OF assms(2) y(1)] by_key_Some [OF x0] by auto
    with y True assms(4) show ?thesis
      unfolding up set_modify by (auto intro!: bexI [OF _ imageI [OF y(1)]] intro: same_claim_trans)
  next
    case False
    with y show ?thesis unfolding up set_modify by (auto intro!: bexI [OF _ imageI [OF y(1)]])
  qed
qed

lemma balanced_save_type:
  assumes b: "balanced d ts xs" and t0: "by_key tt_id (tt_id t) ts = Some t0"
    and "tt_sold t = tt_sold t0" and "tt_sold t \<le> tt_total t" and "fits32 (tt_total t)"
  shows "balanced d (upsert tt_id t ts) xs"
proof -
  have t0': "t0 \<in> set ts" "tt_id t0 = tt_id t" using t0 by (auto dest: by_key_Some)
  have up: "upsert tt_id t ts = modify (\<lambda>s. tt_id s = tt_id t) (\<lambda>_. t) ts"
    using t0 by (rule upsert_present)
  have "tt_id ` set (upsert tt_id t ts) = tt_id ` set ts"
    unfolding up by (rule key_image_modify) simp
  moreover have "keyed tt_id (upsert tt_id t ts)" using b by (simp add: balanced_def stocked_def)
  moreover have "0 \<le> tt_sold t" using b t0' assms(3) by (auto simp: balanced_def stocked_def)
  moreover have "tt_sold t = held (tt_id t) xs + d (tt_id t)"
    using b t0' assms(3) unfolding balanced_def by metis
  ultimately show ?thesis
    using b assms(4,5) unfolding balanced_def stocked_def by (auto simp: up set_modify)
qed

lemma balanced_new_type:
  assumes "balanced (\<lambda>_. 0) ts xs" and "\<not> has_key tt_id (tt_id t) ts" and "tt_sold t = 0"
    and "0 < tt_total t" and "fits32 (tt_total t)"
  shows "balanced (\<lambda>_. 0) (ts @ [t]) xs"
proof -
  have "tt_id t \<notin> or_type ` set xs" using assms(1,2) by (auto simp: balanced_def has_key_iff)
  then have "held (tt_id t) xs = 0" by (rule held_none)
  with assms show ?thesis by (auto simp: balanced_def stocked_def)
qed

lemma balanced_drop_type:
  assumes "balanced d ts xs"
  shows "balanced d (modify (\<lambda>t. tt_id t = i \<and> tt_live t) (\<lambda>t. t\<lparr>tt_deleted_at := Some now\<rparr>) ts) xs"
proof -
  have "tt_id ` set (modify (\<lambda>t. tt_id t = i \<and> tt_live t) (\<lambda>t. t\<lparr>tt_deleted_at := Some now\<rparr>) ts)
      = tt_id ` set ts"
    by (rule key_image_modify) simp
  with assms show ?thesis by (auto simp: balanced_def stocked_def set_modify)
qed

section \<open>Reserving and releasing\<close>

text \<open>Adding to \<open>quantity_sold\<close> passes the checks of the schema only for a 32-bit number.\<close>

lemma add_sold_books:
  assumes b: "books xs0 d w" and t: "by_key tt_id i (live_types w) = Some t"
    and le: "fits32 n \<Longrightarrow> tt_sold t + n \<le> tt_total t"
  shows "wp (add_sold i n)
     (\<lambda>_ w'. books xs0 (d(i := d i + n)) w' \<and> orders w' = orders w \<and> has_key tt_id i (ticket_types w'))
     (\<lambda>_. books xs0 d) w"
proof -
  have t': "t \<in> set (ticket_types w)" "tt_id t = i" "tt_live t"
    using t by (auto dest!: by_key_Some simp: live_types_def)
  have "balanced (d(i := d i + n)) (modify (\<lambda>t. tt_id t = i \<and> tt_live t)
      (\<lambda>t. t\<lparr>tt_sold := tt_sold t + n, tt_updated_at := now\<rparr>) (ticket_types w)) (orders w)"
    if "fits32 n" "0 \<le> tt_sold t + n" for now
    using b t le that by (intro balanced_move [where t = t]) (simp_all add: books_def live_types_def)
  moreover have "has_key tt_id i (modify (\<lambda>t. tt_id t = i \<and> tt_live t)
      (\<lambda>t. t\<lparr>tt_sold := tt_sold t + n, tt_updated_at := now\<rparr>) (ticket_types w))" for now
    unfolding has_key_iff using t' by (subst key_image_modify) auto
  ultimately show ?thesis
    using b t' by (auto simp: add_sold_def wp_simps books_def list_ex_iff)
qed

lemma reserve_books:
  assumes "books xs0 d w"
  shows "wp (reserve_tx i n)
     (\<lambda>_ w'. books xs0 (d(i := d i + n)) w' \<and> orders w' = orders w \<and> has_key tt_id i (ticket_types w'))
     (\<lambda>_. books xs0 d) w"
proof -
  have "tt_sold t + n \<le> tt_total t"
    if t: "by_key tt_id i (live_types w) = Some t" and "0 < n" "fits32 n"
      and "\<not> wrap64 (tt_sold t + n) > tt_total t" for t
  proof -
    have "t \<in> set (ticket_types w)" using t by (auto dest!: by_key_Some simp: live_types_def)
    then have "0 \<le> tt_sold t" "tt_sold t \<le> tt_total t" "fits32 (tt_total t)"
      using assms by (auto simp: books_def balanced_def stocked_def)
    with that show ?thesis by (simp add: wrap64_small fits32_bounds)
  qed
  then show ?thesis
    using assms
    by (auto simp: reserve_tx_def lock_type_def wp_simps live_types_def not_less
        intro!: add_sold_books [where d = d, THEN wp_mono] split: option.splits)
qed

lemma release_books:
  assumes "books xs0 d w" and "fits32 n"
  shows "wp (release_tx i n)
     (\<lambda>_ w'. books xs0 (d(i := d i - n)) w' \<and> orders w' = orders w \<and> has_key tt_id i (ticket_types w'))
     (\<lambda>_. books xs0 d) w"
proof -
  have "wrap64 (- n) = - n" using assms(2) by (simp add: wrap64_small fits32_bounds)
  moreover have "tt_sold t - n \<le> tt_total t"
    if "by_key tt_id i (live_types w) = Some t" "0 < n" for t
  proof -
    have "t \<in> set (ticket_types w)" using that by (auto dest!: by_key_Some simp: live_types_def)
    then have "tt_sold t \<le> tt_total t" using assms by (auto simp: books_def balanced_def stocked_def)
    with that show ?thesis by simp
  qed
  ultimately show ?thesis
    using assms
    by (auto simp: release_tx_def lock_type_def wp_simps live_types_def not_less
        intro!: add_sold_books [where d = d and n = "- n", THEN wp_mono] split: option.splits)
qed

end
