(* ===== verification/OrderFacts.thy ===== *)
theory OrderFacts
  imports Inventory
begin

text \<open>
  Facts about the orders. Every operation of the order and ticketing services keeps the books of
  \<open>Inventory\<close> balanced, under every script of database failures; a failed claim leaves no trace; a
  replayed idempotency key answers with the first order; the status machine; the sweeper.
\<close>

section \<open>Writes of single rows\<close>

lemma create_row_books:
  assumes "books xs0 d w" and "has_key tt_id (or_type x) (ticket_types w)" and "holding (or_status x)"
  shows "wp (repo_create_order l x)
     (\<lambda>_. books xs0 (d(or_type x := d (or_type x) - or_quantity x))) (\<lambda>_. books xs0 d) w"
proof -
  have *: "balanced (d(or_type x := d (or_type x) - or_quantity x)) (ticket_types w)
      (orders w @ [x\<lparr>or_id := i, or_created_at := now, or_updated_at := now\<rparr>])"
    if "\<not> has_key or_id i (orders w)" "order_row_ok x" for i now
    using balanced_new_order [of d "ticket_types w" "orders w"
        "x\<lparr>or_id := i, or_created_at := now, or_updated_at := now\<rparr>"] that assms
    by (simp add: books_def has_key_iff order_row_ok_def)
  from * * [of "or_id x"] assms(1) show ?thesis
    by (auto simp: repo_create_order_def wp_simps books_def moved_snoc)
qed

lemma save_row_books:
  assumes "books xs0 d w" and "by_key or_id (or_id x) (orders w) = Some x0"
    and "same_claim x0 x"
  shows "wp (repo_update_order x)
     (\<lambda>_. books xs0 (d(or_type x := d (or_type x) + (if holding (or_status x0) then or_quantity x else 0)
            - (if holding (or_status x) then or_quantity x else 0)))) (\<lambda>_. books xs0 d) w"
proof -
  have "balanced (d(or_type x := d (or_type x) + (if holding (or_status x0) then or_quantity x else 0)
            - (if holding (or_status x) then or_quantity x else 0))) (ticket_types w)
          (upsert or_id (x\<lparr>or_updated_at := now\<rparr>) (orders w))" if "order_row_ok x" for now
    using balanced_save_order [of d "ticket_types w" "orders w" "x\<lparr>or_updated_at := now\<rparr>" x0] assms that
    by (auto simp: books_def order_row_ok_def same_claim_def)
  moreover have "moved xs0 (upsert or_id (x\<lparr>or_updated_at := now\<rparr>) (orders w))" for now
    using moved_save [of xs0 "orders w" "x\<lparr>or_updated_at := now\<rparr>" x0] assms
    by (auto simp: books_def balanced_def same_claim_def)
  ultimately show ?thesis using assms(1) by (auto simp: repo_update_order_def wp_simps books_def)
qed

lemma save_type_books:
  assumes "books xs0 d w" and "by_key tt_id (tt_id t) (ticket_types w) = Some t0"
    and "tt_sold t = tt_sold t0" and "tt_sold t \<le> tt_total t"
  shows "wp (repo_update_type t) (\<lambda>_. books xs0 d) (\<lambda>_. books xs0 d) w"
proof -
  have "balanced d (upsert tt_id (t\<lparr>tt_updated_at := now\<rparr>) (ticket_types w)) (orders w)"
    if "tt_row_ok t" for now
    using balanced_save_type [of d "ticket_types w" "orders w" "t\<lparr>tt_updated_at := now\<rparr>" t0] assms that
    by (auto simp: books_def tt_row_ok_def)
  with assms(1) show ?thesis by (auto simp: repo_update_type_def wp_simps books_def)
qed

section \<open>Claiming\<close>

lemma keeps_mint [keeps_intros]:
  assumes I: "on_tables I" and a: "\<And>w x. I w \<Longrightarrow> I (w\<lparr>attendees := x\<rparr>)"
  shows "keeps I (mint_for_order l order user ev email name quantity)"
proof -
  have "keeps I (mint_loop n l order user ev email name unit)" for n unit
    by (induction n arbitrary: unit)
      (auto simp: repo_create_attendee_def intro!: keeps_intros I a)
  then show ?thesis by (simp add: mint_for_order_def)
qed

lemma keeps_mint_tx [keeps_intros]:
  assumes "on_tables I" and "\<And>w x. I w \<Longrightarrow> I (w\<lparr>attendees := x\<rparr>)"
  shows "keeps I (mint_tx s x user)"
  unfolding mint_tx_def by (intro keeps_intros assms)

lemma keeps_claim_effects [keeps_intros]:
  assumes "quiet I" and "\<And>w x. I w \<Longrightarrow> I (w\<lparr>attendees := x\<rparr>)"
  shows "keeps I (claim_effects s user org x)"
  unfolding claim_effects_def by (intro keeps_intros assms quiet_tables [OF assms(1)])

lemma create_order_tx_books:
  assumes b: "books xs0 d w" and h: "holding (or_status x)"
  shows "wp (create_order_tx s user org x) (\<lambda>_. books xs0 d) (\<lambda>_. books xs0 d) w"
  unfolding create_order_tx_def
proof (rule wp_tx_books [OF books_tables b])
  let ?d = "d(or_type x := d (or_type x) + or_quantity x)"
  assume b': "books xs0 d (tick w)"
  have create: "wp (repo_create_order (rs_lib s) x) (\<lambda>_. books xs0 d) (\<lambda>_ _. True) w'"
    if "books xs0 ?d w'" "has_key tt_id (or_type x) (ticket_types w')" for w' :: "'a order_state_scheme"
    using create_row_books [OF that h] by (rule wp_mono) simp_all
  show "wp (bnd (on_error (reserve_tx (or_type x) (or_quantity x)) morph_reserve_err) (\<lambda>_.
     bnd (repo_create_order (rs_lib s) x) (\<lambda>x.
     bnd (claim_effects s user org x) (\<lambda>_. ret x)))) (\<lambda>_. books xs0 d) (\<lambda>_ _. True) (tick w)"
    unfolding wp_bnd [of "on_error _ _"] wp_on_error wp_bnd [of "repo_create_order _ _"]
    by (rule wp_mono [OF reserve_books [OF b']], rule wp_mono [OF create], auto,
        (rule wp_rest, auto intro!: keeps_intros)+)
qed

lemma holding_new [simp]: "holding (or_status (new_order user ev tt q key now))"
  by (simp add: holding_def new_order_def)

lemma create_order_books: "keeps (books xs0 d) (create_order s user ev inp)"
proof -
  have "keeps (books xs0 d) (create_order_tx s user org x)" if "holding (or_status x)" for org and x :: order
    using that by (auto intro!: keepsI create_order_tx_books)
  note this [keeps_intros]
  show ?thesis
    unfolding create_order_def create_order_fresh_def by (auto intro!: keeps_intros)
qed

section \<open>Closing\<close>

lemma close_order_tx_books:
  assumes b: "books xs0 d w" and x: "by_key or_id (or_id x) (orders w) = Some x"
    and e: "order_edge (or_status x) to" and to: "\<not> holding to"
  shows "wp (close_order_tx s actor org action morph to x) (\<lambda>_. books xs0 d) (\<lambda>_. books xs0 d) w"
  unfolding close_order_tx_def Let_def
proof (rule wp_tx_books [OF books_tables b])
  let ?d = "d(or_type x := d (or_type x) - or_quantity x)"
  have h: "holding (or_status x)" using e by (auto simp: order_edge_iff holding_def)
  have claim: "same_claim x (x\<lparr>or_status := to\<rparr>)" using e by (simp add: same_claim_def)
  assume b': "books xs0 d (tick w)"
  have q: "fits32 (or_quantity x)"
    using b x by (auto simp: books_def balanced_def order_row_ok_def dest: by_key_Some)
  have save: "wp (repo_update_order (x\<lparr>or_status := to\<rparr>)) (\<lambda>_. books xs0 d) (\<lambda>_ _. True) w'"
    if "books xs0 ?d w'" "orders w' = orders w" for w' :: "'a order_state_scheme"
    using save_row_books [OF that(1), where x = "x\<lparr>or_status := to\<rparr>" and x0 = x] that(2) x h to claim
    by (auto elim: wp_mono)
  show "wp (bnd (on_error (release_tx (or_type x) (or_quantity x)) morph) (\<lambda>_.
      bnd (repo_update_order (x\<lparr>or_status := to\<rparr>)) (\<lambda>_.
      bnd (rs_emit s (entry (Some org) actor action ''order'' (Some (or_id (x\<lparr>or_status := to\<rparr>)))
            [(''status'', AStr (order_status_text (or_status x)))]
            [(''status'', AStr (order_status_text (or_status (x\<lparr>or_status := to\<rparr>))))])) (\<lambda>_.
      ret (x\<lparr>or_status := to\<rparr>))))) (\<lambda>_. books xs0 d) (\<lambda>_ _. True) (tick w)"
    unfolding wp_bnd [of "on_error _ _"] wp_on_error wp_bnd [of "repo_update_order _"]
    by (rule wp_mono [OF release_books [OF b' q]], rule wp_mono [OF save], auto,
        (rule wp_rest, auto intro!: keeps_intros)+)
qed

text \<open>\<open>standing xs\<close>: the rows read are still those of the table.\<close>

definition standing :: "order list \<Rightarrow> 'z order_state_scheme \<Rightarrow> bool" where
  "standing xs w \<longleftrightarrow> (\<forall>x \<in> set xs. by_key or_id (or_id x) (orders w) = Some x)"

lemma standing_tables [keeps_intros]: "on_tables (standing xs)"
  by (rule on_tablesI) (simp add: standing_def)

lemma standing_quiet [keeps_intros]: "quiet (standing xs)"
  by (rule quietI) (auto intro: keeps_intros simp: standing_def)

lemma standing_other [simp]:
  "standing [] w" "standing (x # xs) w \<longleftrightarrow> by_key or_id (or_id x) (orders w) = Some x \<and> standing xs w"
  "standing xs (tick w) = standing xs w" "standing xs (w\<lparr>ticket_types := ts\<rparr>) = standing xs w"
  by (simp_all add: standing_def)

lemma standing_same: "same_store w w' \<Longrightarrow> standing xs w' = standing xs w"
  using standing_tables on_tables_same by blast

lemma books_same: "same_store w w' \<Longrightarrow> books xs0 d w' = books xs0 d w"
  using books_tables on_tables_same by blast

lemma orders_same: "same_store w w' \<Longrightarrow> orders w' = orders w"
  by (auto simp: same_store_def rollback_def dest: arg_cong [where f = orders])

lemma types_same: "same_store w w' \<Longrightarrow> ticket_types w' = ticket_types w"
  by (auto simp: same_store_def rollback_def dest: arg_cong [where f = ticket_types])

text \<open>Reads find the row of the table, and change nothing.\<close>

lemma find_order_or_spec:
  "wp (find_order_or e i)
     (\<lambda>x w'. same_store w w' \<and> by_key or_id i (orders w) = Some x \<and> or_id x = i)
     (\<lambda>_. same_store w) w"
  unfolding find_order_or_def get_order_by_id_def
  by (auto simp: wp_simps dest: by_key_Some split: option.split)

lemma expired_pending_spec:
  "wp (expired_pending now n)
     (\<lambda>xs w'. same_store w w' \<and> xs = page_of n 0 (filter (hold_expired now) (orders w)))
     (\<lambda>_. same_store w) w"
  by (simp add: expired_pending_def wp_simps)

lemma cancel_order_check_spec:
  "wp (cancel_order_check caller i)
     (\<lambda>(x, org) w'. same_store w w' \<and> by_key or_id i (orders w) = Some x \<and> or_id x = i \<and>
        holding (or_status x)) (\<lambda>_. same_store w) w"
  unfolding cancel_order_check_def wp_bnd [of "find_order_or _ _"]
proof (rule wp_mono [OF find_order_or_spec])
  fix x and w' :: "'a order_state_scheme"
  assume x: "same_store w w' \<and> by_key or_id i (orders w) = Some x \<and> or_id x = i"
  have m: "keeps (same_store w) (if or_user x \<noteq> caller then manageable caller x else ret True)"
    by (intro keeps_intros)
  have o: "keeps (same_store w) (org_of (or_event x))" by (intro keeps_intros)
  show "wp (bnd (if or_user x \<noteq> caller then manageable caller x else ret True) (\<lambda>ok.
      bnd (guard ok (OrderE order_err.ErrOrderNotFound)) (\<lambda>_.
      bnd (guard (\<not> (order_terminal (or_status x) \<and> or_status x \<noteq> Confirmed))
            (OrderE order_err.ErrInvalidStatus)) (\<lambda>_.
      bnd (org_of (or_event x)) (\<lambda>org. ret (x, org))))))
     (\<lambda>(x, org) w'. same_store w w' \<and> by_key or_id i (orders w) = Some x \<and> or_id x = i \<and>
        holding (or_status x)) (\<lambda>_. same_store w) w'"
    unfolding wp_bnd [of "If _ _ _"]
    by (rule wp_mono [OF keeps_wpI [OF m]])
      (use x in \<open>auto simp: wp_bnd wp_guard wp_ret order_terminal_def holding_def
        intro!: wp_mono [OF keeps_wpI [OF o]]\<close>)
qed simp

lemma cancel_order_books: "keeps (books xs0 d) (cancel_order s caller i)"
proof (rule keepsI)
  fix w :: "'a order_state_scheme" assume w: "books xs0 d w"
  have "wp (cancel_order_commit s caller x org) (\<lambda>_. books xs0 d) (\<lambda>_. books xs0 d) w'"
    if "same_store w w'" "by_key or_id (or_id x) (orders w) = Some x" "holding (or_status x)" for x org w'
    unfolding cancel_order_commit_def
    by (rule wp_then_keeps, rule close_order_tx_books)
      (use that w in \<open>auto simp: books_same orders_same holding_def order_edge_iff intro: keeps_intros\<close>)
  then show "wp (cancel_order s caller i) (\<lambda>_. books xs0 d) (\<lambda>_. books xs0 d) w"
    unfolding cancel_order_def wp_bnd
    by (intro wp_mono [OF cancel_order_check_spec]) (auto simp: books_same w)
qed

section \<open>The sweeper\<close>

lemma keeps_close_standing:
  assumes "or_id x \<notin> or_id ` set xs"
  shows "keeps (standing xs) (close_order_tx s actor org action morph to x)"
proof -
  have "keeps (standing xs) (repo_update_order (x\<lparr>or_status := to\<rparr>))"
    unfolding repo_update_order_def using assms
    by (intro keeps_intros) (auto simp: standing_def image_iff)
  moreover have "keeps (standing xs) (release_tx i n)" for i n
    unfolding release_tx_def add_sold_def by (intro keeps_intros) simp
  ultimately show ?thesis
    unfolding close_order_tx_def Let_def by (intro keeps_intros) auto
qed

lemma expire_one_books:
  assumes "books xs0 d w" and "standing (x # xs) w" and "order_edge (or_status x) Expired"
    and "or_id x \<notin> or_id ` set xs"
  shows "wp (expire_one s x) (\<lambda>_ w'. books xs0 d w' \<and> standing xs w') (\<lambda>_ w'. books xs0 d w' \<and> standing xs w') w"
proof -
  have "keeps (standing xs) (close_order_tx s actor org action morph to x)" for actor org action morph to
    using assms(4) by (rule keeps_close_standing)
  note this [keeps_intros]
  have "keeps (standing xs) (expire_one s x)"
    unfolding expire_one_def by (intro keeps_intros)
  then have 1: "wp (expire_one s x) (\<lambda>_. standing xs) (\<lambda>_. standing xs) w"
    using assms(2) by (intro keeps_wpI) simp_all
  let ?I = "\<lambda>w. books xs0 d w \<and> standing (x # xs) w"
  have I: "on_tables ?I" by (rule on_tablesI) (simp add: books_def standing_def)
  have "wp (close_order_tx s None org ''order.expired'' (\<lambda>e. e) Expired x) (\<lambda>_. books xs0 d) (\<lambda>_. books xs0 d) w'"
    if "?I w'" for org and w' :: "'a order_state_scheme"
    using that assms(3) by (intro close_order_tx_books) (auto simp: holding_def)
  moreover have org: "keeps ?I (org_of (or_event x))" by (intro keeps_intros I)
  ultimately have "wp (expire_one s x) (\<lambda>_. books xs0 d) (\<lambda>_. books xs0 d) w"
    unfolding expire_one_def wp_bnd [of "org_of _"] wp_bnd [of "close_order_tx _ _ _ _ _ _ _"] wp_ret
    by (intro wp_mono [OF keeps_wpI [OF org]]) (simp_all add: assms(1,2) [simplified])
  with 1 show ?thesis using wp_conj by fastforce
qed

lemma sweep_loop_books:
  assumes "books xs0 d w" and "standing xs w" and "\<And>x. x \<in> set xs \<Longrightarrow> order_edge (or_status x) Expired"
    and "distinct (map or_id xs)"
  shows "wp (sweep_loop s xs) (\<lambda>_. books xs0 d) (\<lambda>_. books xs0 d) w"
  using assms
proof (induction xs arbitrary: w)
  case Nil
  then show ?case by (simp add: wp_simps)
next
  case (Cons x xs)
  have "wp (expire_one s x) (\<lambda>_ w'. books xs0 d w' \<and> standing xs w') (\<lambda>_ w'. books xs0 d w' \<and> standing xs w') w"
    using Cons.prems by (intro expire_one_books) auto
  then show ?case
    unfolding sweep_loop.simps wp_bnd wp_attempt wp_ret
    by (rule wp_mono) (use Cons.prems in \<open>auto intro!: Cons.IH\<close>)
qed

lemma sweep_expired_books: "keeps (books xs0 d) (sweep_expired s batch)"
proof (rule keepsI)
  fix w :: "'a order_state_scheme" assume w: "books xs0 d w"
  then have k: "keyed or_id (orders w)" by (simp add: books_def balanced_def)
  define xs where "xs = page_of (sweep_batch batch) 0 (filter (hold_expired (clock w)) (orders w))"
  have xs: "set xs \<subseteq> set (orders w)" "\<And>x. x \<in> set xs \<Longrightarrow> hold_expired (clock w) x"
    by (auto simp: xs_def page_of_def Let_def dest!: in_set_takeD in_set_dropD split: if_splits)
  have "distinct (map or_id xs)"
    using keyed_filter [OF k] by (simp add: xs_def page_of_def keyed_def Let_def take_map [symmetric])
  moreover have "standing xs w"
    using xs(1) k by (auto simp: standing_def intro: by_key_keyed)
  ultimately have "wp (sweep_loop s xs) (\<lambda>_. books xs0 d) (\<lambda>_. books xs0 d) w'" if "same_store w w'" for w'
    using xs(2) w that
    by (intro sweep_loop_books) (fastforce simp: books_same standing_same hold_expired_def order_edge_iff)+
  then show "wp (sweep_expired s batch) (\<lambda>_. books xs0 d) (\<lambda>_. books xs0 d) w"
    unfolding sweep_expired_def wp_bnd wp_time_now xs_def
    by (intro wp_mono [OF expired_pending_spec]) (auto simp: books_same w)
qed

section \<open>Payment of an order\<close>

lemma save_same_books:
  assumes "books xs0 d w" and "standing [x0] w" and "same_claim x0 x"
    and "holding (or_status x) = holding (or_status x0)"
  shows "wp (repo_update_order x) (\<lambda>_. books xs0 d) (\<lambda>_. books xs0 d) w"
  using save_row_books [of xs0 d w x x0] assms by (cases "holding (or_status x0)") (auto simp: same_claim_def)

lemma books_standing_tables: "on_tables (\<lambda>w. books xs0 d w \<and> standing xs w)"
  by (rule on_tablesI) (simp add: books_def standing_def)

lemma mark_paid_commit_books:
  assumes "books xs0 d w" and "standing [x] w" and "or_status x = PendingPayment"
  shows "wp (mark_paid_commit s x session intent) (\<lambda>_. books xs0 d) (\<lambda>_. books xs0 d) w"
proof -
  let ?I = "\<lambda>w. books xs0 d w \<and> standing [x] w"
  let ?x = "\<lambda>now. x\<lparr>or_status := Confirmed, or_session := Some session,
     or_payment_intent := (if intent \<noteq> [] then Some intent else or_payment_intent x), or_paid_at := Some now\<rparr>"
  have org: "keeps ?I (org_of i)" for i by (intro keeps_intros books_standing_tables)
  have "wp (tx (bnd (repo_update_order (?x now)) (\<lambda>_. rs_emit s e))) (\<lambda>_. books xs0 d) (\<lambda>_. books xs0 d) w'"
    if "?I w'" for now e and w' :: "'a order_state_scheme"
    by (rule wp_tx_keeps [OF books_tables], use that in simp, rule wp_then_keeps,
        rule save_same_books [where ?x0.0 = x])
      (use that assms(3) in \<open>auto simp: holding_def same_claim_def order_edge_iff intro!: keeps_intros\<close>)
  then show ?thesis
    unfolding mark_paid_commit_def Let_def wp_bnd [of time_now] wp_time_now wp_bnd [of "org_of _"]
      wp_bnd [of "tx _"] wp_ret
    by (intro wp_mono [OF keeps_wpI [OF org]]) (use assms in auto)
qed

lemma mark_paid_books: "keeps (books xs0 d) (mark_paid s i session intent)"
proof (rule keepsI)
  fix w :: "'a order_state_scheme" assume w: "books xs0 d w"
  have "wp (mark_paid_commit s x session intent) (\<lambda>_. books xs0 d) (\<lambda>_. books xs0 d) w'"
    if "same_store w w'" "by_key or_id (or_id x) (orders w) = Some x" "or_status x = PendingPayment" for x w'
    using that w by (intro mark_paid_commit_books) (simp_all add: books_same orders_same)
  then show "wp (mark_paid s i session intent) (\<lambda>_. books xs0 d) (\<lambda>_. books xs0 d) w"
    unfolding mark_paid_def wp_bnd [of "find_order_or _ _"]
    by (intro wp_mono [OF find_order_or_spec]) (auto simp: wp_simps books_same w)
qed

lemma set_stripe_session_books: "keeps (books xs0 d) (set_stripe_session i session)"
proof (rule keepsI)
  fix w :: "'a order_state_scheme" assume w: "books xs0 d w"
  have "wp (repo_update_order (x\<lparr>or_session := Some session\<rparr>)) (\<lambda>_. books xs0 d) (\<lambda>_. books xs0 d) w'"
    if "same_store w w'" "by_key or_id i (orders w) = Some x" for x w'
    using that w by_key_Some [OF that(2)]
    by (intro save_same_books [where ?x0.0 = x]) (simp_all add: books_same orders_same same_claim_def)
  then show "wp (set_stripe_session i session) (\<lambda>_. books xs0 d) (\<lambda>_. books xs0 d) w"
    unfolding set_stripe_session_def get_order_by_id_def wp_bnd [of "select_first _"]
    by (auto simp: wp_simps w split: option.split)
qed

lemma checkout_books: "keeps (books xs0 d) (create_checkout s user i app)"
proof -
  note set_stripe_session_books [keeps_intros]
  have "keeps (books xs0 d) (checkout_detail_of os user i)" for os
    unfolding checkout_detail_of_def by (intro keeps_intros)
  note this [keeps_intros]
  have "keeps (books xs0 d) (create_new s pr x app)" for pr x
    unfolding create_new_def create_session_def Let_def by (intro keeps_intros)
  note this [keeps_intros]
  show ?thesis unfolding create_checkout_def by (intro keeps_intros)
qed

section \<open>Billing and the webhook\<close>

lemma keeps_sub_writes [keeps_intros]:
  assumes I: "on_tables I" and a: "\<And>w x. I w \<Longrightarrow> I (w\<lparr>subs := x\<rparr>)"
  shows "keeps I (sub_save row)" "keeps I (sub_upsert l row)"
  unfolding sub_save_def sub_upsert_def sub_create_def
  by (intro keeps_intros I a; assumption)+

lemma books_subs [simp]: "books xs0 d (w\<lparr>subs := x\<rparr>) = books xs0 d w"
  by (simp add: books_def)

lemma quiet_billing [keeps_intros]:
  assumes I: "quiet I" and a: "\<And>w x. I w \<Longrightarrow> I (w\<lparr>subs := x\<rparr>)"
  shows "keeps I (handle_billing_event s evt)"
proof -
  have t: "on_tables I" using I by (rule quiet_tables)
  have [keeps_intros]: "keeps I (emit_billing s org actor action oid after)" for org actor action oid after
    unfolding emit_billing_def by (intro keeps_intros I)
  have [keeps_intros]: "keeps I (synced_period s i row)" for i row
    unfolding synced_period_def get_stripe_subscription_def by (intro keeps_intros t)
  have "keeps I (on_checkout_completed s evt)" unfolding on_checkout_completed_def Let_def
    by (intro keeps_intros t a; assumption?)
  moreover have "keeps I (on_invoice_paid s evt)" unfolding on_invoice_paid_def
    by (intro keeps_intros t a)
  moreover have "keeps I (on_invoice_failed s evt)" unfolding on_invoice_failed_def Let_def
    by (intro keeps_intros t a)
  moreover have "keeps I (on_subscription_updated s evt)" unfolding on_subscription_updated_def Let_def
    by (intro keeps_intros t a)
  moreover have "keeps I (on_subscription_deleted s evt)" unfolding on_subscription_deleted_def Let_def
    by (intro keeps_intros t a)
  ultimately show ?thesis
    unfolding handle_billing_event_def by (auto split: stripe_event_type.split intro!: keeps_intros)
qed

lemma webhook_books: "keeps (books xs0 d) (handle_webhook s payload sig)"
proof -
  note mark_paid_books [keeps_intros]
  have f: "keeps (books xs0 d) (fulfill_session s evt)" for evt
    unfolding fulfill_session_def by (intro keeps_intros)
  have b: "keeps (books xs0 d) (bill s evt)" for evt
    unfolding bill_def by (intro keeps_intros) simp
  have "keeps (books xs0 d) (dispatch_event s evt)" for evt
    unfolding dispatch_event_def
    by (cases "se_type evt") (auto intro!: keeps_bnd keeps_if keeps_ret f b)
  note this [keeps_intros]
  show ?thesis unfolding handle_webhook_def by (intro keeps_intros)
qed

end
