(* ===== verification/Frames.thy ===== *)
theory Frames
  imports OrderFacts
begin

text \<open>
  Which tables the operations of each domain can touch. Each lemma says: a state predicate that is
  closed under updates of the tables a service owns, and that does not look at the trail, the queue and the cache,
  is kept by every operation of the service. Invariants of one domain pass through all the others
  by these lemmas.
\<close>

section \<open>Organizations\<close>

lemma keeps_org_checks [keeps_intros]:
  assumes "on_tables I"
  shows "keeps I (org_membership l user ref0)" "keeps I (require_role l user ref0 least)"
    "keeps I (guard_last_owner org)" "keeps I (count_members org)"
    "keeps I (update_member_role_check s grantor ref0 target role)"
    "keeps I (remove_member_check s grantor ref0 target)" "keeps I (list_user_custom_roles org user)"
    "keeps I (unique_org_slug l base)"
proof -
  have "keeps I (probe_slugs l base is)" for "is"
    by (induction "is") (auto intro!: keeps_intros assms)
  note this [keeps_intros]
  show "keeps I (org_membership l user ref0)" "keeps I (require_role l user ref0 least)"
    "keeps I (guard_last_owner org)" "keeps I (count_members org)"
    "keeps I (update_member_role_check s grantor ref0 target role)"
    "keeps I (remove_member_check s grantor ref0 target)" "keeps I (list_user_custom_roles org user)"
    "keeps I (unique_org_slug l base)"
    unfolding org_membership_def require_role_def guard_last_owner_def count_owners_def count_members_def
      update_member_role_check_def remove_member_check_def list_user_custom_roles_def unique_org_slug_def
    by (intro keeps_intros assms)+
qed

text \<open>The seeding and unseeding of policies are arguments: for an invariant that reads the policy rows they are more than a frame.\<close>

lemma keeps_org_core:
  assumes q: "quiet I" and g: "\<And>w x. I w \<Longrightarrow> I (w\<lparr>g_rows := x\<rparr>)"
    and og: "\<And>w x. I w \<Longrightarrow> I (w\<lparr>orgs := x\<rparr>)" and mb: "\<And>w x. I w \<Longrightarrow> I (w\<lparr>memberships := x\<rparr>)"
    and cr: "\<And>w x. I w \<Longrightarrow> I (w\<lparr>custom_roles := x\<rparr>)"
    and seeds: "\<And>org. keeps I (os_seed s org)" "\<And>org. keeps I (os_seed_remove s org)"
  shows "keeps I (create_org s creator name slug logo)" "keeps I (update_org s user ref0 name slug logo)"
    "(\<And>c org. cleaner = Some c \<Longrightarrow> keeps I (c org)) \<Longrightarrow> keeps I (delete_org s cleaner user ref0)"
    "keeps I (add_member s user ref0 email role)" "keeps I (update_member_role s user ref0 target role)"
    "keeps I (remove_member s user ref0 target)" "keeps I (update_my_preferences s user ref0 notify)"
proof -
  note [keeps_intros] = quiet_tables [OF q]
  have a: "\<And>w x. I w \<Longrightarrow> I (w\<lparr>audit_events := audit_events w @ [x]\<rparr>)" using q by (simp add: quiet_def)
  have sync: "keeps I (os_emit s e)" "keeps I (os_sync s u org r)" "keeps I (os_sync_custom_grouping s u org rn b)" for e org u r rn b
    by (intro keeps_os_groupings quiet_tables [OF q] g a; assumption)+
  note w = og mb cr seeds sync
  have "keeps I (create_org_loop n s creator auto base x)" for n auto base x
    by (induction n arbitrary: x)
      (auto simp: create_org_tx_def repo_create_org_def repo_create_membership_def intro!: w keeps_intros)
  then show "keeps I (create_org s creator name slug logo)"
    unfolding create_org_def by (intro w keeps_intros)
  show "keeps I (update_org s user ref0 name slug logo)"
    unfolding update_org_def repo_update_org_def Let_def by (intro w keeps_intros)
  show "keeps I (delete_org s cleaner user ref0)"
    if "\<And>c org. cleaner = Some c \<Longrightarrow> keeps I (c org)"
    unfolding delete_org_def repo_delete_org_def os_clean_assets_def
    by (intro w keeps_intros that; assumption)
  show "keeps I (add_member s user ref0 email role)"
    unfolding add_member_def repo_create_membership_def by (intro w keeps_intros)
  show "keeps I (update_member_role s user ref0 target role)"
    unfolding update_member_role_def update_member_role_commit_def repo_update_member_role_def
    by (intro w keeps_intros)
  show "keeps I (remove_member s user ref0 target)"
    unfolding remove_member_def remove_member_commit_def repo_delete_membership_def
      repo_unassign_custom_role_def by (intro w keeps_intros)
  show "keeps I (update_my_preferences s user ref0 notify)"
    unfolding update_my_preferences_def repo_set_notify_def by (intro w keeps_intros)
qed

lemma keeps_org_calls:
  assumes q: "quiet I" and p: "\<And>w x. I w \<Longrightarrow> I (w\<lparr>p_rows := x\<rparr>)" and g: "\<And>w x. I w \<Longrightarrow> I (w\<lparr>g_rows := x\<rparr>)"
    and og: "\<And>w x. I w \<Longrightarrow> I (w\<lparr>orgs := x\<rparr>)" and mb: "\<And>w x. I w \<Longrightarrow> I (w\<lparr>memberships := x\<rparr>)"
    and cr: "\<And>w x. I w \<Longrightarrow> I (w\<lparr>custom_roles := x\<rparr>)"
  shows "keeps I (create_org s creator name slug logo)" "keeps I (update_org s user ref0 name slug logo)"
    "(\<And>c org. cleaner = Some c \<Longrightarrow> keeps I (c org)) \<Longrightarrow> keeps I (delete_org s cleaner user ref0)"
    "keeps I (add_member s user ref0 email role)" "keeps I (update_member_role s user ref0 target role)"
    "keeps I (remove_member s user ref0 target)" "keeps I (update_my_preferences s user ref0 notify)"
proof -
  have a: "\<And>w x. I w \<Longrightarrow> I (w\<lparr>audit_events := audit_events w @ [x]\<rparr>)" using q by (simp add: quiet_def)
  have seeds: "keeps I (os_seed s org)" "keeps I (os_seed_remove s org)" for org
    by (intro keeps_os_helpers quiet_tables [OF q] p g a; assumption)+
  note core = keeps_org_core [OF q g og mb cr seeds]
  show "keeps I (create_org s creator name slug logo)" "keeps I (update_org s user ref0 name slug logo)"
    "(\<And>c org. cleaner = Some c \<Longrightarrow> keeps I (c org)) \<Longrightarrow> keeps I (delete_org s cleaner user ref0)"
    "keeps I (add_member s user ref0 email role)" "keeps I (update_member_role s user ref0 target role)"
    "keeps I (remove_member s user ref0 target)" "keeps I (update_my_preferences s user ref0 notify)"
    by (rule core; assumption)+
qed

section \<open>Events\<close>

lemma keeps_event_calls:
  assumes q: "quiet I" and e: "\<And>w x. I w \<Longrightarrow> I (w\<lparr>events := x\<rparr>)" and im: "\<And>w x. I w \<Longrightarrow> I (w\<lparr>images := x\<rparr>)"
    and as: "\<And>w x. I w \<Longrightarrow> I (w\<lparr>assets := x\<rparr>)"
  shows "keeps I (create_event s user orgref inp)" "keeps I (update_event s user orgref ref0 upd)"
    "keeps I (publish_event s user orgref ref0)" "keeps I (unpublish_event s user orgref ref0)"
    "keeps I (cancel_event s user orgref ref0)" "keeps I (delete_event s user orgref ref0)"
    "keeps I (add_gallery_images s orgref ref0 ups)" "keeps I (set_cover s orgref ref0 bytes n ty)"
    "keeps I (delete_org_assets s org)"
proof -
  note [keeps_intros] = quiet_tables [OF q] q
  have [keeps_intros]: "keeps I (es_emit s x)" for x unfolding es_emit_def by (intro keeps_intros)
  have [keeps_intros]: "keeps I (repo_update_event x)" for x
    unfolding repo_update_event_def by (intro keeps_intros e)
  have [keeps_intros]: "keeps I (repo_create_event l x)" for l x
    unfolding repo_create_event_def by (intro keeps_intros e)
  have [keeps_intros]: "keeps I (delete_cover s url)" for url
    unfolding delete_cover_def storage_delete_def by (intro keeps_intros as)
  have [keeps_intros]: "keeps I (check_cover n ty)" for n ty
    unfolding check_cover_def by (intro keeps_intros)
  have [keeps_intros]: "keeps I (storage_save_image s org i bytes ext)" for org i bytes ext
    unfolding storage_save_image_def by (intro keeps_intros as)
  have [keeps_intros]: "keeps I (cleanup_staged s staged)" for staged
    unfolding cleanup_staged_def by (intro keeps_intros)
  have [keeps_intros]: "keeps I (save_with_audit s user org x prior)" for org x prior
    unfolding save_with_audit_def by (intro keeps_intros)
  have [keeps_intros]: "keeps I (check_dates a b)" for a b
    unfolding check_dates_def by (intro keeps_intros)
  have "keeps I (probe_event_slugs l org base is)" for l org base "is"
    by (induction "is") (auto intro!: keeps_intros)
  then have [keeps_intros]: "keeps I (unique_event_slug l org base)" for l org base
    unfolding unique_event_slug_def by (intro keeps_intros)
  have "keeps I (create_event_loop n s user auto base x)" for n auto base x
    by (induction n arbitrary: x) (auto simp: create_event_tx_def intro!: keeps_intros)
  note this [keeps_intros]
  show "keeps I (create_event s user orgref inp)"
    unfolding create_event_def by (intro keeps_intros)
  show "keeps I (update_event s user orgref ref0 upd)"
    unfolding update_event_def Let_def by (intro keeps_intros)
  show "keeps I (publish_event s user orgref ref0)"
    unfolding publish_event_def by (intro keeps_intros)
  show "keeps I (unpublish_event s user orgref ref0)" "keeps I (cancel_event s user orgref ref0)"
    unfolding unpublish_event_def cancel_event_def transition_event_def by (intro keeps_intros)+
  show "keeps I (delete_event s user orgref ref0)"
    unfolding delete_event_def repo_delete_event_def by (intro keeps_intros e)
  have "keeps I (stage_uploads s org i staged ups)" for org i staged
    by (induction ups arbitrary: staged) (auto intro!: keeps_intros)
  note this [keeps_intros]
  show "keeps I (add_gallery_images s orgref ref0 ups)"
    unfolding add_gallery_images_def repo_create_image_def by (intro keeps_intros im)
  show "keeps I (set_cover s orgref ref0 bytes n ty)"
    unfolding set_cover_def by (intro keeps_intros)
  show "keeps I (delete_org_assets s org)"
    unfolding delete_org_assets_def list_org_assets_def by (intro keeps_intros)
qed

section \<open>The door, the handouts\<close>

lemma keeps_attendee_calls:
  assumes I: "on_tables I" and at: "\<And>w x. I w \<Longrightarrow> I (w\<lparr>attendees := x\<rparr>)"
  shows "keeps I (add_manual l org ref0 email name)" "keeps I (correct_name i name' email')"
    "keeps I (correct_attendee_in_event ev i name' email')" "keeps I (cancel_mine user i)"
    "keeps I (cancel_for_order x)" "keeps I (apply_checkin l i raw ev)" "keeps I (apply_checkin_manual i ev)"
    "keeps I (revert_attendee i ev)"
proof -
  note [keeps_intros] = I
  have [keeps_intros]: "keeps I (repo_update_attendee a)" for a
    unfolding repo_update_attendee_def by (intro keeps_intros at)
  have [keeps_intros]: "keeps I (flip a v)" for a v
    unfolding flip_def by (intro keeps_intros)
  show "keeps I (add_manual l org ref0 email name)"
    unfolding add_manual_def repo_create_attendee_def by (intro keeps_intros at)
  show *: "keeps I (correct_name i name' email')" for i
    unfolding correct_name_def by (intro keeps_intros)
  show "keeps I (correct_attendee_in_event ev i name' email')"
    unfolding correct_attendee_in_event_def by (intro keeps_intros *)
  show "keeps I (cancel_mine user i)" "keeps I (cancel_for_order x)"
    "keeps I (apply_checkin l i raw ev)" "keeps I (apply_checkin_manual i ev)" "keeps I (revert_attendee i ev)"
    unfolding cancel_mine_def cancel_for_order_def apply_checkin_def apply_checkin_manual_def revert_attendee_def
    by (intro keeps_intros at; assumption)+
qed

lemma keeps_kit_calls:
  assumes q: "quiet I" and k: "\<And>w x. I w \<Longrightarrow> I (w\<lparr>kits := x\<rparr>)" and c: "\<And>w x. I w \<Longrightarrow> I (w\<lparr>collections := x\<rparr>)"
  shows "keeps I (create_kit s org ref0 name desc qty staff)"
    "keeps I (update_kit s org ref0 ref1 name' desc' qty' staff)" "keeps I (delete_kit s org ref0 ref1 staff)"
    "keeps I (collect s org ref0 ref1 ref2 hold key staff)" "keeps I (mark_collected s org ref0 ref1 staff)"
    "keeps I (void_collection s org ref0 ref1 staff)"
proof -
  note [keeps_intros] = quiet_tables [OF q] q
  have [keeps_intros]: "keeps I (ks_audit s org staff a b i d)" for org staff a b i d
    unfolding ks_audit_def by (intro keeps_intros)
  have [keeps_intros]: "keeps I (repo_update_collection x)" "keeps I (repo_create_collection l x)" for l x
    unfolding repo_update_collection_def repo_create_collection_def
    by (intro keeps_intros c; assumption)+
  have both: "I w \<Longrightarrow> I (w\<lparr>kits := x, collections := y\<rparr>)" for w x y by (intro k c)
  show "keeps I (create_kit s org ref0 name desc qty staff)"
    unfolding create_kit_def repo_create_kit_def by (intro keeps_intros k)
  show "keeps I (update_kit s org ref0 ref1 name' desc' qty' staff)"
    unfolding update_kit_def repo_update_kit_def by (intro keeps_intros k)
  show "keeps I (delete_kit s org ref0 ref1 staff)"
    unfolding delete_kit_def repo_delete_kit_def by (intro keeps_intros both)
  show "keeps I (collect s org ref0 ref1 ref2 hold key staff)"
    unfolding collect_def collect_commit_def by (intro keeps_intros)
  show "keeps I (mark_collected s org ref0 ref1 staff)" "keeps I (void_collection s org ref0 ref1 staff)"
    unfolding mark_collected_def void_collection_def transition_collection_def by (intro keeps_intros)+
qed

lemma keeps_log_and_audit [keeps_intros]:
  assumes q: "quiet I" and lg: "\<And>w x. I w \<Longrightarrow> I (w\<lparr>checkin_logs := x\<rparr>)"
  shows "keeps I (insert_log l g)" "keeps I (cs_audit s org staff g)"
    "keeps I (log_and_audit s org staff ev att out meth)"
proof -
  note [keeps_intros] = quiet_tables [OF q] q
  show 1: "keeps I (insert_log l g)" for l g unfolding insert_log_def by (intro keeps_intros lg)
  show 2: "keeps I (cs_audit s org staff g)" for g unfolding cs_audit_def by (intro keeps_intros)
  show "keeps I (log_and_audit s org staff ev att out meth)"
    unfolding log_and_audit_def by (intro keeps_intros 1 2)
qed

lemma keeps_checkin_calls:
  assumes q: "quiet I" and at: "\<And>w x. I w \<Longrightarrow> I (w\<lparr>attendees := x\<rparr>)"
    and lg: "\<And>w x. I w \<Longrightarrow> I (w\<lparr>checkin_logs := x\<rparr>)"
  shows "keeps I (scan s org ref0 code ref1 staff)" "keeps I (scan_batch s org ref0 codes staff)"
    "keeps I (revert s org ref0 ref1 staff)"
proof -
  note [keeps_intros] = quiet_tables [OF q] q keeps_attendee_calls [OF quiet_tables [OF q] at]
    keeps_log_and_audit [OF q lg]
  have [keeps_intros]: "keeps I (scan_qr s org ref0 code staff)" for code
    unfolding scan_qr_def scan_tx_def by (intro keeps_intros)
  show "keeps I (scan s org ref0 code ref1 staff)"
    unfolding scan_def scan_manual_def by (intro keeps_intros)
  show "keeps I (scan_batch s org ref0 codes staff)"
    unfolding scan_batch_def by (intro keeps_intros)
  show "keeps I (revert s org ref0 ref1 staff)"
    unfolding revert_def revert_tx_def by (intro keeps_intros)
qed

section \<open>Billing\<close>

lemma keeps_billing_calls:
  assumes q: "quiet I" and sb: "\<And>w x. I w \<Longrightarrow> I (w\<lparr>subs := x\<rparr>)"
  shows "keeps I (start_checkout s user org plan)" "keeps I (create_portal_session s user org url)"
proof -
  note [keeps_intros] = quiet_tables [OF q] q
  have [keeps_intros]: "keeps I (get_or_create_customer l b org)" for l b
    unfolding get_or_create_customer_def by (intro keeps_intros sb)
  show "keeps I (start_checkout s user org plan)"
    unfolding start_checkout_def Let_def by (intro keeps_intros)
  show "keeps I (create_portal_session s user org url)"
    unfolding create_portal_session_def by (intro keeps_intros)
qed

end
