(* ===== verification/Backstage.thy ===== *)
theory Backstage
  imports Frames
begin

text \<open>
  The requests that act on accounts, invitations, custom roles, API keys and policies rather than on events and orders, as one
  step relation, and the frame lemma by which an invariant of the other domains passes through all of them. Only
  accepting an invitation writes a table (the memberships) that other domains have invariants about.
\<close>

inductive backstage :: "auth_service \<Rightarrow> org_service \<Rightarrow> admin_service \<Rightarrow> bool \<Rightarrow> 'z order_state_scheme
    \<Rightarrow> 'z order_state_scheme \<Rightarrow> bool" for a s d sv where
  Register: "register a rinp w = (r1, w') \<Longrightarrow> backstage a s d sv w w'"
| Verify_email: "verify_email a raw w = (r1, w') \<Longrightarrow> backstage a s d sv w w'"
| Verify_by_code: "verify_by_code a email code w = (r1, w') \<Longrightarrow> backstage a s d sv w w'"
| Resend_verification: "resend_verification a email w = (r1, w') \<Longrightarrow> backstage a s d sv w w'"
| Login: "login a email pw ctx w = (r2, w') \<Longrightarrow> backstage a s d sv w w'"
| Refresh: "refresh a raw w = (r2, w') \<Longrightarrow> backstage a s d sv w w'"
| Logout: "logout a i w = (r1, w') \<Longrightarrow> backstage a s d sv w w'"
| Forgot_password: "forgot_password a email w = (r1, w') \<Longrightarrow> backstage a s d sv w w'"
| Reset_password: "reset_password a raw pw w = (r1, w') \<Longrightarrow> backstage a s d sv w w'"
| Authenticate: "require_auth a hdr bearer w = (r3, w') \<Longrightarrow> backstage a s d sv w w'"
| Invite_member: "invite_member s user ref0 email role w = (r1, w') \<Longrightarrow> backstage a s d sv w w'"
| Revoke_invite: "revoke_invite s user ref0 i w = (r1, w') \<Longrightarrow> backstage a s d sv w w'"
| Accept_invite: "accept_invite s user raw w = (r4, w') \<Longrightarrow> backstage a s d sv w w'"
| Decline_invite: "decline_invite s user raw w = (r1, w') \<Longrightarrow> backstage a s d sv w w'"
| Define_role: "define_role s user ref0 nm perms w = (r5, w') \<Longrightarrow> backstage a s d sv w w'"
| Redefine_role: "update_role s user ref0 nm perms w = (r5, w') \<Longrightarrow> backstage a s d sv w w'"
| Delete_role: "delete_role s user ref0 nm w = (r1, w') \<Longrightarrow> backstage a s d sv w w'"
| Assign_role: "assign_role s sv user ref0 target nm w = (r1, w') \<Longrightarrow> backstage a s d sv w w'"
| Unassign_role: "unassign_role s user ref0 target nm w = (r1, w') \<Longrightarrow> backstage a s d sv w w'"
| Create_api_key: "create_api_key s user ref0 nm scopes expires w = (r6, w') \<Longrightarrow> backstage a s d sv w w'"
| Revoke_api_key: "revoke_api_key s user ref0 i w = (r1, w') \<Longrightarrow> backstage a s d sv w w'"
| Admin_list_orgs: "admin_list_orgs d user q m n w = (r7, w') \<Longrightarrow> backstage a s d sv w w'"
| Admin_get_org: "admin_get_org d user i w = (r8, w') \<Longrightarrow> backstage a s d sv w w'"
| Admin_search_users: "admin_search_users d user q m n w = (r9, w') \<Longrightarrow> backstage a s d sv w w'"
| Admin_get_user: "admin_get_user d user i w = (r10, w') \<Longrightarrow> backstage a s d sv w w'"
| Admin_user_orders: "admin_list_user_orders d user i m n w = (r11, w') \<Longrightarrow> backstage a s d sv w w'"
| Reseed: "reseed_org_policies d user i w = (r12, w') \<Longrightarrow> backstage a s d sv w w'"
| Sync_user: "admin_sync_user d user i w = (r12, w') \<Longrightarrow> backstage a s d sv w w'"

section \<open>Frames\<close>

lemma keeps_role_reads [keeps_intros]:
  assumes "on_tables I"
  shows "keeps I (get_invite_by_id i)" "keeps I (get_invite_by_hash h)" "keeps I (pending_invite org email)"
    "keeps I (refuse_member org email)" "keeps I (get_role_def org name)" "keeps I (role_absent org name)"
    "keeps I (role_present org name)" "keeps I (count_role_defs org)" "keeps I (count_role_assignments org name)"
    "keeps I (list_role_defs org)" "keeps I (list_user_memberships user)" "keeps I (known_user user)"
    "keeps I (repo_list_orgs q m n)" "keeps I (repo_search_users q m n)" "keeps I (list_user_orders user m n)"
    "keeps I (roster_loop ms)" "keeps I (tenancy_loop ms)"
proof -
  show "keeps I (roster_loop ms)" by (induction ms) (auto intro!: keeps_intros assms)
  show "keeps I (tenancy_loop ms)" by (induction ms) (auto intro!: keeps_intros assms)
  show "keeps I (get_invite_by_id i)" "keeps I (get_invite_by_hash h)" "keeps I (pending_invite org email)"
    "keeps I (refuse_member org email)" "keeps I (get_role_def org name)" "keeps I (role_absent org name)"
    "keeps I (role_present org name)" "keeps I (count_role_defs org)" "keeps I (count_role_assignments org name)"
    "keeps I (list_role_defs org)" "keeps I (list_user_memberships user)" "keeps I (known_user user)"
    "keeps I (repo_list_orgs q m n)" "keeps I (repo_search_users q m n)" "keeps I (list_user_orders user m n)"
    unfolding get_invite_by_id_def get_invite_by_hash_def pending_invite_def refuse_member_def get_role_def_def
      role_absent_def role_present_def count_role_defs_def count_role_assignments_def list_role_defs_def
      list_user_memberships_def known_user_def repo_list_orgs_def repo_search_users_def list_user_orders_def
    by (intro keeps_intros assms)+
qed

lemma keeps_convergence:
  assumes "on_tables I" and "\<And>w x. I w \<Longrightarrow> I (w\<lparr>g_rows := x\<rparr>)"
  shows "keeps I (converge_memberships l user ms)" "keeps I (sweep_groupings l user kept ks)"
proof -
  note sync = keeps_grouping_calls [OF assms]
  show "keeps I (converge_memberships l user ms)" by (induction ms) (auto intro!: sync keeps_intros assms(1))
  show "keeps I (sweep_groupings l user kept ks)"
    by (induction ks) (auto intro!: sync keeps_intros simp: Let_def split: option.split prod.split)
qed

lemma keeps_policy_calls:
  assumes I: "on_tables I" and p: "\<And>w x. I w \<Longrightarrow> I (w\<lparr>p_rows := x\<rparr>)" and g: "\<And>w x. I w \<Longrightarrow> I (w\<lparr>g_rows := x\<rparr>)"
  shows "keeps I (ensure_custom_role l org rn perms)" "keeps I (remove_custom_role l org rn)"
    "keeps I (os_sync_custom_policies s org rn perms b)" "keeps I (materialize_defs l org ds)"
    "keeps I (sweep_orphans l org defined rs n)"
proof -
  note [keeps_intros] = keeps_iam_calls [OF I p g] keeps_ensure_rows [OF I p g] keeps_sync [OF I p g] I
  show 1: "keeps I (ensure_custom_role l org rn perms)" for org rn perms
    unfolding ensure_custom_role_def by (intro keeps_intros)
  have "keeps I (remove_rows rs)" for rs by (induction rs) (auto intro!: keeps_intros)
  then show 2: "keeps I (remove_custom_role l org rn)" for l org rn
    unfolding remove_custom_role_def by (intro keeps_intros)
  have "keeps I (ensure_custom_role l org rn perms)" for l org rn perms
    unfolding ensure_custom_role_def by (intro keeps_intros)
  with 2 show "keeps I (os_sync_custom_policies s org rn perms b)"
    unfolding os_sync_custom_policies_def sync_custom_policies_def by (intro keeps_intros)
  show "keeps I (materialize_defs l org ds)" by (induction ds) (auto intro!: keeps_intros 1)
  show "keeps I (sweep_orphans l org defined rs n)" by (induction rs arbitrary: n) (auto intro!: keeps_intros 2)
qed

lemma keeps_new_member:
  "on_tables I \<Longrightarrow> (\<And>w x. I w \<Longrightarrow> I (w\<lparr>memberships := x\<rparr>)) \<Longrightarrow> keeps I (repo_create_membership l m)"
  unfolding repo_create_membership_def Let_def by (intro keeps_intros)

text \<open>What an invariant owes this side of the system: the flows of the authentication domain, new memberships, and the
  tables of invitations, roles, keys and policies.\<close>

definition apart :: "('z order_state_scheme \<Rightarrow> bool) \<Rightarrow> bool" where
  "apart I \<longleftrightarrow> (\<forall>w x. I w \<longrightarrow> I (w\<lparr>api_keys := x\<rparr>)) \<and> (\<forall>w x. I w \<longrightarrow> I (w\<lparr>invites := x\<rparr>)) \<and>
     (\<forall>w x. I w \<longrightarrow> I (w\<lparr>role_defs := x\<rparr>)) \<and> (\<forall>w x. I w \<longrightarrow> I (w\<lparr>custom_roles := x\<rparr>)) \<and>
     (\<forall>w x. I w \<longrightarrow> I (w\<lparr>p_rows := x\<rparr>)) \<and> (\<forall>w x. I w \<longrightarrow> I (w\<lparr>g_rows := x\<rparr>))"

definition secretless :: "('z order_state_scheme \<Rightarrow> bool) \<Rightarrow> bool" where
  "secretless I \<longleftrightarrow> (\<forall>w x. I w \<longrightarrow> I (w\<lparr>credentials := x\<rparr>)) \<and> (\<forall>w x. I w \<longrightarrow> I (w\<lparr>sessions := x\<rparr>)) \<and>
     (\<forall>w x. I w \<longrightarrow> I (w\<lparr>refresh_tokens := x\<rparr>)) \<and> (\<forall>w x. I w \<longrightarrow> I (w\<lparr>verifications := x\<rparr>)) \<and>
     (\<forall>w x. I w \<longrightarrow> I (w\<lparr>resets := x\<rparr>)) \<and> (\<forall>w x. I w \<longrightarrow> I (w\<lparr>otps := x\<rparr>)) \<and> (\<forall>w x. I w \<longrightarrow> I (w\<lparr>attempts := x\<rparr>)) \<and>
     (\<forall>w x. I w \<longrightarrow> I (w\<lparr>users := x\<rparr>))"

definition aside :: "('z order_state_scheme \<Rightarrow> bool) \<Rightarrow> bool" where
  "aside I \<longleftrightarrow> (\<forall>w x. I w \<longrightarrow> I (w\<lparr>api_keys := x\<rparr>)) \<and> (\<forall>w x. I w \<longrightarrow> I (w\<lparr>custom_roles := x\<rparr>)) \<and>
     (\<forall>w x. I w \<longrightarrow> I (w\<lparr>p_rows := x\<rparr>)) \<and> (\<forall>w x. I w \<longrightarrow> I (w\<lparr>g_rows := x\<rparr>))"

text \<open>Calls that write policy rows are arguments: the definitions of roles and the repair of an organization's policies.\<close>

lemma backstage_core:
  assumes "backstage a s d sv w w'" and "I w" and q: "quiet I"
    and k: "\<And>w x. I w \<Longrightarrow> I (w\<lparr>api_keys := x\<rparr>)" and cr: "\<And>w x. I w \<Longrightarrow> I (w\<lparr>custom_roles := x\<rparr>)"
    and g: "\<And>w x. I w \<Longrightarrow> I (w\<lparr>g_rows := x\<rparr>)"
    and invs: "\<And>l x. keeps I (repo_create_invite l x)" "\<And>i b t. keeps I (consume_invite i b t)"
    and defs: "\<And>user ref0 nm perms. keeps I (define_role s user ref0 nm perms)"
      "\<And>user ref0 nm perms. keeps I (update_role s user ref0 nm perms)" "\<And>user ref0 nm. keeps I (delete_role s user ref0 nm)"
    and reseed: "\<And>user i. keeps I (reseed_org_policies d user i)"
    and m: "\<And>l m. keeps I (repo_create_membership l m)"
    and flows: "auth_rows I" and code: "\<And>em code. keeps I (verify_by_code a em code)"
  shows "I w'"
proof -
  have I: "on_tables I" and j: "\<And>w x. I w \<Longrightarrow> I (w\<lparr>jobs := jobs w @ [x]\<rparr>)" and au: "\<And>w x. I w \<Longrightarrow> I (w\<lparr>audit_events := audit_events w @ [x]\<rparr>)"
    using q by (simp_all add: quiet_def)
  note [keeps_intros] = I q m keeps_api_key_rows [OF I k]
  have sync: "keeps I (os_emit s e)" "keeps I (os_sync s u org' r)" "keeps I (os_sync_custom_grouping s u org' rn b)" for e org' u r rn b
    by (intro keeps_os_groupings I g au; assumption)+
  note sync = sync keeps_convergence [OF I g]
  have [keeps_intros]: "keeps I (os_enqueue_tx s jb)" for jb
    unfolding os_enqueue_tx_def by (intro keeps_intros)
  have [keeps_intros]: "keeps I (ad_emit d actor org' action obj i)" for d actor org' action obj i
    unfolding ad_emit_def by (intro keeps_intros)
  note invs [keeps_intros]
  have [keeps_intros]: "keeps I (assign_custom_role org' user nm)" "keeps I (repo_unassign_custom_role org' user nm)" for org' user nm
    unfolding assign_custom_role_def repo_unassign_custom_role_def by (intro keeps_intros cr; assumption)+
  have auth: "keeps I (require_auth a hdr bearer)" for hdr bearer
    unfolding require_auth_def validate_api_key_def Let_def by (intro keeps_intros; assumption)
  have inv: "keeps I (invite_member s user ref0 email role)" "keeps I (revoke_invite s user ref0 i)"
      "keeps I (accept_invite s user raw)" "keeps I (decline_invite s user raw)" for user ref0 email role i raw
    unfolding invite_member_def revoke_invite_def accept_invite_def accept_pending_def decline_invite_def Let_def
    by (intro sync keeps_intros)+
  have role: "keeps I (assign_role s sv user ref0 target nm)" "keeps I (unassign_role s user ref0 target nm)" for user ref0 nm perms target
    unfolding assign_role_def unassign_role_def Let_def by (intro sync keeps_intros)+
  have key: "keeps I (create_api_key s user ref0 nm scopes expires)" "keeps I (revoke_api_key s user ref0 i)" for user ref0 nm scopes expires i
    unfolding create_api_key_def revoke_api_key_def Let_def by (intro sync keeps_intros; assumption)+
  have adm: "keeps I (admin_list_orgs d user q' m' n')" "keeps I (admin_get_org d user i)" "keeps I (admin_search_users d user q' m' n')"
      "keeps I (admin_get_user d user i)" "keeps I (admin_list_user_orders d user i m' n')"
      "keeps I (admin_sync_user d user i)" for user q' m' n' i
    unfolding admin_list_orgs_def admin_get_org_def admin_search_users_def admin_get_user_def admin_list_user_orders_def
      admin_sync_user_def Let_def by (intro sync keeps_intros)+
  note calls = auth inv defs role key adm reseed auth_rows.flows [OF flows] code
  have "backstage a s d sv w w' \<Longrightarrow> I w \<Longrightarrow> I w'" for w w'
    by (induction rule: backstage.induct; erule (1) keeps_run [where I = I]; rule calls)
  then show ?thesis using assms(1,2) .
qed

lemma backstage_rows:
  assumes "backstage a s d sv w w'" and "I w" and q: "quiet I" and "aside I"
    and invs: "\<And>l x. keeps I (repo_create_invite l x)" "\<And>i b t. keeps I (consume_invite i b t)"
    and defs: "\<And>user ref0 nm perms. keeps I (define_role s user ref0 nm perms)"
      "\<And>user ref0 nm perms. keeps I (update_role s user ref0 nm perms)" "\<And>user ref0 nm. keeps I (delete_role s user ref0 nm)"
    and m: "\<And>l m. keeps I (repo_create_membership l m)"
    and flows: "auth_rows I" and code: "\<And>em code. keeps I (verify_by_code a em code)"
  shows "I w'"
proof -
  have k: "\<And>w x. I w \<Longrightarrow> I (w\<lparr>api_keys := x\<rparr>)" and cr: "\<And>w x. I w \<Longrightarrow> I (w\<lparr>custom_roles := x\<rparr>)"
    and p: "\<And>w x. I w \<Longrightarrow> I (w\<lparr>p_rows := x\<rparr>)" and g: "\<And>w x. I w \<Longrightarrow> I (w\<lparr>g_rows := x\<rparr>)"
    using \<open>aside I\<close> by (simp_all add: aside_def)
  have I: "on_tables I" using q by (simp add: quiet_def)
  note [keeps_intros] = I q keeps_policy_calls [OF I p g] keeps_sync [OF I p g]
  have reseed: "keeps I (reseed_org_policies d user i)" for user i
    unfolding reseed_org_policies_def rematerialize_custom_roles_def ad_emit_def by (intro keeps_intros)
  show ?thesis by (rule backstage_core [OF assms(1-3) k cr g invs defs reseed m flows code])
qed

lemma backstage_flows:
  assumes "backstage a s d sv w w'" and "I w" and q: "quiet I" and "apart I"
    and m: "\<And>l m. keeps I (repo_create_membership l m)"
    and flows: "auth_rows I" and code: "\<And>em code. keeps I (verify_by_code a em code)"
  shows "I w'"
proof (rule backstage_rows [OF assms(1-3) _ _ _ _ _ _ m flows code])
  show "aside I" using \<open>apart I\<close> by (simp add: aside_def apart_def)
  have iv: "\<And>w x. I w \<Longrightarrow> I (w\<lparr>invites := x\<rparr>)" and rd: "\<And>w x. I w \<Longrightarrow> I (w\<lparr>role_defs := x\<rparr>)"
    and p: "\<And>w x. I w \<Longrightarrow> I (w\<lparr>p_rows := x\<rparr>)" and g: "\<And>w x. I w \<Longrightarrow> I (w\<lparr>g_rows := x\<rparr>)"
    using \<open>apart I\<close> by (simp_all add: apart_def)
  have I: "on_tables I" and au: "\<And>w x. I w \<Longrightarrow> I (w\<lparr>audit_events := audit_events w @ [x]\<rparr>)"
    using q by (simp_all add: quiet_def)
  note [keeps_intros] = I q keeps_policy_calls [OF I p g]
  show "keeps I (repo_create_invite l x)" "keeps I (consume_invite i b t)" for l x i b t
    unfolding repo_create_invite_def consume_invite_def by (intro keeps_intros iv; assumption)+
  have [keeps_intros]: "keeps I (os_emit s e)" for e by (intro keeps_os_helpers keeps_intros p g au; assumption)+
  have [keeps_intros]: "keeps I (create_role_def l x)" "keeps I (update_role_def x)" "keeps I (delete_role_def org' nm)" for l x org' nm
    unfolding create_role_def_def update_role_def_def delete_role_def_def Let_def by (intro keeps_intros rd; assumption)+
  show "keeps I (define_role s user ref0 nm perms)" "keeps I (update_role s user ref0 nm perms)" "keeps I (delete_role s user ref0 nm)"
    for user ref0 nm perms
    unfolding define_role_def update_role_def delete_role_def Let_def by (intro keeps_intros p g au; assumption)+
qed

lemma backstage_keeps:
  assumes "backstage a s d sv w w'" and "I w" and q: "quiet I" and "apart I" and "secretless I"
    and m: "\<And>l m. keeps I (repo_create_membership l m)"
  shows "I w'"
proof -
  have "on_tables I" "\<And>w x. I w \<Longrightarrow> I (w\<lparr>jobs := jobs w @ [x]\<rparr>)" using q by (simp_all add: quiet_def)
  note rows = auth_rows_apart [OF this] and s = \<open>secretless I\<close> [unfolded secretless_def]
  have 1: "auth_rows I" by (rule rows) (use s in simp_all)
  have 2: "keeps I (increment_otp_attempts i)" for i by (rule rows) (use s in simp_all)
  show ?thesis by (rule backstage_flows [OF assms(1-4) m 1 auth_rows.code_flow [OF 1 2]])
qed

end
