(* ===== verification/Samples.thy ===== *)
theory Samples
  imports Payment Auth
begin

text \<open>
  A small concrete world on which the theorems are instantiated: a library of identifiers and hashes
  that satisfies the laws the theorems ask of it, two accounts, an organization with its owner, a
  published event with a free and a priced ticket type, and the services wired over them.
\<close>

definition sample_parse :: "string \<Rightarrow> uuid option" where
  "sample_parse s = (case s of [] \<Rightarrow> None
     | c # cs \<Rightarrow> if c = CHR ''u'' \<and> list_all (\<lambda>x. x = CHR ''1'') cs then Some (length cs) else None)"

definition sample_text :: "uuid \<Rightarrow> string" where
  "sample_text i = CHR ''u'' # replicate i CHR ''1''"

definition sample_lib :: lib where
  "sample_lib = \<lparr>uuid_new = (\<lambda>n. 100 + n), uuid_parse = sample_parse, uuid_text = sample_text,
     sha256 = rev, hmac_sha256 = (\<lambda>key m. key @ m), rand_bytes = (\<lambda>n k. replicate k (char_of (n + 65)))\<rparr>"

lemma sample_parse_text [simp]: "sample_parse (sample_text i) = Some i"
  by (simp add: sample_parse_def sample_text_def list_all_iff)

lemma sample_lib_simps [simp]:
  "uuid_new sample_lib n = 100 + n" "uuid_parse sample_lib = sample_parse"
  "uuid_text sample_lib = sample_text" "sha256 sample_lib = rev"
  "hmac_sha256 sample_lib key m = key @ m" "rand_bytes sample_lib n k = replicate k (char_of (n + 65))"
  by (simp_all add: sample_lib_def)

definition sample_user :: "uuid \<Rightarrow> string \<Rightarrow> user" where
  "sample_user i email = \<lparr>us_id = i, us_email = email, us_email_verified = True, us_phone = None,
     us_phone_verified = False, us_status = ACTIVE, us_last_login_at = None, us_created_at = 0,
     us_updated_at = 0, us_deleted_at = None, us_profile = None\<rparr>"

definition sample_member :: "uuid \<Rightarrow> uuid \<Rightarrow> member_role \<Rightarrow> membership" where
  "sample_member i user role = \<lparr>mb_id = i, mb_org = 10, mb_user = user, mb_role = role,
     mb_notify = True, mb_created_at = 0, mb_updated_at = 0\<rparr>"

definition sample_org :: organization where
  "sample_org = \<lparr>og_id = 10, og_name = ''Acme'', og_slug = ''acme'', og_logo = None,
     og_created_by = Some 1, og_created_at = 0, og_updated_at = 0, og_deleted_at = None\<rparr>"

definition sample_event :: event where
  "sample_event = \<lparr>ev_id = 20, ev_org = 10, ev_title = ''Fair'', ev_slug = ''fair'',
     ev_description = None, ev_venue = None, ev_location = None, ev_starts_at = None,
     ev_ends_at = None, ev_capacity = Some 50, ev_cover_url = None, ev_status = Published,
     ev_created_by = Some 1, ev_created_at = 0, ev_updated_at = 0, ev_deleted_at = None\<rparr>"

definition sample_type :: "uuid \<Rightarrow> int \<Rightarrow> int \<Rightarrow> int \<Rightarrow> ticket_type" where
  "sample_type i price tot sold = \<lparr>tt_id = i, tt_event = 20, tt_name = ''Entry'', tt_description = None,
     tt_price_cents = price, tt_currency = ''USD'', tt_total = tot, tt_sold = sold,
     tt_max_per_order = None, tt_sale_starts = None, tt_sale_ends = None, tt_status = TicketActive,
     tt_created_at = 0, tt_updated_at = 0, tt_deleted_at = None\<rparr>"

definition empty_world :: order_state where
  "empty_world = \<lparr>clock = 1000000000, faults = [], drawn_uuids = 0, drawn_tokens = 0,
     audit_events = [], jobs = [], users = [], credentials = [], sessions = [], refresh_tokens = [], verifications = [], resets = [],
     otps = [], attempts = [], api_keys = [], subs = [], p_rows = [], g_rows = [], g2_rows = [],
     orgs = [], memberships = [], invites = [], role_defs = [], custom_roles = [],
     events = [], images = [], assets = [], detail_cache = [], ticket_types = [], attendees = [],
     kits = [], collections = [], checkin_logs = [], orders = []\<rparr>"

definition sample_world :: order_state where
  "sample_world = empty_world\<lparr>users := [sample_user 1 ''ada@x.io'', sample_user 2 ''bob@x.io''],
     orgs := [sample_org], memberships := [sample_member 40 1 OWNER], events := [sample_event],
     ticket_types := [sample_type 30 0 3 0, sample_type 31 500 5 0]\<rparr>"

lemmas sample_rows = sample_user_def sample_member_def sample_org_def sample_event_def sample_type_def

lemma sample_world_simps [simp]:
  "clock sample_world = 1000000000" "faults sample_world = []" "drawn_uuids sample_world = 0"
  "drawn_tokens sample_world = 0" "audit_events sample_world = []" "jobs sample_world = []"
  "users sample_world = [sample_user 1 ''ada@x.io'', sample_user 2 ''bob@x.io'']"
  "subs sample_world = []" "orgs sample_world = [sample_org]"
  "memberships sample_world = [sample_member 40 1 OWNER]" "events sample_world = [sample_event]"
  "detail_cache sample_world = []"
  "ticket_types sample_world = [sample_type 30 0 3 0, sample_type 31 500 5 0]"
  "attendees sample_world = []" "kits sample_world = []" "collections sample_world = []"
  "checkin_logs sample_world = []" "orders sample_world = []"
  by (simp_all add: sample_world_def empty_world_def)

section \<open>The services\<close>

definition sample_events :: event_service where
  "sample_events = \<lparr>es_lib = sample_lib, es_app_url = ''https://x.io'', es_audited = True,
     es_enqueues = True, es_storage = True, es_cached = True, es_plans = True,
     es_store = (\<lambda>org ev bytes ext n. \<lparr>si_url = ext @ replicate n CHR ''i'', si_public_id = [], si_format = [],
        si_bytes = 1, si_width = 1, si_height = 1\<rparr>), es_parse_time = (\<lambda>_. None)\<rparr>"

definition sample_tickets :: ticket_service where
  "sample_tickets = \<lparr>ts_lib = sample_lib, ts_events = sample_events, ts_audited = True\<rparr>"

definition sample_orders :: order_service where
  "sample_orders = \<lparr>rs_lib = sample_lib, rs_tickets = sample_tickets, rs_mints = True, rs_counts = True,
     rs_plans = True, rs_enqueues = True, rs_secret = ''key'', rs_audited = True\<rparr>"

definition sample_kits :: kit_service where
  "sample_kits = \<lparr>ks_lib = sample_lib, ks_audited = True, ks_plans = True\<rparr>"

definition sample_checkins :: checkin_service where
  "sample_checkins = \<lparr>cs_lib = sample_lib, cs_secret = ''key'', cs_audited = True, cs_collections = True\<rparr>"

definition sample_billing :: subscription_service where
  "sample_billing = \<lparr>us_lib = sample_lib, us_billing = None, us_audited = True,
     us_price_pro = ''price_pro'', us_price_scale = ''price_scale''\<rparr>"

definition sample_orgs :: org_service where
  "sample_orgs = \<lparr>os_lib = sample_lib, os_app_url = ''https://x.io'', os_audited = True,
     os_enqueues = True, os_syncs = True, os_seeds = True, os_plans = True\<rparr>"

text \<open>A toy scheme in place of bcrypt and JWT: the hash of a password is its reverse, and the one token ever signed carries
  the identifiers in unary.\<close>

definition sample_sign :: "string \<Rightarrow> jwt_claims \<Rightarrow> string option" where
  "sample_sign secret c = Some (jc_subject c @ ''.'' @ sample_text (jc_session c))"

definition sample_verify :: "string \<Rightarrow> instant \<Rightarrow> string \<Rightarrow> jwt_claims option" where
  "sample_verify secret now raw = (case split_on CHR ''.'' raw of
       [sub, sid] \<Rightarrow> (case sample_parse sid of None \<Rightarrow> None
         | Some i \<Rightarrow> Some \<lparr>jc_subject = sub, jc_session = i, jc_issued_at = 0, jc_expires_at = 0\<rparr>)
     | _ \<Rightarrow> None)"

definition sample_auth :: auth_service where
  "sample_auth = \<lparr>au_lib = sample_lib, au_enqueues = True, au_app_url = ''https://x.io'', au_secret = ''jwt'',
     au_access_ttl = 900 * seconds, au_refresh_ttl = 2592000 * seconds,
     au_hash = (\<lambda>salt pw. if length pw > 72 then None else Some (rev pw)), au_check = (\<lambda>h pw. h = rev pw),
     au_sign = sample_sign, au_parse = sample_verify, au_rand_int = (\<lambda>m b. 7)\<rparr>"

definition paid_session :: "uuid \<Rightarrow> stripe_session" where
  "paid_session i = \<lparr>ss_id = ''cs_1'', ss_subscription_mode = False, ss_paid = True,
     ss_payment_intent = Some ''pi_1'', ss_subscription = None, ss_customer = None,
     ss_metadata = (\<lambda>k. if k = ''order_id'' then sample_text i else [])\<rparr>"

text \<open>The provider signs its payloads with \<open>''sig''\<close>; the payload names the order that was paid.\<close>

definition sample_construct :: "string \<Rightarrow> string \<Rightarrow> string \<Rightarrow> stripe_event option" where
  "sample_construct payload sig secret =
     (if sig \<noteq> ''sig'' then None
      else Some \<lparr>se_type = CheckoutCompleted, se_session = map_option paid_session (sample_parse payload),
                 se_invoice_subscription = None, se_subscription = None\<rparr>)"

definition sample_payments :: payment_service where
  "sample_payments = \<lparr>pm_orders = sample_orders,
     pm_provider = Some \<lparr>pr_create = (\<lambda>q. Some (''cs_1'', ''https://pay''))\<rparr>,
     pm_billing = Some sample_billing, pm_secret = ''whsec'', pm_construct = sample_construct\<rparr>"

section \<open>Evaluation\<close>

text \<open>The definitions that a run on the sample world unfolds.\<close>

lemmas eval_store = bnd_def guard_def ret_def fail_def attempt_def select_first_def select_def gets_def
  write_db_def db_def trips_def on_error_def time_now_def before_create_def draw_uuid_def draw_bytes_def
  tx_def the_or_fail_def not_found_as_def unique_as_def uuid_nil_def emit_def emit_tx_def insert_event_tx_def entry_def
  enqueue_tx_def marshal_diff_def has_key_def by_key_def upsert_def count_where_def sum_where_def

lemmas eval_strings = trim_space_def trim_left_def trim_right_def is_space_def code_of_def to_lower_def
  is_upper_def is_digit_def sample_parse_def

lemmas eval_reads = get_event_by_id_def live_events_def published_def org_of_def get_public_event_def
  cache_get_def cache_set_def get_type_by_id_def live_types_def tt_live_def tk_get_public_event_def
  inspect_type_def to_ticket_type_def availability_def remaining_def wrap64_def entitlement_or_free_def
  entitlement_for_def entitlement_of_def sub_by_org_def count_roster_def count_by_status_def free_entitlement_def
  get_org_by_slug_def get_org_by_id_def live_orgs_def resolve_org_def resolve_org_id_def event_org_of_ref_def
  get_event_def is_owner_def
  get_user_by_id_def live_users_def event_title_def is_member_def get_membership_def member_of_def member_row_def
  can_manage_def resolve_event_def resolve_event_id_def get_event_by_slug_def

lemmas eval_services = sample_orders_def sample_tickets_def sample_events_def sample_kits_def
  sample_checkins_def sample_billing_def sample_orgs_def sample_payments_def

lemmas eval_orders = create_order_def create_order_fresh_def create_order_tx_def claim_effects_def new_order_def
  get_order_by_idempotency_def check_attendee_capacity_def reserve_tx_def lock_type_def add_sold_def fits32_def
  repo_create_order_def order_row_ok_def rs_emit_def mint_tx_def mint_for_order_def exists_for_order_def
  generate_token_def repo_create_attendee_def order_attendee_def first_name_or_def enqueue_confirmation_def
  get_order_by_id_def find_order_or_def mark_paid_def mark_paid_commit_def repo_update_order_def
  cancel_order_def cancel_order_check_def cancel_order_commit_def close_order_tx_def release_tx_def
  manageable_def order_terminal_def hold_ttl_def

lemmas eval_tickets = create_type_def ts_event_def tk_get_event_def check_window_def event_dates_ok_def
  check_event_headroom_def allocated_total_def ts_org_of_def repo_create_type_def tt_row_ok_def ts_emit_def
  activate_type_def set_type_status_def set_type_status_check_def resolve_type_def repo_update_type_def
  to_event_def

lemmas evals = eval_tickets eval_store eval_strings eval_reads eval_services eval_orders sample_rows Let_def

end
