(* ===== verification/Market.thy ===== *)
theory Market
  imports Backstage Samples
begin

text \<open>
  The operations of the ticketing service on the books, and the system as a state machine: one step is
  one request (or one run of the sweeper, or the passing of time), under any script of database
  failures. Every state it reaches from empty tables has balanced books.
\<close>

section \<open>Editing ticket types\<close>

text \<open>The reading halves give the row of the table, edited, and change nothing.\<close>

lemma same_store_keeps: "keeps (same_store w) m \<Longrightarrow> same_store w v \<Longrightarrow> (\<And>x w'. same_store w w' \<Longrightarrow> Q x w')
    \<Longrightarrow> (\<And>e w'. same_store w w' \<Longrightarrow> E e w') \<Longrightarrow> wp m Q E v"
  by (rule wp_mono [OF keeps_wpI [of "same_store w"]]) auto

lemma resolve_type_spec:
  "wp (resolve_type l ev ref0)
     (\<lambda>t w'. same_store w w' \<and> by_key tt_id (tt_id t) (live_types w) = Some t \<and> tt_event t = ev)
     (\<lambda>_. same_store w) w"
  unfolding resolve_type_def get_type_by_id_def
  by (auto simp: wp_simps live_types_def dest: by_key_key split: option.split)

lemma live_row:
  assumes "by_key tt_id (tt_id t) (live_types w) = Some t" and "keyed tt_id (ticket_types w)"
  shows "by_key tt_id (tt_id t) (ticket_types w) = Some t"
  using assms by (auto dest!: by_key_Some simp: live_types_def intro: by_key_keyed)

lemma live_types_same: "same_store w w' \<Longrightarrow> live_types w' = live_types w"
  by (simp add: live_types_def types_same)

definition edits_row :: "ticket_type \<Rightarrow> 'z ticket_state_scheme \<Rightarrow> bool" where
  "edits_row t w \<longleftrightarrow> (\<exists>t0. by_key tt_id (tt_id t) (live_types w) = Some t0 \<and> tt_id t = tt_id t0 \<and>
     tt_sold t = tt_sold t0 \<and> (tt_total t = tt_total t0 \<or> tt_sold t \<le> tt_total t))"

lemma update_type_check_spec:
  "wp (update_type_check s caller orgref eventref ref0 inp)
     (\<lambda>(ev, t) w'. same_store w w' \<and> edits_row t w) (\<lambda>_. same_store w) w"
proof -
  have e: "keeps (same_store w) (ts_event s caller orgref eventref)" by (intro keeps_intros)
  have h: "keeps (same_store w) (check_event_headroom info n excl)" for info n excl
    by (intro keeps_intros)
  show ?thesis
    unfolding update_type_check_def wp_bnd [of "ts_event _ _ _ _"] wp_bnd [of "resolve_type _ _ _"]
    apply (rule wp_mono [OF keeps_wpI [OF e]])
      apply simp
     apply (rule wp_mono [OF resolve_type_spec])
      apply (simp add: wp_bnd wp_guard wp_ret check_window_def Let_def)
      apply (intro conjI impI; (rule same_store_keeps [OF h])?; (auto intro: same_store_trans)?)
     apply (auto simp: edits_row_def given_def live_types_same split: option.splits intro: same_store_trans)
    done
qed

lemma edits_row_books:
  assumes "books xs0 d w" and "edits_row t w" and "same_store w w'"
  shows "wp (repo_update_type t) (\<lambda>_. books xs0 d) (\<lambda>_. books xs0 d) w'"
proof -
  obtain t0 where t0: "by_key tt_id (tt_id t0) (live_types w) = Some t0" "tt_id t = tt_id t0"
      "tt_sold t = tt_sold t0" "tt_total t = tt_total t0 \<or> tt_sold t \<le> tt_total t"
    using assms(2) by (auto simp: edits_row_def)
  have k: "keyed tt_id (ticket_types w)" and "t0 \<in> set (ticket_types w)"
    using assms(1) t0(1) by (auto simp: books_def balanced_def stocked_def live_types_def dest!: by_key_Some)
  then have "tt_sold t \<le> tt_total t"
    using assms(1) t0 by (auto simp: books_def balanced_def stocked_def)
  then show ?thesis
    using assms(1,3) t0(2,3) live_row [OF t0(1) k]
    by (intro save_type_books [where ?t0.0 = t0]) (simp_all add: books_same types_same)
qed

lemma update_type_books: "keeps (books xs0 d) (update_type s caller orgref eventref ref0 inp)"
proof (rule keepsI)
  fix w :: "'a order_state_scheme" assume w: "books xs0 d w"
  have "wp (bnd (repo_update_type t) (\<lambda>_. bnd time_now (\<lambda>now. ret (to_ticket_type t p now))))
      (\<lambda>_. books xs0 d) (\<lambda>_. books xs0 d) w'" if "edits_row t w" "same_store w w'" for t p w'
    by (rule wp_then_keeps [OF edits_row_books [OF w that]]) (intro keeps_intros)
  then show "wp (update_type s caller orgref eventref ref0 inp) (\<lambda>_. books xs0 d) (\<lambda>_. books xs0 d) w"
    unfolding update_type_def wp_bnd [of "update_type_check _ _ _ _ _ _"]
    by (intro wp_mono [OF update_type_check_spec]) (auto simp: books_same w)
qed

lemma set_type_status_check_spec:
  "wp (set_type_status_check s caller orgref eventref ref0 from)
     (\<lambda>(ev, t, org) w'. same_store w w' \<and> edits_row t w \<and> tt_status t \<in> set from) (\<lambda>_. same_store w) w"
proof -
  have e: "keeps (same_store w) (ts_event s caller orgref eventref)" by (intro keeps_intros)
  have o: "keeps (same_store w) (ts_org_of i)" for i by (intro keeps_intros)
  show ?thesis
    unfolding set_type_status_check_def wp_bnd [of "ts_event _ _ _ _"] wp_bnd [of "resolve_type _ _ _"]
    apply (rule wp_mono [OF keeps_wpI [OF e]])
      apply simp
     apply (rule wp_mono [OF resolve_type_spec])
      apply (simp add: wp_bnd wp_guard wp_ret)
      apply (intro conjI impI; (rule same_store_keeps [OF o])?; (auto intro: same_store_trans)?)
     apply (auto simp: edits_row_def live_types_same intro: same_store_trans)
    done
qed

lemma edits_status [simp]: "edits_row (t\<lparr>tt_status := st\<rparr>) w = edits_row t w"
  by (simp add: edits_row_def)

lemma set_type_status_books: "keeps (books xs0 d) (set_type_status s caller orgref eventref ref0 to from)"
proof (rule keepsI)
  fix w :: "'a order_state_scheme" assume w: "books xs0 d w"
  have "wp (tx (bnd (repo_update_type t) (\<lambda>_. ts_emit s e))) (\<lambda>_. books xs0 d) (\<lambda>_. books xs0 d) w'"
    if "edits_row t w" "same_store w w'" for t e w'
    by (rule wp_tx_keeps [OF books_tables], use that w in \<open>simp add: books_same\<close>,
        rule wp_then_keeps [OF edits_row_books [OF w]])
      (use that in \<open>auto intro!: keeps_intros\<close>)
  then show "wp (set_type_status s caller orgref eventref ref0 to from) (\<lambda>_. books xs0 d) (\<lambda>_. books xs0 d) w"
    unfolding set_type_status_def wp_bnd [of "set_type_status_check _ _ _ _ _ _"] Let_def
    by (intro wp_mono [OF set_type_status_check_spec])
      (auto simp: books_same w wp_bnd [of "tx _"] wp_bnd [of time_now] wp_time_now wp_ret edits_row_def)
qed

definition even_books :: "order list \<Rightarrow> 'z order_state_scheme \<Rightarrow> bool" where
  "even_books xs0 w \<longleftrightarrow> books xs0 (\<lambda>_. 0) w"

lemma even_books_iff: "even_books xs0 = books xs0 (\<lambda>_. 0)"
  by (rule ext) (simp add: even_books_def)

lemma create_row_type_books: "tt_sold t = 0 \<Longrightarrow> keeps (books xs0 (\<lambda>_. 0)) (repo_create_type l t)"
proof (rule keepsI)
  fix w :: "'a order_state_scheme" assume w: "books xs0 (\<lambda>_. 0) w" and t: "tt_sold t = 0"
  have "balanced (\<lambda>_. 0) (ticket_types w @ [t\<lparr>tt_id := i, tt_created_at := now, tt_updated_at := now\<rparr>]) (orders w)"
    if "\<not> has_key tt_id i (ticket_types w)" "tt_row_ok t" for i now
    using balanced_new_type [of "ticket_types w" "orders w"
        "t\<lparr>tt_id := i, tt_created_at := now, tt_updated_at := now\<rparr>"] that t w
    by (simp add: books_def tt_row_ok_def)
  note * = this this [of "tt_id t"]
  have "tt_row_ok (t\<lparr>tt_id := i, tt_created_at := now, tt_updated_at := now\<rparr>) = tt_row_ok t" for i now
    by (simp add: tt_row_ok_def)
  moreover have "tt_row_ok (t\<lparr>tt_created_at := now, tt_updated_at := now\<rparr>) = tt_row_ok t" for now
    by (simp add: tt_row_ok_def)
  ultimately show "wp (repo_create_type l t) (\<lambda>_. books xs0 (\<lambda>_. 0)) (\<lambda>_. books xs0 (\<lambda>_. 0)) w"
    using * w by (auto simp: repo_create_type_def wp_simps Let_def books_def)
qed

lemma ticket_edits_books [keeps_intros]:
  "keeps (even_books xs0) (create_type s caller orgref eventref inp)"
  "keeps (even_books xs0) (update_type s caller orgref eventref ref0 upd)"
  "keeps (even_books xs0) (delete_type s caller orgref eventref ref0)"
  "keeps (even_books xs0) (activate_type s caller orgref eventref ref0)"
  "keeps (even_books xs0) (pause_type s caller orgref eventref ref0)"
proof -
  have "keeps (books xs0 (\<lambda>_. 0)) (create_type s caller orgref eventref inp)"
    unfolding create_type_def Let_def by (intro keeps_intros create_row_type_books) simp
  then show "keeps (even_books xs0) (create_type s caller orgref eventref inp)" by (simp add: even_books_iff)
  show "keeps (even_books xs0) (update_type s caller orgref eventref ref0 upd)"
    by (simp add: even_books_iff update_type_books)
  have "keeps (books xs0 (\<lambda>_. 0)) (delete_type s caller orgref eventref ref0)"
    unfolding delete_type_def repo_delete_type_def
    by (intro keeps_intros) (simp add: books_def balanced_drop_type)
  then show "keeps (even_books xs0) (delete_type s caller orgref eventref ref0)" by (simp add: even_books_iff)
  show "keeps (even_books xs0) (activate_type s caller orgref eventref ref0)"
    "keeps (even_books xs0) (pause_type s caller orgref eventref ref0)"
    by (simp_all add: even_books_iff activate_type_def pause_type_def set_type_status_books)
qed

lemma order_calls_books [keeps_intros]:
  "keeps (even_books xs0) (create_order os user ev inp')"
  "keeps (even_books xs0) (mark_paid os i session intent)"
  "keeps (even_books xs0) (cancel_order os user i)"
  "keeps (even_books xs0) (sweep_expired os batch)"
  "keeps (even_books xs0) (create_checkout ps user i app)"
  "keeps (even_books xs0) (handle_webhook ps payload sig)"
  by (simp_all add: even_books_iff create_order_books mark_paid_books cancel_order_books
      sweep_expired_books checkout_books webhook_books)

section \<open>The system as a state machine\<close>

text \<open>The services as \<open>main.go\<close> wires them together.\<close>

record system =
  sy_orgs :: org_service
  sy_events :: event_service
  sy_tickets :: ticket_service
  sy_attendees :: lib
  sy_kits :: kit_service
  sy_checkins :: checkin_service
  sy_orders :: order_service
  sy_payments :: payment_service
  sy_billing :: subscription_service
  sy_auth :: auth_service
  sy_admin :: admin_service
  sy_survives :: bool

text \<open>One step is one request that runs to its end (with success or error), one sweep, the passing of
  time, a new script of database failures, or a change an operator makes to the accounts. \<open>sy_survives\<close> is the
  database parameter of \<open>assign_role\<close>.\<close>

inductive request :: "system \<Rightarrow> order_state \<Rightarrow> order_state \<Rightarrow> bool" for y where
  Create_order: "create_order (sy_orders y) user ev inp w = (r1, w') \<Longrightarrow> request y w w'"
| Cancel_order: "cancel_order (sy_orders y) user i w = (r1, w') \<Longrightarrow> request y w w'"
| Sweep: "sweep_expired (sy_orders y) batch w = (r2, w') \<Longrightarrow> request y w w'"
| Checkout: "create_checkout (sy_payments y) user i app w = (r3, w') \<Longrightarrow> request y w w'"
| Webhook: "handle_webhook (sy_payments y) payload sig w = (r4, w') \<Longrightarrow> request y w w'"
| Create_type: "create_type (sy_tickets y) caller orgref ref0 tinp w = (r5, w') \<Longrightarrow> request y w w'"
| Update_type: "update_type (sy_tickets y) caller orgref ref0 ref1 tupd w = (r5, w') \<Longrightarrow> request y w w'"
| Delete_type: "delete_type (sy_tickets y) caller orgref ref0 ref1 w = (r6, w') \<Longrightarrow> request y w w'"
| Activate_type: "activate_type (sy_tickets y) caller orgref ref0 ref1 w = (r5, w') \<Longrightarrow> request y w w'"
| Pause_type: "pause_type (sy_tickets y) caller orgref ref0 ref1 w = (r5, w') \<Longrightarrow> request y w w'"
| Create_event: "create_event (sy_events y) user orgref einp w = (r7, w') \<Longrightarrow> request y w w'"
| Update_event: "update_event (sy_events y) user orgref ref0 eupd w = (r7, w') \<Longrightarrow> request y w w'"
| Publish_event: "publish_event (sy_events y) user orgref ref0 w = (r7, w') \<Longrightarrow> request y w w'"
| Unpublish_event: "unpublish_event (sy_events y) user orgref ref0 w = (r7, w') \<Longrightarrow> request y w w'"
| Cancel_event: "cancel_event (sy_events y) user orgref ref0 w = (r7, w') \<Longrightarrow> request y w w'"
| Delete_event: "delete_event (sy_events y) user orgref ref0 w = (r6, w') \<Longrightarrow> request y w w'"
| Add_images: "add_gallery_images (sy_events y) orgref ref0 ups w = (r8, w') \<Longrightarrow> request y w w'"
| Set_cover: "set_cover (sy_events y) orgref ref0 bytes n ty w = (r7, w') \<Longrightarrow> request y w w'"
| Get_public_event: "get_public_event (sy_events y) i w = (r7, w') \<Longrightarrow> request y w w'"
| Add_manual: "add_manual (sy_attendees y) org ref0 email name w = (r9, w') \<Longrightarrow> request y w w'"
| Correct_attendee: "correct_attendee_in_event ev i name email' w = (r9, w') \<Longrightarrow> request y w w'"
| Cancel_mine: "cancel_mine user i w = (r9, w') \<Longrightarrow> request y w w'"
| Create_kit: "create_kit (sy_kits y) org ref0 nm desc qty staff w = (r10, w') \<Longrightarrow> request y w w'"
| Update_kit: "update_kit (sy_kits y) org ref0 ref1 nm' desc' qty' staff w = (r10, w') \<Longrightarrow> request y w w'"
| Delete_kit: "delete_kit (sy_kits y) org ref0 ref1 staff w = (r6, w') \<Longrightarrow> request y w w'"
| Collect: "collect (sy_kits y) org ref0 ref1 ref2 hold key staff w = (r11, w') \<Longrightarrow> request y w w'"
| Mark_collected: "mark_collected (sy_kits y) org ref0 ref1 staff w = (r11, w') \<Longrightarrow> request y w w'"
| Void_collection: "void_collection (sy_kits y) org ref0 ref1 staff w = (r11, w') \<Longrightarrow> request y w w'"
| Scan: "scan (sy_checkins y) org ref0 code ref1 staff w = (r12, w') \<Longrightarrow> request y w w'"
| Scan_batch: "scan_batch (sy_checkins y) org ref0 codes staff w = (r13, w') \<Longrightarrow> request y w w'"
| Revert: "revert (sy_checkins y) org ref0 ref1 staff w = (r12, w') \<Longrightarrow> request y w w'"
| Create_org: "create_org (sy_orgs y) user nm slug logo w = (r14, w') \<Longrightarrow> request y w w'"
| Update_org: "update_org (sy_orgs y) user ref0 nm slug logo w = (r14, w') \<Longrightarrow> request y w w'"
| Delete_org: "delete_org (sy_orgs y) (Some (delete_org_assets (sy_events y))) user ref0 w = (r6, w')
    \<Longrightarrow> request y w w'"
| Add_member: "add_member (sy_orgs y) user ref0 email role w = (r15, w') \<Longrightarrow> request y w w'"
| Update_role: "update_member_role (sy_orgs y) user ref0 target role w = (r15, w') \<Longrightarrow> request y w w'"
| Remove_member: "remove_member (sy_orgs y) user ref0 target w = (r6, w') \<Longrightarrow> request y w w'"
| Preferences: "update_my_preferences (sy_orgs y) user ref0 notify w = (r6, w') \<Longrightarrow> request y w w'"
| Start_checkout: "start_checkout (sy_billing y) user org plan w = (r3, w') \<Longrightarrow> request y w w'"
| Portal: "create_portal_session (sy_billing y) user org url w = (r16, w') \<Longrightarrow> request y w w'"
| Backstage: "backstage (sy_auth y) (sy_orgs y) (sy_admin y) (sy_survives y) w w' \<Longrightarrow> request y w w'"
| Time: "0 \<le> dt \<Longrightarrow> request y w (w\<lparr>clock := clock w + dt\<rparr>)"
| Failures: "request y w (w\<lparr>faults := fs\<rparr>)"
| Accounts: "request y w (w\<lparr>users := us\<rparr>)"

text \<open>The states reached from a database without ticket types and orders.\<close>

inductive reached :: "system \<Rightarrow> order_state \<Rightarrow> bool" for y where
  start: "ticket_types w = [] \<Longrightarrow> orders w = [] \<Longrightarrow> reached y w"
| request: "reached y w \<Longrightarrow> request y w w' \<Longrightarrow> reached y w'"

lemma even_books_tables [keeps_intros]: "on_tables (even_books xs0)"
  by (rule on_tablesI) (simp add: even_books_def books_def)

lemma even_books_quiet: "quiet (even_books xs0)"
  by (rule quietI) (auto intro: keeps_intros simp: even_books_def books_def)

lemma books_elsewhere [simp]:
  "books xs0 d (w\<lparr>p_rows := a1\<rparr>) = books xs0 d w" "books xs0 d (w\<lparr>g_rows := a2\<rparr>) = books xs0 d w"
  "books xs0 d (w\<lparr>orgs := a4\<rparr>) = books xs0 d w" "books xs0 d (w\<lparr>memberships := a5\<rparr>) = books xs0 d w"
  "books xs0 d (w\<lparr>custom_roles := a6\<rparr>) = books xs0 d w" "books xs0 d (w\<lparr>events := a7\<rparr>) = books xs0 d w"
  "books xs0 d (w\<lparr>images := a8\<rparr>) = books xs0 d w" "books xs0 d (w\<lparr>assets := a9\<rparr>) = books xs0 d w"
  "books xs0 d (w\<lparr>kits := b1\<rparr>) = books xs0 d w" "books xs0 d (w\<lparr>collections := b2\<rparr>) = books xs0 d w"
  "books xs0 d (w\<lparr>checkin_logs := b3\<rparr>) = books xs0 d w" "books xs0 d (w\<lparr>detail_cache := b4\<rparr>) = books xs0 d w"
  "books xs0 d (w\<lparr>users := b5\<rparr>) = books xs0 d w" "books xs0 d (w\<lparr>clock := b6\<rparr>) = books xs0 d w"
  by (simp_all add: books_def)

lemma other_calls_books [keeps_intros]:
  "keeps (even_books xs0) (create_event es user orgref einp)"
  "keeps (even_books xs0) (update_event es user orgref ref0 eupd)"
  "keeps (even_books xs0) (publish_event es user orgref ref0)"
  "keeps (even_books xs0) (unpublish_event es user orgref ref0)"
  "keeps (even_books xs0) (cancel_event es user orgref ref0)"
  "keeps (even_books xs0) (delete_event es user orgref ref0)"
  "keeps (even_books xs0) (add_gallery_images es orgref ref0 ups)"
  "keeps (even_books xs0) (set_cover es orgref ref0 bytes n ty)"
  "keeps (even_books xs0) (delete_org_assets es org)"
  "keeps (even_books xs0) (get_public_event es i)"
  by (intro keeps_event_calls quiet_public_event even_books_quiet; simp add: even_books_def)+

lemma door_calls_books [keeps_intros]:
  "keeps (even_books xs0) (add_manual l org ref0 email name)"
  "keeps (even_books xs0) (correct_attendee_in_event ev i name email')"
  "keeps (even_books xs0) (cancel_mine user i)"
  "keeps (even_books xs0) (scan cs org ref0 code ref1 staff)"
  "keeps (even_books xs0) (scan_batch cs org ref0 codes staff)"
  "keeps (even_books xs0) (revert cs org ref0 ref1 staff)"
  "keeps (even_books xs0) (create_kit ks org ref0 nm desc qty staff)"
  "keeps (even_books xs0) (update_kit ks org ref0 ref1 nm' desc' qty' staff)"
  "keeps (even_books xs0) (delete_kit ks org ref0 ref1 staff)"
  "keeps (even_books xs0) (collect ks org ref0 ref1 ref2 hold key staff)"
  "keeps (even_books xs0) (mark_collected ks org ref0 ref1 staff)"
  "keeps (even_books xs0) (void_collection ks org ref0 ref1 staff)"
  by (intro keeps_attendee_calls keeps_checkin_calls keeps_kit_calls even_books_quiet even_books_tables;
      simp add: even_books_def)+

lemma org_calls_books [keeps_intros]:
  "keeps (even_books xs0) (create_org s user nm slug logo)"
  "keeps (even_books xs0) (update_org s user ref0 nm slug logo)"
  "keeps (even_books xs0) (delete_org s (Some (delete_org_assets es)) user ref0)"
  "keeps (even_books xs0) (add_member s user ref0 email role)"
  "keeps (even_books xs0) (update_member_role s user ref0 target role)"
  "keeps (even_books xs0) (remove_member s user ref0 target)"
  "keeps (even_books xs0) (update_my_preferences s user ref0 notify)"
  "keeps (even_books xs0) (start_checkout bs user org plan)"
  "keeps (even_books xs0) (create_portal_session bs user org url)"
  by (intro keeps_org_calls keeps_billing_calls even_books_quiet;
      (simp add: even_books_def)?; (erule subst, intro keeps_intros)?)+

lemma backstage_books: "backstage a s d sv w w' \<Longrightarrow> even_books xs0 w \<Longrightarrow> even_books xs0 w'"
proof (erule (1) backstage_keeps [where I = "even_books xs0"])
  show "apart (even_books xs0)" "secretless (even_books xs0)"
    by (simp_all add: apart_def secretless_def even_books_def books_def)
  show "keeps (even_books xs0) (repo_create_membership l m)" for l m
    by (intro keeps_new_member even_books_tables) (simp add: even_books_def)
qed (rule even_books_quiet)

lemma request_books: "request y w w' \<Longrightarrow> even_books xs0 w \<Longrightarrow> even_books xs0 w'"
  by (induction rule: request.induct; (erule (1) keeps_run, intro keeps_intros even_books_quiet)?; (rule backstage_books; assumption)?)
    (simp_all add: even_books_def)

lemma reached_books: "reached y w \<Longrightarrow> even_books [] w"
proof (induction rule: reached.induct)
  case (start w)
  then show ?case by (simp add: even_books_def books_def balanced_def stocked_def moved_def)
next
  case (request w w')
  then show ?case by (blast intro: request_books)
qed

section \<open>A run\<close>

definition sample_system :: system where
  "sample_system = \<lparr>sy_orgs = sample_orgs, sy_events = sample_events, sy_tickets = sample_tickets,
     sy_attendees = sample_lib, sy_kits = sample_kits, sy_checkins = sample_checkins,
     sy_orders = sample_orders, sy_payments = sample_payments, sy_billing = sample_billing,
     sy_auth = sample_auth, sy_admin = \<lparr>ad_lib = sample_lib, ad_audited = True\<rparr>, sy_survives = False\<rparr>"

definition bare_world :: order_state where
  "bare_world = sample_world\<lparr>ticket_types := []\<rparr>"

definition day_ticket :: ticket_input where
  "day_ticket = \<lparr>ti_name = ''Day'', ti_description = None, ti_price_cents = 0, ti_currency = [],
     ti_total = 2, ti_max_per_order = None, ti_sale_starts = None, ti_sale_ends = None\<rparr>"

definition listed_world :: order_state where
  "listed_world = snd (create_type sample_tickets (Some 1) ''acme'' ''fair'' day_ticket bare_world)"

definition open_world :: order_state where
  "open_world = snd (activate_type sample_tickets (Some 1) ''acme'' ''fair'' (sample_text 100) listed_world)"

definition sold_world :: order_state where
  "sold_world = snd (create_order sample_orders 2 20 \<lparr>oi_type = 100, oi_quantity = 1, oi_key = ''k''\<rparr> open_world)"

lemma reached_open: "reached sample_system open_world"
proof -
  have "reached sample_system bare_world" by (rule reached.start) (simp_all add: bare_world_def)
  then have "reached sample_system listed_world"
    by (rule reached.request, unfold listed_world_def) (rule Create_type, simp add: sample_system_def, rule prod.collapse [symmetric])
  from this show ?thesis
    by (rule reached.request, unfold open_world_def) (rule Activate_type, simp add: sample_system_def, rule prod.collapse [symmetric])
qed

lemma request_sold: "request sample_system open_world sold_world"
  unfolding sold_world_def by (rule Create_order, simp add: sample_system_def, rule prod.collapse [symmetric])

lemma reached_sold: "reached sample_system sold_world"
  using reached_open request_sold by (rule reached.request)

lemma sold_world_eval: "map (\<lambda>t. (tt_id t, tt_sold t, tt_total t)) (ticket_types sold_world) = [(100, 1, 2)]"
  "map (\<lambda>x. (or_id x, or_type x, or_quantity x, or_status x)) (orders sold_world) = [(103, 100, 1, Confirmed)]"
  by (simp_all add: sold_world_def open_world_def listed_world_def bare_world_def day_ticket_def evals
      sample_text_def list_all_iff)

section \<open>Properties\<close>

text \<open>C1. No oversell and no leak, in every state the system reaches: whatever mix of claims, payments,
  cancellations, sweeps, edits of ticket types and other requests ran, and whichever of their database accesses failed,
  \<open>quantity_sold\<close> of each ticket type equals the units of the orders that still hold units of it,
  and lies between 0 and \<open>quantity_total\<close>.\<close>

theorem inventory_conserved:
  assumes "reached y w" and "t \<in> set (ticket_types w)"
  shows "tt_sold t = held (tt_id t) (orders w) \<and> 0 \<le> tt_sold t \<and> tt_sold t \<le> tt_total t"
  using reached_books [OF assms(1)] assms(2)
  by (auto simp: even_books_def books_def balanced_def stocked_def)

theorem inventory_conserved_witness:
  "\<exists>t \<in> set (ticket_types sold_world). tt_sold t = held (tt_id t) (orders sold_world) \<and> tt_sold t = 1 \<and> tt_total t = 2"
proof -
  obtain t where t: "ticket_types sold_world = [t]" "tt_sold t = 1" "tt_total t = 2"
    using sold_world_eval(1) by (auto simp: map_eq_Cons_conv)
  with inventory_conserved [OF reached_sold, of t] show ?thesis by auto
qed

lemma closed_order_stays: "order_edge\<^sup>*\<^sup>* a b \<Longrightarrow> \<not> holding a \<Longrightarrow> b = a"
  by (induction rule: rtranclp_induct) (auto simp: order_edge_iff holding_def)

text \<open>C2. An order is never lost, re-priced, re-assigned or resized by any request, and its status only
  moves along PENDING_PAYMENT to CONFIRMED, any live status to CANCELLED, a pending one to EXPIRED:
  CANCELLED and EXPIRED are final.\<close>

theorem order_history:
  assumes "reached y w" and "request y w w'" and "x \<in> set (orders w)"
  shows "\<exists>x' \<in> set (orders w'). or_id x' = or_id x \<and> or_user x' = or_user x \<and> or_type x' = or_type x \<and>
    or_quantity x' = or_quantity x \<and> or_price_cents x' = or_price_cents x \<and>
    or_expires_at x' = or_expires_at x \<and> order_edge\<^sup>*\<^sup>* (or_status x) (or_status x') \<and>
    (or_status x \<in> {OrderCancelled, Expired} \<longrightarrow> or_status x' = or_status x)"
proof -
  have "even_books (orders w) w"
    using reached_books [OF assms(1)] by (simp add: even_books_def books_def)
  then have "moved (orders w) (orders w')"
    using request_books [OF assms(2)] by (auto simp: even_books_def books_def)
  then obtain x' where "x' \<in> set (orders w')" "same_claim x x'"
    using assms(3) by (auto simp: moved_def)
  moreover from this(2) have "or_status x \<in> {OrderCancelled, Expired} \<Longrightarrow> or_status x' = or_status x"
    by (intro closed_order_stays) (auto simp: same_claim_def holding_def)
  ultimately show ?thesis by (auto simp: same_claim_def)
qed

definition cancelled_world :: order_state where
  "cancelled_world = snd (cancel_order sample_orders 2 103 sold_world)"

theorem order_history_witness: "\<exists>x' \<in> set (orders cancelled_world). or_id x' = 103 \<and> or_quantity x' = 1"
proof -
  obtain x where x: "orders sold_world = [x]" "or_id x = 103" "or_quantity x = 1"
    using sold_world_eval(2) by (auto simp: map_eq_Cons_conv)
  have "request sample_system sold_world cancelled_world"
    unfolding cancelled_world_def by (rule Cancel_order, simp add: sample_system_def, rule prod.collapse [symmetric])
  from order_history [OF reached_sold this, of x] x show ?thesis by auto
qed

end
