(* ===== verification/Claiming.thy ===== *)
theory Claiming
  imports Market
begin

text \<open>
  The effect of the order operations, exactly: what a successful claim did, that a failed operation
  left no trace, that a repeated request answers with the first order.
\<close>

section \<open>Failures leave no trace\<close>

text \<open>Equal but for the cached public payloads and the control fields.\<close>

definition no_trace :: "'z event_state_scheme \<Rightarrow> 'z event_state_scheme \<Rightarrow> bool" where
  "no_trace w w' \<longleftrightarrow> same_store (w\<lparr>detail_cache := detail_cache w'\<rparr>) w'"

lemma no_trace_refl [simp]: "no_trace w w"
  by (simp add: no_trace_def)

lemma no_trace_tables [keeps_intros]: "on_tables (no_trace w)"
  by (rule on_tablesI) (simp add: no_trace_def)

lemma no_trace_cache: "no_trace w w' \<Longrightarrow> no_trace w (w'\<lparr>detail_cache := x\<rparr>)"
  by (cases w; cases w') (auto simp: no_trace_def same_store_def rollback_def)

lemma no_trace_inspect [keeps_intros]: "keeps (no_trace w) (inspect_type s i)"
  by (rule keeps_inspect) (auto intro: keeps_intros no_trace_cache)

lemma no_trace_same: "same_store w w' \<Longrightarrow> no_trace w w'"
  using no_trace_tables [of w] unfolding on_tables_def by (metis no_trace_refl)

lemma no_trace_clock: "no_trace w w' \<Longrightarrow> clock w' = clock w"
  by (auto simp: no_trace_def same_store_def rollback_def dest: arg_cong [where f = clock])

lemma no_trace_fields:
  assumes "no_trace w w'"
  shows "ticket_types w' = ticket_types w" "orders w' = orders w" "attendees w' = attendees w"
    "audit_events w' = audit_events w" "jobs w' = jobs w" "clock w' = clock w" "events w' = events w"
  using assms by (auto simp: no_trace_def same_store_def rollback_def
      dest: arg_cong [where f = ticket_types] arg_cong [where f = orders] arg_cong [where f = attendees]
        arg_cong [where f = audit_events] arg_cong [where f = jobs] arg_cong [where f = clock]
        arg_cong [where f = events])

lemma create_order_aborts: "aborts (no_trace w) (create_order s user ev inp)"
  unfolding create_order_def create_order_fresh_def create_order_tx_def
  by (intro aborts_intros aborts_bnd keeps_intros)

text \<open>C4. A claim that fails, for whatever reason and at whichever database access, leaves no trace: no
  unit held, no order, no attendee, no audit event, no mail; only the cache of public payloads may be warmer.\<close>

theorem create_order_atomic:
  assumes "create_order s user ev inp w = (Inl e, w')"
  shows "no_trace w w' \<and> ticket_types w' = ticket_types w \<and> orders w' = orders w \<and>
    attendees w' = attendees w \<and> audit_events w' = audit_events w \<and> jobs w' = jobs w"
  using abortsD [OF create_order_aborts no_trace_refl assms] by (simp add: no_trace_fields)

definition two_free :: order_input where
  "two_free = \<lparr>oi_type = 30, oi_quantity = 2, oi_key = ''k''\<rparr>"

text \<open>The thirteenth access, the insert of the order, fails after the units were added.\<close>

definition faulty_world :: order_state where
  "faulty_world = sample_world\<lparr>faults := [False, False, False, False, False, False,
     False, False, False, False, False, False, True]\<rparr>"

lemma faulty_claim: "fst (create_order sample_orders 2 20 two_free faulty_world) = Inl DbError"
  by (simp add: two_free_def faulty_world_def evals tick_def rollback_def)

theorem create_order_atomic_witness:
  "\<exists>w'. create_order sample_orders 2 20 two_free faulty_world = (Inl DbError, w') \<and>
     ticket_types w' = ticket_types faulty_world \<and> orders w' = []"
  using faulty_claim create_order_atomic [of sample_orders 2 20 two_free faulty_world DbError]
  by (cases "create_order sample_orders 2 20 two_free faulty_world") (auto simp: faulty_world_def)

section \<open>What a claim does\<close>

lemma inspect_type_spec:
  "wp (inspect_type s i)
     (\<lambda>(d, pub) w'. no_trace w w' \<and> (\<exists>t. by_key tt_id i (live_types w) = Some t \<and>
        d = to_ticket_type t pub (clock w))) (\<lambda>_. no_trace w) w"
proof -
  have pub: "keeps (no_trace w) (tk_get_public_event s ev)" for ev
    unfolding tk_get_public_event_def
    by (intro keeps_intros keeps_public_event) (rule no_trace_cache)
  show ?thesis
    unfolding inspect_type_def get_type_by_id_def wp_bnd [of "on_error _ _"] wp_on_error
      wp_select_first wp_bnd [of "attempt _"] wp_attempt Let_def wp_bnd [of time_now] wp_time_now wp_ret
    by (auto simp: live_types_def no_trace_same split: option.split
        intro!: wp_mono [OF keeps_wpI [OF pub [of "tt_event t" for t]]] simp: no_trace_clock)
qed

lemma for_sale_iff: "td_for_sale (to_ticket_type t pub now) \<longleftrightarrow>
    pub \<and> tt_status t = TicketActive \<and> (\<forall>x. tt_sale_starts t = Some x \<longrightarrow> x \<le> now) \<and>
    (\<forall>x. tt_sale_ends t = Some x \<longrightarrow> now < x) \<and> 0 < remaining t"
  by (auto simp: to_ticket_type_def availability_def Let_def not_less split: option.splits)

lemma to_ticket_type_simps [simp]:
  "td_event (to_ticket_type t pub now) = tt_event t" "td_id (to_ticket_type t pub now) = tt_id t"
  "td_price_cents (to_ticket_type t pub now) = tt_price_cents t"
  "td_currency (to_ticket_type t pub now) = tt_currency t"
  "td_max_per_order (to_ticket_type t pub now) = tt_max_per_order t"
  by (simp_all add: to_ticket_type_def split: prod.split)

text \<open>The reservation, and the order row the transaction leaves.\<close>

definition reserved :: "uuid \<Rightarrow> int \<Rightarrow> 'z ticket_state_scheme \<Rightarrow> 'z ticket_state_scheme \<Rightarrow> bool" where
  "reserved i n w w' \<longleftrightarrow> (\<exists>t now. by_key tt_id i (live_types w) = Some t \<and> 0 < n \<and>
        fits32 n \<and> tt_status t = TicketActive \<and> wrap64 (tt_sold t + n) \<le> tt_total t \<and>
        ticket_types w' = modify (\<lambda>t. tt_id t = i \<and> tt_live t)
          (\<lambda>t. t\<lparr>tt_sold := tt_sold t + n, tt_updated_at := now\<rparr>) (ticket_types w))"

definition row_of :: "order \<Rightarrow> order \<Rightarrow> bool" where
  "row_of x0 x \<longleftrightarrow>
     x = x0\<lparr>or_id := or_id x, or_created_at := or_created_at x, or_updated_at := or_updated_at x\<rparr>"

definition claims :: "'z order_state_scheme \<Rightarrow> order \<Rightarrow> order \<Rightarrow> 'z order_state_scheme \<Rightarrow> bool" where
  "claims w x0 x w' \<longleftrightarrow> orders w' = orders w @ [x] \<and> row_of x0 x \<and>
     reserved (or_type x0) (or_quantity x0) w w'"

lemma reserved_cong: "ticket_types w' = ticket_types w \<Longrightarrow> ticket_types v' = ticket_types v \<Longrightarrow>
    reserved i n w' v' = reserved i n w v"
  by (simp add: reserved_def live_types_def)

lemma claims_cong: "ticket_types w' = ticket_types w \<Longrightarrow> ticket_types v' = ticket_types v \<Longrightarrow>
    orders w' = orders w \<Longrightarrow> orders v' = orders v \<Longrightarrow> claims w' x0 x v' = claims w x0 x v"
  using reserved_cong [of w' w v' v] by (simp add: claims_def)

lemma reserve_tx_spec:
  "wp (reserve_tx i n) (\<lambda>_ w'. orders w' = orders w \<and> reserved i n w w') (\<lambda>_ _. True) w"
  unfolding reserve_tx_def lock_type_def add_sold_def reserved_def
  by (auto simp: wp_simps live_types_def not_less split: option.split)

lemma repo_create_order_spec:
  "wp (repo_create_order l x0)
     (\<lambda>x w'. orders w' = orders w @ [x] \<and> ticket_types w' = ticket_types w \<and> row_of x0 x) (\<lambda>_ _. True) w"
  unfolding repo_create_order_def row_of_def by (auto simp: wp_simps Let_def)

lemma claims_quiet: "on_tables (claims w x0 x)" "quiet (claims w x0 x)"
  by (auto intro!: quietI on_tablesI simp: claims_def reserved_def)

lemma create_order_tx_spec:
  fixes w :: "'z order_state_scheme"
  shows "wp (create_order_tx s user org x0) (\<lambda>x. claims w x0 x) (\<lambda>_ _. True) w"
proof -
  have effects: "wp (bnd (claim_effects s user org x) (\<lambda>_. ret x)) (\<lambda>x. claims w x0 x) (\<lambda>_ _. True) v"
    if "claims w x0 x v" for x and v :: "'z order_state_scheme"
  proof -
    have "keeps (claims w x0 x) (claim_effects s user org x)"
      by (intro keeps_claim_effects claims_quiet) (simp add: claims_def reserved_def)
    from wp_rest [OF this that] show ?thesis by (simp add: wp_bnd wp_ret)
  qed
  have step: "claims w x0 x v'"
    if "orders v = orders (tick w) \<and> reserved (or_type x0) (or_quantity x0) (tick w) v"
      and "orders v' = orders v @ [x] \<and> ticket_types v' = ticket_types v \<and> row_of x0 x"
    for x and v v' :: "'z order_state_scheme"
    using that reserved_cong [of "tick w" w v v'] by (simp add: claims_def)
  have "wp (bnd (on_error (reserve_tx (or_type x0) (or_quantity x0)) morph_reserve_err) (\<lambda>_.
      bnd (repo_create_order (rs_lib s) x0) (\<lambda>x. bnd (claim_effects s user org x) (\<lambda>_. ret x))))
      (\<lambda>x. claims w x0 x) (\<lambda>_ _. True) (tick w)"
    unfolding wp_bnd [of "on_error _ _"] wp_on_error wp_bnd [of "repo_create_order _ _"]
    by (rule wp_mono [OF reserve_tx_spec [of _ _ "tick w"]], rule wp_mono [OF repo_create_order_spec])
      (blast intro: effects step TrueI)+
  moreover have "claims w x0 x (tick v) = claims w x0 x v" for x and v :: "'z order_state_scheme"
    by (rule claims_cong) simp_all
  ultimately show ?thesis
    unfolding create_order_tx_def wp_tx by (auto elim!: wp_mono)
qed

text \<open>The checks before the transaction change nothing but the cache.\<close>

lemma claims_no_trace: "no_trace w v \<Longrightarrow> claims v x0 x w' \<Longrightarrow> claims w x0 x w'"
  using claims_cong [of v w w' w'] by (simp add: no_trace_fields)

definition sellable :: "uuid \<Rightarrow> uuid \<Rightarrow> int \<Rightarrow> 'z order_state_scheme \<Rightarrow> ticket_type \<Rightarrow> bool" where
  "sellable i ev n w t \<longleftrightarrow> by_key tt_id i (live_types w) = Some t \<and> tt_event t = ev \<and>
     tt_status t = TicketActive \<and> (\<forall>x. tt_sale_starts t = Some x \<longrightarrow> x \<le> clock w) \<and>
     (\<forall>x. tt_sale_ends t = Some x \<longrightarrow> clock w < x) \<and> (\<forall>m. tt_max_per_order t = Some m \<longrightarrow> n \<le> m)"

definition claimed :: "uuid \<Rightarrow> uuid \<Rightarrow> order_input \<Rightarrow> 'z order_state_scheme \<Rightarrow> order_dto
    \<Rightarrow> 'z order_state_scheme \<Rightarrow> bool" where
  "claimed user ev inp w d w' \<longleftrightarrow> (\<exists>t x pub. sellable (oi_type inp) ev (oi_quantity inp) w t \<and> d = to_order x \<and>
     claims w (new_order user ev (to_ticket_type t pub (clock w)) (oi_quantity inp)
                 (trim_space (oi_key inp)) (clock w)) x w')"

lemma claimedI:
  assumes "sellable (oi_type inp) ev (oi_quantity inp) w t"
    and "claims w (new_order user ev (to_ticket_type t pub (clock w)) (oi_quantity inp)
                 (trim_space (oi_key inp)) (clock w)) x w'"
  shows "claimed user ev inp w (to_order x) w'"
  unfolding claimed_def using assms by blast

lemma fresh_commit:
  fixes w :: "'z order_state_scheme"
  assumes t: "sellable (oi_type inp) ev (oi_quantity inp) w t" and v: "no_trace w v"
  shows "wp (bnd (check_attendee_capacity s ev (oi_quantity inp)) (\<lambda>_. bnd time_now (\<lambda>now.
      bnd (org_of ev) (\<lambda>org. bnd (create_order_tx s user org
        (new_order user ev (to_ticket_type t pub (clock w)) (oi_quantity inp) (trim_space (oi_key inp)) now))
        (\<lambda>x. ret (to_order x)))))) (claimed user ev inp w) (\<lambda>_ _. True) v"
proof -
  let ?x = "new_order user ev (to_ticket_type t pub (clock w)) (oi_quantity inp)
                 (trim_space (oi_key inp)) (clock w)"
  have cap: "keeps (no_trace w) (check_attendee_capacity s ev (oi_quantity inp))" by (intro keeps_intros)
  have org: "keeps (no_trace w) (org_of ev)" by (intro keeps_intros)
  have commit: "wp (bnd (create_order_tx s user og ?x) (\<lambda>x. ret (to_order x)))
      (claimed user ev inp w) (\<lambda>_ _. True) u" if "no_trace w u" for og u
    unfolding wp_bnd wp_ret
    by (rule wp_mono [OF create_order_tx_spec]) (rule claimedI [OF t claims_no_trace [OF that]], simp_all)
  show ?thesis
    unfolding wp_bnd [of "check_attendee_capacity _ _ _"] wp_bnd [of time_now] wp_time_now wp_bnd [of "org_of _"]
    apply (rule wp_mono [OF keeps_wpI [OF cap v]])
     apply (rule wp_mono [OF keeps_wpI [OF org]], assumption)
      apply (simp add: no_trace_clock commit)
    by simp_all
qed

lemma create_order_fresh_spec:
  "wp (create_order_fresh s user ev inp (trim_space (oi_key inp))) (claimed user ev inp w) (\<lambda>_ _. True) w"
  unfolding create_order_fresh_def wp_bnd [of "on_error _ _"] wp_on_error
  by (rule wp_mono [OF inspect_type_spec])
    (auto simp: wp_bnd [of "guard _ _"] wp_guard for_sale_iff sellable_def
      intro!: fresh_commit [unfolded sellable_def] split: option.splits)

definition replays :: "uuid \<Rightarrow> order_input \<Rightarrow> order \<Rightarrow> bool" where
  "replays user inp x \<longleftrightarrow> trim_space (oi_key inp) \<noteq> [] \<and> or_user x = user \<and>
     or_key x = Some (trim_space (oi_key inp))"

lemma create_order_spec:
  assumes "\<And>x. x \<in> set (orders w) \<Longrightarrow> \<not> replays user inp x"
  shows "wp (create_order s user ev inp) (\<lambda>d w'. 0 < oi_quantity inp \<and> claimed user ev inp w d w') (\<lambda>_ _. True) w"
proof -
  have t: "claimed user ev inp (tick w) = claimed user ev inp w"
  proof (intro ext)
    fix d w'

    have "claims (tick w) x0 x w' = claims w x0 x w'" for x0 x by (rule claims_cong) simp_all
    then show "claimed user ev inp (tick w) d w' = claimed user ev inp w d w'"
      by (simp add: claimed_def sellable_def live_types_def)
  qed
  have f: "wp (create_order_fresh s user ev inp (trim_space (oi_key inp))) (claimed user ev inp w) (\<lambda>_ _. True) (tick w)"
    using create_order_fresh_spec [of s user ev inp "tick w"] by (simp add: t)
  show ?thesis
  proof (cases "trim_space (oi_key inp) = []")
    case True
    with create_order_fresh_spec [of s user ev inp w] show ?thesis
      unfolding create_order_def by (auto simp: wp_bnd wp_guard intro: wp_mono)
  next
    case False
    then have "find (\<lambda>x. or_user x = user \<and> or_key x = Some (trim_space (oi_key inp))) (orders w) = None"
      using assms by (auto simp: find_None_iff replays_def)
    with False show ?thesis
      unfolding create_order_def get_order_by_idempotency_def
      by (auto simp: wp_simps intro: wp_mono [OF f])
  qed
qed

text \<open>C3. A new claim takes exactly what it sells. If no earlier order of the caller carries the
  idempotency key and \<open>CreateOrder\<close> succeeds, then the ticket type was live, of the requested event,
  ACTIVE, inside its sale window and within its per-order limit, its total covers the new sold count, one order
  row was added, of the caller, at the type's price, CONFIRMED with no expiry when that price is zero and PENDING_PAYMENT
  with an expiry 15 minutes ahead otherwise, and the sold count of that type alone grew by the quantity.\<close>

theorem create_order_effect:
  assumes "reached y w" and "\<forall>x \<in> set (orders w). \<not> replays user inp x"
    and "create_order s user ev inp w = (Inr d, w')"
  shows "\<exists>t x now. by_key tt_id (oi_type inp) (live_types w) = Some t \<and> tt_event t = ev \<and>
    tt_status t = TicketActive \<and> (\<forall>a. tt_sale_starts t = Some a \<longrightarrow> a \<le> clock w) \<and>
    (\<forall>a. tt_sale_ends t = Some a \<longrightarrow> clock w < a) \<and>
    (\<forall>m. tt_max_per_order t = Some m \<longrightarrow> oi_quantity inp \<le> m) \<and> 0 < oi_quantity inp \<and>
    tt_sold t + oi_quantity inp \<le> tt_total t \<and>
    orders w' = orders w @ [x] \<and> d = to_order x \<and> or_user x = user \<and> or_event x = ev \<and>
    or_type x = oi_type inp \<and> or_quantity x = oi_quantity inp \<and> or_price_cents x = tt_price_cents t \<and>
    or_status x = (if tt_price_cents t = 0 then Confirmed else PendingPayment) \<and>
    or_expires_at x = (if tt_price_cents t = 0 then None else Some (clock w + hold_ttl)) \<and>
    ticket_types w' = modify (\<lambda>t. tt_id t = oi_type inp \<and> tt_live t)
      (\<lambda>t. t\<lparr>tt_sold := tt_sold t + oi_quantity inp, tt_updated_at := now\<rparr>) (ticket_types w)"
proof -
  have "claimed user ev inp w d w'"
    using wp_okD [OF assms(3) create_order_spec] assms(2) by blast
  then obtain t x pub where c: "sellable (oi_type inp) ev (oi_quantity inp) w t" "d = to_order x"
    "claims w (new_order user ev (to_ticket_type t pub (clock w)) (oi_quantity inp)
        (trim_space (oi_key inp)) (clock w)) x w'"
    unfolding claimed_def by blast
  let ?x0 = "new_order user ev (to_ticket_type t pub (clock w)) (oi_quantity inp)
        (trim_space (oi_key inp)) (clock w)"
  have i: "tt_id t = oi_type inp" using c(1) by (auto simp: sellable_def dest: by_key_key)
  obtain now where r: "0 < oi_quantity inp" "fits32 (oi_quantity inp)"
      "wrap64 (tt_sold t + oi_quantity inp) \<le> tt_total t" and
    ts: "ticket_types w' = modify (\<lambda>t. tt_id t = oi_type inp \<and> tt_live t)
      (\<lambda>t. t\<lparr>tt_sold := tt_sold t + oi_quantity inp, tt_updated_at := now\<rparr>) (ticket_types w)"
    using c(1,3) i by (auto simp: claims_def reserved_def new_order_def sellable_def)
  have "t \<in> set (ticket_types w)"
    using c(1) by (auto simp: sellable_def live_types_def dest: by_key_Some)
  then have "0 \<le> tt_sold t" "tt_sold t \<le> tt_total t" "fits32 (tt_total t)"
    using reached_books [OF assms(1)] by (auto simp: even_books_def books_def balanced_def stocked_def)
  then have le: "tt_sold t + oi_quantity inp \<le> tt_total t"
    using r by (simp add: wrap64_small fits32_bounds)
  obtain a b e where x: "x = ?x0\<lparr>or_id := a, or_created_at := b, or_updated_at := e\<rparr>" "orders w' = orders w @ [x]"
    using c(3) unfolding claims_def row_of_def by blast
  show ?thesis
    by (intro exI [of _ t] exI [of _ x] exI [of _ now])
      (use c(1) le ts r i x c(2) in \<open>simp add: sellable_def new_order_def\<close>)
qed

definition first_ticket :: order_input where
  "first_ticket = \<lparr>oi_type = 100, oi_quantity = 1, oi_key = ''k''\<rparr>"

theorem create_order_effect_witness:
  "\<exists>t x. by_key tt_id 100 (live_types open_world) = Some t \<and> tt_sold t + 1 \<le> tt_total t \<and>
     orders sold_world = orders open_world @ [x] \<and> or_user x = 2"
proof -
  have "\<exists>d. create_order sample_orders 2 20 first_ticket open_world = (Inr d, sold_world)"
    by (simp add: first_ticket_def sold_world_def open_world_def listed_world_def bare_world_def day_ticket_def evals
        sample_text_def list_all_iff)
  then obtain d where d: "create_order sample_orders 2 20 first_ticket open_world = (Inr d, sold_world)" ..
  have "orders open_world = []"
    by (simp add: open_world_def listed_world_def bare_world_def day_ticket_def evals sample_text_def list_all_iff)
  then show ?thesis
    using create_order_effect [OF reached_open _ d] by (auto simp: first_ticket_def)
qed

text \<open>C5. A replayed request answers with the first order: while the database answers, a claim whose
  idempotency key some order of the caller carries returns that order and changes nothing at all,
  whatever the rest of the request says.\<close>

theorem create_order_replay:
  assumes "no_faults w" and "0 < oi_quantity inp" and "\<exists>x \<in> set (orders w). replays user inp x"
  shows "\<exists>x \<in> set (orders w). replays user inp x \<and> create_order s user ev inp w = (Inr (to_order x), w)"
proof -
  let ?p = "\<lambda>x. or_user x = user \<and> or_key x = Some (trim_space (oi_key inp))"
  obtain x where x: "find ?p (orders w) = Some x"
    using assms(3) by (cases "find ?p (orders w)") (auto simp: find_None_iff replays_def)
  then have "x \<in> set (orders w)" "replays user inp x"
    using assms(3) by (auto simp: find_Some_iff replays_def)
  moreover have "create_order s user ev inp w = (Inr (to_order x), w)"
    using assms x by (auto simp: create_order_def replays_def bnd_def guard_def ret_def Let_def attempt_def
        get_order_by_idempotency_def select_first_def db_def no_faults_def)
  ultimately show ?thesis by blast
qed

theorem create_order_replay_witness:
  "\<exists>x \<in> set (orders sold_world). create_order sample_orders 2 20 first_ticket sold_world = (Inr (to_order x), sold_world)"
proof -
  have "\<exists>x. orders sold_world = [x] \<and> or_user x = 2 \<and> or_key x = Some ''k'' \<and> faults sold_world = []"
    by (simp add: sold_world_def open_world_def listed_world_def bare_world_def day_ticket_def evals
        sample_text_def list_all_iff)
  then have "\<exists>x \<in> set (orders sold_world). replays 2 first_ticket x" "no_faults sold_world"
    by (auto simp: replays_def first_ticket_def no_faults_def evals)
  then show ?thesis
    using create_order_replay [of sold_world first_ticket 2 sample_orders 20]
    by (auto simp: first_ticket_def)
qed

end
