(* ===== verification/Settling.thy ===== *)
theory Settling
  imports Claiming
begin

text \<open>
  How an order ends: paid through the webhook, cancelled, or expired by the sweeper. The effects are
  stated on the tables, with the races that the unlocked reads of the code leave open.
\<close>

section \<open>Marking paid\<close>

lemma keyed_orders: "reached y w \<Longrightarrow> keyed or_id (orders w)"
  using reached_books by (auto simp: even_books_def books_def balanced_def)

lemma repo_update_order_spec:
  "wp (repo_update_order x)
     (\<lambda>_ w'. orders w' = upsert or_id (x\<lparr>or_updated_at := clock w\<rparr>) (orders w) \<and>
        ticket_types w' = ticket_types w \<and> attendees w' = attendees w)
     (\<lambda>_. same_store w) w"
  unfolding repo_update_order_def by (simp add: wp_simps)

lemma attendees_same: "same_store w w' \<Longrightarrow> attendees w' = attendees w"
  by (auto simp: same_store_def rollback_def dest: arg_cong [where f = attendees])

text \<open>The row saved, and nothing else but the trail.\<close>

definition saved_row :: "'z order_state_scheme \<Rightarrow> order \<Rightarrow> 'z order_state_scheme \<Rightarrow> bool" where
  "saved_row w x w' \<longleftrightarrow> (\<exists>now. orders w' = upsert or_id (x\<lparr>or_updated_at := now\<rparr>) (orders w)) \<and>
     ticket_types w' = ticket_types w \<and> attendees w' = attendees w"

lemma saved_row_keeps [keeps_intros]: "on_tables (saved_row w x)" "quiet (saved_row w x)"
  by (auto intro!: quietI on_tablesI simp: saved_row_def)

lemma saved_row_same: "same_store w v \<Longrightarrow> saved_row v x w' = saved_row w x w'"
  by (simp add: saved_row_def orders_same types_same attendees_same)

lemma save_and_emit_spec:
  "wp (tx (bnd (repo_update_order x) (\<lambda>_. rs_emit s e))) (\<lambda>_. saved_row w x) (\<lambda>_ _. True) w"
proof -
  have "keeps (saved_row w x) (rs_emit s e)" by (intro keeps_intros)
  then have "wp (bnd (repo_update_order x) (\<lambda>_. rs_emit s e)) (\<lambda>_. saved_row w x) (\<lambda>_ _. True) (tick w)"
    unfolding wp_bnd by (intro wp_mono [OF repo_update_order_spec] wp_rest) (auto simp: saved_row_def)
  then show ?thesis
    unfolding wp_tx by (auto simp: saved_row_def elim!: wp_mono)
qed

definition paid_row :: "order \<Rightarrow> string \<Rightarrow> string \<Rightarrow> instant \<Rightarrow> order" where
  "paid_row x session intent now = x\<lparr>or_status := Confirmed, or_session := Some session,
     or_payment_intent := (if intent \<noteq> [] then Some intent else or_payment_intent x), or_paid_at := Some now\<rparr>"

lemma mark_paid_commit_spec:
  assumes v: "same_store w v"
  shows "wp (mark_paid_commit s x session intent)
     (\<lambda>d w'. d = to_order (paid_row x session intent (clock w)) \<and> saved_row w (paid_row x session intent (clock w)) w')
     (\<lambda>_ _. True) v"
proof -
  have c: "clock v = clock w" using v by (simp add: same_store_iff)
  have org: "keeps (same_store w) (org_of i)" for i by (intro keeps_intros)
  have "wp (bnd (tx (bnd (repo_update_order (paid_row x session intent (clock w))) (\<lambda>_. rs_emit s e)))
      (\<lambda>_. ret (to_order (paid_row x session intent (clock w)))))
     (\<lambda>d w'. d = to_order (paid_row x session intent (clock w)) \<and> saved_row w (paid_row x session intent (clock w)) w')
     (\<lambda>_ _. True) u" if "same_store w u" for e u
    unfolding wp_bnd wp_ret by (rule wp_mono [OF save_and_emit_spec]) (use saved_row_same [OF that] in simp_all)
  then show ?thesis
    unfolding mark_paid_commit_def Let_def wp_bnd [of time_now] wp_time_now wp_bnd [of "org_of _"]
      paid_row_def [symmetric] c
    by (intro wp_mono [OF keeps_wpI [OF org v]]) (auto simp: paid_row_def)
qed

lemma mark_paid_spec:
  "wp (mark_paid s i session intent)
     (\<lambda>d w'. \<exists>x. by_key or_id i (orders w) = Some x \<and>
        (or_status x = Confirmed \<and> same_store w w' \<and> d = to_order x \<or>
         or_status x = PendingPayment \<and> d = to_order (paid_row x session intent (clock w)) \<and>
         saved_row w (paid_row x session intent (clock w)) w'))
     (\<lambda>_ _. True) w"
  unfolding mark_paid_def wp_bnd [of "find_order_or _ _"]
  by (rule wp_mono [OF find_order_or_spec])
    (auto simp: wp_if wp_ret wp_bnd [of "guard _ _"] wp_guard intro!: mark_paid_commit_spec [THEN wp_mono])

lemma mark_paid_again:
  assumes "by_key or_id i (orders w) = Some x" "or_status x = Confirmed" "\<not> trips w"
  shows "mark_paid s i session intent w = (Inr (to_order x), tick w)"
  using assms by (simp add: mark_paid_def find_order_or_def get_order_by_id_def eval_store)

text \<open>C6. Marking paid confirms an order once. A successful \<open>MarkPaid\<close> found the order either CONFIRMED,
  and then changed nothing, or PENDING_PAYMENT, and then wrote CONFIRMED, the session and the time of payment into that one
  row. The same event delivered again, with whatever session, succeeds with the same order and writes nothing. No other order, no ticket type and no attendee changes: the
  attendees of a paid order are not minted here.\<close>

theorem mark_paid_effect:
  assumes "keyed or_id (orders w)" and "mark_paid s i session intent w = (Inr d, w')"
  shows "\<exists>x x'. by_key or_id i (orders w) = Some x \<and> by_key or_id i (orders w') = Some x' \<and>
    or_status x' = Confirmed \<and> ot_status d = Confirmed \<and> (or_status x = Confirmed \<longrightarrow> orders w' = orders w) \<and>
    (or_status x \<noteq> Confirmed \<longrightarrow> or_status x = PendingPayment \<and> or_session x' = Some session \<and>
       or_paid_at x' = Some (clock w)) \<and>
    (\<forall>j. j \<noteq> i \<longrightarrow> by_key or_id j (orders w') = by_key or_id j (orders w)) \<and>
    ticket_types w' = ticket_types w \<and> attendees w' = attendees w \<and>
    (\<not> trips w' \<longrightarrow> mark_paid s i session' intent' w' = (Inr d, tick w'))"
proof -
  from wp_okD [OF assms(2) mark_paid_spec] obtain x where x: "by_key or_id i (orders w) = Some x"
    and or: "or_status x = Confirmed \<and> same_store w w' \<and> d = to_order x \<or>
      or_status x = PendingPayment \<and> d = to_order (paid_row x session intent (clock w)) \<and>
      saved_row w (paid_row x session intent (clock w)) w'" by blast
  have i: "or_id x = i" using x by (rule by_key_key)
  from or show ?thesis
  proof
    assume "or_status x = Confirmed \<and> same_store w w' \<and> d = to_order x"
    then show ?thesis using x mark_paid_again [of i w' x]
      by (auto simp: attendees_same orders_same types_same to_order_def)
  next
    assume p: "or_status x = PendingPayment \<and> d = to_order (paid_row x session intent (clock w)) \<and>
      saved_row w (paid_row x session intent (clock w)) w'"
    then show ?thesis using x i mark_paid_again [of i w'] by (auto simp: saved_row_def paid_row_def to_order_def)
  qed
qed

definition pending_order :: "uuid \<Rightarrow> int \<Rightarrow> order_status \<Rightarrow> order" where
  "pending_order i n st = \<lparr>or_id = i, or_user = 2, or_event = 20, or_type = 31, or_quantity = n,
     or_price_cents = 500, or_currency = ''USD'', or_status = st, or_session = None,
     or_payment_intent = None, or_paid_at = None, or_key = None, or_expires_at = Some 900000000,
     or_created_at = 0, or_updated_at = 0\<rparr>"

definition pending_world :: order_state where
  "pending_world = sample_world\<lparr>ticket_types := [sample_type 31 500 5 3],
     orders := [pending_order 60 1 PendingPayment, pending_order 61 2 PendingPayment]\<rparr>"

lemma pending_mark_paid:
  "\<exists>d w'. mark_paid sample_orders 60 ''cs_1'' ''pi_1'' pending_world = (Inr d, w')"
  by (simp add: pending_world_def pending_order_def evals order_conflict_def)

theorem mark_paid_effect_witness:
  "\<exists>(w' :: order_state) x'. by_key or_id 60 (orders w') = Some x' \<and> or_status x' = Confirmed \<and>
     by_key or_id 61 (orders w') = Some (pending_order 61 2 PendingPayment) \<and> attendees w' = []"
proof -
  obtain d w' where p: "mark_paid sample_orders 60 ''cs_1'' ''pi_1'' pending_world = (Inr d, w')"
    using pending_mark_paid by blast
  have k: "keyed or_id (orders pending_world)" by (simp add: pending_world_def pending_order_def keyed_def)
  have "by_key or_id 61 (orders pending_world) = Some (pending_order 61 2 PendingPayment)"
    by (simp add: pending_world_def pending_order_def by_key_def)
  moreover obtain x' where "by_key or_id 60 (orders w') = Some x'" "or_status x' = Confirmed"
      "by_key or_id 61 (orders w') = by_key or_id 61 (orders pending_world)" "attendees w' = attendees pending_world"
    using mark_paid_effect [OF k p, of "[]" "[]"] by auto
  ultimately show ?thesis by (intro exI [of _ w'] exI [of _ x']) (simp add: pending_world_def)
qed

section \<open>The webhook\<close>

lemma bill_declines:
  "pm_billing s = None \<or> (\<exists>b ss. pm_billing s = Some b \<and> se_type evt = CheckoutCompleted \<and>
     se_session evt = Some ss \<and> \<not> ss_subscription_mode ss) \<Longrightarrow> bill s evt w = (Inr False, w)"
  by (auto simp: bill_def handle_billing_event_def on_checkout_completed_def on_error_def attempt_def ret_def bnd_def)

text \<open>C8. The webhook endpoint trusts only signed payloads and answers as documented. An empty payload or a bad
  signature is a 400 and changes nothing. A signed, paid checkout session (not of a subscription) is answered by what
  \<open>MarkPaid\<close> does to the order its metadata names: 200 \<open>ok\<close> when it is confirmed (now or before), 200 \<open>ignored\<close>
  when it is refused, so Stripe never retries it; an unpaid session confirms nothing.\<close>

theorem webhook_answers:
  assumes "payload \<noteq> []" and "pm_secret s \<noteq> []"
  shows "(pm_construct s payload sig (pm_secret s) = None \<longrightarrow>
      stripe_webhook s payload sig w = (Inr (400, ''bad signature''), w)) \<and>
    (\<forall>evt ss i. pm_construct s payload sig (pm_secret s) = Some evt \<and> se_type evt = CheckoutCompleted \<and>
       se_session evt = Some ss \<and> \<not> ss_subscription_mode ss \<and>
       ss_metadata ss ''order_id'' \<noteq> [] \<and>
       uuid_parse (rs_lib (pm_orders s)) (ss_metadata ss ''order_id'') = Some i \<longrightarrow>
       stripe_webhook s payload sig w =
         (if \<not> ss_paid ss then (Inr (200, ''ok''), w)
          else case mark_paid (pm_orders s) i (ss_id ss)
                      (case ss_payment_intent ss of None \<Rightarrow> [] | Some p \<Rightarrow> p) w of
             (Inr d, w') \<Rightarrow> (Inr (200, ''ok''), w')
           | (Inl e, w') \<Rightarrow> (Inr (200, ''ignored''), w')))"
proof (intro conjI allI impI)
  assume "pm_construct s payload sig (pm_secret s) = None"
  then show "stripe_webhook s payload sig w = (Inr (400, ''bad signature''), w)"
    using assms by (simp add: stripe_webhook_def handle_webhook_def attempt_def bnd_def guard_def ret_def
        the_or_fail_def fail_def is_signature_error_def)
next
  fix evt ss i
  assume a: "pm_construct s payload sig (pm_secret s) = Some evt \<and> se_type evt = CheckoutCompleted \<and>
       se_session evt = Some ss \<and> \<not> ss_subscription_mode ss \<and> ss_metadata ss ''order_id'' \<noteq> [] \<and>
       uuid_parse (rs_lib (pm_orders s)) (ss_metadata ss ''order_id'') = Some i"
  then have "bill s evt w = (Inr False, w)" by (cases "pm_billing s") (auto intro!: bill_declines)
  with a assms show "stripe_webhook s payload sig w =
         (if \<not> ss_paid ss then (Inr (200, ''ok''), w)
          else case mark_paid (pm_orders s) i (ss_id ss)
                      (case ss_payment_intent ss of None \<Rightarrow> [] | Some p \<Rightarrow> p) w of
             (Inr d, w') \<Rightarrow> (Inr (200, ''ok''), w')
           | (Inl e, w') \<Rightarrow> (Inr (200, ''ignored''), w'))"
    by (auto simp: stripe_webhook_def handle_webhook_def dispatch_event_def fulfill_session_def
        attempt_def bnd_def guard_def ret_def the_or_fail_def fail_def on_error_def is_signature_error_def
        split: prod.split sum.split option.split)
qed

text \<open>A paid session of an order whose hold has expired: the money is taken, the answer is 200.\<close>

definition expired_world :: order_state where
  "expired_world = pending_world\<lparr>orders := [pending_order 60 1 Expired]\<rparr>"

theorem webhook_answers_witness:
  "stripe_webhook sample_payments (sample_text 60) ''bad'' expired_world = (Inr (400, ''bad signature''), expired_world) \<and>
   stripe_webhook sample_payments (sample_text 60) ''sig'' expired_world = (Inr (200, ''ignored''), expired_world)"
proof -
  have m: "mark_paid sample_orders 60 ''cs_1'' ''pi_1'' expired_world
      = (Inl (OrderE order_err.ErrInvalidStatus), expired_world)"
    by (simp add: expired_world_def pending_world_def pending_order_def evals)
  have "sample_text 60 \<noteq> []" by (simp add: sample_text_def)
  then show ?thesis
    using webhook_answers [of "sample_text 60" sample_payments "''bad''" expired_world]
      webhook_answers [of "sample_text 60" sample_payments "''sig''" expired_world] m
    by (auto simp: sample_payments_def sample_construct_def paid_session_def sample_orders_def)
qed

section \<open>Cancelling\<close>

text \<open>Who may cancel: the buyer, or a member of the event's organization at ADMIN or above.\<close>

definition manages :: "uuid \<Rightarrow> uuid \<Rightarrow> 'z event_state_scheme \<Rightarrow> bool" where
  "manages user ev w \<longleftrightarrow> (\<exists>e m. by_key ev_id ev (live_events w) = Some e \<and>
     member_of (ev_org e) user (memberships w) = Some m \<and> level ADMIN \<le> level (mb_role m))"

lemma manages_tables: "on_tables (manages user ev)"
  by (rule on_tablesI) (simp add: manages_def live_events_def)

lemma manageable_spec:
  "wp (manageable user x) (\<lambda>ok w'. same_store w w' \<and> (ok \<longrightarrow> manages user (or_event x) w)) (\<lambda>_. same_store w) w"
  unfolding manageable_def org_of_def can_manage_def get_event_by_id_def get_membership_def manages_def
  by (auto simp: wp_simps live_events_def split: option.split)

lemma cancel_order_check_who:
  "wp (cancel_order_check caller i)
     (\<lambda>(x, org) w'. same_store w w' \<and> by_key or_id i (orders w) = Some x \<and>
        (or_user x = caller \<or> manages caller (or_event x) w)) (\<lambda>_ _. True) w"
  unfolding cancel_order_check_def wp_bnd [of "find_order_or _ _"]
proof (rule wp_mono [OF find_order_or_spec])
  fix x and w' :: "'a order_state_scheme"
  assume x: "same_store w w' \<and> by_key or_id i (orders w) = Some x \<and> or_id x = i"
  have o: "keeps (same_store w) (org_of (or_event x))" by (intro keeps_intros)
  have m: "manages caller (or_event x) w' = manages caller (or_event x) w"
    using on_tables_same [OF manages_tables, of w w'] x by auto
  have s: "same_store w v" if "same_store w' v" for v using x that same_store_trans by blast
  show "wp (bnd (if or_user x \<noteq> caller then manageable caller x else ret True) (\<lambda>ok.
      bnd (guard ok (OrderE order_err.ErrOrderNotFound)) (\<lambda>_.
      bnd (guard (\<not> (order_terminal (or_status x) \<and> or_status x \<noteq> Confirmed))
            (OrderE order_err.ErrInvalidStatus)) (\<lambda>_.
      bnd (org_of (or_event x)) (\<lambda>org. ret (x, org))))))
     (\<lambda>(x, org) w'. same_store w w' \<and> by_key or_id i (orders w) = Some x \<and>
        (or_user x = caller \<or> manages caller (or_event x) w)) (\<lambda>_ _. True) w'"
    by (auto simp: wp_bnd wp_if wp_guard wp_ret x m s
        intro!: wp_mono [OF manageable_spec] wp_mono [OF keeps_wpI [OF o]])
qed simp

lemma release_tx_spec:
  "wp (release_tx i n)
     (\<lambda>_ w'. orders w' = orders w \<and> attendees w' = attendees w \<and> (\<exists>t now. by_key tt_id i (live_types w) = Some t \<and>
        ticket_types w' = modify (\<lambda>t. tt_id t = i \<and> tt_live t)
          (\<lambda>t. t\<lparr>tt_sold := tt_sold t + wrap64 (- n), tt_updated_at := now\<rparr>) (ticket_types w)))
     (\<lambda>_ _. True) w"
  unfolding release_tx_def lock_type_def add_sold_def
  by (auto simp: wp_simps live_types_def split: option.split)

text \<open>The row in its end state, its units given back, nothing else but the trail.\<close>

definition closed_row :: "'z order_state_scheme \<Rightarrow> order \<Rightarrow> order_status \<Rightarrow> 'z order_state_scheme \<Rightarrow> bool" where
  "closed_row w x to w' \<longleftrightarrow>
     (\<exists>now. orders w' = upsert or_id (x\<lparr>or_status := to, or_updated_at := now\<rparr>) (orders w)) \<and>
     attendees w' = attendees w \<and>
     (\<exists>t now. by_key tt_id (or_type x) (live_types w) = Some t \<and>
        ticket_types w' = modify (\<lambda>t. tt_id t = or_type x \<and> tt_live t)
          (\<lambda>t. t\<lparr>tt_sold := tt_sold t + wrap64 (- or_quantity x), tt_updated_at := now\<rparr>) (ticket_types w))"

lemma closed_row_keeps [keeps_intros]: "on_tables (closed_row w x to)" "quiet (closed_row w x to)"
  by (auto intro!: quietI on_tablesI simp: closed_row_def)

lemma closed_row_same: "same_store w v \<Longrightarrow> closed_row v x to w' = closed_row w x to w'"
  by (simp add: closed_row_def orders_same types_same attendees_same live_types_def)

lemma closed_row_tick: "closed_row w x to (tick v) = closed_row w x to v"
  by (simp add: closed_row_def)

lemma close_order_tx_spec:
  "wp (close_order_tx s actor org action morph to x)
     (\<lambda>y w'. y = x\<lparr>or_status := to\<rparr> \<and> closed_row w x to w') (\<lambda>_ _. True) w"
proof -
  have emit: "wp (bnd (rs_emit s e) (\<lambda>_. ret y)) (\<lambda>z w'. z = y \<and> closed_row w x to w') (\<lambda>_ _. True) v"
    if "closed_row w x to v" for e v and y :: order
  proof -
    have "keeps (closed_row w x to) (rs_emit s e)" by (intro keeps_intros)
    from wp_rest [OF this that] show ?thesis by (simp add: wp_bnd wp_ret)
  qed
  have body: "wp (bnd (on_error (release_tx (or_type x) (or_quantity x)) morph) (\<lambda>_.
      bnd (repo_update_order (x\<lparr>or_status := to\<rparr>)) (\<lambda>_.
      bnd (rs_emit s e) (\<lambda>_. ret (x\<lparr>or_status := to\<rparr>)))))
      (\<lambda>y w'. y = x\<lparr>or_status := to\<rparr> \<and> closed_row w x to w') (\<lambda>_ _. True) (tick w)" for e
    unfolding wp_bnd [of "on_error _ _"] wp_on_error wp_bnd [of "repo_update_order _"]
    by (rule wp_mono [OF release_tx_spec [of _ _ "tick w"]], rule wp_mono [OF repo_update_order_spec], rule emit)
      (auto simp: closed_row_def live_types_def)
  show ?thesis
    unfolding close_order_tx_def Let_def wp_tx
    by (cases "trips w") (auto simp: closed_row_tick intro!: wp_mono [OF body])
qed

lemma cancel_order_spec:
  "wp (cancel_order s caller i)
     (\<lambda>d w'. \<exists>x. by_key or_id i (orders w) = Some x \<and> holding (or_status x) \<and>
        (or_user x = caller \<or> manages caller (or_event x) w) \<and> closed_row w x OrderCancelled w')
     (\<lambda>_ _. True) w"
proof -
  have check: "wp (cancel_order_check caller i)
     (\<lambda>(x, org) w'. same_store w w' \<and> by_key or_id i (orders w) = Some x \<and> holding (or_status x) \<and>
        (or_user x = caller \<or> manages caller (or_event x) w)) (\<lambda>_ _. True) w"
    by (rule wp_mono [OF wp_conj [OF cancel_order_check_spec cancel_order_check_who]]) auto
  show ?thesis
    unfolding cancel_order_def cancel_order_commit_def wp_bnd wp_case_prod wp_ret
    by (rule wp_mono [OF check])
      (auto simp: closed_row_same intro!: wp_mono [OF close_order_tx_spec])
qed

text \<open>C7. A cancellation is authorised and gives the units back once. A successful \<open>CancelOrder\<close> was asked by the
  buyer or by an ADMIN or OWNER of the event's organization, for an order that was not yet cancelled or expired; it leaves that
  order CANCELLED and every other order as it was, and the sold count of the order's live ticket type is lower by exactly the order's quantity.
  The attendees are untouched: the tickets of a cancelled order stay valid at the door.\<close>

theorem cancel_order_effect:
  assumes "reached y w" and "cancel_order s caller i w = (Inr d, w')"
  shows "\<exists>x x' t now. by_key or_id i (orders w) = Some x \<and> (or_user x = caller \<or> manages caller (or_event x) w) \<and>
    or_status x \<notin> {OrderCancelled, Expired} \<and>
    by_key or_id i (orders w') = Some x' \<and> or_status x' = OrderCancelled \<and>
    (\<forall>j. j \<noteq> i \<longrightarrow> by_key or_id j (orders w') = by_key or_id j (orders w)) \<and>
    by_key tt_id (or_type x) (live_types w) = Some t \<and>
    ticket_types w' = modify (\<lambda>t. tt_id t = or_type x \<and> tt_live t)
      (\<lambda>t. t\<lparr>tt_sold := tt_sold t - or_quantity x, tt_updated_at := now\<rparr>) (ticket_types w) \<and>
    attendees w' = attendees w"
proof -
  obtain x where x: "by_key or_id i (orders w) = Some x" "holding (or_status x)"
      "or_user x = caller \<or> manages caller (or_event x) w" and c: "closed_row w x OrderCancelled w'"
    using wp_okD [OF assms(2) cancel_order_spec] by blast
  have i: "or_id x = i" using x(1) by (rule by_key_key)
  have "order_row_ok x"
    using reached_books [OF assms(1)] by_key_Some [OF x(1)]
    by (auto simp: even_books_def books_def balanced_def)
  then have n: "wrap64 (- or_quantity x) = - or_quantity x"
    by (simp add: order_row_ok_def fits32_bounds wrap64_small)
  obtain u now t where u: "orders w' = upsert or_id (x\<lparr>or_status := OrderCancelled, or_updated_at := u\<rparr>) (orders w)"
      "attendees w' = attendees w" "by_key tt_id (or_type x) (live_types w) = Some t"
      "ticket_types w' = modify (\<lambda>t. tt_id t = or_type x \<and> tt_live t)
      (\<lambda>t. t\<lparr>tt_sold := tt_sold t - or_quantity x, tt_updated_at := now\<rparr>) (ticket_types w)"
    using c n unfolding closed_row_def by auto
  show ?thesis
    by (intro exI [of _ x] exI [of _ "x\<lparr>or_status := OrderCancelled, or_updated_at := u\<rparr>"] exI [of _ t] exI [of _ now])
      (use x i u in \<open>auto simp: holding_def\<close>)
qed

theorem cancel_order_effect_witness:
  "\<exists>x'. by_key or_id 103 (orders cancelled_world) = Some x' \<and> or_status x' = OrderCancelled \<and>
     attendees cancelled_world = attendees sold_world"
proof -
  have "\<exists>d. cancel_order sample_orders 2 103 sold_world = (Inr d, cancelled_world)"
    by (simp add: cancelled_world_def sold_world_def open_world_def listed_world_def bare_world_def
        day_ticket_def evals sample_text_def list_all_iff order_conflict_def)
  then obtain d where "cancel_order sample_orders 2 103 sold_world = (Inr d, cancelled_world)" ..
  from cancel_order_effect [OF reached_sold this] show ?thesis by auto
qed

end
