(* ===== verification/Requests.thy ===== *)
theory Requests
  imports Settling
begin

text \<open>
  Invariants of the whole system. The locale \<open>request_invariant\<close> is the contract of an invariant: every call a request can make
  keeps the predicate. What follows from it is stated once, and each component discharges the contract for its own
  invariant with the frame lemmas for the calls of the other components. The first instance is the audit trail.
\<close>

section \<open>The contract\<close>

locale request_invariant =
  fixes I :: "order_state \<Rightarrow> bool" and y :: system
  assumes order_calls: "keeps I (create_order (sy_orders y) user ev inp)" "keeps I (cancel_order (sy_orders y) user i)"
      "keeps I (sweep_expired (sy_orders y) batch)" "keeps I (create_checkout (sy_payments y) user i app)"
      "keeps I (handle_webhook (sy_payments y) payload sig)"
    and ticket_calls: "keeps I (create_type (sy_tickets y) caller orgref ref0 tinp)"
      "keeps I (update_type (sy_tickets y) caller orgref ref0 ref1 tupd)"
      "keeps I (delete_type (sy_tickets y) caller orgref ref0 ref1)"
      "keeps I (activate_type (sy_tickets y) caller orgref ref0 ref1)"
      "keeps I (pause_type (sy_tickets y) caller orgref ref0 ref1)"
    and event_calls: "keeps I (create_event (sy_events y) user orgref einp)"
      "keeps I (update_event (sy_events y) user orgref ref0 eupd)" "keeps I (publish_event (sy_events y) user orgref ref0)"
      "keeps I (unpublish_event (sy_events y) user orgref ref0)" "keeps I (cancel_event (sy_events y) user orgref ref0)"
      "keeps I (delete_event (sy_events y) user orgref ref0)" "keeps I (add_gallery_images (sy_events y) orgref ref0 ups)"
      "keeps I (set_cover (sy_events y) orgref ref0 bytes n ty)" "keeps I (get_public_event (sy_events y) i)"
    and desk_calls: "keeps I (add_manual (sy_attendees y) org ref0 email name)"
      "keeps I (correct_attendee_in_event ev i name' email')" "keeps I (cancel_mine user i)"
    and kit_calls: "keeps I (create_kit (sy_kits y) org ref0 nm desc qty staff)"
      "keeps I (update_kit (sy_kits y) org ref0 ref1 nm' desc' qty' staff)"
      "keeps I (delete_kit (sy_kits y) org ref0 ref1 staff)"
      "keeps I (collect (sy_kits y) org ref0 ref1 ref2 hold key staff)"
      "keeps I (mark_collected (sy_kits y) org ref0 ref1 staff)"
      "keeps I (void_collection (sy_kits y) org ref0 ref1 staff)"
    and scan_calls: "keeps I (scan (sy_checkins y) org ref0 code ref1 staff)"
      "keeps I (scan_batch (sy_checkins y) org ref0 codes staff)"
      "keeps I (revert (sy_checkins y) org ref0 ref1 staff)"
    and org_calls: "keeps I (create_org (sy_orgs y) user nm slug logo)" "keeps I (update_org (sy_orgs y) user ref0 nm slug logo)"
      "keeps I (delete_org (sy_orgs y) (Some (delete_org_assets (sy_events y))) user ref0)"
      "keeps I (add_member (sy_orgs y) user ref0 email role)" "keeps I (update_member_role (sy_orgs y) user ref0 target role)"
      "keeps I (remove_member (sy_orgs y) user ref0 target)" "keeps I (update_my_preferences (sy_orgs y) user ref0 notify)"
    and billing_calls: "keeps I (start_checkout (sy_billing y) user org plan)"
      "keeps I (create_portal_session (sy_billing y) user org url)"
    and backstage_calls: "backstage (sy_auth y) (sy_orgs y) (sy_admin y) (sy_survives y) w w' \<Longrightarrow> I w \<Longrightarrow> I w'"
    and time_passes: "I w \<Longrightarrow> 0 \<le> dt \<Longrightarrow> I (w\<lparr>clock := clock w + dt\<rparr>)"
    and failures: "I w \<Longrightarrow> I (w\<lparr>faults := fs\<rparr>)"
    and accounts: "I w \<Longrightarrow> I (w\<lparr>users := us\<rparr>)"
begin

lemmas calls = order_calls ticket_calls event_calls desk_calls kit_calls scan_calls org_calls billing_calls

lemma step: "request y w w' \<Longrightarrow> I w \<Longrightarrow> I w'"
  by (induction rule: request.induct; (erule (1) keeps_run, rule calls)?) (simp_all add: time_passes failures accounts backstage_calls)

lemma steps: "(request y)\<^sup>*\<^sup>* w w' \<Longrightarrow> I w \<Longrightarrow> I w'"
  by (induction rule: rtranclp_induct) (auto intro: step)

lemma from_start: "reached y w \<Longrightarrow> (\<And>v. ticket_types v = [] \<Longrightarrow> orders v = [] \<Longrightarrow> I v) \<Longrightarrow> I w"
  by (induction rule: reached.induct) (auto intro: step)

end

section \<open>Selling, paying, listing tickets\<close>

text \<open>The handler of billing events is the only one of these that writes a subscription, and it is an argument of the frame.\<close>

lemma keeps_shop_core:
  assumes q: "quiet I" and rows: "\<And>l x. keeps I (repo_create_order l x)" "\<And>x. keeps I (repo_update_order x)"
      "\<And>i n. keeps I (add_sold i n)" "\<And>l t. keeps I (repo_create_type l t)" "\<And>t. keeps I (repo_update_type t)"
      "\<And>i. keeps I (repo_delete_type i)"
    and a1: "\<And>w x. I w \<Longrightarrow> I (w\<lparr>attendees := x\<rparr>)" and bl: "\<And>b evt. keeps I (handle_billing_event b evt)"
  shows "keeps I (create_order os user ev inp)" "keeps I (cancel_order os user i)" "keeps I (sweep_expired os batch)"
    "keeps I (create_checkout ps user i app)" "keeps I (handle_webhook ps payload sig)"
    "keeps I (create_type ts caller orgref ref0 tinp)" "keeps I (update_type ts caller orgref ref0 ref1 tupd)"
    "keeps I (delete_type ts caller orgref ref0 ref1)" "keeps I (activate_type ts caller orgref ref0 ref1)"
    "keeps I (pause_type ts caller orgref ref0 ref1)"
proof -
  note [keeps_intros] = quiet_tables [OF q] q
  note rows [keeps_intros]
  have [keeps_intros]: "keeps I (reserve_tx i' n)" "keeps I (release_tx i' n)" for i' n
    unfolding reserve_tx_def release_tx_def by (intro keeps_intros)+
  have [keeps_intros]: "keeps I (claim_effects s user org x)" for s org x
    by (intro keeps_claim_effects q a1)
  show "keeps I (create_order os user ev inp)"
    unfolding create_order_def create_order_fresh_def create_order_tx_def by (intro keeps_intros)
  have [keeps_intros]: "keeps I (mark_paid os i session intent)" for os i session intent
    unfolding mark_paid_def mark_paid_commit_def by (intro keeps_intros)
  have [keeps_intros]: "keeps I (close_order_tx s actor org action morph to x)" for s actor org action morph to x
    unfolding close_order_tx_def by (intro keeps_intros)
  show "keeps I (cancel_order os user i)"
    unfolding cancel_order_def cancel_order_commit_def by (intro keeps_intros)
  have "keeps I (sweep_loop s xs)" for s xs
    by (induction xs) (auto simp: expire_one_def intro!: keeps_intros)
  then show "keeps I (sweep_expired os batch)"
    unfolding sweep_expired_def by (intro keeps_intros)
  have [keeps_intros]: "keeps I (checkout_detail_of s user i)" for s
    unfolding checkout_detail_of_def by (intro keeps_intros)
  have [keeps_intros]: "keeps I (set_stripe_session i session)" for i session
    unfolding set_stripe_session_def by (intro keeps_intros)
  show "keeps I (create_checkout ps user i app)"
    unfolding create_checkout_def create_new_def create_session_def Let_def by (intro keeps_intros)
  note bl [keeps_intros]
  have [keeps_intros]: "keeps I (fulfill_session s evt)" "keeps I (bill s evt)" for s evt
    unfolding fulfill_session_def bill_def by (intro keeps_intros)+
  have "keeps I (dispatch_event s evt)" for s evt
    unfolding dispatch_event_def by (cases "se_type evt") (auto intro!: keeps_intros)
  then show "keeps I (handle_webhook ps payload sig)"
    unfolding handle_webhook_def by (intro keeps_intros)
  show "keeps I (create_type ts caller orgref ref0 tinp)"
    unfolding create_type_def by (intro keeps_intros)
  show "keeps I (update_type ts caller orgref ref0 ref1 tupd)"
    unfolding update_type_def update_type_check_def by (intro keeps_intros)
  show "keeps I (delete_type ts caller orgref ref0 ref1)"
    unfolding delete_type_def by (intro keeps_intros)
  have [keeps_intros]: "keeps I (set_type_status ts caller orgref ref0 ref1 to src)" for to src
    unfolding set_type_status_def set_type_status_check_def by (intro keeps_intros)
  show "keeps I (activate_type ts caller orgref ref0 ref1)" "keeps I (pause_type ts caller orgref ref0 ref1)"
    unfolding activate_type_def pause_type_def by (intro keeps_intros)+
qed

lemma keeps_shop_rows:
  assumes q: "quiet I" and rows: "\<And>l x. keeps I (repo_create_order l x)" "\<And>x. keeps I (repo_update_order x)"
      "\<And>i n. keeps I (add_sold i n)" "\<And>l t. keeps I (repo_create_type l t)" "\<And>t. keeps I (repo_update_type t)"
      "\<And>i. keeps I (repo_delete_type i)"
    and a1: "\<And>w x. I w \<Longrightarrow> I (w\<lparr>attendees := x\<rparr>)" and s1: "\<And>w x. I w \<Longrightarrow> I (w\<lparr>subs := x\<rparr>)"
  shows "keeps I (create_order os user ev inp)" "keeps I (cancel_order os user i)" "keeps I (sweep_expired os batch)"
    "keeps I (create_checkout ps user i app)" "keeps I (handle_webhook ps payload sig)"
    "keeps I (create_type ts caller orgref ref0 tinp)" "keeps I (update_type ts caller orgref ref0 ref1 tupd)"
    "keeps I (delete_type ts caller orgref ref0 ref1)" "keeps I (activate_type ts caller orgref ref0 ref1)"
    "keeps I (pause_type ts caller orgref ref0 ref1)"
proof -
  have bl: "keeps I (handle_billing_event b evt)" for b evt by (intro quiet_billing q s1)
  show "keeps I (create_order os user ev inp)" "keeps I (cancel_order os user i)" "keeps I (sweep_expired os batch)"
    "keeps I (create_checkout ps user i app)" "keeps I (handle_webhook ps payload sig)"
    "keeps I (create_type ts caller orgref ref0 tinp)" "keeps I (update_type ts caller orgref ref0 ref1 tupd)"
    "keeps I (delete_type ts caller orgref ref0 ref1)" "keeps I (activate_type ts caller orgref ref0 ref1)"
    "keeps I (pause_type ts caller orgref ref0 ref1)"
    by (rule keeps_shop_core [OF q rows a1 bl]; assumption)+
qed

lemma keeps_shop_calls:
  assumes q: "quiet I" and o1: "\<And>w x. I w \<Longrightarrow> I (w\<lparr>orders := x\<rparr>)" and t1: "\<And>w x. I w \<Longrightarrow> I (w\<lparr>ticket_types := x\<rparr>)"
    and a1: "\<And>w x. I w \<Longrightarrow> I (w\<lparr>attendees := x\<rparr>)" and s1: "\<And>w x. I w \<Longrightarrow> I (w\<lparr>subs := x\<rparr>)"
  shows "keeps I (create_order os user ev inp)" "keeps I (cancel_order os user i)" "keeps I (sweep_expired os batch)"
    "keeps I (create_checkout ps user i app)" "keeps I (handle_webhook ps payload sig)"
    "keeps I (create_type ts caller orgref ref0 tinp)" "keeps I (update_type ts caller orgref ref0 ref1 tupd)"
    "keeps I (delete_type ts caller orgref ref0 ref1)" "keeps I (activate_type ts caller orgref ref0 ref1)"
    "keeps I (pause_type ts caller orgref ref0 ref1)"
proof -
  note [keeps_intros] = quiet_tables [OF q] q
  have rows: "keeps I (repo_create_order l x)" "keeps I (repo_update_order x)" "keeps I (add_sold i' n)" "keeps I (repo_create_type l t)"
      "keeps I (repo_update_type t)" "keeps I (repo_delete_type i')" for l x i' n t
    unfolding repo_create_order_def repo_update_order_def add_sold_def repo_create_type_def repo_update_type_def repo_delete_type_def Let_def
    by (intro keeps_intros o1 t1; assumption)+
  show "keeps I (create_order os user ev inp)" "keeps I (cancel_order os user i)" "keeps I (sweep_expired os batch)"
    "keeps I (create_checkout ps user i app)" "keeps I (handle_webhook ps payload sig)"
    "keeps I (create_type ts caller orgref ref0 tinp)" "keeps I (update_type ts caller orgref ref0 ref1 tupd)"
    "keeps I (delete_type ts caller orgref ref0 ref1)" "keeps I (activate_type ts caller orgref ref0 ref1)"
    "keeps I (pause_type ts caller orgref ref0 ref1)"
    by (rule keeps_shop_rows [OF q rows a1 s1]; assumption)+
qed

section \<open>The audit trail\<close>

lemma trail_quiet: "quiet (trail_extends es)"
  unfolding quiet_def by (auto intro: keeps_intros simp: trail_extends_def)

interpretation trail: request_invariant "trail_extends es" y for es y
proof unfold_locales
  fix user ref0
  have "keeps (trail_extends es) (delete_org_assets (sy_events y) org)" for org
    by (intro keeps_event_calls trail_quiet) (simp_all add: trail_extends_def)
  then show "keeps (trail_extends es) (delete_org (sy_orgs y) (Some (delete_org_assets (sy_events y))) user ref0)"
    by (intro keeps_org_calls trail_quiet) (auto simp: trail_extends_def)
next
  fix w w' assume "backstage (sy_auth y) (sy_orgs y) (sy_admin y) (sy_survives y) w w'" "trail_extends es w"
  then show "trail_extends es w'"
    by (rule backstage_keeps)
      (rule trail_quiet, simp add: apart_def trail_extends_def, simp add: secretless_def trail_extends_def, intro keeps_new_member trail_extends_tables, simp add: trail_extends_def)
qed ((intro keeps_shop_calls keeps_event_calls keeps_attendee_calls keeps_kit_calls keeps_checkin_calls keeps_org_calls
    keeps_billing_calls quiet_public_event trail_quiet trail_extends_tables;
    simp add: trail_extends_def)+, simp_all add: trail_extends_def)

text \<open>C14. The audit trail is append-only. No request, whatever it is, how it ends and which of its database accesses fail,
  removes or rewrites a row of \<open>audit_events\<close>: the rows found stay, in order, at the front.\<close>

theorem audit_append_only:
  assumes "(request y)\<^sup>*\<^sup>* w w'"
  shows "\<exists>new. audit_events w' = audit_events w @ new"
  using trail.steps [OF assms, of "audit_events w"] by (simp add: trail_extends_def)

theorem audit_append_only_witness:
  "audit_events open_world \<noteq> [] \<and> (\<exists>new. audit_events sold_world = audit_events open_world @ new)"
proof
  show "audit_events open_world \<noteq> []"
    by (simp add: open_world_def listed_world_def bare_world_def day_ticket_def evals sample_text_def list_all_iff)
  show "\<exists>new. audit_events sold_world = audit_events open_world @ new"
    by (rule audit_append_only [where y = sample_system]) (rule r_into_rtranclp, rule request_sold)
qed

end
