(* ===== verification/Door.thy ===== *)
theory Door
  imports Requests
begin

text \<open>
  Facts about attendees and the door: the QR payload round trip, the table of scan verdicts, the flip
  that happens at most once, and the ledger that ties the status of every attendee to the check-in log,
  kept by every request of the system.
\<close>

section \<open>The QR payload\<close>

lemma split_payload: "CHR ''.'' \<notin> set a \<Longrightarrow> CHR ''.'' \<notin> set b \<Longrightarrow> CHR ''.'' \<notin> set c \<Longrightarrow>
    split_on CHR ''.'' (a @ ''.'' @ b @ ''.'' @ c) = [a, b, c]"
  using split_on_append [of "CHR ''.''" a "b @ ''.'' @ c"] split_on_append [of "CHR ''.''" b c]
  by (simp add: split_on_no_sep)

lemma payload_parts: "split_on CHR ''.'' p = [a, b, c] \<Longrightarrow> p = (a @ ''.'' @ b) @ ''.'' @ c"
  using join_split [of "CHR ''.''" p] by simp

lemma verify_build:
  assumes "uuid_parse l (uuid_text l i) = Some i" and "uuid_text l i \<noteq> []" and "CHR ''.'' \<notin> set (uuid_text l i)"
    and "\<And>m. hmac_sha256 l secret m \<noteq> []" and "raw \<noteq> []" and "CHR ''.'' \<notin> set raw"
  shows "verify_payload l (build_payload l i raw secret) secret = Some (i, raw)"
proof -
  have "split_on CHR ''.'' (build_payload l i raw secret) =
      [uuid_text l i, raw, hex_encode (hmac_sha256 l secret (uuid_text l i @ ''.'' @ raw))]"
    unfolding build_payload_def Let_def append_assoc
    by (rule split_payload) (use assms hex_encode_no_dot in simp_all)
  then show ?thesis using assms by (simp add: verify_payload_def hex_decode_encode)
qed

text \<open>C9. The QR payload of a minted ticket verifies to exactly the attendee and token it was built from, and
  nothing verifies without the secret's HMAC: a payload that verifies is three non-empty parts, identifier, token, and
  the hexadecimal HMAC of the first two under the same secret. The laws asked of the UUID library are
  that its text parses back and holds no dot; a HMAC is not empty.\<close>

theorem qr_roundtrip:
  assumes "\<And>i. uuid_parse l (uuid_text l i) = Some i" and "\<And>i. uuid_text l i \<noteq> [] \<and> CHR ''.'' \<notin> set (uuid_text l i)"
    and "\<And>k m. hmac_sha256 l k m \<noteq> []"
  shows "(raw \<noteq> [] \<and> CHR ''.'' \<notin> set raw \<longrightarrow> verify_payload l (build_payload l i raw secret) secret = Some (i, raw)) \<and>
    (verify_payload l payload secret = Some (j, tok) \<longrightarrow>
       (\<exists>a mac. payload = (a @ ''.'' @ tok) @ ''.'' @ mac \<and> uuid_parse l a = Some j \<and> tok \<noteq> [] \<and>
          hex_decode mac = Some (hmac_sha256 l secret (a @ ''.'' @ tok))))"
proof (intro conjI impI)
  assume "raw \<noteq> [] \<and> CHR ''.'' \<notin> set raw"
  with assms show "verify_payload l (build_payload l i raw secret) secret = Some (i, raw)"
    by (intro verify_build) auto
next
  assume "verify_payload l payload secret = Some (j, tok)"
  then obtain a mac where p: "split_on CHR ''.'' payload = [a, tok, mac]" "tok \<noteq> []"
      "uuid_parse l a = Some j" "hex_decode mac = Some (hmac_sha256 l secret (a @ ''.'' @ tok))"
    by (auto simp: verify_payload_def split: list.splits option.splits if_splits)
  from payload_parts [OF p(1)] p(2-)
  show "\<exists>a mac. payload = (a @ ''.'' @ tok) @ ''.'' @ mac \<and> uuid_parse l a = Some j \<and> tok \<noteq> [] \<and>
          hex_decode mac = Some (hmac_sha256 l secret (a @ ''.'' @ tok))" by blast
qed

definition keyed_lib :: lib where
  "keyed_lib = sample_lib\<lparr>hmac_sha256 := (\<lambda>key m. CHR ''h'' # key @ m)\<rparr>"

theorem qr_roundtrip_witness:
  "verify_payload keyed_lib (build_payload keyed_lib 3 ''ab12'' ''key'') ''key'' = Some (3, ''ab12'')"
  using qr_roundtrip [of keyed_lib "''ab12''" 3 "''key''"]
  by (auto simp: keyed_lib_def sample_text_def sample_parse_def list_all_iff)

section \<open>The flip\<close>

text \<open>A field that the control fields do not touch is the same in states of the same store.\<close>

lemma same_field:
  assumes "same_store w w'" and "\<And>f n r. g (w\<lparr>faults := f, drawn_uuids := n, drawn_tokens := r\<rparr>) = g w"
  shows "g w' = g w"
  using assms unfolding same_store_def rollback_def by metis

lemma collections_same: "same_store w w' \<Longrightarrow> collections w' = collections w"
  by (erule same_field) simp

lemma kits_same: "same_store w w' \<Longrightarrow> kits w' = kits w"
  by (erule same_field) simp

lemma logs_same: "same_store w w' \<Longrightarrow> checkin_logs w' = checkin_logs w"
  by (erule same_field) simp

lemma clock_same: "same_store w w' \<Longrightarrow> clock w' = clock w"
  by (erule same_field) simp

definition admits :: "uuid \<Rightarrow> bool \<Rightarrow> attendee \<Rightarrow> bool" where
  "admits ev tok x \<longleftrightarrow> at_event x = ev \<and> tok \<and> at_status x = Registered"

definition flipped :: "instant \<Rightarrow> attendee \<Rightarrow> attendee" where
  "flipped now x = x\<lparr>at_status := CheckedIn, at_checked_in_at := Some now, at_updated_at := now\<rparr>"

definition door_verdict :: "uuid \<Rightarrow> bool \<Rightarrow> instant \<Rightarrow> attendee \<Rightarrow> scan_verdict" where
  "door_verdict ev tok now x = \<lparr>sv_event_ok = (at_event x = ev), sv_token_ok = tok,
     sv_flipped = admits ev tok x, sv_status = (if admits ev tok x then CheckedIn else at_status x),
     sv_checked_in_at = (if admits ev tok x then Some now else None)\<rparr>"

text \<open>The state in which row \<open>x\<close> went through the door, up to the script and the draws.\<close>

definition through_door :: "uuid \<Rightarrow> bool \<Rightarrow> attendee \<Rightarrow> 'z attendee_state_scheme \<Rightarrow> 'z attendee_state_scheme" where
  "through_door ev tok x w = (if admits ev tok x
     then w\<lparr>attendees := upsert at_id (flipped (clock w) x) (attendees w)\<rparr> else w)"

lemma tick_attendees: "tick (w\<lparr>attendees := a\<rparr>) = (tick w)\<lparr>attendees := a\<rparr>"
  by (simp add: tick_def)

lemma same_store_attendees: "same_store w v \<Longrightarrow> same_store (w\<lparr>attendees := a\<rparr>) (v\<lparr>attendees := a\<rparr>)"
  by (cases w; cases v) (simp add: same_store_def rollback_def)

lemma door_verdict_simps [simp]:
  "sv_flipped (door_verdict ev tok now x) = admits ev tok x"
  "sv_checked_in_at (door_verdict ev tok now x) = (if admits ev tok x then Some now else None)"
  by (simp_all add: door_verdict_def)

lemma flip_spec:
  assumes "admits ev tok x" and v: "same_store w v"
  shows "wp (flip x \<lparr>sv_event_ok = (at_event x = ev), sv_token_ok = tok, sv_flipped = False,
              sv_status = at_status x, sv_checked_in_at = None\<rparr>)
     (\<lambda>r w'. r = door_verdict ev tok (clock w) x \<and> same_store (through_door ev tok x w) w') (\<lambda>e w'. same_store w w' \<and> e = DbError) v"
proof -
  have "clock v = clock w" using v by (simp add: same_store_iff)
  then show ?thesis
    using assms same_store_attendees [of w v] by (simp add: flip_def repo_update_attendee_def wp_simps
        door_verdict_def through_door_def flipped_def attendees_same [OF v] tick_attendees [symmetric])
qed

lemma door_step_spec:
  "wp (bnd (get_for_update i) (\<lambda>a.
     let v = \<lparr>sv_event_ok = (at_event a = ev), sv_token_ok = tok a, sv_flipped = False,
              sv_status = at_status a, sv_checked_in_at = None\<rparr> in
     if \<not> admits ev (tok a) a then ret v else flip a v))
     (\<lambda>r w'. \<exists>x. by_key at_id i (attendees w) = Some x \<and> r = door_verdict ev (tok x) (clock w) x \<and>
        same_store (through_door ev (tok x) x w) w')
     (\<lambda>e w'. same_store w w' \<and> (e = RecordNotFound \<longrightarrow> by_key at_id i (attendees w) = None)) w"
proof (cases "by_key at_id i (attendees w)")
  case None
  then show ?thesis by (simp add: get_for_update_def wp_simps)
next
  case (Some x)
  have "wp (flip x \<lparr>sv_event_ok = (at_event x = ev), sv_token_ok = tok x, sv_flipped = False,
              sv_status = at_status x, sv_checked_in_at = None\<rparr>)
     (\<lambda>r w'. r = door_verdict ev (tok x) (clock w) x \<and> same_store (through_door ev (tok x) x w) w')
     (\<lambda>e w'. same_store w w' \<and> e = DbError) (tick w)" if "admits ev (tok x) x"
    using that by (intro flip_spec) simp_all
  with Some show ?thesis
    by (auto simp: get_for_update_def wp_bnd wp_select_first wp_if wp_ret Let_def door_verdict_def through_door_def
        intro: wp_mono)
qed

lemma apply_checkin_spec:
  "wp (apply_checkin l i raw ev)
     (\<lambda>r w'. \<exists>x. by_key at_id i (attendees w) = Some x \<and> r = door_verdict ev (token_ok l x raw) (clock w) x \<and>
        same_store (through_door ev (token_ok l x raw) x w) w')
     (\<lambda>e w'. same_store w w' \<and> (e = RecordNotFound \<longrightarrow> by_key at_id i (attendees w) = None)) w"
  using door_step_spec [of i ev "\<lambda>a. token_ok l a raw"]
  by (simp add: apply_checkin_def admits_def)

lemma apply_checkin_manual_spec:
  "wp (apply_checkin_manual i ev)
     (\<lambda>r w'. \<exists>x. by_key at_id i (attendees w) = Some x \<and> r = door_verdict ev True (clock w) x \<and>
        same_store (through_door ev True x w) w')
     (\<lambda>e w'. same_store w w' \<and> (e = RecordNotFound \<longrightarrow> by_key at_id i (attendees w) = None)) w"
  using door_step_spec [of i ev "\<lambda>_. True"]
  by (simp add: apply_checkin_manual_def admits_def)

section \<open>Scans\<close>

definition door_outcome :: "uuid \<Rightarrow> bool \<Rightarrow> attendee \<Rightarrow> outcome" where
  "door_outcome ev tok x = (if \<not> tok then OutInvalidCode else if at_event x \<noteq> ev then OutWrongEvent
     else case at_status x of Registered \<Rightarrow> OutCheckedIn | CheckedIn \<Rightarrow> OutAlreadyCheckedIn
       | AttCancelled \<Rightarrow> OutCancelled)"

lemma verdict_outcome_door [simp]: "verdict_outcome (door_verdict ev tok now x) = door_outcome ev tok x"
  by (auto simp: verdict_outcome_def door_verdict_def door_outcome_def admits_def split: attendee_status.split)

lemma admits_outcome: "admits ev tok x \<longleftrightarrow> door_outcome ev tok x = OutCheckedIn"
  by (auto simp: admits_def door_outcome_def split: attendee_status.split)

definition log_row :: "uuid \<Rightarrow> uuid \<Rightarrow> uuid option \<Rightarrow> uuid \<Rightarrow> outcome \<Rightarrow> scan_method \<Rightarrow> instant \<Rightarrow> checkin_log" where
  "log_row i ev att staff out meth now = \<lparr>cl_id = i, cl_event = ev, cl_attendee = att, cl_scanned_by = staff,
     cl_outcome = out, cl_method = meth, cl_created_at = now\<rparr>"

text \<open>The tables of the door, by their content.\<close>

definition door_is :: "attendee list \<Rightarrow> collection list \<Rightarrow> checkin_log list \<Rightarrow> 'z checkin_state_scheme \<Rightarrow> bool" where
  "door_is as cs gs w \<longleftrightarrow> attendees w = as \<and> collections w = cs \<and> checkin_logs w = gs"

lemma door_is_keeps [keeps_intros]: "on_tables (door_is as cs gs)" "quiet (door_is as cs gs)"
  by (auto intro!: quietI on_tablesI simp: door_is_def)

lemma door_is_simps [simp]: "door_is as cs gs (tick w) = door_is as cs gs w"
  "door_is (attendees w) (collections w) (checkin_logs w) w"
  by (simp_all add: door_is_def)

lemma door_is_same: "same_store w w' \<Longrightarrow> door_is as cs gs w' = door_is as cs gs w"
  using door_is_keeps(1) on_tables_same by blast

lemma log_and_audit_spec:
  assumes "door_is as cs gs w"
  shows "wp (log_and_audit s org staff ev att out meth)
     (\<lambda>_ w'. \<exists>i. (\<forall>a. att = Some a \<longrightarrow> has_key at_id a as) \<and>
        door_is as cs (gs @ [log_row i ev att staff out meth (clock w)]) w') (\<lambda>_ _. True) w"
proof -
  have "wp (insert_log (cs_lib s) \<lparr>cl_id = uuid_nil, cl_event = ev, cl_attendee = att, cl_scanned_by = staff,
        cl_outcome = out, cl_method = meth, cl_created_at = 0\<rparr>)
     (\<lambda>_ w'. \<exists>i. (\<forall>a. att = Some a \<longrightarrow> has_key at_id a as) \<and>
        door_is as cs (gs @ [log_row i ev att staff out meth (clock w)]) w') (\<lambda>_ _. True) w"
    using assms
    by (auto simp: insert_log_def wp_simps door_is_def log_row_def split: option.splits if_splits)
  moreover have k: "keeps (\<lambda>w'. \<exists>i. (\<forall>a. att = Some a \<longrightarrow> has_key at_id a as) \<and>
        door_is as cs (gs @ [log_row i ev att staff out meth (clock w)]) w') (cs_audit s org staff g)" for g
    unfolding cs_audit_def by (intro keeps_intros quietI on_tablesI) (simp_all add: door_is_def)
  ultimately show ?thesis
    unfolding log_and_audit_def wp_bnd by - (erule wp_mono, (rule wp_rest [OF k], assumption), simp)
qed

text \<open>What one scan of attendee \<open>a\<close> answers and writes, where \<open>tok\<close> judges the token.\<close>

definition door_effect :: "(attendee \<Rightarrow> bool) \<Rightarrow> uuid \<Rightarrow> uuid \<Rightarrow> scan_method \<Rightarrow> uuid \<Rightarrow> 'z checkin_state_scheme
    \<Rightarrow> scan_result \<Rightarrow> 'z checkin_state_scheme \<Rightarrow> bool" where
  "door_effect tok ev a meth staff w r w' \<longleftrightarrow> (\<exists>x i. by_key at_id a (attendees w) = Some x \<and>
     r = \<lparr>sr_outcome = door_outcome ev (tok x) x, sr_method = meth, sr_attendee = Some a,
          sr_checked_in_at = (if admits ev (tok x) x then Some (clock w) else None)\<rparr> \<and>
     door_is (if admits ev (tok x) x then upsert at_id (flipped (clock w) x) (attendees w) else attendees w)
       (collections w)
       (checkin_logs w @ [log_row i ev (Some a) staff (door_outcome ev (tok x) x) meth (clock w)]) w')"

lemma door_effect_tick: "door_effect tok ev a meth staff w r (tick w') = door_effect tok ev a meth staff w r w'"
  by (simp add: door_effect_def)

lemma door_effect_same: "same_store w v \<Longrightarrow> door_effect tok ev a meth staff v = door_effect tok ev a meth staff w"
proof (intro ext)
  fix r w' assume s: "same_store w v"
  show "door_effect tok ev a meth staff v r w' = door_effect tok ev a meth staff w r w'"
    by (simp add: door_effect_def attendees_same [OF s] logs_same [OF s] collections_same [OF s] clock_same [OF s])
qed

lemma through_door_is: "same_store (through_door ev tok x w) w' \<Longrightarrow> clock w' = clock w \<and>
    door_is (if admits ev tok x then upsert at_id (flipped (clock w) x) (attendees w) else attendees w)
      (collections w) (checkin_logs w) w'"
  by (auto simp: through_door_def door_is_def dest: clock_same logs_same collections_same attendees_same
      split: if_splits)

lemma after_flip:
  assumes "by_key at_id a (attendees w) = Some x" and "same_store (through_door ev (tok x) x w) w'"
  shows "wp (log_and_audit s org staff ev (Some a) (door_outcome ev (tok x) x) meth)
     (\<lambda>_ w'. door_effect tok ev a meth staff w
        \<lparr>sr_outcome = door_outcome ev (tok x) x, sr_method = meth, sr_attendee = Some a,
         sr_checked_in_at = (if admits ev (tok x) x then Some (clock w) else None)\<rparr> w') (\<lambda>_ _. True) w'"
  by (rule wp_mono [OF log_and_audit_spec [OF conjunct2 [OF through_door_is [OF assms(2)]]]])
    (use assms(1) through_door_is [OF assms(2)] in \<open>auto simp: door_effect_def\<close>)

lemma unknown_unlogged:
  "by_key at_id a (attendees w) = None \<Longrightarrow>
   wp (log_and_audit s org staff ev (Some a) out meth) (\<lambda>_ _. False) (\<lambda>_ _. True) w"
  by (rule wp_mono [OF log_and_audit_spec [of "attendees w" "collections w" "checkin_logs w"]])
    (auto simp: by_key_None has_key_iff)

lemma wp_tx_effect:
  assumes "same_store v w" and "\<And>x v. Q x (tick v) = Q x v" and "wp m Q (\<lambda>_ _. True) (tick w)"
  shows "wp (tx m) Q (\<lambda>_. same_store v) w"
  unfolding wp_tx using assms by (auto intro: wp_mono)

text \<open>Both kinds of scan end alike: log the verdict, answer it.\<close>

lemma verdict_logged:
  assumes v: "same_store w v"
    and r: "\<exists>x. by_key at_id a (attendees v) = Some x \<and> r = door_verdict ev (tok x) (clock v) x \<and>
        same_store (through_door ev (tok x) x v) u"
  shows "wp (bnd (log_and_audit s org staff ev (Some a) (verdict_outcome r) meth) (\<lambda>_.
          ret \<lparr>sr_outcome = verdict_outcome r, sr_method = meth, sr_attendee = Some a,
               sr_checked_in_at = sv_checked_in_at r\<rparr>)) (door_effect tok ev a meth staff w) (\<lambda>_ _. True) u"
proof -
  obtain x where x: "by_key at_id a (attendees v) = Some x" "r = door_verdict ev (tok x) (clock v) x"
      "same_store (through_door ev (tok x) x v) u" using r by blast
  have "door_effect tok ev a meth staff v = door_effect tok ev a meth staff w"
    using v by (rule door_effect_same)
  with after_flip [where tok = tok, OF x(1,3), of s org staff meth] show ?thesis by (simp add: x(2) wp_bnd wp_ret)
qed

lemma scan_tx_spec:
  assumes v: "same_store w v"
  shows "wp (scan_tx s org ev a raw staff)
     (door_effect (\<lambda>x. token_ok (cs_lib s) x raw) ev a ByQR staff w) (\<lambda>_. same_store w) v"
  unfolding scan_tx_def
proof (rule wp_tx_effect [OF v], rule door_effect_tick, unfold wp_bnd [of "attempt _"] wp_attempt,
    rule wp_mono [OF apply_checkin_spec])
  fix e and u :: "'a checkin_state_scheme"
  assume "same_store (tick v) u \<and> (e = RecordNotFound \<longrightarrow> by_key at_id a (attendees (tick v)) = None)"
  then show "wp (case Inl e of Inl e \<Rightarrow> (if e = RecordNotFound
          then bnd (log_and_audit s org staff ev (Some a) OutInvalidCode ByQR) (\<lambda>_.
               ret \<lparr>sr_outcome = OutInvalidCode, sr_method = ByQR, sr_attendee = Some a,
                    sr_checked_in_at = None\<rparr>)
          else fail e)
     | Inr v \<Rightarrow>
          bnd (log_and_audit s org staff ev (Some a) (verdict_outcome v) ByQR) (\<lambda>_.
          ret \<lparr>sr_outcome = verdict_outcome v, sr_method = ByQR, sr_attendee = Some a,
               sr_checked_in_at = sv_checked_in_at v\<rparr>))
      (door_effect (\<lambda>x. token_ok (cs_lib s) x raw) ev a ByQR staff w) (\<lambda>_ _. True) u"
    by (auto simp: wp_bnd wp_if wp_fail attendees_same intro!: wp_mono [OF unknown_unlogged])
next
  fix r and u :: "'a checkin_state_scheme"
  assume "\<exists>x. by_key at_id a (attendees (tick v)) = Some x \<and>
      r = door_verdict ev (token_ok (cs_lib s) x raw) (clock (tick v)) x \<and>
      same_store (through_door ev (token_ok (cs_lib s) x raw) x (tick v)) u"
  from verdict_logged [where tok = "\<lambda>x. token_ok (cs_lib s) x raw", OF _ this, of w] v
  show "wp (case Inr r of Inl e \<Rightarrow> (if e = RecordNotFound
          then bnd (log_and_audit s org staff ev (Some a) OutInvalidCode ByQR) (\<lambda>_.
               ret \<lparr>sr_outcome = OutInvalidCode, sr_method = ByQR, sr_attendee = Some a,
                    sr_checked_in_at = None\<rparr>)
          else fail e)
     | Inr v \<Rightarrow>
          bnd (log_and_audit s org staff ev (Some a) (verdict_outcome v) ByQR) (\<lambda>_.
          ret \<lparr>sr_outcome = verdict_outcome v, sr_method = ByQR, sr_attendee = Some a,
               sr_checked_in_at = sv_checked_in_at v\<rparr>))
      (door_effect (\<lambda>x. token_ok (cs_lib s) x raw) ev a ByQR staff w) (\<lambda>_ _. True) u" by simp
qed

lemma scan_manual_spec:
  "wp (scan_manual s org eventref attref staff)
     (\<lambda>r w'. \<exists>a ev. door_effect (\<lambda>_. True) ev a Manual staff w r w') (\<lambda>_. same_store w) w"
proof -
  have e: "keeps (same_store w) (checkin_event s org eventref)" by (intro keeps_intros)
  have "wp (tx (
       bnd (on_error (apply_checkin_manual a ev) (not_found_as (CheckinE checkin_err.ErrAttendeeNotFound))) (\<lambda>v.
       bnd (log_and_audit s org staff ev (Some a) (verdict_outcome v) Manual) (\<lambda>_.
       ret \<lparr>sr_outcome = verdict_outcome v, sr_method = Manual, sr_attendee = Some a,
            sr_checked_in_at = sv_checked_in_at v\<rparr>))))
     (door_effect (\<lambda>_. True) ev a Manual staff w) (\<lambda>_. same_store w) v" if v: "same_store w v" for a ev v
    by (rule wp_tx_effect [OF v], rule door_effect_tick, unfold wp_bnd [of "on_error _ _"] wp_on_error,
        rule wp_mono [OF apply_checkin_manual_spec], rule verdict_logged [of _ "tick v"])
      (use v in simp_all)
  then show ?thesis
    unfolding scan_manual_def wp_bnd [of "checkin_event _ _ _"] wp_bnd [of "the_or_fail _ _"]
    by (intro wp_mono [OF keeps_wpI [OF e]]) (auto simp: wp_the_or_fail split: option.split intro: wp_mono)
qed

lemma door_effect_attendees: "door_effect tok ev a meth staff w r w' \<Longrightarrow>
    \<exists>x. by_key at_id a (attendees w) = Some x \<and>
      attendees w' = (if admits ev (tok x) x then upsert at_id (flipped (clock w) x) (attendees w) else attendees w)"
  by (auto simp: door_effect_def door_is_def)

lemma scan_qr_spec:
  "wp (scan_qr s org eventref code staff)
     (\<lambda>r w'. \<exists>ev. fst (checkin_event s org eventref w) = Inr ev \<and>
        (case verify_payload (cs_lib s) code (cs_secret s) of
           None \<Rightarrow> (\<exists>i. r = \<lparr>sr_outcome = OutInvalidCode, sr_method = ByQR, sr_attendee = None, sr_checked_in_at = None\<rparr> \<and>
             door_is (attendees w) (collections w)
               (checkin_logs w @ [log_row i ev None staff OutInvalidCode ByQR (clock w)]) w')
         | Some (a, raw) \<Rightarrow> door_effect (\<lambda>x. token_ok (cs_lib s) x raw) ev a ByQR staff w r w'))
     (\<lambda>_ w'. attendees w' = attendees w) w"
proof -
  have e: "keeps (same_store w) (checkin_event s org eventref)" by (intro keeps_intros)
  have a: "on_tables (\<lambda>w'. attendees w' = attendees w)" by (rule on_tablesI) simp
  have k: "keeps (\<lambda>w'. attendees w' = attendees w) (log_and_audit s org staff ev att out meth)" for ev att out meth
    by (intro keeps_intros quietI a) simp_all
  have forged: "wp (bnd (log_and_audit s org staff ev None OutInvalidCode ByQR) (\<lambda>_.
         ret \<lparr>sr_outcome = OutInvalidCode, sr_method = ByQR, sr_attendee = None, sr_checked_in_at = None\<rparr>))
      (\<lambda>r w'. \<exists>i. r = \<lparr>sr_outcome = OutInvalidCode, sr_method = ByQR, sr_attendee = None, sr_checked_in_at = None\<rparr> \<and>
         door_is (attendees w) (collections w)
           (checkin_logs w @ [log_row i ev None staff OutInvalidCode ByQR (clock w)]) w')
      (\<lambda>_ w'. attendees w' = attendees w) v" if v: "same_store w v" for ev v
    unfolding wp_bnd wp_ret
    by (rule wp_mono [OF wp_conj [OF log_and_audit_spec
          [of "attendees w" "collections w" "checkin_logs w"] keeps_wpI [OF k]]])
      (use v in \<open>auto simp: door_is_same clock_same attendees_same\<close>)
  have tx: "wp (scan_tx s org ev a raw staff)
      (\<lambda>r w'. fst (checkin_event s org eventref w) = Inr ev \<and>
         door_effect (\<lambda>x. token_ok (cs_lib s) x raw) ev a ByQR staff w r w')
      (\<lambda>_ w'. attendees w' = attendees w) v"
    if "same_store w v" "fst (checkin_event s org eventref w) = Inr ev" for ev a raw v
    by (rule wp_mono [OF scan_tx_spec [OF that(1)]]) (use that(2) in \<open>auto simp: attendees_same\<close>)
  show ?thesis
  proof (cases "cs_secret s = []")
    case True
    then show ?thesis by (simp add: scan_qr_def wp_bnd wp_guard)
  next
    case False
    show ?thesis
      unfolding scan_qr_def wp_bnd [of "guard _ _"] wp_bnd [of "checkin_event _ _ _"] wp_guard if_P [OF False]
    proof (rule wp_mono [OF wp_conj [OF keeps_wpI [OF e] wp_refl]])
      show "same_store w w" by simp
    next
      fix ev and v :: "'a checkin_state_scheme"
      assume v: "same_store w v \<and> checkin_event s org eventref w = (Inr ev, v)"
      then show "wp (case verify_payload (cs_lib s) code (cs_secret s) of
       None \<Rightarrow>
         bnd (insert_log (cs_lib s) \<lparr>cl_id = uuid_nil, cl_event = ev, cl_attendee = None,
                cl_scanned_by = staff, cl_outcome = OutInvalidCode, cl_method = ByQR, cl_created_at = 0\<rparr>) (\<lambda>g.
         bnd (cs_audit s org staff g) (\<lambda>_.
         ret \<lparr>sr_outcome = OutInvalidCode, sr_method = ByQR, sr_attendee = None, sr_checked_in_at = None\<rparr>))
     | Some (a, raw) \<Rightarrow> scan_tx s org ev a raw staff)
     (\<lambda>r w'. \<exists>ev. fst (checkin_event s org eventref w) = Inr ev \<and>
        (case verify_payload (cs_lib s) code (cs_secret s) of
           None \<Rightarrow> (\<exists>i. r = \<lparr>sr_outcome = OutInvalidCode, sr_method = ByQR, sr_attendee = None, sr_checked_in_at = None\<rparr> \<and>
             door_is (attendees w) (collections w)
               (checkin_logs w @ [log_row i ev None staff OutInvalidCode ByQR (clock w)]) w')
         | Some (a, raw) \<Rightarrow> door_effect (\<lambda>x. token_ok (cs_lib s) x raw) ev a ByQR staff w r w'))
     (\<lambda>_ w'. attendees w' = attendees w) v"
        using forged [of v ev] tx [of v ev]
        by (auto simp: log_and_audit_def wp_bnd split: option.split)
    qed (auto simp: attendees_same)
  qed
qed

text \<open>C10. A scan answers by the documented table and admits at most once. A code that does not verify is INVALID_CODE. For a code
  of attendee \<open>a\<close> the row decides: a wrong token is INVALID_CODE, another event WRONG_EVENT, otherwise the
  status found says CHECKED_IN (was REGISTERED), ALREADY_CHECKED_IN or CANCELLED; an attendee that does not exist never
  gets an answer. Only CHECKED_IN changes the attendee, to CHECKED_IN at the time of the scan, and exactly one log row records the outcome.\<close>

theorem scan_answers:
  assumes "scan_qr s org eventref code staff w = (Inr r, w')"
  shows "\<exists>ev i. fst (checkin_event s org eventref w) = Inr ev \<and>
    (case verify_payload (cs_lib s) code (cs_secret s) of
       None \<Rightarrow> sr_outcome r = OutInvalidCode \<and> sr_attendee r = None \<and> attendees w' = attendees w
     | Some (a, raw) \<Rightarrow> sr_attendee r = Some a \<and> (\<exists>x. by_key at_id a (attendees w) = Some x \<and>
         sr_outcome r = (if \<not> token_ok (cs_lib s) x raw then OutInvalidCode
           else if at_event x \<noteq> ev then OutWrongEvent
           else case at_status x of Registered \<Rightarrow> OutCheckedIn | CheckedIn \<Rightarrow> OutAlreadyCheckedIn
             | AttCancelled \<Rightarrow> OutCancelled) \<and>
         attendees w' = (if sr_outcome r = OutCheckedIn
           then upsert at_id (x\<lparr>at_status := CheckedIn, at_checked_in_at := Some (clock w), at_updated_at := clock w\<rparr>)
             (attendees w)
           else attendees w))) \<and>
    checkin_logs w' = checkin_logs w @ [\<lparr>cl_id = i, cl_event = ev, cl_attendee = sr_attendee r, cl_scanned_by = staff,
       cl_outcome = sr_outcome r, cl_method = ByQR, cl_created_at = clock w\<rparr>]"
proof -
  from wp_okD [OF assms scan_qr_spec] obtain ev where ev: "fst (checkin_event s org eventref w) = Inr ev"
    and r: "case verify_payload (cs_lib s) code (cs_secret s) of
           None \<Rightarrow> (\<exists>i. r = \<lparr>sr_outcome = OutInvalidCode, sr_method = ByQR, sr_attendee = None, sr_checked_in_at = None\<rparr> \<and>
             door_is (attendees w) (collections w)
               (checkin_logs w @ [log_row i ev None staff OutInvalidCode ByQR (clock w)]) w')
         | Some (a, raw) \<Rightarrow> door_effect (\<lambda>x. token_ok (cs_lib s) x raw) ev a ByQR staff w r w'" by blast
  show ?thesis
  proof (cases "verify_payload (cs_lib s) code (cs_secret s)")
    case None
    with r ev show ?thesis by (auto simp: door_is_def log_row_def)
  next
    case (Some p)
    then obtain a raw where p: "verify_payload (cs_lib s) code (cs_secret s) = Some (a, raw)" by (cases p) auto
    with r have "door_effect (\<lambda>x. token_ok (cs_lib s) x raw) ev a ByQR staff w r w'" by simp
    then obtain x i where x: "by_key at_id a (attendees w) = Some x"
        "r = \<lparr>sr_outcome = door_outcome ev (token_ok (cs_lib s) x raw) x, sr_method = ByQR, sr_attendee = Some a,
          sr_checked_in_at = (if admits ev (token_ok (cs_lib s) x raw) x then Some (clock w) else None)\<rparr>"
        "attendees w' = (if admits ev (token_ok (cs_lib s) x raw) x then upsert at_id (flipped (clock w) x) (attendees w)
           else attendees w)"
        "checkin_logs w' = checkin_logs w @ [log_row i ev (Some a) staff
           (door_outcome ev (token_ok (cs_lib s) x raw) x) ByQR (clock w)]"
      unfolding door_effect_def door_is_def by blast
    show ?thesis
      by (intro exI [of _ ev] exI [of _ i])
        (simp add: ev p x admits_outcome door_outcome_def flipped_def log_row_def)
  qed
qed

definition door_row :: "uuid \<Rightarrow> attendee_status \<Rightarrow> attendee" where
  "door_row i st = \<lparr>at_id = i, at_order = None, at_unit = 0, at_event = 20, at_user = Some 2, at_email = ''bob@x.io'',
     at_name = None, at_token_hash = hash_token sample_lib ''ab'', at_status = st, at_checked_in_at = None,
     at_created_at = 0, at_updated_at = 0\<rparr>"

definition door_world :: order_state where
  "door_world = sample_world\<lparr>attendees := [door_row 2 Registered, door_row 3 AttCancelled]\<rparr>"

lemmas eval_door = door_world_def door_row_def scan_tx_def checkin_event_def
  apply_checkin_def get_for_update_def token_ok_def hash_token_def flip_def repo_update_attendee_def log_and_audit_def
  insert_log_def cs_audit_def verdict_outcome_def
  resolve_event_id_def resolve_event_def sample_text_def

definition sample_ticket :: "uuid \<Rightarrow> string" where
  "sample_ticket i = build_payload sample_lib i ''ab'' ''key''"

theorem scan_answers_witness:
  "\<exists>r (w' :: order_state). scan_qr sample_checkins 10 ''fair'' (sample_ticket 2) 1 door_world = (Inr r, w') \<and>
     sr_outcome r = OutCheckedIn \<and> length (checkin_logs w') = 1"
proof -
  have v: "verify_payload (cs_lib sample_checkins) (sample_ticket 2) (cs_secret sample_checkins) = Some (2, ''ab'')"
    unfolding sample_ticket_def sample_checkins_def checkin_service.simps
    by (rule verify_build) (auto simp: sample_text_def sample_parse_def list_all_iff)
  have "\<exists>r w'. scan_qr sample_checkins 10 ''fair'' (sample_ticket 2) 1 door_world = (Inr r, w')"
    unfolding scan_qr_def v by (simp add: eval_door evals)
  then obtain r and w' :: order_state
    where s: "scan_qr sample_checkins 10 ''fair'' (sample_ticket 2) 1 door_world = (Inr r, w')" by blast
  have e: "fst (checkin_event sample_checkins 10 ''fair'' door_world) = Inr 20"
    by (simp add: eval_door evals)
  have t: "token_ok (cs_lib sample_checkins) (door_row 2 Registered) ''ab''"
    by (simp add: token_ok_def door_row_def sample_checkins_def)
  have b: "by_key at_id 2 (attendees door_world) = Some (door_row 2 Registered)"
    by (simp add: door_world_def door_row_def by_key_def)
  have l: "checkin_logs door_world = []" by (simp add: door_world_def)
  from scan_answers [OF s] t have "sr_outcome r = OutCheckedIn \<and> length (checkin_logs w') = 1"
    by (auto simp: e v b l door_row_def)
  with s show ?thesis by blast
qed

section \<open>Reverts\<close>

definition stepped_out :: "instant \<Rightarrow> attendee \<Rightarrow> attendee" where
  "stepped_out now x = x\<lparr>at_status := Registered, at_checked_in_at := None, at_updated_at := now\<rparr>"

definition holds_kit :: "uuid \<Rightarrow> collection \<Rightarrow> bool" where
  "holds_kit a c \<longleftrightarrow> kc_attendee c = a \<and> kc_status c \<noteq> Voided"

lemma revert_attendee_spec:
  "wp (revert_attendee i ev)
     (\<lambda>v w'. \<exists>x. by_key at_id i (attendees w) = Some x \<and>
        (if rv_reverted v then at_event x = ev \<and> at_status x = CheckedIn \<and>
           same_store (w\<lparr>attendees := upsert at_id (stepped_out (clock w) x) (attendees w)\<rparr>) w'
         else same_store w w')) (\<lambda>_. same_store w) w"
proof (cases "by_key at_id i (attendees w)")
  case None
  then show ?thesis by (simp add: revert_attendee_def get_for_update_def wp_simps)
next
  case (Some x)
  then show ?thesis
    by (simp add: revert_attendee_def get_for_update_def wp_simps repo_update_attendee_def stepped_out_def
        tick_attendees [symmetric])
qed

text \<open>What a successful revert found and wrote.\<close>

definition revert_effect :: "bool \<Rightarrow> uuid \<Rightarrow> uuid \<Rightarrow> uuid \<Rightarrow> 'z checkin_state_scheme \<Rightarrow> 'z checkin_state_scheme \<Rightarrow> bool" where
  "revert_effect guarded ev a staff w w' \<longleftrightarrow> (\<exists>x i. by_key at_id a (attendees w) = Some x \<and> at_event x = ev \<and>
     at_status x = CheckedIn \<and> (guarded \<longrightarrow> (\<forall>c \<in> set (collections w). \<not> holds_kit a c)) \<and>
     door_is (upsert at_id (stepped_out (clock w) x) (attendees w)) (collections w)
       (checkin_logs w @ [log_row i ev (Some a) staff OutReverted Manual (clock w)]) w')"

lemma revert_effect_tick: "revert_effect g ev a staff w (tick w') = revert_effect g ev a staff w w'"
  by (simp add: revert_effect_def)

lemma count_where_none: "\<not> 0 < count_where p rs \<longleftrightarrow> (\<forall>r \<in> set rs. \<not> p r)"
  by (simp add: count_where_def filter_empty_conv)

lemma collections_guard_spec:
  "wp (if cs_collections s then bnd (has_active_collections a) (\<lambda>has.
            guard (\<not> has) (CheckinE checkin_err.ErrCollectionsOutstanding)) else ret ())
     (\<lambda>_ w'. same_store w w' \<and> (cs_collections s \<longrightarrow> (\<forall>c \<in> set (collections w). \<not> holds_kit a c))) (\<lambda>_ _. True) w"
  by (simp add: has_active_collections_def wp_simps holds_kit_def count_where_none del: not_less)

lemma revert_tx_spec:
  assumes v: "same_store w v"
  shows "wp (revert_tx s org ev a staff) (\<lambda>_. revert_effect (cs_collections s) ev a staff w) (\<lambda>_. same_store w) v"
  unfolding revert_tx_def
proof (rule wp_tx_effect [OF v], rule revert_effect_tick, unfold wp_bnd [of "If _ _ _"],
    rule wp_mono [OF collections_guard_spec], goal_cases)
  case (1 _ v1)
  then have v1: "same_store w v1" and g: "cs_collections s \<longrightarrow> (\<forall>c \<in> set (collections w). \<not> holds_kit a c)"
    using v same_store_trans by (auto simp: collections_same)
  have after: "wp (log_and_audit s org staff ev (Some a) OutReverted Manual)
      (\<lambda>_. revert_effect (cs_collections s) ev a staff w) (\<lambda>_ _. True) u"
    if x: "by_key at_id a (attendees v1) = Some x" "at_event x = ev" "at_status x = CheckedIn"
      and u: "same_store (v1\<lparr>attendees := upsert at_id (stepped_out (clock v1) x) (attendees v1)\<rparr>) u" for x u
  proof (rule wp_mono [OF log_and_audit_spec])
    show "door_is (upsert at_id (stepped_out (clock w) x) (attendees w)) (collections w) (checkin_logs w) u"
      using attendees_same [OF u] collections_same [OF u] logs_same [OF u] v1
      by (simp add: door_is_def attendees_same collections_same logs_same clock_same)
  qed (use x g clock_same [OF u] v1 in \<open>auto simp: revert_effect_def clock_same attendees_same\<close>)
  show ?case
    unfolding wp_bnd [of "on_error _ _"] wp_on_error
  proof (rule wp_mono [OF revert_attendee_spec], goal_cases)
    case (1 vd u)
    then obtain x where x: "by_key at_id a (attendees v1) = Some x"
        "if rv_reverted vd then at_event x = ev \<and> at_status x = CheckedIn \<and>
           same_store (v1\<lparr>attendees := upsert at_id (stepped_out (clock v1) x) (attendees v1)\<rparr>) u
         else same_store v1 u" by blast
    then show ?case using after [of x u] by (cases "rv_reverted vd") (simp_all add: wp_bnd wp_guard wp_ret)
  qed simp
qed simp_all

end
