(* ===== verification/Ledger.thy ===== *)
theory Ledger
  imports Door
begin

text \<open>
  Invariants of the door tables (attendees, kits, collections, check-in log) over all requests of the system.
  The locale \<open>door_invariant\<close> is the contract: a predicate of those tables that a few row-level steps and the calls of
  the check-in and kit services keep, is kept by every request. It is instantiated with the ledger: the status of
  each attendee is what the check-in log says.
\<close>

section \<open>The contract\<close>

definition same_door :: "'z checkin_state_scheme \<Rightarrow> 'z checkin_state_scheme \<Rightarrow> bool" where
  "same_door w w' \<longleftrightarrow> attendees w' = attendees w \<and> kits w' = kits w \<and>
     collections w' = collections w \<and> checkin_logs w' = checkin_logs w"

text \<open>Edits of an attendee outside the door: names and e-mails, and the withdrawal of a registered ticket.\<close>

definition desk_edit :: "attendee \<Rightarrow> attendee \<Rightarrow> bool" where
  "desk_edit a0 a \<longleftrightarrow> at_id a = at_id a0 \<and> at_event a = at_event a0 \<and>
     (at_status a = at_status a0 \<or> at_status a0 = Registered \<and> at_status a = AttCancelled)"

locale door_invariant =
  fixes I :: "order_state \<Rightarrow> bool" and y :: system
  assumes door_only: "same_door w w' \<Longrightarrow> I w \<Longrightarrow> I w'"
    and fresh: "I w \<Longrightarrow> at_status a = Registered \<Longrightarrow> \<not> has_key at_id (at_id a) (attendees w) \<Longrightarrow>
      I (w\<lparr>attendees := attendees w @ [a]\<rparr>)"
    and edit: "I w \<Longrightarrow> by_key at_id (at_id a0) (attendees w) = Some a0 \<Longrightarrow> desk_edit a0 a \<Longrightarrow>
      I (w\<lparr>attendees := upsert at_id a (attendees w)\<rparr>)"
    and scan_keeps: "keeps I (scan (sy_checkins y) org ref0 code ref1 staff)"
      "keeps I (scan_batch (sy_checkins y) org ref0 codes staff)"
      "keeps I (revert (sy_checkins y) org ref0 ref1 staff)"
    and kit_keeps: "keeps I (create_kit (sy_kits y) org ref0 nm desc qty staff)"
      "keeps I (update_kit (sy_kits y) org ref0 ref1 nm' desc' qty' staff)"
      "keeps I (delete_kit (sy_kits y) org ref0 ref1 staff)"
      "keeps I (collect (sy_kits y) org ref0 ref1 ref2 hold key staff)"
      "keeps I (mark_collected (sy_kits y) org ref0 ref1 staff)"
      "keeps I (void_collection (sy_kits y) org ref0 ref1 staff)"
begin

lemma door_only_iff: "same_door w w' \<Longrightarrow> I w' = I w"
  using door_only [of w w'] door_only [of w' w] by (auto simp: same_door_def)

lemma elsewhere [simp]:
  "I (w\<lparr>credentials := k1\<rparr>) = I w" "I (w\<lparr>sessions := k2\<rparr>) = I w" "I (w\<lparr>refresh_tokens := k3\<rparr>) = I w"
  "I (w\<lparr>verifications := k4\<rparr>) = I w" "I (w\<lparr>resets := k5\<rparr>) = I w" "I (w\<lparr>otps := k6\<rparr>) = I w"
  "I (w\<lparr>attempts := k7\<rparr>) = I w" "I (w\<lparr>api_keys := k8\<rparr>) = I w" "I (w\<lparr>invites := k9\<rparr>) = I w" "I (w\<lparr>role_defs := k0\<rparr>) = I w"
  "I (w\<lparr>p_rows := a1\<rparr>) = I w" "I (w\<lparr>g_rows := a2\<rparr>) = I w" "I (w\<lparr>subs := a3\<rparr>) = I w" "I (w\<lparr>orgs := a4\<rparr>) = I w"
  "I (w\<lparr>memberships := a5\<rparr>) = I w" "I (w\<lparr>custom_roles := a6\<rparr>) = I w" "I (w\<lparr>events := a7\<rparr>) = I w"
  "I (w\<lparr>images := a8\<rparr>) = I w" "I (w\<lparr>assets := a9\<rparr>) = I w" "I (w\<lparr>detail_cache := b4\<rparr>) = I w"
  "I (w\<lparr>users := b5\<rparr>) = I w" "I (w\<lparr>clock := b6\<rparr>) = I w" "I (w\<lparr>faults := b7\<rparr>) = I w"
  "I (w\<lparr>audit_events := b8\<rparr>) = I w" "I (w\<lparr>jobs := b9\<rparr>) = I w" "I (w\<lparr>ticket_types := c1\<rparr>) = I w"
  "I (w\<lparr>orders := c2\<rparr>) = I w"
  by (rule door_only_iff, simp add: same_door_def)+

lemma tables: "on_tables I"
  by (rule on_tablesI, rule door_only_iff) (simp add: same_door_def)

lemma quiet: "quiet I"
  by (rule quietI) (simp_all add: tables)

lemma order_writes [keeps_intros]:
  "keeps I (repo_create_order l x)" "keeps I (repo_update_order x)" "keeps I (reserve_tx i n)" "keeps I (release_tx i n)"
  unfolding repo_create_order_def repo_update_order_def reserve_tx_def release_tx_def add_sold_def Let_def
  by (intro keeps_intros tables; simp)+

lemma mint_keeps [keeps_intros]: "keeps I (mint_tx s x user)"
proof -
  have "keeps I (repo_create_attendee l (order_attendee l o' u ev email name unit raw))"
    for l o' u ev email name unit raw
    unfolding repo_create_attendee_def Let_def
    by (intro keeps_intros tables)
      (auto intro!: fresh simp: order_attendee_def split: if_splits)
  then have "keeps I (mint_loop n l o' u ev email name unit)" for n l o' u ev email name unit
    by (induction n arbitrary: unit) (auto intro!: keeps_intros tables)
  then show ?thesis
    unfolding mint_tx_def mint_for_order_def by (intro keeps_intros tables)
qed

lemma order_keeps [keeps_intros]:
  "keeps I (create_order os user ev inp)" "keeps I (mark_paid os i session intent)" "keeps I (cancel_order os user i)"
  "keeps I (set_stripe_session i session)" "keeps I (sweep_expired os batch)"
proof -
  note [keeps_intros] = tables quiet
  have [keeps_intros]: "keeps I (claim_effects s user org x)" for s org x
    unfolding claim_effects_def by (intro keeps_intros)
  show "keeps I (create_order os user ev inp)"
    unfolding create_order_def create_order_fresh_def create_order_tx_def by (intro keeps_intros)
  show "keeps I (mark_paid os i session intent)"
    unfolding mark_paid_def mark_paid_commit_def by (intro keeps_intros)
  have [keeps_intros]: "keeps I (close_order_tx s actor org action morph to x)" for s actor org action morph to x
    unfolding close_order_tx_def by (intro keeps_intros)
  show "keeps I (cancel_order os user i)"
    unfolding cancel_order_def cancel_order_commit_def by (intro keeps_intros)
  show "keeps I (set_stripe_session i session)"
    unfolding set_stripe_session_def by (intro keeps_intros)
  have "keeps I (sweep_loop s xs)" for s xs
    by (induction xs) (auto simp: expire_one_def intro!: keeps_intros)
  then show "keeps I (sweep_expired os batch)"
    unfolding sweep_expired_def by (intro keeps_intros)
qed

lemma payment_keeps [keeps_intros]:
  "keeps I (create_checkout ps user i app)" "keeps I (handle_webhook ps payload sig)"
proof -
  note [keeps_intros] = tables quiet
  have [keeps_intros]: "keeps I (checkout_detail_of s user i)" for s
    unfolding checkout_detail_of_def by (intro keeps_intros)
  show "keeps I (create_checkout ps user i app)"
    unfolding create_checkout_def create_new_def create_session_def Let_def by (intro keeps_intros)
  have [keeps_intros]: "keeps I (handle_billing_event b evt)" for b evt
    by (intro keeps_intros) simp
  have [keeps_intros]: "keeps I (fulfill_session s evt)" "keeps I (bill s evt)" for s evt
    unfolding fulfill_session_def bill_def by (intro keeps_intros)+
  have "keeps I (dispatch_event s evt)" for s evt
    unfolding dispatch_event_def by (cases "se_type evt") (auto intro!: keeps_intros)
  then show "keeps I (handle_webhook ps payload sig)"
    unfolding handle_webhook_def by (intro keeps_intros)
qed

lemma ticket_keeps [keeps_intros]:
  "keeps I (create_type ts caller orgref ref0 tinp)" "keeps I (update_type ts caller orgref ref0 ref1 tupd)"
  "keeps I (delete_type ts caller orgref ref0 ref1)" "keeps I (activate_type ts caller orgref ref0 ref1)"
  "keeps I (pause_type ts caller orgref ref0 ref1)"
proof -
  note [keeps_intros] = tables quiet
  have [keeps_intros]: "keeps I (repo_create_type l t)" "keeps I (repo_update_type t)" "keeps I (repo_delete_type i)" for l t i
    unfolding repo_create_type_def repo_update_type_def repo_delete_type_def Let_def
    by (intro keeps_intros; simp)+
  show "keeps I (create_type ts caller orgref ref0 tinp)"
    unfolding create_type_def by (intro keeps_intros)
  show "keeps I (update_type ts caller orgref ref0 ref1 tupd)"
    unfolding update_type_def update_type_check_def by (intro keeps_intros)
  show "keeps I (delete_type ts caller orgref ref0 ref1)"
    unfolding delete_type_def by (intro keeps_intros)
  have [keeps_intros]: "keeps I (set_type_status ts caller orgref ref0 ref1 to src)" for to src
    unfolding set_type_status_def set_type_status_check_def by (intro keeps_intros)
  show "keeps I (activate_type ts caller orgref ref0 ref1)" "keeps I (pause_type ts caller orgref ref0 ref1)"
    unfolding activate_type_def pause_type_def by (intro keeps_intros)+
qed

lemma desk_keeps [keeps_intros]:
  "keeps I (add_manual l org ref0 email name)" "keeps I (correct_attendee_in_event ev i name' email')"
  "keeps I (cancel_mine user i)"
proof -
  note [keeps_intros] = tables quiet
  show "keeps I (add_manual l org ref0 email name)"
    unfolding add_manual_def repo_create_attendee_def Let_def
    by (intro keeps_intros) (auto intro!: fresh split: if_splits)
  have save: "wp (repo_update_attendee a) (\<lambda>_. I) (\<lambda>_. I) v"
    if "I w" "same_store w v" "by_key at_id i (attendees w) = Some a0" "desk_edit a0 a" for a0 a i w v
  proof -
    have v: "I v" "attendees v = attendees w"
      using that(1,2) tables on_tables_same [of I w v] by (auto simp: attendees_same)
    moreover have "at_id a0 = i" using that(3) by (rule by_key_key)
    ultimately have "I (v\<lparr>attendees := upsert at_id (a\<lparr>at_updated_at := now\<rparr>) (attendees v)\<rparr>)" for now
      using that by (intro edit [where ?a0.0 = a0]) (auto simp: desk_edit_def)
    with v(1) show ?thesis
      by (simp add: repo_update_attendee_def wp_simps on_tables_tick [OF tables] tick_attendees [symmetric])
  qed
  have find: "wp (find_attendee i) (\<lambda>a w'. same_store w w' \<and> by_key at_id i (attendees w) = Some a) (\<lambda>_. same_store w) w"
    for i and w :: order_state
    by (auto simp: find_attendee_def get_attendee_by_id_def wp_simps split: option.split)
  show correct: "keeps I (correct_attendee_in_event ev i name' email')"
  proof (rule keepsI)
    fix w assume w: "I w"
    have "wp (correct_name_check i name' email') (\<lambda>a w'. \<exists>a0. same_store w w' \<and>
        by_key at_id i (attendees w) = Some a0 \<and> desk_edit a0 a) (\<lambda>_. same_store w) v" if v: "same_store w v" for v
      unfolding correct_name_check_def wp_bnd [of "find_attendee _"] Let_def
      by (rule wp_mono [OF find]) (use v in \<open>auto simp: wp_simps attendees_same desk_edit_def
          split: option.split intro: same_store_trans\<close>)
    note check = this
    have same: "I v" if "same_store w v" for v using w on_tables_same [OF tables that] by simp
    have "wp (correct_name i name' email') (\<lambda>_. I) (\<lambda>_. I) v" if "same_store w v" for v
      unfolding correct_name_def wp_bnd wp_ret
      by (rule wp_mono [OF check [OF that]]) (auto intro: save [OF w] same)
    then show "wp (correct_attendee_in_event ev i name' email') (\<lambda>_. I) (\<lambda>_. I) w"
      unfolding correct_attendee_in_event_def wp_bnd wp_guard
      by - (rule wp_mono [OF find], auto intro: same)
  qed
  show "keeps I (cancel_mine user i)"
  proof (rule keepsI)
    fix w assume w: "I w"
    show "wp (cancel_mine user i) (\<lambda>_. I) (\<lambda>_. I) w"
      unfolding cancel_mine_def wp_bnd wp_guard Let_def wp_ret
      by (rule wp_mono [OF find])
        (use w on_tables_same [OF tables, of w] in \<open>auto simp: desk_edit_def intro: save [OF w]\<close>)
  qed
qed

lemma other_keeps [keeps_intros]:
  "keeps I (create_event es user orgref einp)" "keeps I (update_event es user orgref ref0 eupd)"
  "keeps I (publish_event es user orgref ref0)" "keeps I (unpublish_event es user orgref ref0)"
  "keeps I (cancel_event es user orgref ref0)" "keeps I (delete_event es user orgref ref0)"
  "keeps I (add_gallery_images es orgref ref0 ups)" "keeps I (set_cover es orgref ref0 bytes n ty)"
  "keeps I (delete_org_assets es org)" "keeps I (get_public_event es i)"
  "keeps I (create_org s user nm slug logo)" "keeps I (update_org s user ref0 nm slug' logo)"
  "keeps I (delete_org s (Some (delete_org_assets es)) user ref0)"
  "keeps I (add_member s user ref0 email role)" "keeps I (update_member_role s user ref0 target role)"
  "keeps I (remove_member s user ref0 target)" "keeps I (update_my_preferences s user ref0 notify)"
  "keeps I (start_checkout bs user org plan)" "keeps I (create_portal_session bs user org url)"
  "keeps I (repo_create_membership l m)"
proof -
  have d: "keeps I (delete_org_assets es org)" for es org
    by (intro keeps_event_calls quiet) simp_all
  show "keeps I (delete_org_assets es org)" by (rule d)
  show "keeps I (delete_org s (Some (delete_org_assets es)) user ref0)"
    by (intro keeps_org_calls quiet) (auto intro: d)
qed (intro keeps_event_calls keeps_org_calls keeps_billing_calls quiet_public_event keeps_new_member tables quiet; simp)+

end

sublocale door_invariant \<subseteq> request_invariant I y
  proof unfold_locales
  fix w w' assume "backstage (sy_auth y) (sy_orgs y) (sy_admin y) (sy_survives y) w w'" "I w"
  then show "I w'" by (rule backstage_keeps) (simp_all add: quiet other_keeps apart_def secretless_def)
qed ((rule keeps_intros scan_keeps kit_keeps quiet)+, simp_all)

section \<open>The ledger\<close>

definition logged :: "outcome \<Rightarrow> uuid \<Rightarrow> checkin_log list \<Rightarrow> int" where
  "logged out a gs = count_where (\<lambda>g. cl_attendee g = Some a \<and> cl_outcome g = out) gs"

definition inside :: "attendee \<Rightarrow> int" where
  "inside x = (if at_status x = CheckedIn then 1 else 0)"

definition ledger_of :: "attendee list \<Rightarrow> checkin_log list \<Rightarrow> bool" where
  "ledger_of as gs \<longleftrightarrow> keyed at_id as \<and> (\<forall>g \<in> set gs. \<forall>a. cl_attendee g = Some a \<longrightarrow> has_key at_id a as) \<and>
     (\<forall>x \<in> set as. logged OutCheckedIn (at_id x) gs = logged OutReverted (at_id x) gs + inside x)"

definition ledger :: "'z checkin_state_scheme \<Rightarrow> bool" where
  "ledger w \<longleftrightarrow> ledger_of (attendees w) (checkin_logs w)"

lemma logged_snoc [simp]: "logged out a (gs @ [g]) =
    logged out a gs + (if cl_attendee g = Some a \<and> cl_outcome g = out then 1 else 0)"
  by (simp add: logged_def)

lemma logged_none: "\<forall>g \<in> set gs. cl_attendee g \<noteq> Some a \<Longrightarrow> logged out a gs = 0"
  by (induction gs) (auto simp: logged_def)

lemma has_key_by_key: "has_key key k rs \<longleftrightarrow> by_key key k rs \<noteq> None"
  by (simp only: has_key_iff by_key_None not_not)

lemma has_key_upsert [simp]: "has_key key k (upsert key r rs) \<longleftrightarrow> k = key r \<or> has_key key k rs"
  unfolding has_key_by_key by simp

lemma set_upsert: "keyed key rs \<Longrightarrow> x \<in> set (upsert key r rs) \<Longrightarrow> x = r \<or> x \<in> set rs \<and> key x \<noteq> key r"
  by (auto simp: upsert_def set_modify has_key_iff image_iff split: if_splits)

lemma ledger_fresh:
  assumes "ledger_of as gs" and "at_status a = Registered" and "\<not> has_key at_id (at_id a) as"
  shows "ledger_of (as @ [a]) gs"
proof -
  have "\<forall>g \<in> set gs. cl_attendee g \<noteq> Some (at_id a)" using assms by (auto simp: ledger_of_def)
  then have "logged out (at_id a) gs = 0" for out by (rule logged_none)
  then show ?thesis using assms by (auto simp: ledger_of_def inside_def has_key_def)
qed

text \<open>One row moves from \<open>x\<close> to \<open>x'\<close> and the log grows by what accounts for it.\<close>

lemma ledger_move:
  assumes "ledger_of as gs" and "by_key at_id (at_id x) as = Some x" and "at_id x' = at_id x"
    and "\<And>a. logged OutCheckedIn a gs' - logged OutReverted a gs' =
      logged OutCheckedIn a gs - logged OutReverted a gs + (if a = at_id x then inside x' - inside x else 0)"
    and "\<And>g. g \<in> set gs' \<Longrightarrow> g \<in> set gs \<or> cl_attendee g = Some (at_id x) \<or> cl_attendee g = None"
  shows "ledger_of (upsert at_id x' as) gs'"
proof -
  have x: "x \<in> set as" using by_key_Some [OF assms(2)] by simp
  have "logged OutCheckedIn (at_id z) gs' = logged OutReverted (at_id z) gs' + inside z"
    if "z \<in> set (upsert at_id x' as)" for z
  proof -
    from that assms(1) have "z = x' \<or> z \<in> set as \<and> at_id z \<noteq> at_id x'"
      by (intro set_upsert) (simp_all add: ledger_of_def)
    then show ?thesis using assms(1,3) assms(4) [of "at_id z"] x by (auto simp: ledger_of_def)
  qed
  moreover have "has_key at_id a (upsert at_id x' as)" if "g \<in> set gs'" "cl_attendee g = Some a" for g a
    using assms(1,3) assms(5) [OF that(1)] that(2) by (auto simp: ledger_of_def)
  ultimately show ?thesis using assms(1) by (auto simp: ledger_of_def)
qed

lemma ledger_log: "ledger_of as gs \<Longrightarrow> cl_outcome g \<notin> {OutCheckedIn, OutReverted} \<Longrightarrow>
    (\<forall>a. cl_attendee g = Some a \<longrightarrow> has_key at_id a as) \<Longrightarrow> ledger_of as (gs @ [g])"
  by (auto simp: ledger_of_def)

lemma door_effect_ledger:
  assumes "ledger w" and "door_effect tok ev a meth staff w r w'"
  shows "ledger w'"
proof -
  obtain x i where x: "by_key at_id a (attendees w) = Some x"
    and d: "door_is (if admits ev (tok x) x then upsert at_id (flipped (clock w) x) (attendees w) else attendees w)
       (collections w) (checkin_logs w @ [log_row i ev (Some a) staff (door_outcome ev (tok x) x) meth (clock w)]) w'"
    using assms(2) unfolding door_effect_def by blast
  have a: "at_id x = a" using x by (rule by_key_key)
  show ?thesis
  proof (cases "admits ev (tok x) x")
    case True
    then have "door_outcome ev (tok x) x = OutCheckedIn" "at_status x = Registered"
      by (simp_all add: admits_outcome [symmetric]) (simp add: admits_def)
    with True assms(1) x a d show ?thesis
      by (auto simp: ledger_def door_is_def log_row_def flipped_def inside_def intro!: ledger_move [of _ _ x])
  next
    case False
    then have "door_outcome ev (tok x) x \<notin> {OutCheckedIn, OutReverted}"
      by (auto simp: admits_outcome [symmetric]) (simp add: door_outcome_def split: if_splits attendee_status.splits)
    moreover have "has_key at_id a (attendees w)" using by_key_Some [OF x] by (auto simp: has_key_iff)
    ultimately show ?thesis
      using False assms(1) d by (auto simp: ledger_def door_is_def log_row_def intro!: ledger_log)
  qed
qed

lemma ledger_tables [keeps_intros]: "on_tables ledger" "quiet ledger"
  by (auto intro!: quietI on_tablesI simp: ledger_def)

lemma ledger_same: "same_store w w' \<Longrightarrow> ledger w' = ledger w"
  using ledger_tables(1) on_tables_same by blast

lemma revert_effect_ledger:
  assumes "ledger w" and "revert_effect g ev a staff w w'"
  shows "ledger w'"
proof -
  obtain x i where x: "by_key at_id a (attendees w) = Some x" "at_status x = CheckedIn"
    and d: "door_is (upsert at_id (stepped_out (clock w) x) (attendees w)) (collections w)
       (checkin_logs w @ [log_row i ev (Some a) staff OutReverted Manual (clock w)]) w'"
    using assms(2) unfolding revert_effect_def by blast
  have "at_id x = a" using x(1) by (rule by_key_key)
  with assms(1) x d show ?thesis
    by (auto simp: ledger_def door_is_def log_row_def stepped_out_def inside_def intro!: ledger_move [of _ _ x])
qed

lemma ledger_scans:
  "keeps ledger (scan s org ref0 code ref1 staff)" "keeps ledger (scan_batch s org ref0 codes staff)"
  "keeps ledger (revert s org ref0 ref1 staff)"
proof -
  have [keeps_intros]: "keeps ledger (insert_log l \<lparr>cl_id = i, cl_event = ev, cl_attendee = None, cl_scanned_by = staff,
      cl_outcome = OutInvalidCode, cl_method = ByQR, cl_created_at = now\<rparr>)" for l i ev staff now
    unfolding insert_log_def Let_def
    by (intro keeps_intros) (auto simp: ledger_def intro: ledger_log)
  have [keeps_intros]: "keeps ledger (cs_audit s org staff g)" for g
    unfolding cs_audit_def by (intro keeps_intros)
  have [keeps_intros]: "keeps ledger (scan_tx s org ev a raw staff)" for ev a raw
    by (rule keepsI, rule wp_mono [OF scan_tx_spec [OF same_store_refl]])
      (auto simp: ledger_same dest: door_effect_ledger)
  have q [keeps_intros]: "keeps ledger (scan_qr s org ref0 code staff)" for code
    unfolding scan_qr_def by (intro keeps_intros)
  have [keeps_intros]: "keeps ledger (scan_manual s org ref0 ref1 staff)"
    by (rule keepsI, rule wp_mono [OF scan_manual_spec]) (auto simp: ledger_same dest: door_effect_ledger)
  show "keeps ledger (scan s org ref0 code ref1 staff)" unfolding scan_def by (intro keeps_intros)
  show "keeps ledger (scan_batch s org ref0 codes staff)" unfolding scan_batch_def by (intro keeps_intros)
  have [keeps_intros]: "keeps ledger (revert_tx s org ev a staff)" for ev a
    by (rule keepsI, rule wp_mono [OF revert_tx_spec [OF same_store_refl]])
      (auto simp: ledger_same dest: revert_effect_ledger)
  show "keeps ledger (revert s org ref0 ref1 staff)" unfolding revert_def by (intro keeps_intros)
qed

interpretation door_ledger: door_invariant ledger y for y
proof unfold_locales
  fix w w' :: order_state assume "same_door w w'" "ledger w"
  then show "ledger w'" by (simp add: same_door_def ledger_def)
next
  fix w :: order_state and a :: attendee assume "ledger w" "at_status a = Registered" "\<not> has_key at_id (at_id a) (attendees w)"
  then show "ledger (w\<lparr>attendees := attendees w @ [a]\<rparr>)" by (simp add: ledger_def ledger_fresh)
next
  fix w :: order_state and a0 a :: attendee
  assume "ledger w" "by_key at_id (at_id a0) (attendees w) = Some a0" "desk_edit a0 a"
  then show "ledger (w\<lparr>attendees := upsert at_id a (attendees w)\<rparr>)"
    by (auto simp: ledger_def desk_edit_def inside_def intro!: ledger_move [of _ _ a0])
qed (intro ledger_scans keeps_kit_calls ledger_tables; simp add: ledger_def)+

text \<open>C11. The door ledger. In every state that requests reach from a door without attendees and logs,
  an attendee is CHECKED_IN exactly when the check-in log admits them once more than it reverts them, and otherwise
  admissions and reverts are level: nobody is admitted twice without a revert between, whatever scans, batches, reverts,
  edits, withdrawals and order requests ran, and whichever of their database accesses failed.\<close>

theorem nobody_admitted_twice:
  assumes "attendees w0 = []" and "checkin_logs w0 = []" and "(request y)\<^sup>*\<^sup>* w0 w" and "x \<in> set (attendees w)"
  shows "logged OutCheckedIn (at_id x) (checkin_logs w) =
    logged OutReverted (at_id x) (checkin_logs w) + (if at_status x = CheckedIn then 1 else 0)"
proof -
  have "ledger w0" using assms(1,2) by (simp add: ledger_def ledger_of_def)
  then have "ledger w" by (rule door_ledger.steps [OF assms(3)])
  with assms(4) show ?thesis by (auto simp: ledger_def ledger_of_def inside_def)
qed

definition registered_world :: order_state where
  "registered_world = snd (add_manual sample_lib 10 ''fair'' ''eve@x.io'' None sample_world)"

definition welcomed_world :: order_state where
  "welcomed_world = snd (scan sample_checkins 10 ''fair'' [] (sample_text 100) 1 registered_world)"

lemma requests_welcomed: "(request sample_system)\<^sup>*\<^sup>* sample_world welcomed_world"
proof (rule converse_rtranclp_into_rtranclp, rule_tac [2] r_into_rtranclp)
  show "request sample_system sample_world registered_world" unfolding registered_world_def
    by (rule Add_manual, simp add: sample_system_def, rule prod.collapse [symmetric])
  show "request sample_system registered_world welcomed_world" unfolding welcomed_world_def
    by (rule Scan, simp add: sample_system_def, rule prod.collapse [symmetric])
qed

lemma welcomed_eval:
  "map (\<lambda>x. (at_id x, at_status x)) (attendees welcomed_world) = [(100, CheckedIn)]"
  by (simp add: welcomed_world_def registered_world_def scan_def scan_manual_def apply_checkin_manual_def
      add_manual_def valid_email_def has_char_def generate_token_def repo_create_attendee_def eval_door evals
      sample_text_def list_all_iff)

theorem nobody_admitted_twice_witness:
  "\<exists>x \<in> set (attendees welcomed_world). at_id x = 100 \<and>
     logged OutCheckedIn 100 (checkin_logs welcomed_world) = logged OutReverted 100 (checkin_logs welcomed_world) + 1"
proof -
  obtain x where "attendees welcomed_world = [x]" "at_id x = 100" "at_status x = CheckedIn"
    using welcomed_eval by (auto simp: map_eq_Cons_conv)
  with nobody_admitted_twice [OF _ _ requests_welcomed, of x] show ?thesis by simp
qed

end
