(* ===== verification/Handouts.thy ===== *)
theory Handouts
  imports Ledger
begin

text \<open>
  Facts about the handouts. A new handout needs stock and a checked-in attendee; at most one active handout per kit
  and attendee; an active handout always belongs to someone inside, kept by all requests since a revert is refused while
  handouts are outstanding. The last section shows the interleaving that the unlocked read of \<open>Collect\<close> allows.
\<close>

section \<open>Collecting\<close>

definition hands_are :: "attendee list \<Rightarrow> kit list \<Rightarrow> collection list \<Rightarrow> 'z kit_state_scheme \<Rightarrow> bool" where
  "hands_are as ks cs w \<longleftrightarrow> attendees w = as \<and> kits w = ks \<and> collections w = cs"

lemma hands_are_keeps [keeps_intros]: "on_tables (hands_are as ks cs)" "quiet (hands_are as ks cs)"
  by (auto intro!: quietI on_tablesI simp: hands_are_def)

lemma hands_are_simps [simp]: "hands_are as ks cs (tick w) = hands_are as ks cs w"
  "hands_are (attendees w) (kits w) (collections w) w"
  by (simp_all add: hands_are_def)

lemma kit_audit_hands [keeps_intros]: "keeps (hands_are as ks cs) (ks_audit s org staff a b i d)"
  unfolding ks_audit_def by (intro keeps_intros)

lemma collect_check_spec:
  "wp (collect_check s org eventref kitref attref)
     (\<lambda>(ev, i, a) w'. same_store w w' \<and>
        (\<exists>x. by_key at_id a (attendees w) = Some x \<and> at_event x = ev \<and> at_status x = CheckedIn))
     (\<lambda>_. same_store w) w"
proof -
  have e: "keeps (same_store w) (kit_event (ks_lib s) org eventref err)" for err by (intro keeps_intros)
  have p: "keeps (same_store w) (kit_parse (ks_lib s) r err)" for r err by (intro keeps_intros)
  have st: "wp (attendee_status_in_event a ev)
      (\<lambda>st w'. same_store w w' \<and> (\<exists>x. by_key at_id a (attendees w) = Some x \<and> at_event x = ev \<and> at_status x = st))
      (\<lambda>_. same_store w) v" if "same_store w v" for a ev v
    using that by (auto simp: attendee_status_in_event_def get_attendee_by_id_def wp_simps attendees_same split: option.split)
  show ?thesis
    unfolding collect_check_def wp_bnd [of "kit_event _ _ _ _"] wp_bnd [of "kit_parse _ _ _"]
      wp_bnd [of "on_error _ _"] wp_on_error
    by (rule wp_mono [OF keeps_wpI [OF e]], simp, rule wp_mono [OF keeps_wpI [OF p]], simp,
        rule wp_mono [OF keeps_wpI [OF p]], simp, rule wp_mono [OF st])
      (auto simp: wp_bnd wp_guard wp_ret)
qed

definition handout :: "uuid \<Rightarrow> uuid \<Rightarrow> uuid \<Rightarrow> uuid \<Rightarrow> bool \<Rightarrow> string \<Rightarrow> uuid \<Rightarrow> instant \<Rightarrow> collection" where
  "handout ident ev i a hold key staff now = \<lparr>kc_id = ident, kc_kit = i, kc_event = ev, kc_attendee = a, kc_idem = key,
     kc_status = (if hold then Pending else Collected), kc_collected_at = (if hold then None else Some now),
     kc_collected_by = (if hold then None else Some staff), kc_created_at = now, kc_updated_at = now\<rparr>"

text \<open>A handout answered again, or a new one with stock left and no active one before it.\<close>

definition handed :: "uuid \<Rightarrow> uuid \<Rightarrow> uuid \<Rightarrow> bool \<Rightarrow> string \<Rightarrow> uuid \<Rightarrow> 'z kit_state_scheme \<Rightarrow> collection_view
    \<Rightarrow> 'z kit_state_scheme \<Rightarrow> bool" where
  "handed ev i a hold key staff w r w' \<longleftrightarrow> (\<exists>k. by_key kt_id i (kits w) = Some k \<and> kt_event k = ev \<and>
     (key \<noteq> [] \<and> find (same_request i a key) (collections w) = Some (cv_collection r) \<and>
        hands_are (attendees w) (kits w) (collections w) w' \<or>
      (key = [] \<or> find (same_request i a key) (collections w) = None) \<and>
      count_where (active_for i) (collections w) < kt_total k \<and>
      (\<exists>ident. \<not> has_key kc_id ident (collections w) \<and>
         (\<forall>c \<in> set (collections w). \<not> (kc_kit c = i \<and> kc_attendee c = a \<and> kc_status c \<noteq> Voided)) \<and>
         cv_collection r = handout ident ev i a hold key staff (clock w) \<and>
         hands_are (attendees w) (kits w) (collections w @ [cv_collection r]) w')))"

lemma handed_tick: "handed ev i a hold key staff w r (tick w') = handed ev i a hold key staff w r w'"
  by (simp add: handed_def)

lemma create_handout_spec:
  assumes "same_store w v"
  shows "wp (repo_create_collection l \<lparr>kc_id = uuid_nil, kc_kit = i, kc_event = ev, kc_attendee = a, kc_idem = key,
      kc_status = (if hold then Pending else Collected), kc_collected_at = (if hold then None else Some (clock w)),
      kc_collected_by = (if hold then None else Some staff), kc_created_at = 0, kc_updated_at = 0\<rparr>)
    (\<lambda>row w'. \<exists>ident. \<not> has_key kc_id ident (collections w) \<and>
       (\<forall>c \<in> set (collections w). \<not> (kc_kit c = i \<and> kc_attendee c = a \<and> kc_status c \<noteq> Voided)) \<and>
       row = handout ident ev i a hold key staff (clock w) \<and>
       hands_are (attendees w) (kits w) (collections w @ [row]) w') (\<lambda>_ _. True) v"
  using assms
  by (auto simp: repo_create_collection_def wp_simps Let_def handout_def hands_are_def collections_same attendees_same
      kits_same clock_same collection_conflict_def list_ex_iff)

lemma collect_commit_spec:
  assumes v: "same_store w v"
  shows "wp (collect_commit s org ev i a hold key staff) (handed ev i a hold key staff w) (\<lambda>_. same_store w) v"
  unfolding collect_commit_def
proof (rule wp_tx_effect [OF v], rule handed_tick)
  have locked: "wp (locked_kit i ev) (\<lambda>k w'. same_store w w' \<and> by_key kt_id i (kits w) = Some k \<and> kt_event k = ev)
      (\<lambda>_ _. True) (tick v)"
    using v by (auto simp: locked_kit_def get_kit_for_update_def wp_simps kits_same split: option.split)
  have find: "wp (if key \<noteq> [] then find_collection_by_key i a key else ret None)
      (\<lambda>x w'. same_store w w' \<and> x = (if key \<noteq> [] then find (same_request i a key) (collections w) else None))
      (\<lambda>_ _. True) u" if "same_store w u" for u
    using that by (auto simp: find_collection_by_key_def wp_simps collections_same)
  have create: "wp (bnd (count_active i) (\<lambda>n.
         bnd (guard (\<not> n \<ge> kt_total k) (KitE kit_err.ErrQuantityExhausted)) (\<lambda>_.
         bnd time_now (\<lambda>now.
         let c = \<lparr>kc_id = uuid_nil, kc_kit = i, kc_event = ev, kc_attendee = a, kc_idem = key,
                  kc_status = (if hold then Pending else Collected),
                  kc_collected_at = (if hold then None else Some now),
                  kc_collected_by = (if hold then None else Some staff),
                  kc_created_at = 0, kc_updated_at = 0\<rparr> in
         bnd (on_error (repo_create_collection (ks_lib s) c) (unique_as (KitE kit_err.ErrAlreadyCollected))) (\<lambda>row.
         bnd (ks_audit s org staff (if hold then ''kit.reserved'' else ''kit.collected'') ''kit_collection''
                (Some (kc_id row))
                [(''kitId'', AId i), (''attendeeId'', AId a),
                 (''status'', AStr (collection_status_text (kc_status c)))]) (\<lambda>_.
         ret \<lparr>cv_collection = row, cv_kit_name = kt_name k\<rparr>))))))
      (handed ev i a hold key staff w) (\<lambda>_ _. True) u"
    if u: "same_store w u" and k: "by_key kt_id i (kits w) = Some k" "kt_event k = ev"
      and none: "key = [] \<or> find (same_request i a key) (collections w) = None" for k u
  proof -
    have audit: "wp (ks_audit s org staff act obj oid d) (\<lambda>_. handed ev i a hold key staff w \<lparr>cv_collection = row, cv_kit_name = kt_name k\<rparr>)
        (\<lambda>_ _. True) z"
      if "count_where (active_for i) (collections w) < kt_total k" "\<not> has_key kc_id ident (collections w)"
        "\<forall>c \<in> set (collections w). \<not> (kc_kit c = i \<and> kc_attendee c = a \<and> kc_status c \<noteq> Voided)"
        "row = handout ident ev i a hold key staff (clock w)"
        "hands_are (attendees w) (kits w) (collections w @ [row]) z" for act obj oid d row ident z
      by (rule wp_mono [OF wp_rest [OF kit_audit_hands that(5)]]) (use that k none in \<open>auto simp: handed_def\<close>)
    have t: "same_store w (tick u)" using u by simp
    note row = create_handout_spec [OF t, of "ks_lib s" i ev a key hold staff]
    have f: "collections (tick u) = collections w" "clock (tick u) = clock w"
      using collections_same [OF u] clock_same [OF u] by simp_all
    show ?thesis
    proof (cases "trips u \<or> kt_total k \<le> count_where (active_for i) (collections w)")
      case True
      then show ?thesis
        by (cases "trips u") (simp_all add: count_active_def wp_bnd wp_select wp_guard f del: tick_simps kit_tick)
    next
      case False
      then show ?thesis
        unfolding Let_def count_active_def wp_bnd wp_select wp_guard wp_time_now wp_on_error wp_ret f
        by (simp only: if_not_P de_Morgan_disj not_False_eq_True simp_thms if_True if_False)
          (rule wp_mono [OF row], elim exE conjE, (rule audit; simp add: not_le), rule TrueI)
    qed
  qed
  show "wp (bnd (locked_kit i ev) (\<lambda>k.
     bnd (if key \<noteq> [] then find_collection_by_key i a key else ret None) (\<lambda>existing.
     case existing of
       Some c \<Rightarrow> ret \<lparr>cv_collection = c, cv_kit_name = kt_name k\<rparr>
     | None \<Rightarrow>
         bnd (count_active i) (\<lambda>n.
         bnd (guard (\<not> n \<ge> kt_total k) (KitE kit_err.ErrQuantityExhausted)) (\<lambda>_.
         bnd time_now (\<lambda>now.
         let c = \<lparr>kc_id = uuid_nil, kc_kit = i, kc_event = ev, kc_attendee = a, kc_idem = key,
                  kc_status = (if hold then Pending else Collected),
                  kc_collected_at = (if hold then None else Some now),
                  kc_collected_by = (if hold then None else Some staff),
                  kc_created_at = 0, kc_updated_at = 0\<rparr> in
         bnd (on_error (repo_create_collection (ks_lib s) c) (unique_as (KitE kit_err.ErrAlreadyCollected))) (\<lambda>row.
         bnd (ks_audit s org staff (if hold then ''kit.reserved'' else ''kit.collected'') ''kit_collection''
                (Some (kc_id row))
                [(''kitId'', AId i), (''attendeeId'', AId a),
                 (''status'', AStr (collection_status_text (kc_status c)))]) (\<lambda>_.
         ret \<lparr>cv_collection = row, cv_kit_name = kt_name k\<rparr>))))))))
      (handed ev i a hold key staff w) (\<lambda>_ _. True) (tick v)"
    unfolding wp_bnd [of "locked_kit _ _"] wp_bnd [of "If _ _ _"]
  proof (rule wp_mono [OF locked], rule wp_mono [OF find], goal_cases)
    case (2 k u ex u')
    show ?case
    proof (cases ex)
      case None
      show ?thesis unfolding None option.case by (rule create) (use 2 None in \<open>auto split: if_splits\<close>)
    next
      case (Some c)
      then show ?thesis
        using 2 by (auto simp: wp_ret handed_def hands_are_def attendees_same kits_same collections_same split: if_splits)
    qed
  qed simp_all
qed

lemma collect_spec:
  "wp (collect s org eventref kitref attref hold key staff)
     (\<lambda>r w'. \<exists>ev i a x. by_key at_id a (attendees w) = Some x \<and> at_event x = ev \<and> at_status x = CheckedIn \<and>
        handed ev i a hold key staff w r w') (\<lambda>_. same_store w) w"
  unfolding collect_def wp_bnd [of "collect_check _ _ _ _ _"]
  by (rule wp_mono [OF collect_check_spec]) (auto intro: wp_mono [OF collect_commit_spec])

text \<open>C12. A handout goes only to someone inside, once, while stock lasts. A successful \<open>Collect\<close> names a kit and an attendee of the same event, the
  attendee CHECKED_IN. Either the idempotency key was used before by this pair and the first handout is answered
  again, nothing changing, or fewer handouts than \<open>quantity_total\<close> are active, the pair has no active one, and exactly one row is added: PENDING
  for a hold, else COLLECTED by this member of staff now.\<close>

theorem collect_effect:
  assumes "collect s org eventref kitref attref hold key staff w = (Inr r, w')"
  shows "\<exists>i a x k. by_key at_id a (attendees w) = Some x \<and> at_status x = CheckedIn \<and>
    by_key kt_id i (kits w) = Some k \<and> kt_event k = at_event x \<and>
    attendees w' = attendees w \<and> kits w' = kits w \<and>
    (key \<noteq> [] \<and> find (same_request i a key) (collections w) = Some (cv_collection r) \<and> collections w' = collections w \<or>
     count_where (active_for i) (collections w) < kt_total k \<and>
     (\<forall>c \<in> set (collections w). kc_kit c = i \<and> kc_attendee c = a \<longrightarrow> kc_status c = Voided) \<and>
     collections w' = collections w @ [cv_collection r] \<and> kc_kit (cv_collection r) = i \<and> kc_attendee (cv_collection r) = a \<and>
     kc_event (cv_collection r) = at_event x \<and> kc_status (cv_collection r) = (if hold then Pending else Collected) \<and>
     kc_collected_by (cv_collection r) = (if hold then None else Some staff) \<and>
     kc_collected_at (cv_collection r) = (if hold then None else Some (clock w)))"
proof -
  from wp_okD [OF assms collect_spec] obtain ev i a x where x: "by_key at_id a (attendees w) = Some x" "at_event x = ev"
      "at_status x = CheckedIn" "handed ev i a hold key staff w r w'" by blast
  from x(4) obtain k where k: "by_key kt_id i (kits w) = Some k" "kt_event k = ev"
    and or: "key \<noteq> [] \<and> find (same_request i a key) (collections w) = Some (cv_collection r) \<and>
        hands_are (attendees w) (kits w) (collections w) w' \<or>
      count_where (active_for i) (collections w) < kt_total k \<and>
      (\<exists>ident. (\<forall>c \<in> set (collections w). \<not> (kc_kit c = i \<and> kc_attendee c = a \<and> kc_status c \<noteq> Voided)) \<and>
         cv_collection r = handout ident ev i a hold key staff (clock w) \<and>
         hands_are (attendees w) (kits w) (collections w @ [cv_collection r]) w')"
    unfolding handed_def by blast
  show ?thesis
    by (intro exI [of _ i] exI [of _ a] exI [of _ x] exI [of _ k])
      (use x(1-3) k or in \<open>auto simp: hands_are_def handout_def\<close>)
qed

definition kit_row :: "uuid \<Rightarrow> int \<Rightarrow> kit" where
  "kit_row i n = \<lparr>kt_id = i, kt_event = 20, kt_name = ''Badge'', kt_description = [], kt_total = n,
     kt_created_at = 0, kt_updated_at = 0\<rparr>"

definition kit_world :: order_state where
  "kit_world = sample_world\<lparr>attendees := [door_row 2 CheckedIn, door_row 3 Registered], kits := [kit_row 4 2]\<rparr>"

lemmas eval_kits = kit_world_def kit_row_def collect_def collect_check_def collect_commit_def kit_event_def kit_parse_def
  attendee_status_in_event_def get_attendee_by_id_def locked_kit_def get_kit_for_update_def find_collection_by_key_def
  count_active_def repo_create_collection_def ks_audit_def

definition given_world :: order_state where
  "given_world = snd (collect sample_kits 10 ''fair'' (sample_text 4) (sample_text 2) False ''k'' 1 kit_world)"

lemma given_eval:
  "\<exists>r. collect sample_kits 10 ''fair'' (sample_text 4) (sample_text 2) False ''k'' 1 kit_world = (Inr r, given_world)"
  "map (\<lambda>c. (kc_id c, kc_attendee c, kc_event c, kc_status c)) (collections given_world) = [(100, 2, 20, Collected)]"
  by (simp_all add: given_world_def eval_kits eval_door evals list_all_iff)

theorem collect_effect_witness: "map kc_status (collections given_world) = [Collected]"
proof -
  obtain r where c: "collect sample_kits 10 ''fair'' (sample_text 4) (sample_text 2) False ''k'' 1 kit_world = (Inr r, given_world)"
    using given_eval(1) by blast
  show ?thesis using collect_effect [OF c] by (auto simp: kit_world_def)
qed

section \<open>Transitions\<close>

definition turned :: "collection_status list \<Rightarrow> collection_status \<Rightarrow> 'z kit_state_scheme \<Rightarrow> collection \<Rightarrow> 'z kit_state_scheme \<Rightarrow> bool" where
  "turned src to w c w' \<longleftrightarrow> (\<exists>c0. by_key kc_id (kc_id c) (collections w) = Some c0 \<and> kc_status c0 \<in> set src \<and>
     kc_status c = to \<and> kc_kit c = kc_kit c0 \<and> kc_attendee c = kc_attendee c0 \<and> kc_event c = kc_event c0 \<and>
     hands_are (attendees w) (kits w) (upsert kc_id c (collections w)) w')"

lemma turned_tick: "turned src to w c (tick w') = turned src to w c w'"
  by (simp add: turned_def)

lemma transition_spec:
  "wp (transition_collection s org eventref colref staff to action src)
     (\<lambda>r w'. turned src to w (cv_collection r) w') (\<lambda>_. same_store w) w"
proof -
  have e: "keeps (same_store w) (kit_event (ks_lib s) org eventref err)" for err by (intro keeps_intros)
  have p: "keeps (same_store w) (kit_parse (ks_lib s) x err)" for x err by (intro keeps_intros)
  have tail: "wp (bnd (get_kit_by_id i) (\<lambda>k. bnd (ks_audit s org staff action obj oid d) (\<lambda>_.
       ret \<lparr>cv_collection = row, cv_kit_name = kt_name k\<rparr>)))
     (\<lambda>r w'. turned src to w (cv_collection r) w') (\<lambda>_ _. True) u"
    if t: "turned src to w row u" for i obj oid d row u
  proof -
    let ?h = "hands_are (attendees w) (kits w) (upsert kc_id row (collections w))"
    have k: "keeps ?h (get_kit_by_id i)" and a: "keeps ?h (ks_audit s org staff action obj oid d)" by (intro keeps_intros)+
    have u: "?h u" using t by (auto simp: turned_def)
    have "turned src to w row z" if "?h z" for z using t that by (auto simp: turned_def)
    then show ?thesis
      unfolding wp_bnd wp_ret collection_view.simps
      by (intro wp_mono [OF wp_rest [OF k u]] wp_mono [OF wp_rest [OF a]]) simp_all
  qed
  have "wp (tx (
       bnd (on_error (get_collection_for_update i) (not_found_as (KitE kit_err.ErrCollectionNotFound))) (\<lambda>c0.
       bnd (guard (kc_event c0 = ev) (KitE kit_err.ErrCollectionNotFound)) (\<lambda>_.
       bnd (guard (kc_status c0 \<in> set src) (KitE kit_err.ErrInvalidStatus)) (\<lambda>_.
       bnd time_now (\<lambda>now.
       let c1 = c0\<lparr>kc_status := to\<rparr>;
           c = (if to = Collected then c1\<lparr>kc_collected_at := Some now, kc_collected_by := Some staff\<rparr> else c1) in
       bnd (repo_update_collection c) (\<lambda>row.
       bnd (get_kit_by_id (kc_kit c)) (\<lambda>k.
       bnd (ks_audit s org staff action ''kit_collection'' (Some (kc_id c))
              [(''status'', AStr (collection_status_text to))]) (\<lambda>_.
       ret \<lparr>cv_collection = row, cv_kit_name = kt_name k\<rparr>)))))))))
     (\<lambda>r w'. turned src to w (cv_collection r) w') (\<lambda>_. same_store w) v" if v: "same_store w v" for i ev v
  proof (rule wp_tx_effect [OF v], rule turned_tick, unfold Let_def, goal_cases)
    case 1
    have c: "collections v = collections w" "attendees v = attendees w" "kits v = kits w"
      using collections_same [OF v] attendees_same [OF v] kits_same [OF v] by simp_all
    have update: "wp (repo_update_collection c) (\<lambda>row. turned src to w row) (\<lambda>_ _. True) u"
      if "same_store w u" "by_key kc_id i (collections w) = Some c0" "kc_status c0 \<in> set src" "kc_status c = to"
        "kc_kit c = kc_kit c0" "kc_attendee c = kc_attendee c0" "kc_event c = kc_event c0" "kc_id c = kc_id c0" for c c0 u
      using that by_key_key [OF that(2)] by (auto simp: repo_update_collection_def wp_simps Let_def turned_def hands_are_def
        collections_same attendees_same kits_same)
    show ?case
    proof (cases "by_key kc_id i (collections w)")
      case None
      then show ?thesis by (simp add: wp_bnd wp_on_error get_collection_for_update_def wp_select_first c)
    next
      case (Some c0)
      have *: "wp (bnd (repo_update_collection c) (\<lambda>row. bnd (get_kit_by_id (kc_kit c)) (\<lambda>k.
         bnd (ks_audit s org staff action ''kit_collection'' (Some (kc_id c)) [(''status'', AStr (collection_status_text to))]) (\<lambda>_.
         ret \<lparr>cv_collection = row, cv_kit_name = kt_name k\<rparr>))))
         (\<lambda>r w'. turned src to w (cv_collection r) w') (\<lambda>_ _. True) (tick (tick v))"
        if "kc_status c0 \<in> set src" "kc_status c = to"
        "kc_kit c = kc_kit c0" "kc_attendee c = kc_attendee c0" "kc_event c = kc_event c0" "kc_id c = kc_id c0" for c
        unfolding wp_bnd [of "repo_update_collection _"]
        by (rule wp_mono [OF update [OF _ Some that]]) (use v in \<open>auto intro: tail\<close>)
      show ?thesis
        by (simp add: wp_bnd [of "on_error _ _"] wp_on_error get_collection_for_update_def wp_select_first c Some
            wp_bnd [of "guard _ _"] wp_guard wp_bnd [of time_now] wp_time_now *)
    qed
  qed
  then show ?thesis
    unfolding transition_collection_def wp_bnd [of "kit_event _ _ _ _"] wp_bnd [of "kit_parse _ _ _"]
    by - (rule wp_mono [OF keeps_wpI [OF e]], simp, rule wp_mono [OF keeps_wpI [OF p]], simp_all)
qed

section \<open>Active handouts are held by people inside\<close>

definition rivals :: "collection \<Rightarrow> collection \<Rightarrow> bool" where
  "rivals c c' \<longleftrightarrow> kc_status c \<noteq> Voided \<and> kc_status c' \<noteq> Voided \<and> kc_kit c = kc_kit c' \<and>
     kc_attendee c = kc_attendee c' \<and> kc_id c \<noteq> kc_id c'"

definition active_once :: "collection list \<Rightarrow> bool" where
  "active_once cs \<longleftrightarrow> keyed kc_id cs \<and> (\<forall>c \<in> set cs. \<forall>c' \<in> set cs. \<not> rivals c c')"

definition held_inside :: "attendee list \<Rightarrow> collection list \<Rightarrow> bool" where
  "held_inside as cs \<longleftrightarrow> (\<forall>c \<in> set cs. kc_status c \<noteq> Voided \<longrightarrow>
     (\<exists>x. by_key at_id (kc_attendee c) as = Some x \<and> at_event x = kc_event c \<and> at_status x = CheckedIn))"

definition accounted :: "bool \<Rightarrow> 'z kit_state_scheme \<Rightarrow> bool" where
  "accounted guarded w \<longleftrightarrow> active_once (collections w) \<and> (guarded \<longrightarrow> held_inside (attendees w) (collections w))"

lemma accounted_tables [keeps_intros]: "on_tables (accounted g)" "quiet (accounted g)"
  by (auto intro!: quietI on_tablesI simp: accounted_def)

lemma accounted_same: "same_store w w' \<Longrightarrow> accounted g w' = accounted g w"
  using accounted_tables(1) on_tables_same by blast

lemma active_new:
  assumes "active_once cs" and "\<not> has_key kc_id (kc_id c) cs"
    and "\<forall>c' \<in> set cs. \<not> (kc_kit c' = kc_kit c \<and> kc_attendee c' = kc_attendee c \<and> kc_status c' \<noteq> Voided)"
  shows "active_once (cs @ [c])"
proof -
  have "\<not> rivals p q" if "p \<in> set (cs @ [c])" "q \<in> set (cs @ [c])" for p q
  proof (cases "p = c \<or> q = c")
    case True
    with that assms(3) show ?thesis by (auto simp: rivals_def)
  next
    case False
    with that assms(1) show ?thesis unfolding active_once_def by simp
  qed
  then show ?thesis using assms(1,2) by (simp add: active_once_def)
qed

lemma active_turn:
  assumes "active_once cs" and "by_key kc_id (kc_id c) cs = Some c0" and "kc_kit c = kc_kit c0"
    and "kc_attendee c = kc_attendee c0" and "kc_status c0 \<noteq> Voided"
  shows "active_once (upsert kc_id c cs)"
proof -
  have k: "keyed kc_id cs" using assms(1) by (simp add: active_once_def)
  have c0: "c0 \<in> set cs" "kc_id c0 = kc_id c" using by_key_Some [OF assms(2)] by simp_all
  have sim: "rivals c q \<Longrightarrow> rivals c0 q" "rivals q c \<Longrightarrow> rivals q c0" for q
    using assms(3-5) c0(2) by (auto simp: rivals_def)
  have "\<not> rivals p q" if p: "p \<in> set (upsert kc_id c cs)" and q: "q \<in> set (upsert kc_id c cs)" for p q
  proof -
    have "p = c \<or> p \<in> set cs" "q = c \<or> q \<in> set cs" using set_upsert [OF k p] set_upsert [OF k q] by blast+
    moreover have "\<not> rivals c c" by (simp add: rivals_def)
    ultimately show ?thesis using assms(1) c0(1) sim unfolding active_once_def by blast
  qed
  then show ?thesis using k by (simp add: active_once_def)
qed

lemma held_turn:
  assumes "held_inside as cs" and "keyed kc_id cs" and "by_key kc_id (kc_id c) cs = Some c0"
    and "kc_attendee c = kc_attendee c0" and "kc_event c = kc_event c0" and "kc_status c0 \<noteq> Voided"
  shows "held_inside as (upsert kc_id c cs)"
proof -
  have c0: "c0 \<in> set cs" using by_key_Some [OF assms(3)] by simp
  show ?thesis unfolding held_inside_def
  proof (intro ballI impI)
    fix z assume z: "z \<in> set (upsert kc_id c cs)" "kc_status z \<noteq> Voided"
    show "\<exists>x. by_key at_id (kc_attendee z) as = Some x \<and> at_event x = kc_event z \<and> at_status x = CheckedIn"
      using set_upsert [OF assms(2) z(1)]
    proof
      assume "z = c"
      then show ?thesis using assms(1,4-6) c0 unfolding held_inside_def by simp
    next
      assume "z \<in> set cs \<and> kc_id z \<noteq> kc_id c"
      then show ?thesis using assms(1) z(2) unfolding held_inside_def by simp
    qed
  qed
qed

text \<open>Attendees may change as long as those inside stay inside.\<close>

lemma held_stays:
  assumes "held_inside as cs"
    and "\<And>a x. by_key at_id a as = Some x \<Longrightarrow> at_status x = CheckedIn \<Longrightarrow> \<exists>c \<in> set cs. holds_kit a c \<Longrightarrow>
      \<exists>x'. by_key at_id a as' = Some x' \<and> at_event x' = at_event x \<and> at_status x' = CheckedIn"
  shows "held_inside as' cs"
  using assms unfolding held_inside_def holds_kit_def by metis

lemma door_effect_accounted:
  assumes "accounted g w" and "door_effect tok ev a meth staff w r w'"
  shows "accounted g w'"
proof -
  obtain x where x: "by_key at_id a (attendees w) = Some x" "collections w' = collections w"
    "attendees w' = (if admits ev (tok x) x then upsert at_id (flipped (clock w) x) (attendees w) else attendees w)"
    using assms(2) by (auto simp: door_effect_def door_is_def)
  have "at_id x = a" using x(1) by (rule by_key_key)
  with assms(1) x show ?thesis
    by (auto simp: accounted_def flipped_def elim!: held_stays)
qed

lemma revert_effect_accounted:
  assumes "accounted g w" and "revert_effect g ev a staff w w'"
  shows "accounted g w'"
proof -
  obtain x where x: "by_key at_id a (attendees w) = Some x" "collections w' = collections w"
    "attendees w' = upsert at_id (stepped_out (clock w) x) (attendees w)"
    "g \<longrightarrow> (\<forall>c \<in> set (collections w). \<not> holds_kit a c)"
    using assms(2) by (auto simp: revert_effect_def door_is_def)
  have "at_id x = a" using x(1) by (rule by_key_key)
  with assms(1) x show ?thesis
    by (auto simp: accounted_def stepped_out_def elim!: held_stays)
qed

lemma handed_accounted:
  assumes "accounted g w" and "handed ev i a hold key staff w r w'"
    and "by_key at_id a (attendees w) = Some x" "at_event x = ev" "at_status x = CheckedIn"
  shows "accounted g w'"
  using assms unfolding handed_def accounted_def hands_are_def
  by (auto simp: handout_def held_inside_def intro!: active_new)

lemma turned_accounted:
  assumes "accounted g w" and "turned src to w c w'" and "Voided \<notin> set src"
  shows "accounted g w'"
proof -
  obtain c0 where c: "by_key kc_id (kc_id c) (collections w) = Some c0" "kc_status c0 \<in> set src"
     "kc_kit c = kc_kit c0" "kc_attendee c = kc_attendee c0" "kc_event c = kc_event c0"
     "hands_are (attendees w) (kits w) (upsert kc_id c (collections w)) w'"
    using assms(2) unfolding turned_def by blast
  moreover from c(2) assms(3) have "kc_status c0 \<noteq> Voided" by metis
  moreover have "active_once (collections w)" "keyed kc_id (collections w)"
    using assms(1) by (simp_all add: accounted_def active_once_def)
  ultimately show ?thesis
    using assms(1) active_turn [of "collections w" c c0] held_turn [of "attendees w" "collections w" c c0]
    by (simp add: accounted_def hands_are_def)
qed

lemma accounted_scans:
  "keeps (accounted g) (scan s org ref0 code ref1 staff)" "keeps (accounted g) (scan_batch s org ref0 codes staff)"
  "keeps (accounted (cs_collections s)) (revert s org ref0 ref1 staff)"
proof -
  have [keeps_intros]: "keeps (accounted g) (insert_log l x)" "keeps (accounted g) (cs_audit s org staff x)" for g l x
    by (intro keeps_log_and_audit accounted_tables; simp add: accounted_def)+
  have [keeps_intros]: "keeps (accounted g) (scan_tx s org ev a raw staff)" for ev a raw
    by (rule keepsI, rule wp_mono [OF scan_tx_spec [OF same_store_refl]])
      (auto simp: accounted_same dest: door_effect_accounted)
  have q [keeps_intros]: "keeps (accounted g) (scan_qr s org ref0 code staff)" for code
    unfolding scan_qr_def by (intro keeps_intros)
  have [keeps_intros]: "keeps (accounted g) (scan_manual s org ref0 ref1 staff)"
    by (rule keepsI, rule wp_mono [OF scan_manual_spec]) (auto simp: accounted_same dest: door_effect_accounted)
  show "keeps (accounted g) (scan s org ref0 code ref1 staff)" unfolding scan_def by (intro keeps_intros)
  show "keeps (accounted g) (scan_batch s org ref0 codes staff)" unfolding scan_batch_def by (intro keeps_intros)
  have [keeps_intros]: "keeps (accounted (cs_collections s)) (revert_tx s org ev a staff)" for ev a
    by (rule keepsI, rule wp_mono [OF revert_tx_spec [OF same_store_refl]])
      (auto simp: accounted_same dest: revert_effect_accounted)
  show "keeps (accounted (cs_collections s)) (revert s org ref0 ref1 staff)" unfolding revert_def by (intro keeps_intros)
qed

lemma accounted_kits: "accounted g w \<Longrightarrow> accounted g (w\<lparr>kits := x\<rparr>)"
  by (simp add: accounted_def)

lemma accounted_kit_calls:
  "keeps (accounted g) (create_kit s org ref0 nm desc qty staff)"
  "keeps (accounted g) (update_kit s org ref0 ref1 nm' desc' qty' staff)"
  "keeps (accounted g) (delete_kit s org ref0 ref1 staff)"
  "keeps (accounted g) (collect s org ref0 ref1 ref2 hold key staff)"
  "keeps (accounted g) (mark_collected s org ref0 ref1 staff)"
  "keeps (accounted g) (void_collection s org ref0 ref1 staff)"
proof -
  have [keeps_intros]: "keeps (accounted g) (ks_audit s org staff a b i d)" for a b i d
    unfolding ks_audit_def by (intro keeps_intros)
  show "keeps (accounted g) (create_kit s org ref0 nm desc qty staff)"
    unfolding create_kit_def repo_create_kit_def by (intro keeps_intros accounted_kits)
  show "keeps (accounted g) (update_kit s org ref0 ref1 nm' desc' qty' staff)"
    unfolding update_kit_def repo_update_kit_def by (intro keeps_intros accounted_kits)
  have "accounted g w \<Longrightarrow> accounted g (w\<lparr>kits := x, collections := filter p (collections w)\<rparr>)" for w x p
    by (auto simp: accounted_def active_once_def held_inside_def keyed_filter)
  then show "keeps (accounted g) (delete_kit s org ref0 ref1 staff)"
    unfolding delete_kit_def repo_delete_kit_def by (intro keeps_intros)
  show "keeps (accounted g) (collect s org ref0 ref1 ref2 hold key staff)"
    by (rule keepsI, rule wp_mono [OF collect_spec]) (auto simp: accounted_same intro: handed_accounted)
  show "keeps (accounted g) (mark_collected s org ref0 ref1 staff)"
    "keeps (accounted g) (void_collection s org ref0 ref1 staff)"
    unfolding mark_collected_def void_collection_def
    by (rule keepsI, rule wp_mono [OF transition_spec], auto simp: accounted_same elim!: turned_accounted)+
qed

interpretation handouts: door_invariant "accounted (cs_collections (sy_checkins y))" y for y
proof unfold_locales
  fix w w' :: order_state assume "same_door w w'" "accounted (cs_collections (sy_checkins y)) w"
  then show "accounted (cs_collections (sy_checkins y)) w'" by (simp add: same_door_def accounted_def)
next
  fix w :: order_state and a :: attendee
  assume "accounted (cs_collections (sy_checkins y)) w" "at_status a = Registered"
  then show "accounted (cs_collections (sy_checkins y)) (w\<lparr>attendees := attendees w @ [a]\<rparr>)"
    by (auto simp: accounted_def by_key_snoc elim!: held_stays)
next
  fix w :: order_state and a0 a :: attendee
  assume "accounted (cs_collections (sy_checkins y)) w" "by_key at_id (at_id a0) (attendees w) = Some a0" "desk_edit a0 a"
  then show "accounted (cs_collections (sy_checkins y)) (w\<lparr>attendees := upsert at_id a (attendees w)\<rparr>)"
    by (auto simp: accounted_def desk_edit_def elim!: held_stays)
qed (intro accounted_scans accounted_kit_calls)+

text \<open>C13. Handouts stay with people inside. When the check-in service is wired with the kit guard, then in every state that requests
  reach from a database without handouts each active one (PENDING or COLLECTED) belongs to an attendee of its event who is CHECKED_IN now,
  and no attendee has two active ones of the same kit: reverts are refused while handouts are out, and handouts are
  refused outside.\<close>

theorem handouts_inside:
  assumes "collections w0 = []" and "(request y)\<^sup>*\<^sup>* w0 w" and "cs_collections (sy_checkins y)"
    and "c \<in> set (collections w)" and "kc_status c \<noteq> Voided"
  shows "(\<exists>x \<in> set (attendees w). at_id x = kc_attendee c \<and> at_event x = kc_event c \<and> at_status x = CheckedIn) \<and>
    (\<forall>c' \<in> set (collections w). kc_kit c' = kc_kit c \<and> kc_attendee c' = kc_attendee c \<and> kc_status c' \<noteq> Voided \<longrightarrow>
       kc_id c' = kc_id c)"
proof -
  have "accounted (cs_collections (sy_checkins y)) w0"
    using assms(1) by (simp add: accounted_def active_once_def held_inside_def)
  then have a: "accounted (cs_collections (sy_checkins y)) w" by (rule handouts.steps [OF assms(2)])
  then obtain x where "by_key at_id (kc_attendee c) (attendees w) = Some x" "at_event x = kc_event c" "at_status x = CheckedIn"
    using assms(3-5) by (auto simp: accounted_def held_inside_def)
  moreover from this(1) have "x \<in> set (attendees w) \<and> at_id x = kc_attendee c" by (rule by_key_Some)
  moreover have "kc_id c' = kc_id c" if "c' \<in> set (collections w)" "kc_kit c' = kc_kit c" "kc_attendee c' = kc_attendee c"
      "kc_status c' \<noteq> Voided" for c'
    using a that assms(4,5) by (auto simp: accounted_def active_once_def rivals_def)
  ultimately show ?thesis by blast
qed

theorem handouts_inside_witness:
  "\<exists>c \<in> set (collections given_world). \<exists>x \<in> set (attendees given_world). at_id x = kc_attendee c \<and> at_status x = CheckedIn"
proof -
  obtain c where c: "collections given_world = [c]" "kc_status c = Collected"
    using given_eval(2) by (auto simp: map_eq_Cons_conv)
  have "request sample_system kit_world given_world" unfolding given_world_def
    by (rule Collect, simp add: sample_system_def, rule prod.collapse [symmetric])
  then have "(request sample_system)\<^sup>*\<^sup>* kit_world given_world" ..
  moreover have "cs_collections (sy_checkins sample_system)" by (simp add: sample_system_def sample_checkins_def)
  ultimately show ?thesis using handouts_inside [of kit_world sample_system given_world c] c
    by (auto simp: kit_world_def)
qed

section \<open>The race the code leaves open\<close>

text \<open>\<open>Collect\<close> reads the attendee before its transaction and without a lock. A revert between the two halves passes the guard, and the
  handout then belongs to someone who is outside: the invariant is one of requests that run one after the other.\<close>

theorem collect_revert_race:
  "\<exists>w1 r w2 v (w3 :: order_state).
     collect_check sample_kits 10 ''fair'' (sample_text 4) (sample_text 2) kit_world = (Inr (20, 4, 2), w1) \<and>
     revert sample_checkins 10 ''fair'' (sample_text 2) 1 w1 = (Inr r, w2) \<and>
     collect_commit sample_kits 10 20 4 2 False [] 1 w2 = (Inr v, w3) \<and>
     map (\<lambda>x. (at_id x, at_status x)) (attendees w3) = [(2, Registered), (3, Registered)] \<and>
     map (\<lambda>c. (kc_attendee c, kc_status c)) (collections w3) = [(2, Collected)]"
  by (simp add: eval_kits eval_door evals list_all_iff revert_def revert_tx_def revert_attendee_def
      has_active_collections_def numeral_2_eq_2)

end
