(* ===== verification/Ownership.thy ===== *)
theory Ownership
  imports Handouts
begin

text \<open>
  Facts about organizations: memberships stay unique and an organization with an owner keeps one, under every
  sequence of requests; and the interleaving of two removals that the unlocked guard allows.
\<close>

section \<open>The last owner stays\<close>

lemma owned_quiet: "quiet (owned org)"
  by (rule quietI) (auto intro: keeps_intros simp: owned_def)

lemma owned_new_member: "keeps (owned org) (repo_create_membership l m)"
proof -
  have "owned_in org (ms @ [m\<lparr>mb_id := i, mb_created_at := now, mb_updated_at := now\<rparr>])"
    if "owned_in org ms" "member_of (mb_org m) (mb_user m) ms = None" for ms i now
  proof -
    have "\<not> has_key member_key (member_key m) ms" using that(2) by (auto simp: member_of_None has_key_iff member_key_def)
    with that(1) show ?thesis by (auto simp: owned_in_def owners_in_def member_key_def)
  qed
  note * = this this [where i = "mb_id m"]
  show ?thesis unfolding repo_create_membership_def Let_def
    by (intro keeps_intros) (auto simp: owned_def split: if_splits intro!: *)
qed

lemma owned_notify: "keeps (owned org) (repo_set_notify org' user notify at)"
proof -
  have "owners_in org (modify p (\<lambda>m. m\<lparr>mb_notify := n, mb_updated_at := t\<rparr>) ms) = owners_in org ms" for p n t ms
    by (induction ms) (auto simp: owners_in_def)
  then have "owned_in org (modify p (\<lambda>m. m\<lparr>mb_notify := n, mb_updated_at := t\<rparr>) ms) = owned_in org ms" for p n t ms
    by (simp add: owned_in_def member_key_def)
  then show ?thesis
    unfolding repo_set_notify_def by (intro keeps_intros) (simp add: owned_def)
qed

lemma owned_org_calls:
  "keeps (owned org) (create_org s creator name slug logo)" "keeps (owned org) (update_org s user ref0 name slug logo)"
  "(\<And>c. cleaner = Some c \<Longrightarrow> (\<And>i. keeps (owned org) (c i))) \<Longrightarrow> keeps (owned org) (delete_org s cleaner user ref0)"
  "keeps (owned org) (add_member s user ref0 email role)" "keeps (owned org) (update_my_preferences s user ref0 notify)"
proof -
  note [keeps_intros] = owned_quiet owned_new_member owned_notify
  have [keeps_intros]: "keeps (owned org) (os_emit s e)" "keeps (owned org) (os_seed s org')" "keeps (owned org) (os_seed_remove s org')"
    "keeps (owned org) (os_sync s u org' r)" "keeps (owned org) (os_sync_custom_grouping s u org' rn b)" for e org' u r rn b
    by (intro keeps_os_helpers keeps_intros; simp)+
  have "keeps (owned org) (create_org_loop n s creator auto base x)" for n auto base x
    by (induction n arbitrary: x)
      (auto simp: create_org_tx_def repo_create_org_def intro!: keeps_intros)
  note this [keeps_intros]
  show "keeps (owned org) (create_org s creator name slug logo)"
    unfolding create_org_def by (intro keeps_intros)
  show "keeps (owned org) (update_org s user ref0 name slug logo)"
    unfolding update_org_def repo_update_org_def Let_def by (intro keeps_intros) simp
  show "keeps (owned org) (delete_org s cleaner user ref0)"
    if "\<And>c. cleaner = Some c \<Longrightarrow> (\<And>i. keeps (owned org) (c i))"
    unfolding delete_org_def repo_delete_org_def os_clean_assets_def
    by (intro keeps_intros that) simp_all
  show "keeps (owned org) (add_member s user ref0 email role)"
    unfolding add_member_def by (intro keeps_intros)
  show "keeps (owned org) (update_my_preferences s user ref0 notify)"
    unfolding update_my_preferences_def by (intro keeps_intros)
qed

interpretation ownership: request_invariant "owned org" y for org y
proof unfold_locales
  fix user ref0
  have "keeps (owned org) (delete_org_assets (sy_events y) i)" for i
    by (intro keeps_event_calls owned_quiet) (simp_all add: owned_def)
  then show "keeps (owned org) (delete_org (sy_orgs y) (Some (delete_org_assets (sy_events y))) user ref0)"
    by (intro owned_org_calls) auto
next
  fix w w' assume "backstage (sy_auth y) (sy_orgs y) (sy_admin y) (sy_survives y) w w'" "owned org w"
  then show "owned org w'"
    by (rule backstage_keeps) (rule owned_quiet, simp add: apart_def owned_def, simp add: secretless_def owned_def, rule owned_new_member)
qed ((intro keeps_shop_calls keeps_event_calls keeps_attendee_calls keeps_kit_calls keeps_checkin_calls owned_org_calls
      remove_member_owned update_member_role_owned keeps_billing_calls quiet_public_event owned_quiet owned_tables;
      simp add: owned_def)+, simp_all add: owned_def)

text \<open>C15. An organization never loses its last owner, and nobody is a member of it twice: whatever requests run after a state in
  which it has an owner, it has one in the end. Removing or demoting the last owner, leaving included, is refused.\<close>

theorem last_owner_stays:
  assumes "keyed member_key (memberships w)" and "m \<in> set (memberships w)" and "mb_org m = org" and "mb_role m = OWNER"
    and "(request y)\<^sup>*\<^sup>* w w'"
  shows "(\<exists>m' \<in> set (memberships w'). mb_org m' = org \<and> mb_role m' = OWNER) \<and> keyed member_key (memberships w')"
proof -
  have *: "1 \<le> owners_in org ms \<longleftrightarrow> (\<exists>m \<in> set ms. mb_org m = org \<and> mb_role m = OWNER)" for ms
    by (induction ms) (auto simp: owners_in_def add.commute add_nonneg_pos intro: order_trans)
  have "owned org w" using assms(1-4) by (auto simp: owned_def owned_in_def *)
  then have "owned org w'" by (rule ownership.steps [OF assms(5)])
  then show ?thesis by (simp add: owned_def owned_in_def *)
qed

definition two_owners :: order_state where
  "two_owners = sample_world\<lparr>memberships := [sample_member 40 1 OWNER, sample_member 41 2 OWNER]\<rparr>"

definition one_left :: order_state where
  "one_left = snd (remove_member sample_orgs 1 ''acme'' 1 two_owners)"

theorem last_owner_stays_witness:
  "\<exists>m' \<in> set (memberships one_left). mb_org m' = 10 \<and> mb_role m' = OWNER"
proof -
  have "request sample_system two_owners one_left" unfolding one_left_def
    by (rule Remove_member, simp add: sample_system_def, rule prod.collapse [symmetric])
  then have "(request sample_system)\<^sup>*\<^sup>* two_owners one_left" ..
  from last_owner_stays [OF _ _ _ _ this, of "sample_member 40 1 OWNER" 10] show ?thesis
    by (simp add: two_owners_def sample_member_def keyed_def member_key_def)
qed

lemmas eval_members = two_owners_def one_left_def remove_member_def remove_member_check_def remove_member_commit_def
  org_membership_def guard_last_owner_def count_owners_def owners_in_def repo_delete_membership_def
  list_user_custom_roles_def os_emit_def os_sync_def sync_membership_def stale_rows_def

text \<open>One of them may leave; the one who is left may not.\<close>

lemma one_left_refused:
  "map mb_user (memberships one_left) = [2] \<and>
   fst (remove_member sample_orgs 2 ''acme'' 2 one_left) = Inl (OrgE org_err.ErrLastOwner)"
  by (simp add: eval_members evals sample_world_def empty_world_def)

section \<open>The race the code leaves open\<close>

text \<open>The guard counts the owners outside the transaction that removes one. When both owners leave at the same time, each check
  sees two of them, and nobody is left.\<close>

theorem owners_leave_race:
  "\<exists>og m1 m2 w1 w2 w3 (w4 :: order_state).
     remove_member_check sample_orgs 1 ''acme'' 1 two_owners = (Inr (og, m1), w1) \<and>
     remove_member_check sample_orgs 2 ''acme'' 2 w1 = (Inr (og, m2), w2) \<and>
     remove_member_commit sample_orgs 1 og m1 1 w2 = (Inr (), w3) \<and>
     remove_member_commit sample_orgs 2 og m2 2 w3 = (Inr (), w4) \<and> memberships w4 = []"
  by (simp add: eval_members evals sample_world_def empty_world_def)

end
