(* ===== verification/EventFacts.thy ===== *)
theory EventFacts
  imports Ownership
begin

text \<open>
  Facts about events: the lifecycle under every sequence of requests, and the form of slugs.
\<close>

lemma find_SomeD: "find p xs = Some x \<Longrightarrow> x \<in> set xs \<and> p x"
  by (induction xs) (auto split: if_splits)

section \<open>The lifecycle\<close>

inductive event_edge :: "event_status \<Rightarrow> event_status \<Rightarrow> bool" where
  publish: "event_edge Draft Published"
| unpublish: "event_edge Published Draft"
| cancel: "event_edge Published Cancelled"

inductive_simps event_edge_simps [simp]: "event_edge Cancelled b" "event_edge Draft b" "event_edge Published b"

lemma cancelled_stays: "event_edge\<^sup>*\<^sup>* a b \<Longrightarrow> a = Cancelled \<Longrightarrow> b = Cancelled"
  by (induction rule: rtranclp_induct) auto

text \<open>What one row may become: same identity, a status along the edges, and nothing at all once deleted.\<close>

definition event_kept :: "event \<Rightarrow> event \<Rightarrow> bool" where
  "event_kept e e' \<longleftrightarrow> ev_id e' = ev_id e \<and> ev_org e' = ev_org e \<and> ev_created_at e' = ev_created_at e \<and>
     event_edge\<^sup>*\<^sup>* (ev_status e) (ev_status e') \<and> (ev_deleted_at e \<noteq> None \<longrightarrow> e' = e)"

lemma event_kept_refl [simp]: "event_kept e e"
  by (simp add: event_kept_def)

lemma event_kept_trans: "event_kept a b \<Longrightarrow> event_kept b c \<Longrightarrow> event_kept a c"
  by (auto simp: event_kept_def intro: rtranclp_trans)

definition lifecycle :: "event list \<Rightarrow> 'z event_state_scheme \<Rightarrow> bool" where
  "lifecycle es0 w \<longleftrightarrow> keyed ev_id (events w) \<and> (\<forall>e \<in> set es0. \<exists>e' \<in> set (events w). event_kept e e')"

text \<open>\<open>e\<close> may be written over the row that has its identifier now.\<close>

definition writable :: "event list \<Rightarrow> event \<Rightarrow> 'z event_state_scheme \<Rightarrow> bool" where
  "writable es0 e w \<longleftrightarrow> lifecycle es0 w \<and> ev_deleted_at e = None \<and>
     (\<exists>z. by_key ev_id (ev_id e) (events w) = Some z \<and> ev_deleted_at z = None \<and> event_kept z e)"

definition same_life :: "event \<Rightarrow> event \<Rightarrow> bool" where
  "same_life e f \<longleftrightarrow> ev_id f = ev_id e \<and> ev_org f = ev_org e \<and> ev_created_at f = ev_created_at e \<and>
     ev_status f = ev_status e \<and> ev_deleted_at f = ev_deleted_at e"

lemma lifecycle_quiet [keeps_intros]: "on_tables (lifecycle es0)" "quiet (lifecycle es0)"
  by (auto intro!: quietI on_tablesI simp: lifecycle_def)

lemma writable_quiet [keeps_intros]: "on_tables (writable es0 e)" "quiet (writable es0 e)"
  by (auto intro!: quietI on_tablesI simp: writable_def lifecycle_def)

lemma lifecycle_save:
  assumes "lifecycle es0 w" and "by_key ev_id (ev_id f) (events w) = Some z" and "event_kept z f"
  shows "lifecycle es0 (w\<lparr>events := upsert ev_id f (events w)\<rparr>)"
proof -
  have k: "keyed ev_id (events w)" using assms(1) by (simp add: lifecycle_def)
  have z: "z \<in> set (events w)" "ev_id z = ev_id f" using by_key_Some [OF assms(2)] by simp_all
  have "\<exists>e' \<in> set (upsert ev_id f (events w)). event_kept e e'" if e: "e \<in> set es0" for e
  proof -
    obtain e' where e': "e' \<in> set (events w)" "event_kept e e'" using assms(1) e by (auto simp: lifecycle_def)
    show ?thesis
    proof (cases "ev_id e' = ev_id f")
      case True
      then have "e' = z" using keyed_inj [OF k e'(1) z(1)] z(2) by simp
      with e' assms(3) have "event_kept e f" by (blast intro: event_kept_trans)
      moreover have "f \<in> set (upsert ev_id f (events w))"
        using assms(2) z by (auto simp: upsert_present set_modify)
      ultimately show ?thesis by blast
    next
      case False
      then have "e' \<in> set (upsert ev_id f (events w))"
        using e'(1) assms(2) by (auto simp: upsert_present set_modify)
      with e'(2) show ?thesis by blast
    qed
  qed
  with k show ?thesis by (simp add: lifecycle_def)
qed

lemma writable_save [keeps_intros]: "same_life e f \<Longrightarrow> keeps (writable es0 e) (repo_update_event f)"
proof -
  assume f: "same_life e f"
  have "writable es0 e (w\<lparr>events := upsert ev_id (f\<lparr>ev_updated_at := now\<rparr>) (events w)\<rparr>)"
    if w: "writable es0 e w" for now and w :: "'a event_state_scheme"
  proof -
    obtain z where z: "by_key ev_id (ev_id e) (events w) = Some z" "ev_deleted_at z = None" "event_kept z e"
        "lifecycle es0 w" "ev_deleted_at e = None" using w by (auto simp: writable_def)
    then have "lifecycle es0 (w\<lparr>events := upsert ev_id (f\<lparr>ev_updated_at := now\<rparr>) (events w)\<rparr>)"
      using f by (intro lifecycle_save [where z = z]) (auto simp: same_life_def event_kept_def)
    with z f show ?thesis by (auto simp: writable_def same_life_def event_kept_def)
  qed
  then show ?thesis unfolding repo_update_event_def Let_def by (intro keeps_intros)
qed

lemma writable_lifecycle: "writable es0 e w \<Longrightarrow> lifecycle es0 w"
  by (simp add: writable_def)

lemma resolve_event_spec:
  assumes "lifecycle es0 w"
  shows "wp (resolve_event l org ref0) (\<lambda>e w'. writable es0 e w' \<and> ev_org e = org) (\<lambda>_. lifecycle es0) w"
proof -
  have k: "keyed ev_id (events w)" using assms by (simp add: lifecycle_def)
  have live: "writable es0 e (tick w)" if "e \<in> set (live_events w)" for e
    using that assms by_key_keyed [OF k, of e] by (auto simp: writable_def live_events_def lifecycle_def)
  have tl: "lifecycle es0 (tick w)" "live_events (tick w) = live_events w"
    using assms by (simp_all add: lifecycle_def live_events_def)
  have id: "writable es0 e (tick w)" if "by_key ev_id i (live_events w) = Some e" for e i
    using by_key_Some [OF that] live by blast
  have slug: "writable es0 e (tick w) \<and> ev_org e = org"
    if "find (\<lambda>e. ev_org e = org \<and> ev_slug e = sl) (live_events w) = Some e" for e sl
    using find_SomeD [OF that] live by blast
  show ?thesis
  proof (cases "uuid_parse l (trim_space ref0)")
    case None
    show ?thesis unfolding resolve_event_def Let_def get_event_by_slug_def None
      by (simp add: wp_simps tl split: option.split) (blast dest: slug)
  next
    case (Some i)
    show ?thesis unfolding resolve_event_def Let_def get_event_by_id_def Some
      by (simp add: wp_simps tl split: option.split) (blast dest: id)
  qed
qed

lemma writable_step:
  assumes "writable es0 e w" and "event_kept e f" and "ev_deleted_at f = None"
  shows "writable es0 f w"
proof -
  obtain z where "by_key ev_id (ev_id e) (events w) = Some z" "ev_deleted_at z = None" "event_kept z e" "lifecycle es0 w"
    using assms(1) by (auto simp: writable_def)
  moreover have "ev_id f = ev_id e" using assms(2) by (simp add: event_kept_def)
  ultimately show ?thesis using assms(2,3) event_kept_trans by (auto simp: writable_def)
qed

lemma writable_live: "writable es0 e w \<Longrightarrow> ev_deleted_at e = None"
  by (simp add: writable_def)

lemma writable_edge: "writable es0 e w \<Longrightarrow> event_edge (ev_status e) st \<Longrightarrow> writable es0 (e\<lparr>ev_status := st\<rparr>) w"
  using writable_step [of es0 e w "e\<lparr>ev_status := st\<rparr>"] by (auto simp: event_kept_def writable_live)

lemma writable_same: "writable es0 e w \<Longrightarrow> same_life e f \<Longrightarrow> writable es0 f w"
  using writable_step [of es0 e w f] by (auto simp: event_kept_def same_life_def writable_live)

text \<open>What an operation makes of a writable row: the lifecycle, in the end.\<close>

definition turns :: "event list \<Rightarrow> event \<Rightarrow> ('z event_state_scheme, 'a) op \<Rightarrow> bool" where
  "turns es0 e m \<longleftrightarrow> (\<forall>w. writable es0 e w \<longrightarrow> wp m (\<lambda>_. lifecycle es0) (\<lambda>_. lifecycle es0) w)"

lemma turns_keeps: "keeps (writable es0 e) m \<Longrightarrow> turns es0 e m"
  unfolding turns_def by (auto intro: writable_lifecycle wp_mono [OF keeps_wpI])

lemma turns_bnd: "keeps (writable es0 e) m \<Longrightarrow> (\<And>x. turns es0 e (f x)) \<Longrightarrow> turns es0 e (bnd m f)"
  unfolding turns_def wp_bnd by (auto intro: writable_lifecycle wp_mono [OF keeps_wpI])

lemma turns_guard: "(ev_status e = src \<Longrightarrow> turns es0 e m) \<Longrightarrow> turns es0 e (bnd (guard (ev_status e = src) x) (\<lambda>_. m))"
  unfolding turns_def by (auto simp: wp_bnd wp_guard writable_lifecycle)

lemma turns_status: "event_edge (ev_status e) st \<Longrightarrow> keeps (writable es0 (e\<lparr>ev_status := st\<rparr>)) m \<Longrightarrow> turns es0 e m"
  using turns_keeps writable_edge unfolding turns_def by blast

lemma turns_same: "same_life e f \<Longrightarrow> keeps (writable es0 f) m \<Longrightarrow> turns es0 e m"
  using turns_keeps writable_same unfolding turns_def by blast

lemma keeps_on_event:
  assumes "\<And>e. turns es0 e (f e)"
  shows "keeps (lifecycle es0) (bnd (resolve_event l org ref0) f)"
proof (rule keepsI)
  fix w :: "'a event_state_scheme" assume "lifecycle es0 w"
  from resolve_event_spec [OF this] show "wp (bnd (resolve_event l org ref0) f) (\<lambda>_. lifecycle es0) (\<lambda>_. lifecycle es0) w"
    unfolding wp_bnd by (rule wp_mono) (use assms in \<open>auto simp: turns_def\<close>)
qed

lemma keeps_in_event:
  assumes "\<And>org e. turns es0 e (f org e)"
  shows "keeps (lifecycle es0) (bnd (event_org_of_ref s orgref) (\<lambda>org. bnd (resolve_event l org ref0) (f org)))"
proof (rule keeps_bnd)
  show "keeps (lifecycle es0) (event_org_of_ref s orgref)" by (intro keeps_intros)
qed (rule keeps_on_event [OF assms])

section \<open>Every event operation follows it\<close>

lemma writable_elsewhere:
  "writable es0 e w \<Longrightarrow> writable es0 e (w\<lparr>images := x1\<rparr>)" "writable es0 e w \<Longrightarrow> writable es0 e (w\<lparr>assets := x2\<rparr>)"
  by (simp_all add: writable_def lifecycle_def)

lemma writable_helpers [keeps_intros]:
  "keeps (writable es0 e) (es_emit s x)" "keeps (writable es0 e) (delete_cover s url)"
  "keeps (writable es0 e) (storage_save_image s org i bytes ext)"
  "keeps (writable es0 e) (cleanup_staged s staged)" "keeps (writable es0 e) (check_dates a b)"
  "keeps (writable es0 e) (check_cover n ty)" "keeps (writable es0 e) (stage_uploads s org i staged ups)"
proof -
  show 1 [keeps_intros]: "keeps (writable es0 e) (es_emit s x)" for x unfolding es_emit_def by (intro keeps_intros)
  show 2 [keeps_intros]: "keeps (writable es0 e) (delete_cover s url)" for url
    unfolding delete_cover_def storage_delete_def by (intro keeps_intros writable_elsewhere)
  show 3 [keeps_intros]: "keeps (writable es0 e) (storage_save_image s org i bytes ext)" for i bytes ext
    unfolding storage_save_image_def Let_def by (intro keeps_intros writable_elsewhere)
  show 4 [keeps_intros]: "keeps (writable es0 e) (cleanup_staged s staged)" for staged
    unfolding cleanup_staged_def by (intro keeps_intros)
  show "keeps (writable es0 e) (check_dates a b)" unfolding check_dates_def by (intro keeps_intros)
  show 5 [keeps_intros]: "keeps (writable es0 e) (check_cover n ty)" for n ty
    unfolding check_cover_def by (intro keeps_intros)
  show "keeps (writable es0 e) (stage_uploads s org i staged ups)"
    by (induction ups arbitrary: staged) (auto intro!: keeps_intros)
qed

lemma writable_audit_save [keeps_intros]: "same_life e f \<Longrightarrow> keeps (writable es0 e) (save_with_audit s u org f prior)"
  unfolding save_with_audit_def Let_def by (intro keeps_intros)

lemma create_event_lifecycle [keeps_intros]: "keeps (lifecycle es0) (create_event s user orgref inp)"
proof -
  have [keeps_intros]: "keeps (lifecycle es0) (repo_create_event l e)" for l e
    unfolding repo_create_event_def Let_def
    by (intro keeps_intros) (auto simp: lifecycle_def has_key_iff split: if_splits)
  have [keeps_intros]: "keeps (lifecycle es0) (es_emit s x)" for x
    unfolding es_emit_def by (intro keeps_intros)
  have "keeps (lifecycle es0) (probe_event_slugs l org base is)" for l org base "is"
    by (induction "is") (auto intro!: keeps_intros)
  then have [keeps_intros]: "keeps (lifecycle es0) (unique_event_slug l org base)" for l org base
    unfolding unique_event_slug_def by (intro keeps_intros)
  have "keeps (lifecycle es0) (create_event_loop n s user auto base x)" for n auto base x
    by (induction n arbitrary: x) (auto simp: create_event_tx_def intro!: keeps_intros)
  note this [keeps_intros]
  show ?thesis unfolding create_event_def check_dates_def Let_def by (intro keeps_intros)
qed

lemma update_event_lifecycle [keeps_intros]: "keeps (lifecycle es0) (update_event s user orgref ref0 inp)"
  unfolding update_event_def Let_def
  by (rule keeps_in_event, rule turns_keeps) (intro keeps_intros; simp add: same_life_def)

lemma status_calls_lifecycle [keeps_intros]:
  "keeps (lifecycle es0) (publish_event s user orgref ref0)" "keeps (lifecycle es0) (unpublish_event s user orgref ref0)"
  "keeps (lifecycle es0) (cancel_event s user orgref ref0)"
proof -
  have same: "same_life e e" for e by (simp add: same_life_def)
  show "keeps (lifecycle es0) (publish_event s user orgref ref0)"
    unfolding publish_event_def Let_def
    by (rule keeps_in_event, rule turns_guard, rule turns_status [where st = Published], simp) (intro keeps_intros same)
  have "keeps (lifecycle es0) (transition_event s user orgref ref0 src to)" if "event_edge src to" for src to
    unfolding transition_event_def Let_def
    by (rule keeps_in_event, rule turns_guard, rule turns_status [where st = to], simp add: that) (intro keeps_intros same)
  then show "keeps (lifecycle es0) (unpublish_event s user orgref ref0)" "keeps (lifecycle es0) (cancel_event s user orgref ref0)"
    unfolding unpublish_event_def cancel_event_def by (blast intro: event_edge.intros)+
qed

lemma lifecycle_delete:
  assumes "lifecycle es0 w"
  shows "lifecycle es0 (w\<lparr>events := modify (\<lambda>e. ev_id e = i \<and> ev_deleted_at e = None)
    (\<lambda>e. e\<lparr>ev_deleted_at := Some now\<rparr>) (events w)\<rparr>)"
proof -
  define g :: "event \<Rightarrow> event" where "g e = (if ev_id e = i \<and> ev_deleted_at e = None then e\<lparr>ev_deleted_at := Some now\<rparr> else e)" for e
  have g: "event_kept e (g e)" for e by (simp add: event_kept_def g_def)
  have "\<exists>e' \<in> g ` set (events w). event_kept e e'" if "e \<in> set es0" for e
    using assms that event_kept_trans [OF _ g] unfolding lifecycle_def by blast
  with assms show ?thesis by (simp add: lifecycle_def set_modify g_def)
qed

lemma delete_event_lifecycle [keeps_intros]: "keeps (lifecycle es0) (delete_event s user orgref ref0)"
proof -
  have [keeps_intros]: "keeps (lifecycle es0) (repo_delete_event i)" for i
    unfolding repo_delete_event_def by (intro keeps_intros lifecycle_delete)
  have [keeps_intros]: "keeps (lifecycle es0) (es_emit s x)" "keeps (lifecycle es0) (delete_cover s url)" for x url
    unfolding es_emit_def delete_cover_def storage_delete_def
    by (intro keeps_intros; simp add: lifecycle_def)+
  show ?thesis unfolding delete_event_def Let_def by (intro keeps_intros)
qed

lemma asset_calls_lifecycle [keeps_intros]:
  "keeps (lifecycle es0) (add_gallery_images s orgref ref0 ups)" "keeps (lifecycle es0) (set_cover s orgref ref0 bytes n ty)"
  "keeps (lifecycle es0) (delete_org_assets s org)"
proof -
  have [keeps_intros]: "keeps (writable es0 e) (repo_create_image l x)" for e l x
    unfolding repo_create_image_def Let_def by (intro keeps_intros writable_elsewhere)
  show "keeps (lifecycle es0) (add_gallery_images s orgref ref0 ups)"
    unfolding add_gallery_images_def Let_def
    by (intro keeps_in_event turns_keeps keeps_guard keeps_bnd [OF keeps_guard]) (intro keeps_intros; simp add: same_life_def)
  show "keeps (lifecycle es0) (set_cover s orgref ref0 bytes n ty)"
    unfolding set_cover_def Let_def
    by (intro keeps_in_event turns_keeps keeps_bnd [OF keeps_guard]) (intro keeps_intros; simp add: same_life_def)
  have [keeps_intros]: "keeps (lifecycle es0) (delete_cover s url)" for url
    unfolding delete_cover_def storage_delete_def by (intro keeps_intros) (simp add: lifecycle_def)
  show "keeps (lifecycle es0) (delete_org_assets s org)"
    unfolding delete_org_assets_def list_org_assets_def by (intro keeps_intros)
qed

section \<open>Under every sequence of requests\<close>

lemma quiet_lifecycle: "quiet (lifecycle es0)"
  by (rule lifecycle_quiet)

interpretation event_rows: request_invariant "lifecycle es0" y for es0 y
proof unfold_locales
  fix user ref0
  show "keeps (lifecycle es0) (delete_org (sy_orgs y) (Some (delete_org_assets (sy_events y))) user ref0)"
    by (intro keeps_org_calls quiet_lifecycle) (auto simp: lifecycle_def intro: asset_calls_lifecycle)
next
  fix w w' assume "backstage (sy_auth y) (sy_orgs y) (sy_admin y) (sy_survives y) w w'" "lifecycle es0 w"
  then show "lifecycle es0 w'"
    by (rule backstage_keeps)
      (rule quiet_lifecycle, simp add: apart_def lifecycle_def, simp add: secretless_def lifecycle_def, intro keeps_new_member lifecycle_quiet, simp add: lifecycle_def)
qed ((intro keeps_shop_calls keeps_attendee_calls keeps_kit_calls keeps_checkin_calls keeps_org_calls create_event_lifecycle
      update_event_lifecycle status_calls_lifecycle delete_event_lifecycle asset_calls_lifecycle
      keeps_billing_calls quiet_public_event lifecycle_quiet;
      simp add: lifecycle_def)+, simp_all add: lifecycle_def)

text \<open>C16. The life of an event row. Whatever requests run, the row of an event stays, under the same identifier and
  organization; its status has moved only along DRAFT to PUBLISHED, PUBLISHED to DRAFT and PUBLISHED to CANCELLED, so a
  cancelled event stays cancelled; and a deleted row is never touched again.\<close>

theorem event_history:
  assumes "keyed ev_id (events w)" and "e \<in> set (events w)" and "(request y)\<^sup>*\<^sup>* w w'"
  shows "\<exists>e'. by_key ev_id (ev_id e) (events w') = Some e' \<and> ev_org e' = ev_org e \<and>
    event_edge\<^sup>*\<^sup>* (ev_status e) (ev_status e') \<and> (ev_status e = Cancelled \<longrightarrow> ev_status e' = Cancelled) \<and>
    (ev_deleted_at e \<noteq> None \<longrightarrow> e' = e)"
proof -
  have "lifecycle (events w) w" using assms(1) by (auto simp: lifecycle_def intro: event_kept_refl)
  then have l: "lifecycle (events w) w'" by (rule event_rows.steps [OF assms(3)])
  then obtain e' where e': "e' \<in> set (events w')" "event_kept e e'" using assms(2) by (auto simp: lifecycle_def)
  then have "by_key ev_id (ev_id e) (events w') = Some e'"
    using by_key_keyed [of ev_id "events w'" e'] l by (simp add: lifecycle_def event_kept_def)
  with e'(2) show ?thesis using cancelled_stays by (auto simp: event_kept_def)
qed

definition pulled :: order_state where
  "pulled = snd (unpublish_event sample_events 1 ''acme'' ''fair'' sample_world)"

lemma unpublish_sample: "request sample_system sample_world pulled"
  unfolding pulled_def by (rule Unpublish_event, simp add: sample_system_def, rule prod.collapse [symmetric])

theorem event_history_witness:
  "\<exists>e'. by_key ev_id 20 (events pulled) = Some e' \<and> ev_org e' = 10 \<and> event_edge\<^sup>*\<^sup>* Published (ev_status e')"
  using event_history [where w = sample_world, OF _ _ r_into_rtranclp, OF _ _ unpublish_sample, of sample_event]
  by (auto simp: sample_event_def keyed_def)

section \<open>Slugs\<close>

lemma slug_re_hyphen: "slug_re (a @ CHR ''-'' # b) \<longleftrightarrow> slug_re a \<and> slug_re b"
  by (simp add: slug_re_def split_hyphen_append)

lemma slug_loop_stable: "slug_re (b @ s) \<Longrightarrow> dash = (b \<noteq> [] \<and> last b = CHR ''-'') \<Longrightarrow> slug_loop s b dash = b @ s"
proof (induction s arbitrary: b dash)
  case Nil
  then show ?case by simp
next
  case (Cons c s)
  have "slug_char c \<or> c = CHR ''-''" using slug_re_chars [OF Cons.prems(1)] by simp
  then show ?case
  proof
    assume "slug_char c"
    moreover from this have "c \<noteq> CHR ''-''" by auto
    ultimately show ?case using Cons.IH [of "b @ [c]" False] Cons.prems(1) by simp
  next
    assume c: "c = CHR ''-''"
    then have "slug_re b" using Cons.prems(1) slug_re_hyphen [of b s] by simp
    then have "b \<noteq> []" "\<not> dash" using slug_re_ends [of b] Cons.prems(2) by auto
    with c show ?case using Cons.IH [of "b @ [c]" True] Cons.prems(1) by simp
  qed
qed

lemma slug_chars_plain: "slug_char c \<or> c = CHR ''-'' \<Longrightarrow> \<not> is_space c \<and> \<not> is_upper c"
  by (auto simp: slug_char_def is_lower_def is_digit_def is_space_def is_upper_def)

lemma slugify_slug:
  assumes "slug_re s"
  shows "slugify s = s"
proof -
  have plain: "\<not> is_space c \<and> \<not> is_upper c" if "c \<in> set s" for c
    using slug_chars_plain slug_re_chars [OF assms that] by blast
  have "s \<noteq> []" using slug_re_ends [OF assms] by simp
  then have "trim_space s = s"
    using plain by (simp add: trim_space_def trim_left_stop trim_right_stop)
  moreover have "to_lower s = s" using plain by (simp add: to_lower_def map_idI)
  ultimately show ?thesis
    using slug_loop_stable [of "[]" s False] trim_hyphens_slug [OF assms] assms by (simp add: slugify_def)
qed

text \<open>A slug built from any title is empty (the callers then use a fixed word) or matches the slug expression of the API, and
  building a slug from a well-formed slug changes nothing, so slugifying twice is slugifying once.\<close>

theorem slugify_wellformed:
  "(slugify title = [] \<or> slug_re (slugify title)) \<and> slugify (slugify title) = slugify title"
proof -
  have "slugify [] = []" by (simp add: slugify_def trim_hyphens_def trim_space_def trim_left_def trim_right_def to_lower_def)
  then show ?thesis using slugify_cases [of title] slugify_slug by auto
qed

end
