(* ===== verification/AuthFacts.thy ===== *)
theory AuthFacts
  imports EventFacts
begin

text \<open>
  Revocation is final: under every sequence of requests a session or a refresh token that was revoked stays revoked, and the
  middleware refuses the access tokens of the session.
\<close>

section \<open>Revocation is final\<close>

definition session_kept :: "session \<Rightarrow> session \<Rightarrow> bool" where
  "session_kept s s' \<longleftrightarrow> sn_id s' = sn_id s \<and> sn_user s' = sn_user s \<and> sn_expires_at s' = sn_expires_at s \<and>
     (sn_revoked_at s = None \<or> sn_revoked_at s' = sn_revoked_at s)"

definition token_kept :: "refresh_token \<Rightarrow> refresh_token \<Rightarrow> bool" where
  "token_kept t t' \<longleftrightarrow> rt_id t' = rt_id t \<and> rt_session t' = rt_session t \<and> rt_hash t' = rt_hash t \<and>
     rt_expires_at t' = rt_expires_at t \<and> (rt_revoked_at t = None \<or> rt_revoked_at t' = rt_revoked_at t)"

definition covers :: "('r \<Rightarrow> 'r \<Rightarrow> bool) \<Rightarrow> 'r list \<Rightarrow> 'r list \<Rightarrow> bool" where
  "covers R xs ys \<longleftrightarrow> (\<forall>x \<in> set xs. \<exists>y \<in> set ys. R x y)"

lemma covers_refl: "(\<And>x. R x x) \<Longrightarrow> covers R xs xs"
  by (auto simp: covers_def)

lemma covers_snoc: "covers R xs ys \<Longrightarrow> covers R xs (ys @ [y])"
  by (auto simp: covers_def)

lemma covers_modify:
  assumes "covers R xs ys" and "\<And>x y. R x y \<Longrightarrow> p y \<Longrightarrow> R x (f y)"
  shows "covers R xs (modify p f ys)"
proof -
  have "\<exists>y \<in> set (modify p f ys). R x y" if "x \<in> set xs" for x
  proof -
    from assms(1) that obtain y where "y \<in> set ys" "R x y" by (auto simp: covers_def)
    with assms(2) show ?thesis by (intro bexI [of _ "if p y then f y else y"]) (auto simp: set_modify)
  qed
  then show ?thesis by (simp add: covers_def)
qed

definition revocations :: "session list \<Rightarrow> refresh_token list \<Rightarrow> 'z auth_state_scheme \<Rightarrow> bool" where
  "revocations ss0 ts0 w \<longleftrightarrow> keyed sn_id (sessions w) \<and> keyed rt_id (refresh_tokens w) \<and>
     covers session_kept ss0 (sessions w) \<and> covers token_kept ts0 (refresh_tokens w)"

lemma revocations_tables: "on_tables (revocations ss0 ts0)"
  by (rule on_tablesI) (simp add: revocations_def)

lemma revocations_sessions:
  assumes "revocations ss0 ts0 w" and "\<And>s. p s \<Longrightarrow> sn_id (f s) = sn_id s"
    and "\<And>s s'. session_kept s s' \<Longrightarrow> p s' \<Longrightarrow> session_kept s (f s')"
  shows "revocations ss0 ts0 (w\<lparr>sessions := modify p f (sessions w)\<rparr>)"
  using assms covers_modify [of session_kept ss0 "sessions w" p f] by (simp add: revocations_def)

lemma revocations_tokens:
  assumes "revocations ss0 ts0 w" and "\<And>s. p s \<Longrightarrow> rt_id (f s) = rt_id s"
    and "\<And>s s'. token_kept s s' \<Longrightarrow> p s' \<Longrightarrow> token_kept s (f s')"
  shows "revocations ss0 ts0 (w\<lparr>refresh_tokens := modify p f (refresh_tokens w)\<rparr>)"
  using assms covers_modify [of token_kept ts0 "refresh_tokens w" p f] by (simp add: revocations_def)

interpretation revocation_rows: auth_rows "revocations ss0 ts0" for ss0 ts0
proof unfold_locales
  note t [keeps_intros] = revocations_tables
  note other = keeps_user_rows [OF t]
  show "on_tables (revocations ss0 ts0)" by (rule t)
  fix w :: "'a auth_state_scheme" and x :: job assume "revocations ss0 ts0 w"
  then show "revocations ss0 ts0 (w\<lparr>jobs := jobs w @ [x]\<rparr>)" by (simp add: revocations_def)
next
  show "keeps (revocations ss0 ts0) (create_user l us)" "keeps (revocations ss0 ts0) (create_profile l i p)"
    "keeps (revocations ss0 ts0) (set_email_verified i)" "keeps (revocations ss0 ts0) (update_last_login i t)" for l us i p t
    by (intro keeps_user_rows revocations_tables; simp add: revocations_def)+
next
  show "keeps (revocations ss0 ts0) (create_credential l cr)" "keeps (revocations ss0 ts0) (update_credential_hash i h t)"
    for l cr i h t
    unfolding create_credential_def update_credential_hash_def
    by (intro keeps_intros revocations_tables; simp add: revocations_def)+
next
  show "keeps (revocations ss0 ts0) (repo_create_session l sn)" for l sn
    unfolding repo_create_session_def Let_def
    by (intro keeps_intros revocations_tables) (auto simp: revocations_def covers_snoc split: if_splits)
  show "keeps (revocations ss0 ts0) (touch_session i t)" "keeps (revocations ss0 ts0) (revoke_session i t)"
    "keeps (revocations ss0 ts0) (revoke_all_user_sessions i t)" for i t
    unfolding touch_session_def revoke_session_def revoke_all_user_sessions_def
    by (intro keeps_intros revocations_tables revocations_sessions; auto simp: session_kept_def)+
next
  show "keeps (revocations ss0 ts0) (create_refresh_token l rt)" for l rt
    unfolding create_refresh_token_def
    by (intro keeps_intros revocations_tables) (auto simp: revocations_def covers_snoc split: if_splits)
  show "keeps (revocations ss0 ts0) (revoke_refresh_token i t)" "keeps (revocations ss0 ts0) (revoke_session_tokens i t)"
    "keeps (revocations ss0 ts0) (revoke_all_user_tokens i t)" for i t
    unfolding revoke_refresh_token_def revoke_session_tokens_def revoke_all_user_tokens_def
    by (intro keeps_intros revocations_tables revocations_tokens; auto simp: token_kept_def)+
next
  show "keeps (revocations ss0 ts0) (create_email_verification l vf)" "keeps (revocations ss0 ts0) (mark_email_verification_used i t)"
    "keeps (revocations ss0 ts0) (invalidate_user_verifications i t)" "keeps (revocations ss0 ts0) (create_password_reset l pr)"
    "keeps (revocations ss0 ts0) (mark_password_reset_used i t)" "keeps (revocations ss0 ts0) (invalidate_user_resets i t)"
    "keeps (revocations ss0 ts0) (create_otp_code l co)" "keeps (revocations ss0 ts0) (consume_otp i t)"
    "keeps (revocations ss0 ts0) (invalidate_user_otps i t)" "keeps (revocations ss0 ts0) (record_login_attempt l la)"
    for l vf i t pr co la
    unfolding create_email_verification_def mark_email_verification_used_def invalidate_user_verifications_def
      create_password_reset_def mark_password_reset_used_def invalidate_user_resets_def create_otp_code_def consume_otp_def
      invalidate_user_otps_def record_login_attempt_def
    by (intro keeps_intros revocations_tables; simp add: revocations_def)+
qed

lemma revocations_quiet: "quiet (revocations ss0 ts0)"
  by (simp add: quiet_def revocations_tables) (simp add: revocations_def)

lemma revocations_apart: "apart (revocations ss0 ts0)"
  by (simp add: apart_def revocations_def)

lemma revocations_codes: "keeps (revocations ss0 ts0) (verify_by_code s em code)"
  by (rule revocation_rows.code_flow) (unfold increment_otp_attempts_def, intro keeps_intros revocations_tables, simp add: revocations_def)

lemma revocations_members: "keeps (revocations ss0 ts0) (repo_create_membership l m)"
  by (rule keeps_new_member [OF revocations_tables]) (simp add: revocations_def)

interpretation revoked: request_invariant "revocations ss0 ts0" y for ss0 ts0 y
proof unfold_locales
  fix user ref0
  have "keeps (revocations ss0 ts0) (delete_org_assets (sy_events y) org)" for org
    by (intro keeps_event_calls revocations_quiet) (simp_all add: revocations_def)
  then show "keeps (revocations ss0 ts0) (delete_org (sy_orgs y) (Some (delete_org_assets (sy_events y))) user ref0)"
    by (intro keeps_org_calls revocations_quiet) (auto simp: revocations_def)
next
  fix w w' assume "backstage (sy_auth y) (sy_orgs y) (sy_admin y) (sy_survives y) w w'" "revocations ss0 ts0 w"
  then show "revocations ss0 ts0 w'"
    by (rule backstage_flows [OF _ _ revocations_quiet revocations_apart revocations_members revocation_rows.auth_rows_axioms revocations_codes])
qed ((intro keeps_shop_calls keeps_event_calls keeps_attendee_calls keeps_kit_calls keeps_checkin_calls keeps_org_calls
    keeps_billing_calls quiet_public_event revocations_quiet revocations_tables;
    simp add: revocations_def)+, simp_all add: revocations_def)

text \<open>C18. Revocation is final. Once a session or a refresh token is revoked, it stays so, with the same instant, whatever requests
  run afterwards; and from then on an access token of that session is refused by the authentication middleware, in every
  later state.\<close>

theorem revocation_final:
  assumes "keyed sn_id (sessions w)" and "keyed rt_id (refresh_tokens w)" and "(request y)\<^sup>*\<^sup>* w w'"
    and "s \<in> set (sessions w)" and "sn_revoked_at s = Some t"
    and "trim_space key_header = []" and "au_parse a (au_secret a) (clock w') (trim_space (trim_prefix ''Bearer '' header)) = Some c"
    and "jc_session c = sn_id s"
  shows "(\<exists>s'. by_key sn_id (sn_id s) (sessions w') = Some s' \<and> sn_revoked_at s' = Some t) \<and>
    fst (require_auth a key_header header w') = Inr (Inl Unauthorized) \<and>
    (\<forall>r \<in> set (refresh_tokens w). rt_revoked_at r \<noteq> None \<longrightarrow>
       (\<exists>r'. by_key rt_id (rt_id r) (refresh_tokens w') = Some r' \<and> rt_revoked_at r' = rt_revoked_at r))"
proof -
  have "revocations (sessions w) (refresh_tokens w) w"
    using assms(1,2) by (simp add: revocations_def covers_refl session_kept_def token_kept_def)
  then have r: "revocations (sessions w) (refresh_tokens w) w'" by (rule revoked.steps [OF assms(3)])
  have s': "\<exists>s'. by_key sn_id (sn_id s) (sessions w') = Some s' \<and> sn_revoked_at s' = Some t"
    using r assms(4,5) by (fastforce simp: revocations_def covers_def session_kept_def dest: by_key_keyed)
  have ts: "\<exists>r'. by_key rt_id (rt_id r0) (refresh_tokens w') = Some r' \<and> rt_revoked_at r' = rt_revoked_at r0"
    if "r0 \<in> set (refresh_tokens w)" "rt_revoked_at r0 \<noteq> None" for r0
    using r that by (fastforce simp: revocations_def covers_def token_kept_def dest: by_key_keyed)
  have "wp (require_auth a key_header header) (\<lambda>r _. r = Inl Unauthorized) (\<lambda>_ _. False) w'"
    using s' assms(6-8)
    by (auto simp: require_auth_def parse_access_token_def get_session_by_id_def wp_simps split: option.split)
  then have "fst (require_auth a key_header header w') = Inr (Inl Unauthorized)"
    by (auto simp: wp_def split: prod.splits sum.splits)
  with s' ts show ?thesis by blast
qed

end
