(* ===== verification/Rotation.thy ===== *)
theory Rotation
  imports AuthFacts
begin

text \<open>
  Refresh tokens, password reset and verification codes: what each flow writes. A refresh token is spent by its first use, and
  using it again ends its session; the two halves of \<open>Refresh\<close> can still be interleaved so that one token is spent twice.
  A password reset logs its user out everywhere. A verification code can be guessed five times.
\<close>

section \<open>A sign-in\<close>

definition sample_session :: session where
  "sample_session = \<lparr>sn_id = 5, sn_user = 1, sn_ip = None, sn_user_agent = None, sn_device = None,
     sn_last_active_at = None, sn_expires_at = Some (2592000 * seconds), sn_created_at = 0, sn_revoked_at = None\<rparr>"

definition sample_refresh :: refresh_token where
  "sample_refresh = \<lparr>rt_id = 6, rt_session = 5, rt_hash = hash_token sample_lib ''raw'', rt_expires_at = 2592000 * seconds,
     rt_revoked_at = None, rt_created_at = 0\<rparr>"

definition signed_in :: order_state where
  "signed_in = sample_world\<lparr>sessions := [sample_session], refresh_tokens := [sample_refresh]\<rparr>"

definition signed_out :: order_state where
  "signed_out = snd (logout sample_auth 5 signed_in)"

lemmas eval_auth = sample_auth_def sample_session_def sample_refresh_def signed_in_def signed_out_def logout_def
  revoke_session_def revoke_session_tokens_def refresh_def refresh_check_def refresh_commit_def get_refresh_by_hash_def
  get_session_by_id_def generate_raw_token_def hash_token_def revoke_refresh_token_def create_refresh_token_def
  touch_session_def generate_access_token_def sample_sign_def by_pk_def sample_world_def empty_world_def

text \<open>After a logout the session is revoked; a later attempt to refresh it is a request like any other, and the access token is
  refused afterwards.\<close>

theorem revocation_final_witness:
  "sn_revoked_at (hd (sessions signed_out)) = Some 1000000000 \<and>
   fst (require_auth sample_auth [] (''Bearer '' @ sample_text 1 @ ''.'' @ sample_text 5)
     (snd (refresh sample_auth ''raw'' signed_out))) = Inr (Inl Unauthorized)"
proof -
  have s: "sessions signed_out = [sample_session\<lparr>sn_revoked_at := Some 1000000000\<rparr>]"
    "refresh_tokens signed_out = [sample_refresh\<lparr>rt_revoked_at := Some 1000000000\<rparr>]"
    by (simp_all add: eval_auth evals)
  have r: "request sample_system signed_out (snd (refresh sample_auth ''raw'' signed_out))"
    by (rule Backstage, rule Refresh, simp add: sample_system_def, rule prod.collapse [symmetric])
  have p: "au_parse sample_auth (au_secret sample_auth) now (trim_space (trim_prefix ''Bearer '' (''Bearer '' @ sample_text 1 @ ''.'' @ sample_text 5)))
      = Some \<lparr>jc_subject = sample_text 1, jc_session = 5, jc_issued_at = 0, jc_expires_at = 0\<rparr>" for now
    by (simp add: sample_auth_def sample_verify_def sample_text_def trim_prefix_def eval_strings numeral_eq_Suc)
  show ?thesis
    using revocation_final [OF _ _ r_into_rtranclp [of "request sample_system", OF r], of "sample_session\<lparr>sn_revoked_at := Some 1000000000\<rparr>" 1000000000 "[]" sample_auth
        "''Bearer '' @ sample_text 1 @ ''.'' @ sample_text 5", OF _ _ _ _ _ p] s
    by (simp add: keyed_def sample_session_def trim_space_def trim_left_def trim_right_def)
qed

section \<open>Spending a refresh token\<close>

lemma keyed_by_pk: "keyed key (by_pk k rs) = keyed key rs"
  by (simp add: keyed_def by_pk_def distinct_map)

lemma by_key_by_pk: "keyed key rs \<Longrightarrow> by_key key k (by_pk i rs) = by_key key k rs"
proof (cases "by_key key k rs")
  case None
  then show ?thesis using by_key_None [of key k "by_pk i rs"] by_key_None [of key k rs] by simp
next
  case (Some r)
  assume "keyed key rs"
  with Some show ?thesis
    using by_key_keyed [of key "by_pk i rs" r] by_key_Some [OF Some] by (simp add: keyed_by_pk)
qed

lemma by_key_only: "r \<in> set rs \<Longrightarrow> key r = k \<Longrightarrow> (\<And>t. t \<in> set rs \<Longrightarrow> key t = k \<Longrightarrow> t = r) \<Longrightarrow> by_key key k rs = Some r"
  using by_key_None [of key k rs] by (cases "by_key key k rs") (force dest: by_key_Some)+

definition revoked_token :: "instant \<Rightarrow> refresh_token \<Rightarrow> refresh_token" where
  "revoked_token t r = r\<lparr>rt_revoked_at := Some t\<rparr>"

text \<open>The reading half accepts a token that is known, unrevoked and unexpired, of a live session of an active user.\<close>

definition usable :: "auth_service \<Rightarrow> string \<Rightarrow> 'z auth_state_scheme \<Rightarrow> refresh_token \<times> session \<times> user \<Rightarrow> bool" where
  "usable s raw w = (\<lambda>(old, sess, u).
     by_key rt_hash (hash_token (au_lib s) raw) (by_pk rt_id (refresh_tokens w)) = Some old \<and>
     rt_revoked_at old = None \<and> clock w \<le> rt_expires_at old \<and> by_key sn_id (rt_session old) (sessions w) = Some sess \<and>
     sn_revoked_at sess = None \<and> (\<forall>t. sn_expires_at sess = Some t \<longrightarrow> clock w \<le> t) \<and>
     by_key us_id (sn_user sess) (live_users w) = Some u \<and> us_status u = ACTIVE)"

lemma refresh_check_spec:
  "wp (refresh_check s raw) (\<lambda>r w'. usable s raw w r \<and> same_store w w') (\<lambda>_ _. True) w"
  by (auto simp: refresh_check_def get_refresh_by_hash_def get_session_by_id_def get_user_by_id_def usable_def wp_simps wp_def live_users_def
      split: option.splits intro!: wp_all)

definition rotated :: "auth_service \<Rightarrow> refresh_token \<Rightarrow> session \<Rightarrow> string \<Rightarrow> uuid \<Rightarrow> 'z auth_state_scheme \<Rightarrow> 'z auth_state_scheme" where
  "rotated s old sess raw i w = w\<lparr>
     refresh_tokens := modify (\<lambda>t. rt_id t = rt_id old \<and> rt_revoked_at t = None) (revoked_token (clock w)) (refresh_tokens w) @
       [\<lparr>rt_id = i, rt_session = sn_id sess, rt_hash = hash_token (au_lib s) raw, rt_expires_at = clock w + au_refresh_ttl s,
         rt_revoked_at = None, rt_created_at = clock w\<rparr>],
     sessions := modify (\<lambda>x. sn_id x = sn_id sess) (\<lambda>x. x\<lparr>sn_last_active_at := Some (clock w)\<rparr>) (sessions w)\<rparr>"

lemma refresh_commit_spec:
  "wp (refresh_commit s old sess u) (\<lambda>p w'. \<exists>i. same_store (rotated s old sess (tp_refresh p) i w) w') (\<lambda>_ _. True) w"
  by (cases w) (auto simp: refresh_commit_def generate_raw_token_def generate_access_token_def revoke_refresh_token_def
      create_refresh_token_def touch_session_def wp_simps rotated_def same_store_iff revoked_token_def [abs_def] tick_def
      uuid_nil_def split: option.split)

text \<open>Presenting a revoked token ends the session it belongs to.\<close>

lemma reuse_detected:
  assumes "by_key rt_hash (hash_token (au_lib s) raw) (by_pk rt_id (refresh_tokens w)) = Some r" and "rt_revoked_at r \<noteq> None"
    and "faults w = []"
  shows "refresh s raw w = (Inl (AuthE auth_err.ErrInvalidToken), w\<lparr>
     sessions := modify (\<lambda>x. sn_id x = rt_session r \<and> sn_revoked_at x = None) (\<lambda>x. x\<lparr>sn_revoked_at := Some (clock w)\<rparr>) (sessions w),
     refresh_tokens := modify (\<lambda>t. rt_session t = rt_session r \<and> rt_revoked_at t = None) (revoked_token (clock w)) (refresh_tokens w)\<rparr>)"
  using assms
  by (auto simp: refresh_def refresh_check_def get_refresh_by_hash_def revoke_session_def revoke_session_tokens_def eval_store
      revoked_token_def [abs_def])

lemma rotated_same: "same_store w v \<Longrightarrow> same_store (rotated s old sess raw i w) (rotated s old sess raw i v)"
  by (cases w; cases v) (simp add: same_store_iff rotated_def)

lemma refresh_spec:
  "wp (refresh s raw) (\<lambda>p w'. \<exists>old sess u i. usable s raw w (old, sess, u) \<and> same_store (rotated s old sess (tp_refresh p) i w) w')
    (\<lambda>_ _. True) w"
  unfolding refresh_def wp_bnd
proof (rule wp_mono [OF refresh_check_spec])
  fix r v assume "usable s raw w r \<and> same_store w v"
  then obtain old sess u where r: "r = (old, sess, u)" "usable s raw w (old, sess, u)" "same_store w v" by (cases r) auto
  have "wp (refresh_commit s old sess u) (\<lambda>p w'. \<exists>i. same_store (rotated s old sess (tp_refresh p) i w) w') (\<lambda>_ _. True) v"
    by (rule wp_mono [OF refresh_commit_spec]) (auto intro: same_store_trans [OF rotated_same [OF r(3)]])
  then show "wp (case r of (old, sess, u) \<Rightarrow> refresh_commit s old sess u)
      (\<lambda>p w'. \<exists>old sess u i. usable s raw w (old, sess, u) \<and> same_store (rotated s old sess (tp_refresh p) i w) w') (\<lambda>_ _. True) v"
    using r(2) by (auto simp: r(1) elim!: wp_mono)
qed simp

lemma spent_token_found:
  assumes "keyed rt_hash (refresh_tokens w)" and "old \<in> set (refresh_tokens w)" and "rt_revoked_at old = None"
    and "hash_token (au_lib s) raw \<noteq> rt_hash old"
  shows "by_key rt_hash (rt_hash old) (by_pk rt_id (refresh_tokens (rotated s old sess raw i w))) = Some (revoked_token (clock w) old)"
proof -
  let ?ts = "refresh_tokens (rotated s old sess raw i w)"
  have 1: "revoked_token (clock w) old \<in> set ?ts" using assms(2,3) by (force simp: rotated_def set_modify)
  have 2: "t = revoked_token (clock w) old" if "t \<in> set ?ts" "rt_hash t = rt_hash old" for t
  proof -
    from that assms(4) obtain t0 where t0: "t0 \<in> set (refresh_tokens w)" "rt_hash t0 = rt_hash old"
      and t: "t = (if rt_id t0 = rt_id old \<and> rt_revoked_at t0 = None then revoked_token (clock w) t0 else t0)"
      by (auto simp: rotated_def set_modify revoked_token_def)
    have "t0 = old" by (rule keyed_inj [OF assms(1) t0(1) assms(2) t0(2)])
    with t assms(3) show ?thesis by simp
  qed
  show ?thesis
  proof (rule by_key_only)
    show "revoked_token (clock w) old \<in> set (by_pk rt_id ?ts)" using 1 by simp
    show "rt_hash (revoked_token (clock w) old) = rt_hash old" by (simp add: revoked_token_def)
    show "t = revoked_token (clock w) old" if "t \<in> set (by_pk rt_id ?ts)" "rt_hash t = rt_hash old" for t
      using 2 that by simp
  qed
qed

text \<open>C19. A refresh token works once. A refresh that succeeds was given a known, unrevoked, unexpired token of a live session of an
  active user; it revokes exactly that token and adds one for the same session. Presenting the old token again is refused,
  and revokes the session with every token it has, the new one included, so the thief and the owner are both signed out.\<close>

theorem refresh_single_use:
  assumes "keyed rt_hash (refresh_tokens w)" and "refresh s raw w = (Inr p, w1)"
    and "hash_token (au_lib s) (tp_refresh p) \<noteq> hash_token (au_lib s) raw"
  shows "\<exists>old sess u i. usable s raw w (old, sess, u) \<and> same_store (rotated s old sess (tp_refresh p) i w) w1 \<and>
    (faults w1 = [] \<longrightarrow> (\<exists>w2. refresh s raw w1 = (Inl (AuthE auth_err.ErrInvalidToken), w2) \<and>
       (\<forall>x \<in> set (sessions w2). sn_id x = sn_id sess \<longrightarrow> sn_revoked_at x \<noteq> None) \<and>
       (\<forall>t \<in> set (refresh_tokens w2). rt_session t = sn_id sess \<longrightarrow> rt_revoked_at t \<noteq> None)))"
proof -
  from refresh_spec [of s raw w] obtain old sess u i where u: "usable s raw w (old, sess, u)" and r: "same_store (rotated s old sess (tp_refresh p) i w) w1"
    using assms(2) by (auto simp: wp_def)
  let ?h = "hash_token (au_lib s) raw"
  have old: "old \<in> set (refresh_tokens w)" "rt_hash old = ?h" "rt_revoked_at old = None" and sess: "sn_id sess = rt_session old"
    using u by (auto simp: usable_def dest!: by_key_Some)
  have t1: "refresh_tokens w1 = refresh_tokens (rotated s old sess (tp_refresh p) i w)" by (rule same_field [OF r]) simp
  have "by_key rt_hash ?h (by_pk rt_id (refresh_tokens w1)) = Some (revoked_token (clock w) old)"
    using spent_token_found [OF assms(1) old(1,3), of s "tp_refresh p"] assms(3) by (simp add: t1 old(2))
  from reuse_detected [OF this] show ?thesis
    using u r sess by (intro exI [of _ old] exI [of _ sess] exI [of _ u] exI [of _ i]) (auto simp: revoked_token_def set_modify)
qed

lemma length_hex_encode: "length (hex_encode s) = 2 * length s"
  by (induction s) auto

theorem refresh_single_use_witness:
  "\<exists>w2. refresh sample_auth ''raw'' (snd (refresh sample_auth ''raw'' signed_in)) = (Inl (AuthE auth_err.ErrInvalidToken), w2) \<and>
     (\<forall>t \<in> set (refresh_tokens w2). rt_session t = 5 \<longrightarrow> rt_revoked_at t \<noteq> None)"
proof -
  define new where "new = hex_encode (replicate 32 (char_of (65 :: nat)))"
  have r: "refresh sample_auth ''raw'' signed_in = (Inr \<lparr>tp_access = sample_text 1 @ ''.'' @ sample_text 5, tp_refresh = new\<rparr>,
      snd (refresh sample_auth ''raw'' signed_in))"
    by (simp add: eval_auth evals new_def seconds_def)
  have "length (hash_token sample_lib new) \<noteq> length (hash_token sample_lib ''raw'')"
    by (simp add: hash_token_def new_def length_hex_encode)
  then have h: "hash_token (au_lib sample_auth) new \<noteq> hash_token (au_lib sample_auth) ''raw''"
    by (auto simp: sample_auth_def)
  have "keyed rt_hash (refresh_tokens signed_in)" by (simp add: signed_in_def keyed_def)
  moreover have "faults (snd (refresh sample_auth ''raw'' signed_in)) = []" by (simp add: eval_auth evals seconds_def)
  moreover have "sn_id sess = 5" if "usable sample_auth ''raw'' signed_in (old, sess, u)" for old sess u
    using that by (auto simp: usable_def signed_in_def sample_session_def by_key_def split: if_splits)
  ultimately show ?thesis
    using refresh_single_use [OF _ r] h by fastforce
qed

section \<open>The race the code leaves open\<close>

text \<open>\<open>Refresh\<close> checks the token outside the transaction that revokes it, and does not look at how many rows the revocation
  changed. Two requests that present one token at the same time both pass the check and both get a new pair.\<close>

theorem refresh_race:
  "\<exists>x1 x2 p1 p2 w1 w2 w3 w4. refresh_check sample_auth ''raw'' signed_in = (Inr x1, w1) \<and> refresh_check sample_auth ''raw'' w1 = (Inr x2, w2) \<and>
     (case x1 of (old, sess, u) \<Rightarrow> refresh_commit sample_auth old sess u w2) = (Inr p1, w3) \<and>
     (case x2 of (old, sess, u) \<Rightarrow> refresh_commit sample_auth old sess u w3) = (Inr p2, w4) \<and>
     length (filter (\<lambda>t. rt_session t = 5 \<and> rt_revoked_at t = None) (refresh_tokens w4)) = 2"
  by (simp add: eval_auth evals seconds_def)

section \<open>Password reset\<close>

definition password_changed :: "uuid \<Rightarrow> uuid \<Rightarrow> string \<Rightarrow> 'z auth_state_scheme \<Rightarrow> 'z auth_state_scheme" where
  "password_changed user link h w = w\<lparr>
     credentials := modify (\<lambda>c. cd_user c = user)
       (\<lambda>c. c\<lparr>cd_hash := h, cd_changed_at := Some (clock w), cd_updated_at := clock w\<rparr>) (credentials w),
     resets := modify (\<lambda>p. pr_user p = user \<and> pr_used_at p = None) (\<lambda>p. p\<lparr>pr_used_at := Some (clock w)\<rparr>)
       (modify (\<lambda>p. pr_id p = link) (\<lambda>p. p\<lparr>pr_used_at := Some (clock w)\<rparr>) (resets w)),
     sessions := modify (\<lambda>s. sn_user s = user \<and> sn_revoked_at s = None) (\<lambda>s. s\<lparr>sn_revoked_at := Some (clock w)\<rparr>) (sessions w),
     refresh_tokens := modify (\<lambda>t. rt_revoked_at t = None \<and> (\<exists>s \<in> set (sessions w). sn_user s = user \<and> sn_id s = rt_session t))
       (revoked_token (clock w)) (refresh_tokens w)\<rparr>"

lemma session_owned:
  fixes ss :: "session list"
  shows "(k \<in> sn_id ` {x \<in> set (modify p (sn_revoked_at_update (\<lambda>_. v)) ss). sn_user x = user}) \<longleftrightarrow>
    (\<exists>s \<in> set ss. sn_user s = user \<and> sn_id s = k)" (is "?l \<longleftrightarrow> ?r")
proof
  show "?l \<Longrightarrow> ?r" by (auto simp: set_modify)
next
  assume ?r
  then obtain s where s: "s \<in> set ss" "sn_user s = user" "sn_id s = k" by blast
  let ?x = "if p s then s\<lparr>sn_revoked_at := v\<rparr> else s"
  have "?x \<in> set (modify p (sn_revoked_at_update (\<lambda>_. v)) ss)" "sn_user ?x = user" "k = sn_id ?x"
    using s by (auto simp: modify_def)
  then show ?l by blast
qed

lemma reset_password_spec:
  "wp (reset_password s raw pw)
     (\<lambda>_ w'. \<exists>p salt h. by_key pr_hash (hash_token (au_lib s) raw) (by_pk pr_id (resets w)) = Some p \<and> pr_used_at p = None \<and>
        clock w \<le> pr_expires_at p \<and> au_hash s salt pw = Some h \<and> same_store (password_changed (pr_user p) (pr_id p) h w) w')
     (\<lambda>_. same_store w) w"
  by (cases w) (auto simp: reset_password_def get_password_reset_by_hash_def bcrypt_hash_def update_credential_hash_def
      mark_password_reset_used_def invalidate_user_resets_def revoke_all_user_sessions_def revoke_all_user_tokens_def
      session_owned wp_simps password_changed_def same_store_iff revoked_token_def [abs_def] tick_def
      split: option.split)

lemma filter_modify_other: "(\<And>x. p x \<Longrightarrow> \<not> q x) \<Longrightarrow> (\<And>x. p x \<Longrightarrow> \<not> q (f x)) \<Longrightarrow> filter q (modify p f xs) = filter q xs"
  by (induction xs) auto

text \<open>C20. A password reset. It succeeds only with a known, unused, unexpired link; then the user's password is the new one, every
  session of the user and every refresh token of those sessions is revoked, and every reset link of the user is used up, so
  the link does not work again. The passwords of the others stay. A reset that fails changes nothing.\<close>

theorem reset_password_effect:
  assumes "reset_password s raw pw w = (r, w')"
  shows "case r of Inl e \<Rightarrow> same_store w w' | Inr _ \<Rightarrow> \<exists>p salt h.
     by_key pr_hash (hash_token (au_lib s) raw) (by_pk pr_id (resets w)) = Some p \<and> pr_used_at p = None \<and> clock w \<le> pr_expires_at p \<and>
     au_hash s salt pw = Some h \<and>
     (\<forall>c \<in> set (credentials w'). cd_user c = pr_user p \<longrightarrow> cd_hash c = h) \<and>
     filter (\<lambda>c. cd_user c \<noteq> pr_user p) (credentials w') = filter (\<lambda>c. cd_user c \<noteq> pr_user p) (credentials w) \<and>
     (\<forall>x \<in> set (sessions w'). sn_user x = pr_user p \<longrightarrow> sn_revoked_at x \<noteq> None \<and>
        (\<forall>t \<in> set (refresh_tokens w'). rt_session t = sn_id x \<longrightarrow> rt_revoked_at t \<noteq> None)) \<and>
     (\<forall>q \<in> set (resets w'). pr_user q = pr_user p \<longrightarrow> pr_used_at q \<noteq> None)"
proof (cases r)
  case (Inl e)
  with assms wp_errD [OF _ reset_password_spec] show ?thesis by simp
next
  case (Inr x)
  with assms wp_okD [OF _ reset_password_spec] obtain p salt h where
    p: "by_key pr_hash (hash_token (au_lib s) raw) (by_pk pr_id (resets w)) = Some p" "pr_used_at p = None" "clock w \<le> pr_expires_at p"
      "au_hash s salt pw = Some h" and e: "same_store (password_changed (pr_user p) (pr_id p) h w) w'" by blast
  have t: "credentials w' = credentials (password_changed (pr_user p) (pr_id p) h w)" "sessions w' = sessions (password_changed (pr_user p) (pr_id p) h w)"
    "refresh_tokens w' = refresh_tokens (password_changed (pr_user p) (pr_id p) h w)" "resets w' = resets (password_changed (pr_user p) (pr_id p) h w)"
    by (rule same_field [OF e], simp)+
  have "\<forall>c \<in> set (credentials w'). cd_user c = pr_user p \<longrightarrow> cd_hash c = h"
    by (auto simp: t password_changed_def set_modify)
  moreover have "filter (\<lambda>c. cd_user c \<noteq> pr_user p) (credentials w') = filter (\<lambda>c. cd_user c \<noteq> pr_user p) (credentials w)"
    by (simp add: t password_changed_def filter_modify_other)
  moreover have "sn_revoked_at x \<noteq> None \<and> (\<forall>t \<in> set (refresh_tokens w'). rt_session t = sn_id x \<longrightarrow> rt_revoked_at t \<noteq> None)"
    if "x \<in> set (sessions w')" "sn_user x = pr_user p" for x
    using that by (auto simp: t password_changed_def set_modify revoked_token_def)
  moreover have "\<forall>q \<in> set (resets w'). pr_user q = pr_user p \<longrightarrow> pr_used_at q \<noteq> None"
    by (auto simp: t password_changed_def set_modify)
  ultimately show ?thesis using p Inr by auto
qed

definition forgotten :: order_state where
  "forgotten = signed_in\<lparr>credentials := [\<lparr>cd_id = 7, cd_user = 1, cd_hash = ''old'', cd_changed_at = None, cd_created_at = 0, cd_updated_at = 0\<rparr>],
     resets := [\<lparr>pr_id = 8, pr_user = 1, pr_hash = hash_token sample_lib ''link'', pr_expires_at = 3600 * seconds, pr_used_at = None,
       pr_created_at = 0\<rparr>]\<rparr>"

theorem reset_password_effect_witness:
  "\<exists>w'. reset_password sample_auth ''link'' ''new'' forgotten = (Inr (), w') \<and>
     (\<forall>q \<in> set (resets w'). pr_user q = 1 \<longrightarrow> pr_used_at q \<noteq> None)"
proof -
  have r: "reset_password sample_auth ''link'' ''new'' forgotten = (Inr (), snd (reset_password sample_auth ''link'' ''new'' forgotten))"
    by (simp add: forgotten_def eval_auth evals seconds_def reset_password_def get_password_reset_by_hash_def bcrypt_hash_def
        update_credential_hash_def mark_password_reset_used_def invalidate_user_resets_def revoke_all_user_sessions_def
        revoke_all_user_tokens_def)
  have "pr_user p = 1" if "p \<in> set (resets forgotten)" for p using that by (simp add: forgotten_def)
  then show ?thesis using reset_password_effect [OF r] r by (auto dest!: by_key_Some)
qed

section \<open>Guessing a code\<close>

definition codes_bounded :: "'z auth_state_scheme \<Rightarrow> bool" where
  "codes_bounded w \<longleftrightarrow> keyed email_otp.ot_id (otps w) \<and>
     (\<forall>c \<in> set (otps w). 0 \<le> ot_attempts c \<and> ot_attempts c \<le> otp_max_attempts)"

lemma codes_tables: "on_tables codes_bounded"
  by (rule on_tablesI) (simp add: codes_bounded_def)

interpretation code_rows: auth_rows codes_bounded
proof unfold_locales
  show "on_tables codes_bounded" by (rule codes_tables)
  fix w :: "'a auth_state_scheme" and x :: job assume "codes_bounded w"
  then show "codes_bounded (w\<lparr>jobs := jobs w @ [x]\<rparr>)" by (simp add: codes_bounded_def)
next
  show "keeps codes_bounded (create_otp_code l co)" if "ot_attempts co = 0" for l co
    unfolding create_otp_code_def using that
    by (intro keeps_intros codes_tables) (auto simp: codes_bounded_def otp_max_attempts_def split: if_splits)
  show "keeps codes_bounded (consume_otp i t)" "keeps codes_bounded (invalidate_user_otps i t)" for i t
    unfolding consume_otp_def invalidate_user_otps_def
    by (intro keeps_intros codes_tables; auto simp: codes_bounded_def set_modify)+
qed (unfold create_user_def create_profile_def set_email_verified_def update_last_login_def create_credential_def
    update_credential_hash_def repo_create_session_def touch_session_def revoke_session_def revoke_all_user_sessions_def
    create_refresh_token_def revoke_refresh_token_def revoke_session_tokens_def revoke_all_user_tokens_def
    create_email_verification_def mark_email_verification_used_def invalidate_user_verifications_def create_password_reset_def
    mark_password_reset_used_def invalidate_user_resets_def record_login_attempt_def Let_def,
  (intro keeps_intros codes_tables; simp add: codes_bounded_def)+)

lemma latest_pending_spec:
  "wp (latest_pending_otp user) (\<lambda>c w'. same_store w w' \<and> c \<in> set (otps w) \<and> ot_user c = user \<and> ot_consumed_at c = None)
     (\<lambda>_. same_store w) w"
proof -
  have "c \<in> set cs" if "first_of (newest_first k cs) = Some c" for c k and cs :: "email_otp list"
  proof -
    from that have "c \<in> set (newest_first k cs)" by (auto simp: first_of_def split: list.splits)
    then show ?thesis by (simp add: newest_first_def)
  qed
  then show ?thesis by (fastforce simp: latest_pending_otp_def wp_simps split: option.split)
qed

lemma wrong_guess:
  assumes "codes_bounded w" and "c \<in> set (otps w)" and "ot_attempts c < otp_max_attempts"
  shows "wp (bnd (attempt (increment_otp_attempts (email_otp.ot_id c))) (\<lambda>_. if d then fail e else fail e')) (\<lambda>_. codes_bounded)
    (\<lambda>_. codes_bounded) w"
proof -
  have less: "ot_attempts c' < otp_max_attempts" if "c' \<in> set (otps w)" "email_otp.ot_id c' = email_otp.ot_id c" for c'
  proof -
    have "c' = c" by (rule keyed_inj [of email_otp.ot_id "otps w"]) (use that assms(1,2) in \<open>simp_all add: codes_bounded_def\<close>)
    with assms(3) show ?thesis by simp
  qed
  then have "ot_attempts c' + 1 \<le> otp_max_attempts" if "c' \<in> set (otps w)" "email_otp.ot_id c' = email_otp.ot_id c" for c'
    using that by fastforce
  then show ?thesis
    using assms(1) by (auto simp: increment_otp_attempts_def wp_simps codes_bounded_def set_modify split: option.split)
qed

lemma guess_step:
  fixes right :: "email_otp \<Rightarrow> ('a auth_state_scheme, unit) op"
  assumes right: "\<And>c. keeps codes_bounded (right c)"
  shows "keeps codes_bounded (bnd (on_error (latest_pending_otp user) h) (\<lambda>c.
       bnd (guard (\<not> (now > email_otp.ot_expires_at c \<or> ot_attempts c \<ge> otp_max_attempts)) e1) (\<lambda>_.
       if wrong c then bnd (attempt (increment_otp_attempts (email_otp.ot_id c))) (\<lambda>_. if final c then fail e2 else fail e3)
       else right c)))"
proof (rule keepsI)
  fix w :: "'a auth_state_scheme" assume w: "codes_bounded w"
  have t: "codes_bounded v" if "same_store w v" for v using on_tables_same [OF codes_tables that] w by simp
  have o: "otps v = otps w" if "same_store w v" for v by (rule same_field [OF that]) simp
  show "wp (bnd (on_error (latest_pending_otp user) h) (\<lambda>c.
     bnd (guard (\<not> (now > email_otp.ot_expires_at c \<or> ot_attempts c \<ge> otp_max_attempts)) e1) (\<lambda>_.
     if wrong c then bnd (attempt (increment_otp_attempts (email_otp.ot_id c))) (\<lambda>_. if final c then fail e2 else fail e3)
     else right c))) (\<lambda>_. codes_bounded) (\<lambda>_. codes_bounded) w"
    unfolding wp_bnd wp_on_error
  proof (rule wp_mono [OF latest_pending_spec])
    fix c v assume a: "same_store w v \<and> c \<in> set (otps w) \<and> ot_user c = user \<and> ot_consumed_at c = None"
    then have v: "codes_bounded v" "c \<in> set (otps v)" using t [of v] o [of v] by simp_all
    then have "wp (bnd (attempt (increment_otp_attempts (email_otp.ot_id c))) (\<lambda>_. if final c then fail e2 else fail e3))
        (\<lambda>_. codes_bounded) (\<lambda>_. codes_bounded) v" if "ot_attempts c < otp_max_attempts"
      using that by (rule wrong_guess)
    then show "wp (guard (\<not> (now > email_otp.ot_expires_at c \<or> ot_attempts c \<ge> otp_max_attempts)) e1)
        (\<lambda>x. wp (if wrong c then bnd (attempt (increment_otp_attempts (email_otp.ot_id c))) (\<lambda>_. if final c then fail e2 else fail e3)
           else right c) (\<lambda>_. codes_bounded) (\<lambda>_. codes_bounded)) (\<lambda>_. codes_bounded) v"
      using keeps_wpI [OF right, of v c] v by (cases "final c") (auto simp: wp_guard wp_if not_le)
  qed (use t in auto)
qed

lemma guess_bounded: "keeps codes_bounded (verify_by_code s em code)"
  unfolding verify_by_code_def
  by (rule keeps_bnd, (intro keeps_on_error keeps_users codes_tables)[1], rule keeps_if, rule keeps_ret, rule keeps_bnd, rule keeps_time_now, rule guess_step)
    (intro keeps_intros codes_tables code_rows.rows code_rows.helpers)

lemma codes_quiet: "quiet codes_bounded"
  by (simp add: quiet_def codes_tables) (simp add: codes_bounded_def)

lemma codes_apart: "apart codes_bounded"
  by (simp add: apart_def codes_bounded_def)

lemma codes_members: "keeps codes_bounded (repo_create_membership l m)"
  by (rule keeps_new_member [OF codes_tables]) (simp add: codes_bounded_def)

interpretation guesses: request_invariant codes_bounded y for y
proof unfold_locales
  fix user ref0
  have "keeps codes_bounded (delete_org_assets (sy_events y) org)" for org
    by (intro keeps_event_calls codes_quiet) (simp_all add: codes_bounded_def)
  then show "keeps codes_bounded (delete_org (sy_orgs y) (Some (delete_org_assets (sy_events y))) user ref0)"
    by (intro keeps_org_calls codes_quiet) (auto simp: codes_bounded_def)
next
  fix w w' assume "backstage (sy_auth y) (sy_orgs y) (sy_admin y) (sy_survives y) w w'" "codes_bounded w"
  then show "codes_bounded w'"
    by (rule backstage_flows [OF _ _ codes_quiet codes_apart codes_members code_rows.auth_rows_axioms guess_bounded])
qed ((intro keeps_shop_calls keeps_event_calls keeps_attendee_calls keeps_kit_calls keeps_checkin_calls keeps_org_calls
    keeps_billing_calls quiet_public_event codes_quiet codes_tables;
    simp add: codes_bounded_def)+, simp_all add: codes_bounded_def)

lemma exhausted_codes:
  assumes u: "by_key us_email (to_lower (trim_space em)) (live_users w) = Some u" "\<not> us_email_verified u"
    and "\<forall>c \<in> set (otps w). ot_user c = us_id u \<and> ot_consumed_at c = None \<longrightarrow> otp_max_attempts \<le> ot_attempts c"
  shows "wp (verify_by_code s em code) (\<lambda>_ _. False) (\<lambda>_. same_store w) w"
proof -
  have l: "wp (latest_pending_otp (us_id u)) (\<lambda>c v. same_store w v \<and> otp_max_attempts \<le> ot_attempts c) (\<lambda>_. same_store w) (tick w)"
    by (rule wp_mono [OF latest_pending_spec]) (use assms(3) in auto)
  show ?thesis
    by (insert u, simp add: verify_by_code_def get_user_by_email_def wp_simps(1-8) wp_select_first wp_time_now live_users_def,
      intro impI, rule wp_mono [OF l], auto)
qed

text \<open>C21. A code can be guessed five times. Whatever requests run one after the other, no verification code has counted more than
  five wrong guesses; and once the pending codes of a user have counted five, every further code is refused, the right one
  included, and nothing is written.\<close>

theorem code_guesses_bounded:
  assumes "keyed email_otp.ot_id (otps w)" and "\<forall>c \<in> set (otps w). 0 \<le> ot_attempts c \<and> ot_attempts c \<le> 5"
    and "(request y)\<^sup>*\<^sup>* w w'"
  shows "(\<forall>c \<in> set (otps w'). 0 \<le> ot_attempts c \<and> ot_attempts c \<le> 5) \<and>
    (\<forall>u. by_key us_email (to_lower (trim_space em)) (live_users w') = Some u \<and> \<not> us_email_verified u \<and>
       (\<forall>c \<in> set (otps w'). ot_user c = us_id u \<and> ot_consumed_at c = None \<longrightarrow> ot_attempts c = 5) \<longrightarrow>
       (\<exists>e v. verify_by_code s em code w' = (Inl e, v) \<and> same_store w' v))"
proof -
  have "codes_bounded w" using assms(1,2) by (simp add: codes_bounded_def otp_max_attempts_def)
  then have "codes_bounded w'" by (rule guesses.steps [OF assms(3)])
  moreover have "\<exists>e v. verify_by_code s em code w' = (Inl e, v) \<and> same_store w' v"
    if "by_key us_email (to_lower (trim_space em)) (live_users w') = Some u" "\<not> us_email_verified u"
      "\<forall>c \<in> set (otps w'). ot_user c = us_id u \<and> ot_consumed_at c = None \<longrightarrow> ot_attempts c = 5" for u
  proof -
    have "wp (verify_by_code s em code) (\<lambda>_ _. False) (\<lambda>_. same_store w') w'"
      using that by (intro exhausted_codes) (auto simp: otp_max_attempts_def)
    then show ?thesis by (auto simp: wp_def split: prod.splits sum.splits)
  qed
  ultimately show ?thesis by (auto simp: codes_bounded_def otp_max_attempts_def)
qed

text \<open>A user who has not verified the address, with a code that was guessed wrong four times; the fifth guess is wrong too, and
  the right code comes too late.\<close>

definition guessed :: order_state where
  "guessed = sample_world\<lparr>users := [(sample_user 1 ''ada@x.io'')\<lparr>us_email_verified := False\<rparr>],
     otps := [\<lparr>email_otp.ot_id = 9, ot_user = 1, ot_hash = hash_token sample_lib ''123456'', ot_expires_at = 600 * seconds,
       ot_attempts = 4, ot_consumed_at = None, ot_created_at = 0\<rparr>]\<rparr>"

definition exhausted :: order_state where
  "exhausted = snd (verify_by_code sample_auth ''ada@x.io'' ''000000'' guessed)"

theorem code_guesses_bounded_witness:
  "map ot_attempts (otps exhausted) = [5] \<and> (\<exists>e v. verify_by_code sample_auth ''ada@x.io'' ''123456'' exhausted = (Inl e, v))"
proof -
  have e: "exhausted = guessed\<lparr>otps := [(hd (otps guessed))\<lparr>ot_attempts := 5\<rparr>]\<rparr>"
    by (simp add: exhausted_def guessed_def verify_by_code_def latest_pending_otp_def increment_otp_attempts_def get_user_by_email_def
        first_of_def newest_first_def eval_auth evals seconds_def otp_max_attempts_def hex_digit_def)
  have "request sample_system guessed exhausted" unfolding exhausted_def
    by (rule Backstage, rule Verify_by_code, simp add: sample_system_def, rule prod.collapse [symmetric])
  then have "(request sample_system)\<^sup>*\<^sup>* guessed exhausted" ..
  from code_guesses_bounded [OF _ _ this, of "''ada@x.io''" sample_auth "''123456''"] show ?thesis
    by (auto simp: e guessed_def keyed_def sample_user_def live_users_def by_key_def eval_strings sample_world_def)
qed

end
