(* ===== verification/GateFacts.thy ===== *)
theory GateFacts
  imports Rotation
begin

text \<open>
  Who gets through the middlewares of an organization route, and with what. An API key acts for its creator, in its own
  organization, inside its scopes, and never on API keys or administration; an access token needs its session. The two
  parsers of scopes in the code agree, and a scope that was accepted when a key was made is one the gate understands.
\<close>

section \<open>What each middleware passes on\<close>

definition key_holder :: "auth_service \<Rightarrow> string \<Rightarrow> 'z auth_state_scheme \<Rightarrow> api_key \<Rightarrow> bool" where
  "key_holder s raw w k \<longleftrightarrow> k \<in> set (api_keys w) \<and> ak_hash k = hash_token (au_lib s) (trim_space raw) \<and> ak_revoked_at k = None \<and>
     (\<forall>t. ak_expires_at k = Some t \<longrightarrow> clock w < t)"

definition live_account :: "uuid \<Rightarrow> 'z user_state_scheme \<Rightarrow> bool" where
  "live_account i w \<longleftrightarrow> (\<exists>u. by_key us_id i (live_users w) = Some u \<and> us_status u = ACTIVE)"

definition caller_known :: "auth_service \<Rightarrow> string \<Rightarrow> string \<Rightarrow> 'z auth_state_scheme \<Rightarrow> gate_context \<Rightarrow> bool" where
  "caller_known s key_header header w cx \<longleftrightarrow> (\<exists>user. gx_user cx = Some user \<and> live_account user w \<and>
     (if trim_space key_header \<noteq> [] then
        \<exists>k. key_holder s (trim_space key_header) w k \<and> ak_created_by k = user \<and> gx_key cx = Some (ak_id k) \<and>
          gx_key_org cx = Some (ak_org k) \<and> gx_scopes cx = ak_scopes k
      else gx_key cx = None \<and> gx_key_org cx = None \<and> gx_scopes cx = [] \<and>
        (\<exists>i sess. gx_session cx = Some i \<and> by_key sn_id i (sessions w) = Some sess \<and> sn_user sess = user \<and> sn_revoked_at sess = None)))"

definition looked_at :: "'z auth_state_scheme \<Rightarrow> 'z auth_state_scheme \<Rightarrow> bool" where
  "looked_at w w' \<longleftrightarrow> (\<exists>ks. same_store (w\<lparr>api_keys := ks\<rparr>) w')"

lemma looked_at_same: "same_store w w' \<Longrightarrow> looked_at w w'"
  unfolding looked_at_def by (intro exI [of _ "api_keys w"]) simp

lemma validate_key_spec:
  "wp (validate_api_key l raw) (\<lambda>r w'. same_store w w' \<and> (\<forall>k. r = Some k \<longrightarrow> k \<in> set (api_keys w) \<and>
      ak_hash k = hash_token l (trim_space raw) \<and> ak_revoked_at k = None \<and> (\<forall>t. ak_expires_at k = Some t \<longrightarrow> clock w < t) \<and>
      live_account (ak_created_by k) w)) (\<lambda>_ _. False) w"
  by (auto simp: validate_api_key_def get_api_key_by_hash_def get_user_by_id_def wp_simps live_account_def live_users_def
      dest: by_key_Some split: option.splits)

lemma touch_key_spec: "wp (touch_api_key i t) (\<lambda>_. looked_at w) (\<lambda>_. looked_at w) w"
  by (cases w) (auto simp: touch_api_key_def wp_simps looked_at_def same_store_iff tick_def split: option.split)

lemma looked_at_trans: "same_store w v \<Longrightarrow> looked_at v w' \<Longrightarrow> looked_at w w'"
  by (cases w; cases v) (auto simp: looked_at_def same_store_iff)

lemma live_account_same: "same_store w v \<Longrightarrow> live_account i v = live_account i w"
  unfolding live_account_def live_users_def by (simp add: same_field [of w v users])

lemma require_auth_spec:
  "wp (require_auth s key_header header) (\<lambda>r w'. looked_at w w' \<and>
     (\<forall>cx. r = Inr cx \<longrightarrow> caller_known s key_header header w cx \<and> gx_org cx = None)) (\<lambda>_ _. False) w"
proof (cases "trim_space key_header = []")
  case True
  then show ?thesis
    by (auto simp: require_auth_def parse_access_token_def get_session_by_id_def get_user_by_id_def wp_simps caller_known_def
        live_account_def live_users_def empty_context_def intro!: looked_at_same dest: by_key_Some split: option.splits prod.splits)
next
  case False
  let ?raw = "trim_space key_header"
  have touch: "wp (bnd time_now (\<lambda>now. bnd (attempt (touch_api_key (ak_id k) now)) (\<lambda>_. ret (Inr (empty_context\<lparr>gx_user := Some (ak_created_by k),
       gx_key := Some (ak_id k), gx_key_org := Some (ak_org k), gx_scopes := ak_scopes k\<rparr>)))))
     (\<lambda>r w'. looked_at w w' \<and> (\<forall>cx. r = Inr cx \<longrightarrow> caller_known s key_header header w cx \<and> gx_org cx = None)) (\<lambda>_ _. False) v"
    if "same_store w v" "key_holder s ?raw w k" "live_account (ak_created_by k) w" for k v
    unfolding wp_bnd wp_time_now wp_attempt wp_ret
    by (rule wp_mono [OF touch_key_spec]) (use that False in \<open>auto simp: caller_known_def empty_context_def intro: looked_at_trans\<close>)
  show ?thesis
    unfolding require_auth_def Let_def if_P [OF False]
  proof (subst wp_bnd, rule wp_mono [OF validate_key_spec], goal_cases)
    case (1 r v)
    then show ?case
      by (cases r) (auto simp: wp_ret looked_at_same key_holder_def intro!: touch)
  qed simp
qed

lemma from_context_Some: "from_context v = Some i \<longleftrightarrow> v = Some i \<and> i \<noteq> uuid_nil"
  by (auto simp: from_context_def split: option.split)

lemma from_context_None: "from_context v = None \<longleftrightarrow> v = None \<or> v = Some uuid_nil"
  by (auto simp: from_context_def split: option.split)

definition placed :: "'z org_state_scheme \<Rightarrow> gate_context \<Rightarrow> gate_context \<Rightarrow> bool" where
  "placed w cx cx' \<longleftrightarrow> (\<exists>user og m. gx_user cx = Some user \<and> user \<noteq> uuid_nil \<and> og \<in> set (live_orgs w) \<and>
     member_of (og_id og) user (memberships w) = Some m \<and> (\<forall>k. gx_key_org cx = Some k \<and> k \<noteq> uuid_nil \<longrightarrow> k = og_id og) \<and>
     cx' = cx\<lparr>gx_org := Some (og_id og), gx_role := Some (mb_role m)\<rparr>)"

lemma placedI: "gx_user cx = Some user \<Longrightarrow> user \<noteq> uuid_nil \<Longrightarrow> og \<in> set (live_orgs w) \<Longrightarrow>
    member_of (og_id og) user (memberships w) = Some m \<Longrightarrow> (\<And>k. gx_key_org cx = Some k \<Longrightarrow> k \<noteq> uuid_nil \<Longrightarrow> k = og_id og) \<Longrightarrow>
    placed w cx (cx\<lparr>gx_org := Some (og_id og), gx_role := Some (mb_role m)\<rparr>)"
  by (auto simp: placed_def)

lemma org_context_spec:
  "wp (require_org_context l param cx) (\<lambda>r w'. same_store w w' \<and> (\<forall>cx'. r = Inr cx' \<longrightarrow> placed w cx cx')) (\<lambda>_ _. False) w"
proof -
  have r: "wp (resolve_membership l user ref0) (\<lambda>(og, m) v. same_store w v \<and> og \<in> set (live_orgs w) \<and>
      member_of (og_id og) user (memberships w) = Some m) (\<lambda>_. same_store w) w" for user ref0
    by (auto simp: resolve_membership_def get_org_by_id_def get_org_by_slug_def get_membership_def wp_simps live_orgs_def
        dest: by_key_Some split: option.split)
  show ?thesis
  proof (cases "from_context (gx_user cx)")
    case None
    then show ?thesis by (simp add: require_org_context_def wp_ret)
  next
    case (Some user)
    have "wp (attempt (resolve_membership l user (trim_space param))) (\<lambda>r v. same_store w v \<and>
        (\<forall>og m. r = Inr (og, m) \<longrightarrow> og \<in> set (live_orgs w) \<and> member_of (og_id og) user (memberships w) = Some m)) (\<lambda>_ _. False) w"
      unfolding wp_attempt by (rule wp_mono [OF r]) auto
    with Some show ?thesis
      by (auto simp: require_org_context_def Let_def wp_ret wp_if wp_bnd from_context_Some from_context_None
          intro!: placedI elim!: wp_mono split: sum.split option.split)
  qed
qed

lemma permission_spec:
  "wp (require_permission l ob ac cx) (\<lambda>r w'. w' = w \<and> (\<forall>cx'. r = Inr cx' \<longrightarrow> cx' = cx \<and>
     (\<exists>user org. gx_user cx = Some user \<and> gx_org cx = Some org \<and> org \<noteq> uuid_nil \<and>
       casbin_allows (uuid_text l user) (uuid_text l org) ob ac w) \<and>
     (gx_scopes cx = [] \<or> api_key_scope_allows (gx_scopes cx) ob ac) \<and>
     (\<forall>k. gx_key cx = Some k \<and> k \<noteq> uuid_nil \<longrightarrow> ob \<noteq> ''apikey'' \<and> ob \<noteq> ''admin''))) (\<lambda>_ _. False) w"
  by (auto simp: require_permission_def wp_simps from_context_Some from_context_None split: option.split)

lemma wp_then_gate [wp_simps]: "wp (then_gate m f) Q E = wp m (\<lambda>r w. case r of Inl x \<Rightarrow> Q (Inl x) w | Inr cx \<Rightarrow> wp (f cx) Q E w) E"
  by (simp only: then_gate_def wp_bnd wp_case_sum wp_ret)

lemma looked_at_then: "looked_at w v \<Longrightarrow> same_store v w' \<Longrightarrow> looked_at w w'"
  by (auto simp: looked_at_def intro: same_store_trans)

lemma looked_at_tables:
  assumes "looked_at w v"
  shows "orgs v = orgs w" "memberships v = memberships w" "p_rows v = p_rows w" "g_rows v = g_rows w" "g2_rows v = g2_rows w"
proof -
  from assms obtain ks where s: "same_store (w\<lparr>api_keys := ks\<rparr>) v" by (auto simp: looked_at_def)
  show "orgs v = orgs w" using same_field [OF s, of orgs] by simp
  show "memberships v = memberships w" using same_field [OF s, of memberships] by simp
  show "p_rows v = p_rows w" using same_field [OF s, of p_rows] by simp
  show "g_rows v = g_rows w" using same_field [OF s, of g_rows] by simp
  show "g2_rows v = g2_rows w" using same_field [OF s, of g2_rows] by simp
qed

definition admitted :: "auth_service \<Rightarrow> string \<Rightarrow> string \<Rightarrow> string \<Rightarrow> string \<Rightarrow> 'z org_state_scheme \<Rightarrow> gate_context \<Rightarrow> bool" where
  "admitted s key_header header ob ac w cx \<longleftrightarrow> caller_known s key_header header w cx \<and>
     (\<exists>user og m. gx_user cx = Some user \<and> user \<noteq> uuid_nil \<and> og \<in> set (live_orgs w) \<and> gx_org cx = Some (og_id og) \<and>
        member_of (og_id og) user (memberships w) = Some m \<and> gx_role cx = Some (mb_role m) \<and>
        (\<forall>k. gx_key_org cx = Some k \<and> k \<noteq> uuid_nil \<longrightarrow> k = og_id og) \<and>
        casbin_allows (uuid_text (au_lib s) user) (uuid_text (au_lib s) (og_id og)) ob ac w) \<and>
     (gx_scopes cx = [] \<or> api_key_scope_allows (gx_scopes cx) ob ac) \<and>
     (\<forall>k. gx_key cx = Some k \<and> k \<noteq> uuid_nil \<longrightarrow> ob \<noteq> ''apikey'' \<and> ob \<noteq> ''admin'')"

lemma org_gate_spec:
  "wp (org_gate s key_header header param ob ac) (\<lambda>r w'. looked_at w w' \<and> (\<forall>cx. r = Inr cx \<longrightarrow> admitted s key_header header ob ac w cx))
     (\<lambda>_ _. False) w"
  unfolding org_gate_def wp_then_gate
proof (rule wp_mono [OF require_auth_spec], goal_cases)
  case (1 r v)
  show ?case
  proof (cases r)
    case (Inl x)
    with 1 show ?thesis by simp
  next
    case (Inr cx)
    with 1 have v: "looked_at w v" and cx: "caller_known s key_header header w cx" "gx_org cx = None" by auto
    have "wp (require_permission (au_lib s) ob ac cx') (\<lambda>r w'. looked_at w w' \<and> (\<forall>cx. r = Inr cx \<longrightarrow> admitted s key_header header ob ac w cx))
        (\<lambda>_ _. False) v'" if "same_store v v'" "placed v cx cx'" for v' cx'
    proof -
      have l: "looked_at w v'" by (rule looked_at_then [OF v that(1)])
      note t = looked_at_tables [OF l]
      from that(2) obtain user og m where p: "gx_user cx = Some user" "user \<noteq> uuid_nil" "og \<in> set (live_orgs w)"
          "member_of (og_id og) user (memberships w) = Some m" "\<forall>k. gx_key_org cx = Some k \<and> k \<noteq> uuid_nil \<longrightarrow> k = og_id og"
        and cx': "cx' = cx\<lparr>gx_org := Some (og_id og), gx_role := Some (mb_role m)\<rparr>"
        unfolding placed_def live_orgs_def looked_at_tables [OF v] by blast
      have k: "caller_known s key_header header w cx'" using cx(1) by (cases "trim_space key_header = []") (simp_all add: caller_known_def cx')
      show ?thesis
      proof (rule wp_mono [OF permission_spec], goal_cases)
        case (1 r w')
        then have w': "w' = v'" and only: "r = Inr c \<Longrightarrow> c = cx'" for c by blast+
        have adm: "admitted s key_header header ob ac w cx'" if "r = Inr cx'"
        proof -
          have e: "gx_user cx' = Some user" "gx_org cx' = Some (og_id og)" "gx_role cx' = Some (mb_role m)" "gx_key_org cx' = gx_key_org cx"
            using p(1) by (simp_all add: cx')
          with 1 that have c: "casbin_allows (uuid_text (au_lib s) user) (uuid_text (au_lib s) (og_id og)) ob ac v'"
            and rest: "gx_scopes cx' = [] \<or> api_key_scope_allows (gx_scopes cx') ob ac"
              "\<forall>k. gx_key cx' = Some k \<and> k \<noteq> uuid_nil \<longrightarrow> ob \<noteq> ''apikey'' \<and> ob \<noteq> ''admin''" by auto
          from c have "casbin_allows (uuid_text (au_lib s) user) (uuid_text (au_lib s) (og_id og)) ob ac w"
            by (simp add: casbin_allows_def t)
          with e p have x: "\<exists>user og m. gx_user cx' = Some user \<and> user \<noteq> uuid_nil \<and> og \<in> set (live_orgs w) \<and> gx_org cx' = Some (og_id og) \<and>
              member_of (og_id og) user (memberships w) = Some m \<and> gx_role cx' = Some (mb_role m) \<and>
              (\<forall>k. gx_key_org cx' = Some k \<and> k \<noteq> uuid_nil \<longrightarrow> k = og_id og) \<and>
              casbin_allows (uuid_text (au_lib s) user) (uuid_text (au_lib s) (og_id og)) ob ac w"
            by (intro exI [of _ user] exI [of _ og] exI [of _ m] conjI) simp_all
          show ?thesis unfolding admitted_def by (rule conjI [OF k conjI [OF x conjI [OF rest]]])
        qed
        show ?case
        proof (intro conjI allI impI)
          show "looked_at w w'" using l w' by simp
          show "admitted s key_header header ob ac w c" if "r = Inr c" for c using adm only [OF that] that by simp
        qed
      qed
    qed
    then show ?thesis
      unfolding Inr sum.case by (rule_tac wp_mono [OF org_context_spec]) (use v in \<open>auto intro: looked_at_then split: sum.split\<close>)
  qed
qed simp

text \<open>C22. Who passes the gate of an organization route. The caller acts as a live, active account that is a member of the live
  organization of the path, and the policy allows that account the action there. A caller with an API key owns an unrevoked,
  unexpired key made by that account; the organization is the key's, the action is inside the scopes of a key that has any,
  and it is never an action on API keys or administration. A caller without one has an unrevoked session of that account.
  The gate itself writes at most the last use of a key.\<close>

theorem org_gate_admits:
  assumes "org_gate s key_header header param ob ac w = (Inr (Inr cx), w')"
  shows "\<exists>user og m. gx_user cx = Some user \<and> live_account user w \<and> og \<in> set (live_orgs w) \<and> gx_org cx = Some (og_id og) \<and>
      member_of (og_id og) user (memberships w) = Some m \<and> gx_role cx = Some (mb_role m) \<and>
      casbin_allows (uuid_text (au_lib s) user) (uuid_text (au_lib s) (og_id og)) ob ac w \<and>
      (if trim_space key_header \<noteq> [] then \<exists>k. key_holder s (trim_space key_header) w k \<and> ak_created_by k = user \<and>
         (ak_org k = uuid_nil \<or> ak_org k = og_id og) \<and> (ak_scopes k = [] \<or> api_key_scope_allows (ak_scopes k) ob ac) \<and>
         (ak_id k = uuid_nil \<or> ob \<noteq> ''apikey'' \<and> ob \<noteq> ''admin'')
       else \<exists>i sess. by_key sn_id i (sessions w) = Some sess \<and> sn_user sess = user \<and> sn_revoked_at sess = None) \<and>
      (\<exists>ks. same_store (w\<lparr>api_keys := ks\<rparr>) w')"
proof -
  have a: "admitted s key_header header ob ac w cx" and l: "looked_at w w'"
    using wp_okD [OF assms org_gate_spec] by auto
  from a obtain user og m where c: "caller_known s key_header header w cx" and g: "gx_user cx = Some user" "og \<in> set (live_orgs w)"
      "gx_org cx = Some (og_id og)" "member_of (og_id og) user (memberships w) = Some m" "gx_role cx = Some (mb_role m)"
      "casbin_allows (uuid_text (au_lib s) user) (uuid_text (au_lib s) (og_id og)) ob ac w"
    and k: "\<forall>k. gx_key_org cx = Some k \<and> k \<noteq> uuid_nil \<longrightarrow> k = og_id og"
      "gx_scopes cx = [] \<or> api_key_scope_allows (gx_scopes cx) ob ac"
      "\<forall>k. gx_key cx = Some k \<and> k \<noteq> uuid_nil \<longrightarrow> ob \<noteq> ''apikey'' \<and> ob \<noteq> ''admin''"
    unfolding admitted_def by blast
  have "live_account user w" using c g(1) by (auto simp: caller_known_def)
  moreover have "if trim_space key_header \<noteq> [] then \<exists>k. key_holder s (trim_space key_header) w k \<and> ak_created_by k = user \<and>
         (ak_org k = uuid_nil \<or> ak_org k = og_id og) \<and> (ak_scopes k = [] \<or> api_key_scope_allows (ak_scopes k) ob ac) \<and>
         (ak_id k = uuid_nil \<or> ob \<noteq> ''apikey'' \<and> ob \<noteq> ''admin'')
       else \<exists>i sess. by_key sn_id i (sessions w) = Some sess \<and> sn_user sess = user \<and> sn_revoked_at sess = None"
    using c g(1) k by (cases "trim_space key_header = []") (auto simp: caller_known_def)
  ultimately show ?thesis using g l unfolding looked_at_def by blast
qed

section \<open>Scopes\<close>

lemma split_scope_agrees: "split_api_key_scope t = split_scope t"
  unfolding split_api_key_scope_def split_scope_def
  by (cases t) (auto split: option.split dest: index_of_lt)

lemma index_of_colon: "c \<notin> set a \<Longrightarrow> index_of c (a @ c # b) = Some (length a)"
  by (induction a) auto

lemma index_of_split: "index_of c t = Some i \<Longrightarrow> t = take i t @ c # drop (Suc i) t"
  using index_of_lt [of c t i] by (auto simp: id_take_nth_drop)

lemma split_scope_Some: "split_scope t = Some (so, sa) \<longleftrightarrow> t = so @ CHR '':'' # sa \<and> CHR '':'' \<notin> set so \<and> so \<noteq> [] \<and> sa \<noteq> []"
proof
  assume *: "split_scope t = Some (so, sa)"
  then obtain i where i: "index_of CHR '':'' t = Some i" "so = take i t" "sa = drop (Suc i) t" "so \<noteq> []" "sa \<noteq> []"
    by (auto simp: split_scope_def split: option.splits if_splits)
  then show "t = so @ CHR '':'' # sa \<and> CHR '':'' \<notin> set so \<and> so \<noteq> [] \<and> sa \<noteq> []"
    using index_of_split [OF i(1)] index_of_lt [OF i(1)] by simp
next
  assume "t = so @ CHR '':'' # sa \<and> CHR '':'' \<notin> set so \<and> so \<noteq> [] \<and> sa \<noteq> []"
  then show "split_scope t = Some (so, sa)" by (auto simp: split_scope_def index_of_colon)
qed

lemma one_colon: "a @ c # b = a' @ c # b' \<Longrightarrow> c \<notin> set a \<Longrightarrow> c \<notin> set b \<Longrightarrow> a' = a \<and> b' = b"
  by (auto simp: append_eq_append_conv2 Cons_eq_append_conv append_eq_Cons_conv)

lemma known_scope_parts: "known_scope t \<Longrightarrow> \<exists>ob ac. split_scope t = Some (ob, ac) \<and> CHR '':'' \<notin> set ob \<and> CHR '':'' \<notin> set ac"
  by (auto simp: known_scope_def split_scope_agrees api_key_objects_def api_key_actions_def split: option.splits)

text \<open>C23. The organization service, which checks the scopes of a new key, and the middleware, which applies them, each have their
  own parser; they agree on every text. And the middleware reads a list of scopes the service accepted as it is written: it
  allows an action exactly when the list has the pair, or the pair with a star for the object, the action or both.\<close>

theorem scope_parsers_agree:
  "split_api_key_scope t = split_scope t \<and>
   (validate_api_key_scopes ts \<longrightarrow> (api_key_scope_allows ts ob ac \<longleftrightarrow>
      (\<exists>so \<in> {''*'', ob}. \<exists>sa \<in> {''*'', ac}. so @ '':'' @ sa \<in> set ts)))"
proof -
  have "api_key_scope_allows ts ob ac" if v: "validate_api_key_scopes ts" and so: "so \<in> {''*'', ob}" and sa: "sa \<in> {''*'', ac}"
    and t: "so @ '':'' @ sa \<in> set ts" for so sa
  proof -
    from v t have "known_scope (so @ '':'' @ sa)" by (simp add: validate_api_key_scopes_def list_all_iff)
    then obtain o' a' where s: "split_scope (so @ '':'' @ sa) = Some (o', a')" "CHR '':'' \<notin> set o'" "CHR '':'' \<notin> set a'"
      by (blast dest: known_scope_parts)
    then have "so = o' \<and> sa = a'" using one_colon [of o' "CHR '':''" a' so sa] by (simp add: split_scope_Some)
    with s so sa t show ?thesis by (auto simp: api_key_scope_allows_def list_ex_iff intro!: bexI [of _ "so @ '':'' @ sa"])
  qed
  moreover have "\<exists>so \<in> {''*'', ob}. \<exists>sa \<in> {''*'', ac}. so @ '':'' @ sa \<in> set ts" if "api_key_scope_allows ts ob ac"
  proof -
    from that obtain t so sa where "t \<in> set ts" "split_scope t = Some (so, sa)" "so \<in> {''*'', ob}" "sa \<in> {''*'', ac}"
      unfolding api_key_scope_allows_def list_ex_iff by (force split: option.splits)
    then show ?thesis by (intro bexI [of _ so] bexI [of _ sa]) (auto simp: split_scope_Some)
  qed
  ultimately show ?thesis using split_scope_agrees by blast
qed

theorem scope_parsers_agree_witness:
  "validate_api_key_scopes [''event:*'', ''kit'', ''org:read''] = False \<and>
   api_key_scope_allows [''event:*'', ''org:read''] ''event'' ''publish'' \<and> \<not> api_key_scope_allows [''event:*'', ''org:read''] ''org'' ''update''"
proof -
  have v: "validate_api_key_scopes [''event:*'', ''org:read'']"
    by (simp add: validate_api_key_scopes_def known_scope_def split_api_key_scope_def api_key_objects_def api_key_actions_def)
  have "validate_api_key_scopes [''event:*'', ''kit'', ''org:read''] = False"
    by (simp add: validate_api_key_scopes_def known_scope_def split_api_key_scope_def)
  then show ?thesis
    using v scope_parsers_agree [of "[]" "[''event:*'', ''org:read'']" "''event''" "''publish''"]
      scope_parsers_agree [of "[]" "[''event:*'', ''org:read'']" "''org''" "''update''"] by simp
qed

text \<open>An owner who calls with a key for events.\<close>

definition sample_key :: api_key where
  "sample_key = \<lparr>ak_id = 60, ak_org = 10, ak_created_by = 2, ak_name = ''door'', ak_prefix = ''rk_live_abcdefgh'',
     ak_hash = hash_token sample_lib ''rk_live_abcdefghi'', ak_scopes = [''event:*''], ak_expires_at = None, ak_last_used_at = None,
     ak_created_at = 0, ak_revoked_at = None\<rparr>"

definition gated :: order_state where
  "gated = sample_world\<lparr>memberships := [sample_member 40 2 OWNER], api_keys := [sample_key],
     p_rows := [[''OWNER'', sample_text 10, ''*'', ''*'']], g_rows := [[sample_text 2, ''OWNER'', sample_text 10]]\<rparr>"

theorem org_gate_admits_witness:
  "\<exists>cx w'. org_gate sample_auth ''rk_live_abcdefghi'' [] ''acme'' ''event'' ''publish'' gated = (Inr (Inr cx), w') \<and>
     casbin_allows (sample_text 2) (sample_text 10) ''event'' ''publish'' gated"
proof -
  define r where "r = org_gate sample_auth ''rk_live_abcdefghi'' [] ''acme'' ''event'' ''publish'' gated"
  have "\<exists>cx w'. r = (Inr (Inr cx), w') \<and> gx_user cx = Some 2 \<and> gx_org cx = Some 10"
    by (simp add: r_def org_gate_def then_gate_def require_auth_def validate_api_key_def is_api_key_shape_def
        api_key_prefix_def get_api_key_by_hash_def touch_api_key_def require_org_context_def from_context_def
        resolve_membership_def require_permission_def api_key_scope_allows_def split_scope_def casbin_allows_def row_matches_def
        hierarchy_levels_def role_link.simps empty_context_def gated_def sample_key_def sample_auth_def evals sample_world_def empty_world_def)
  then obtain cx w' where r: "r = (Inr (Inr cx), w')" and u: "gx_user cx = Some 2" "gx_org cx = Some 10" by blast
  have "casbin_allows (uuid_text (au_lib sample_auth) 2) (uuid_text (au_lib sample_auth) 10) ''event'' ''publish'' gated"
    using org_gate_admits [OF r [unfolded r_def]] u by auto
  then show ?thesis using r by (auto simp: r_def sample_auth_def)
qed

end
