(* ===== verification/PolicyFacts.thy ===== *)
theory PolicyFacts
  imports GateFacts
begin

text \<open>
  The policy rows behind the gate. Seeding an organization and synchronising a membership leave rows under which the
  enforcer decides as the permission matrix says, whatever fixed role the member had before, and beyond it grants exactly what the custom
  roles of the member grant; seeding twice adds nothing.
\<close>

section \<open>Seeding and synchronising\<close>

lemma remove_groupings_spec:
  "faults w = [] \<Longrightarrow> \<exists>bs. for_each remove_grouping rs w = (Inr bs, w\<lparr>g_rows := filter (\<lambda>x. x \<notin> set rs) (g_rows w)\<rparr>)"
proof (induction rs arbitrary: w)
  case Nil
  then show ?case by (simp add: ret_def)
next
  case (Cons r rs)
  have f: "filter (\<lambda>x. x \<noteq> r) gs = gs" if "r \<notin> set gs" for gs using that by (induction gs) auto
  define v where "v = w\<lparr>g_rows := filter (\<lambda>x. x \<noteq> r) (g_rows w)\<rparr>"
  have "faults v = []" using Cons.prems by (simp add: v_def)
  moreover have "remove_grouping r w = (Inr (r \<in> set (g_rows w)), v)"
    using Cons.prems f by (simp add: remove_grouping_def eval_store v_def)
  ultimately show ?case using Cons.IH [of v]
    by (auto simp: bnd_def ret_def v_def conj_commute)
qed

definition regrouped :: "string \<Rightarrow> string \<Rightarrow> string \<Rightarrow> string list list \<Rightarrow> string list list" where
  "regrouped u r dm gs = (let rest = filter (\<lambda>x. x \<notin> set (stale_rows u dm gs)) gs in
     if [u, r, dm] \<in> set rest then rest else rest @ [[u, r, dm]])"

lemma sync_membership_spec:
  assumes "faults w = []"
  shows "sync_membership l user org (Some r) w =
    (Inr (), w\<lparr>g_rows := regrouped (uuid_text l user) r (uuid_text l org) (g_rows w)\<rparr>)"
proof -
  from remove_groupings_spec [OF assms] obtain bs where
    "for_each remove_grouping (stale_rows (uuid_text l user) (uuid_text l org) (g_rows w)) w =
      (Inr bs, w\<lparr>g_rows := filter (\<lambda>x. x \<notin> set (stale_rows (uuid_text l user) (uuid_text l org) (g_rows w))) (g_rows w)\<rparr>)"
    by blast
  with assms show ?thesis
    by (simp add: sync_membership_def Let_def regrouped_def add_grouping_def eval_store)
qed

lemma seed_spec:
  assumes "faults w = []"
  shows "\<exists>new. seed_org_policies l org w = (Inr (), w\<lparr>p_rows := p_rows w @ new\<rparr>) \<and>
    set new = set (org_rules (uuid_text l org)) - set (p_rows w)"
  using ensure_rows_spec [OF assms, of "org_rules (uuid_text l org)"]
  by (auto simp: seed_org_policies_def bnd_def ret_def)

lemma seed_again:
  assumes "faults w = []" and "set (org_rules (uuid_text l org)) \<subseteq> set (p_rows w)"
  shows "seed_org_policies l org w = (Inr (), w)"
proof -
  from seed_spec [OF assms(1), of l org] obtain new where n: "seed_org_policies l org w = (Inr (), w\<lparr>p_rows := p_rows w @ new\<rparr>)"
      "set new = set (org_rules (uuid_text l org)) - set (p_rows w)" by blast
  have "set new = {}" unfolding n(2) using assms(2) by (rule Diff_eq_empty_iff [THEN iffD2])
  with n(1) show ?thesis by simp
qed

section \<open>What the enforcer decides\<close>

fun matrix :: "member_role \<Rightarrow> string \<Rightarrow> string \<Rightarrow> bool" where
  "matrix OWNER ob ac = True"
| "matrix ADMIN ob ac = ((ob, ac) \<in> set admin_permissions)"
| "matrix MEMBER ob ac = ((ob, ac) \<in> set member_permissions)"
| "matrix (OtherRole r) ob ac = False"

text \<open>The roles a user is grouped to in a domain are the roles linked to the user, where no role is grouped further.\<close>

lemma role_link_flat:
  assumes flat: "\<And>g h. g \<in> set gs \<Longrightarrow> h \<in> set gs \<Longrightarrow> length g = 3 \<Longrightarrow> length h = 3 \<Longrightarrow> g ! 0 = u \<Longrightarrow> g ! 2 = dm \<Longrightarrow> h ! 2 = dm \<Longrightarrow> h ! 0 \<noteq> g ! 1"
  shows "role_link (Suc (Suc n)) gs u t dm \<longleftrightarrow> t = u \<or> [u, t, dm] \<in> set gs"
proof -
  have leaf: "role_link (Suc n) gs (g ! 1) t dm \<longleftrightarrow> t = g ! 1" if "g \<in> set gs" "length g = 3" "g ! 0 = u" "g ! 2 = dm" for g
    using flat [OF that(1) _ that(2) _ that(3,4)] by (subst role_link.simps) (auto simp: list_ex_iff)
  have triple: "g = [u, g ! 1, dm]" if "length g = 3" "g ! 0 = u" "g ! 2 = dm" for g
    using that by (auto simp: length_Suc_conv numeral_3_eq_3)
  have "role_link (Suc (Suc n)) gs u t dm \<longleftrightarrow> t = u \<or> (\<exists>g \<in> set gs. length g = 3 \<and> g ! 0 = u \<and> g ! 2 = dm \<and> t = g ! 1)"
  proof -
    have "list_ex (\<lambda>g. length g = 3 \<and> g ! 0 = u \<and> g ! 2 = dm \<and> role_link (Suc n) gs (g ! 1) t dm) gs \<longleftrightarrow>
        (\<exists>g \<in> set gs. length g = 3 \<and> g ! 0 = u \<and> g ! 2 = dm \<and> t = g ! 1)"
      unfolding list_ex_iff using leaf by blast
    then show ?thesis by (subst role_link.simps) (simp only: nat.case, blast)
  qed
  also have "\<dots> \<longleftrightarrow> t = u \<or> [u, t, dm] \<in> set gs"
    using triple by (auto intro!: bexI [of _ "[u, t, dm]"])
  finally show ?thesis .
qed

text \<open>
  What the custom roles of a user grant: a row of the policy for one of them (or for the user), of the organization or of every one.
\<close>

definition grants :: "string \<Rightarrow> string \<Rightarrow> string \<Rightarrow> string list \<Rightarrow> bool" where
  "grants dm ob ac p \<longleftrightarrow> length p = 4 \<and> (dm = p ! 1 \<or> p ! 1 = ''*'') \<and> (ob = p ! 2 \<or> p ! 2 = ''*'') \<and> (ac = p ! 3 \<or> p ! 3 = ''*'')"

definition custom_grant :: "string \<Rightarrow> string \<Rightarrow> string \<Rightarrow> string \<Rightarrow> 'z iam_state_scheme \<Rightarrow> bool" where
  "custom_grant u dm ob ac w \<longleftrightarrow> list_ex (\<lambda>p. grants dm ob ac p \<and> \<not> is_fixed_role (p ! 0) \<and>
     (p ! 0 = u \<or> [u, p ! 0, dm] \<in> set (g_rows w))) (p_rows w)"

lemma org_rules_bex: "(\<exists>p \<in> set (org_rules dm). Q p) \<longleftrightarrow> Q [''OWNER'', dm, ''*'', ''*''] \<or>
    (\<exists>(ob, ac) \<in> set admin_permissions. Q [''ADMIN'', dm, ob, ac]) \<or> (\<exists>(ob, ac) \<in> set member_permissions. Q [''MEMBER'', dm, ob, ac])"
  by (auto simp: org_rules_def bex_Un split: prod.splits)

lemma plain_rows:
  assumes "\<And>o' a'. (o', a') \<in> set ps \<Longrightarrow> o' \<noteq> ''*'' \<and> a' \<noteq> ''*''"
  shows "(\<exists>(o', a') \<in> set ps. (ob = o' \<or> o' = ''*'') \<and> (ac = a' \<or> a' = ''*'')) \<longleftrightarrow> (ob, ac) \<in> set ps"
  using assms by blast

lemma plain_permissions:
  "(\<exists>(o', a') \<in> set admin_permissions. (ob = o' \<or> o' = ''*'') \<and> (ac = a' \<or> a' = ''*'')) \<longleftrightarrow> (ob, ac) \<in> set admin_permissions"
  "(\<exists>(o', a') \<in> set member_permissions. (ob = o' \<or> o' = ''*'') \<and> (ac = a' \<or> a' = ''*'')) \<longleftrightarrow> (ob, ac) \<in> set member_permissions"
  by (rule plain_rows, simp add: admin_permissions_def, elim disjE; simp)
    (rule plain_rows, simp add: member_permissions_def, elim disjE; simp)

lemma decides:
  assumes p: "\<forall>p \<in> set (p_rows w). length p = 4 \<and> (p ! 1 = dm \<or> p ! 1 = ''*'') \<and> is_fixed_role (p ! 0) \<longrightarrow> p \<in> set (org_rules dm)"
    and seeded: "set (org_rules dm) \<subseteq> set (p_rows w)" and r: "r \<in> {OWNER, ADMIN, MEMBER}" and u: "\<not> is_fixed_role u"
    and link: "\<And>t. role_link hierarchy_levels (g_rows w) u t dm \<longleftrightarrow> t = u \<or> [u, t, dm] \<in> set (g_rows w)"
    and one: "\<And>t. is_fixed_role t \<Longrightarrow> [u, t, dm] \<in> set (g_rows w) \<longleftrightarrow> t = role_text r"
  shows "casbin_allows u dm ob ac w \<longleftrightarrow> [u, super_admin_role] \<in> set (g2_rows w) \<or> matrix r ob ac \<or> custom_grant u dm ob ac w"
proof -
  let ?held = "\<lambda>p. p ! 0 = u \<or> [u, p ! 0, dm] \<in> set (g_rows w)"
  let ?m = "\<lambda>p. length p = 4 \<and> p ! 0 = role_text r \<and> (ob = p ! 2 \<or> p ! 2 = ''*'') \<and> (ac = p ! 3 \<or> p ! 3 = ''*'')"
  have fixed: "is_fixed_role (p ! 0)" "p ! 1 = dm" "length p = 4" if "p \<in> set (org_rules dm)" for p
    using that by (auto simp: org_rules_def is_fixed_role_def)
  have held: "?held p \<longleftrightarrow> p ! 0 = role_text r" if "is_fixed_role (p ! 0)" for p
    using one [OF that] u that by metis
  have row: "row_matches (g_rows w) u dm ob ac p \<longleftrightarrow> grants dm ob ac p \<and> ?held p" for p
    by (auto simp: row_matches_def grants_def link)
  have "(\<exists>p \<in> set (p_rows w). grants dm ob ac p \<and> ?held p) \<longleftrightarrow>
      (\<exists>p \<in> set (p_rows w). grants dm ob ac p \<and> is_fixed_role (p ! 0) \<and> ?held p) \<or> custom_grant u dm ob ac w"
    by (auto simp: custom_grant_def list_ex_iff)
  also have "(\<exists>p \<in> set (p_rows w). grants dm ob ac p \<and> is_fixed_role (p ! 0) \<and> ?held p) \<longleftrightarrow> (\<exists>p \<in> set (org_rules dm). ?m p)"
  proof
    assume "\<exists>p \<in> set (p_rows w). grants dm ob ac p \<and> is_fixed_role (p ! 0) \<and> ?held p"
    then obtain x where x: "x \<in> set (p_rows w)" "grants dm ob ac x" "is_fixed_role (x ! 0)" "?held x" by blast
    then have "x \<in> set (org_rules dm)" using p by (auto simp: grants_def)
    with x held [OF x(3)] show "\<exists>p \<in> set (org_rules dm). ?m p" unfolding grants_def by blast
  next
    assume "\<exists>p \<in> set (org_rules dm). ?m p"
    then obtain x where x: "x \<in> set (org_rules dm)" "?m x" by blast
    with held [OF fixed(1) [OF x(1)]] fixed [OF x(1)] seeded
    show "\<exists>p \<in> set (p_rows w). grants dm ob ac p \<and> is_fixed_role (p ! 0) \<and> ?held p"
      unfolding grants_def by (intro bexI [of _ x]) auto
  qed
  also have "(\<exists>p \<in> set (org_rules dm). ?m p) \<longleftrightarrow> matrix r ob ac"
    using r plain_permissions [of ob ac] by (elim insertE emptyE) (simp_all add: org_rules_bex)
  finally show ?thesis by (simp add: casbin_allows_def list_ex_iff row)
qed

lemma regrouped_rows: "g \<in> set (regrouped u r dm gs) \<longleftrightarrow>
    g = [u, r, dm] \<or> g \<in> set gs \<and> \<not> (length g = 3 \<and> g ! 0 = u \<and> g ! 2 = dm \<and> is_fixed_role (g ! 1))"
  by (auto simp: regrouped_def stale_rows_def Let_def)

lemma regrouped_flat:
  assumes "\<not> is_fixed_role u" and "is_fixed_role r"
    and gs: "\<forall>h \<in> set gs. length h = 3 \<and> h ! 2 = dm \<longrightarrow> \<not> is_fixed_role (h ! 0) \<and> [u, h ! 0, dm] \<notin> set gs"
    and g: "g \<in> set (regrouped u r dm gs)" "length g = 3" "g ! 0 = u" "g ! 2 = dm"
    and h: "h \<in> set (regrouped u r dm gs)" "length h = 3" "h ! 2 = dm"
  shows "h ! 0 \<noteq> g ! 1"
proof
  assume e: "h ! 0 = g ! 1"
  have "g = [u, g ! 1, dm]" using g(2-4) by (auto simp: length_Suc_conv numeral_3_eq_3)
  then have g': "g = [u, h ! 0, dm]" by (simp add: e)
  from h(1) consider "h = [u, r, dm]" | "h \<in> set gs" unfolding regrouped_rows by blast
  then show False
  proof cases
    case 1
    then have "g ! 1 = u" using e by simp
    with g' e have "g = [u, u, dm]" by simp
    moreover from g(1) have "g = [u, r, dm] \<or> g \<in> set gs" unfolding regrouped_rows by blast
    ultimately show False using assms(1,2) gs by auto
  next
    case 2
    with gs h have n: "\<not> is_fixed_role (h ! 0)" "[u, h ! 0, dm] \<notin> set gs" by blast+
    from g(1) have "g = [u, r, dm] \<or> g \<in> set gs" unfolding regrouped_rows by blast
    with g' n assms(2) show False by auto
  qed
qed

lemma fixed_rules: "p \<in> set (org_rules dm) \<Longrightarrow> is_fixed_role (p ! 0)"
  by (auto simp: org_rules_def is_fixed_role_def)

text \<open>C24. The permission matrix. Seed the policies of an organization and synchronise a user's membership in one of the three
  fixed roles: then the enforcer allows exactly what the matrix has for that role, what the custom roles of the user in the organization
  grant, and everything to a platform administrator; every stale grouping of an earlier fixed role is gone, and seeding again changes
  nothing. The organization may have been seeded before and may have any custom roles, and the user may have had any fixed role and may hold
  any number of custom ones. The database is up; of the rows before, the theorem assumes that those of a fixed role in this organization are rows
  of the seed, that neither a fixed role nor a role of the user is itself grouped to another there, and that the user's identifier
  is not the name of a fixed role.\<close>

theorem fixed_role_permissions:
  assumes "faults w = []" and r: "r \<in> {OWNER, ADMIN, MEMBER}"
    and seed: "seed_org_policies l org w = (a, w1)" and sync: "sync_membership l user org (Some (role_text r)) w1 = (b, w2)"
    and u: "u = uuid_text l user" "\<not> is_fixed_role u" and dm: "dm = uuid_text l org"
    and ps: "\<forall>p \<in> set (p_rows w). length p = 4 \<and> (p ! 1 = dm \<or> p ! 1 = ''*'') \<and> is_fixed_role (p ! 0) \<longrightarrow> p \<in> set (org_rules dm)"
    and gs: "\<forall>h \<in> set (g_rows w). length h = 3 \<and> h ! 2 = dm \<longrightarrow> \<not> is_fixed_role (h ! 0) \<and> [u, h ! 0, dm] \<notin> set (g_rows w)"
  shows "a = Inr () \<and> b = Inr () \<and>
    (casbin_allows u dm ob ac w2 \<longleftrightarrow> [u, super_admin_role] \<in> set (g2_rows w) \<or> matrix r ob ac \<or> custom_grant u dm ob ac w) \<and>
    (\<forall>t. is_fixed_role t \<longrightarrow> ([u, t, dm] \<in> set (g_rows w2) \<longleftrightarrow> t = role_text r)) \<and>
    seed_org_policies l org w2 = (Inr (), w2)"
proof -
  from seed_spec [OF assms(1), of l org] seed obtain new where a: "a = Inr ()" and w1: "w1 = w\<lparr>p_rows := p_rows w @ new\<rparr>"
    and new: "set new = set (org_rules dm) - set (p_rows w)" by (auto simp: dm)
  have "faults w1 = []" using assms(1) by (simp add: w1)
  from sync_membership_spec [OF this, of l user org "role_text r"] sync
  have b: "b = Inr ()" and w2: "w2 = w1\<lparr>g_rows := regrouped u (role_text r) dm (g_rows w)\<rparr>"
    by (simp_all add: w1 u(1) dm)
  have fixed: "is_fixed_role (role_text r)" using r by (auto simp: is_fixed_role_def)
  have g2: "g \<in> set (g_rows w2) \<longleftrightarrow> g = [u, role_text r, dm] \<or> g \<in> set (g_rows w) \<and> \<not> (length g = 3 \<and> g ! 0 = u \<and> g ! 2 = dm \<and> is_fixed_role (g ! 1))" for g
    by (simp add: w2 regrouped_rows)
  have seeded: "set (org_rules dm) \<subseteq> set (p_rows w2)" using new by (auto simp: w2 w1)
  have p2: "\<forall>p \<in> set (p_rows w2). length p = 4 \<and> (p ! 1 = dm \<or> p ! 1 = ''*'') \<and> is_fixed_role (p ! 0) \<longrightarrow> p \<in> set (org_rules dm)"
    using ps new by (auto simp: w2 w1)
  have one: "[u, t, dm] \<in> set (g_rows w2) \<longleftrightarrow> t = role_text r" if "is_fixed_role t" for t
    using that by (auto simp: g2)
  have link: "role_link hierarchy_levels (g_rows w2) u t dm \<longleftrightarrow> t = u \<or> [u, t, dm] \<in> set (g_rows w2)" for t
  proof -
    have "hierarchy_levels = Suc (Suc 8)" by (simp add: hierarchy_levels_def)
    moreover have "g_rows w2 = regrouped u (role_text r) dm (g_rows w)" by (simp add: w2)
    moreover have "role_link (Suc (Suc 8)) (regrouped u (role_text r) dm (g_rows w)) u t dm \<longleftrightarrow>
        t = u \<or> [u, t, dm] \<in> set (regrouped u (role_text r) dm (g_rows w))"
      by (rule role_link_flat) (rule regrouped_flat [OF u(2) fixed gs])
    ultimately show ?thesis by simp
  qed
  have "[u, t, dm] \<in> set (g_rows w2) \<longleftrightarrow> [u, t, dm] \<in> set (g_rows w)" if "\<not> is_fixed_role t" for t
    using that fixed by (auto simp: g2)
  moreover have "p \<in> set (p_rows w2) \<longleftrightarrow> p \<in> set (p_rows w)" if "\<not> is_fixed_role (p ! 0)" for p
    using that new fixed_rules [of p dm] by (auto simp: w2 w1)
  ultimately have "custom_grant u dm ob ac w2 \<longleftrightarrow> custom_grant u dm ob ac w"
    unfolding custom_grant_def list_ex_iff by blast
  with decides [OF p2 seeded r u(2) link one, of ob ac] have
    "casbin_allows u dm ob ac w2 \<longleftrightarrow> [u, super_admin_role] \<in> set (g2_rows w) \<or> matrix r ob ac \<or> custom_grant u dm ob ac w"
    by (simp add: w2 w1)
  moreover have "seed_org_policies l org w2 = (Inr (), w2)"
    using assms(1) seeded by (intro seed_again) (simp_all add: w2 w1 dm)
  ultimately show ?thesis using a b one by blast
qed

text \<open>A member who was an owner and reads the audit log by a custom role is made an administrator; the third role is somebody else's.\<close>

definition demoted :: order_state where
  "demoted = sample_world\<lparr>p_rows := [[''OWNER'', sample_text 10, ''*'', ''*''], [''auditor'', sample_text 10, ''audit'', ''export''],
       [''refunder'', sample_text 10, ''order'', ''refund'']],
     g_rows := [[sample_text 2, ''OWNER'', sample_text 10], [sample_text 2, ''auditor'', sample_text 10], [sample_text 3, ''refunder'', sample_text 10]]\<rparr>"

theorem fixed_role_permissions_witness:
  "\<exists>w1 w2. seed_org_policies sample_lib 10 demoted = (Inr (), w1) \<and> sync_membership sample_lib 2 10 (Some ''ADMIN'') w1 = (Inr (), w2) \<and>
     casbin_allows (sample_text 2) (sample_text 10) ''event'' ''publish'' w2 \<and> casbin_allows (sample_text 2) (sample_text 10) ''audit'' ''export'' w2 \<and>
     \<not> casbin_allows (sample_text 2) (sample_text 10) ''org'' ''delete'' w2 \<and> \<not> casbin_allows (sample_text 2) (sample_text 10) ''order'' ''refund'' w2"
proof -
  obtain a w1 where s: "seed_org_policies sample_lib 10 demoted = (a, w1)" by (cases "seed_org_policies sample_lib 10 demoted")
  obtain b w2 where m: "sync_membership sample_lib 2 10 (Some (role_text ADMIN)) w1 = (b, w2)" by (cases "sync_membership sample_lib 2 10 (Some (role_text ADMIN)) w1")
  note t = fixed_role_permissions [OF _ _ s m refl _ refl]
  have plain: "faults demoted = []" "g2_rows demoted = []" "\<not> is_fixed_role (sample_text i)" for i
    by (simp_all add: demoted_def sample_world_def empty_world_def is_fixed_role_def sample_text_def)
  have p: "\<forall>p \<in> set (p_rows demoted). length p = 4 \<and> (p ! 1 = uuid_text sample_lib 10 \<or> p ! 1 = ''*'') \<and> is_fixed_role (p ! 0) \<longrightarrow>
      p \<in> set (org_rules (uuid_text sample_lib 10))"
    by (simp add: demoted_def org_rules_def is_fixed_role_def)
  have g: "\<forall>h \<in> set (g_rows demoted). length h = 3 \<and> h ! 2 = uuid_text sample_lib 10 \<longrightarrow>
      \<not> is_fixed_role (h ! 0) \<and> [uuid_text sample_lib 2, h ! 0, uuid_text sample_lib 10] \<notin> set (g_rows demoted)"
    by (simp add: demoted_def is_fixed_role_def sample_text_def)
  have "a = Inr () \<and> b = Inr () \<and> (casbin_allows (sample_text 2) (sample_text 10) ob ac w2 \<longleftrightarrow>
      matrix ADMIN ob ac \<or> custom_grant (sample_text 2) (sample_text 10) ob ac demoted)" for ob ac
    using t [of ob ac, OF plain(1) _ _ p g] plain by simp
  moreover have "custom_grant (sample_text 2) (sample_text 10) ob ac demoted \<longleftrightarrow> ob = ''audit'' \<and> ac = ''export''" for ob ac
    by (auto simp: custom_grant_def grants_def demoted_def is_fixed_role_def sample_text_def)
  ultimately show ?thesis using s m by (auto simp: admin_permissions_def)
qed

end
