(* ===== verification/Sweeping.thy ===== *)
theory Sweeping
  imports PolicyFacts
begin

text \<open>
  The expiry sweeper. The unique indexes of the orders table, which its writes check, hold in every reachable state; with them a sweep that no database
  failure disturbs releases exactly the overdue holds of its batch, and repeating it clears the backlog. A hold whose event
  or ticket type has been deleted cannot be released, and holds of that kind can fill every batch.
\<close>

section \<open>The unique indexes of orders\<close>

definition conflict_free :: "'z order_state_scheme \<Rightarrow> bool" where
  "conflict_free w \<longleftrightarrow> keyed or_id (orders w) \<and>
     (\<forall>x \<in> set (orders w). \<forall>y \<in> set (orders w). or_id x \<noteq> or_id y \<longrightarrow> \<not> order_conflict x y) \<and>
     (\<forall>x \<in> set (orders w). order_row_ok x)"

lemma conflict_sym: "order_conflict x y \<longleftrightarrow> order_conflict y x"
  by (auto simp: order_conflict_def)

lemma conflict_free_tables: "on_tables conflict_free"
  by (rule on_tablesI) (simp add: conflict_free_def)

lemma conflict_free_quiet: "quiet conflict_free"
  by (simp add: quiet_def conflict_free_tables) (simp add: conflict_free_def)

lemma conflict_free_create: "keeps conflict_free (repo_create_order l x)"
  unfolding repo_create_order_def Let_def
proof (intro keeps_intros conflict_free_tables)
  fix i now and w :: "'a order_state_scheme"
  assume w: "conflict_free w" and c: "(if has_key or_id i (orders w) \<or> list_ex (order_conflict x) (orders w) then Some UniqueViolation
      else if \<not> order_row_ok x then Some DbError else None) = None"
  let ?y = "x\<lparr>or_id := i, or_created_at := now, or_updated_at := now\<rparr>"
  have "\<not> order_conflict ?y z \<and> \<not> order_conflict z ?y" if "z \<in> set (orders w)" for z
  proof -
    have "\<not> order_conflict x z" using c that by (auto simp: list_ex_iff split: if_splits)
    then have "\<not> order_conflict ?y z" by (simp add: order_conflict_def)
    then show ?thesis using conflict_sym by blast
  qed
  moreover have "order_row_ok ?y" using c by (auto simp: order_row_ok_def split: if_splits)
  ultimately show "conflict_free (w\<lparr>orders := orders w @ [?y]\<rparr>)"
    using w c by (auto simp: conflict_free_def split: if_splits)
qed

lemma conflict_free_update: "keeps conflict_free (repo_update_order x)"
  unfolding repo_update_order_def
proof (intro keeps_intros conflict_free_tables)
  fix now and w :: "'a order_state_scheme"
  assume w: "conflict_free w" and c: "(if list_ex (\<lambda>y. or_id y \<noteq> or_id x \<and> order_conflict x y) (orders w) then Some UniqueViolation
      else if \<not> order_row_ok x then Some DbError else None) = None"
  let ?y = "x\<lparr>or_updated_at := now\<rparr>"
  have y: "\<not> order_conflict ?y z \<and> \<not> order_conflict z ?y" if "z \<in> set (orders w)" "or_id z \<noteq> or_id x" for z
  proof -
    have "\<not> order_conflict x z" using c that by (auto simp: list_ex_iff split: if_splits)
    then have "\<not> order_conflict ?y z" by (simp add: order_conflict_def)
    then show ?thesis using conflict_sym by blast
  qed
  have ok: "order_row_ok ?y" using c by (auto simp: order_row_ok_def split: if_splits)
  have new: "z = ?y \<or> z \<in> set (orders w) \<and> or_id z \<noteq> or_id x" if "z \<in> set (upsert or_id ?y (orders w))" for z
    using that by (auto simp: upsert_def set_modify has_key_iff image_iff split: if_splits)
  let ?os = "orders (w\<lparr>orders := upsert or_id ?y (orders w)\<rparr>)"
  show "conflict_free (w\<lparr>orders := upsert or_id ?y (orders w)\<rparr>)"
    unfolding conflict_free_def
  proof (intro conjI ballI impI)
    show "keyed or_id ?os" using w by (simp add: conflict_free_def)
    show "order_row_ok a" if "a \<in> set ?os" for a
      using new [of a] that ok w by (auto simp: conflict_free_def)
    show "\<not> order_conflict a b" if "a \<in> set ?os" "b \<in> set ?os" "or_id a \<noteq> or_id b" for a b
    proof (cases "a = ?y \<or> b = ?y")
      case True
      then show ?thesis using y new [of a] new [of b] that by auto
    next
      case False
      with new [of a] new [of b] that w show ?thesis by (simp add: conflict_free_def)
    qed
  qed
qed

lemma conflict_free_types:
  "keeps conflict_free (add_sold i n)" "keeps conflict_free (repo_create_type l t)" "keeps conflict_free (repo_update_type t)"
  "keeps conflict_free (repo_delete_type i)"
  unfolding add_sold_def repo_create_type_def repo_update_type_def repo_delete_type_def Let_def
  by (intro keeps_intros conflict_free_tables; simp add: conflict_free_def)+

interpretation schema: request_invariant conflict_free y for y
proof unfold_locales
  fix user ref0
  have "keeps conflict_free (delete_org_assets (sy_events y) org)" for org
    by (intro keeps_event_calls conflict_free_quiet) (simp_all add: conflict_free_def)
  then show "keeps conflict_free (delete_org (sy_orgs y) (Some (delete_org_assets (sy_events y))) user ref0)"
    by (intro keeps_org_calls conflict_free_quiet) (auto simp: conflict_free_def)
next
  fix w w' assume "backstage (sy_auth y) (sy_orgs y) (sy_admin y) (sy_survives y) w w'" "conflict_free w"
  then show "conflict_free w'"
    by (rule backstage_keeps)
      (rule conflict_free_quiet, simp add: apart_def conflict_free_def, simp add: secretless_def conflict_free_def,
        intro keeps_new_member conflict_free_tables, simp add: conflict_free_def)
qed ((intro keeps_shop_rows keeps_event_calls keeps_attendee_calls keeps_kit_calls keeps_checkin_calls keeps_org_calls
    keeps_billing_calls quiet_public_event conflict_free_quiet conflict_free_tables conflict_free_create conflict_free_update
    conflict_free_types; simp add: conflict_free_def)+, simp_all add: conflict_free_def)

section \<open>One hold\<close>

text \<open>New identifiers do not collide with those of the trail.\<close>

definition fresh_ids :: "lib \<Rightarrow> 'z core_state_scheme \<Rightarrow> bool" where
  "fresh_ids l w \<longleftrightarrow> inj (uuid_new l) \<and> (\<forall>n \<ge> drawn_uuids w. uuid_new l n \<notin> av_id ` set (audit_events w))"

definition releasable :: "'z order_state_scheme \<Rightarrow> order \<Rightarrow> bool" where
  "releasable w x \<longleftrightarrow> by_key ev_id (or_event x) (live_events w) \<noteq> None \<and> by_key tt_id (or_type x) (live_types w) \<noteq> None"

lemma emit_runs:
  assumes "faults w = []" and "fresh_ids l w"
  shows "wp (emit l wired e) (\<lambda>_ w'. faults w' = [] \<and> fresh_ids l w' \<and> (\<exists>n as. w' = w\<lparr>drawn_uuids := n, audit_events := as\<rparr>)) (\<lambda>_ _. False) w"
proof (cases wired)
  case True
  have i: "uuid_new l (drawn_uuids w) \<notin> av_id ` set (audit_events w)" and inj: "inj (uuid_new l)"
    using assms(2) by (auto simp: fresh_ids_def)
  have "uuid_new l n \<noteq> uuid_new l (drawn_uuids w)" if "Suc (drawn_uuids w) \<le> n" for n
    using injD [OF inj, of n "drawn_uuids w"] that by auto
  with True i assms show ?thesis
    by (auto simp: emit_def emit_tx_def insert_event_tx_def wp_simps uuid_nil_def has_key_iff fresh_ids_def)
next
  case False
  with assms show ?thesis by (auto simp: emit_def wp_ret intro!: exI [of _ "drawn_uuids w"] exI [of _ "audit_events w"])
qed

lemma expire_one_runs:
  assumes f: "faults w = []" "fresh_ids (rs_lib s) w" and b: "books xs0 (\<lambda>_. 0) w" and c: "conflict_free w"
    and x: "by_key or_id (or_id x) (orders w) = Some x" "releasable w x" "holding (or_status x)"
  shows "wp (expire_one s x) (\<lambda>_ w'. faults w' = [] \<and> fresh_ids (rs_lib s) w' \<and> events w' = events w \<and> clock w' = clock w) (\<lambda>_ _. False) w"
proof -
  obtain e t where e: "by_key ev_id (or_event x) (live_events w) = Some e" and t: "by_key tt_id (or_type x) (live_types w) = Some t"
    using x(2) by (auto simp: releasable_def)
  have t': "t \<in> set (ticket_types w)" "tt_id t = or_type x" using t by (auto simp: live_types_def dest!: by_key_Some)
  have xin: "x \<in> set (orders w)" using x(1) by (auto dest: by_key_Some)
  have q: "0 < or_quantity x" "fits32 (or_quantity x)" using c xin by (auto simp: conflict_free_def order_row_ok_def)
  have st: "stocked (ticket_types w)" and sold: "tt_sold t = held (tt_id t) (orders w)"
    using b t'(1) by (auto simp: books_def balanced_def)
  have le: "or_quantity x \<le> tt_sold t"
    unfolding sold t'(2) using c xin x(3) by (intro held_member) (auto simp: conflict_free_def)
  have tk: "0 \<le> tt_sold t" "tt_sold t \<le> tt_total t" "fits32 (tt_total t)" "keyed tt_id (ticket_types w)"
    using st t'(1) by (auto simp: stocked_def)
  have only: "u = t" if "u \<in> set (ticket_types w)" "tt_id u = or_type x" for u
    using keyed_inj [OF tk(4)] that t' by simp
  have w1: "wrap64 (tt_sold t - or_quantity x) = tt_sold t - or_quantity x" "wrap64 (- or_quantity x) = - or_quantity x"
    using q le tk by (simp_all add: wrap64_small fits32_bounds)
  have add: "\<not> list_ex (\<lambda>u. tt_id u = or_type x \<and> tt_live u \<and> \<not> (0 \<le> tt_sold u - or_quantity x \<and> fits32 (tt_sold u - or_quantity x))) (ticket_types w)"
    using le q tk only by (fastforce simp: list_ex_iff fits32_bounds)
  have conf: "\<not> list_ex (\<lambda>y. or_id y \<noteq> or_id x \<and> order_conflict (x\<lparr>or_status := Expired\<rparr>) y) (orders w)"
    using c xin by (auto simp: list_ex_iff conflict_free_def order_conflict_def)
  have row: "order_row_ok (x\<lparr>or_status := Expired\<rparr>)" using c xin by (auto simp: conflict_free_def order_row_ok_def)
  have fq: "fits32 (- or_quantity x)" using q by (simp add: fits32_bounds)
  show ?thesis
    using f e t q le w1 add conf row fq
    by (simp add: expire_one_def org_of_def get_event_by_id_def close_order_tx_def release_tx_def lock_type_def add_sold_def
        repo_update_order_def rs_emit_def live_types_def live_events_def wp_simps Let_def)
       (rule wp_mono [OF emit_runs], auto simp: fresh_ids_def)
qed

section \<open>The abstract box office\<close>

text \<open>What of the store a hold is about: the claims with their type, units and status, and the units sold of each type.\<close>

type_synonym box_office = "(uuid \<times> uuid \<times> int \<times> order_status) list \<times> (uuid \<times> int) list"

definition box_office :: "'z order_state_scheme \<Rightarrow> box_office" where
  "box_office w = (map (\<lambda>x. (or_id x, or_type x, or_quantity x, or_status x)) (orders w),
     map (\<lambda>t. (tt_id t, tt_sold t)) (ticket_types w))"

fun units_of :: "uuid \<Rightarrow> uuid \<Rightarrow> (uuid \<times> uuid \<times> int \<times> order_status) list \<Rightarrow> int" where
  "units_of i t [] = 0"
| "units_of i t ((j, t', q, st) # cs) = (if j = i \<and> t' = t then q else 0) + units_of i t cs"

definition lapse :: "uuid \<Rightarrow> box_office \<Rightarrow> box_office" where
  "lapse i = (\<lambda>(claims, sold). (map (\<lambda>(j, t, q, st). (j, t, q, if j = i then Expired else st)) claims,
     map (\<lambda>(t, n). (t, n - units_of i t claims)) sold))"

lemma claim_units:
  assumes "keyed or_id xs" and "x \<in> set xs"
  shows "units_of (or_id x) t (map (\<lambda>x. (or_id x, or_type x, or_quantity x, or_status x)) xs) =
    (if or_type x = t then or_quantity x else 0)"
  using assms
proof (induction xs)
  case (Cons y ys)
  have none: "units_of i u (map (\<lambda>x. (or_id x, or_type x, or_quantity x, or_status x)) zs) = 0" if "i \<notin> or_id ` set zs" for zs i u
    using that by (induction zs) auto
  from Cons show ?case by (auto simp: keyed_def none)
qed simp

lemma closed_row_lapse:
  assumes "closed_row w x Expired w'" and x: "by_key or_id (or_id x) (orders w) = Some x"
    and k: "keyed or_id (orders w)" "keyed tt_id (ticket_types w)" and q: "fits32 (or_quantity x)"
  shows "box_office w' = lapse (or_id x) (box_office w)"
proof -
  from assms(1) obtain now t n' where o: "orders w' = upsert or_id (x\<lparr>or_status := Expired, or_updated_at := now\<rparr>) (orders w)"
    and t: "by_key tt_id (or_type x) (live_types w) = Some t"
    and tt: "ticket_types w' = modify (\<lambda>t. tt_id t = or_type x \<and> tt_live t)
          (\<lambda>t. t\<lparr>tt_sold := tt_sold t + wrap64 (- or_quantity x), tt_updated_at := n'\<rparr>) (ticket_types w)"
    by (auto simp: closed_row_def)
  have xin: "x \<in> set (orders w)" using x by (auto dest: by_key_Some)
  have only: "y = x" if "y \<in> set (orders w)" "or_id y = or_id x" for y using keyed_inj [OF k(1) that(1) xin that(2)] .
  have t': "t \<in> set (ticket_types w)" "tt_id t = or_type x" "tt_live t"
    using t by (auto simp: live_types_def dest!: by_key_Some)
  have tonly: "u = t" if "u \<in> set (ticket_types w)" "tt_id u = or_type x" for u
    using keyed_inj [OF k(2) that(1) t'(1)] that(2) t'(2) by simp
  have "wrap64 (- or_quantity x) = - or_quantity x" using q by (simp add: wrap64_small fits32_bounds)
  then have sold: "map (\<lambda>t. (tt_id t, tt_sold t)) (ticket_types w') =
      map (\<lambda>t. (tt_id t, tt_sold t - (if or_type x = tt_id t then or_quantity x else 0))) (ticket_types w)"
    using tonly t'(3) by (auto simp: tt modify_def)
  have "map (\<lambda>x. (or_id x, or_type x, or_quantity x, or_status x)) (orders w') =
      map (\<lambda>y. (or_id y, or_type y, or_quantity y, if or_id y = or_id x then Expired else or_status y)) (orders w)"
    using only x unfolding o by (subst upsert_present [of _ _ _ x]) (auto simp: modify_def)
  with sold show ?thesis
    using claim_units [OF k(1) xin] by (simp add: box_office_def lapse_def comp_def)
qed

section \<open>A sweep\<close>

definition ready :: "order_service \<Rightarrow> 'z order_state_scheme \<Rightarrow> bool" where
  "ready s w \<longleftrightarrow> faults w = [] \<and> fresh_ids (rs_lib s) w \<and> books [] (\<lambda>_. 0) w \<and> conflict_free w"

definition due :: "'z order_state_scheme \<Rightarrow> order list" where
  "due w = filter (hold_expired (clock w)) (orders w)"

lemma expire_one_closes: "wp (expire_one s x) (\<lambda>_ w'. closed_row w x Expired w') (\<lambda>_ _. True) w"
proof -
  have o: "keeps (same_store w) (org_of (or_event x))"
    by (intro keeps_intros)
  show ?thesis
    unfolding expire_one_def wp_bnd [of "org_of _"] wp_bnd [of "close_order_tx _ _ _ _ _ _ _"] wp_ret
    by (rule wp_mono [OF keeps_wpI [OF o]]) (auto intro!: wp_mono [OF close_order_tx_spec] simp: closed_row_same)
qed

lemma expire_one_conflict_free: "keeps conflict_free (expire_one s x)"
proof -
  note [keeps_intros] = conflict_free_tables conflict_free_quiet conflict_free_update conflict_free_types
  show ?thesis
    unfolding expire_one_def close_order_tx_def release_tx_def Let_def by (intro keeps_intros)
qed

lemma live_types_closed: "closed_row w x st w' \<Longrightarrow> by_key tt_id i (live_types w) \<noteq> None \<Longrightarrow> by_key tt_id i (live_types w') \<noteq> None"
proof -
  assume "closed_row w x st w'" and "by_key tt_id i (live_types w) \<noteq> None"
  then obtain t f p where t: "t \<in> set (ticket_types w)" "tt_id t = i" "tt_live t" and w': "ticket_types w' = modify p f (ticket_types w)"
    and f: "\<And>t. tt_id (f t) = tt_id t" "\<And>t. tt_live (f t) = tt_live t"
    by (auto simp: closed_row_def live_types_def by_key_None tt_live_def)
  have "(if p t then f t else t) \<in> set (ticket_types w')" using t(1) by (auto simp: w' set_modify)
  moreover have "tt_id (if p t then f t else t) = i" "tt_live (if p t then f t else t)" using t f by simp_all
  ultimately show "by_key tt_id i (live_types w') \<noteq> None" unfolding live_types_def by_key_None by force
qed

lemma expire_one_step:
  assumes r: "ready s w" and x: "standing (x # xs) w" "releasable w x" "hold_expired now x" "or_id x \<notin> or_id ` set xs"
  shows "\<exists>w'. expire_one s x w = (Inr (), w') \<and> ready s w' \<and> standing xs w' \<and> events w' = events w \<and> clock w' = clock w \<and> closed_row w x Expired w'"
proof -
  have h: "holding (or_status x)" "order_edge (or_status x) Expired"
    using x(3) by (auto simp: hold_expired_def holding_def order_edge_iff)
  have "wp (expire_one s x) (\<lambda>_ w'. faults w' = [] \<and> fresh_ids (rs_lib s) w' \<and> events w' = events w \<and> clock w' = clock w) (\<lambda>_ _. False) w"
    using r x(1,2) h(1) by (intro expire_one_runs) (auto simp: ready_def)
  moreover have "wp (expire_one s x) (\<lambda>_ w'. books [] (\<lambda>_. 0) w' \<and> standing xs w') (\<lambda>_ w'. books [] (\<lambda>_. 0) w' \<and> standing xs w') w"
    using r x(1,4) h(2) by (intro expire_one_books) (auto simp: ready_def)
  moreover have "wp (expire_one s x) (\<lambda>_. conflict_free) (\<lambda>_. conflict_free) w"
    by (rule keeps_wpI [OF expire_one_conflict_free]) (use r in \<open>simp add: ready_def\<close>)
  ultimately show ?thesis
    using expire_one_closes [of s x w] by (auto simp: wp_def ready_def split: prod.splits sum.splits)
qed

lemma due_closed:
  assumes "closed_row w x Expired w'" and x: "by_key or_id (or_id x) (orders w) = Some x" and k: "keyed or_id (orders w)"
    and c: "clock w' = clock w"
  shows "due w' = filter (\<lambda>y. or_id y \<noteq> or_id x) (due w)"
proof -
  obtain now where o: "orders w' = upsert or_id (x\<lparr>or_status := Expired, or_updated_at := now\<rparr>) (orders w)"
    using assms(1) by (auto simp: closed_row_def)
  have xin: "x \<in> set (orders w)" using x by (auto dest: by_key_Some)
  have "orders w' = modify (\<lambda>y. or_id y = or_id x) (\<lambda>_. x\<lparr>or_status := Expired, or_updated_at := now\<rparr>) (orders w)"
    unfolding o by (subst upsert_present [of _ _ _ x]) (simp_all add: x xin)
  moreover have "filter p (modify (\<lambda>y. or_id y = i) (\<lambda>_. z) ys) = filter (\<lambda>y. or_id y \<noteq> i) (filter p ys)"
    if "\<not> p z" for p :: "order \<Rightarrow> bool" and i z ys
    using that by (induction ys) (auto simp: modify_def)
  moreover have "\<not> hold_expired (clock w) (x\<lparr>or_status := Expired, or_updated_at := now\<rparr>)" by (simp add: hold_expired_def)
  ultimately show ?thesis by (simp add: due_def c)
qed

lemma sweep_loop_runs:
  assumes "ready s w" and "standing xs w" and "distinct (map or_id xs)"
    and "\<forall>x \<in> set xs. releasable w x \<and> hold_expired now x"
  shows "\<exists>w'. sweep_loop s xs w = (Inr (int (length xs)), w') \<and> ready s w' \<and> events w' = events w \<and> clock w' = clock w \<and>
    box_office w' = fold lapse (map or_id xs) (box_office w) \<and> due w' = filter (\<lambda>y. or_id y \<notin> or_id ` set xs) (due w) \<and>
    (\<forall>i. by_key tt_id i (live_types w) \<noteq> None \<longrightarrow> by_key tt_id i (live_types w') \<noteq> None)"
  using assms
proof (induction xs arbitrary: w)
  case Nil
  then show ?case by (simp add: ret_def)
next
  case (Cons x xs)
  from Cons.prems obtain v where v: "expire_one s x w = (Inr (), v)" "ready s v" "standing xs v" "events v = events w" "clock v = clock w"
      "closed_row w x Expired v"
    using expire_one_step [of s w x xs now] by auto
  have types: "\<forall>i. by_key tt_id i (live_types w) \<noteq> None \<longrightarrow> by_key tt_id i (live_types v) \<noteq> None"
    using live_types_closed [OF v(6)] by blast
  have rel: "\<forall>y \<in> set xs. releasable v y \<and> hold_expired now y"
    using Cons.prems(4) types v(4) by (auto simp: releasable_def live_events_def)
  from Cons.IH [OF v(2,3) _ rel] Cons.prems(3) obtain w' where w': "sweep_loop s xs v = (Inr (int (length xs)), w')" "ready s w'"
      "events w' = events v" "clock w' = clock v" "box_office w' = fold lapse (map or_id xs) (box_office v)"
      "due w' = filter (\<lambda>y. or_id y \<notin> or_id ` set xs) (due v)"
      "\<forall>i. by_key tt_id i (live_types v) \<noteq> None \<longrightarrow> by_key tt_id i (live_types w') \<noteq> None"
    by auto
  have x: "by_key or_id (or_id x) (orders w) = Some x" "x \<in> set (orders w)" using Cons.prems(2) by (auto dest: by_key_Some)
  have k: "keyed or_id (orders w)" "keyed tt_id (ticket_types w)" "fits32 (or_quantity x)"
    using Cons.prems(1) x(2) by (auto simp: ready_def conflict_free_def order_row_ok_def books_def balanced_def stocked_def)
  have "sweep_loop s (x # xs) w = (Inr (int (length (x # xs))), w')"
    using v(1) w'(1) by (simp add: bnd_def attempt_def ret_def)
  moreover have "due w' = filter (\<lambda>y. or_id y \<notin> or_id ` set (x # xs)) (due w)"
    using w'(6) due_closed [OF v(6) x(1) k(1) v(5)] by (auto intro: filter_cong)
  moreover have "box_office w' = fold lapse (map or_id (x # xs)) (box_office w)"
    using w'(5) closed_row_lapse [OF v(6) x(1) k] by simp
  ultimately show ?case using w' v(4,5) types by auto
qed

lemma filter_not_taken:
  assumes "distinct (map f ys)"
  shows "filter (\<lambda>y. f y \<notin> f ` set (take n ys)) ys = drop n ys"
proof -
  have "distinct (map f (take n ys) @ map f (drop n ys))" using assms by (simp add: map_append [symmetric] del: map_append)
  then have "filter (\<lambda>y. f y \<notin> f ` set (take n ys)) (drop n ys) = drop n ys" by (intro filter_True) auto
  moreover have "filter (\<lambda>y. f y \<notin> f ` set (take n ys)) (take n ys) = []" by (simp add: filter_empty_conv)
  ultimately show ?thesis using filter_append [of "\<lambda>y. f y \<notin> f ` set (take n ys)" "take n ys" "drop n ys"] by simp
qed

lemma sweep_batch_bounds: "0 < sweep_batch batch" "sweep_batch batch \<le> 500"
  by (simp_all add: sweep_batch_def)

lemma sweep_expired_loop:
  assumes "faults w = []"
  shows "sweep_expired s batch w = sweep_loop s (take (nat (sweep_batch batch)) (due w)) w"
  using assms sweep_batch_bounds(1) [of batch]
  by (simp add: sweep_expired_def bnd_def time_now_def gets_def expired_pending_def select_def db_def due_def page_of_def Let_def)

lemma sweep_step:
  assumes r: "ready s w" and d: "\<forall>x \<in> set (due w). releasable w x"
    and n: "n = nat (sweep_batch batch)"
  shows "\<exists>w'. sweep_expired s batch w = (Inr (int (length (take n (due w)))), w') \<and> ready s w' \<and> clock w' = clock w \<and>
    (\<forall>x \<in> set (due w'). releasable w' x) \<and> box_office w' = fold lapse (map or_id (take n (due w))) (box_office w) \<and>
    due w' = drop n (due w)"
proof -
  let ?xs = "take n (due w)"
  have k: "keyed or_id (orders w)" using r by (simp add: ready_def conflict_free_def)
  have dist: "distinct (map or_id (due w))" using keyed_filter [OF k] by (simp add: due_def keyed_def)
  then have dx: "distinct (map or_id ?xs)" by (simp add: take_map [symmetric])
  have xs: "set ?xs \<subseteq> set (due w)" by (rule set_take_subset)
  then have hold: "\<forall>x \<in> set ?xs. releasable w x \<and> hold_expired (clock w) x" using d by (auto simp: due_def)
  have st: "standing ?xs w" using xs k by (auto simp: standing_def due_def intro: by_key_keyed)
  have sel: "sweep_expired s batch w = sweep_loop s ?xs w"
    using r n by (simp add: sweep_expired_loop ready_def)
  from sweep_loop_runs [OF r st dx hold] obtain w' where w': "sweep_loop s ?xs w = (Inr (int (length ?xs)), w')" "ready s w'"
      "events w' = events w" "clock w' = clock w" "box_office w' = fold lapse (map or_id ?xs) (box_office w)"
      "due w' = filter (\<lambda>y. or_id y \<notin> or_id ` set ?xs) (due w)"
      "\<forall>i. by_key tt_id i (live_types w) \<noteq> None \<longrightarrow> by_key tt_id i (live_types w') \<noteq> None"
    by blast
  then have "due w' = drop n (due w)" using filter_not_taken [OF dist] by simp
  moreover from this have "\<forall>x \<in> set (due w'). releasable w' x"
    using w'(3,7) d by (auto simp: releasable_def live_events_def dest!: in_set_dropD)
  ultimately show ?thesis using w' sel by auto
qed

lemma reached_ready:
  assumes "reached y w" and "faults w = []" and "fresh_ids (rs_lib s) w"
  shows "ready s w"
proof -
  have "conflict_free w" by (rule schema.from_start [OF assms(1)]) (simp add: conflict_free_def)
  moreover have "books [] (\<lambda>_. 0) w" using reached_books [OF assms(1)] by (simp add: even_books_def)
  ultimately show ?thesis using assms by (simp add: ready_def)
qed

lemma expire_one_stuck:
  assumes "faults w = []" and "\<not> releasable w x"
  shows "wp (expire_one s x) (\<lambda>_ _. False) (\<lambda>_ v. v = w) w"
proof (cases "by_key ev_id (or_event x) (live_events w)")
  case None
  with assms(1) show ?thesis
    by (simp add: expire_one_def org_of_def get_event_by_id_def live_events_def wp_simps)
next
  case (Some e)
  with assms(2) have "by_key tt_id (or_type x) (live_types w) = None" by (simp add: releasable_def)
  with Some assms(1) show ?thesis
    by (simp add: expire_one_def org_of_def get_event_by_id_def close_order_tx_def release_tx_def lock_type_def live_events_def live_types_def
        wp_simps rollback_def)
qed

lemma sweep_loop_stuck:
  assumes "faults w = []" and "\<forall>x \<in> set xs. \<not> releasable w x"
  shows "sweep_loop s xs w = (Inr 0, w)"
  using assms(2)
proof (induction xs)
  case (Cons x xs)
  have "wp (expire_one s x) (\<lambda>_ _. False) (\<lambda>_ v. v = w) w" using Cons.prems assms(1) by (intro expire_one_stuck) simp_all
  then obtain e where "expire_one s x w = (Inl e, w)" by (auto simp: wp_def split: prod.splits sum.splits)
  then show ?case using Cons by (simp add: bnd_def attempt_def ret_def)
qed (simp add: ret_def)

text \<open>A run that leaves an overdue hold of a paid type.\<close>

definition paid_ticket :: ticket_input where
  "paid_ticket = day_ticket\<lparr>ti_name := ''Seat'', ti_price_cents := 500\<rparr>"

definition seats_world :: order_state where
  "seats_world = snd (activate_type sample_tickets (Some 1) ''acme'' ''fair'' (sample_text 100)
     (snd (create_type sample_tickets (Some 1) ''acme'' ''fair'' paid_ticket bare_world)))"

definition holds_world :: order_state where
  "holds_world = snd (create_order sample_orders 2 20 \<lparr>oi_type = 100, oi_quantity = 1, oi_key = ''a''\<rparr> seats_world)"

definition overdue_world :: order_state where
  "overdue_world = holds_world\<lparr>clock := clock holds_world + 3600000000000\<rparr>"

lemma reached_holds: "reached sample_system holds_world"
proof -
  have "reached sample_system bare_world" by (rule reached.start) (simp_all add: bare_world_def)
  then have "reached sample_system (snd (create_type sample_tickets (Some 1) ''acme'' ''fair'' paid_ticket bare_world))"
    by (rule reached.request) (rule Create_type, simp add: sample_system_def, rule prod.collapse [symmetric])
  then have "reached sample_system seats_world"
    by (rule reached.request, unfold seats_world_def) (rule Activate_type, simp add: sample_system_def, rule prod.collapse [symmetric])
  then show ?thesis
    by (rule reached.request, unfold holds_world_def) (rule Create_order, simp add: sample_system_def, rule prod.collapse [symmetric])
qed

lemma reached_overdue: "reached sample_system overdue_world"
  by (rule reached.request [OF reached_holds], unfold overdue_world_def) (rule Time, simp)

text \<open>One evaluation of the run, from which its facts are read.\<close>

lemma overdue_run: "\<exists>v. v = overdue_world \<and>
  map (\<lambda>x. (or_id x, or_event x, or_type x, or_quantity x, or_status x)) (due v) = [(103, 20, 100, 1, PendingPayment)] \<and>
  due v = orders v \<and> map (\<lambda>t. (tt_id t, tt_live t, tt_sold t)) (ticket_types v) = [(100, True, 1)] \<and>
  faults v = [] \<and> events v = [sample_event] \<and> map av_id (audit_events v) = [101, 102, 104] \<and> drawn_uuids v = 5"
  by (simp add: overdue_world_def due_def hold_expired_def holds_world_def seats_world_def bare_world_def paid_ticket_def day_ticket_def evals
      sample_text_def list_all_iff to_upper_def seconds_def)

lemma overdue_eval:
  "map (\<lambda>x. (or_id x, or_event x, or_type x, or_quantity x, or_status x)) (due overdue_world) = [(103, 20, 100, 1, PendingPayment)]"
  "due overdue_world = orders overdue_world"
  "map (\<lambda>t. (tt_id t, tt_live t, tt_sold t)) (ticket_types overdue_world) = [(100, True, 1)]"
  "faults overdue_world = []" "events overdue_world = [sample_event]" "map av_id (audit_events overdue_world) = [101, 102, 104]"
  "drawn_uuids overdue_world = 5"
  using overdue_run by blast+

lemma overdue_ready: "fresh_ids (rs_lib (sy_orders sample_system)) overdue_world" "\<forall>x \<in> set (due overdue_world). releasable overdue_world x"
proof -
  have "av_id ` set (audit_events overdue_world) = {101, 102, 104}"
    using arg_cong [OF overdue_eval(6), of set] by simp
  then show "fresh_ids (rs_lib (sy_orders sample_system)) overdue_world"
    by (simp add: fresh_ids_def sample_system_def sample_orders_def overdue_eval inj_def)
  show "\<forall>x \<in> set (due overdue_world). releasable overdue_world x"
    using overdue_eval(1,3)
    by (auto simp: releasable_def live_events_def live_types_def by_key_None overdue_eval(5) sample_event_def map_eq_Cons_conv)
qed

section \<open>Properties of the sweeper\<close>

text \<open>C26. Refinement of the abstract box office: from a reachable state, with the database up, identifiers fresh, and the event
  and ticket type of every overdue hold still there, a sweep succeeds, reports the size of its batch, and does to the claims and
  the units sold exactly what lapsing the first overdue holds one after another does: each becomes EXPIRED and gives its units
  back to its type. The rest of the backlog stays due.\<close>

theorem sweep_refines:
  assumes "reached y w" and "faults w = []" and "fresh_ids (rs_lib (sy_orders y)) w" and "\<forall>x \<in> set (due w). releasable w x"
    and "xs = take (nat (sweep_batch batch)) (due w)"
  shows "\<exists>w'. sweep_expired (sy_orders y) batch w = (Inr (int (length xs)), w') \<and>
    box_office w' = fold lapse (map or_id xs) (box_office w) \<and> due w' = drop (nat (sweep_batch batch)) (due w)"
  using sweep_step [OF reached_ready [OF assms(1-3)] assms(4) refl] assms(5) by blast

theorem sweep_refines_witness:
  "\<exists>w'. sweep_expired sample_orders 1 overdue_world = (Inr 1, w') \<and> box_office w' = ([(103, 100, 1, Expired)], [(100, 0)])"
proof -
  have "box_office overdue_world = ([(103, 100, 1, PendingPayment)], [(100, 1)])"
    using overdue_eval(1-3) by (auto simp: box_office_def)
  moreover have "map or_id (due overdue_world) = [103]" "length (due overdue_world) = 1" using overdue_eval(1) by auto
  ultimately show ?thesis
    using sweep_refines [OF reached_overdue overdue_eval(4) overdue_ready refl, of 1]
    by (auto simp: sample_system_def sweep_batch_def lapse_def)
qed

text \<open>The periodic job, \<open>n\<close> times.\<close>

fun run_sweeps :: "order_service \<Rightarrow> int \<Rightarrow> nat \<Rightarrow> 'z order_state_scheme \<Rightarrow> 'z order_state_scheme" where
  "run_sweeps s batch 0 w = w"
| "run_sweeps s batch (Suc n) w = run_sweeps s batch n (snd (sweep_expired s batch w))"

lemma run_sweeps_step:
  assumes "ready s w" and "\<forall>x \<in> set (due w). releasable w x"
  shows "due (run_sweeps s batch n w) = drop (n * nat (sweep_batch batch)) (due w) \<and>
    box_office (run_sweeps s batch n w) = fold lapse (map or_id (take (n * nat (sweep_batch batch)) (due w))) (box_office w)"
  using assms
proof (induction n arbitrary: w)
  case (Suc n)
  let ?b = "nat (sweep_batch batch)"
  from sweep_step [OF Suc.prems refl] obtain v where v: "snd (sweep_expired s batch w) = v" "ready s v" "\<forall>x \<in> set (due v). releasable v x"
      "box_office v = fold lapse (map or_id (take ?b (due w))) (box_office w)" "due v = drop ?b (due w)"
    by (metis snd_conv)
  have "take (?b + n * ?b) (due w) = take ?b (due w) @ take (n * ?b) (drop ?b (due w))" by (rule take_add)
  with Suc.IH [OF v(2,3)] v show ?case by (simp add: add.commute)
qed simp

text \<open>C27. The backlog drains: enough runs of the sweeper, one per batch of the overdue holds, leave no overdue hold, and the units of
  every one of them are back on sale.\<close>

theorem sweeps_drain:
  assumes "reached y w" and "faults w = []" and "fresh_ids (rs_lib (sy_orders y)) w" and "\<forall>x \<in> set (due w). releasable w x"
    and "length (due w) \<le> n * nat (sweep_batch batch)"
  shows "due (run_sweeps (sy_orders y) batch n w) = [] \<and>
    box_office (run_sweeps (sy_orders y) batch n w) = fold lapse (map or_id (due w)) (box_office w)"
  using run_sweeps_step [OF reached_ready [OF assms(1-3)] assms(4), of batch n] assms(5) by simp

theorem sweeps_drain_witness:
  "due overdue_world \<noteq> [] \<and> due (run_sweeps sample_orders 0 1 overdue_world) = []"
proof -
  have "length (due overdue_world) = 1" using overdue_eval(1) by auto
  then show ?thesis
    using sweeps_drain [OF reached_overdue overdue_eval(4) overdue_ready, of 1 0]
    by (auto simp: sample_system_def sweep_batch_def)
qed

text \<open>C28. Starvation: if the event or the ticket type of each of the holds in the batch has been deleted, a sweep reports no
  expiry and changes nothing, and so does every later one, whatever overdue holds wait behind them.\<close>

theorem sweep_starved:
  assumes "faults w = []" and "\<forall>x \<in> set (take (nat (sweep_batch batch)) (due w)). \<not> releasable w x"
  shows "sweep_expired s batch w = (Inr 0, w) \<and> run_sweeps s batch n w = w"
proof -
  have "sweep_expired s batch w = (Inr 0, w)"
    using sweep_loop_stuck [OF assms, of s] assms(1) by (simp add: sweep_expired_loop)
  then show ?thesis by (induction n) simp_all
qed

text \<open>The sample run after its event was deleted.\<close>

theorem sweep_starved_witness:
  "\<exists>w :: order_state. due w \<noteq> [] \<and> faults w = [] \<and> sweep_expired sample_orders 0 w = (Inr 0, w) \<and> run_sweeps sample_orders 0 1000 w = w"
proof (intro exI conjI)
  let ?w = "overdue_world\<lparr>events := []\<rparr>"
  have r: "\<not> releasable ?w x" for x by (simp add: releasable_def live_events_def by_key_def)
  have d: "due ?w = due overdue_world" by (simp add: due_def)
  then show "due ?w \<noteq> []" using overdue_eval(1) by auto
  show f: "faults ?w = []" by (simp add: overdue_eval)
  from r sweep_starved [OF f, of 0 sample_orders 1000] show "sweep_expired sample_orders 0 ?w = (Inr 0, ?w)" "run_sweeps sample_orders 0 1000 ?w = ?w"
    by simp_all
qed

end
