(* ===== verification/Http.thy ===== *)
theory Http
  imports Payment Gate Admin
begin

text \<open>
  What the HTTP handlers (\<open>internal/*/handler\<close>) share: how a request is read (path parameters, pagination, times, JSON bodies)
  and how a result becomes a response. Gin, its binder and the multipart reader are parameters: a handler gets the path and query
  parameters as functions and its decoded body as an option, \<open>None\<close> where \<open>ShouldBindJSON\<close> (decoding or a \<open>binding\<close> tag) fails.
  Rendering to JSON is the identity; a response keeps its status and its value.
\<close>

section \<open>Responses\<close>

text \<open>\<open>Refused\<close> is a fixed message, \<open>Unbound\<close> the binder's own message with 400, \<open>Failed\<close> the message of an error of the
  service, \<open>Answered\<close> a success.\<close>

datatype 'a response =
    Refused int string
  | Unbound
  | Failed int err
  | Answered int 'a

fun status_of :: "'a response \<Rightarrow> int" where
  "status_of (Refused st _) = st"
| "status_of Unbound = 400"
| "status_of (Failed st _) = st"
| "status_of (Answered st _) = st"

definition bind_json :: "'d option \<Rightarrow> ('d \<Rightarrow> ('s, 'a response) op) \<Rightarrow> ('s, 'a response) op" where
  "bind_json body f = (case body of None \<Rightarrow> ret Unbound | Some d \<Rightarrow> f d)"

definition with_id :: "lib \<Rightarrow> string \<Rightarrow> int \<Rightarrow> string \<Rightarrow> (uuid \<Rightarrow> ('s, 'a response) op) \<Rightarrow> ('s, 'a response) op" where
  "with_id l raw st msg f = (case uuid_parse l raw of None \<Rightarrow> ret (Refused st msg) | Some i \<Rightarrow> f i)"

text \<open>\<open>if err != nil { c.JSON(status(err), ...); return }; c.JSON(ok, v)\<close>.\<close>

definition answer :: "(err \<Rightarrow> int) \<Rightarrow> int \<Rightarrow> ('a \<Rightarrow> 'b) \<Rightarrow> ('s, 'a) op \<Rightarrow> ('s, 'b response) op" where
  "answer status ok f m = bnd (attempt m) (\<lambda>r. ret (case r of Inl e \<Rightarrow> Failed (status e) e | Inr v \<Rightarrow> Answered ok (f v)))"

text \<open>The same with a fixed message for any error.\<close>

definition answer_or :: "int \<Rightarrow> string \<Rightarrow> int \<Rightarrow> ('a \<Rightarrow> 'b) \<Rightarrow> ('s, 'a) op \<Rightarrow> ('s, 'b response) op" where
  "answer_or st msg ok f m = bnd (attempt m) (\<lambda>r. ret (case r of Inl _ \<Rightarrow> Refused st msg | Inr v \<Rightarrow> Answered ok (f v)))"

section \<open>Requests\<close>

record http_request =
  rq_key_header :: string
  rq_auth_header :: string
  rq_param :: "string \<Rightarrow> string"
  rq_query :: "string \<Rightarrow> string"

text \<open>\<open>uid, _ := UserFromContext(c)\<close>: the nil UUID when there is no user.\<close>

definition caller_id :: "gate_context \<Rightarrow> uuid" where
  "caller_id cx = (case from_context (gx_user cx) of None \<Rightarrow> uuid_nil | Some u \<Rightarrow> u)"

text \<open>The handlers that insist on a user.\<close>

definition with_user :: "gate_context \<Rightarrow> (uuid \<Rightarrow> ('s, 'a response) op) \<Rightarrow> ('s, 'a response) op" where
  "with_user cx f = (case from_context (gx_user cx) of None \<Rightarrow> ret (Refused 401 ''unauthorized'') | Some u \<Rightarrow> f u)"

definition with_org :: "gate_context \<Rightarrow> (uuid \<Rightarrow> ('s, 'a response) op) \<Rightarrow> ('s, 'a response) op" where
  "with_org cx f = (case from_context (gx_org cx) of None \<Rightarrow> ret (Refused 404 ''organization not found'') | Some org \<Rightarrow> f org)"

text \<open>\<open>staffFromContext\<close> of the kit and subscription handlers.\<close>

definition with_staff :: "gate_context \<Rightarrow> (uuid \<Rightarrow> uuid \<Rightarrow> ('s, 'a response) op) \<Rightarrow> ('s, 'a response) op" where
  "with_staff cx f = with_org cx (\<lambda>org. with_user cx (f org))"

definition org_ref :: "http_request \<Rightarrow> string" where
  "org_ref rq = trim_space (rq_param rq ''id'')"

text \<open>The event handler falls back to the parameter \<open>orgId\<close>.\<close>

definition event_org_ref :: "http_request \<Rightarrow> string" where
  "event_org_ref rq = (let ref0 = trim_space (rq_param rq ''id'') in
     if ref0 \<noteq> [] then ref0 else trim_space (rq_param rq ''orgId''))"

definition str_val :: "string option \<Rightarrow> string" where
  "str_val s = (case s of None \<Rightarrow> [] | Some t \<Rightarrow> t)"

definition or_default :: "string \<Rightarrow> string \<Rightarrow> string" where
  "or_default s d = (if trim_space s = [] then d else s)"

text \<open>The optional RFC3339 fields: absent or blank is nil, and only text that does not parse is refused.\<close>

definition parse_time :: "(string \<Rightarrow> instant option) \<Rightarrow> string option \<Rightarrow> instant option option" where
  "parse_time p s = (case s of None \<Rightarrow> Some None
     | Some t \<Rightarrow> if trim_space t = [] then Some None
       else (case p (trim_space t) of None \<Rightarrow> None | Some i \<Rightarrow> Some (Some i)))"

definition with_time :: "(string \<Rightarrow> instant option) \<Rightarrow> string option \<Rightarrow> string \<Rightarrow> (instant option \<Rightarrow> ('s, 'a response) op)
    \<Rightarrow> ('s, 'a response) op" where
  "with_time p s msg f = (case parse_time p s of None \<Rightarrow> ret (Refused 400 msg) | Some t \<Rightarrow> f t)"

section \<open>Pagination\<close>

text \<open>\<open>strconv.Atoi\<close>: an optional sign and decimal digits; out of the range of \<open>int\<close> is an error.\<close>

definition digits_value :: "string \<Rightarrow> int option" where
  "digits_value s = (if s = [] \<or> \<not> list_all is_digit s then None
     else Some (foldl (\<lambda>n c. 10 * n + int (code_of c - 48)) 0 s))"

definition atoi :: "string \<Rightarrow> int option" where
  "atoi s = (case (case s of [] \<Rightarrow> None
       | c # cs \<Rightarrow> if c = CHR ''-'' then map_option uminus (digits_value cs)
           else if c = CHR ''+'' then digits_value cs else digits_value s) of
     None \<Rightarrow> None | Some n \<Rightarrow> if fits64 n then Some n else None)"

record page_args =
  pg_page :: int
  pg_per_page :: int
  pg_limit :: int
  pg_offset :: int

text \<open>\<open>page(c)\<close>, the same function in five handlers: what is not a number in range counts as the default. The offset is 64-bit
  arithmetic.\<close>

definition page_args_of :: "http_request \<Rightarrow> page_args" where
  "page_args_of rq =
    (let per = (case atoi (rq_query rq ''perPage'') of Some n \<Rightarrow> if 1 \<le> n \<and> n \<le> 100 then n else 20 | None \<Rightarrow> 20);
         page = (case atoi (rq_query rq ''page'') of Some n \<Rightarrow> if 1 \<le> n then n else 1 | None \<Rightarrow> 1)
     in \<lparr>pg_page = page, pg_per_page = per, pg_limit = per, pg_offset = wrap64 ((page - 1) * per)\<rparr>)"

text \<open>\<open>pageOf\<close> of the administration handlers refuses instead.\<close>

definition strict_int :: "string \<Rightarrow> int \<Rightarrow> (int \<Rightarrow> bool) \<Rightarrow> int option" where
  "strict_int raw d ok = (if raw = [] then Some d
     else (case atoi raw of None \<Rightarrow> None | Some n \<Rightarrow> if ok n then Some n else None))"

definition strict_page :: "http_request \<Rightarrow> (int \<times> int) option" where
  "strict_page rq = (case strict_int (rq_query rq ''page'') 1 (\<lambda>n. \<not> n < 1) of
       None \<Rightarrow> None
     | Some p \<Rightarrow> (case strict_int (rq_query rq ''perPage'') 20 (\<lambda>n. \<not> (n < 1 \<or> n > 100)) of
         None \<Rightarrow> None | Some n \<Rightarrow> Some (p, n)))"

text \<open>The envelope of every listing.\<close>

record 'a listing =
  ls_items :: "'a list"
  ls_total :: int
  ls_page :: int
  ls_per_page :: int

definition listing_of :: "page_args \<Rightarrow> 'a list \<times> int \<Rightarrow> 'a listing" where
  "listing_of pg = (\<lambda>(items, total). \<lparr>ls_items = items, ls_total = total, ls_page = pg_page pg, ls_per_page = pg_per_page pg\<rparr>)"

text \<open>A listing that is not paged: one page with everything.\<close>

definition whole_listing :: "'a list \<Rightarrow> 'a listing" where
  "whole_listing xs = \<lparr>ls_items = xs, ls_total = int (length xs), ls_page = 1, ls_per_page = int (length xs)\<rparr>"

section \<open>The status of an error\<close>

definition order_error_status :: "err \<Rightarrow> int" where
  "order_error_status e =
     (if e \<in> {OrderE order_err.ErrOrderNotFound, OrderE ErrTicketGone} then 404
      else if e = OrderE order_err.ErrForbidden then 403
      else if e \<in> {OrderE order_err.ErrSoldOut, OrderE order_err.ErrInvalidStatus, SubE ErrEventAtCapacity} then 409
      else if e \<in> {OrderE order_err.ErrInvalidQty, OrderE order_err.ErrTooMany} then 400
      else 500)"

definition event_error_status :: "err \<Rightarrow> int" where
  "event_error_status e =
     (if e \<in> {EventE ErrEventNotFound, EventE ErrOrgUnresolved} then 404
      else if e = EventE event_err.ErrForbidden then 403
      else if e = SubE ErrUpgradeRequired then 402
      else if e \<in> {EventE event_err.ErrSlugTaken, EventE event_err.ErrInvalidStatus} then 409
      else if e \<in> {EventE event_err.ErrInvalidSlug, EventE ErrInvalidTitle, EventE ErrInvalidDates, EventE ErrInvalidCap,
                   EventE ErrCoverTooLarge, EventE ErrCoverType, EventE ErrCoverRequired} then 400
      else 500)"

definition ticket_error_status :: "err \<Rightarrow> int" where
  "ticket_error_status e =
     (if e \<in> {TicketE ErrTicketNotFound, TicketE ErrEventUnresolved} then 404
      else if e = TicketE ticketing_err.ErrForbidden then 403
      else if e \<in> {TicketE ErrEventCapacity, TicketE ErrHasSales, TicketE ticketing_err.ErrInvalidStatus,
                   TicketE ticketing_err.ErrSoldOut} then 409
      else if e \<in> {TicketE ticketing_err.ErrInvalidName, TicketE ErrInvalidPrice, TicketE ticketing_err.ErrInvalidQty,
                   TicketE ErrInvalidWindow, TicketE ErrNotOnSale, TicketE ticketing_err.ErrTooMany} then 400
      else 500)"

definition attendee_error_status :: "err \<Rightarrow> int" where
  "attendee_error_status e =
     (if e = AttendeeE attendee_err.ErrAttendeeNotFound then 404
      else if e = AttendeeE attendee_err.ErrForbidden then 403
      else if e \<in> {AttendeeE ErrInvalidEmail, AttendeeE attendee_err.ErrInvalidStatus} then 400
      else 500)"

definition checkin_error_status :: "err \<Rightarrow> int" where
  "checkin_error_status e =
     (if e \<in> {CheckinE ErrCheckinNotFound, CheckinE checkin_err.ErrAttendeeNotFound} then 404
      else if e = CheckinE ErrBatchTooLarge then 413
      else if e = CheckinE ErrQRSecretUnset then 503
      else if e \<in> {CheckinE checkin_err.ErrNotCheckedIn, CheckinE ErrCollectionsOutstanding} then 422
      else 400)"

definition kit_error_status :: "err \<Rightarrow> int" where
  "kit_error_status e =
     (if e \<in> {KitE ErrKitNotFound, KitE ErrCollectionNotFound, KitE kit_err.ErrAttendeeNotFound} then 404
      else if e \<in> {KitE ErrQuantityExhausted, KitE ErrAlreadyCollected} then 409
      else if e = SubE ErrUpgradeRequired then 402
      else if e \<in> {KitE kit_err.ErrNotCheckedIn, KitE ErrQuantityBelowCollected, KitE ErrKitHasCollections,
                   KitE kit_err.ErrInvalidStatus} then 422
      else 400)"

definition org_error_status :: "err \<Rightarrow> int" where
  "org_error_status e =
     (if e = OrgE org_err.ErrOrgNotFound then 404
      else if e \<in> {OrgE org_err.ErrForbidden, OrgE ErrInviteEmailMismatch} then 403
      else if e = SubE ErrUpgradeRequired then 402
      else if e \<in> {OrgE org_err.ErrSlugTaken, OrgE ErrAlreadyMember, OrgE ErrLastOwner, OrgE ErrInviteConsumed, OrgE ErrRoleExists,
                   OrgE ErrRoleAssigned, OrgE ErrRoleCapReached} then 409
      else if e \<in> {OrgE org_err.ErrInvalidSlug, OrgE org_err.ErrInvalidName, OrgE org_err.ErrUserNotFound, OrgE ErrInvalidInvite,
                   OrgE ErrInvalidRoleName, OrgE ErrRoleReserved, OrgE ErrRoleNotFound, OrgE ErrInvalidRolePermissions} then 400
      else 500)"

definition api_key_error_status :: "err \<Rightarrow> int" where
  "api_key_error_status e =
     (if e \<in> {OrgE ErrApiKeyNotFound, OrgE org_err.ErrOrgNotFound} then 404
      else if e = OrgE org_err.ErrForbidden then 403
      else if e \<in> {OrgE ErrInvalidApiKeyName, OrgE ErrInvalidApiKeyScope, OrgE ErrInvalidApiKeyExpiry} then 400
      else org_error_status e)"

definition admin_error_status :: "err \<Rightarrow> int" where
  "admin_error_status e = (if e \<in> {AdminE admin_err.ErrOrgNotFound, AdminE admin_err.ErrUserNotFound} then 404 else 400)"

text \<open>The billing handlers send a code beside the message.\<close>

definition sub_wire_error :: "err \<Rightarrow> int \<times> string" where
  "sub_wire_error e =
     (if e = SubE ErrInvalidPlan then (400, ''INVALID_PLAN'')
      else if e = SubE sub_err.ErrForbidden then (403, ''FORBIDDEN'')
      else if e = SubE ErrAlreadySubscribed then (409, ''ALREADY_SUBSCRIBED'')
      else if e = SubE ErrNoSubscription then (404, ''NO_SUBSCRIPTION'')
      else if e = SubE ErrBillingUnavailable then (503, ''BILLING_UNAVAILABLE'')
      else (400, ''SUBSCRIPTION_FAILED''))"

end
