(* ===== verification/EventHandlers.thy ===== *)
theory EventHandlers
  imports Http
begin

text \<open>
  The handlers of events, ticket types and orders (\<open>event_handler.go\<close>, \<open>ticket_handler.go\<close>, \<open>order_handler.go\<close>,
  \<open>subscription_handler.go\<close>), one definition per method. An upload is what the multipart reader and \<open>DetectContentType\<close> made of it.
\<close>

section \<open>Events\<close>

record create_event_body =
  eb_title :: string
  eb_slug :: "string option"
  eb_description :: "string option"
  eb_venue :: "string option"
  eb_location :: "string option"
  eb_starts_at :: "string option"
  eb_ends_at :: "string option"
  eb_capacity :: "int option"

record update_event_body =
  ub_title :: "string option"
  ub_slug :: "string option"
  ub_description :: "string option"
  ub_venue :: "string option"
  ub_location :: "string option"
  ub_starts_at :: "string option"
  ub_ends_at :: "string option"
  ub_capacity :: "int option"
  ub_clear_cover :: "bool option"

definition h_create_event :: "event_service \<Rightarrow> gate_context \<Rightarrow> http_request \<Rightarrow> create_event_body option
    \<Rightarrow> ('z event_state_scheme, event_dto response) op" where
  "h_create_event s cx rq body = bind_json body (\<lambda>b.
     with_time (es_parse_time s) (eb_starts_at b) ''invalid startsAt'' (\<lambda>starts.
     with_time (es_parse_time s) (eb_ends_at b) ''invalid endsAt'' (\<lambda>ends.
     answer event_error_status 201 id (create_event s (caller_id cx) (event_org_ref rq)
       \<lparr>ci_title = eb_title b, ci_slug = str_val (eb_slug b), ci_description = eb_description b, ci_venue = eb_venue b,
        ci_location = eb_location b, ci_starts_at = starts, ci_ends_at = ends, ci_capacity = eb_capacity b\<rparr>))))"

text \<open>\<open>filter\<close>: what \<open>ShouldBindQuery\<close> read, with the sort key.\<close>

definition h_list_org_events :: "event_service \<Rightarrow> http_request \<Rightarrow> (wire_filter \<times> string) option
    \<Rightarrow> ('z event_state_scheme, event_dto listing response) op" where
  "h_list_org_events s rq filter0 = (let pg = page_args_of rq in bind_json filter0 (\<lambda>(f, sort).
     answer event_error_status 200 (listing_of pg) (list_org_events s (event_org_ref rq) f (pg_limit pg) (pg_offset pg) sort)))"

definition h_get_org_event :: "event_service \<Rightarrow> gate_context \<Rightarrow> http_request \<Rightarrow> ('z event_state_scheme, event_dto response) op" where
  "h_get_org_event s cx rq =
     answer event_error_status 200 id (get_event s (Some (caller_id cx)) (event_org_ref rq) (rq_param rq ''eventId''))"

definition h_update_event :: "event_service \<Rightarrow> gate_context \<Rightarrow> http_request \<Rightarrow> update_event_body option
    \<Rightarrow> ('z event_state_scheme, event_dto response) op" where
  "h_update_event s cx rq body = bind_json body (\<lambda>b.
     with_time (es_parse_time s) (ub_starts_at b) ''invalid startsAt'' (\<lambda>starts.
     with_time (es_parse_time s) (ub_ends_at b) ''invalid endsAt'' (\<lambda>ends.
     answer event_error_status 200 id (update_event s (caller_id cx) (event_org_ref rq) (rq_param rq ''eventId'')
       \<lparr>ui_title = ub_title b, ui_slug = ub_slug b, ui_description = ub_description b, ui_venue = ub_venue b,
        ui_location = ub_location b, ui_starts_at = starts, ui_ends_at = ends, ui_capacity = ub_capacity b,
        ui_clear_cover = (ub_clear_cover b = Some True)\<rparr>))))"

definition h_delete_event :: "event_service \<Rightarrow> gate_context \<Rightarrow> http_request \<Rightarrow> ('z event_state_scheme, string response) op" where
  "h_delete_event s cx rq = answer event_error_status 200 (\<lambda>_. ''Event deleted'')
     (delete_event s (caller_id cx) (event_org_ref rq) (rq_param rq ''eventId''))"

definition h_publish_event :: "event_service \<Rightarrow> gate_context \<Rightarrow> http_request \<Rightarrow> ('z event_state_scheme, event_dto response) op" where
  "h_publish_event s cx rq =
     answer event_error_status 200 id (publish_event s (caller_id cx) (event_org_ref rq) (rq_param rq ''eventId''))"

definition h_unpublish_event :: "event_service \<Rightarrow> gate_context \<Rightarrow> http_request \<Rightarrow> ('z event_state_scheme, event_dto response) op" where
  "h_unpublish_event s cx rq =
     answer event_error_status 200 id (unpublish_event s (caller_id cx) (event_org_ref rq) (rq_param rq ''eventId''))"

definition h_cancel_event :: "event_service \<Rightarrow> gate_context \<Rightarrow> http_request \<Rightarrow> ('z event_state_scheme, event_dto response) op" where
  "h_cancel_event s cx rq =
     answer event_error_status 200 id (cancel_event s (caller_id cx) (event_org_ref rq) (rq_param rq ''eventId''))"

text \<open>An uploaded part: \<open>None\<close> inside when it cannot be opened or rewound.\<close>

type_synonym upload = "gallery_upload option"

definition h_upload_cover :: "event_service \<Rightarrow> http_request \<Rightarrow> upload option \<Rightarrow> ('z event_state_scheme, event_dto response) op" where
  "h_upload_cover s rq file = (case file of
       None \<Rightarrow> ret (Refused 400 ''file is required'')
     | Some None \<Rightarrow> ret (Refused 400 ''cannot read file'')
     | Some (Some u) \<Rightarrow> answer event_error_status 200 id
         (set_cover s (event_org_ref rq) (rq_param rq ''eventId'') (gu_data u) (gu_size u) (gu_type u)))"

fun open_uploads :: "upload list \<Rightarrow> gallery_upload list option" where
  "open_uploads [] = Some []"
| "open_uploads (None # us) = None"
| "open_uploads (Some u # us) = map_option (\<lambda>vs. u # vs) (open_uploads us)"

definition h_upload_gallery :: "event_service \<Rightarrow> http_request \<Rightarrow> upload list option
    \<Rightarrow> ('z event_state_scheme, image_dto listing response) op" where
  "h_upload_gallery s rq files = (case files of
       None \<Rightarrow> ret (Refused 400 ''files are required'')
     | Some us \<Rightarrow> if us = [] then ret (Refused 400 ''files are required'')
       else (case open_uploads us of
         None \<Rightarrow> ret (Refused 400 ''cannot read file'')
       | Some vs \<Rightarrow> answer event_error_status 201 whole_listing
           (add_gallery_images s (event_org_ref rq) (rq_param rq ''eventId'') vs)))"

definition h_list_images :: "event_service \<Rightarrow> http_request \<Rightarrow> ('z event_state_scheme, image_dto listing response) op" where
  "h_list_images s rq = answer event_error_status 200 whole_listing (list_images s (event_org_ref rq) (rq_param rq ''eventId''))"

definition h_list_public_events :: "event_service \<Rightarrow> http_request \<Rightarrow> (wire_filter \<times> string) option
    \<Rightarrow> ('z event_state_scheme, event_dto listing response) op" where
  "h_list_public_events s rq filter0 = (let pg = page_args_of rq in bind_json filter0 (\<lambda>(f, sort).
     answer event_error_status 200 (listing_of pg) (list_public s f (pg_limit pg) (pg_offset pg) sort)))"

definition h_get_public_event :: "event_service \<Rightarrow> http_request \<Rightarrow> ('z event_state_scheme, event_dto response) op" where
  "h_get_public_event s rq = with_id (es_lib s) (trim_space (rq_param rq ''id'')) 400 ''invalid event id'' (\<lambda>i.
     answer event_error_status 200 id (get_public_event s i))"

section \<open>Ticket types\<close>

record create_ticket_body =
  tb_name :: string
  tb_description :: "string option"
  tb_price_cents :: int
  tb_currency :: "string option"
  tb_total :: int
  tb_max_per_order :: "int option"
  tb_sale_starts :: "string option"
  tb_sale_ends :: "string option"

record update_ticket_body =
  tc_name :: "string option"
  tc_description :: "string option"
  tc_price_cents :: "int option"
  tc_currency :: "string option"
  tc_total :: "int option"
  tc_max_per_order :: "int option"
  tc_sale_starts :: "string option"
  tc_sale_ends :: "string option"

definition ticket_clock :: "ticket_service \<Rightarrow> string \<Rightarrow> instant option" where
  "ticket_clock s = es_parse_time (ts_events s)"

definition h_create_ticket :: "ticket_service \<Rightarrow> gate_context \<Rightarrow> http_request \<Rightarrow> create_ticket_body option
    \<Rightarrow> ('z ticket_state_scheme, ticket_dto response) op" where
  "h_create_ticket s cx rq body = bind_json body (\<lambda>b.
     with_time (ticket_clock s) (tb_sale_starts b) ''invalid saleStartsAt'' (\<lambda>starts.
     with_time (ticket_clock s) (tb_sale_ends b) ''invalid saleEndsAt'' (\<lambda>ends.
     answer ticket_error_status 201 id (create_type s (Some (caller_id cx)) (org_ref rq) (rq_param rq ''eventId'')
       \<lparr>ti_name = tb_name b, ti_description = tb_description b, ti_price_cents = tb_price_cents b,
        ti_currency = str_val (tb_currency b), ti_total = tb_total b, ti_max_per_order = tb_max_per_order b,
        ti_sale_starts = starts, ti_sale_ends = ends\<rparr>))))"

definition h_list_tickets :: "ticket_service \<Rightarrow> gate_context \<Rightarrow> http_request
    \<Rightarrow> ('z ticket_state_scheme, ticket_dto listing response) op" where
  "h_list_tickets s cx rq =
     answer ticket_error_status 200 whole_listing (list_types s (Some (caller_id cx)) (org_ref rq) (rq_param rq ''eventId''))"

definition h_get_ticket :: "ticket_service \<Rightarrow> gate_context \<Rightarrow> http_request \<Rightarrow> ('z ticket_state_scheme, ticket_dto response) op" where
  "h_get_ticket s cx rq = answer ticket_error_status 200 id
     (get_type s (Some (caller_id cx)) (org_ref rq) (rq_param rq ''eventId'') (rq_param rq ''ticketId''))"

definition h_update_ticket :: "ticket_service \<Rightarrow> gate_context \<Rightarrow> http_request \<Rightarrow> update_ticket_body option
    \<Rightarrow> ('z ticket_state_scheme, ticket_dto response) op" where
  "h_update_ticket s cx rq body = bind_json body (\<lambda>b.
     with_time (ticket_clock s) (tc_sale_starts b) ''invalid saleStartsAt'' (\<lambda>starts.
     with_time (ticket_clock s) (tc_sale_ends b) ''invalid saleEndsAt'' (\<lambda>ends.
     answer ticket_error_status 200 id
       (update_type s (Some (caller_id cx)) (org_ref rq) (rq_param rq ''eventId'') (rq_param rq ''ticketId'')
         \<lparr>tu_name = tc_name b, tu_description = tc_description b, tu_price_cents = tc_price_cents b, tu_currency = tc_currency b,
          tu_total = tc_total b, tu_max_per_order = tc_max_per_order b, tu_sale_starts = starts, tu_sale_ends = ends\<rparr>))))"

definition h_delete_ticket :: "ticket_service \<Rightarrow> gate_context \<Rightarrow> http_request \<Rightarrow> ('z ticket_state_scheme, string response) op" where
  "h_delete_ticket s cx rq = answer ticket_error_status 200 (\<lambda>_. ''Ticket type deleted'')
     (delete_type s (Some (caller_id cx)) (org_ref rq) (rq_param rq ''eventId'') (rq_param rq ''ticketId''))"

definition h_activate_ticket :: "ticket_service \<Rightarrow> gate_context \<Rightarrow> http_request
    \<Rightarrow> ('z ticket_state_scheme, ticket_dto response) op" where
  "h_activate_ticket s cx rq = answer ticket_error_status 200 id
     (activate_type s (Some (caller_id cx)) (org_ref rq) (rq_param rq ''eventId'') (rq_param rq ''ticketId''))"

definition h_pause_ticket :: "ticket_service \<Rightarrow> gate_context \<Rightarrow> http_request
    \<Rightarrow> ('z ticket_state_scheme, ticket_dto response) op" where
  "h_pause_ticket s cx rq = answer ticket_error_status 200 id
     (pause_type s (Some (caller_id cx)) (org_ref rq) (rq_param rq ''eventId'') (rq_param rq ''ticketId''))"

definition h_list_public_tickets :: "ticket_service \<Rightarrow> http_request \<Rightarrow> ('z ticket_state_scheme, ticket_dto listing response) op" where
  "h_list_public_tickets s rq = with_id (ts_lib s) (trim_space (rq_param rq ''id'')) 400 ''invalid event id'' (\<lambda>i.
     answer ticket_error_status 200 whole_listing (list_public_types s i))"

section \<open>Orders\<close>

record create_order_body =
  ob_type :: string
  ob_quantity :: int
  ob_key :: "string option"

definition h_create_order :: "order_service \<Rightarrow> gate_context \<Rightarrow> http_request \<Rightarrow> create_order_body option
    \<Rightarrow> ('z order_state_scheme, order_dto response) op" where
  "h_create_order s cx rq body =
     with_id (rs_lib s) (trim_space (rq_param rq ''id'')) 400 ''invalid event id'' (\<lambda>ev.
     bind_json body (\<lambda>b.
     with_id (rs_lib s) (trim_space (ob_type b)) 400 ''invalid ticket type id'' (\<lambda>ty.
     answer order_error_status 201 id (create_order s (caller_id cx) ev
       \<lparr>oi_type = ty, oi_quantity = ob_quantity b, oi_key = str_val (ob_key b)\<rparr>))))"

definition h_list_my_orders :: "gate_context \<Rightarrow> http_request \<Rightarrow> ('z order_state_scheme, order_dto listing response) op" where
  "h_list_my_orders cx rq = (let pg = page_args_of rq in
     answer_or 500 ''list failed'' 200 (listing_of pg) (list_my_orders (caller_id cx) (pg_limit pg) (pg_offset pg)))"

definition h_get_order :: "order_service \<Rightarrow> gate_context \<Rightarrow> http_request \<Rightarrow> ('z order_state_scheme, order_dto response) op" where
  "h_get_order s cx rq = with_id (rs_lib s) (trim_space (rq_param rq ''id'')) 400 ''invalid order id'' (\<lambda>i.
     answer order_error_status 200 id (get_order (caller_id cx) i))"

definition h_cancel_order :: "order_service \<Rightarrow> gate_context \<Rightarrow> http_request \<Rightarrow> ('z order_state_scheme, order_dto response) op" where
  "h_cancel_order s cx rq = with_id (rs_lib s) (trim_space (rq_param rq ''id'')) 400 ''invalid order id'' (\<lambda>i.
     answer order_error_status 200 id (cancel_order s (caller_id cx) i))"

section \<open>Subscriptions\<close>

definition h_get_plans :: "subscription_service \<Rightarrow> ('z base_scheme, tier_view list response) op" where
  "h_get_plans s = answer_or 500 ''catalog unavailable'' 200 id (catalog s)"

record subscription_dto =
  sd_plan :: string
  sd_status :: string
  sd_period_end :: "int option"
  sd_cancels :: bool

definition to_subscription :: "org_subscription option \<Rightarrow> subscription_dto" where
  "to_subscription sub = (case sub of
       None \<Rightarrow> \<lparr>sd_plan = ''FREE'', sd_status = ''ACTIVE'', sd_period_end = None, sd_cancels = False\<rparr>
     | Some x \<Rightarrow> \<lparr>sd_plan = plan_text (sb_plan x), sd_status = sub_status_text (sb_status x),
         sd_period_end = format_time_ptr (sb_period_end x), sd_cancels = sb_cancel_at_end x\<rparr>)"

definition h_get_subscription :: "gate_context \<Rightarrow> ('z plan_state_scheme, subscription_dto response) op" where
  "h_get_subscription cx = with_org cx (\<lambda>org.
     answer_or 500 ''subscription unavailable'' 200 to_subscription (sub_by_org org))"

text \<open>The text kept of a refusal is its code.\<close>

definition wire_answer :: "int \<Rightarrow> ('a \<Rightarrow> 'b) \<Rightarrow> ('s, 'a) op \<Rightarrow> ('s, 'b response) op" where
  "wire_answer ok f m = bnd (attempt m) (\<lambda>r. ret (case r of
       Inl e \<Rightarrow> Refused (fst (sub_wire_error e)) (snd (sub_wire_error e)) | Inr v \<Rightarrow> Answered ok (f v)))"

definition h_start_checkout :: "subscription_service \<Rightarrow> gate_context \<Rightarrow> string option
    \<Rightarrow> ('z org_state_scheme, (string \<times> string) response) op" where
  "h_start_checkout s cx body = with_staff cx (\<lambda>org staff. bind_json body (\<lambda>plan.
     wire_answer 201 id (start_checkout s staff org (plan_of_text plan))))"

definition h_create_portal :: "subscription_service \<Rightarrow> string \<Rightarrow> gate_context \<Rightarrow> ('z org_state_scheme, string response) op" where
  "h_create_portal s app cx = with_staff cx (\<lambda>org staff.
     wire_answer 200 id (create_portal_session s staff org (app @ ''/billing'')))"

end
