(* ===== verification/OrgHandlers.thy ===== *)
theory OrgHandlers
  imports Http
begin

text \<open>
  The handlers of organizations, members, invites, custom roles and API keys (\<open>organization/handler\<close>). \<open>cleaner\<close> is the asset
  cleaner that \<open>main.go\<close> wires into the service.
\<close>

section \<open>Organizations\<close>

record org_body =
  gb_name :: string
  gb_slug :: "string option"
  gb_logo :: "string option"

record update_org_body =
  gu_name :: "string option"
  gu_slug :: "string option"
  gu_logo :: "string option"

definition h_create_org :: "org_service \<Rightarrow> gate_context \<Rightarrow> org_body option \<Rightarrow> ('z org_state_scheme, org_dto response) op" where
  "h_create_org s cx body = with_user cx (\<lambda>user. bind_json body (\<lambda>b.
     answer org_error_status 201 id (create_org s user (gb_name b) (str_val (gb_slug b)) (str_val (gb_logo b)))))"

record org_summary_dto =
  oy_id :: uuid
  oy_slug :: string
  oy_name :: string
  oy_role :: member_role
  oy_created_at :: int

text \<open>The creation time shown is when the caller joined.\<close>

definition to_org_summary :: "org_membership_dto \<Rightarrow> org_summary_dto" where
  "to_org_summary m = \<lparr>oy_id = om_id m, oy_slug = om_slug m, oy_name = om_name m, oy_role = om_role m,
     oy_created_at = om_joined_at m\<rparr>"

definition h_list_my_orgs :: "gate_context \<Rightarrow> ('z org_state_scheme, org_summary_dto list response) op" where
  "h_list_my_orgs cx = with_user cx (\<lambda>user.
     answer_or 500 ''list failed'' 200 (map to_org_summary) (list_org_memberships user))"

definition h_get_org :: "org_service \<Rightarrow> gate_context \<Rightarrow> http_request \<Rightarrow> ('z org_state_scheme, org_dto response) op" where
  "h_get_org s cx rq = answer org_error_status 200 id (get_org s (caller_id cx) (org_ref rq))"

definition h_update_org :: "org_service \<Rightarrow> gate_context \<Rightarrow> http_request \<Rightarrow> update_org_body option
    \<Rightarrow> ('z org_state_scheme, org_dto response) op" where
  "h_update_org s cx rq body = bind_json body (\<lambda>b.
     answer org_error_status 200 id
       (update_org s (caller_id cx) (org_ref rq) (str_val (gu_name b)) (str_val (gu_slug b)) (str_val (gu_logo b))))"

definition h_delete_org :: "org_service \<Rightarrow> (uuid \<Rightarrow> ('z org_state_scheme, unit) op) option \<Rightarrow> gate_context \<Rightarrow> http_request
    \<Rightarrow> ('z org_state_scheme, string response) op" where
  "h_delete_org s cleaner cx rq = answer org_error_status 200 (\<lambda>_. ''Organization deleted'')
     (delete_org s cleaner (caller_id cx) (org_ref rq))"

section \<open>Members\<close>

text \<open>\<open>model.MemberRole(text)\<close>.\<close>

definition member_role_of :: "string \<Rightarrow> member_role" where
  "member_role_of t = (if t = ''OWNER'' then OWNER else if t = ''ADMIN'' then ADMIN else if t = ''MEMBER'' then MEMBER
     else OtherRole t)"

definition h_list_members :: "org_service \<Rightarrow> gate_context \<Rightarrow> http_request \<Rightarrow> ('z org_state_scheme, member_dto listing response) op" where
  "h_list_members s cx rq = (let pg = page_args_of rq in
     answer org_error_status 200 (listing_of pg) (list_members s (caller_id cx) (org_ref rq) (pg_limit pg) (pg_offset pg)))"

record member_body =
  mi_email :: string
  mi_role :: string

definition h_add_member :: "org_service \<Rightarrow> gate_context \<Rightarrow> http_request \<Rightarrow> member_body option
    \<Rightarrow> ('z org_state_scheme, member_dto response) op" where
  "h_add_member s cx rq body = bind_json body (\<lambda>b.
     answer org_error_status 201 id
       (add_member s (caller_id cx) (org_ref rq) (mi_email b) (member_role_of (or_default (mi_role b) ''MEMBER''))))"

definition h_update_member_role :: "org_service \<Rightarrow> gate_context \<Rightarrow> http_request \<Rightarrow> string option
    \<Rightarrow> ('z org_state_scheme, member_dto response) op" where
  "h_update_member_role s cx rq body =
     with_id (os_lib s) (trim_space (rq_param rq ''userId'')) 400 ''invalid user id'' (\<lambda>target. bind_json body (\<lambda>role.
     answer org_error_status 200 id (update_member_role s (caller_id cx) (org_ref rq) target (member_role_of role))))"

definition h_remove_member :: "org_service \<Rightarrow> gate_context \<Rightarrow> http_request \<Rightarrow> ('z org_state_scheme, string response) op" where
  "h_remove_member s cx rq =
     with_id (os_lib s) (trim_space (rq_param rq ''userId'')) 400 ''invalid user id'' (\<lambda>target.
     answer org_error_status 200 (\<lambda>_. ''Member removed'') (remove_member s (caller_id cx) (org_ref rq) target))"

text \<open>The body is decoded to the flag, which may be missing.\<close>

definition h_update_preferences :: "org_service \<Rightarrow> gate_context \<Rightarrow> http_request \<Rightarrow> bool option option
    \<Rightarrow> ('z org_state_scheme, string response) op" where
  "h_update_preferences s cx rq body = (case body of
       Some (Some notify) \<Rightarrow> answer org_error_status 200 (\<lambda>_. ''Preferences updated'')
         (update_my_preferences s (caller_id cx) (org_ref rq) notify)
     | _ \<Rightarrow> ret (Refused 400 ''notifyEvents is required''))"

section \<open>Invites\<close>

definition h_invite_member :: "org_service \<Rightarrow> gate_context \<Rightarrow> http_request \<Rightarrow> member_body option
    \<Rightarrow> ('z org_state_scheme, string response) op" where
  "h_invite_member s cx rq body = bind_json body (\<lambda>b.
     answer org_error_status 201 (\<lambda>_. ''Invite sent'')
       (invite_member s (caller_id cx) (org_ref rq) (mi_email b) (member_role_of (or_default (mi_role b) ''MEMBER''))))"

definition h_list_invites :: "org_service \<Rightarrow> gate_context \<Rightarrow> http_request \<Rightarrow> ('z org_state_scheme, invite_dto listing response) op" where
  "h_list_invites s cx rq = (let pg = page_args_of rq in
     answer org_error_status 200 (listing_of pg) (list_invites s (caller_id cx) (org_ref rq) (pg_limit pg) (pg_offset pg)))"

definition h_revoke_invite :: "org_service \<Rightarrow> gate_context \<Rightarrow> http_request \<Rightarrow> ('z org_state_scheme, string response) op" where
  "h_revoke_invite s cx rq =
     with_id (os_lib s) (trim_space (rq_param rq ''inviteId'')) 400 ''invalid invite id'' (\<lambda>i.
     answer org_error_status 200 (\<lambda>_. ''Invite revoked'') (revoke_invite s (caller_id cx) (org_ref rq) i))"

definition h_accept_invite :: "org_service \<Rightarrow> gate_context \<Rightarrow> string option \<Rightarrow> ('z org_state_scheme, org_dto response) op" where
  "h_accept_invite s cx body = bind_json body (\<lambda>token.
     answer org_error_status 200 id (accept_invite s (caller_id cx) token))"

definition h_decline_invite :: "org_service \<Rightarrow> gate_context \<Rightarrow> string option \<Rightarrow> ('z org_state_scheme, string response) op" where
  "h_decline_invite s cx body = bind_json body (\<lambda>token.
     answer org_error_status 200 (\<lambda>_. ''Invite declined'') (decline_invite s (caller_id cx) token))"

section \<open>Custom roles\<close>

record role_body =
  rb_name :: string
  rb_permissions :: "permission list"

definition h_list_roles :: "org_service \<Rightarrow> gate_context \<Rightarrow> http_request \<Rightarrow> ('z org_state_scheme, custom_role_dto list response) op" where
  "h_list_roles s cx rq = answer org_error_status 200 id (list_roles s (caller_id cx) (org_ref rq))"

definition h_define_role :: "org_service \<Rightarrow> gate_context \<Rightarrow> http_request \<Rightarrow> role_body option
    \<Rightarrow> ('z org_state_scheme, custom_role_dto response) op" where
  "h_define_role s cx rq body = bind_json body (\<lambda>b.
     answer org_error_status 201 id (define_role s (caller_id cx) (org_ref rq) (rb_name b) (rb_permissions b)))"

definition h_update_role :: "org_service \<Rightarrow> gate_context \<Rightarrow> http_request \<Rightarrow> permission list option
    \<Rightarrow> ('z org_state_scheme, custom_role_dto response) op" where
  "h_update_role s cx rq body = bind_json body (\<lambda>perms.
     answer org_error_status 200 id (update_role s (caller_id cx) (org_ref rq) (rq_param rq ''role'') perms))"

definition h_delete_role :: "org_service \<Rightarrow> gate_context \<Rightarrow> http_request \<Rightarrow> ('z org_state_scheme, string response) op" where
  "h_delete_role s cx rq = answer org_error_status 200 (\<lambda>_. ''Role deleted'')
     (delete_role s (caller_id cx) (org_ref rq) (rq_param rq ''role''))"

definition h_assign_flow :: "org_service \<Rightarrow> bool \<Rightarrow> gate_context \<Rightarrow> http_request \<Rightarrow> bool \<Rightarrow> string option
    \<Rightarrow> ('z org_state_scheme, string response) op" where
  "h_assign_flow s survives cx rq grant body = bind_json body (\<lambda>raw.
     with_id (os_lib s) (trim_space raw) 400 ''invalid user id'' (\<lambda>target.
     answer org_error_status 200 (\<lambda>_. if grant then ''Role granted'' else ''Role revoked'')
       (if grant then assign_role s survives (caller_id cx) (org_ref rq) target (rq_param rq ''role'')
        else unassign_role s (caller_id cx) (org_ref rq) target (rq_param rq ''role''))))"

definition h_assign_role :: "org_service \<Rightarrow> bool \<Rightarrow> gate_context \<Rightarrow> http_request \<Rightarrow> string option
    \<Rightarrow> ('z org_state_scheme, string response) op" where
  "h_assign_role s survives cx rq body = h_assign_flow s survives cx rq True body"

definition h_unassign_role :: "org_service \<Rightarrow> bool \<Rightarrow> gate_context \<Rightarrow> http_request \<Rightarrow> string option
    \<Rightarrow> ('z org_state_scheme, string response) op" where
  "h_unassign_role s survives cx rq body = h_assign_flow s survives cx rq False body"

section \<open>API keys\<close>

text \<open>No API key manages API keys.\<close>

definition keyless :: "gate_context \<Rightarrow> (uuid \<Rightarrow> ('s, 'a response) op) \<Rightarrow> ('s, 'a response) op" where
  "keyless cx f = (if from_context (gx_key cx) \<noteq> None then ret (Refused 403 ''forbidden'') else with_user cx f)"

record api_key_body =
  kb_name :: string
  kb_scopes :: "string list"
  kb_expires_at :: "string option"

definition h_create_api_key :: "org_service \<Rightarrow> (string \<Rightarrow> instant option) \<Rightarrow> gate_context \<Rightarrow> http_request \<Rightarrow> api_key_body option
    \<Rightarrow> ('z org_state_scheme, (api_key_dto \<times> string) response) op" where
  "h_create_api_key s p cx rq body = keyless cx (\<lambda>user. bind_json body (\<lambda>b.
     case (case kb_expires_at b of None \<Rightarrow> Some None
           | Some t \<Rightarrow> if t = [] then Some None else map_option Some (p t)) of
       None \<Rightarrow> ret (Refused 400 ''expiresAt must be RFC3339'')
     | Some expires \<Rightarrow> answer api_key_error_status 201 id
         (create_api_key s user (org_ref rq) (kb_name b) (kb_scopes b) expires)))"

definition h_list_api_keys :: "org_service \<Rightarrow> gate_context \<Rightarrow> http_request \<Rightarrow> ('z org_state_scheme, api_key_dto listing response) op" where
  "h_list_api_keys s cx rq = keyless cx (\<lambda>user. let pg = page_args_of rq in
     answer api_key_error_status 200 (listing_of pg) (list_api_keys s user (org_ref rq) (pg_limit pg) (pg_offset pg)))"

definition h_revoke_api_key :: "org_service \<Rightarrow> gate_context \<Rightarrow> http_request \<Rightarrow> ('z org_state_scheme, unit response) op" where
  "h_revoke_api_key s cx rq = keyless cx (\<lambda>user.
     with_id (os_lib s) (rq_param rq ''keyId'') 400 ''invalid key id'' (\<lambda>i.
     answer api_key_error_status 204 id (revoke_api_key s user (org_ref rq) i)))"

end
