(* ===== verification/DoorHandlers.thy ===== *)
theory DoorHandlers
  imports Http
begin

text \<open>
  The handlers of attendees, check-in and kits (\<open>attendee_handler.go\<close>, \<open>checkin_handler.go\<close>, \<open>kit_handler.go\<close>).
\<close>

section \<open>Attendees\<close>

record attendee_body =
  da_email :: string
  da_name :: "string option"

record correct_body =
  dc_name :: "string option"
  dc_email :: "string option"

definition h_add_attendee :: "lib \<Rightarrow> gate_context \<Rightarrow> http_request \<Rightarrow> attendee_body option
    \<Rightarrow> ('z attendee_state_scheme, attendee_dto response) op" where
  "h_add_attendee l cx rq body = with_org cx (\<lambda>org. bind_json body (\<lambda>b.
     answer attendee_error_status 201 id (add_manual l org (rq_param rq ''eventId'') (da_email b) (da_name b))))"

text \<open>\<open>ResolveEvent\<close> in front of a listing or an edit: any error is a 404.\<close>

definition with_event :: "lib \<Rightarrow> uuid \<Rightarrow> http_request \<Rightarrow> (uuid \<Rightarrow> ('z event_state_scheme, 'a response) op)
    \<Rightarrow> ('z event_state_scheme, 'a response) op" where
  "with_event l org rq f = bnd (attempt (resolve_event_id l org (rq_param rq ''eventId''))) (\<lambda>r. case r of
       Inl _ \<Rightarrow> ret (Refused 404 ''event not found'') | Inr ev \<Rightarrow> f ev)"

definition h_list_roster :: "lib \<Rightarrow> gate_context \<Rightarrow> http_request \<Rightarrow> ('z attendee_state_scheme, attendee_dto listing response) op" where
  "h_list_roster l cx rq = with_org cx (\<lambda>org. with_event l org rq (\<lambda>ev. let pg = page_args_of rq in
     answer_or 500 ''list failed'' 200 (listing_of pg)
       (list_event_roster ev (rq_query rq ''q'') (pg_limit pg) (pg_offset pg))))"

definition h_correct_attendee :: "lib \<Rightarrow> gate_context \<Rightarrow> http_request \<Rightarrow> correct_body option
    \<Rightarrow> ('z attendee_state_scheme, attendee_dto response) op" where
  "h_correct_attendee l cx rq body = with_org cx (\<lambda>org.
     with_id l (trim_space (rq_param rq ''attendeeId'')) 400 ''invalid attendee id'' (\<lambda>i. bind_json body (\<lambda>b.
     with_event l org rq (\<lambda>ev.
     answer attendee_error_status 200 id (correct_attendee_in_event ev i (dc_name b) (dc_email b))))))"

definition h_list_mine :: "gate_context \<Rightarrow> http_request \<Rightarrow> ('z attendee_state_scheme, attendee_dto listing response) op" where
  "h_list_mine cx rq = (let pg = page_args_of rq in
     answer_or 500 ''list failed'' 200 (listing_of pg) (list_mine (caller_id cx) (pg_limit pg) (pg_offset pg)))"

definition h_get_mine :: "lib \<Rightarrow> gate_context \<Rightarrow> http_request \<Rightarrow> ('z attendee_state_scheme, attendee_dto response) op" where
  "h_get_mine l cx rq = with_id l (trim_space (rq_param rq ''id'')) 400 ''invalid attendee id'' (\<lambda>i.
     answer attendee_error_status 200 id (get_attendee (caller_id cx) i))"

definition h_cancel_mine :: "lib \<Rightarrow> gate_context \<Rightarrow> http_request \<Rightarrow> ('z attendee_state_scheme, attendee_dto response) op" where
  "h_cancel_mine l cx rq = with_id l (trim_space (rq_param rq ''id'')) 400 ''invalid attendee id'' (\<lambda>i.
     answer attendee_error_status 200 id (cancel_mine (caller_id cx) i))"

section \<open>Check-in\<close>

record scan_body =
  xb_code :: string
  xb_attendee :: string

record scan_dto =
  xd_outcome :: outcome
  xd_method :: scan_method
  xd_attendee :: "uuid option"
  xd_checked_in_at :: "int option"

definition to_scan_result :: "scan_result \<Rightarrow> scan_dto" where
  "to_scan_result r = \<lparr>xd_outcome = sr_outcome r, xd_method = sr_method r, xd_attendee = sr_attendee r,
     xd_checked_in_at = format_time_ptr (sr_checked_in_at r)\<rparr>"

definition h_scan :: "checkin_service \<Rightarrow> gate_context \<Rightarrow> http_request \<Rightarrow> scan_body option
    \<Rightarrow> ('z checkin_state_scheme, scan_dto response) op" where
  "h_scan s cx rq body = with_staff cx (\<lambda>org staff. bind_json body (\<lambda>b.
     if xb_code b = [] \<and> xb_attendee b = [] then ret (Refused 400 ''code or attendeeId is required'')
     else answer checkin_error_status 200 to_scan_result
       (scan s org (rq_param rq ''eventId'') (xb_code b) (xb_attendee b) staff)))"

definition h_scan_batch :: "checkin_service \<Rightarrow> gate_context \<Rightarrow> http_request \<Rightarrow> string list option
    \<Rightarrow> ('z checkin_state_scheme, scan_dto list response) op" where
  "h_scan_batch s cx rq body = with_staff cx (\<lambda>org staff. bind_json body (\<lambda>codes.
     if codes = [] then ret (Refused 400 ''codes must not be empty'')
     else answer checkin_error_status 200 (map to_scan_result) (scan_batch s org (rq_param rq ''eventId'') codes staff)))"

record stats_dto =
  st_registered :: int
  st_checked_in :: int
  st_cancelled :: int
  st_total :: int

definition to_stats :: "int \<times> int \<times> int \<Rightarrow> stats_dto" where
  "to_stats = (\<lambda>(r, c, x). \<lparr>st_registered = r, st_checked_in = c, st_cancelled = x, st_total = r + c + x\<rparr>)"

definition h_stats :: "checkin_service \<Rightarrow> gate_context \<Rightarrow> http_request \<Rightarrow> ('z checkin_state_scheme, stats_dto response) op" where
  "h_stats s cx rq = with_org cx (\<lambda>org.
     answer checkin_error_status 200 to_stats (stats s org (rq_param rq ''eventId'')))"

definition h_revert :: "checkin_service \<Rightarrow> gate_context \<Rightarrow> http_request \<Rightarrow> string option
    \<Rightarrow> ('z checkin_state_scheme, scan_dto response) op" where
  "h_revert s cx rq body = with_staff cx (\<lambda>org staff. (case body of
       Some (c # cs) \<Rightarrow> answer checkin_error_status 200 to_scan_result (revert s org (rq_param rq ''eventId'') (c # cs) staff)
     | _ \<Rightarrow> ret (Refused 400 ''attendeeId is required'')))"

section \<open>Kits\<close>

record kit_body =
  yb_name :: string
  yb_description :: string
  yb_total :: int

record update_kit_body =
  yu_name :: "string option"
  yu_description :: "string option"
  yu_total :: "int option"

record collect_body =
  yc_attendee :: string
  yc_reserve :: bool
  yc_key :: string

record kit_dto =
  yd_id :: uuid
  yd_event :: uuid
  yd_name :: string
  yd_description :: string
  yd_total :: int
  yd_pending :: int
  yd_collected :: int
  yd_voided :: int
  yd_remaining :: int
  yd_created_at :: int

definition to_kit_response :: "kit_with_counts \<Rightarrow> kit_dto" where
  "to_kit_response k = \<lparr>yd_id = kt_id (kw_kit k), yd_event = kt_event (kw_kit k), yd_name = kt_name (kw_kit k),
     yd_description = kt_description (kw_kit k), yd_total = kt_total (kw_kit k), yd_pending = kw_pending k,
     yd_collected = kw_collected k, yd_voided = kw_voided k, yd_remaining = kw_remaining k,
     yd_created_at = format_time (kt_created_at (kw_kit k))\<rparr>"

record collection_dto =
  yo_id :: uuid
  yo_kit :: uuid
  yo_kit_name :: string
  yo_event :: uuid
  yo_attendee :: uuid
  yo_status :: collection_status
  yo_collected_at :: "int option"
  yo_collected_by :: "uuid option"
  yo_created_at :: int

definition to_collection_response :: "collection_view \<Rightarrow> collection_dto" where
  "to_collection_response v = (let c = cv_collection v in
     \<lparr>yo_id = kc_id c, yo_kit = kc_kit c, yo_kit_name = cv_kit_name v, yo_event = kc_event c, yo_attendee = kc_attendee c,
      yo_status = kc_status c, yo_collected_at = format_time_ptr (kc_collected_at c), yo_collected_by = kc_collected_by c,
      yo_created_at = format_time (kc_created_at c)\<rparr>)"

definition h_create_kit :: "kit_service \<Rightarrow> gate_context \<Rightarrow> http_request \<Rightarrow> kit_body option
    \<Rightarrow> ('z kit_state_scheme, kit_dto response) op" where
  "h_create_kit s cx rq body = with_staff cx (\<lambda>org staff. bind_json body (\<lambda>b.
     answer kit_error_status 201 to_kit_response
       (create_kit s org (rq_param rq ''eventId'') (yb_name b) (yb_description b) (yb_total b) staff)))"

definition h_list_kits :: "kit_service \<Rightarrow> gate_context \<Rightarrow> http_request \<Rightarrow> ('z kit_state_scheme, kit_dto list response) op" where
  "h_list_kits s cx rq = with_staff cx (\<lambda>org _.
     answer kit_error_status 200 (map to_kit_response) (list_kits s org (rq_param rq ''eventId'')))"

definition h_update_kit :: "kit_service \<Rightarrow> gate_context \<Rightarrow> http_request \<Rightarrow> update_kit_body option
    \<Rightarrow> ('z kit_state_scheme, kit_dto response) op" where
  "h_update_kit s cx rq body = with_staff cx (\<lambda>org staff. bind_json body (\<lambda>b.
     answer kit_error_status 200 to_kit_response
       (update_kit s org (rq_param rq ''eventId'') (rq_param rq ''kitId'') (yu_name b) (yu_description b) (yu_total b) staff)))"

definition h_delete_kit :: "kit_service \<Rightarrow> gate_context \<Rightarrow> http_request \<Rightarrow> ('z kit_state_scheme, unit response) op" where
  "h_delete_kit s cx rq = with_staff cx (\<lambda>org staff.
     answer kit_error_status 204 id (delete_kit s org (rq_param rq ''eventId'') (rq_param rq ''kitId'') staff))"

definition h_collect :: "kit_service \<Rightarrow> gate_context \<Rightarrow> http_request \<Rightarrow> collect_body option
    \<Rightarrow> ('z kit_state_scheme, collection_dto response) op" where
  "h_collect s cx rq body = with_staff cx (\<lambda>org staff. (case body of
       None \<Rightarrow> ret (Refused 400 ''attendeeId is required'')
     | Some b \<Rightarrow> if yc_attendee b = [] then ret (Refused 400 ''attendeeId is required'')
       else answer kit_error_status 201 to_collection_response
         (collect s org (rq_param rq ''eventId'') (rq_param rq ''kitId'') (yc_attendee b) (yc_reserve b) (yc_key b) staff)))"

definition h_mark_collected :: "kit_service \<Rightarrow> gate_context \<Rightarrow> http_request \<Rightarrow> ('z kit_state_scheme, collection_dto response) op" where
  "h_mark_collected s cx rq = with_staff cx (\<lambda>org staff. answer kit_error_status 200 to_collection_response
     (mark_collected s org (rq_param rq ''eventId'') (rq_param rq ''collectionId'') staff))"

definition h_void_collection :: "kit_service \<Rightarrow> gate_context \<Rightarrow> http_request \<Rightarrow> ('z kit_state_scheme, collection_dto response) op" where
  "h_void_collection s cx rq = with_staff cx (\<lambda>org staff. answer kit_error_status 200 to_collection_response
     (void_collection s org (rq_param rq ''eventId'') (rq_param rq ''collectionId'') staff))"

text \<open>The page size sent back is the length of the page.\<close>

definition collection_listing :: "collection_view list \<times> int \<Rightarrow> collection_dto listing" where
  "collection_listing = (\<lambda>(vs, total). \<lparr>ls_items = map to_collection_response vs, ls_total = total, ls_page = 1,
     ls_per_page = int (length vs)\<rparr>)"

text \<open>A filter of the query string: absent, or a UUID.\<close>

definition with_filter :: "lib \<Rightarrow> string \<Rightarrow> string \<Rightarrow> (uuid option \<Rightarrow> ('s, 'a response) op) \<Rightarrow> ('s, 'a response) op" where
  "with_filter l raw msg f = (if raw = [] then f None else with_id l raw 400 msg (\<lambda>i. f (Some i)))"

definition h_list_collections :: "kit_service \<Rightarrow> gate_context \<Rightarrow> http_request
    \<Rightarrow> ('z kit_state_scheme, collection_dto listing response) op" where
  "h_list_collections s cx rq = with_staff cx (\<lambda>org _.
     with_filter (ks_lib s) (rq_query rq ''kitId'') ''invalid kit id'' (\<lambda>kit0.
     with_filter (ks_lib s) (rq_query rq ''attendeeId'') ''invalid attendee id'' (\<lambda>att0.
     answer kit_error_status 200 collection_listing
       (list_collections s org (rq_param rq ''eventId'') kit0 att0 (rq_query rq ''status'')))))"

definition h_list_kit_collections :: "kit_service \<Rightarrow> gate_context \<Rightarrow> http_request
    \<Rightarrow> ('z kit_state_scheme, collection_dto listing response) op" where
  "h_list_kit_collections s cx rq = with_staff cx (\<lambda>org _.
     with_id (ks_lib s) (rq_param rq ''kitId'') 404 ''kit not found'' (\<lambda>i.
     answer kit_error_status 200 collection_listing
       (list_collections s org (rq_param rq ''eventId'') (Some i) None (rq_query rq ''status''))))"

end
