(* ===== verification/AccountHandlers.thy ===== *)
theory AccountHandlers
  imports Http
begin

text \<open>
  The handlers of authentication, the audit trail and platform administration (\<open>auth_handler.go\<close>, \<open>audit_handler.go\<close>,
  \<open>admin_handler.go\<close>).
\<close>

section \<open>Authentication\<close>

text \<open>The errors an endpoint tells apart; all others get a fixed 500.\<close>

definition answer_known :: "(err \<Rightarrow> int option) \<Rightarrow> string \<Rightarrow> int \<Rightarrow> ('a \<Rightarrow> 'b) \<Rightarrow> ('s, 'a) op \<Rightarrow> ('s, 'b response) op" where
  "answer_known status msg ok f m = bnd (attempt m) (\<lambda>r. ret (case r of
       Inl e \<Rightarrow> (case status e of Some st \<Rightarrow> Failed st e | None \<Rightarrow> Refused 500 msg)
     | Inr v \<Rightarrow> Answered ok (f v)))"

definition h_register :: "auth_service \<Rightarrow> register_input option \<Rightarrow> ('z auth_state_scheme, string response) op" where
  "h_register s body = bind_json body (\<lambda>b.
     answer_known (\<lambda>e. if e = AuthE ErrUserExists then Some 409 else None) ''registration failed'' 201
       (\<lambda>_. ''Verification email sent'') (register s b))"

definition token_error :: "err \<Rightarrow> int option" where
  "token_error e = (if e = AuthE ErrTokenUsed then Some 409 else if e = AuthE ErrInvalidToken then Some 400 else None)"

text \<open>The token comes in the body, or in the query of the link.\<close>

definition h_verify_email :: "auth_service \<Rightarrow> http_request \<Rightarrow> string option \<Rightarrow> ('z auth_state_scheme, string response) op" where
  "h_verify_email s rq body =
    (let token = (case body of Some (c # cs) \<Rightarrow> c # cs | _ \<Rightarrow> rq_query rq ''token'') in
     if token = [] then ret (Refused 400 ''token is required'')
     else answer_known token_error ''verification failed'' 200 (\<lambda>_. ''Email verified'') (verify_email s token))"

definition h_verify_by_code :: "auth_service \<Rightarrow> (string \<times> string) option \<Rightarrow> ('z auth_state_scheme, string response) op" where
  "h_verify_by_code s body = bind_json body (\<lambda>(email, code).
     answer_known (\<lambda>e. if e = AuthE ErrOTPAttemptsExceeded then Some 429 else if e = AuthE ErrInvalidToken then Some 400 else None)
       ''verification failed'' 200 (\<lambda>_. ''Email verified'') (verify_by_code s email code))"

definition h_resend_verification :: "auth_service \<Rightarrow> string option \<Rightarrow> ('z auth_state_scheme, string response) op" where
  "h_resend_verification s body = bind_json body (\<lambda>email.
     answer_known (\<lambda>e. if e = AuthE ErrTooManyRequests then Some 429 else None)
       ''resend failed'' 200 (\<lambda>_. ''Verification email sent'') (resend_verification s email))"

definition login_error :: "err \<Rightarrow> int option" where
  "login_error e = (if e = AuthE ErrInvalidCredentials then Some 401 else if e = AuthE ErrEmailNotVerified then Some 403
     else if e \<in> {AuthE ErrAccountSuspended, AuthE ErrAccountDeleted, AuthE ErrAccountInactive} then Some 403 else None)"

text \<open>\<open>ctx\<close>: the client address, \<open>User-Agent\<close> and \<open>X-Device-Name\<close> as Gin reads them.\<close>

definition h_login :: "auth_service \<Rightarrow> login_context \<Rightarrow> (string \<times> string) option
    \<Rightarrow> ('z auth_state_scheme, token_pair response) op" where
  "h_login s ctx body = bind_json body (\<lambda>(email, pw).
     answer_known login_error ''login failed'' 200 id (login s email pw ctx))"

definition h_refresh :: "auth_service \<Rightarrow> string option \<Rightarrow> ('z auth_state_scheme, token_pair response) op" where
  "h_refresh s body = bind_json body (\<lambda>token.
     answer_or 401 ''invalid or expired refresh token'' 200 id (refresh s token))"

definition h_logout :: "auth_service \<Rightarrow> gate_context \<Rightarrow> ('z auth_state_scheme, string response) op" where
  "h_logout s cx = (case from_context (gx_session cx) of
       None \<Rightarrow> ret (Refused 401 ''unauthorized'')
     | Some i \<Rightarrow> answer_or 500 ''logout failed'' 200 (\<lambda>_. ''Logged out'') (logout s i))"

text \<open>The memberships are best effort.\<close>

definition h_me :: "gate_context \<Rightarrow> ('z org_state_scheme, (me_dto \<times> org_membership_dto list) response) op" where
  "h_me cx = with_user cx (\<lambda>user. bnd (attempt (me user)) (\<lambda>r. case r of
       Inl _ \<Rightarrow> ret (Refused 401 ''user not found'')
     | Inr d \<Rightarrow> bnd (attempt (list_org_memberships user)) (\<lambda>ms.
         ret (Answered 200 (d, case ms of Inl _ \<Rightarrow> [] | Inr xs \<Rightarrow> xs)))))"

text \<open>Whatever the service says, the answer is the same: whether an account exists is not told.\<close>

definition h_forgot_password :: "auth_service \<Rightarrow> string option \<Rightarrow> ('z auth_state_scheme, string response) op" where
  "h_forgot_password s body = bind_json body (\<lambda>email. bnd (attempt (forgot_password s email)) (\<lambda>_.
     ret (Answered 200 ''If the email exists, a reset link was sent'')))"

definition h_reset_password :: "auth_service \<Rightarrow> (string \<times> string) option \<Rightarrow> ('z auth_state_scheme, string response) op" where
  "h_reset_password s body = bind_json body (\<lambda>(token, pw).
     answer_known token_error ''reset failed'' 200 (\<lambda>_. ''Password reset successful'') (reset_password s token pw))"

section \<open>The audit trail\<close>

definition no_audit_filter :: audit_filter where
  "no_audit_filter = \<lparr>af_org = None, af_action = [], af_actor = None, af_object_type = [], af_object_id = None,
     af_since = None, af_until = None, af_page = 0, af_per_page = 0\<rparr>"

text \<open>One optional query parameter: absent leaves the filter alone.\<close>

definition query_field :: "string \<Rightarrow> (string \<Rightarrow> 'b option) \<Rightarrow> string \<Rightarrow> ('b \<Rightarrow> audit_filter \<Rightarrow> audit_filter)
    \<Rightarrow> string + audit_filter \<Rightarrow> string + audit_filter" where
  "query_field raw p msg upd r = (case r of Inl m \<Rightarrow> Inl m
     | Inr f \<Rightarrow> if raw = [] then Inr f else (case p raw of None \<Rightarrow> Inl msg | Some v \<Rightarrow> Inr (upd v f)))"

definition parse_audit_filter :: "lib \<Rightarrow> (string \<Rightarrow> instant option) \<Rightarrow> http_request \<Rightarrow> string + audit_filter" where
  "parse_audit_filter l p rq =
     query_field (rq_query rq ''perPage'') (\<lambda>t. strict_int t 0 (\<lambda>n. \<not> (n < 1 \<or> n > 100))) ''invalid perPage filter''
       (\<lambda>n f. f\<lparr>af_per_page := n\<rparr>) (
     query_field (rq_query rq ''page'') (\<lambda>t. strict_int t 0 (\<lambda>n. \<not> n < 1)) ''invalid page filter''
       (\<lambda>n f. f\<lparr>af_page := n\<rparr>) (
     query_field (rq_query rq ''until'') p ''invalid until filter'' (\<lambda>t f. f\<lparr>af_until := Some t\<rparr>) (
     query_field (rq_query rq ''since'') p ''invalid since filter'' (\<lambda>t f. f\<lparr>af_since := Some t\<rparr>) (
     query_field (rq_query rq ''objectId'') (uuid_parse l) ''invalid objectId filter'' (\<lambda>i f. f\<lparr>af_object_id := Some i\<rparr>) (
     query_field (rq_query rq ''actor'') (uuid_parse l) ''invalid actor filter'' (\<lambda>i f. f\<lparr>af_actor := Some i\<rparr>) (
     Inr (no_audit_filter\<lparr>af_action := rq_query rq ''action'', af_object_type := rq_query rq ''objectType''\<rparr>)))))))"

record audit_dto =
  ay_id :: uuid
  ay_org :: "uuid option"
  ay_actor :: "uuid option"
  ay_action :: string
  ay_object_type :: string
  ay_object_id :: "uuid option"
  ay_before :: "diff option"
  ay_after :: "diff option"
  ay_created_at :: int

text \<open>Address and user agent are not shown.\<close>

definition to_audit_event :: "audit_event \<Rightarrow> audit_dto" where
  "to_audit_event e = \<lparr>ay_id = av_id e, ay_org = av_org e, ay_actor = av_actor e, ay_action = av_action e,
     ay_object_type = av_object_type e, ay_object_id = av_object_id e, ay_before = av_before e, ay_after = av_after e,
     ay_created_at = format_time (av_created_at e)\<rparr>"

definition h_audit_list :: "audit_filter \<Rightarrow> ('z core_state_scheme, audit_dto listing response) op" where
  "h_audit_list f = answer (\<lambda>_. 400) 200 (\<lambda>(items, total).
     \<lparr>ls_items = map to_audit_event items, ls_total = total, ls_page = (if af_page f < 1 then 1 else af_page f),
      ls_per_page = (if af_per_page f < 1 \<or> af_per_page f > 100 then 20 else af_per_page f)\<rparr>) (audit_list f)"

definition h_audit_org :: "lib \<Rightarrow> (string \<Rightarrow> instant option) \<Rightarrow> gate_context \<Rightarrow> http_request
    \<Rightarrow> ('z core_state_scheme, audit_dto listing response) op" where
  "h_audit_org l p cx rq = with_org cx (\<lambda>org. (case parse_audit_filter l p rq of
       Inl msg \<Rightarrow> ret (Refused 400 msg) | Inr f \<Rightarrow> h_audit_list (f\<lparr>af_org := Some org\<rparr>)))"

definition h_audit_platform :: "lib \<Rightarrow> (string \<Rightarrow> instant option) \<Rightarrow> http_request
    \<Rightarrow> ('z core_state_scheme, audit_dto listing response) op" where
  "h_audit_platform l p rq = (case parse_audit_filter l p rq of
       Inl msg \<Rightarrow> ret (Refused 400 msg)
     | Inr f \<Rightarrow> if rq_query rq ''org'' = [] then h_audit_list f
       else with_id l (rq_query rq ''org'') 400 ''invalid org filter'' (\<lambda>org. h_audit_list (f\<lparr>af_org := Some org\<rparr>)))"

section \<open>Administration\<close>

definition with_strict_page :: "http_request \<Rightarrow> (page_args \<Rightarrow> ('s, 'a response) op) \<Rightarrow> ('s, 'a response) op" where
  "with_strict_page rq f = (case strict_page rq of None \<Rightarrow> ret (Refused 400 ''invalid pagination'')
     | Some (p, n) \<Rightarrow> f \<lparr>pg_page = p, pg_per_page = n, pg_limit = n, pg_offset = wrap64 ((p - 1) * n)\<rparr>)"

record admin_org_dto =
  ao_id :: uuid
  ao_name :: string
  ao_slug :: string
  ao_members :: int
  ao_created_at :: int

definition to_admin_org :: "organization \<times> int \<Rightarrow> admin_org_dto" where
  "to_admin_org = (\<lambda>(og, n). \<lparr>ao_id = og_id og, ao_name = og_name og, ao_slug = og_slug og, ao_members = n,
     ao_created_at = format_time (og_created_at og)\<rparr>)"

definition h_admin_orgs :: "admin_service \<Rightarrow> gate_context \<Rightarrow> http_request
    \<Rightarrow> ('z org_state_scheme, admin_org_dto listing response) op" where
  "h_admin_orgs s cx rq = with_user cx (\<lambda>actor. with_strict_page rq (\<lambda>pg.
     answer (\<lambda>_. 400) 200 (\<lambda>(xs, n). listing_of pg (map to_admin_org xs, n))
       (admin_list_orgs s actor (rq_query rq ''q'') (pg_limit pg) (pg_offset pg))))"

record user_summary =
  uy_id :: uuid
  uy_email :: string
  uy_name :: string
  uy_verified :: bool
  uy_admin :: bool
  uy_created_at :: int

definition to_user_summary :: "user \<Rightarrow> bool \<Rightarrow> user_summary" where
  "to_user_summary u admin = \<lparr>uy_id = us_id u, uy_email = us_email u, uy_name = display_name_of (Some u),
     uy_verified = us_email_verified u, uy_admin = admin, uy_created_at = format_time (us_created_at u)\<rparr>"

record member_row_dto =
  my_user :: uuid
  my_email :: string
  my_name :: string
  my_role :: member_role
  my_verified :: bool
  my_joined_at :: int

definition to_member_row :: "user \<times> member_role \<times> instant \<Rightarrow> member_row_dto" where
  "to_member_row = (\<lambda>(u, r, joined). \<lparr>my_user = us_id u, my_email = us_email u, my_name = display_name_of (Some u),
     my_role = r, my_verified = us_email_verified u, my_joined_at = format_time joined\<rparr>)"

record org_detail_dto =
  al_id :: uuid
  al_name :: string
  al_slug :: string
  al_members :: "member_row_dto list"
  al_created_at :: int

definition to_org_detail :: "organization \<times> (user \<times> member_role \<times> instant) list \<Rightarrow> org_detail_dto" where
  "to_org_detail = (\<lambda>(og, ms). \<lparr>al_id = og_id og, al_name = og_name og, al_slug = og_slug og,
     al_members = map to_member_row ms, al_created_at = format_time (og_created_at og)\<rparr>)"

definition h_admin_org :: "admin_service \<Rightarrow> gate_context \<Rightarrow> http_request \<Rightarrow> ('z org_state_scheme, org_detail_dto response) op" where
  "h_admin_org s cx rq = with_user cx (\<lambda>actor.
     with_id (ad_lib s) (rq_param rq ''id'') 400 ''invalid org id'' (\<lambda>i.
     answer admin_error_status 200 to_org_detail (admin_get_org s actor i)))"

definition h_admin_users :: "admin_service \<Rightarrow> gate_context \<Rightarrow> http_request
    \<Rightarrow> ('z iam_state_scheme, user_summary listing response) op" where
  "h_admin_users s cx rq = with_user cx (\<lambda>actor. with_strict_page rq (\<lambda>pg.
     answer (\<lambda>_. 400) 200 (\<lambda>(xs, n). listing_of pg (map (\<lambda>(u, b). to_user_summary u b) xs, n))
       (admin_search_users s actor (rq_query rq ''q'') (pg_limit pg) (pg_offset pg))))"

record tenancy_dto =
  ty_org :: uuid
  ty_name :: string
  ty_slug :: string
  ty_role :: member_role
  ty_joined_at :: int

definition to_tenancy :: "organization \<times> member_role \<times> instant \<Rightarrow> tenancy_dto" where
  "to_tenancy = (\<lambda>(og, r, joined). \<lparr>ty_org = og_id og, ty_name = og_name og, ty_slug = og_slug og, ty_role = r,
     ty_joined_at = format_time joined\<rparr>)"

definition h_admin_user :: "admin_service \<Rightarrow> gate_context \<Rightarrow> http_request
    \<Rightarrow> ('z org_state_scheme, (user_summary \<times> tenancy_dto list) response) op" where
  "h_admin_user s cx rq = with_user cx (\<lambda>actor.
     with_id (ad_lib s) (rq_param rq ''id'') 400 ''invalid user id'' (\<lambda>i.
     answer admin_error_status 200 (\<lambda>(u, b, ts). (to_user_summary u b, map to_tenancy ts)) (admin_get_user s actor i)))"

definition h_admin_user_orders :: "admin_service \<Rightarrow> gate_context \<Rightarrow> http_request
    \<Rightarrow> ('z order_state_scheme, order_dto listing response) op" where
  "h_admin_user_orders s cx rq = with_user cx (\<lambda>actor.
     with_id (ad_lib s) (rq_param rq ''id'') 400 ''invalid user id'' (\<lambda>i. with_strict_page rq (\<lambda>pg.
     answer admin_error_status 200 (listing_of pg) (admin_list_user_orders s actor i (pg_limit pg) (pg_offset pg)))))"

definition h_reseed :: "admin_service \<Rightarrow> gate_context \<Rightarrow> http_request \<Rightarrow> ('z org_state_scheme, policy_diff response) op" where
  "h_reseed s cx rq = with_user cx (\<lambda>actor.
     with_id (ad_lib s) (rq_param rq ''id'') 400 ''invalid org id'' (\<lambda>i.
     answer admin_error_status 200 id (reseed_org_policies s actor i)))"

definition h_sync_user :: "admin_service \<Rightarrow> gate_context \<Rightarrow> http_request \<Rightarrow> ('z org_state_scheme, policy_diff response) op" where
  "h_sync_user s cx rq = with_user cx (\<lambda>actor.
     with_id (ad_lib s) (rq_param rq ''id'') 400 ''invalid user id'' (\<lambda>i.
     answer admin_error_status 200 id (admin_sync_user s actor i)))"

end
