(* ===== verification/Routes.thy ===== *)
theory Routes
  imports EventHandlers OrgHandlers DoorHandlers AccountHandlers Market
begin

text \<open>
  The routes (\<open>internal/*/routes.go\<close>): one constructor per endpoint, a datatype per file, with what the binder made of its body; the
  middlewares in front of it (\<open>guard_of\<close>); and the handler behind it (\<open>handle\<close>). \<open>serve\<close> runs a request through both. Matching
  a path against the patterns is Gin's; a request comes with its endpoint and path parameters.
\<close>

datatype auth_call =
    Post_register "register_input option" | Verify_link "string option" | Post_verify_code "(string \<times> string) option"
  | Post_resend "string option" | Post_login login_context "(string \<times> string) option" | Post_refresh "string option"
  | Post_forgot "string option" | Post_reset "(string \<times> string) option" | Post_logout | Get_me

datatype org_call =
    Post_org "org_body option" | Get_my_orgs | Post_accept "string option" | Post_decline "string option"
  | Get_org | Get_members | Delete_member_at | Patch_me "bool option option" | Patch_org "update_org_body option"
  | Post_member "member_body option" | Patch_member "string option" | Post_invite "member_body option" | Get_invites
  | Delete_invite | Get_roles | Post_role "role_body option" | Patch_role "permission list option" | Delete_role_at
  | Post_assign "string option" | Post_unassign "string option" | Post_api_key "api_key_body option" | Get_api_keys
  | Delete_api_key | Delete_org_at

datatype event_call =
    Get_public_events "(wire_filter \<times> string) option" | Get_public_event_at | Get_org_events "(wire_filter \<times> string) option"
  | Post_event "create_event_body option" | Get_org_event | Patch_event "update_event_body option" | Delete_event_at
  | Post_publish | Post_unpublish | Post_cancel_event | Post_cover "upload option" | Post_images "upload list option" | Get_images

datatype ticket_call =
    Get_public_tickets | Get_tickets | Post_ticket "create_ticket_body option" | Get_ticket
  | Patch_ticket "update_ticket_body option" | Delete_ticket_at | Post_activate | Post_pause

datatype order_call = Post_order "create_order_body option" | Get_my_orders | Get_order_at | Post_cancel_order

datatype payment_call = Post_checkout | Post_stripe string string

datatype billing_call = Get_plans | Get_subscription_at | Post_sub_checkout "string option" | Post_portal

datatype attendee_call =
    Get_mine | Get_my_attendee | Post_cancel_mine | Get_roster | Post_attendee "attendee_body option"
  | Patch_attendee "correct_body option"

datatype checkin_call = Post_scan "scan_body option" | Post_batch "string list option" | Post_revert "string option" | Get_stats

datatype kit_call =
    Post_kit "kit_body option" | Get_kits | Patch_kit "update_kit_body option" | Delete_kit_at | Post_collect "collect_body option"
  | Get_kit_collections | Get_collections | Post_mark_collected | Post_void

datatype audit_call = Get_audit | Get_platform_audit

datatype admin_call =
    Get_admin_orgs | Get_admin_org | Post_reseed | Get_admin_users | Get_admin_user | Get_admin_orders | Post_sync_user

datatype endpoint =
    AuthCall auth_call | OrgCall org_call | EventCall event_call | TicketCall ticket_call | OrderCall order_call
  | PaymentCall payment_call | BillingCall billing_call | AttendeeCall attendee_call | CheckinCall checkin_call | KitCall kit_call
  | AuditCall audit_call | AdminCall admin_call

section \<open>Guards\<close>

text \<open>The chains of middlewares: none, \<open>RequireAuth\<close>, with \<open>RequireOrgContext\<close>, with \<open>RequirePermission\<close>, and with
  \<open>RequireSuperAdmin\<close>.\<close>

datatype guards = Open | Signed | Inside | Allowed string string | Platform

fun auth_guard :: "auth_call \<Rightarrow> guards" where
  "auth_guard (Post_register _) = Open"
| "auth_guard (Verify_link _) = Open"
| "auth_guard (Post_verify_code _) = Open"
| "auth_guard (Post_resend _) = Open"
| "auth_guard (Post_login _ _) = Open"
| "auth_guard (Post_refresh _) = Open"
| "auth_guard (Post_forgot _) = Open"
| "auth_guard (Post_reset _) = Open"
| "auth_guard Post_logout = Signed"
| "auth_guard Get_me = Signed"

fun org_guard :: "org_call \<Rightarrow> guards" where
  "org_guard (Post_org _) = Signed"
| "org_guard Get_my_orgs = Signed"
| "org_guard (Post_accept _) = Signed"
| "org_guard (Post_decline _) = Signed"
| "org_guard Get_org = Allowed ''org'' ''read''"
| "org_guard Get_members = Allowed ''member'' ''read''"
| "org_guard Delete_member_at = Inside"
| "org_guard (Patch_me _) = Inside"
| "org_guard (Patch_org _) = Allowed ''org'' ''update''"
| "org_guard (Post_member _) = Allowed ''member'' ''create''"
| "org_guard (Patch_member _) = Allowed ''member'' ''update''"
| "org_guard (Post_invite _) = Allowed ''invite'' ''create''"
| "org_guard Get_invites = Allowed ''invite'' ''read''"
| "org_guard Delete_invite = Allowed ''invite'' ''delete''"
| "org_guard Get_roles = Allowed ''role'' ''read''"
| "org_guard (Post_role _) = Allowed ''role'' ''create''"
| "org_guard (Patch_role _) = Allowed ''role'' ''update''"
| "org_guard Delete_role_at = Allowed ''role'' ''delete''"
| "org_guard (Post_assign _) = Allowed ''role'' ''update''"
| "org_guard (Post_unassign _) = Allowed ''role'' ''update''"
| "org_guard (Post_api_key _) = Allowed ''apikey'' ''create''"
| "org_guard Get_api_keys = Allowed ''apikey'' ''read''"
| "org_guard Delete_api_key = Allowed ''apikey'' ''delete''"
| "org_guard Delete_org_at = Allowed ''org'' ''delete''"

fun event_guard :: "event_call \<Rightarrow> guards" where
  "event_guard (Get_public_events _) = Open"
| "event_guard Get_public_event_at = Open"
| "event_guard (Get_org_events _) = Allowed ''event'' ''read''"
| "event_guard (Post_event _) = Allowed ''event'' ''create''"
| "event_guard Get_org_event = Allowed ''event'' ''read''"
| "event_guard (Patch_event _) = Allowed ''event'' ''update''"
| "event_guard Delete_event_at = Allowed ''event'' ''delete''"
| "event_guard Post_publish = Allowed ''event'' ''publish''"
| "event_guard Post_unpublish = Allowed ''event'' ''publish''"
| "event_guard Post_cancel_event = Allowed ''event'' ''publish''"
| "event_guard (Post_cover _) = Allowed ''event'' ''update''"
| "event_guard (Post_images _) = Allowed ''event'' ''update''"
| "event_guard Get_images = Allowed ''event'' ''read''"

fun ticket_guard :: "ticket_call \<Rightarrow> guards" where
  "ticket_guard Get_public_tickets = Open"
| "ticket_guard Get_tickets = Allowed ''ticket'' ''read''"
| "ticket_guard (Post_ticket _) = Allowed ''ticket'' ''create''"
| "ticket_guard Get_ticket = Allowed ''ticket'' ''read''"
| "ticket_guard (Patch_ticket _) = Allowed ''ticket'' ''update''"
| "ticket_guard Delete_ticket_at = Allowed ''ticket'' ''delete''"
| "ticket_guard Post_activate = Allowed ''ticket'' ''update''"
| "ticket_guard Post_pause = Allowed ''ticket'' ''update''"

fun order_guard :: "order_call \<Rightarrow> guards" where
  "order_guard (Post_order _) = Signed"
| "order_guard Get_my_orders = Signed"
| "order_guard Get_order_at = Signed"
| "order_guard Post_cancel_order = Signed"

fun payment_guard :: "payment_call \<Rightarrow> guards" where
  "payment_guard Post_checkout = Signed"
| "payment_guard (Post_stripe _ _) = Open"

fun billing_guard :: "billing_call \<Rightarrow> guards" where
  "billing_guard Get_plans = Open"
| "billing_guard Get_subscription_at = Inside"
| "billing_guard (Post_sub_checkout _) = Inside"
| "billing_guard Post_portal = Inside"

fun attendee_guard :: "attendee_call \<Rightarrow> guards" where
  "attendee_guard Get_mine = Signed"
| "attendee_guard Get_my_attendee = Signed"
| "attendee_guard Post_cancel_mine = Signed"
| "attendee_guard Get_roster = Allowed ''attendee'' ''read''"
| "attendee_guard (Post_attendee _) = Allowed ''attendee'' ''create''"
| "attendee_guard (Patch_attendee _) = Allowed ''attendee'' ''update''"

fun checkin_guard :: "checkin_call \<Rightarrow> guards" where
  "checkin_guard (Post_scan _) = Allowed ''checkin'' ''create''"
| "checkin_guard (Post_batch _) = Allowed ''checkin'' ''create''"
| "checkin_guard (Post_revert _) = Allowed ''checkin'' ''update''"
| "checkin_guard Get_stats = Allowed ''checkin'' ''read''"

fun kit_guard :: "kit_call \<Rightarrow> guards" where
  "kit_guard (Post_kit _) = Allowed ''kit'' ''create''"
| "kit_guard Get_kits = Allowed ''kit'' ''read''"
| "kit_guard (Patch_kit _) = Allowed ''kit'' ''update''"
| "kit_guard Delete_kit_at = Allowed ''kit'' ''delete''"
| "kit_guard (Post_collect _) = Allowed ''kit'' ''update''"
| "kit_guard Get_kit_collections = Allowed ''kit'' ''read''"
| "kit_guard Get_collections = Allowed ''kit'' ''read''"
| "kit_guard Post_mark_collected = Allowed ''kit'' ''update''"
| "kit_guard Post_void = Allowed ''kit'' ''update''"

fun audit_guard :: "audit_call \<Rightarrow> guards" where
  "audit_guard Get_audit = Allowed ''audit'' ''read''"
| "audit_guard Get_platform_audit = Platform"

fun admin_guard :: "admin_call \<Rightarrow> guards" where
  "admin_guard Get_admin_orgs = Platform"
| "admin_guard Get_admin_org = Platform"
| "admin_guard Post_reseed = Platform"
| "admin_guard Get_admin_users = Platform"
| "admin_guard Get_admin_user = Platform"
| "admin_guard Get_admin_orders = Platform"
| "admin_guard Post_sync_user = Platform"

fun guard_of :: "endpoint \<Rightarrow> guards" where
  "guard_of (AuthCall c) = auth_guard c"
| "guard_of (OrgCall c) = org_guard c"
| "guard_of (EventCall c) = event_guard c"
| "guard_of (TicketCall c) = ticket_guard c"
| "guard_of (OrderCall c) = order_guard c"
| "guard_of (PaymentCall c) = payment_guard c"
| "guard_of (BillingCall c) = billing_guard c"
| "guard_of (AttendeeCall c) = attendee_guard c"
| "guard_of (CheckinCall c) = checkin_guard c"
| "guard_of (KitCall c) = kit_guard c"
| "guard_of (AuditCall c) = audit_guard c"
| "guard_of (AdminCall c) = admin_guard c"

definition admit :: "auth_service \<Rightarrow> guards \<Rightarrow> http_request \<Rightarrow> ('z org_state_scheme, refusal + gate_context) op" where
  "admit s g rq = (let signed = require_auth s (rq_key_header rq) (rq_auth_header rq);
       inside = then_gate signed (require_org_context (au_lib s) (rq_param rq ''id'')) in
     case g of Open \<Rightarrow> ret (Inr empty_context) | Signed \<Rightarrow> signed | Inside \<Rightarrow> inside
     | Allowed ob ac \<Rightarrow> then_gate inside (require_permission (au_lib s) ob ac)
     | Platform \<Rightarrow> then_gate signed (require_super_admin (au_lib s)))"

fun refusal_status :: "refusal \<Rightarrow> int" where
  "refusal_status Unauthorized = 401"
| "refusal_status BadRequest = 400"
| "refusal_status Forbidden = 403"
| "refusal_status NotFound = 404"

section \<open>Serving a request\<close>

definition status :: "('s, 'a response) op \<Rightarrow> ('s, int) op" where
  "status m = bnd m (\<lambda>r. ret (status_of r))"

fun handle_auth :: "system \<Rightarrow> http_request \<Rightarrow> gate_context \<Rightarrow> auth_call \<Rightarrow> ('z order_state_scheme, int) op" where
  "handle_auth y rq cx (Post_register b) = status (h_register (sy_auth y) b)"
| "handle_auth y rq cx (Verify_link b) = status (h_verify_email (sy_auth y) rq b)"
| "handle_auth y rq cx (Post_verify_code b) = status (h_verify_by_code (sy_auth y) b)"
| "handle_auth y rq cx (Post_resend b) = status (h_resend_verification (sy_auth y) b)"
| "handle_auth y rq cx (Post_login ctx b) = status (h_login (sy_auth y) ctx b)"
| "handle_auth y rq cx (Post_refresh b) = status (h_refresh (sy_auth y) b)"
| "handle_auth y rq cx (Post_forgot b) = status (h_forgot_password (sy_auth y) b)"
| "handle_auth y rq cx (Post_reset b) = status (h_reset_password (sy_auth y) b)"
| "handle_auth y rq cx Post_logout = status (h_logout (sy_auth y) cx)"
| "handle_auth y rq cx Get_me = status (h_me cx)"

fun handle_org :: "system \<Rightarrow> http_request \<Rightarrow> gate_context \<Rightarrow> org_call \<Rightarrow> ('z order_state_scheme, int) op" where
  "handle_org y rq cx (Post_org b) = status (h_create_org (sy_orgs y) cx b)"
| "handle_org y rq cx Get_my_orgs = status (h_list_my_orgs cx)"
| "handle_org y rq cx (Post_accept b) = status (h_accept_invite (sy_orgs y) cx b)"
| "handle_org y rq cx (Post_decline b) = status (h_decline_invite (sy_orgs y) cx b)"
| "handle_org y rq cx Get_org = status (h_get_org (sy_orgs y) cx rq)"
| "handle_org y rq cx Get_members = status (h_list_members (sy_orgs y) cx rq)"
| "handle_org y rq cx Delete_member_at = status (h_remove_member (sy_orgs y) cx rq)"
| "handle_org y rq cx (Patch_me b) = status (h_update_preferences (sy_orgs y) cx rq b)"
| "handle_org y rq cx (Patch_org b) = status (h_update_org (sy_orgs y) cx rq b)"
| "handle_org y rq cx (Post_member b) = status (h_add_member (sy_orgs y) cx rq b)"
| "handle_org y rq cx (Patch_member b) = status (h_update_member_role (sy_orgs y) cx rq b)"
| "handle_org y rq cx (Post_invite b) = status (h_invite_member (sy_orgs y) cx rq b)"
| "handle_org y rq cx Get_invites = status (h_list_invites (sy_orgs y) cx rq)"
| "handle_org y rq cx Delete_invite = status (h_revoke_invite (sy_orgs y) cx rq)"
| "handle_org y rq cx Get_roles = status (h_list_roles (sy_orgs y) cx rq)"
| "handle_org y rq cx (Post_role b) = status (h_define_role (sy_orgs y) cx rq b)"
| "handle_org y rq cx (Patch_role b) = status (h_update_role (sy_orgs y) cx rq b)"
| "handle_org y rq cx Delete_role_at = status (h_delete_role (sy_orgs y) cx rq)"
| "handle_org y rq cx (Post_assign b) = status (h_assign_role (sy_orgs y) (sy_survives y) cx rq b)"
| "handle_org y rq cx (Post_unassign b) = status (h_unassign_role (sy_orgs y) (sy_survives y) cx rq b)"
| "handle_org y rq cx (Post_api_key b) = status (h_create_api_key (sy_orgs y) (es_parse_time (sy_events y)) cx rq b)"
| "handle_org y rq cx Get_api_keys = status (h_list_api_keys (sy_orgs y) cx rq)"
| "handle_org y rq cx Delete_api_key = status (h_revoke_api_key (sy_orgs y) cx rq)"
| "handle_org y rq cx Delete_org_at = status (h_delete_org (sy_orgs y) (Some (delete_org_assets (sy_events y))) cx rq)"

fun handle_event :: "system \<Rightarrow> http_request \<Rightarrow> gate_context \<Rightarrow> event_call \<Rightarrow> ('z order_state_scheme, int) op" where
  "handle_event y rq cx (Get_public_events f) = status (h_list_public_events (sy_events y) rq f)"
| "handle_event y rq cx Get_public_event_at = status (h_get_public_event (sy_events y) rq)"
| "handle_event y rq cx (Get_org_events f) = status (h_list_org_events (sy_events y) rq f)"
| "handle_event y rq cx (Post_event b) = status (h_create_event (sy_events y) cx rq b)"
| "handle_event y rq cx Get_org_event = status (h_get_org_event (sy_events y) cx rq)"
| "handle_event y rq cx (Patch_event b) = status (h_update_event (sy_events y) cx rq b)"
| "handle_event y rq cx Delete_event_at = status (h_delete_event (sy_events y) cx rq)"
| "handle_event y rq cx Post_publish = status (h_publish_event (sy_events y) cx rq)"
| "handle_event y rq cx Post_unpublish = status (h_unpublish_event (sy_events y) cx rq)"
| "handle_event y rq cx Post_cancel_event = status (h_cancel_event (sy_events y) cx rq)"
| "handle_event y rq cx (Post_cover u) = status (h_upload_cover (sy_events y) rq u)"
| "handle_event y rq cx (Post_images us) = status (h_upload_gallery (sy_events y) rq us)"
| "handle_event y rq cx Get_images = status (h_list_images (sy_events y) rq)"

fun handle_ticket :: "system \<Rightarrow> http_request \<Rightarrow> gate_context \<Rightarrow> ticket_call \<Rightarrow> ('z order_state_scheme, int) op" where
  "handle_ticket y rq cx Get_public_tickets = status (h_list_public_tickets (sy_tickets y) rq)"
| "handle_ticket y rq cx Get_tickets = status (h_list_tickets (sy_tickets y) cx rq)"
| "handle_ticket y rq cx (Post_ticket b) = status (h_create_ticket (sy_tickets y) cx rq b)"
| "handle_ticket y rq cx Get_ticket = status (h_get_ticket (sy_tickets y) cx rq)"
| "handle_ticket y rq cx (Patch_ticket b) = status (h_update_ticket (sy_tickets y) cx rq b)"
| "handle_ticket y rq cx Delete_ticket_at = status (h_delete_ticket (sy_tickets y) cx rq)"
| "handle_ticket y rq cx Post_activate = status (h_activate_ticket (sy_tickets y) cx rq)"
| "handle_ticket y rq cx Post_pause = status (h_pause_ticket (sy_tickets y) cx rq)"

fun handle_order :: "system \<Rightarrow> http_request \<Rightarrow> gate_context \<Rightarrow> order_call \<Rightarrow> ('z order_state_scheme, int) op" where
  "handle_order y rq cx (Post_order b) = status (h_create_order (sy_orders y) cx rq b)"
| "handle_order y rq cx Get_my_orders = status (h_list_my_orders cx rq)"
| "handle_order y rq cx Get_order_at = status (h_get_order (sy_orders y) cx rq)"
| "handle_order y rq cx Post_cancel_order = status (h_cancel_order (sy_orders y) cx rq)"

fun handle_payment :: "system \<Rightarrow> string \<Rightarrow> http_request \<Rightarrow> gate_context \<Rightarrow> payment_call \<Rightarrow> ('z order_state_scheme, int) op" where
  "handle_payment y app rq cx Post_checkout = checkout_handler (sy_payments y) (caller_id cx) (rq_param rq ''id'') app"
| "handle_payment y app rq cx (Post_stripe payload sig) = bnd (stripe_webhook (sy_payments y) payload sig) (\<lambda>r. ret (fst r))"

fun handle_billing :: "system \<Rightarrow> string \<Rightarrow> gate_context \<Rightarrow> billing_call \<Rightarrow> ('z order_state_scheme, int) op" where
  "handle_billing y app cx Get_plans = status (h_get_plans (sy_billing y))"
| "handle_billing y app cx Get_subscription_at = status (h_get_subscription cx)"
| "handle_billing y app cx (Post_sub_checkout b) = status (h_start_checkout (sy_billing y) cx b)"
| "handle_billing y app cx Post_portal = status (h_create_portal (sy_billing y) app cx)"

fun handle_attendee :: "system \<Rightarrow> http_request \<Rightarrow> gate_context \<Rightarrow> attendee_call \<Rightarrow> ('z order_state_scheme, int) op" where
  "handle_attendee y rq cx Get_mine = status (h_list_mine cx rq)"
| "handle_attendee y rq cx Get_my_attendee = status (h_get_mine (sy_attendees y) cx rq)"
| "handle_attendee y rq cx Post_cancel_mine = status (h_cancel_mine (sy_attendees y) cx rq)"
| "handle_attendee y rq cx Get_roster = status (h_list_roster (sy_attendees y) cx rq)"
| "handle_attendee y rq cx (Post_attendee b) = status (h_add_attendee (sy_attendees y) cx rq b)"
| "handle_attendee y rq cx (Patch_attendee b) = status (h_correct_attendee (sy_attendees y) cx rq b)"

fun handle_checkin :: "system \<Rightarrow> http_request \<Rightarrow> gate_context \<Rightarrow> checkin_call \<Rightarrow> ('z order_state_scheme, int) op" where
  "handle_checkin y rq cx (Post_scan b) = status (h_scan (sy_checkins y) cx rq b)"
| "handle_checkin y rq cx (Post_batch b) = status (h_scan_batch (sy_checkins y) cx rq b)"
| "handle_checkin y rq cx (Post_revert b) = status (h_revert (sy_checkins y) cx rq b)"
| "handle_checkin y rq cx Get_stats = status (h_stats (sy_checkins y) cx rq)"

fun handle_kit :: "system \<Rightarrow> http_request \<Rightarrow> gate_context \<Rightarrow> kit_call \<Rightarrow> ('z order_state_scheme, int) op" where
  "handle_kit y rq cx (Post_kit b) = status (h_create_kit (sy_kits y) cx rq b)"
| "handle_kit y rq cx Get_kits = status (h_list_kits (sy_kits y) cx rq)"
| "handle_kit y rq cx (Patch_kit b) = status (h_update_kit (sy_kits y) cx rq b)"
| "handle_kit y rq cx Delete_kit_at = status (h_delete_kit (sy_kits y) cx rq)"
| "handle_kit y rq cx (Post_collect b) = status (h_collect (sy_kits y) cx rq b)"
| "handle_kit y rq cx Get_kit_collections = status (h_list_kit_collections (sy_kits y) cx rq)"
| "handle_kit y rq cx Get_collections = status (h_list_collections (sy_kits y) cx rq)"
| "handle_kit y rq cx Post_mark_collected = status (h_mark_collected (sy_kits y) cx rq)"
| "handle_kit y rq cx Post_void = status (h_void_collection (sy_kits y) cx rq)"

fun handle_audit :: "system \<Rightarrow> http_request \<Rightarrow> gate_context \<Rightarrow> audit_call \<Rightarrow> ('z order_state_scheme, int) op" where
  "handle_audit y rq cx Get_audit = status (h_audit_org (os_lib (sy_orgs y)) (es_parse_time (sy_events y)) cx rq)"
| "handle_audit y rq cx Get_platform_audit = status (h_audit_platform (os_lib (sy_orgs y)) (es_parse_time (sy_events y)) rq)"

fun handle_admin :: "system \<Rightarrow> http_request \<Rightarrow> gate_context \<Rightarrow> admin_call \<Rightarrow> ('z order_state_scheme, int) op" where
  "handle_admin y rq cx Get_admin_orgs = status (h_admin_orgs (sy_admin y) cx rq)"
| "handle_admin y rq cx Get_admin_org = status (h_admin_org (sy_admin y) cx rq)"
| "handle_admin y rq cx Post_reseed = status (h_reseed (sy_admin y) cx rq)"
| "handle_admin y rq cx Get_admin_users = status (h_admin_users (sy_admin y) cx rq)"
| "handle_admin y rq cx Get_admin_user = status (h_admin_user (sy_admin y) cx rq)"
| "handle_admin y rq cx Get_admin_orders = status (h_admin_user_orders (sy_admin y) cx rq)"
| "handle_admin y rq cx Post_sync_user = status (h_sync_user (sy_admin y) cx rq)"

fun handle :: "system \<Rightarrow> string \<Rightarrow> http_request \<Rightarrow> gate_context \<Rightarrow> endpoint \<Rightarrow> ('z order_state_scheme, int) op" where
  "handle y app rq cx (AuthCall c) = handle_auth y rq cx c"
| "handle y app rq cx (OrgCall c) = handle_org y rq cx c"
| "handle y app rq cx (EventCall c) = handle_event y rq cx c"
| "handle y app rq cx (TicketCall c) = handle_ticket y rq cx c"
| "handle y app rq cx (OrderCall c) = handle_order y rq cx c"
| "handle y app rq cx (PaymentCall c) = handle_payment y app rq cx c"
| "handle y app rq cx (BillingCall c) = handle_billing y app cx c"
| "handle y app rq cx (AttendeeCall c) = handle_attendee y rq cx c"
| "handle y app rq cx (CheckinCall c) = handle_checkin y rq cx c"
| "handle y app rq cx (KitCall c) = handle_kit y rq cx c"
| "handle y app rq cx (AuditCall c) = handle_audit y rq cx c"
| "handle y app rq cx (AdminCall c) = handle_admin y rq cx c"

text \<open>The status of the response; \<open>app\<close> is \<open>config.AppURL()\<close>.\<close>

definition serve :: "system \<Rightarrow> string \<Rightarrow> endpoint \<Rightarrow> http_request \<Rightarrow> ('z order_state_scheme, int) op" where
  "serve y app c rq = bnd (admit (sy_auth y) (guard_of c) rq) (\<lambda>r. case r of
       Inl x \<Rightarrow> ret (refusal_status x) | Inr cx \<Rightarrow> handle y app rq cx c)"

end
