(* ===== verification/Serving.thy ===== *)
theory Serving
  imports Sweeping Routes
begin

text \<open>
  The HTTP surface and the state machine. Every request that \<open>serve\<close> handles is a sequence of steps of the relation
  \<open>request\<close>, so what holds in every reachable state holds behind the API, whoever calls it.
\<close>

section \<open>Predicates closed under the steps\<close>

definition closed_under :: "system \<Rightarrow> (order_state \<Rightarrow> bool) \<Rightarrow> bool" where
  "closed_under y I \<longleftrightarrow> (\<forall>w w'. request y w w' \<longrightarrow> I w \<longrightarrow> I w')"

definition on_ticks :: "('z base_scheme \<Rightarrow> bool) \<Rightarrow> bool" where
  "on_ticks I \<longleftrightarrow> (\<forall>w. I w \<longrightarrow> I (tick w))"

lemma closed_ticks: "closed_under y I \<Longrightarrow> on_ticks I"
  unfolding closed_under_def on_ticks_def tick_def by (blast intro: request.Failures)

lemma closed_call:
  assumes "closed_under y I" and "\<And>w r w'. m w = (r, w') \<Longrightarrow> request y w w'"
  shows "keeps I m"
  unfolding keeps_def
proof (intro allI impI)
  fix w assume "I w"
  moreover have "request y w (snd (m w))" by (rule assms(2)) (rule prod.collapse [symmetric])
  ultimately show "I (snd (m w))" using assms(1) by (auto simp: closed_under_def)
qed

section \<open>Reads\<close>

lemma ticks_select [keeps_intros]: "on_ticks I \<Longrightarrow> keeps I (select g)" "on_ticks I \<Longrightarrow> keeps I (select_first f)" "on_ticks I \<Longrightarrow> keeps I (call_ext x)"
proof -
  assume t: "on_ticks I"
  then have [simp]: "I w \<Longrightarrow> I (tick w)" for w by (simp add: on_ticks_def)
  show "keeps I (select g)" by (simp add: keeps_wp wp_simps)
  show "keeps I (select_first f)" by (simp add: keeps_wp wp_simps split: option.split)
  show "keeps I (call_ext x)" by (rule keepsI) (simp add: wp_def call_ext_def split: option.split)
qed

lemma ticks_org_reads [keeps_intros]:
  assumes "on_ticks I"
  shows "keeps I (resolve_org l ref0)" "keeps I (org_membership l user ref0)" "keeps I (list_memberships org limit offset)"
    "keeps I (list_user_memberships user)" "keeps I (get_user_by_id user)" "keeps I (get_org_by_id i)" "keeps I (get_org_by_slug t)"
    "keeps I (get_membership org user)"
  unfolding resolve_org_def org_membership_def list_memberships_def list_user_memberships_def get_user_by_id_def get_org_by_id_def
    get_org_by_slug_def get_membership_def
  using assms by (intro keeps_intros; assumption)+

lemma ticks_loops [keeps_intros]:
  assumes "on_ticks I"
  shows "keeps I (memberships_loop ms)" "keeps I (members_loop ms)"
  using assms by (induction ms) (auto intro!: keeps_intros)


lemma ticks_org_lists [keeps_intros]:
  assumes "on_ticks I"
  shows "keeps I (get_org s user ref0)" "keeps I (list_org_memberships user)" "keeps I (list_members s user ref0 limit offset)"
    "keeps I (list_invites s user ref0 limit offset)" "keeps I (list_roles s user ref0)" "keeps I (list_api_keys s user ref0 limit offset)"
    "keeps I (me user)" "keeps I (sub_by_org org)"
  unfolding get_org_def list_org_memberships_def list_members_def list_invites_def list_roles_def list_api_keys_def require_role_def
    repo_list_invites_def list_role_defs_def count_role_assignees_def list_api_keys_by_org_def me_def sub_by_org_def Let_def
  using assms by (intro keeps_intros; assumption)+

lemma ticks_event_lists [keeps_intros]:
  assumes "on_ticks I"
  shows "keeps I (event_org_of_ref es orgref)" "keeps I (resolve_event l org ref0)" "keeps I (resolve_event_id l org ref0)"
    "keeps I (get_event es caller orgref ref0)" "keeps I (list_images es orgref ref0)" "keeps I (parse_filter es f org0 pub)"
    "keeps I (list_events f' limit offset srt)" "keeps I (list_org_events es orgref f limit offset srt)"
    "keeps I (list_public es f limit offset srt)"
  unfolding event_org_of_ref_def resolve_event_def resolve_event_id_def get_event_def list_images_def parse_filter_def list_events_def
    list_org_events_def list_public_def get_event_by_id_def get_event_by_slug_def list_images_by_event_def repo_list_events_def
    resolve_org_id_def is_member_def Let_def
  using assms by (intro keeps_intros; assumption)+

lemma ticks_ticket_lists [keeps_intros]:
  assumes "on_ticks I"
  shows "keeps I (list_types s caller orgref ref0)" "keeps I (get_type s caller orgref ref0 ref1)"
    "keeps I (list_types_by_event ev b)"
  unfolding list_types_def get_type_def ts_event_def tk_get_event_def list_types_by_event_def resolve_type_def get_type_by_id_def Let_def
  using assms by (intro keeps_intros; assumption)+

text \<open>The public listing of ticket types goes through the cached read of the event.\<close>

lemma ticks_public_types:
  assumes "on_ticks I" and "\<And>i. keeps I (get_public_event (ts_events s) i)"
  shows "keeps I (list_public_types s ev)"
  unfolding list_public_types_def tk_get_public_event_def by (intro keeps_intros assms)

lemma ticks_order_lists [keeps_intros]:
  assumes "on_ticks I"
  shows "keeps I (list_my_orders user limit offset)" "keeps I (get_order user i)" "keeps I (catalog b)"
  unfolding list_my_orders_def list_user_orders_def tier_view_of_def get_order_def catalog_def find_order_or_def get_order_by_id_def manageable_def org_of_def get_event_by_id_def
    can_manage_def get_membership_def Let_def
  using assms by (intro keeps_intros; assumption)+

lemma ticks_door_lists [keeps_intros]:
  assumes "on_ticks I"
  shows "keeps I (list_mine user limit offset)" "keeps I (get_attendee user i)" "keeps I (list_event_roster ev q limit offset)"
    "keeps I (stats cs org ref0)" "keeps I (list_kits ks org ref0)" "keeps I (list_collections ks org ref0 kit0 att0 st)"
    "keeps I (audit_list af)"
  unfolding list_by_user_def list_by_event_def repo_list_collections_def with_names_def list_mine_def get_attendee_def list_event_roster_def stats_def checkin_event_def count_by_status_def list_kits_def kit_event_def
    list_kits_by_event_def counts_by_kit_def list_collections_def audit_list_def repo_audit_list_def find_attendee_def
    get_attendee_by_id_def org_of_def get_event_by_id_def can_manage_def get_membership_def Let_def
  using assms by (intro keeps_intros; assumption)+

section \<open>Calls that are steps\<close>

lemma closed_calls:
  assumes c: "closed_under y I"
  shows "keeps I (create_order (sy_orders y) user ev inp)"
    "keeps I (cancel_order (sy_orders y) user i)"
    "keeps I (sweep_expired (sy_orders y) batch)"
    "keeps I (create_checkout (sy_payments y) user i app)"
    "keeps I (handle_webhook (sy_payments y) payload sig)"
    "keeps I (create_type (sy_tickets y) caller orgref ref0 tinp)"
    "keeps I (update_type (sy_tickets y) caller orgref ref0 ref1 tupd)"
    "keeps I (delete_type (sy_tickets y) caller orgref ref0 ref1)"
    "keeps I (activate_type (sy_tickets y) caller orgref ref0 ref1)"
    "keeps I (pause_type (sy_tickets y) caller orgref ref0 ref1)"
    "keeps I (create_event (sy_events y) user orgref einp)"
    "keeps I (update_event (sy_events y) user orgref ref0 eupd)"
    "keeps I (publish_event (sy_events y) user orgref ref0)"
    "keeps I (unpublish_event (sy_events y) user orgref ref0)"
    "keeps I (cancel_event (sy_events y) user orgref ref0)"
    "keeps I (delete_event (sy_events y) user orgref ref0)"
    "keeps I (add_gallery_images (sy_events y) orgref ref0 ups)"
    "keeps I (set_cover (sy_events y) orgref ref0 bytes n ty)"
    "keeps I (get_public_event (sy_events y) i)"
    "keeps I (add_manual (sy_attendees y) org ref0 email name)"
    "keeps I (correct_attendee_in_event ev i name email')"
    "keeps I (cancel_mine user i)"
    "keeps I (create_kit (sy_kits y) org ref0 nm desc qty staff)"
    "keeps I (update_kit (sy_kits y) org ref0 ref1 nm' desc' qty' staff)"
    "keeps I (delete_kit (sy_kits y) org ref0 ref1 staff)"
    "keeps I (collect (sy_kits y) org ref0 ref1 ref2 hold key staff)"
    "keeps I (mark_collected (sy_kits y) org ref0 ref1 staff)"
    "keeps I (void_collection (sy_kits y) org ref0 ref1 staff)"
    "keeps I (scan (sy_checkins y) org ref0 code ref1 staff)"
    "keeps I (scan_batch (sy_checkins y) org ref0 codes staff)"
    "keeps I (revert (sy_checkins y) org ref0 ref1 staff)"
    "keeps I (create_org (sy_orgs y) user nm slug logo)"
    "keeps I (update_org (sy_orgs y) user ref0 nm slug logo)"
    "keeps I (delete_org (sy_orgs y) (Some (delete_org_assets (sy_events y))) user ref0)"
    "keeps I (add_member (sy_orgs y) user ref0 email role)"
    "keeps I (update_member_role (sy_orgs y) user ref0 target role)"
    "keeps I (remove_member (sy_orgs y) user ref0 target)"
    "keeps I (update_my_preferences (sy_orgs y) user ref0 notify)"
    "keeps I (start_checkout (sy_billing y) user org plan)"
    "keeps I (create_portal_session (sy_billing y) user org url)"
  by (rule closed_call [OF c], erule request.intros)+

lemma closed_backstage:
  assumes c: "closed_under y I" and s: "\<And>w r w'. m w = (r, w') \<Longrightarrow> backstage (sy_auth y) (sy_orgs y) (sy_admin y) (sy_survives y) w w'"
  shows "keeps I m"
  by (rule closed_call [OF c]) (rule request.Backstage, rule s)

lemma closed_backstage_calls:
  assumes c: "closed_under y I"
  shows "keeps I (register (sy_auth y) rinp)"
    "keeps I (verify_email (sy_auth y) raw)"
    "keeps I (verify_by_code (sy_auth y) email code)"
    "keeps I (resend_verification (sy_auth y) email)"
    "keeps I (login (sy_auth y) email pw ctx)"
    "keeps I (refresh (sy_auth y) raw)"
    "keeps I (logout (sy_auth y) i)"
    "keeps I (forgot_password (sy_auth y) email)"
    "keeps I (reset_password (sy_auth y) raw pw)"
    "keeps I (require_auth (sy_auth y) hdr bearer)"
    "keeps I (invite_member (sy_orgs y) user ref0 email role)"
    "keeps I (revoke_invite (sy_orgs y) user ref0 i)"
    "keeps I (accept_invite (sy_orgs y) user raw)"
    "keeps I (decline_invite (sy_orgs y) user raw)"
    "keeps I (define_role (sy_orgs y) user ref0 nm perms)"
    "keeps I (update_role (sy_orgs y) user ref0 nm perms)"
    "keeps I (delete_role (sy_orgs y) user ref0 nm)"
    "keeps I (assign_role (sy_orgs y) (sy_survives y) user ref0 target nm)"
    "keeps I (unassign_role (sy_orgs y) user ref0 target nm)"
    "keeps I (create_api_key (sy_orgs y) user ref0 nm scopes expires)"
    "keeps I (revoke_api_key (sy_orgs y) user ref0 i)"
    "keeps I (admin_list_orgs (sy_admin y) user q m n)"
    "keeps I (admin_get_org (sy_admin y) user i)"
    "keeps I (admin_search_users (sy_admin y) user q m n)"
    "keeps I (admin_get_user (sy_admin y) user i)"
    "keeps I (admin_list_user_orders (sy_admin y) user i m n)"
    "keeps I (reseed_org_policies (sy_admin y) user i)"
    "keeps I (admin_sync_user (sy_admin y) user i)"
  by (rule closed_backstage [OF c], erule backstage.intros)+

section \<open>Handlers\<close>

lemma keeps_reply [keeps_intros]:
  "(\<And>d. keeps I (f d)) \<Longrightarrow> keeps I (bind_json body f)"
  "(\<And>i. keeps I (g i)) \<Longrightarrow> keeps I (with_id l raw st msg g)"
  "(\<And>i. keeps I (g i)) \<Longrightarrow> keeps I (with_user cx g)" "(\<And>i. keeps I (g i)) \<Longrightarrow> keeps I (with_org cx g)"
  "(\<And>i j. keeps I (h i j)) \<Longrightarrow> keeps I (with_staff cx h)" "(\<And>t. keeps I (k t)) \<Longrightarrow> keeps I (with_time p ts msg k)"
  "(\<And>i. keeps I (g i)) \<Longrightarrow> keeps I (keyless cx g)" "(\<And>pg. keeps I (q pg)) \<Longrightarrow> keeps I (with_strict_page rq q)"
  "(\<And>x. keeps I (z x)) \<Longrightarrow> keeps I (with_filter l raw msg z)"
  unfolding bind_json_def with_id_def with_user_def with_org_def with_staff_def with_time_def keyless_def with_strict_page_def with_filter_def
  by (auto intro!: keeps_intros)

lemma keeps_answers [keeps_intros]:
  assumes "keeps I m"
  shows "keeps I (answer e st f m)" "keeps I (answer_or n msg st f m)" "keeps I (answer_known k msg st f m)" "keeps I (wire_answer st f m)"
  using assms unfolding answer_def answer_or_def answer_known_def wire_answer_def by (intro keeps_intros; assumption)+

lemma keeps_status [keeps_intros]: "keeps I m \<Longrightarrow> keeps I (status m)"
  unfolding status_def by (intro keeps_intros)

lemmas event_handlers =
  h_create_event_def h_list_org_events_def h_get_org_event_def h_update_event_def h_delete_event_def
  h_publish_event_def h_unpublish_event_def h_cancel_event_def h_upload_cover_def h_upload_gallery_def
  h_list_images_def h_list_public_events_def h_get_public_event_def h_create_ticket_def h_list_tickets_def
  h_get_ticket_def h_update_ticket_def h_delete_ticket_def h_activate_ticket_def h_pause_ticket_def
  h_list_public_tickets_def h_create_order_def h_list_my_orders_def h_get_order_def h_cancel_order_def
  h_get_plans_def h_get_subscription_def h_start_checkout_def h_create_portal_def

lemmas org_handlers =
  h_create_org_def h_list_my_orgs_def h_get_org_def h_update_org_def h_delete_org_def h_list_members_def
  h_add_member_def h_update_member_role_def h_remove_member_def h_update_preferences_def h_invite_member_def
  h_list_invites_def h_revoke_invite_def h_accept_invite_def h_decline_invite_def h_list_roles_def h_define_role_def
  h_update_role_def h_delete_role_def h_assign_flow_def h_assign_role_def h_unassign_role_def h_create_api_key_def
  h_list_api_keys_def h_revoke_api_key_def

lemmas door_handlers =
  h_add_attendee_def h_list_roster_def h_correct_attendee_def h_list_mine_def h_get_mine_def h_cancel_mine_def
  h_scan_def h_scan_batch_def h_stats_def h_revert_def h_create_kit_def h_list_kits_def h_update_kit_def
  h_delete_kit_def h_collect_def h_mark_collected_def h_void_collection_def h_list_collections_def
  h_list_kit_collections_def

lemmas account_handlers =
  h_register_def h_verify_email_def h_verify_by_code_def h_resend_verification_def h_login_def h_refresh_def
  h_logout_def h_me_def h_forgot_password_def h_reset_password_def h_audit_list_def h_audit_org_def
  h_audit_platform_def h_admin_orgs_def h_admin_org_def h_admin_users_def h_admin_user_def h_admin_user_orders_def
  h_reseed_def h_sync_user_def

lemma keeps_handle:
  assumes c: "closed_under y I" and w: "ts_events (sy_tickets y) = sy_events y"
  shows "keeps I (handle y app rq cx x)"
proof -
  note [keeps_intros] = closed_ticks [OF c] closed_calls [OF c] closed_backstage_calls [OF c]
  have p [keeps_intros]: "keeps I (list_public_types (sy_tickets y) ev)" for ev
    by (rule ticks_public_types [OF closed_ticks [OF c]]) (simp add: w keeps_intros)
  have "keeps I (with_event l org rq f)" if "\<And>ev. keeps I (f ev)" for l org f and rq :: http_request
    unfolding with_event_def using that by (intro keeps_intros)
  note [keeps_intros] = this
  have auth: "keeps I (handle_auth y rq cx c1)" for c1
    by (cases c1; simp only: handle_auth.simps; unfold account_handlers Let_def; intro keeps_intros)
  have org: "keeps I (handle_org y rq cx c2)" for c2
    by (cases c2; simp only: handle_org.simps; unfold org_handlers Let_def; intro keeps_intros)
  have event: "keeps I (handle_event y rq cx c3)" for c3
    by (cases c3; simp only: handle_event.simps; unfold event_handlers Let_def; intro keeps_intros)
  have ticket: "keeps I (handle_ticket y rq cx c4)" for c4
    by (cases c4; simp only: handle_ticket.simps; unfold event_handlers Let_def; intro keeps_intros)
  have order: "keeps I (handle_order y rq cx c5)" for c5
    by (cases c5; simp only: handle_order.simps; unfold event_handlers Let_def; intro keeps_intros)
  have payment: "keeps I (handle_payment y app rq cx c6)" for c6
    by (cases c6; simp only: handle_payment.simps; unfold checkout_handler_def stripe_webhook_def Let_def; intro keeps_intros)
  have billing: "keeps I (handle_billing y app cx c7)" for c7
    by (cases c7; simp only: handle_billing.simps; unfold event_handlers Let_def; intro keeps_intros)
  have attendee: "keeps I (handle_attendee y rq cx c8)" for c8
    by (cases c8; simp only: handle_attendee.simps; unfold door_handlers Let_def; intro keeps_intros)
  have checkin: "keeps I (handle_checkin y rq cx c9)" for c9
    by (cases c9; simp only: handle_checkin.simps; unfold door_handlers Let_def; intro keeps_intros)
  have kit: "keeps I (handle_kit y rq cx d1)" for d1
    by (cases d1; simp only: handle_kit.simps; unfold door_handlers Let_def; intro keeps_intros)
  have audit: "keeps I (handle_audit y rq cx d2)" for d2
    by (cases d2; simp only: handle_audit.simps; unfold account_handlers Let_def; intro keeps_intros)
  have admin: "keeps I (handle_admin y rq cx d3)" for d3
    by (cases d3; simp only: handle_admin.simps; unfold account_handlers Let_def; intro keeps_intros)
  show ?thesis
    by (cases x) (simp_all add: auth org event ticket order payment billing attendee checkin kit audit admin)
qed

section \<open>Guards\<close>

lemma keeps_admit:
  assumes c: "closed_under y I"
  shows "keeps I (admit (sy_auth y) g rq)"
proof -
  note [keeps_intros] = closed_ticks [OF c] closed_backstage_calls [OF c]
  have "keeps I (then_gate m f)" if "keeps I m" "\<And>cx. keeps I (f cx)" for m f
    unfolding then_gate_def using that by (intro keeps_intros)
  note [keeps_intros] = this
  have "keeps I (require_org_context l p cx)" for l p cx
    unfolding require_org_context_def resolve_membership_def Let_def by (intro keeps_intros)
  moreover have "keeps I (require_permission l ob ac cx)" "keeps I (require_super_admin l cx)" for l ob ac cx
    unfolding require_permission_def require_super_admin_def Let_def by (intro keeps_intros)+
  ultimately show ?thesis
    unfolding admit_def Let_def by (cases g) (auto intro!: keeps_intros)
qed

lemma keeps_serve:
  assumes "closed_under y I" and "ts_events (sy_tickets y) = sy_events y"
  shows "keeps I (serve y app c rq)"
  unfolding serve_def by (intro keeps_intros keeps_admit keeps_handle assms)

lemma closed_reach: "closed_under y ((request y)\<^sup>*\<^sup>* w)"
  by (auto simp: closed_under_def)

text \<open>A guard that refuses has looked up rows and noted the last use of an API key, nothing else.\<close>

lemma admit_spec: "wp (admit s g rq) (\<lambda>_. looked_at w) (\<lambda>_ _. False) w"
proof -
  have auth: "wp (require_auth s (rq_key_header rq) (rq_auth_header rq)) (\<lambda>_. looked_at w) (\<lambda>_ _. False) w"
    by (rule wp_mono [OF require_auth_spec]) simp_all
  have later: "looked_at w v \<Longrightarrow> same_store v v' \<Longrightarrow> looked_at w v'" for v v'
    by (auto simp: looked_at_def intro: same_store_trans)
  have chain: "wp (then_gate m f) (\<lambda>_. looked_at w) (\<lambda>_ _. False) w"
    if "wp m (\<lambda>_. looked_at w) (\<lambda>_ _. False) w" "\<And>cx v. wp (f cx) (\<lambda>_. same_store v) (\<lambda>_ _. False) v" for m f
    unfolding then_gate_def wp_bnd
  proof (rule wp_mono [OF that(1)])
    fix r v assume v: "looked_at w v"
    show "wp (case r of Inl x \<Rightarrow> ret (Inl x) | Inr cx \<Rightarrow> f cx) (\<lambda>_. looked_at w) (\<lambda>_ _. False) v"
      by (cases r) (simp_all add: wp_ret v wp_mono [OF that(2)] later [OF v])
  qed
  have ctx: "wp (require_org_context l p cx) (\<lambda>_. same_store v) (\<lambda>_ _. False) v" for l p cx v
    by (rule wp_mono [OF org_context_spec]) simp_all
  have perm: "wp (require_permission l ob ac cx) (\<lambda>_. same_store v) (\<lambda>_ _. False) v" for l ob ac cx v
    by (rule wp_mono [OF permission_spec]) simp_all
  have admin: "wp (require_super_admin l cx) (\<lambda>_. same_store v) (\<lambda>_ _. False) v" for l cx v
    by (auto simp: require_super_admin_def wp_simps split: option.split)
  show ?thesis
    unfolding admit_def Let_def
    by (cases g) (simp_all add: wp_ret looked_at_same auth chain ctx perm admin)
qed

lemma admit_allowed: "admit s (Allowed ob ac) rq = org_gate s (rq_key_header rq) (rq_auth_header rq) (rq_param rq ''id'') ob ac"
  by (simp add: admit_def org_gate_def Let_def)

end
