(* ===== verification/ServingFacts.thy ===== *)
theory ServingFacts
  imports Serving
begin

text \<open>
  What the API as a whole promises: requests are runs of the state machine, a refused request
  writes nothing, a plain member changes nothing through the organization's routes, and how errors and pages are told.
\<close>

section \<open>Requests are steps\<close>

text \<open>C30. The HTTP API implements the state machine: whatever a request does to the tables, it is a sequence of steps of the
  relation \<open>request\<close>. So every state behind the API is reachable, and every invariant and history property proved of the
  state machine holds there, whatever endpoints were called, with whatever bodies, by whomever.\<close>

theorem serve_is_steps:
  assumes "ts_events (sy_tickets y) = sy_events y" and "reached y w" and run: "serve y app c rq w = (r, w')"
  shows "(request y)\<^sup>*\<^sup>* w w' \<and> reached y w'"
proof -
  have "(request y)\<^sup>*\<^sup>* w w'"
    by (rule keepsD [OF keeps_serve [OF closed_reach assms(1)] rtranclp.rtrancl_refl run])
  moreover have "reached y v" if "(request y)\<^sup>*\<^sup>* w v" for v
    using that by (induction rule: rtranclp_induct) (auto intro: assms(2) reached.request)
  ultimately show ?thesis by blast
qed

definition public_read :: http_request where
  "public_read = \<lparr>rq_key_header = [], rq_auth_header = [], rq_param = (\<lambda>k. if k = ''id'' then sample_text 20 else []), rq_query = (\<lambda>_. [])\<rparr>"

theorem serve_is_steps_witness:
  "fst (serve sample_system ''https://x.io'' (EventCall Get_public_event_at) public_read open_world) = Inr 200 \<and>
   reached sample_system (snd (serve sample_system ''https://x.io'' (EventCall Get_public_event_at) public_read open_world))"
proof -
  have "fst (serve sample_system ''https://x.io'' (EventCall Get_public_event_at) public_read open_world) = Inr 200"
    by (simp add: public_read_def serve_def admit_def status_def h_get_public_event_def with_id_def answer_def sample_system_def
        open_world_def listed_world_def bare_world_def day_ticket_def evals sample_text_def list_all_iff)
  then show ?thesis
    using serve_is_steps [OF _ reached_open prod.collapse [symmetric], of "''https://x.io''" "EventCall Get_public_event_at" public_read]
    by (simp add: sample_system_def eval_services)
qed

section \<open>Refused requests\<close>

lemma anonymous_spec:
  assumes "trim_space kh = []" and "trim_space (trim_prefix ''Bearer '' ah) = []"
  shows "require_auth s kh ah w = (Inr (Inl Unauthorized), w)"
  using assms by (simp add: require_auth_def Let_def ret_def)

text \<open>C31. A request its guards refuse is answered 400, 401, 403 or 404 by the kind of refusal, and has written nothing but
  the last use of the API key it carried. A request to a guarded route without credentials is answered 401 before the
  database is read.\<close>

theorem refused_requests:
  assumes "admit (sy_auth y) (guard_of c) rq w = (Inr (Inl x), v)"
  shows "serve y app c rq w = (Inr (refusal_status x), v) \<and> refusal_status x \<in> {400, 401, 403, 404} \<and>
      (\<exists>ks. same_store (w\<lparr>api_keys := ks\<rparr>) v) \<and>
      (guard_of c \<noteq> Open \<longrightarrow> trim_space (rq_key_header rq) = [] \<longrightarrow> trim_space (trim_prefix ''Bearer '' (rq_auth_header rq)) = [] \<longrightarrow>
        x = Unauthorized \<and> v = w)"
proof (intro conjI impI)
  show "serve y app c rq w = (Inr (refusal_status x), v)" using assms by (simp add: serve_def bnd_def ret_def)
  show "refusal_status x \<in> {400, 401, 403, 404}" by (cases x) simp_all
  show "\<exists>ks. same_store (w\<lparr>api_keys := ks\<rparr>) v"
    using wp_okD [OF assms admit_spec] by (simp add: looked_at_def)
next
  assume "guard_of c \<noteq> Open" "trim_space (rq_key_header rq) = []" "trim_space (trim_prefix ''Bearer '' (rq_auth_header rq)) = []"
  then have "admit (sy_auth y) (guard_of c) rq w = (Inr (Inl Unauthorized), w)"
    by (cases "guard_of c") (simp_all add: admit_def Let_def then_gate_def bnd_def ret_def anonymous_spec)
  with assms show "x = Unauthorized" "v = w" by simp_all
qed

definition anonymous :: http_request where
  "anonymous = \<lparr>rq_key_header = '' '', rq_auth_header = ''Bearer  '', rq_param = (\<lambda>_. ''acme''), rq_query = (\<lambda>_. [])\<rparr>"

theorem refused_requests_witness:
  "serve sample_system ''https://x.io'' (OrderCall (Post_order None)) anonymous sample_world = (Inr 401, sample_world)"
proof -
  have a: "admit (sy_auth sample_system) (guard_of (OrderCall (Post_order None))) anonymous sample_world = (Inr (Inl Unauthorized), sample_world)"
    by (simp add: anonymous_def admit_def require_auth_def trim_prefix_def evals)
  show ?thesis using refused_requests [OF a] by simp
qed

section \<open>Who writes through an organization's routes\<close>

lemma guarded_reads:
  assumes "guard_of c = Allowed ob ''read''" and "ob \<in> {''org'', ''member'', ''event'', ''ticket''}"
  shows "(\<exists>f. c = EventCall (Get_org_events f)) \<or> c \<in> {OrgCall Get_org, OrgCall Get_members, EventCall Get_org_event, EventCall Get_images,
      TicketCall Get_tickets, TicketCall Get_ticket}"
proof (cases c)
  case (AuthCall d) with assms(1) show ?thesis by (cases d) auto
next
  case (OrgCall d) with assms show ?thesis by (cases d) auto
next
  case (EventCall d) with assms show ?thesis by (cases d) auto
next
  case (TicketCall d) with assms show ?thesis by (cases d) auto
next
  case (OrderCall d) with assms show ?thesis by (cases d) auto
next
  case (PaymentCall d) with assms show ?thesis by (cases d) auto
next
  case (BillingCall d) with assms show ?thesis by (cases d) auto
next
  case (AttendeeCall d) with assms show ?thesis by (cases d) auto
next
  case (CheckinCall d) with assms show ?thesis by (cases d) auto
next
  case (KitCall d) with assms show ?thesis by (cases d) auto
next
  case (AuditCall d) with assms show ?thesis by (cases d) auto
next
  case (AdminCall d) with assms show ?thesis by (cases d) auto
qed

lemma member_routes:
  assumes "guard_of c = Allowed ob ac" and "(ob, ac) \<in> set member_permissions"
  shows "keeps (same_store w) (handle y app rq cx c)"
proof -
  have t: "on_ticks (same_store w)" by (simp add: on_ticks_def)
  note [keeps_intros] = ticks_select [OF t] ticks_org_lists [OF t] ticks_event_lists [OF t] ticks_ticket_lists [OF t]
  have p: "(ob, ac) \<in> {(''org'', ''read''), (''member'', ''read''), (''event'', ''read''), (''ticket'', ''read'')}"
    using assms(2) by (simp add: member_permissions_def)
  have r: "keeps (same_store w) (handle y app rq cx (OrgCall Get_org))" "keeps (same_store w) (handle y app rq cx (OrgCall Get_members))"
    "keeps (same_store w) (handle y app rq cx (EventCall (Get_org_events f)))" "keeps (same_store w) (handle y app rq cx (EventCall Get_org_event))"
    "keeps (same_store w) (handle y app rq cx (EventCall Get_images))" "keeps (same_store w) (handle y app rq cx (TicketCall Get_tickets))"
    "keeps (same_store w) (handle y app rq cx (TicketCall Get_ticket))" for f
    by (simp_all only: handle.simps handle_org.simps handle_event.simps handle_ticket.simps,
      unfold h_get_org_def h_list_members_def h_list_org_events_def h_get_org_event_def h_list_images_def h_list_tickets_def h_get_ticket_def Let_def,
      (intro keeps_intros t)+)
  have d: "(\<exists>f. c = EventCall (Get_org_events f)) \<or> c \<in> {OrgCall Get_org, OrgCall Get_members, EventCall Get_org_event, EventCall Get_images,
      TicketCall Get_tickets, TicketCall Get_ticket}"
    by (rule guarded_reads [of c ob]) (use assms(1) p in auto)
  show ?thesis using d r by blast
qed


text \<open>C32. Who can change anything through the organization's routes: when a request to a route with a permission has changed more than
  the last use of an API key, the caller acts as a live account that is a member of the live organization of the path, and the
  policy allows that account an action that plain members do not have. The four read permissions of a member give no way to
  write: the handlers behind them only read.\<close>

theorem writers_hold_permission:
  assumes "guard_of c = Allowed ob ac" and run: "serve y app c rq w = (r, w')" and wrote: "\<forall>ks. \<not> same_store (w\<lparr>api_keys := ks\<rparr>) w'"
  shows "(ob, ac) \<notin> set member_permissions \<and> (\<exists>user og m. live_account user w \<and> og \<in> set (live_orgs w) \<and>
      member_of (og_id og) user (memberships w) = Some m \<and>
      casbin_allows (uuid_text (au_lib (sy_auth y)) user) (uuid_text (au_lib (sy_auth y)) (og_id og)) ob ac w)"
proof -
  obtain z v where a: "admit (sy_auth y) (guard_of c) rq w = (Inr z, v)"
    using admit_spec [of "sy_auth y" "guard_of c" rq w]
    by (cases "admit (sy_auth y) (guard_of c) rq w"; case_tac a) (simp_all add: wp_def)
  have v: "looked_at w v" by (rule wp_okD [OF a admit_spec])
  have n: "\<not> looked_at w w'" using wrote by (simp add: looked_at_def)
  show ?thesis
  proof (cases z)
    case (Inl x)
    then have "w' = v" using run by (simp add: serve_def bnd_def a ret_def)
    with v n show ?thesis by simp
  next
    case (Inr cx)
    then have h: "handle y app rq cx c v = (r, w')" using run by (simp add: serve_def bnd_def a)
    have "(ob, ac) \<notin> set member_permissions"
    proof
      assume "(ob, ac) \<in> set member_permissions"
      then have "same_store v w'" using keepsD [OF member_routes [OF assms(1)] same_store_refl h] by simp
      with v n show False by (blast intro: looked_at_then)
    qed
    moreover have "org_gate (sy_auth y) (rq_key_header rq) (rq_auth_header rq) (rq_param rq ''id'') ob ac w = (Inr (Inr cx), v)"
      using a Inr by (simp add: assms(1) admit_allowed)
    ultimately show ?thesis using org_gate_admits by blast
  qed
qed


definition by_key_request :: http_request where
  "by_key_request = \<lparr>rq_key_header = ''rk_live_abcdefghi'', rq_auth_header = [],
     rq_param = (\<lambda>k. if k = ''id'' then ''acme'' else ''fair''), rq_query = (\<lambda>_. [])\<rparr>"

theorem writers_hold_permission_witness:
  "fst (serve sample_system ''https://x.io'' (EventCall Post_unpublish) by_key_request gated) = Inr 200 \<and>
   (\<exists>user og m. og \<in> set (live_orgs gated) \<and> member_of (og_id og) user (memberships gated) = Some m \<and>
      casbin_allows (sample_text user) (sample_text (og_id og)) ''event'' ''publish'' gated)"
proof -
  define out where "out = serve sample_system ''https://x.io'' (EventCall Post_unpublish) by_key_request gated"
  have *: "fst out = Inr 200 \<and> map ev_status (events (snd out)) = [Draft]"
    by (simp add: out_def by_key_request_def serve_def admit_def status_def h_unpublish_event_def answer_def sample_system_def
        org_gate_def then_gate_def require_auth_def validate_api_key_def is_api_key_shape_def
        api_key_prefix_def get_api_key_by_hash_def touch_api_key_def require_org_context_def from_context_def
        resolve_membership_def require_permission_def api_key_scope_allows_def split_scope_def casbin_allows_def row_matches_def
        hierarchy_levels_def role_link.simps empty_context_def gated_def sample_key_def sample_auth_def evals sample_world_def empty_world_def
        event_org_ref_def caller_id_def unpublish_event_def transition_event_def repo_update_event_def es_emit_def purge_public_event_def
        event_row_ok_def to_event_def cache_del_def)
  have wrote: "\<forall>ks. \<not> same_store (gated\<lparr>api_keys := ks\<rparr>) (snd out)"
  proof (intro allI notI)
    fix ks assume "same_store (gated\<lparr>api_keys := ks\<rparr>) (snd out)"
    then have "events (snd out) = events gated" using same_field [of _ _ events] by fastforce
    with * show False by (simp add: gated_def sample_event_def)
  qed
  have g: "guard_of (EventCall Post_unpublish) = Allowed ''event'' ''publish''" by simp
  have run: "serve sample_system ''https://x.io'' (EventCall Post_unpublish) by_key_request gated = (fst out, snd out)" by (simp add: out_def)
  have l: "au_lib (sy_auth sample_system) = sample_lib" by (simp add: sample_system_def sample_auth_def)
  from writers_hold_permission [OF g run wrote] obtain user og m where "og \<in> set (live_orgs gated)"
      "member_of (og_id og) user (memberships gated) = Some m"
      "casbin_allows (sample_text user) (sample_text (og_id og)) ''event'' ''publish'' gated"
    by (auto simp: l)
  with * show ?thesis unfolding out_def by blast
qed

section \<open>Errors on the wire\<close>

text \<open>The statuses of the errors. The sentinel errors of a package are the client's: the handlers of the package answer them below
  500, with three exceptions. A gallery upload with too many files is answered 500 (its sentinel is missing from the switch),
  and so is every order error but a missing order at the checkout, an order that awaits no payment among them; a check-in without a
  QR secret is 503. A failure of the database is
  the server's, 500, except behind the check-in, kit, administration and billing handlers, which answer 400.\<close>

theorem sentinel_statuses:
  "order_error_status (OrderE e1) < 500 \<and> ticket_error_status (TicketE e2) < 500 \<and> attendee_error_status (AttendeeE e3) < 500 \<and>
   kit_error_status (KitE e4) < 500 \<and> api_key_error_status (OrgE e5) < 500 \<and> admin_error_status (AdminE e6) < 500 \<and>
   (event_error_status (EventE e7) < 500) = (e7 \<noteq> ErrTooManyFiles) \<and>
   (checkin_error_status (CheckinE e8) < 500) = (e8 \<noteq> ErrQRSecretUnset) \<and>
   (payment_error_status (OrderE e1) < 500) = (e1 = order_err.ErrOrderNotFound) \<and>
   (fst (sub_wire_error (SubE e9)) < 500) = (e9 \<noteq> ErrBillingUnavailable) \<and>
   order_error_status DbError = 500 \<and> ticket_error_status DbError = 500 \<and> attendee_error_status DbError = 500 \<and>
   event_error_status DbError = 500 \<and> org_error_status DbError = 500 \<and> api_key_error_status DbError = 500 \<and>
   payment_error_status DbError = 500 \<and> checkin_error_status DbError = 400 \<and> kit_error_status DbError = 400 \<and>
   admin_error_status DbError = 400 \<and> fst (sub_wire_error DbError) = 400"
proof -
  have "attendee_error_status (AttendeeE e3) < 500" by (cases e3) (simp_all add: attendee_error_status_def)
  moreover have "kit_error_status (KitE e4) < 500" by (simp add: kit_error_status_def)
  moreover have "order_error_status (OrderE e1) < 500" by (cases e1) (simp_all add: order_error_status_def)
  moreover have "ticket_error_status (TicketE e2) < 500" by (cases e2) (simp_all add: ticket_error_status_def)
  moreover have "api_key_error_status (OrgE e5) < 500" by (cases e5) (simp_all add: api_key_error_status_def org_error_status_def)
  moreover have "(event_error_status (EventE e7) < 500) = (e7 \<noteq> ErrTooManyFiles)" by (cases e7) (simp_all add: event_error_status_def)
  moreover have "(checkin_error_status (CheckinE e8) < 500) = (e8 \<noteq> ErrQRSecretUnset)" by (cases e8) (simp_all add: checkin_error_status_def)
  moreover have "(fst (sub_wire_error (SubE e9)) < 500) = (e9 \<noteq> ErrBillingUnavailable)" by (cases e9) (simp_all add: sub_wire_error_def)
  ultimately show ?thesis
    by (simp add: admin_error_status_def payment_error_status_def order_error_status_def ticket_error_status_def attendee_error_status_def
        event_error_status_def org_error_status_def api_key_error_status_def checkin_error_status_def kit_error_status_def sub_wire_error_def)
qed

section \<open>Pages\<close>

lemma small_product: "1 \<le> p \<Longrightarrow> p \<le> 92233720368547758 \<Longrightarrow> 1 \<le> n \<Longrightarrow> n \<le> 100 \<Longrightarrow> wrap64 ((p - 1) * n) = (p - 1) * n"
proof -
  assume *: "1 \<le> p" "p \<le> 92233720368547758" "1 \<le> n" "n \<le> (100::int)"
  have "(p - 1) * n \<le> 92233720368547757 * 100" by (rule mult_mono) (use * in auto)
  moreover have "0 \<le> (p - 1) * n" using * by simp
  ultimately show ?thesis by (simp add: wrap64_def)
qed

text \<open>Pagination. Whatever the query says, a listing asks for 1 to 100 rows and a page from 1 on, and up to page
  92233720368547758 the rows skipped are those of the pages before; beyond it the 64-bit product may wrap. The strict parser of
  the administration routes agrees with the lenient one on whatever it does not refuse.\<close>

theorem pagination_bounds:
  "1 \<le> pg_limit (page_args_of rq) \<and> pg_limit (page_args_of rq) \<le> 100 \<and> 1 \<le> pg_page (page_args_of rq) \<and>
   pg_per_page (page_args_of rq) = pg_limit (page_args_of rq) \<and>
   (pg_page (page_args_of rq) \<le> 92233720368547758 \<longrightarrow>
      pg_offset (page_args_of rq) = (pg_page (page_args_of rq) - 1) * pg_limit (page_args_of rq)) \<and>
   (\<forall>p n. strict_page rq = Some (p, n) \<longrightarrow> p = pg_page (page_args_of rq) \<and> n = pg_limit (page_args_of rq))"
proof -
  have l: "1 \<le> pg_limit (page_args_of rq)" "pg_limit (page_args_of rq) \<le> 100" "1 \<le> pg_page (page_args_of rq)"
    "pg_per_page (page_args_of rq) = pg_limit (page_args_of rq)"
    by (auto simp: page_args_of_def Let_def split: option.split)
  have "pg_offset (page_args_of rq) = wrap64 ((pg_page (page_args_of rq) - 1) * pg_limit (page_args_of rq))"
    by (simp add: page_args_of_def Let_def)
  moreover have "p = pg_page (page_args_of rq) \<and> n = pg_limit (page_args_of rq)" if "strict_page rq = Some (p, n)" for p n
    using that by (auto simp: strict_page_def strict_int_def page_args_of_def Let_def atoi_def split: option.splits if_splits)
  ultimately show ?thesis using l by (auto intro: small_product)
qed

definition sample_request :: "string \<Rightarrow> string \<Rightarrow> http_request" where
  "sample_request p n = \<lparr>rq_key_header = [], rq_auth_header = [], rq_param = (\<lambda>_. []),
     rq_query = (\<lambda>k. if k = ''page'' then p else if k = ''perPage'' then n else [])\<rparr>"

lemmas eval_pages = sample_request_def page_args_of_def atoi_def digits_value_def is_digit_def code_of_def fits64_def wrap64_def Let_def

theorem pagination_bounds_witness:
  "pg_offset (page_args_of (sample_request ''3'' ''50'')) = 100 \<and> pg_offset (page_args_of (sample_request ''922337203685477581'' ''x'')) = -16"
proof -
  have p: "pg_page (page_args_of (sample_request ''3'' ''50'')) = 3" "pg_limit (page_args_of (sample_request ''3'' ''50'')) = 50"
    by (simp_all add: eval_pages)
  have "pg_offset (page_args_of (sample_request ''922337203685477581'' ''x'')) = -16" by (simp add: eval_pages)
  then show ?thesis using pagination_bounds [of "sample_request ''3'' ''50''"] p by simp
qed

end
