(* ===== verification/Config.thy ===== *)
theory Config
  imports Http
begin

text \<open>
  The configuration (\<open>cmd/config\<close> and \<open>notification.go\<close>): what each helper makes of the environment. A variable that is not set
  reads as the empty text, as \<open>os.Getenv\<close> has it. Where the code ends the process (\<open>os.Exit\<close>) the result is \<open>None\<close>.
\<close>

type_synonym environment = "string \<Rightarrow> string"

section \<open>Secrets and lifetimes (\<open>auth.go\<close>)\<close>

definition dev_jwt_secret :: string where
  "dev_jwt_secret = ''dev-only-insecure-secret-change-me''"

definition dev_qr_secret :: string where
  "dev_qr_secret = ''dev-only-insecure-qr-secret-change-me-00''"

definition insecure_allowed :: "environment \<Rightarrow> bool" where
  "insecure_allowed env = (env ''ALLOW_INSECURE_JWT'' = ''true'')"

definition jwt_secret :: "environment \<Rightarrow> string option" where
  "jwt_secret env = (let secret = env ''JWT_SECRET'' in
     if secret = [] \<or> secret = dev_jwt_secret then (if insecure_allowed env then Some dev_jwt_secret else None)
     else if length secret < 32 then (if insecure_allowed env then Some secret else None)
     else Some secret)"

definition qr_signing_secret :: "environment \<Rightarrow> string option" where
  "qr_signing_secret env = (let secret = env ''QR_SIGNING_SECRET'' in
     if secret = [] \<or> secret = dev_qr_secret then (if insecure_allowed env then Some dev_qr_secret else None)
     else if length secret < 32 then (if insecure_allowed env then Some secret else None)
     else Some secret)"

text \<open>\<open>strconv.Atoi\<close> succeeds with a positive number.\<close>

definition positive_of :: "string \<Rightarrow> int option" where
  "positive_of raw = (case atoi raw of None \<Rightarrow> None | Some n \<Rightarrow> if 0 < n then Some n else None)"

text \<open>Durations are 64-bit nanoseconds.\<close>

definition access_ttl :: "environment \<Rightarrow> int" where
  "access_ttl env =
    (let fallback = (if env ''JWT_TTL_HOURS'' = [] then 15 * (60 * seconds)
           else (case positive_of (env ''JWT_TTL_HOURS'') of Some hours \<Rightarrow> wrap64 (hours * (3600 * seconds)) | None \<Rightarrow> 15 * (60 * seconds))) in
     if env ''ACCESS_TTL_MINUTES'' = [] then fallback
     else (case positive_of (env ''ACCESS_TTL_MINUTES'') of Some minutes \<Rightarrow> wrap64 (minutes * (60 * seconds)) | None \<Rightarrow> fallback))"

definition refresh_ttl :: "environment \<Rightarrow> int" where
  "refresh_ttl env = (if env ''REFRESH_TTL_DAYS'' = [] then 30 * (24 * (3600 * seconds))
     else (case positive_of (env ''REFRESH_TTL_DAYS'') of
         None \<Rightarrow> 30 * (24 * (3600 * seconds)) | Some days \<Rightarrow> wrap64 (days * (24 * (3600 * seconds)))))"

definition app_url :: "environment \<Rightarrow> string" where
  "app_url env = trim_space (env ''APP_URL'')"

definition app_name :: "environment \<Rightarrow> string" where
  "app_name env = (if env ''APP_NAME'' \<noteq> [] then env ''APP_NAME'' else ''Rallya'')"

section \<open>Lists and numbers\<close>

text \<open>Comma-separated, trimmed, without the empty parts.\<close>

definition comma_list :: "string \<Rightarrow> string list" where
  "comma_list raw = filter (\<lambda>p. p \<noteq> []) (map trim_space (split_on CHR '','' raw))"

definition super_admin_emails :: "environment \<Rightarrow> string list" where
  "super_admin_emails env = filter (\<lambda>e. e \<noteq> []) (map (\<lambda>p. to_lower (trim_space p)) (split_on CHR '','' (env ''SUPERADMIN_EMAILS'')))"

definition trusted_proxies :: "environment \<Rightarrow> string list" where
  "trusted_proxies env = comma_list (env ''TRUSTED_PROXIES'')"

definition allowed_origins :: "environment \<Rightarrow> string list" where
  "allowed_origins env = comma_list (env ''CORS_ALLOWED_ORIGINS'')"

definition int_env :: "environment \<Rightarrow> string \<Rightarrow> int \<Rightarrow> int" where
  "int_env env key d = (let raw = trim_space (env key) in
     if raw = [] then d else (case atoi raw of None \<Rightarrow> d | Some n \<Rightarrow> if n < 1 then d else n))"

definition auth_per_min :: "environment \<Rightarrow> int" where
  "auth_per_min env = int_env env ''RATE_LIMIT_AUTH_PER_MIN'' 10"

definition api_per_min :: "environment \<Rightarrow> int" where
  "api_per_min env = int_env env ''RATE_LIMIT_DEFAULT_PER_MIN'' 600"

section \<open>External services\<close>

record stripe_config =
  sc_secret_key :: string
  sc_webhook_secret :: string
  sc_publishable_key :: string
  sc_price_pro :: string
  sc_price_scale :: string

definition stripe_config_of :: "environment \<Rightarrow> stripe_config" where
  "stripe_config_of env = \<lparr>sc_secret_key = env ''STRIPE_SECRET_KEY'', sc_webhook_secret = env ''STRIPE_WEBHOOKS_SIGNING_SECRET'',
     sc_publishable_key = env ''NEXT_PUBLIC_STRIPE_PUBLISHABLE_KEY'', sc_price_pro = env ''STRIPE_PRICE_PRO'',
     sc_price_scale = env ''STRIPE_PRICE_SCALE''\<rparr>"

definition stripe_enabled :: "environment \<Rightarrow> bool" where
  "stripe_enabled env = (trim_space (sc_secret_key (stripe_config_of env)) \<noteq> [])"

record mail_config =
  mc_address :: string
  mc_password :: string
  mc_host :: string
  mc_port :: string
  mc_from_name :: string

text \<open>The two branches of the service name agree.\<close>

definition mail_config_of :: "environment \<Rightarrow> mail_config" where
  "mail_config_of env = (let host = env ''EMAIL_HOST''; port = env ''EMAIL_PORT'' in
     \<lparr>mc_address = trim_space (env ''EMAIL_ADDRESS''), mc_password = env ''EMAIL_PASSWORD'',
      mc_host = (if host = [] then ''smtp.gmail.com'' else host),
      mc_port = (if host = [] \<and> port = [] then ''587'' else port), mc_from_name = ''Grip''\<rparr>)"

definition mail_enabled :: "environment \<Rightarrow> bool" where
  "mail_enabled env = (let cfg = mail_config_of env in \<not> (mc_address cfg = [] \<or> mc_password cfg = []))"

record cloudinary_config =
  cl_url :: string
  cl_cloud_name :: string
  cl_api_key :: string
  cl_api_secret :: string
  cl_upload_preset :: string

definition cloudinary_config_of :: "environment \<Rightarrow> cloudinary_config" where
  "cloudinary_config_of env = \<lparr>cl_url = trim_space (env ''CLOUDINARY_URL''), cl_cloud_name = trim_space (env ''CLOUD_NAME''),
     cl_api_key = trim_space (env ''CLOUD_API_KEY''), cl_api_secret = env ''CLOUD_API_SECRET'',
     cl_upload_preset = trim_space (env ''CLOUDINARY_UPLOAD_PRESET'')\<rparr>"

definition cloudinary_enabled :: "environment \<Rightarrow> bool" where
  "cloudinary_enabled env = (let cfg = cloudinary_config_of env in
     cl_url cfg \<noteq> [] \<or> cl_cloud_name cfg \<noteq> [] \<and> cl_api_key cfg \<noteq> [] \<and> cl_api_secret cfg \<noteq> [])"

record redis_options =
  ro_addr :: string
  ro_password :: string
  ro_db :: int
  ro_dial_timeout :: int
  ro_read_timeout :: int
  ro_write_timeout :: int

definition redis_url :: "environment \<Rightarrow> string" where
  "redis_url env = (if env ''REDIS_URL'' \<noteq> [] then env ''REDIS_URL'' else env ''REDIS_PRIVATE_URL'')"

definition redis_timeouts :: "redis_options \<Rightarrow> redis_options" where
  "redis_timeouts r = r\<lparr>ro_dial_timeout := 5 * seconds, ro_read_timeout := 3 * seconds, ro_write_timeout := 3 * seconds\<rparr>"

text \<open>\<open>parse\<close> is \<open>redis.ParseURL\<close>.\<close>

definition redis_options_of :: "(string \<Rightarrow> redis_options option) \<Rightarrow> environment \<Rightarrow> redis_options" where
  "redis_options_of parse env =
    (let split = redis_timeouts \<lparr>ro_addr = (if env ''REDIS_ADDR'' = [] then ''localhost:6379'' else env ''REDIS_ADDR''),
           ro_password = env ''REDIS_PASSWORD'',
           ro_db = (if env ''REDIS_DB'' = [] then 0 else (case atoi (env ''REDIS_DB'') of Some n \<Rightarrow> if 0 \<le> n then n else 0 | None \<Rightarrow> 0)),
           ro_dial_timeout = 0, ro_read_timeout = 0, ro_write_timeout = 0\<rparr> in
     if redis_url env = [] then split
     else (case parse (redis_url env) of Some r \<Rightarrow> redis_timeouts r | None \<Rightarrow> split))"

end
