(* ===== verification/Media.thy ===== *)
theory Media
  imports Config Event
begin

text \<open>
  The storage of covers and gallery images: local disk (\<open>cover/local.go\<close>), and the names and URLs of the image service
  (\<open>cover/cloudinary.go\<close>, \<open>media/cloudinary.go\<close>). The service itself, its client and the file system's failures are parameters.
\<close>

section \<open>Texts and paths\<close>

text \<open>\<open>strings.Index\<close>.\<close>

fun find_text :: "string \<Rightarrow> string \<Rightarrow> nat option" where
  "find_text pat [] = (if pat = [] then Some 0 else None)"
| "find_text pat (x # xs) = (if has_prefix pat (x # xs) then Some 0 else map_option Suc (find_text pat xs))"

text \<open>Up to the last \<open>c\<close>, or all of it.\<close>

definition before_last :: "char \<Rightarrow> string \<Rightarrow> string" where
  "before_last c s = (if c \<in> set s then rev (tl (dropWhile (\<lambda>x. x \<noteq> c) (rev s))) else s)"

text \<open>\<open>path.Clean\<close> and \<open>filepath.Join\<close> on slash-separated paths; the kept parts are collected backwards.\<close>

fun clean_parts :: "bool \<Rightarrow> string list \<Rightarrow> string list \<Rightarrow> string list" where
  "clean_parts rooted acc [] = rev acc"
| "clean_parts rooted acc (p # ps) =
     (if p = [] \<or> p = ''.'' then clean_parts rooted acc ps
      else if p = ''..'' then (case acc of
          [] \<Rightarrow> clean_parts rooted (if rooted then [] else [''..'']) ps
        | a # as \<Rightarrow> if a = ''..'' then clean_parts rooted (''..'' # acc) ps else clean_parts rooted as ps)
      else clean_parts rooted (p # acc) ps)"

definition path_clean :: "string \<Rightarrow> string" where
  "path_clean p = (if p = [] then ''.''
     else (let rooted = (hd p = CHR ''/''); out = clean_parts rooted [] (split_on CHR ''/'' p) in
       if rooted then CHR ''/'' # join_with CHR ''/'' out
       else if out = [] then ''.'' else join_with CHR ''/'' out))"

definition path_join :: "string list \<Rightarrow> string" where
  "path_join es = (case dropWhile (\<lambda>e. e = []) es of [] \<Rightarrow> [] | ps \<Rightarrow> path_clean (join_with CHR ''/'' ps))"

section \<open>The image service\<close>

text \<open>The pattern \<open>^v\d+/(.+)$\<close>: a version in front of the name.\<close>

definition strip_version :: "string \<Rightarrow> string" where
  "strip_version rest = (case rest of
       [] \<Rightarrow> rest
     | c # cs \<Rightarrow> if c \<noteq> CHR ''v'' \<or> takeWhile is_digit cs = [] then rest
         else (case dropWhile is_digit cs of
             s # t \<Rightarrow> if s = CHR ''/'' \<and> t \<noteq> [] \<and> CHR 0x0A \<notin> set t then t else rest
           | [] \<Rightarrow> rest))"

definition public_id_from_url :: "string \<Rightarrow> string \<Rightarrow> string option" where
  "public_id_from_url url cloud =
    (if url = [] \<or> cloud = [] then None
     else (let marker = ''res.cloudinary.com/'' @ cloud @ ''/image/upload/'' in
       case find_text marker url of
         None \<Rightarrow> None
       | Some i \<Rightarrow>
         (let rest = strip_version (drop (i + length marker) url);
              rest = takeWhile (\<lambda>c. c \<noteq> CHR ''?'') rest;
              rest = before_last CHR ''.'' rest;
              rest = trim_right (\<lambda>c. c = CHR ''/'') (trim_left (\<lambda>c. c = CHR ''/'') rest)
          in if rest = [] \<or> contains ''..'' rest then None else Some (path_clean rest))))"

definition cloud_name_from_url :: "string \<Rightarrow> string option" where
  "cloud_name_from_url raw = (if CHR ''@'' \<notin> set raw then None
     else (let rest = takeWhile (\<lambda>c. c \<noteq> CHR ''/'') (rev (takeWhile (\<lambda>c. c \<noteq> CHR ''@'') (rev raw))) in
       if rest = [] then None else Some rest))"

record media_client =
  md_cloud :: string
  md_preset :: string
  md_signed :: bool

text \<open>\<open>NewCloudinary\<close>; whether the library accepts the URL or the parameters is the argument \<open>accepts\<close>.\<close>

definition new_cloudinary :: "bool \<Rightarrow> environment \<Rightarrow> media_client option" where
  "new_cloudinary accepts env = (let cfg = cloudinary_config_of env in
     if \<not> cloudinary_enabled env \<or> \<not> accepts then None
     else Some \<lparr>md_cloud = (if cl_cloud_name cfg \<noteq> [] then cl_cloud_name cfg
          else (case cloud_name_from_url (cl_url cfg) of None \<Rightarrow> [] | Some n \<Rightarrow> n)),
        md_preset = cl_upload_preset cfg, md_signed = (cl_api_secret cfg \<noteq> [])\<rparr>)"

text \<open>The preset is sent by unsigned clients only.\<close>

definition upload_preset :: "media_client \<Rightarrow> string option" where
  "upload_preset m = (if md_preset m \<noteq> [] \<and> \<not> md_signed m then Some (md_preset m) else None)"

text \<open>\<open>Upload\<close>: the provider's answer to a public id, refused without a secure URL.\<close>

definition media_upload :: "(string \<Rightarrow> string option \<Rightarrow> stored_image option) \<Rightarrow> media_client \<Rightarrow> string \<Rightarrow> stored_image option" where
  "media_upload provider m public_id = (case provider public_id (upload_preset m) of
       None \<Rightarrow> None | Some r \<Rightarrow> if si_url r = [] then None else Some r)"

definition image_name :: "string \<Rightarrow> string \<Rightarrow> string" where
  "image_name ev raw = take 8 ev @ ''-'' @ take 12 raw"

definition cloud_public_id :: "string \<Rightarrow> string \<Rightarrow> string \<Rightarrow> string" where
  "cloud_public_id org ev raw = ''rallya/events/'' @ org @ ''/'' @ image_name ev raw"

text \<open>\<open>raw\<close> is the random token, if it could be drawn; \<open>ext\<close> is the extension with its dot.\<close>

definition cloud_save_image :: "(string \<Rightarrow> string option \<Rightarrow> stored_image option) \<Rightarrow> media_client \<Rightarrow> string \<Rightarrow> string \<Rightarrow> string option \<Rightarrow> string
    \<Rightarrow> stored_image option" where
  "cloud_save_image provider m org ev raw ext = (case raw of
       None \<Rightarrow> None
     | Some t \<Rightarrow> (case media_upload provider m (cloud_public_id org ev t) of
         None \<Rightarrow> None
       | Some r \<Rightarrow> Some (if si_format r = [] \<and> 1 < length ext then r\<lparr>si_format := tl ext\<rparr> else r)))"

text \<open>What \<open>Delete\<close> destroys: nothing when the URL is not one of the cloud's.\<close>

definition cloud_delete :: "media_client \<Rightarrow> string \<Rightarrow> string option" where
  "cloud_delete m url = public_id_from_url url (md_cloud m)"

section \<open>Local disk\<close>

type_synonym disk = "string \<Rightarrow> string option"

text \<open>Which steps of a save succeed.\<close>

record disk_luck =
  dl_mkdir :: bool
  dl_create :: bool
  dl_copy :: bool

definition local_path :: "string \<Rightarrow> string \<Rightarrow> string \<Rightarrow> string \<Rightarrow> string" where
  "local_path org ev raw ext = path_join [''events'', org, image_name ev raw @ ext]"

definition local_save_image :: "string \<Rightarrow> disk_luck \<Rightarrow> string \<Rightarrow> string \<Rightarrow> string option \<Rightarrow> string \<Rightarrow> string \<Rightarrow> disk
    \<Rightarrow> stored_image option \<times> disk" where
  "local_save_image base luck org ev raw ext bytes fs = (case raw of
       None \<Rightarrow> (None, fs)
     | Some t \<Rightarrow>
       (let rel = local_path org ev t ext; abs = path_join [base, rel] in
        if \<not> dl_mkdir luck \<or> \<not> dl_create luck then (None, fs)
        else if \<not> dl_copy luck then (None, fs(abs := None))
        else (Some \<lparr>si_url = ''/uploads/'' @ rel, si_public_id = rel, si_format = (if 1 < length ext then tl ext else []),
               si_bytes = int (length bytes), si_width = 0, si_height = 0\<rparr>, fs(abs \<mapsto> bytes))))"

text \<open>Removing a file that is not there is no error.\<close>

definition local_delete :: "string \<Rightarrow> string \<Rightarrow> disk \<Rightarrow> disk" where
  "local_delete base url fs = (if \<not> has_prefix ''/uploads/'' url then fs
     else (let rel = drop (length ''/uploads/'') url in
       if contains ''..'' rel then fs else fs(path_join [base, rel] := None)))"

section \<open>What is stored can be deleted\<close>

definition safe_text :: "string \<Rightarrow> bool" where
  "safe_text s = list_all (\<lambda>c. c \<noteq> CHR ''.'' \<and> c \<noteq> CHR ''/'' \<and> c \<noteq> CHR ''?'' \<and> c \<noteq> CHR 0x0A) s"

lemma has_prefix_append [simp]: "has_prefix p (p @ s)"
  by (induction p) auto

lemma has_prefix_iff: "has_prefix p s \<longleftrightarrow> (\<exists>t. s = p @ t)"
  by (induction p s rule: has_prefix.induct) auto

lemma contains_iff: "contains pat s \<longleftrightarrow> (\<exists>a b. s = a @ pat @ b)"
proof (induction s)
  case (Cons x xs)
  have "(\<exists>a b. x # xs = a @ pat @ b) \<longleftrightarrow> (\<exists>t. x # xs = pat @ t) \<or> (\<exists>a b. xs = a @ pat @ b)"
  proof
    assume "\<exists>a b. x # xs = a @ pat @ b"
    then obtain a b where "x # xs = a @ pat @ b" by blast
    then show "(\<exists>t. x # xs = pat @ t) \<or> (\<exists>a b. xs = a @ pat @ b)" by (cases a) auto
  next
    assume "(\<exists>t. x # xs = pat @ t) \<or> (\<exists>a b. xs = a @ pat @ b)"
    then show "\<exists>a b. x # xs = a @ pat @ b" by (metis append.left_neutral append_Cons)
  qed
  with Cons show ?case by (simp add: has_prefix_iff)
qed simp

lemma dots_twice: "contains ''..'' s \<Longrightarrow> 2 \<le> length (filter (\<lambda>c. c = CHR ''.'') s)"
  by (auto simp: contains_iff)

lemma no_dots: "CHR ''.'' \<notin> set s \<Longrightarrow> \<not> contains ''..'' s"
  by (auto simp: contains_iff)

lemma split_infix: "p \<in> set (split_on c s) \<Longrightarrow> \<exists>a b. s = a @ p @ b"
proof (induction s arbitrary: p)
  case (Cons x xs)
  obtain q qs where q: "split_on c xs = q # qs" by (cases "split_on c xs") auto
  have q0: "\<exists>b. xs = q @ b" using join_split [of c xs] q by (cases qs) auto
  show ?case
  proof (cases "x = c \<or> p \<noteq> x # q")
    case True
    then have "p = [] \<or> p \<in> set (split_on c xs)" using Cons.prems q by (auto split: if_splits)
    then show ?thesis using Cons.IH by (metis append.left_neutral append_Cons)
  next
    case False
    with q0 show ?thesis by (metis append.left_neutral append_Cons)
  qed
qed simp

lemma clean_parts_plain: "''..'' \<notin> set ps \<Longrightarrow> clean_parts r acc ps = rev acc @ filter (\<lambda>p. p \<noteq> [] \<and> p \<noteq> ''.'') ps"
  by (induction ps arbitrary: acc) auto

lemma safe_append [simp]: "safe_text (a @ b) = (safe_text a \<and> safe_text b)"
  by (simp add: safe_text_def)

lemma safe_take: "safe_text s \<Longrightarrow> safe_text (take n s)"
  by (auto simp: safe_text_def list_all_iff dest: in_set_takeD)

lemma safe_name: "safe_text ev \<Longrightarrow> safe_text raw \<Longrightarrow> safe_text (image_name ev raw) \<and> image_name ev raw \<noteq> []"
  by (auto simp: image_name_def safe_text_def list_all_iff dest!: in_set_takeD)

lemma safe_parts: "safe_text s \<Longrightarrow> CHR ''/'' \<notin> set s \<and> CHR ''.'' \<notin> set s \<and> CHR ''?'' \<notin> set s \<and> CHR 0x0A \<notin> set s"
  by (auto simp: safe_text_def list_all_iff)


lemma split_parts: "CHR ''/'' \<notin> set a \<Longrightarrow> split_on CHR ''/'' (a @ CHR ''/'' # b) = a # split_on CHR ''/'' b"
  by (rule split_on_append)

lemma proper_parts: "safe_text s \<Longrightarrow> s \<noteq> [] \<Longrightarrow> s \<noteq> ''.'' \<and> s \<noteq> ''..''"
  by (auto simp: safe_text_def)

lemma hyphen_proper: "CHR ''-'' \<in> set s \<Longrightarrow> s \<noteq> [] \<and> s \<noteq> ''.'' \<and> s \<noteq> ''..''"
  by auto

lemma before_last_append: "c \<notin> set b \<Longrightarrow> before_last c (a @ c # b) = a"
  unfolding before_last_def by (simp, subst dropWhile_append2) auto

lemma local_path_plain:
  assumes "safe_text org" "org \<noteq> []" "safe_text ev" "safe_text raw" "ext = [] \<or> (\<exists>x. ext = CHR ''.'' # x \<and> safe_text x)"
  shows "local_path org ev raw ext = ''events/'' @ org @ ''/'' @ image_name ev raw @ ext"
    and "\<not> contains ''..'' (local_path org ev raw ext)"
proof -
  let ?n = "image_name ev raw @ ext"
  have n: "?n \<noteq> []" "?n \<noteq> ''.''" "?n \<noteq> ''..''"
    using hyphen_proper [of ?n] by (simp_all add: image_name_def)
  have n': "CHR ''/'' \<notin> set ?n"
    using safe_parts [OF conjunct1 [OF safe_name [OF assms(3,4)]]] assms(5) by (auto dest: safe_parts)
  note o = safe_parts [OF assms(1)] proper_parts [OF assms(1,2)]
  have "split_on CHR ''/'' (''events/'' @ org @ ''/'' @ ?n) = [''events'', org, ?n]"
    using split_parts [of "''events''"] split_parts [of org] o n' by (simp add: split_on_no_sep)
  then show p: "local_path org ev raw ext = ''events/'' @ org @ ''/'' @ ?n"
    using o assms(2) n by (simp add: local_path_def path_join_def path_clean_def Let_def)
  have "filter (\<lambda>c. c = CHR ''.'') s = []" if "safe_text s" for s using safe_parts [OF that] by (auto simp: filter_empty_conv)
  then have "length (filter (\<lambda>c. c = CHR ''.'') (local_path org ev raw ext)) \<le> 1"
    using assms safe_name [of ev raw] by (auto simp: p)
  then show "\<not> contains ''..'' (local_path org ev raw ext)" using dots_twice by fastforce
qed

lemma find_marker: "find_text (''res.'' @ m) (''https://res.'' @ m @ s) = Some 8"
  by (simp add: has_prefix_iff)

lemma skip_text: "drop (length a) (a @ b) = b"
  by simp

lemma cloud_id_found:
  assumes "safe_text org" "org \<noteq> []" "safe_text ev" "safe_text raw" "safe_text fmt" "cloud \<noteq> []"
    and ver: "ver = [] \<or> (\<exists>ds. ver = CHR ''v'' # ds @ ''/'' \<and> ds \<noteq> [] \<and> list_all is_digit ds)"
  shows "public_id_from_url (''https://res.cloudinary.com/'' @ cloud @ ''/image/upload/'' @ ver @ cloud_public_id org ev raw @ CHR ''.'' # fmt) cloud
    = Some (cloud_public_id org ev raw)"
proof -
  let ?i = "cloud_public_id org ev raw" and ?m = "''res.cloudinary.com/'' @ cloud @ ''/image/upload/''"
  have n: "safe_text (image_name ev raw)" "image_name ev raw \<noteq> []" using safe_name assms by simp_all
  note parts = safe_parts [OF assms(1)] safe_parts [OF n(1)] safe_parts [OF assms(5)] proper_parts [OF assms(1,2)] proper_parts [OF n]
  have i: "CHR ''?'' \<notin> set ?i" "CHR ''.'' \<notin> set ?i" "CHR 0x0A \<notin> set ?i" using parts by (auto simp: cloud_public_id_def)
  have f: "find_text ?m (''https://res.cloudinary.com/'' @ cloud @ ''/image/upload/'' @ ver @ ?i @ CHR ''.'' # fmt) = Some 8"
    using find_marker [of "''cloudinary.com/'' @ cloud @ ''/image/upload/''"] by simp
  have v: "strip_version (ver @ ?i @ CHR ''.'' # fmt) = ?i @ CHR ''.'' # fmt"
    using ver i(3) parts by (auto simp: strip_version_def cloud_public_id_def is_digit_def code_of_def takeWhile_append2 list_all_iff)
  have q: "takeWhile (\<lambda>c. c \<noteq> CHR ''?'') (?i @ CHR ''.'' # fmt) = ?i @ CHR ''.'' # fmt"
    using i parts by (auto simp: takeWhile_eq_all_conv)
  have d: "before_last CHR ''.'' (?i @ CHR ''.'' # fmt) = ?i"
    by (rule before_last_append) (use parts in simp)
  have t: "trim_right (\<lambda>c. c = CHR ''/'') (trim_left (\<lambda>c. c = CHR ''/'') ?i) = ?i"
    using n(2) parts by (cases "image_name ev raw" rule: rev_cases) (auto simp: cloud_public_id_def trim_left_def trim_right_def)
  have "split_on CHR ''/'' ?i = [''rallya'', ''events'', org, image_name ev raw]"
    using split_parts [of "''rallya''"] split_parts [of "''events''"] split_parts [of org] parts
    by (simp add: cloud_public_id_def split_on_no_sep)
  then have c: "path_clean ?i = ?i" using parts assms(2) n(2) by (simp add: path_clean_def Let_def cloud_public_id_def)
  have e: "''https://res.cloudinary.com/'' @ cloud @ ''/image/upload/'' @ x = (''https://'' @ ?m) @ x" for x by simp
  have l: "8 + length ?m = length (''https://'' @ ?m)" by simp
  have dr: "drop (8 + length ?m) (''https://res.cloudinary.com/'' @ cloud @ ''/image/upload/'' @ ver @ ?i @ CHR ''.'' # fmt) = ver @ ?i @ CHR ''.'' # fmt"
    unfolding e l by (rule skip_text)
  have ne: "(''https://res.cloudinary.com/'' @ cloud @ ''/image/upload/'' @ ver @ ?i @ CHR ''.'' # fmt = [] \<or> cloud = []) = False"
    using assms(6) by simp
  have ok: "(?i = [] \<or> contains ''..'' ?i) = False" using no_dots [OF i(2)] by (simp add: cloud_public_id_def)
  show ?thesis by (simp only: public_id_from_url_def Let_def f option.case dr ne v q d t c ok if_False)
qed


lemma below_uploads:
  assumes "\<not> contains ''..'' rel"
  shows "path_join [''./uploads'', rel] = ''uploads'' \<or> has_prefix ''uploads/'' (path_join [''./uploads'', rel])"
proof -
  let ?ps = "filter (\<lambda>p. p \<noteq> [] \<and> p \<noteq> ''.'') (split_on CHR ''/'' rel)"
  have "''..'' \<notin> set (split_on CHR ''/'' rel)" using assms split_infix [of "''..''" _ rel] by (auto simp: contains_iff)
  then have "clean_parts False [] (split_on CHR ''/'' (''./uploads/'' @ rel)) = ''uploads'' # ?ps"
    using split_parts [of "''.''"] split_parts [of "''uploads''" rel] by (simp add: clean_parts_plain)
  then have "path_join [''./uploads'', rel] = join_with CHR ''/'' (''uploads'' # ?ps)"
    by (simp add: path_join_def path_clean_def Let_def)
  then show ?thesis by (cases ?ps) simp_all
qed

text \<open>C37. The storage of images. On local disk, deleting the URL that saving an image returned removes exactly the file that was
  written; and whatever URL is handed to it, the deletion touches nothing outside the uploads directory, dots or not. On the image
  service, the public id that the deletion reads from a delivery URL, with or without a version in it, is the one the image was
  saved under. Identifiers and tokens have no dots, slashes or question marks.\<close>

theorem stored_images_deletable:
  assumes "safe_text org" "org \<noteq> []" "safe_text ev" "safe_text raw" "ext = CHR ''.'' # fmt" "safe_text fmt" and cloud: "md_cloud m \<noteq> []"
    and ver: "ver = [] \<or> (\<exists>ds. ver = CHR ''v'' # ds @ ''/'' \<and> ds \<noteq> [] \<and> list_all is_digit ds)"
  shows "(local_save_image base luck org ev (Some raw) ext bytes fs = (Some st, fs') \<longrightarrow>
      (\<exists>p. fs' = fs(p \<mapsto> bytes) \<and> local_delete base (si_url st) fs' = fs(p := None))) \<and>
    (local_delete ''./uploads'' url fs p \<noteq> fs p \<longrightarrow> p = ''uploads'' \<or> has_prefix ''uploads/'' p) \<and>
    cloud_delete m (''https://res.cloudinary.com/'' @ md_cloud m @ ''/image/upload/'' @ ver @ cloud_public_id org ev raw @ ext)
      = Some (cloud_public_id org ev raw)"
proof (intro conjI impI)
  note plain = local_path_plain [OF assms(1-4), of ext]
  assume "local_save_image base luck org ev (Some raw) ext bytes fs = (Some st, fs')"
  then have "si_url st = ''/uploads/'' @ local_path org ev raw ext"
      "fs' = fs(path_join [base, local_path org ev raw ext] \<mapsto> bytes)"
    by (auto simp: local_save_image_def Let_def split: if_splits)
  then show "\<exists>p. fs' = fs(p \<mapsto> bytes) \<and> local_delete base (si_url st) fs' = fs(p := None)"
    using plain(2) assms(5,6) by (intro exI [of _ "path_join [base, local_path org ev raw ext]"]) (simp add: local_delete_def)
next
  assume "local_delete ''./uploads'' url fs p \<noteq> fs p"
  then show "p = ''uploads'' \<or> has_prefix ''uploads/'' p"
    using below_uploads [of "drop (length ''/uploads/'') url"] by (auto simp: local_delete_def Let_def split: if_splits)
next
  show "cloud_delete m (''https://res.cloudinary.com/'' @ md_cloud m @ ''/image/upload/'' @ ver @ cloud_public_id org ev raw @ ext)
      = Some (cloud_public_id org ev raw)"
    unfolding cloud_delete_def assms(5) by (rule cloud_id_found [OF assms(1-4,6) cloud ver])
qed

theorem stored_images_deletable_witness:
  "cloud_delete \<lparr>md_cloud = ''acme'', md_preset = [], md_signed = True\<rparr>
     ''https://res.cloudinary.com/acme/image/upload/v12/rallya/events/u1/u2-ab.png'' = Some ''rallya/events/u1/u2-ab'' \<and>
   local_delete ''./uploads'' ''/uploads/../secret'' (Map.empty(''secret'' \<mapsto> ''x'')) ''secret'' = Some ''x'' \<and>
   (\<exists>st p. local_save_image ''./uploads'' \<lparr>dl_mkdir = True, dl_create = True, dl_copy = True\<rparr> ''u1'' ''u2'' (Some ''ab'') ''.png'' ''x'' Map.empty
      = (Some st, Map.empty(p \<mapsto> ''x'')) \<and> local_delete ''./uploads'' (si_url st) (Map.empty(p \<mapsto> ''x'')) = Map.empty)"
proof -
  let ?m = "\<lparr>md_cloud = ''acme'', md_preset = [], md_signed = True\<rparr>"
  let ?luck = "\<lparr>dl_mkdir = True, dl_create = True, dl_copy = True\<rparr>"
  obtain st fs' where s: "local_save_image ''./uploads'' ?luck ''u1'' ''u2'' (Some ''ab'') ''.png'' ''x'' Map.empty = (Some st, fs')"
    by (simp add: local_save_image_def Let_def)
  have t: "safe_text ''u1''" "''u1'' \<noteq> []" "safe_text ''u2''" "safe_text ''ab''" "''.png'' = CHR ''.'' # ''png''" "safe_text ''png''"
    "md_cloud ?m \<noteq> []" "''v12/'' = [] \<or> (\<exists>ds. ''v12/'' = CHR ''v'' # ds @ ''/'' \<and> ds \<noteq> [] \<and> list_all is_digit ds)"
    by (simp_all add: safe_text_def) (auto simp: is_digit_def code_of_def intro!: exI [of _ "''12''"])
  note r = stored_images_deletable [OF t, of "''./uploads''" ?luck "''x''" Map.empty st fs' "''/uploads/../secret''" "''secret''"]
  have "local_delete ''./uploads'' ''/uploads/../secret'' (Map.empty(''secret'' \<mapsto> ''x'')) ''secret'' = Some ''x''"
    by (simp add: local_delete_def)
  with r s show ?thesis by (fastforce simp: cloud_public_id_def image_name_def)
qed

end
