(* ===== verification/Mail.thy ===== *)
theory Mail
  imports Config Trail
begin

text \<open>
  Outgoing mail: the texts of the templates (\<open>templates.go\<close>), the workers of the queue (\<open>notification/jobs\<close>), the MIME message
  (\<open>mailer.go\<close>), and what \<open>net/smtp\<close> makes of it on the way to the server and a client reads behind it. Texts are UTF-8 bytes. The HTML half comes from \<open>html/template\<close>, the QR images from
  a library: both are parameters, and so is the server.
\<close>

section \<open>Templates\<close>

record rendered =
  rn_subject :: string
  rn_html :: string
  rn_text :: string

record qr_block =
  qb_content_id :: string
  qb_payload :: string
  qb_no :: nat

text \<open>The data of the six templates, with the name of the application first.\<close>

datatype mail_data =
    VerifyEmail string string string string
  | ResetPassword string string string
  | Welcome string string string
  | OrgInvite string string string string string string
  | EventPublished string string string string string
  | OrderConfirmation string string string nat "qr_block list"

definition nl :: string where
  "nl = [CHR 0x0A]"

definition crlf :: string where
  "crlf = [CHR 0x0D, CHR 0x0A]"

definition em_dash :: string where
  "em_dash = [CHR 0xE2, CHR 0x80, CHR 0x94]"

fun mail_subject :: "mail_data \<Rightarrow> string" where
  "mail_subject (VerifyEmail app name otp link) = ''Verify your email '' @ em_dash @ '' '' @ app"
| "mail_subject (ResetPassword app name link) = ''Reset your password '' @ em_dash @ '' '' @ app"
| "mail_subject (Welcome app name link) = ''Welcome to '' @ app"
| "mail_subject (OrgInvite app name org role inviter link) = ''You are invited to '' @ org @ '' '' @ em_dash @ '' '' @ app"
| "mail_subject (EventPublished app name org title link) = title @ '' is live '' @ em_dash @ '' '' @ app"
| "mail_subject (OrderConfirmation app name title tot codes) = ''Your tickets for '' @ title @ '' '' @ em_dash @ '' '' @ app"

fun mail_text :: "mail_data \<Rightarrow> string" where
  "mail_text (VerifyEmail app name otp link) = ''Hi '' @ name @ '','' @ nl @ nl @ ''Thanks for registering on '' @ app @ ''.'' @ nl @ nl @
     ''Your verification code (expires in 10 minutes): '' @ otp @ nl @ nl @
     ''Or verify with this link (valid 24 hours):'' @ nl @ link @ nl @ nl @
     ''If you didn't create this account, ignore this email.'' @ nl"
| "mail_text (ResetPassword app name link) = ''Hi '' @ name @ '','' @ nl @ nl @ ''You requested a password reset on '' @ app @ ''.'' @ nl @ nl @
     ''Set a new password with this link (valid 1 hour):'' @ nl @ link @ nl @ nl @
     ''If you didn't request this, ignore this email.'' @ nl"
| "mail_text (Welcome app name link) = ''Hi '' @ name @ '','' @ nl @ nl @ ''Your email is verified '' @ em_dash @ '' welcome to '' @ app @ ''!'' @ nl @ nl @
     ''Get started here:'' @ nl @ link @ nl"
| "mail_text (OrgInvite app name org role inviter link) = ''Hi '' @ name @ '','' @ nl @ nl @
     inviter @ '' invited you to join '' @ org @ '' as '' @ role @ ''.'' @ nl @ nl @
     ''Accept here (valid 7 days):'' @ nl @ link @ nl @ nl @
     ''If you don't want to join, ignore this email.'' @ nl"
| "mail_text (EventPublished app name org title link) = ''Hi '' @ name @ '','' @ nl @ nl @
     org @ '' just published '' @ title @ ''.'' @ nl @ nl @
     ''View it here:'' @ nl @ link @ nl @ nl @
     ''Turn off announcements in your organization settings to stop these.'' @ nl"
| "mail_text (OrderConfirmation app name title tot codes) = ''Hi '' @ name @ '','' @ nl @ nl @
     ''Your order for '' @ title @ '' is confirmed ('' @ digits_of tot @ '' ticket(s)).'' @ nl @ nl @
     concat (map (\<lambda>c. ''Ticket '' @ digits_of (qb_no c) @ '' of '' @ digits_of tot @ '' code:'' @ nl @ qb_payload c @ nl @ nl) codes) @
     ''Show a code at the door to check in.'' @ nl"

definition render_mail :: "(mail_data \<Rightarrow> string) \<Rightarrow> mail_data \<Rightarrow> rendered" where
  "render_mail html d = \<lparr>rn_subject = mail_subject d, rn_html = html d, rn_text = mail_text d\<rparr>"

section \<open>Base64\<close>

text \<open>\<open>base64.StdEncoding\<close>.\<close>

definition b64_digit :: "nat \<Rightarrow> char" where
  "b64_digit n = (if n < 26 then char_of (65 + n) else if n < 52 then char_of (71 + n) else if n < 62 then char_of (n - 4)
     else if n = 62 then CHR ''+'' else CHR ''/'')"

fun b64_encode :: "string \<Rightarrow> string" where
  "b64_encode [] = []"
| "b64_encode [a] = (let x = code_of a in [b64_digit (x div 4), b64_digit (x mod 4 * 16), CHR ''='', CHR ''=''])"
| "b64_encode [a, b] = (let x = code_of a; y = code_of b in
     [b64_digit (x div 4), b64_digit (x mod 4 * 16 + y div 16), b64_digit (y mod 16 * 4), CHR ''=''])"
| "b64_encode (a # b # c # cs) = (let x = code_of a; y = code_of b; z = code_of c in
     b64_digit (x div 4) # b64_digit (x mod 4 * 16 + y div 16) # b64_digit (y mod 16 * 4 + z div 64) # b64_digit (z mod 64) # b64_encode cs)"

text \<open>\<open>encodeBase64Chunked\<close>: lines of 76 columns.\<close>

function chunked :: "string \<Rightarrow> string" where
  "chunked enc = (if 76 < length enc then take 76 enc @ crlf @ chunked (drop 76 enc) else enc @ crlf)"
  by pat_completeness auto
termination by (relation "measure length") auto

declare chunked.simps [simp del]

section \<open>The message\<close>

record inline_image =
  ii_content_id :: string
  ii_mime :: string
  ii_data :: string

definition outer_boundary :: string where
  "outer_boundary = ''rallya-mail-outer''"

definition inner_boundary :: string where
  "inner_boundary = ''rallya-mail-inner''"

definition header_lines :: "mail_config \<Rightarrow> string \<Rightarrow> string \<Rightarrow> inline_image list \<Rightarrow> string list" where
  "header_lines cfg to subject imgs =
     [''From: '' @ mc_from_name cfg @ '' <'' @ mc_address cfg @ ''>'', ''To: '' @ to, ''Subject: '' @ subject, ''MIME-Version: 1.0'',
      if imgs = [] then ''Content-Type: multipart/alternative; boundary='' @ inner_boundary
      else ''Content-Type: multipart/related; boundary='' @ outer_boundary]"

definition lines_of :: "string list \<Rightarrow> string" where
  "lines_of ls = concat (map (\<lambda>l. l @ crlf) ls)"

definition image_part :: "inline_image \<Rightarrow> string" where
  "image_part i = lines_of [''--'' @ outer_boundary, ''Content-Type: '' @ (if ii_mime i = [] then ''image/png'' else ii_mime i),
       ''Content-Transfer-Encoding: base64'', ''Content-ID: <'' @ ii_content_id i @ ''>'',
       ''Content-Disposition: inline; filename=\"'' @ ii_content_id i @ ''\"''] @ crlf @
     chunked (b64_encode (ii_data i)) @ crlf"

definition text_part :: "string \<Rightarrow> string \<Rightarrow> string" where
  "text_part kind body = ''Content-Type: text/'' @ kind @ ''; charset=UTF-8'' @ crlf @ crlf @ body @ crlf"

definition mime_message :: "mail_config \<Rightarrow> string \<Rightarrow> string \<Rightarrow> string \<Rightarrow> string \<Rightarrow> inline_image list \<Rightarrow> string" where
  "mime_message cfg to subject text html imgs = lines_of (header_lines cfg to subject imgs) @
    (if imgs = [] then
       crlf @ ''--'' @ inner_boundary @ crlf @ text_part ''plain'' text @ ''--'' @ inner_boundary @ crlf @ text_part ''html'' html @
       ''--'' @ inner_boundary @ ''--'' @ crlf
     else
       crlf @ ''--'' @ outer_boundary @ crlf @ ''Content-Type: multipart/alternative; boundary='' @ inner_boundary @ crlf @ crlf @
       ''--'' @ inner_boundary @ crlf @ text_part ''plain'' text @ ''--'' @ inner_boundary @ crlf @ text_part ''html'' html @
       ''--'' @ inner_boundary @ ''--'' @ crlf @ crlf @ concat (map image_part imgs) @ ''--'' @ outer_boundary @ ''--'' @ crlf)"

text \<open>
  What \<open>smtp.SendMail\<close> does with a message: a sender or recipient with a line break is refused (\<open>validateLine\<close>); the message goes
  through the dot writer of \<open>net/textproto\<close>, which doubles a dot at the start of a line, writes every bare line feed as CRLF, and
  closes the text with a line of one dot.
\<close>

datatype wire_state = WBegin | WBeginLine | WCR | WData

fun dot_write :: "wire_state \<Rightarrow> string \<Rightarrow> string" where
  "dot_write st [] = (case st of WBeginLine \<Rightarrow> [] | WCR \<Rightarrow> nl | _ \<Rightarrow> crlf) @ ''.'' @ crlf"
| "dot_write st (c # cs) =
    (if st = WCR then c # dot_write (if c = CHR 0x0A then WBeginLine else WData) cs
     else (if st \<noteq> WData \<and> c = CHR ''.'' then ''.'' else []) @ (if c = CHR 0x0A then crlf else [c]) @
       dot_write (if c = CHR 0x0D then WCR else if c = CHR 0x0A then WBeginLine else WData) cs)"

definition line_break_in :: "string \<Rightarrow> bool" where
  "line_break_in s \<longleftrightarrow> CHR 0x0A \<in> set s \<or> CHR 0x0D \<in> set s"

text \<open>
  Without credentials mail is only logged. \<open>Handed\<close> holds the server, the two addresses of the envelope and the bytes of the
  \<open>DATA\<close> command; whether the server takes them is its own answer.
\<close>

datatype delivery = LoggedOnly | BadAddress | Handed string string string string

definition send_with_images :: "environment \<Rightarrow> string \<Rightarrow> string \<Rightarrow> string \<Rightarrow> string \<Rightarrow> inline_image list \<Rightarrow> delivery" where
  "send_with_images env to subject text html imgs = (let cfg = mail_config_of env in
     if \<not> mail_enabled env then LoggedOnly
     else if line_break_in (mc_address cfg) \<or> line_break_in to then BadAddress
     else Handed (mc_host cfg @ '':'' @ mc_port cfg) (mc_address cfg) to (dot_write WBegin (mime_message cfg to subject text html imgs)))"

section \<open>Workers\<close>

text \<open>What a job is rendered from: recipient, data and images. Only a QR image can fail; the queue then runs the job again.\<close>

definition qr_blocks :: "string list \<Rightarrow> qr_block list" where
  "qr_blocks payloads = map (\<lambda>i. \<lparr>qb_content_id = ''qr'' @ digits_of i, qb_payload = payloads ! i, qb_no = i + 1\<rparr>) [0 ..< length payloads]"

fun qr_images :: "(string \<Rightarrow> string option) \<Rightarrow> qr_block list \<Rightarrow> inline_image list option" where
  "qr_images png [] = Some []"
| "qr_images png (c # cs) = (case png (qb_payload c) of None \<Rightarrow> None
     | Some d \<Rightarrow> map_option (Cons \<lparr>ii_content_id = qb_content_id c, ii_mime = ''image/png'', ii_data = d\<rparr>) (qr_images png cs))"

fun mail_of :: "(string \<Rightarrow> string option) \<Rightarrow> string \<Rightarrow> job \<Rightarrow> (string \<times> mail_data \<times> inline_image list) option" where
  "mail_of png app (SendVerificationEmail user email name otp link) = Some (email, VerifyEmail app name otp link, [])"
| "mail_of png app (SendPasswordResetEmail user email name link) = Some (email, ResetPassword app name link, [])"
| "mail_of png app (SendWelcomeEmail user email name link) = Some (email, Welcome app name link, [])"
| "mail_of png app (SendOrgInviteEmail org oname slug email name role inviter link) =
     Some (email, OrgInvite app name oname role inviter link, [])"
| "mail_of png app (SendEventPublishedEmail ev title oname email name link) = Some (email, EventPublished app name oname title link, [])"
| "mail_of png app (SendOrderConfirmationEmail order email name title payloads) =
     (let codes = qr_blocks payloads in
      map_option (\<lambda>imgs. (email, OrderConfirmation app name title (length codes) codes, imgs)) (qr_images png codes))"

definition work :: "(string \<Rightarrow> string option) \<Rightarrow> (mail_data \<Rightarrow> string) \<Rightarrow> environment \<Rightarrow> job \<Rightarrow> delivery option" where
  "work png html env j = (case mail_of png (app_name env) j of
       None \<Rightarrow> None
     | Some (to, d, imgs) \<Rightarrow> (let r = render_mail html d in
         Some (send_with_images env to (rn_subject r) (rn_text r) (rn_html r) imgs)))"


section \<open>Reading a message back\<close>

text \<open>
  The other end of the wire. The receiving server splits the \<open>DATA\<close> bytes at CRLF, stops at the line of one dot and takes the
  doubled dots back (RFC 5321, 4.5.2); a client reads header lines up to the first empty line, and decodes base64.
\<close>

definition b64_value :: "char \<Rightarrow> nat" where
  "b64_value c = (let n = code_of c in if 97 \<le> n then n - 71 else if 65 \<le> n then n - 65 else if 48 \<le> n then n + 4
     else if c = CHR ''+'' then 62 else 63)"

fun b64_decode :: "string \<Rightarrow> string" where
  "b64_decode (p # q # r # s # cs) =
     (let x = b64_value p; y = b64_value q; z = b64_value r; u = b64_value s in
      if r = CHR ''='' then [char_of (x * 4 + y div 16)]
      else if s = CHR ''='' then [char_of (x * 4 + y div 16), char_of (y mod 16 * 16 + z div 4)]
      else char_of (x * 4 + y div 16) # char_of (y mod 16 * 16 + z div 4) # char_of (z mod 4 * 64 + u) # b64_decode cs)"
| "b64_decode _ = []"

fun crlf_lines :: "string \<Rightarrow> string \<Rightarrow> string list" where
  "crlf_lines acc [] = [rev acc]"
| "crlf_lines acc [a] = [rev (a # acc)]"
| "crlf_lines acc (a # b # s) = (if a = CHR 0x0D \<and> b = CHR 0x0A then rev acc # crlf_lines [] s else crlf_lines (a # acc) (b # s))"

definition undot :: "string \<Rightarrow> string" where
  "undot l = (if take 1 l = ''.'' then drop 1 l else l)"

definition smtp_receive :: "string \<Rightarrow> string list" where
  "smtp_receive wire = map undot (takeWhile (\<lambda>l. l \<noteq> ''.'') (crlf_lines [] wire))"

definition mail_headers :: "string \<Rightarrow> string list" where
  "mail_headers wire = takeWhile (\<lambda>l. l \<noteq> []) (smtp_receive wire)"

lemma char_of_is: "m < 256 \<Longrightarrow> char_of m = c \<longleftrightarrow> m = code_of c"
  using code_of_char_of [of m] char_of_code_of [of c] by metis

lemma codes: "code_of CHR ''='' = 61" "code_of CHR ''+'' = 43" "code_of CHR ''/'' = 47" "code_of CHR 0x0D = 13" "code_of CHR 0x0A = 10"
  by (simp_all add: code_of_def)

lemma b64_digit_cases: "n < 64 \<Longrightarrow> (n < 26 \<Longrightarrow> b64_digit n = char_of (65 + n) \<Longrightarrow> P) \<Longrightarrow>
    (26 \<le> n \<Longrightarrow> n < 52 \<Longrightarrow> b64_digit n = char_of (71 + n) \<Longrightarrow> P) \<Longrightarrow> (52 \<le> n \<Longrightarrow> n < 62 \<Longrightarrow> b64_digit n = char_of (n - 4) \<Longrightarrow> P) \<Longrightarrow>
    (n = 62 \<Longrightarrow> b64_digit n = CHR ''+'' \<Longrightarrow> P) \<Longrightarrow> (n = 63 \<Longrightarrow> b64_digit n = CHR ''/'' \<Longrightarrow> P) \<Longrightarrow> P"
  by (cases "n < 26"; cases "n < 52"; cases "n < 62"; cases "n = 62") (simp_all add: b64_digit_def)

lemma b64_digit_value [simp]: "n < 64 \<Longrightarrow> b64_value (b64_digit n) = n"
  by (erule b64_digit_cases) (auto simp: b64_value_def codes Let_def)

lemma b64_digit_plain [simp]: "n < 64 \<Longrightarrow> b64_digit n \<noteq> CHR ''=''" "n < 64 \<Longrightarrow> b64_digit n \<noteq> CHR 0x0D" "n < 64 \<Longrightarrow> b64_digit n \<noteq> CHR 0x0A"
  by (erule b64_digit_cases; simp add: char_of_is codes)+

lemma small_parts: "x div 4 < (64::nat)" "x mod 4 * 16 + y div 16 < 64" "y mod 16 * 4 + z div 64 < 64" "z mod 64 < 64" "x mod 4 * 16 < 64" "y mod 16 * 4 < 64"
  if "x < 256" "y < 256" "z < 256"
proof -
  have m: "x mod 4 < 4" "y mod 16 < 16" by simp_all
  have d: "y div 16 < 16" "z div 64 < 4" using that by (simp_all add: div_less_iff_less_mult)
  show "x div 4 < 64" using that(1) by (simp add: div_less_iff_less_mult)
  show "x mod 4 * 16 + y div 16 < 64" using m d by linarith
  show "y mod 16 * 4 + z div 64 < 64" using m d by linarith
  show "z mod 64 < 64" by simp
  show "x mod 4 * 16 < 64" using m by linarith
  show "y mod 16 * 4 < 64" using m by linarith
qed

lemma high_bits [simp]: "code_of c div 16 mod 16 = code_of c div 16" "code_of c div 16 div 16 = 0" "code_of c div 64 mod 4 = code_of c div 64"
    "code_of c div 64 div 4 = 0"
proof -
  have "code_of c div 16 < 16" "code_of c div 64 < 4" by (simp_all add: div_less_iff_less_mult)
  then show "code_of c div 16 mod 16 = code_of c div 16" "code_of c div 16 div 16 = 0" "code_of c div 64 mod 4 = code_of c div 64"
    "code_of c div 64 div 4 = 0" by simp_all
qed

lemma b64_roundtrip: "b64_decode (b64_encode s) = s"
proof (induction s rule: b64_encode.induct)
  case (2 a)
  then show ?case using small_parts [of "code_of a" 0 0] by (simp add: Let_def)
next
  case (3 a b)
  then show ?case
    using small_parts [of "code_of a" "code_of b" 0] by (simp add: Let_def)
next
  case (4 a b c cs)
  then show ?case
    using small_parts [of "code_of a" "code_of b" "code_of c"] by (simp add: Let_def)
qed simp

lemma b64_plain: "c \<in> set (b64_encode s) \<Longrightarrow> c \<noteq> CHR 0x0D \<and> c \<noteq> CHR 0x0A"
proof (induction s rule: b64_encode.induct)
  case (2 a)
  then show ?case using small_parts [of "code_of a" 0 0] by (auto simp: Let_def)
next
  case (3 a b)
  then show ?case using small_parts [of "code_of a" "code_of b" 0] by (auto simp: Let_def)
next
  case (4 a b c cs)
  then show ?case using small_parts [of "code_of a" "code_of b" "code_of c"] by (auto simp: Let_def)
qed simp


lemma chunked_lines: "\<exists>ls. chunked enc = lines_of ls \<and> concat ls = enc \<and> list_all (\<lambda>l. length l \<le> 76) ls"
proof (induction enc rule: chunked.induct)
  case (1 enc)
  show ?case
  proof (cases "76 < length enc")
    case True
    with 1 obtain ls where "chunked (drop 76 enc) = lines_of ls" "concat ls = drop 76 enc" "list_all (\<lambda>l. length l \<le> 76) ls" by blast
    with True show ?thesis
      by (intro exI [of _ "take 76 enc # ls"]) (simp add: chunked.simps [of enc] lines_of_def)
  next
    case False
    then show ?thesis by (intro exI [of _ "[enc]"]) (simp add: chunked.simps [of enc] lines_of_def)
  qed
qed

lemma strip_lines: "(\<And>c. c \<in> set (concat ls) \<Longrightarrow> c \<noteq> CHR 0x0D \<and> c \<noteq> CHR 0x0A) \<Longrightarrow>
    filter (\<lambda>c. c \<noteq> CHR 0x0D \<and> c \<noteq> CHR 0x0A) (lines_of ls) = concat ls"
proof (induction ls)
  case (Cons l ls)
  have "filter (\<lambda>c. c \<noteq> CHR 0x0D \<and> c \<noteq> CHR 0x0A) l = l" using Cons.prems by (auto simp: filter_id_conv)
  moreover have "filter (\<lambda>c. c \<noteq> CHR 0x0D \<and> c \<noteq> CHR 0x0A) (lines_of ls) = concat ls" using Cons.prems by (intro Cons.IH) auto
  ultimately show ?case by (simp add: lines_of_def crlf_def)
qed (simp add: lines_of_def)

lemma read_line: "CHR 0x0D \<notin> set l \<Longrightarrow> crlf_lines acc (l @ crlf @ t) = (rev acc @ l) # crlf_lines [] t"
proof (induction l arbitrary: acc)
  case Nil
  then show ?case by (simp add: crlf_def)
next
  case (Cons a l)
  then obtain b s where "l @ crlf @ t = b # s" by (cases l) (auto simp: crlf_def)
  with Cons show ?case using Cons.IH [of "a # acc"] by auto
qed

section \<open>Through the wire\<close>

text \<open>The first step of the reader over what the writer emits next; \<open>acc\<close> is the line so far, reversed.\<close>

lemma dot_write_step: "dot_write WData s \<noteq> [] \<and> hd (dot_write WData s) \<noteq> CHR 0x0A"
  by (cases s) (auto simp: crlf_def)

lemma read_char: "a \<noteq> CHR 0x0D \<Longrightarrow> s \<noteq> [] \<Longrightarrow> crlf_lines acc (a # s) = crlf_lines (a # acc) s"
  by (cases s) auto

lemma read_stray: "crlf_lines acc (CHR 0x0D # dot_write WData s) = crlf_lines (CHR 0x0D # acc) (dot_write WData s)"
  using dot_write_step [of s] by (cases "dot_write WData s") auto

lemma read_break: "crlf_lines acc (crlf @ s) = rev acc # crlf_lines [] s" "crlf_lines acc (CHR 0x0D # CHR 0x0A # s) = rev acc # crlf_lines [] s"
  by (simp_all add: crlf_def)

lemma dot_write_some [simp]: "dot_write st s \<noteq> []"
  by (cases "(st, s)" rule: dot_write.cases) (auto simp: crlf_def)

text \<open>
  The end of the text is where the writer put it: whatever the bytes of a message, no line before the last is a single dot, and
  nothing follows the closing line. So no text of a mail can end it early.
\<close>

definition closed :: "string list \<Rightarrow> bool" where
  "closed ls \<longleftrightarrow> (\<exists>ks. ls = ks @ [''.'', []] \<and> ''.'' \<notin> set ks)"

lemma closed_Cons: "l \<noteq> ''.'' \<Longrightarrow> closed ls \<Longrightarrow> closed (l # ls)"
  by (auto simp: closed_def intro: exI [of _ "l # ks" for ks])

lemma closed_end: "closed [''.'', []]"
  by (simp add: closed_def)

lemma dot_frame:
  "(acc = [] \<longrightarrow> closed (crlf_lines [] (dot_write WBeginLine s))) \<and>
   (acc \<noteq> [] \<and> acc \<noteq> ''.'' \<longrightarrow> closed (crlf_lines acc (dot_write WData s))) \<and>
   (acc \<noteq> ''.'' \<longrightarrow> closed (crlf_lines acc (CHR 0x0D # dot_write WCR s)))"
proof (induction s arbitrary: acc)
  case Nil
  have e: "crlf_lines [] (''.'' @ crlf) = [''.'', []]" by (simp add: crlf_def)
  have "closed (rev acc # [''.'', []])" if "acc \<noteq> ''.''" using that by (intro closed_Cons closed_end) auto
  with e show ?case by (auto simp: read_break nl_def closed_end)
next
  case (Cons c cs)
  have data: "closed (crlf_lines acc (dot_write WData cs))" if "acc \<noteq> []" "acc \<noteq> ''.''" for acc using Cons.IH [of acc] that by blast
  have begin_line: "closed (crlf_lines [] (dot_write WBeginLine cs))" using Cons.IH [of "[]"] by blast
  have cr: "closed (crlf_lines acc (CHR 0x0D # dot_write WCR cs))" if "acc \<noteq> ''.''" for acc using Cons.IH [of acc] that by blast
  have line: "closed (rev acc # crlf_lines [] (dot_write WBeginLine cs))" if "acc \<noteq> ''.''" for acc
    using that begin_line by (intro closed_Cons) auto
  show ?case
  proof (intro conjI impI)
    show "closed (crlf_lines [] (dot_write WBeginLine (c # cs)))"
      using data [of "''..''"] data [of "[c]"] cr [of "[]"] line [of "[]"] by (auto simp: read_break read_char)
    assume acc: "acc \<noteq> [] \<and> acc \<noteq> ''.''"
    then show "closed (crlf_lines acc (dot_write WData (c # cs)))"
      using data [of "c # acc"] cr [of acc] line [of acc] by (auto simp: read_break read_char)
  next
    assume acc: "acc \<noteq> ''.''"
    have "closed (crlf_lines acc (CHR 0x0D # c # dot_write WData cs))" if "c \<noteq> CHR 0x0A"
    proof -
      have "crlf_lines acc (CHR 0x0D # c # dot_write WData cs) = crlf_lines (CHR 0x0D # acc) (c # dot_write WData cs)" using that by simp
      also have "\<dots> = crlf_lines (c # CHR 0x0D # acc) (dot_write WData cs)"
        by (cases "c = CHR 0x0D") (simp_all add: read_stray read_char)
      finally show ?thesis using data [of "c # CHR 0x0D # acc"] by simp
    qed
    with line [OF acc] show "closed (crlf_lines acc (CHR 0x0D # dot_write WCR (c # cs)))" by (auto simp: read_break)
  qed
qed

lemma dot_closed: "closed (crlf_lines [] (dot_write WBegin s))"
proof (cases s)
  case Nil
  then show ?thesis by (simp add: crlf_def closed_def)
next
  case (Cons c cs)
  then have "dot_write WBegin s = dot_write WBeginLine s" by simp
  then show ?thesis using dot_frame [of "[]" s] by simp
qed

text \<open>Lines of text, ended by either kind of break, arrive as they are.\<close>

definition stuffed :: "string \<Rightarrow> string" where
  "stuffed l = (if take 1 l = ''.'' then CHR ''.'' # l else l)"

lemma stuffed_simps [simp]: "stuffed l \<noteq> ''.''" "undot (stuffed l) = l"
  by (auto simp: stuffed_def undot_def)

lemma write_plain: "\<not> line_break_in l \<Longrightarrow> brk = nl \<or> brk = crlf \<Longrightarrow> dot_write WData (l @ brk @ t) = l @ crlf @ dot_write WBeginLine t"
  by (induction l) (auto simp: line_break_in_def nl_def crlf_def)

lemma write_line:
  assumes "\<not> line_break_in l" and "brk = nl \<or> brk = crlf" and "st = WBegin \<or> st = WBeginLine"
  shows "dot_write st (l @ brk @ t) = stuffed l @ crlf @ dot_write WBeginLine t"
proof (cases l)
  case Nil
  then show ?thesis using assms by (auto simp: nl_def crlf_def stuffed_def)
next
  case (Cons c cs)
  then have "\<not> line_break_in cs" "c \<noteq> CHR 0x0A" "c \<noteq> CHR 0x0D" using assms(1) by (auto simp: line_break_in_def)
  with Cons assms(3) write_plain [of cs brk t] assms(2) show ?thesis by (auto simp: stuffed_def)
qed

definition text_of :: "(string \<times> string) list \<Rightarrow> string" where
  "text_of ls = concat (map (\<lambda>(l, brk). l @ brk) ls)"

definition text_lines_ok :: "(string \<times> string) list \<Rightarrow> bool" where
  "text_lines_ok ls \<longleftrightarrow> list_all (\<lambda>(l, brk). \<not> line_break_in l \<and> (brk = nl \<or> brk = crlf)) ls"

lemma receive_lines:
  assumes "text_lines_ok ls" and "st = WBeginLine \<or> st = WBegin \<and> ls \<noteq> []"
  shows "smtp_receive (dot_write st (text_of ls @ t)) = map fst ls @ smtp_receive (dot_write WBeginLine t)"
  using assms
proof (induction ls arbitrary: st)
  case Nil
  then show ?case by (simp add: text_of_def)
next
  case (Cons x ls)
  obtain l brk where x: "x = (l, brk)" by (cases x)
  with Cons.prems(1) have ok: "\<not> line_break_in l" "brk = nl \<or> brk = crlf" "text_lines_ok ls" by (auto simp: text_lines_ok_def)
  have w: "dot_write st (text_of (x # ls) @ t) = stuffed l @ crlf @ dot_write WBeginLine (text_of ls @ t)"
    using write_line [OF ok(1,2), of st "text_of ls @ t"] Cons.prems(2) by (auto simp: x text_of_def)
  have "CHR 0x0D \<notin> set (stuffed l)" using ok(1) by (auto simp: stuffed_def line_break_in_def)
  then have "smtp_receive (dot_write st (text_of (x # ls) @ t)) = l # smtp_receive (dot_write WBeginLine (text_of ls @ t))"
    unfolding w by (simp add: smtp_receive_def read_line)
  with Cons.IH [OF ok(3), of WBeginLine] show ?case by (simp add: x)
qed

lemma received_text:
  assumes "text_lines_ok ls" and "ls \<noteq> []"
  shows "smtp_receive (dot_write WBegin (text_of ls)) = map fst ls"
  using receive_lines [OF assms(1), of WBegin "[]"] assms(2) by (simp add: smtp_receive_def crlf_def)

lemma received_headers:
  assumes "text_lines_ok ls" and "ls \<noteq> []" and "list_all (\<lambda>l. l \<noteq> []) (map fst ls)"
  shows "mail_headers (dot_write WBegin (text_of ls @ crlf @ t)) = map fst ls"
proof -
  have e: "text_of ls @ crlf @ t = text_of (ls @ [([], crlf)]) @ t" by (simp add: text_of_def)
  have "text_lines_ok (ls @ [([], crlf)])" using assms(1) by (simp add: text_lines_ok_def line_break_in_def)
  then have "smtp_receive (dot_write WBegin (text_of ls @ crlf @ t)) = (map fst ls @ [[]]) @ smtp_receive (dot_write WBeginLine t)"
    unfolding e by (subst receive_lines) simp_all
  then show ?thesis using assms(3) by (force simp: mail_headers_def list_all_iff intro!: takeWhile_append2 [THEN trans])
qed

text \<open>The header of a message over its subject: the lines before and after it, and how a break in the subject splits it.\<close>

definition header_pairs :: "mail_config \<Rightarrow> string \<Rightarrow> (string \<times> string) list \<Rightarrow> inline_image list \<Rightarrow> (string \<times> string) list" where
  "header_pairs cfg to subject imgs = map (\<lambda>l. (l, crlf)) (take 2 (header_lines cfg to [] imgs)) @ subject @
     map (\<lambda>l. (l, crlf)) (drop 3 (header_lines cfg to [] imgs))"

lemma header_pairs_ok:
  assumes "\<not> line_break_in (mc_from_name cfg)" "\<not> line_break_in (mc_address cfg)" "\<not> line_break_in to" "text_lines_ok subject"
    and "list_all (\<lambda>l. l \<noteq> []) (map fst subject)"
  shows "text_lines_ok (header_pairs cfg to subject imgs)" "list_all (\<lambda>l. l \<noteq> []) (map fst (header_pairs cfg to subject imgs))"
    "header_pairs cfg to subject imgs \<noteq> []"
  using assms by (simp_all add: header_pairs_def text_lines_ok_def header_lines_def line_break_in_def inner_boundary_def outer_boundary_def)

lemma message_headers:
  assumes "\<not> line_break_in (mc_from_name cfg)" "\<not> line_break_in (mc_address cfg)" "\<not> line_break_in to" "text_lines_ok ls"
    and "list_all (\<lambda>l. l \<noteq> []) (map fst ls)" and "''Subject: '' @ subject @ crlf = text_of ls"
  shows "mail_headers (dot_write WBegin (mime_message cfg to subject text html imgs)) =
    take 2 (header_lines cfg to subject imgs) @ map fst ls @ drop 3 (header_lines cfg to subject imgs)"
proof -
  have "\<exists>t. mime_message cfg to subject text html imgs = text_of (header_pairs cfg to ls imgs) @ crlf @ t"
    using assms(6) by (auto simp: mime_message_def header_pairs_def header_lines_def lines_of_def text_of_def)
  then obtain t where "mime_message cfg to subject text html imgs = text_of (header_pairs cfg to ls imgs) @ crlf @ t" by blast
  then show ?thesis
    using received_headers [OF header_pairs_ok(1) [OF assms(1-5)] header_pairs_ok(3) [OF assms(1-5)] header_pairs_ok(2) [OF assms(1-5)]]
    by (simp add: header_pairs_def header_lines_def comp_def)
qed

lemma handed_headers:
  assumes "send_with_images env to subject text html imgs = Handed server sender rcpt wire"
  shows "(\<not> line_break_in subject \<longrightarrow> mail_headers wire = header_lines (mail_config_of env) to subject imgs) \<and>
     (\<forall>a brk b. subject = a @ brk @ b \<and> (brk = nl \<or> brk = crlf) \<and> \<not> line_break_in a \<and> \<not> line_break_in b \<and> b \<noteq> [] \<longrightarrow>
       mail_headers wire = take 2 (header_lines (mail_config_of env) to subject imgs) @ [''Subject: '' @ a, b] @
         drop 3 (header_lines (mail_config_of env) to subject imgs))"
proof -
  let ?cfg = "mail_config_of env"
  from assms have w: "wire = dot_write WBegin (mime_message ?cfg to subject text html imgs)" "\<not> line_break_in (mc_address ?cfg)" "\<not> line_break_in to"
    by (auto simp: send_with_images_def Let_def split: if_splits)
  have n: "\<not> line_break_in (mc_from_name ?cfg)" by (simp add: mail_config_of_def line_break_in_def Let_def)
  note read = message_headers [OF n w(2,3), where subject = subject and imgs = imgs]
  show ?thesis
  proof (intro conjI allI impI)
    assume "\<not> line_break_in subject"
    then show "mail_headers wire = header_lines ?cfg to subject imgs"
      unfolding w(1) using read [of "[(''Subject: '' @ subject, crlf)]"]
      by (simp add: text_lines_ok_def text_of_def line_break_in_def header_lines_def)
  next
    fix a brk b
    assume s: "subject = a @ brk @ b \<and> (brk = nl \<or> brk = crlf) \<and> \<not> line_break_in a \<and> \<not> line_break_in b \<and> b \<noteq> []"
    then show "mail_headers wire = take 2 (header_lines ?cfg to subject imgs) @ [''Subject: '' @ a, b] @ drop 3 (header_lines ?cfg to subject imgs)"
      unfolding w(1) using read [of "[(''Subject: '' @ a, brk), (b, crlf)]"]
      by (simp add: text_lines_ok_def text_of_def line_break_in_def)
  qed
qed

text \<open>C38. Outgoing mail through the wire. An inline image is written in lines of at most 76 characters that decode to its bytes. Whatever
  the bytes of a message, the receiving server finds its end exactly where the mailer ended it, and lines of text arrive as they were
  written, with either kind of line break. Of a mail that is handed to the server, the headers are exactly the five lines the mailer
  wrote if the subject has neither a line feed nor a carriage return; and a single line feed or CRLF in the subject ends its header: what
  follows it, if anything, is one more header line for the recipient's client. Nothing in the code checks the subject, and the name of an
  organization is put into the subject of its invitations as it is.\<close>

theorem mail_reads_back:
  "(\<exists>ks. chunked (b64_encode d) = lines_of ks \<and> list_all (\<lambda>l. length l \<le> 76) ks) \<and>
   b64_decode (filter (\<lambda>c. c \<noteq> CHR 0x0D \<and> c \<noteq> CHR 0x0A) (chunked (b64_encode d))) = d \<and>
   (\<exists>ks. crlf_lines [] (dot_write WBegin m) = ks @ [''.'', []] \<and> ''.'' \<notin> set ks) \<and>
   (text_lines_ok ls \<and> ls \<noteq> [] \<longrightarrow> smtp_receive (dot_write WBegin (text_of ls)) = map fst ls) \<and>
   (send_with_images env to subject text html imgs = Handed server sender rcpt wire \<longrightarrow>
     (\<not> line_break_in subject \<longrightarrow> mail_headers wire = header_lines (mail_config_of env) to subject imgs) \<and>
     (\<forall>a brk b. subject = a @ brk @ b \<and> (brk = nl \<or> brk = crlf) \<and> \<not> line_break_in a \<and> \<not> line_break_in b \<and> b \<noteq> [] \<longrightarrow>
       mail_headers wire = take 2 (header_lines (mail_config_of env) to subject imgs) @ [''Subject: '' @ a, b] @
         drop 3 (header_lines (mail_config_of env) to subject imgs)))"
proof -
  obtain ks where ks: "chunked (b64_encode d) = lines_of ks" "concat ks = b64_encode d" "list_all (\<lambda>l. length l \<le> 76) ks"
    using chunked_lines by blast
  have dec: "filter (\<lambda>c. c \<noteq> CHR 0x0D \<and> c \<noteq> CHR 0x0A) (chunked (b64_encode d)) = b64_encode d"
    unfolding ks(1) using strip_lines [of ks] b64_plain ks(2) by auto
  have frame: "\<exists>ks. crlf_lines [] (dot_write WBegin m) = ks @ [''.'', []] \<and> ''.'' \<notin> set ks"
    using dot_closed [of m] by (simp add: closed_def)
  show ?thesis using ks(1,3) dec b64_roundtrip [of d] frame received_text [of ls] handed_headers [of env to subject "text" html imgs] by auto
qed

text \<open>An invitation to an organization whose name has a line feed: its recipient's client reads a blind copy to somebody else.\<close>

definition mail_env :: environment where
  "mail_env k = (if k = ''EMAIL_ADDRESS'' then ''no-reply@x.io'' else if k = ''EMAIL_PASSWORD'' then ''pw'' else [])"

definition sneaky :: mail_data where
  "sneaky = OrgInvite ''Rallya'' ''Bob'' (''Acme'' @ nl @ ''Bcc: eve@x.io'') ''MEMBER'' ''Ada'' ''link''"

theorem mail_reads_back_witness:
  "\<exists>plain sneaked. send_with_images mail_env ''bob@x.io'' ''Hello'' ''t'' ''h'' [] = Handed ''smtp.gmail.com:587'' ''no-reply@x.io'' ''bob@x.io'' plain \<and>
     mail_headers plain = [''From: Grip <no-reply@x.io>'', ''To: bob@x.io'', ''Subject: Hello'', ''MIME-Version: 1.0'',
       ''Content-Type: multipart/alternative; boundary=rallya-mail-inner''] \<and>
     send_with_images mail_env ''bob@x.io'' (mail_subject sneaky) ''t'' ''h'' [] = Handed ''smtp.gmail.com:587'' ''no-reply@x.io'' ''bob@x.io'' sneaked \<and>
     mail_headers sneaked = [''From: Grip <no-reply@x.io>'', ''To: bob@x.io'', ''Subject: You are invited to Acme'',
       ''Bcc: eve@x.io '' @ em_dash @ '' Rallya'', ''MIME-Version: 1.0'', ''Content-Type: multipart/alternative; boundary=rallya-mail-inner''] \<and>
     smtp_receive (dot_write WBegin (''.a'' @ nl @ ''.'' @ crlf)) = [''.a'', ''.'']"
proof -
  have "trim_space ''no-reply@x.io'' = ''no-reply@x.io''" by code_simp
  then have cfg: "mail_enabled mail_env"
      "mail_config_of mail_env = \<lparr>mc_address = ''no-reply@x.io'', mc_password = ''pw'', mc_host = ''smtp.gmail.com'', mc_port = ''587'', mc_from_name = ''Grip''\<rparr>"
    by (simp_all add: mail_enabled_def mail_config_of_def mail_env_def)
  have sent: "\<exists>w. send_with_images mail_env ''bob@x.io'' s ''t'' ''h'' [] = Handed ''smtp.gmail.com:587'' ''no-reply@x.io'' ''bob@x.io'' w" for s
    by (simp add: send_with_images_def cfg line_break_in_def)
  from sent obtain plain where p: "send_with_images mail_env ''bob@x.io'' ''Hello'' ''t'' ''h'' [] = Handed ''smtp.gmail.com:587'' ''no-reply@x.io'' ''bob@x.io'' plain"
    by blast
  from sent obtain sneaked where q: "send_with_images mail_env ''bob@x.io'' (mail_subject sneaky) ''t'' ''h'' [] = Handed ''smtp.gmail.com:587'' ''no-reply@x.io'' ''bob@x.io'' sneaked"
    by blast
  have "mail_subject sneaky = ''You are invited to Acme'' @ nl @ (''Bcc: eve@x.io '' @ em_dash @ '' Rallya'')" (is "?s") by (simp add: sneaky_def)
  have "mail_headers sneaked = take 2 (header_lines (mail_config_of mail_env) ''bob@x.io'' (mail_subject sneaky) []) @
      [''Subject: '' @ ''You are invited to Acme'', ''Bcc: eve@x.io '' @ em_dash @ '' Rallya''] @ drop 3 (header_lines (mail_config_of mail_env) ''bob@x.io'' (mail_subject sneaky) [])"
    by (rule mail_reads_back [THEN conjunct2, THEN conjunct2, THEN conjunct2, THEN conjunct2, THEN mp, OF q, THEN conjunct2, rule_format,
          of _ nl]) (simp add: \<open>?s\<close> line_break_in_def em_dash_def)
  moreover have "mail_headers plain = header_lines (mail_config_of mail_env) ''bob@x.io'' ''Hello'' []"
    by (rule mail_reads_back [THEN conjunct2, THEN conjunct2, THEN conjunct2, THEN conjunct2, THEN mp, OF p, THEN conjunct1, rule_format])
      (simp add: line_break_in_def)
  moreover have "smtp_receive (dot_write WBegin (''.a'' @ nl @ ''.'' @ crlf)) = [''.a'', ''.'']"
    using mail_reads_back [of "[]" "[]" "[(''.a'', nl), (''.'', crlf)]", THEN conjunct2, THEN conjunct2, THEN conjunct2, THEN conjunct1]
    by (simp add: text_lines_ok_def text_of_def line_break_in_def)
  ultimately show ?thesis using p q by (simp add: header_lines_def cfg inner_boundary_def)
qed

end
