(* ===== verification/Cache.thy ===== *)
theory Cache
  imports Event
begin

text \<open>
  The JSON cache over Redis (\<open>internal/cache/cache.go\<close>). The client is a parameter: what Redis answers to the three commands, over a
  state of its own; so is the codec. The event service keeps its public payloads in such a store; the table
  \<open>detail_cache\<close> of the model is that store seen through this code, as the last section shows.
\<close>

section \<open>The store\<close>

datatype redis_reply = RedisNil | RedisBytes string | RedisDown

record 'r redis =
  rd_get :: "string \<Rightarrow> 'r \<Rightarrow> redis_reply \<times> 'r"
  rd_set :: "string \<Rightarrow> string \<Rightarrow> int \<Rightarrow> 'r \<Rightarrow> bool \<times> 'r"
  rd_del :: "string list \<Rightarrow> 'r \<Rightarrow> bool \<times> 'r"

text \<open>A store is a client or nothing. \<open>Broken\<close> is \<open>(false, err)\<close>; the writes answer whether there was no error.\<close>

datatype 'v lookup = Hit 'v | Miss | Broken

definition cache_enabled :: "'r redis option \<Rightarrow> bool" where
  "cache_enabled c \<longleftrightarrow> c \<noteq> None"

definition json_get :: "'r redis option \<Rightarrow> (string \<Rightarrow> 'v option) \<Rightarrow> string \<Rightarrow> 'r \<Rightarrow> 'v lookup \<times> 'r" where
  "json_get c unmarshal key r = (case c of None \<Rightarrow> (Miss, r)
     | Some rd \<Rightarrow> (case rd_get rd key r of
         (RedisNil, r') \<Rightarrow> (Miss, r')
       | (RedisDown, r') \<Rightarrow> (Broken, r')
       | (RedisBytes raw, r') \<Rightarrow> (case unmarshal raw of None \<Rightarrow> (Broken, r') | Some v \<Rightarrow> (Hit v, r'))))"

definition json_set :: "'r redis option \<Rightarrow> ('v \<Rightarrow> string option) \<Rightarrow> string \<Rightarrow> 'v \<Rightarrow> int \<Rightarrow> 'r \<Rightarrow> bool \<times> 'r" where
  "json_set c marshal key v ttl r = (case c of None \<Rightarrow> (True, r)
     | Some rd \<Rightarrow> (case marshal v of None \<Rightarrow> (False, r) | Some raw \<Rightarrow> rd_set rd key raw ttl r))"

definition json_del :: "'r redis option \<Rightarrow> string list \<Rightarrow> 'r \<Rightarrow> bool \<times> 'r" where
  "json_del c keys r = (case c of None \<Rightarrow> (True, r)
     | Some rd \<Rightarrow> if keys = [] then (True, r) else rd_del rd keys r)"

lemma disabled_store [simp]: "\<not> cache_enabled c \<Longrightarrow> json_get c un key r = (Miss, r) \<and> json_set c ma key v ttl r = (True, r) \<and> json_del c keys r = (True, r)"
  by (simp add: cache_enabled_def json_get_def json_set_def json_del_def)

section \<open>The public payloads\<close>

definition public_event_key :: "lib \<Rightarrow> uuid \<Rightarrow> string" where
  "public_event_key l i = ''evt:pub:'' @ uuid_text l i"

text \<open>The table as a Redis of its own: keys are those of the events, values the encoded payloads, rows past their time are gone.\<close>

definition table_redis :: "lib \<Rightarrow> (event_dto \<Rightarrow> string) \<Rightarrow> (string \<Rightarrow> event_dto option) \<Rightarrow> (string \<Rightarrow> uuid) \<Rightarrow> 'z event_state_scheme redis" where
  "table_redis l enc un event_of = \<lparr>
     rd_get = (\<lambda>key w. if trips w then (RedisDown, tick w)
       else (case find (\<lambda>c. public_event_key l (ce_event c) = key \<and> clock w < ce_expires c) (detail_cache w) of
           None \<Rightarrow> RedisNil | Some c \<Rightarrow> RedisBytes (enc (ce_payload c)), tick w)),
     rd_set = (\<lambda>key raw ttl w. if trips w then (False, tick w)
       else (True, (tick w)\<lparr>detail_cache := \<lparr>ce_event = event_of key, ce_payload = the (un raw), ce_expires = clock w + ttl\<rparr>
         # filter (\<lambda>c. public_event_key l (ce_event c) \<noteq> key) (detail_cache w)\<rparr>)),
     rd_del = (\<lambda>keys w. if trips w then (False, tick w)
       else (True, (tick w)\<lparr>detail_cache := filter (\<lambda>c. public_event_key l (ce_event c) \<notin> set keys) (detail_cache w)\<rparr>))\<rparr>"

text \<open>Over it the code of the store does what \<open>cache_get\<close>, \<open>cache_set\<close> and \<open>cache_del\<close> of the event service say, failures included.\<close>

lemma key_inj: "inj (uuid_text l) \<Longrightarrow> public_event_key l i = public_event_key l j \<longleftrightarrow> i = j"
  by (auto simp: public_event_key_def dest: injD)

lemma cache_get_implemented:
  assumes "inj (uuid_text l)" and "\<And>d. un (enc d) = Some d"
  shows "json_get (Some (table_redis l enc un ev)) un (public_event_key l i) w = (case cache_get i w of
     (Inl _, w') \<Rightarrow> (Broken, w') | (Inr None, w') \<Rightarrow> (Miss, w') | (Inr (Some d), w') \<Rightarrow> (Hit d, w'))"
  using assms(2) by (simp add: json_get_def table_redis_def cache_get_def select_def db_def gets_def key_inj [OF assms(1)] split: option.split)

lemma cache_set_implemented:
  assumes "inj (uuid_text l)" and "\<And>d. un (enc d) = Some d" and "\<And>i. ev (public_event_key l i) = i"
  shows "json_set (Some (table_redis l enc un ev)) (\<lambda>d. Some (enc d)) (public_event_key l i) d ttl w = (case cache_set i d ttl w of
     (Inl _, w') \<Rightarrow> (False, w') | (Inr _, w') \<Rightarrow> (True, w'))"
  using assms(2,3) by (simp add: json_set_def table_redis_def cache_set_def write_db_def db_def key_inj [OF assms(1)])

lemma cache_del_implemented:
  assumes "inj (uuid_text l)"
  shows "json_del (Some (table_redis l enc un ev)) [public_event_key l i] w = (case cache_del i w of
     (Inl _, w') \<Rightarrow> (False, w') | (Inr _, w') \<Rightarrow> (True, w'))"
  by (simp add: json_del_def table_redis_def cache_del_def write_db_def db_def key_inj [OF assms])

end
