(* ===== verification/Migrating.thy ===== *)
theory Migrating
  imports Config
begin

text \<open>
  The release command \<open>cmd/migrate\<close>: which engine runs for which arguments, and with what exit code. The two engines
  (golang-migrate for the tables of the application, rivermigrate for those of the queue) are parameters over the state of
  the database; what is printed is left out.
\<close>

section \<open>The engines\<close>

datatype moved = Moved | NoChange | MoveFailed

datatype version_info = AtVersion nat bool | NoVersion | VersionFailed

record 'd engines =
  ng_open :: "string \<Rightarrow> bool"
  ng_source :: bool
  ng_driver :: "'d \<Rightarrow> bool"
  ng_instance :: bool
  ng_up :: "'d \<Rightarrow> moved \<times> 'd"
  ng_steps :: "int \<Rightarrow> 'd \<Rightarrow> moved \<times> 'd"
  ng_version :: "'d \<Rightarrow> version_info"
  ng_force :: "int \<Rightarrow> 'd \<Rightarrow> bool \<times> 'd"
  ng_river :: bool
  ng_river_up :: "'d \<Rightarrow> bool \<times> 'd"
  ng_river_versions :: "'d \<Rightarrow> bool"

section \<open>The command\<close>

text \<open>The exit code, 0 when \<open>main\<close> returns, with the state of the database.\<close>

definition migrate_river :: "'d engines \<Rightarrow> 'd \<Rightarrow> int \<times> 'd" where
  "migrate_river g d = (if \<not> ng_river g then (1, d)
     else (case ng_river_up g d of (ok, d') \<Rightarrow> (if ok then 0 else 1, d')))"

definition print_river_versions :: "'d engines \<Rightarrow> 'd \<Rightarrow> int" where
  "print_river_versions g d = (if \<not> ng_river g then 1 else if ng_river_versions g d then 0 else 1)"

definition run_up :: "'d engines \<Rightarrow> 'd \<Rightarrow> int \<times> 'd" where
  "run_up g d = (case ng_up g d of (m, d') \<Rightarrow> if m = MoveFailed then (1, d') else migrate_river g d')"

text \<open>\<open>down\<close> takes the number of steps from its argument, one when there is none.\<close>

definition run_down :: "'d engines \<Rightarrow> string list \<Rightarrow> 'd \<Rightarrow> int \<times> 'd" where
  "run_down g rest d = (let n = (case rest of [] \<Rightarrow> Some 1
         | a # _ \<Rightarrow> (case atoi a of None \<Rightarrow> None | Some n \<Rightarrow> if n < 1 then None else Some n)) in
     case n of None \<Rightarrow> (2, d)
     | Some n \<Rightarrow> (case ng_steps g (- n) d of (m, d') \<Rightarrow> (if m = MoveFailed then 1 else 0, d')))"

definition run_version :: "'d engines \<Rightarrow> 'd \<Rightarrow> int \<times> 'd" where
  "run_version g d = (case ng_version g d of VersionFailed \<Rightarrow> (1, d) | _ \<Rightarrow> (print_river_versions g d, d))"

definition run_force :: "'d engines \<Rightarrow> string list \<Rightarrow> 'd \<Rightarrow> int \<times> 'd" where
  "run_force g rest d = (case rest of [] \<Rightarrow> (2, d)
     | a # _ \<Rightarrow> (case atoi a of None \<Rightarrow> (2, d)
         | Some v \<Rightarrow> if v < 0 then (2, d) else (case ng_force g v d of (ok, d') \<Rightarrow> (if ok then 0 else 1, d'))))"

text \<open>\<open>args\<close> are the arguments after the name of the program; the environment is the one after \<open>LoadEnv\<close>.\<close>

definition migrate_main :: "'d engines \<Rightarrow> string list \<Rightarrow> environment \<Rightarrow> 'd \<Rightarrow> int \<times> 'd" where
  "migrate_main g args env d = (case args of [] \<Rightarrow> (2, d)
     | cmd # rest \<Rightarrow>
        let dsn = env ''DATABASE_URL'' in
        if dsn = [] \<or> \<not> ng_open g dsn \<or> \<not> ng_source g \<or> \<not> ng_driver g d \<or> \<not> ng_instance g then (1, d)
        else if cmd = ''up'' then run_up g d
        else if cmd = ''down'' then run_down g rest d
        else if cmd = ''version'' then run_version g d
        else if cmd = ''force'' then run_force g rest d
        else (2, d))"

section \<open>Facts\<close>

text \<open>A wrong call, 2, has not touched the database; asking for the versions never does; and an \<open>up\<close> that ends with 0 has moved
  both schemas.\<close>

lemma wrong_call_untouched: "migrate_main g args env d = (2, d') \<Longrightarrow> d' = d"
  by (auto simp: migrate_main_def run_up_def run_down_def run_version_def run_force_def migrate_river_def print_river_versions_def Let_def
      split: list.splits if_splits option.splits prod.splits version_info.splits)

lemma version_reads: "migrate_main g (''version'' # rest) env d = (c, d') \<Longrightarrow> d' = d"
  by (auto simp: migrate_main_def run_version_def Let_def split: if_splits version_info.splits)

lemma up_moves_both:
  assumes "migrate_main g (''up'' # rest) env d = (0, d')"
  shows "\<exists>d1. fst (ng_up g d) \<noteq> MoveFailed \<and> snd (ng_up g d) = d1 \<and> ng_river g \<and> ng_river_up g d1 = (True, d')"
  using assms by (auto simp: migrate_main_def run_up_def migrate_river_def Let_def split: if_splits prod.splits)

text \<open>Running \<open>up\<close> on a database that both engines call current changes nothing.\<close>

lemma up_again:
  assumes "ng_up g d = (NoChange, d)" "ng_river_up g d = (True, d)" "ng_river g"
    and "env ''DATABASE_URL'' \<noteq> []" "ng_open g (env ''DATABASE_URL'')" "ng_source g" "ng_driver g d" "ng_instance g"
  shows "migrate_main g (''up'' # rest) env d = (0, d)"
  using assms by (simp add: migrate_main_def run_up_def migrate_river_def Let_def)

end
