(* ===== verification/Joining.thy ===== *)
theory Joining
  imports Ownership
begin

text \<open>
  Facts about invitations: who becomes a member by accepting one, with which role, and under which limits.
\<close>

section \<open>Accepting\<close>

lemma join_rest:
  assumes "P (memberships w) (invites w)"
  shows "wp (bnd (os_sync s u org r) (\<lambda>_. ret x)) (\<lambda>_ w'. P (memberships w') (invites w')) (\<lambda>_ _. True) w"
proof -
  have "on_tables (\<lambda>w. P (memberships w) (invites w))" by (rule on_tablesI) simp
  then have "keeps (\<lambda>w. P (memberships w) (invites w)) (bnd (os_sync s u org r) (\<lambda>_. ret x))"
    by (intro keeps_intros) simp_all
  with assms show ?thesis by (rule wp_rest [rotated])
qed

definition seats :: "uuid \<Rightarrow> 'z org_state_scheme \<Rightarrow> bool" where
  "seats org w \<longleftrightarrow> (\<exists>ent \<in> {free_entitlement, entitlement_of (by_key sb_org org (subs w)) (clock w)}.
     count_where (\<lambda>m. mb_org m = org) (memberships w) < max_members (en_limits ent))"

lemma entitlement_or_free_spec:
  "wp (entitlement_or_free b org) (\<lambda>ent w'. same_store w w' \<and> ent \<in> {free_entitlement, entitlement_of (by_key sb_org org (subs w)) (clock w)}) (\<lambda>_ _. False) w"
  unfolding entitlement_or_free_def entitlement_for_def sub_by_org_def by (simp add: wp_simps)

definition takes_seat :: "uuid \<Rightarrow> uuid \<Rightarrow> invite \<Rightarrow> instant \<Rightarrow> membership list \<Rightarrow> invite list \<Rightarrow> membership list \<Rightarrow> invite list \<Rightarrow> bool" where
  "takes_seat org user iv now ms ivs ms' ivs' \<longleftrightarrow> member_of org user ms = None \<and>
     (\<exists>i. ms' = ms @ [\<lparr>mb_id = i, mb_org = org, mb_user = user, mb_role = iv_role iv, mb_notify = True,
        mb_created_at = now, mb_updated_at = now\<rparr>]) \<and>
     ivs' = modify (\<lambda>v. iv_id v = iv_id iv) (answered True now) ivs"

lemma accept_pending_spec:
  "wp (accept_pending s iv u og (clock w)) (\<lambda>_ w'. equal_fold (us_email u) (iv_email iv) \<and>
     (member_of (og_id og) (us_id u) (memberships w) \<noteq> None \<and> memberships w' = memberships w \<or>
      seats (og_id og) w \<and> takes_seat (og_id og) (us_id u) iv (clock w) (memberships w) (invites w) (memberships w') (invites w')))
   (\<lambda>_ _. True) w"
proof -
  let ?P = "\<lambda>ms' ivs'. equal_fold (us_email u) (iv_email iv) \<and>
     (member_of (og_id og) (us_id u) (memberships w) \<noteq> None \<and> ms' = memberships w \<or>
      seats (og_id og) w \<and> takes_seat (og_id og) (us_id u) iv (clock w) (memberships w) (invites w) ms' ivs')"
  let ?e = "entry (Some (og_id og)) (Some (us_id u)) ''member.added'' ''member'' (Some (us_id u)) []
           [(''email'', AStr (us_email u)), (''role'', AStr (role_text (iv_role iv))), (''via'', AStr ''invite'')]"
  define m :: "('a org_state_scheme, org_dto) op" where "m = bnd (tx (
         bnd (on_error (repo_create_membership (os_lib s) \<lparr>mb_id = uuid_nil, mb_org = og_id og,
                mb_user = us_id u, mb_role = iv_role iv, mb_notify = True, mb_created_at = 0,
                mb_updated_at = 0\<rparr>) (unique_as (OrgE org_err.ErrAlreadyMember))) (\<lambda>_.
         bnd (consume_invite (iv_id iv) True (clock w)) (\<lambda>_. os_emit s ?e)))) (\<lambda>_.
       bnd (os_sync s (us_id u) (og_id og) (Some (iv_role iv))) (\<lambda>_. ret (to_org og (iv_role iv))))"
  have new: "wp m (\<lambda>_ w'. ?P (memberships w') (invites w')) (\<lambda>_ _. True) v"
    if "same_store w v" "equal_fold (us_email u) (iv_email iv)" "seats (og_id og) w" for v
  proof -
    have v: "memberships v = memberships w" "invites v = invites w" "clock v = clock w"
      using that(1) by (cases v; cases w; simp add: same_store_iff)+
    show ?thesis
      unfolding m_def wp_bnd [of "tx m" for m]
      by (rule wp_mono [where Q = "\<lambda>_ v'. ?P (memberships v') (invites v')" and E = "\<lambda>_ _. True"]; (rule join_rest [where P = ?P], assumption)?)
        (auto simp: wp_simps repo_create_membership_def consume_invite_def os_emit_def emit_def emit_tx_def
           insert_event_tx_def takes_seat_def v that(2,3))
  qed
  have "wp (accept_pending s iv u og (clock w)) (\<lambda>_ w'. ?P (memberships w') (invites w')) (\<lambda>_ _. True) w"
    unfolding accept_pending_def
    unfolding m_def [symmetric]
    unfolding get_membership_def count_members_def consume_invite_def
    by (auto simp: wp_simps split: option.split intro!: wp_mono [OF entitlement_or_free_spec])
      (rule wp_mono [OF new]; auto simp: seats_def)+
  then show ?thesis .
qed

lemma live_tick: "live_users (tick w) = live_users w" "live_orgs (tick w) = live_orgs w"
  by (simp_all add: live_users_def live_orgs_def)

lemma accept_pending_from:
  assumes "same_store w v" "us_id u = user" "og_id og = iv_org iv"
  shows "wp (accept_pending s iv u og (clock w)) (\<lambda>_ w'. member_of (iv_org iv) user (memberships w) \<noteq> None \<and> memberships w' = memberships w \<or>
     equal_fold (us_email u) (iv_email iv) \<and> seats (iv_org iv) w \<and>
     takes_seat (iv_org iv) user iv (clock w) (memberships w) (invites w) (memberships w') (invites w')) (\<lambda>_ _. True) v"
proof -
  have v: "memberships v = memberships w" "invites v = invites w" "clock v = clock w" "subs v = subs w"
    using assms(1) by (cases v; cases w; simp add: same_store_iff)+
  then have "seats i v = seats i w" for i by (simp add: seats_def)
  with v show ?thesis
    unfolding v(3) [symmetric] by (intro wp_mono [OF accept_pending_spec]) (auto simp: assms(2,3))
qed

section \<open>Who joins\<close>

text \<open>C39. Accepting an invitation. Whoever gets an organization back from \<open>AcceptInvite\<close> presented the token of an invitation of a
  live organization and is an active user. Either they were a member already, and memberships are as they were, or they were not:
  then the invitation was pending and for their address, the organization had a seat left under its tier, one membership with the
  role of the invitation and nothing else was added, and the invitation is used up.\<close>

theorem accept_invite_effect:
  assumes "accept_invite s user raw w = (Inr d, w')"
  shows "\<exists>iv u og. iv \<in> set (invites w) \<and> iv_token_hash iv = hash_token (os_lib s) raw \<and>
    by_key us_id user (live_users w) = Some u \<and> us_status u = ACTIVE \<and> by_key og_id (iv_org iv) (live_orgs w) = Some og \<and>
    (member_of (iv_org iv) user (memberships w) \<noteq> None \<and> memberships w' = memberships w \<or>
     invite_pending iv (clock w) \<and> equal_fold (us_email u) (iv_email iv) \<and> seats (iv_org iv) w \<and>
     takes_seat (iv_org iv) user iv (clock w) (memberships w) (invites w) (memberships w') (invites w'))"
proof -
  have a: "wp (accept_invite s user raw) (\<lambda>_ w'. \<exists>iv u og. by_key iv_token_hash (hash_token (os_lib s) raw) (by_pk iv_id (invites w)) = Some iv \<and>
    by_key us_id user (live_users w) = Some u \<and> us_status u = ACTIVE \<and> by_key og_id (iv_org iv) (live_orgs w) = Some og \<and>
    (member_of (iv_org iv) user (memberships w) \<noteq> None \<and> memberships w' = memberships w \<or>
     invite_pending iv (clock w) \<and> equal_fold (us_email u) (iv_email iv) \<and> seats (iv_org iv) w \<and>
     takes_seat (iv_org iv) user iv (clock w) (memberships w) (invites w) (memberships w') (invites w'))) (\<lambda>_ _. True) w"
    unfolding accept_invite_def get_invite_by_hash_def get_user_by_id_def get_org_by_id_def get_membership_def
    by (auto simp: wp_simps live_tick split: option.split dest!: by_key_key)
      (rule wp_mono [OF accept_pending_from [where w = w and user = user]]; auto simp: live_tick dest: by_key_key)+
  from wp_okD [OF assms a] obtain iv where iv: "by_key iv_token_hash (hash_token (os_lib s) raw) (by_pk iv_id (invites w)) = Some iv"
    and rest: "\<exists>u og. by_key us_id user (live_users w) = Some u \<and> us_status u = ACTIVE \<and> by_key og_id (iv_org iv) (live_orgs w) = Some og \<and>
    (member_of (iv_org iv) user (memberships w) \<noteq> None \<and> memberships w' = memberships w \<or>
     invite_pending iv (clock w) \<and> equal_fold (us_email u) (iv_email iv) \<and> seats (iv_org iv) w \<and>
     takes_seat (iv_org iv) user iv (clock w) (memberships w) (invites w) (memberships w') (invites w'))" by blast
  have "iv \<in> set (invites w) \<and> iv_token_hash iv = hash_token (os_lib s) raw" using by_key_Some [OF iv] by simp
  with rest show ?thesis by blast
qed

text \<open>Bob is invited to Acme as an administrator, with the token \<open>ab\<close>.\<close>

definition bobs_invite :: invite where
  "bobs_invite = \<lparr>iv_id = 70, iv_org = 10, iv_email = ''bob@x.io'', iv_role = ADMIN, iv_token_hash = hash_token sample_lib ''ab'',
     iv_expires_at = 2000000000, iv_accepted_at = None, iv_declined_at = None, iv_invited_by = Some 1, iv_created_at = 0\<rparr>"

definition invited_world :: order_state where
  "invited_world = sample_world\<lparr>invites := [bobs_invite]\<rparr>"

definition joined_world :: order_state where
  "joined_world = snd (accept_invite sample_orgs 2 ''ab'' invited_world)"

lemma joined_eval: "fst (accept_invite sample_orgs 2 ''ab'' invited_world) = Inr (to_org sample_org ADMIN)"
  "map mb_role (memberships joined_world) = [OWNER, ADMIN]"
  by (simp_all add: joined_world_def accept_invite_def get_invite_by_hash_def invited_world_def bobs_invite_def by_pk_def accept_pending_def
      invite_pending_def equal_fold_def count_members_def repo_create_membership_def consume_invite_def os_emit_def os_sync_def
      sync_membership_def stale_rows_def add_grouping_def empty_world_def sample_world_def evals to_org_def)

theorem accept_invite_effect_witness:
  "member_of 10 2 (memberships invited_world) = None \<and>
   (\<exists>m. memberships joined_world = [sample_member 40 1 OWNER, m] \<and> mb_user m = 2 \<and> mb_role m = ADMIN)"
proof
  have w: "memberships invited_world = [sample_member 40 1 OWNER]" "invites invited_world = [bobs_invite]"
    by (simp_all add: invited_world_def)
  then show "member_of 10 2 (memberships invited_world) = None" by (simp add: member_of_def member_row_def sample_member_def)
  have "accept_invite sample_orgs 2 ''ab'' invited_world = (Inr (to_org sample_org ADMIN), joined_world)"
    unfolding joined_world_def using joined_eval(1) by (metis prod.collapse)
  from accept_invite_effect [OF this]
  show "\<exists>m. memberships joined_world = [sample_member 40 1 OWNER, m] \<and> mb_user m = 2 \<and> mb_role m = ADMIN"
    using joined_eval(2) w by (auto simp: takes_seat_def bobs_invite_def member_of_def member_row_def sample_member_def)
qed

end
