(* ===== verification/Limits.thy ===== *)
theory Limits
  imports Serving
begin

text \<open>
  Rate limiting (\<open>internal/ratelimit\<close>): the fixed-window store of a single instance, the decoding of the shared store's
  replies, the middleware, and the two tiers in front of the API. The Lua script of the shared store runs inside Redis; what it
  answers is a parameter.
\<close>

section \<open>The in-process store\<close>

record bucket =
  bk_count :: int
  bk_reset_at :: instant

type_synonym buckets = "string \<Rightarrow> bucket option"

definition no_buckets :: buckets where
  "no_buckets = (\<lambda>_. None)"

text \<open>\<open>Allow\<close> runs under the store's mutex. It reads the clock twice: \<open>now\<close> on entry, \<open>later\<close> for the retry time. The result is
  whether the call is allowed and how long until the window resets.\<close>

definition memory_allow :: "string \<Rightarrow> int \<Rightarrow> int \<Rightarrow> instant \<Rightarrow> instant \<Rightarrow> buckets \<Rightarrow> (bool \<times> int) \<times> buckets" where
  "memory_allow key limit window now later m =
    (let b = (case m key of None \<Rightarrow> \<lparr>bk_count = 0, bk_reset_at = now + window\<rparr>
           | Some b \<Rightarrow> if \<not> now < bk_reset_at b then \<lparr>bk_count = 0, bk_reset_at = now + window\<rparr> else b);
         b = b\<lparr>bk_count := bk_count b + 1\<rparr>;
         m' = m(key \<mapsto> b)
     in if bk_count b \<le> limit then ((True, 0), m') else ((False, bk_reset_at b - later), m'))"

section \<open>The shared store\<close>

text \<open>What the client library can make of a reply.\<close>

datatype reply = IntReply int | ListReply "reply list" | OtherReply

definition millisecond :: int where
  "millisecond = 1000000"

definition minute :: int where
  "minute = 60 * seconds"

text \<open>\<open>None\<close> is an error, of the call (\<open>res = None\<close>) or \<open>errUnexpectedReply\<close>.\<close>

definition redis_allow :: "int \<Rightarrow> int \<Rightarrow> reply option \<Rightarrow> (bool \<times> int) option" where
  "redis_allow limit window res = (case res of
       Some (ListReply [IntReply count, IntReply ttl]) \<Rightarrow>
         if count \<le> limit then Some (True, 0)
         else (let retry = wrap64 (ttl * millisecond) in Some (False, if retry < 0 then window else retry))
     | _ \<Rightarrow> None)"

section \<open>The middleware\<close>

text \<open>A store: key, limit and window to an answer or an error.\<close>

type_synonym 'm store = "string \<Rightarrow> int \<Rightarrow> int \<Rightarrow> 'm \<Rightarrow> (bool \<times> int) option \<times> 'm"

text \<open>\<open>permit\<close>: a failing store lets everything pass.\<close>

definition permit :: "(bool \<times> int) option \<Rightarrow> bool \<times> int" where
  "permit r = (case r of None \<Rightarrow> (True, 0) | Some x \<Rightarrow> x)"

definition skip_prefixes :: "string list" where
  "skip_prefixes = [''/health'', ''/swagger'']"

text \<open>\<open>Duration.Round(time.Second).Seconds()\<close>: to the nearest second, halves away from zero.\<close>

definition round_seconds :: "int \<Rightarrow> int" where
  "round_seconds d = (if 0 \<le> d then (d + seconds div 2) div seconds else - ((- d + seconds div 2) div seconds))"

definition retry_seconds :: "int \<Rightarrow> int" where
  "retry_seconds retry = (if round_seconds retry < 1 then 1 else round_seconds retry)"

text \<open>\<open>Limit\<close>: \<open>None\<close> goes on to the next handler, \<open>Some n\<close> is 429 with \<open>Retry-After: n\<close>.\<close>

definition limit_call :: "'m store \<Rightarrow> string \<Rightarrow> int \<Rightarrow> string \<Rightarrow> string \<Rightarrow> 'm \<Rightarrow> int option \<times> 'm" where
  "limit_call allow tier per_min path ip m =
    (let limit = (if per_min \<le> 0 then 1 else per_min) in
     if list_ex (\<lambda>p. has_prefix p path) skip_prefixes then (None, m)
     else (case allow (''rl:'' @ tier @ '':'' @ ip) limit minute m of (r, m') \<Rightarrow>
       (case permit r of (ok, retry) \<Rightarrow> if \<not> ok then (Some (retry_seconds retry), m') else (None, m'))))"

text \<open>The tiers of \<open>main.go\<close>: every route of the API has the default one, and the routes of authentication a strict one behind it.\<close>

definition tiers_of :: "int \<Rightarrow> int \<Rightarrow> endpoint \<Rightarrow> (string \<times> int) list" where
  "tiers_of api_per_min auth_per_min c = (''default'', api_per_min) #
     (case c of AuthCall _ \<Rightarrow> [(''auth'', auth_per_min)] | _ \<Rightarrow> [])"

fun pass_tiers :: "'m store \<Rightarrow> (string \<times> int) list \<Rightarrow> string \<Rightarrow> string \<Rightarrow> 'm \<Rightarrow> int option \<times> 'm" where
  "pass_tiers allow [] path ip m = (None, m)"
| "pass_tiers allow ((tier, n) # ts) path ip m = (case limit_call allow tier n path ip m of
       (Some secs, m') \<Rightarrow> (Some secs, m') | (None, m') \<Rightarrow> pass_tiers allow ts path ip m')"

text \<open>A request at the gates of the API: its status, the counters, the tables.\<close>

definition serve_limited :: "'m store \<Rightarrow> int \<Rightarrow> int \<Rightarrow> system \<Rightarrow> string \<Rightarrow> endpoint \<Rightarrow> string \<Rightarrow> string \<Rightarrow> http_request
    \<Rightarrow> 'm \<Rightarrow> order_state \<Rightarrow> (err + int) \<times> 'm \<times> order_state" where
  "serve_limited allow api_per_min auth_per_min y app c path ip rq m w =
     (case pass_tiers allow (tiers_of api_per_min auth_per_min c) path ip m of
        (Some _, m') \<Rightarrow> (Inr 429, m', w)
      | (None, m') \<Rightarrow> (case serve y app c rq w of (r, w') \<Rightarrow> (r, m', w')))"

section \<open>Runs of the store\<close>

text \<open>A run: who calls, and when by both readings of the clock.\<close>

type_synonym hits = "(string \<times> instant \<times> instant) list"

fun verdicts :: "int \<Rightarrow> int \<Rightarrow> hits \<Rightarrow> buckets \<Rightarrow> bool list" where
  "verdicts limit window [] m = []"
| "verdicts limit window ((key, now, later) # hs) m = (case memory_allow key limit window now later m of
       ((ok, _), m') \<Rightarrow> ok # verdicts limit window hs m')"

text \<open>The calls of a key that are let through in a stretch of time.\<close>

definition passes :: "string \<Rightarrow> instant \<Rightarrow> instant \<Rightarrow> hits \<Rightarrow> bool list \<Rightarrow> int" where
  "passes k lo hi hs vs = int (length (filter (\<lambda>((key, now, _), ok). key = k \<and> lo \<le> now \<and> now < hi \<and> ok) (zip hs vs)))"

definition live_bucket :: "instant \<Rightarrow> bucket option \<Rightarrow> bool" where
  "live_bucket t b = (case b of None \<Rightarrow> False | Some b \<Rightarrow> t < bk_reset_at b)"

text \<open>What a key can still get before \<open>hi\<close>: the rest of its window, and another one if the window ends first.\<close>

definition budget :: "int \<Rightarrow> instant \<Rightarrow> instant \<Rightarrow> bucket option \<Rightarrow> int" where
  "budget limit t hi b = (if live_bucket t b then max 0 (limit - bk_count (the b)) + (if bk_reset_at (the b) < hi then max 0 limit else 0)
     else max 0 limit)"

fun ordered :: "instant \<Rightarrow> hits \<Rightarrow> bool" where
  "ordered t [] = True"
| "ordered t ((_, now, _) # hs) = (t \<le> now \<and> ordered now hs)"

lemma ordered_mono: "ordered t hs \<Longrightarrow> s \<le> t \<Longrightarrow> ordered s hs"
  by (cases hs) auto

lemma verdicts_length [simp]: "length (verdicts limit window hs m) = length hs"
  by (induction limit window hs m rule: verdicts.induct) (auto split: prod.split)

lemma passes_Nil [simp]: "passes k lo hi [] vs = 0"
  by (simp add: passes_def)

lemma passes_Cons: "passes k lo hi ((key, now, later) # hs) (ok # vs) =
    (if key = k \<and> lo \<le> now \<and> now < hi \<and> ok then 1 else 0) + passes k lo hi hs vs"
  by (simp add: passes_def)

lemma passes_late: "ordered t hs \<Longrightarrow> hi \<le> t \<Longrightarrow> passes k lo hi hs vs = 0"
proof (induction hs arbitrary: t vs)
  case (Cons h hs)
  then show ?case
    by (cases h; cases vs) (auto simp: passes_Cons passes_def [of k lo hi _ "[]"])
qed simp

lemma passes_bound:
  assumes "ordered t hs" and "hi \<le> t + window" and "lo \<le> t"
  shows "passes k lo hi hs (verdicts limit window hs m) \<le> budget limit t hi (m k)"
  using assms
proof (induction hs arbitrary: t m)
  case Nil
  then show ?case by (auto simp: budget_def)
next
  case (Cons h hs)
  obtain key now later where h: "h = (key, now, later)" by (cases h)
  obtain ok r m' where a: "memory_allow key limit window now later m = ((ok, r), m')"
    by (cases "memory_allow key limit window now later m") auto
  have o: "t \<le> now" "ordered now hs" using Cons.prems(1) by (simp_all add: h)
  have v: "verdicts limit window (h # hs) m = ok # verdicts limit window hs m'" by (simp add: h a)
  show ?case
  proof (cases "hi \<le> now")
    case True
    then have "passes k lo hi (h # hs) (verdicts limit window (h # hs) m) = 0"
      unfolding v unfolding h by (simp add: passes_late [OF o(2)] passes_Cons)
    then show ?thesis by (simp add: budget_def)
  next
    case False
    have le: "passes k lo hi hs (verdicts limit window hs m') \<le> budget limit now hi (m' k)"
      by (rule Cons.IH) (use o Cons.prems in auto)
    have "(if key = k \<and> ok then 1 else 0) + budget limit now hi (m' k) \<le> budget limit t hi (m k)"
      using a o(1) False Cons.prems(2)
      by (auto simp: memory_allow_def Let_def budget_def live_bucket_def split: option.splits if_splits)
    then show ?thesis
      using le False o(1) Cons.prems(3) unfolding h v [unfolded h] passes_Cons by (auto split: if_splits)
  qed
qed


definition counted :: "buckets \<Rightarrow> bool" where
  "counted m \<longleftrightarrow> (\<forall>k b. m k = Some b \<longrightarrow> 0 \<le> bk_count b)"

lemma counted_allow: "counted m \<Longrightarrow> memory_allow key limit window now later m = (r, m') \<Longrightarrow> counted m'"
  by (auto simp: counted_def memory_allow_def Let_def split: option.splits if_splits)

lemma budget_bound: "counted m \<Longrightarrow> 0 < limit \<Longrightarrow> budget limit t hi (m k) \<le> 2 * limit"
  by (cases "m k") (force simp: counted_def budget_def live_bucket_def)+

lemma passes_any:
  assumes "counted m" and "0 < limit" and "ordered t0 hs" and "hi \<le> lo + window"
  shows "passes k lo hi hs (verdicts limit window hs m) \<le> 2 * limit"
  using assms
proof (induction hs arbitrary: t0 m)
  case (Cons h hs)
  obtain key now later where h: "h = (key, now, later)" by (cases h)
  show ?case
  proof (cases "now < lo")
    case True
    obtain ok r m' where a: "memory_allow key limit window now later m = ((ok, r), m')"
      by (cases "memory_allow key limit window now later m") auto
    have "passes k lo hi hs (verdicts limit window hs m') \<le> 2 * limit"
      by (rule Cons.IH [OF counted_allow [OF Cons.prems(1) a] Cons.prems(2), of now]) (use Cons.prems(3,4) in \<open>simp_all add: h\<close>)
    with True show ?thesis by (simp add: h a passes_Cons)
  next
    case False
    then have "ordered lo (h # hs)" using Cons.prems(3) by (simp add: h)
    then have "passes k lo hi (h # hs) (verdicts limit window (h # hs) m) \<le> budget limit lo hi (m k)"
      using Cons.prems(4) by (rule passes_bound) simp
    also have "\<dots> \<le> 2 * limit" by (rule budget_bound [OF Cons.prems(1,2)])
    finally show ?thesis .
  qed
qed simp

text \<open>C35. The limiter. However calls arrive at the store of one instance, no key gets more than twice its limit through in any stretch
  of a window's length, and no more than its limit in a stretch that begins with a window of its own. A refused call is told
  when the window resets: that is in the future, and a call from then on is let through.\<close>

theorem rate_limit_bounds:
  assumes "0 < limit" and "ordered t0 hs"
  shows "passes k t (t + window) hs (verdicts limit window hs no_buckets) \<le> 2 * limit \<and>
    (ordered t hs \<longrightarrow> \<not> live_bucket t (m k) \<longrightarrow> passes k t (t + window) hs (verdicts limit window hs m) \<le> limit) \<and>
    (memory_allow k limit window now later m = ((False, retry), m') \<longrightarrow> 0 < window \<longrightarrow> now < later + retry \<and>
      (\<forall>now' later'. later + retry \<le> now' \<longrightarrow> fst (fst (memory_allow k limit window now' later' m'))))"
proof (intro conjI impI)
  show "passes k t (t + window) hs (verdicts limit window hs no_buckets) \<le> 2 * limit"
    by (rule passes_any [OF _ assms]) (simp_all add: counted_def no_buckets_def)
next
  assume o: "ordered t hs" and b: "\<not> live_bucket t (m k)"
  have "passes k t (t + window) hs (verdicts limit window hs m) \<le> budget limit t (t + window) (m k)"
    by (rule passes_bound [OF o]) simp_all
  with b assms(1) show "passes k t (t + window) hs (verdicts limit window hs m) \<le> limit" by (simp add: budget_def)
next
  assume *: "memory_allow k limit window now later m = ((False, retry), m')" "0 < window"
  then obtain b where b: "m' k = Some b" "retry = bk_reset_at b - later" "now < bk_reset_at b"
    using assms(1) by (fastforce simp: memory_allow_def Let_def split: option.splits if_splits)
  show "now < later + retry" using b by simp
  show "\<forall>now' later'. later + retry \<le> now' \<longrightarrow> fst (fst (memory_allow k limit window now' later' m'))"
    using b(1,2) assms(1) by (simp add: memory_allow_def)
qed

text \<open>Two calls in ten units of time: a burst across the reset gets three through.\<close>

definition burst :: hits where
  "burst = map (\<lambda>t. (''ip'', t, t)) [0, 8, 9, 10, 11, 12]"

theorem rate_limit_bounds_witness:
  "verdicts 2 10 burst no_buckets = [True, True, False, True, True, False] \<and> passes ''ip'' 8 18 burst (verdicts 2 10 burst no_buckets) = 3 \<and>
   passes ''ip'' 8 18 burst (verdicts 2 10 burst no_buckets) \<le> 4"
proof -
  have v: "verdicts 2 10 burst no_buckets = [True, True, False, True, True, False]"
    by (simp add: burst_def memory_allow_def no_buckets_def)
  have "passes ''ip'' 8 18 burst (verdicts 2 10 burst no_buckets) = 3" unfolding v by (simp add: burst_def passes_def)
  then show ?thesis using v rate_limit_bounds [of 2 0 burst "''ip''" 8 10] by (simp add: burst_def)
qed

text \<open>Rounding to the nearest second: after ten seconds and 400 milliseconds \<open>Retry-After\<close> says ten.\<close>

lemma retry_too_short: "retry_seconds (10 * seconds + 400 * millisecond) = 10"
  by code_simp

end
