(* ===== verification/Boot.thy ===== *)
theory Boot
  imports Config Limits
begin

text \<open>
  The wiring of \<open>main.go\<close>: the services over their seams, from the environment. What other packages construct is a parameter:
  the libraries behind identifiers, hashing and tokens, the storage of covers, the Stripe clients for a key, and whether Redis
  answered at start. The database, the queue and the server are not part of the wiring.
\<close>

record foreign =
  fo_lib :: lib
  fo_hash :: "string \<Rightarrow> string \<Rightarrow> string option"
  fo_check :: "string \<Rightarrow> string \<Rightarrow> bool"
  fo_sign :: "string \<Rightarrow> jwt_claims \<Rightarrow> string option"
  fo_parse :: "string \<Rightarrow> instant \<Rightarrow> string \<Rightarrow> jwt_claims option"
  fo_rand_int :: "nat \<Rightarrow> string \<Rightarrow> nat"
  fo_store :: "environment \<Rightarrow> uuid \<Rightarrow> uuid \<Rightarrow> string \<Rightarrow> string \<Rightarrow> nat \<Rightarrow> stored_image"
  fo_parse_time :: "string \<Rightarrow> instant option"
  fo_checkout :: "string \<Rightarrow> checkout_provider"
  fo_billing :: "string \<Rightarrow> billing"
  fo_construct :: "string \<Rightarrow> string \<Rightarrow> string \<Rightarrow> stripe_event option"
  fo_redis :: bool
  fo_survives :: bool

definition wire_auth :: "foreign \<Rightarrow> environment \<Rightarrow> string \<Rightarrow> auth_service" where
  "wire_auth fo env jwt = \<lparr>au_lib = fo_lib fo, au_enqueues = True, au_app_url = app_url env, au_secret = jwt,
     au_access_ttl = access_ttl env, au_refresh_ttl = refresh_ttl env, au_hash = fo_hash fo, au_check = fo_check fo,
     au_sign = fo_sign fo, au_parse = fo_parse fo, au_rand_int = fo_rand_int fo\<rparr>"

definition wire_orgs :: "foreign \<Rightarrow> environment \<Rightarrow> org_service" where
  "wire_orgs fo env = \<lparr>os_lib = fo_lib fo, os_app_url = app_url env, os_audited = True, os_enqueues = True, os_syncs = True,
     os_seeds = True, os_plans = True\<rparr>"

definition wire_events :: "foreign \<Rightarrow> environment \<Rightarrow> event_service" where
  "wire_events fo env = \<lparr>es_lib = fo_lib fo, es_app_url = app_url env, es_audited = True, es_enqueues = True, es_storage = True,
     es_cached = fo_redis fo, es_plans = True, es_store = fo_store fo env, es_parse_time = fo_parse_time fo\<rparr>"

definition wire_orders :: "foreign \<Rightarrow> environment \<Rightarrow> string \<Rightarrow> order_service" where
  "wire_orders fo env qr = \<lparr>rs_lib = fo_lib fo,
     rs_tickets = \<lparr>ts_lib = fo_lib fo, ts_events = wire_events fo env, ts_audited = True\<rparr>,
     rs_mints = True, rs_counts = True, rs_plans = True, rs_enqueues = True, rs_secret = qr, rs_audited = True\<rparr>"

text \<open>Both Stripe clients need the secret key; without one the seam stays nil.\<close>

definition stripe_client :: "environment \<Rightarrow> (string \<Rightarrow> 'a) \<Rightarrow> 'a option" where
  "stripe_client env mk = (let key = trim_space (sc_secret_key (stripe_config_of env)) in if key = [] then None else Some (mk key))"

definition wire_billing :: "foreign \<Rightarrow> environment \<Rightarrow> subscription_service" where
  "wire_billing fo env = \<lparr>us_lib = fo_lib fo, us_billing = stripe_client env (fo_billing fo), us_audited = True,
     us_price_pro = sc_price_pro (stripe_config_of env), us_price_scale = sc_price_scale (stripe_config_of env)\<rparr>"

definition wire :: "foreign \<Rightarrow> environment \<Rightarrow> string \<Rightarrow> string \<Rightarrow> system" where
  "wire fo env jwt qr = \<lparr>sy_orgs = wire_orgs fo env, sy_events = wire_events fo env, sy_tickets = rs_tickets (wire_orders fo env qr),
     sy_attendees = fo_lib fo, sy_kits = \<lparr>ks_lib = fo_lib fo, ks_audited = True, ks_plans = True\<rparr>,
     sy_checkins = \<lparr>cs_lib = fo_lib fo, cs_secret = qr, cs_audited = True, cs_collections = True\<rparr>,
     sy_orders = wire_orders fo env qr,
     sy_payments = \<lparr>pm_orders = wire_orders fo env qr, pm_provider = stripe_client env (fo_checkout fo),
        pm_billing = Some (wire_billing fo env), pm_secret = sc_webhook_secret (stripe_config_of env), pm_construct = fo_construct fo\<rparr>,
     sy_billing = wire_billing fo env, sy_auth = wire_auth fo env jwt, sy_admin = \<lparr>ad_lib = fo_lib fo, ad_audited = True\<rparr>,
     sy_survives = fo_survives fo\<rparr>"

text \<open>The secret of the QR payloads is read once at start. The secret of the access tokens is read by every request that signs or
  checks one, and a bad one ends the process there; a process that lasts has both.\<close>

definition boot :: "foreign \<Rightarrow> environment \<Rightarrow> system option" where
  "boot fo env = (case (jwt_secret env, qr_signing_secret env) of (Some jwt, Some qr) \<Rightarrow> Some (wire fo env jwt qr) | _ \<Rightarrow> None)"

text \<open>CORS: no middleware without origins; a lone star serves everyone without credentials, a list only its members with them.\<close>

datatype cors = NoCors | AnyOrigin | Origins "string list"

definition cors_of :: "environment \<Rightarrow> cors" where
  "cors_of env = (let origins = allowed_origins env in
     if origins = [] then NoCors else if origins = [''*''] then AnyOrigin else Origins origins)"

definition listen_addr :: "environment \<Rightarrow> string" where
  "listen_addr env = CHR '':'' # (if env ''APP_PORT'' = [] then ''8080'' else env ''APP_PORT'')"

text \<open>The whole door: the limiter of the configuration in front of the wired system.\<close>

definition api :: "'m store \<Rightarrow> environment \<Rightarrow> system \<Rightarrow> endpoint \<Rightarrow> string \<Rightarrow> string \<Rightarrow> http_request \<Rightarrow> 'm \<Rightarrow> order_state
    \<Rightarrow> (err + int) \<times> 'm \<times> order_state" where
  "api allow env y = serve_limited allow (api_per_min env) (auth_per_min env) y (app_url env)"

section \<open>Wired and secret\<close>

lemma secret_lengths: "length dev_jwt_secret = 34" "length dev_qr_secret = 40"
  by (simp_all add: dev_jwt_secret_def dev_qr_secret_def)

lemma jwt_secret_strong: "jwt_secret env = Some s \<Longrightarrow> \<not> insecure_allowed env \<Longrightarrow> s = env ''JWT_SECRET'' \<and> 32 \<le> length s \<and> s \<noteq> dev_jwt_secret"
  by (auto simp: jwt_secret_def Let_def split: if_splits)

lemma qr_secret_strong: "qr_signing_secret env = Some s \<Longrightarrow> \<not> insecure_allowed env \<Longrightarrow>
    s = env ''QR_SIGNING_SECRET'' \<and> 32 \<le> length s \<and> s \<noteq> dev_qr_secret"
  by (auto simp: qr_signing_secret_def Let_def split: if_splits)

lemma positive_minutes: "0 < n \<Longrightarrow> n \<le> 153722867 \<Longrightarrow> wrap64 (n * (60 * seconds)) = n * (60 * seconds)"
  by (rule wrap64_id) (simp add: fits64_def seconds_def)

text \<open>C36. A process that starts. Unless insecure secrets are allowed by name, the access tokens and the QR payloads are signed with
  the configured secrets, of 32 characters at least and neither the one the code carries for development. The door checks payloads
  with the secret the orders sign them with, and every service that writes has its audit trail, its plans and its seams; the
  ticketing service works over the same events as the event service. An access token lives as many minutes as configured, up
  to the 153722867 that fit 64 bits. The limits per minute are positive.\<close>

theorem boot_secure:
  assumes "boot fo env = Some y" and "env ''ALLOW_INSECURE_JWT'' \<noteq> ''true''"
  shows "au_secret (sy_auth y) = env ''JWT_SECRET'' \<and> 32 \<le> length (au_secret (sy_auth y)) \<and> au_secret (sy_auth y) \<noteq> dev_jwt_secret \<and>
    cs_secret (sy_checkins y) = env ''QR_SIGNING_SECRET'' \<and> 32 \<le> length (cs_secret (sy_checkins y)) \<and> cs_secret (sy_checkins y) \<noteq> dev_qr_secret \<and>
    rs_secret (sy_orders y) = cs_secret (sy_checkins y) \<and> pm_orders (sy_payments y) = sy_orders y \<and>
    rs_tickets (sy_orders y) = sy_tickets y \<and> ts_events (sy_tickets y) = sy_events y \<and> pm_billing (sy_payments y) = Some (sy_billing y) \<and>
    os_audited (sy_orgs y) \<and> es_audited (sy_events y) \<and> ts_audited (sy_tickets y) \<and> rs_audited (sy_orders y) \<and> ks_audited (sy_kits y) \<and>
    cs_audited (sy_checkins y) \<and> us_audited (sy_billing y) \<and> ad_audited (sy_admin y) \<and>
    os_plans (sy_orgs y) \<and> es_plans (sy_events y) \<and> rs_plans (sy_orders y) \<and> ks_plans (sy_kits y) \<and>
    os_syncs (sy_orgs y) \<and> os_seeds (sy_orgs y) \<and> rs_mints (sy_orders y) \<and> cs_collections (sy_checkins y) \<and>
    (\<forall>n. atoi (env ''ACCESS_TTL_MINUTES'') = Some n \<longrightarrow> 0 < n \<longrightarrow> n \<le> 153722867 \<longrightarrow> au_access_ttl (sy_auth y) = n * (60 * seconds)) \<and>
    0 < api_per_min env \<and> 0 < auth_per_min env"
proof -
  have i: "\<not> insecure_allowed env" using assms(2) by (simp add: insecure_allowed_def)
  obtain jwt qr where r: "jwt_secret env = Some jwt" "qr_signing_secret env = Some qr" and y: "y = wire fo env jwt qr"
    using assms(1) by (auto simp: boot_def split: option.splits)
  note s = jwt_secret_strong [OF r(1) i] qr_secret_strong [OF r(2) i]
  have "env ''ACCESS_TTL_MINUTES'' \<noteq> []" if "atoi (env ''ACCESS_TTL_MINUTES'') = Some n" for n
    using that by (auto simp: atoi_def)
  then have ttl: "access_ttl env = n * (60 * seconds)" if "atoi (env ''ACCESS_TTL_MINUTES'') = Some n" "0 < n" "n \<le> 153722867" for n
    using that by (simp add: access_ttl_def positive_of_def positive_minutes)
  have limits: "0 < api_per_min env" "0 < auth_per_min env"
    by (auto simp: api_per_min_def auth_per_min_def int_env_def Let_def split: option.split)
  show ?thesis
    unfolding y using s ttl limits
    by (auto simp: wire_def wire_auth_def wire_orgs_def wire_events_def wire_orders_def wire_billing_def)
qed

definition sample_foreign :: foreign where
  "sample_foreign = \<lparr>fo_lib = sample_lib, fo_hash = au_hash sample_auth, fo_check = au_check sample_auth, fo_sign = sample_sign,
     fo_parse = sample_verify, fo_rand_int = au_rand_int sample_auth, fo_store = (\<lambda>_. es_store sample_events),
     fo_parse_time = (\<lambda>_. None), fo_checkout = (\<lambda>_. \<lparr>pr_create = (\<lambda>q. Some (''cs_1'', ''https://pay''))\<rparr>),
     fo_billing = (\<lambda>_. \<lparr>bl_new_customer = (\<lambda>_. ''cus''), bl_checkout = (\<lambda>_ _ _ _ _. (''cs'', ''url'')), bl_portal = (\<lambda>_ _. ''url''),
       bl_retrieve = (\<lambda>_. None), bl_price = (\<lambda>_. None)\<rparr>),
     fo_construct = sample_construct, fo_redis = False, fo_survives = False\<rparr>"

definition sample_env :: "string \<Rightarrow> environment" where
  "sample_env ttl = (\<lambda>_. [])(''JWT_SECRET'' := replicate 32 CHR ''j'', ''QR_SIGNING_SECRET'' := replicate 32 CHR ''q'', ''ACCESS_TTL_MINUTES'' := ttl)"

theorem boot_secure_witness:
  "\<exists>y. boot sample_foreign (sample_env ''60'') = Some y \<and> cs_secret (sy_checkins y) = replicate 32 CHR ''q'' \<and> rs_secret (sy_orders y) = replicate 32 CHR ''q'' \<and>
     au_access_ttl (sy_auth y) = 3600 * seconds \<and> access_ttl (sample_env ''153722868'') < 0"
proof -
  have j: "jwt_secret (sample_env ''60'') = Some (replicate 32 CHR ''j'')" "qr_signing_secret (sample_env ''60'') = Some (replicate 32 CHR ''q'')"
    by (simp_all add: jwt_secret_def qr_signing_secret_def sample_env_def dev_jwt_secret_def dev_qr_secret_def numeral_eq_Suc)
  then have b: "boot sample_foreign (sample_env ''60'') = Some (wire sample_foreign (sample_env ''60'') (replicate 32 CHR ''j'') (replicate 32 CHR ''q''))"
    by (simp add: boot_def)
  have a: "sample_env ''60'' ''ALLOW_INSECURE_JWT'' \<noteq> ''true''" "sample_env ''60'' ''QR_SIGNING_SECRET'' = replicate 32 CHR ''q''"
    "atoi (sample_env ''60'' ''ACCESS_TTL_MINUTES'') = Some 60"
    by (simp_all add: sample_env_def atoi_def digits_value_def is_digit_def code_of_def fits64_def)
  have n: "access_ttl (sample_env ''153722868'') < 0"
    by (simp add: access_ttl_def positive_of_def sample_env_def atoi_def digits_value_def is_digit_def code_of_def fits64_def wrap64_def seconds_def)
  show ?thesis using b n boot_secure [OF b a(1)] a(2,3) by auto
qed

end
