(* ===== verification/BillingFacts.thy ===== *)
theory BillingFacts
  imports Requests
begin

text \<open>
  Facts about subscription billing: which rows \<open>subscriptions\<close> can hold, what Stripe's events make of one, and how long an
  organization that stopped paying keeps its tier.
\<close>

section \<open>The rows of the table\<close>

text \<open>A row in good standing or cancelled has no grace; one that is past due has at most the seven days that follow.\<close>

definition row_standing :: "instant \<Rightarrow> org_subscription \<Rightarrow> bool" where
  "row_standing now r \<longleftrightarrow> plan_valid (sb_plan r) \<and> (case sb_status r of
       PastDue \<Rightarrow> (\<exists>g. sb_grace_until r = Some g \<and> g \<le> grace_from now) | _ \<Rightarrow> sb_grace_until r = None)"

definition billed :: "'z plan_state_scheme \<Rightarrow> bool" where
  "billed w \<longleftrightarrow> keyed sb_id (subs w) \<and> keyed sb_org (subs w) \<and> (\<forall>r \<in> set (subs w). row_standing (clock w) r)"

lemma billed_tables: "on_tables billed"
  by (rule on_tablesI) (simp add: billed_def)

lemma billed_quiet: "quiet billed"
  by (simp add: quiet_def billed_tables) (simp add: billed_def)

lemma row_standing_later: "row_standing now r \<Longrightarrow> now \<le> now' \<Longrightarrow> row_standing now' r"
  by (auto simp: row_standing_def grace_from_def split: sub_status.splits)

lemma row_standing_fields [simp]:
  "row_standing now (r\<lparr>sb_period_end := p\<rparr>) = row_standing now r"
  "row_standing now (r\<lparr>sb_cancel_at_end := c\<rparr>) = row_standing now r"
  "row_standing now (r\<lparr>sb_id := i\<rparr>) = row_standing now r"
  "row_standing now (r\<lparr>sb_subscription := s\<rparr>) = row_standing now r"
  "row_standing now (r\<lparr>sb_updated_at := t\<rparr>) = row_standing now r"
  "row_standing now (r\<lparr>sb_created_at := t\<rparr>) = row_standing now r"
  by (simp_all add: row_standing_def split: sub_status.split)

lemma row_standing_plan: "row_standing now r \<Longrightarrow> plan_paid p \<Longrightarrow> row_standing now (r\<lparr>sb_plan := p\<rparr>)"
  by (auto simp: row_standing_def plan_paid_def split: sub_status.splits)

lemma row_standing_moves:
  assumes "row_standing now r"
  shows "row_standing now (park_past_due now r)" "row_standing now (sync_status st now r)"
    "row_standing now (r\<lparr>sb_status := SubActive, sb_grace_until := None\<rparr>)"
    "row_standing now (r\<lparr>sb_status := Canceled, sb_grace_until := None\<rparr>)"
proof -
  show park: "row_standing now (park_past_due now r)"
    using assms by (auto simp: row_standing_def park_past_due_def split: sub_status.splits)
  show "row_standing now (r\<lparr>sb_status := SubActive, sb_grace_until := None\<rparr>)"
    "row_standing now (r\<lparr>sb_status := Canceled, sb_grace_until := None\<rparr>)"
    using assms by (simp_all add: row_standing_def)
  then show "row_standing now (sync_status st now r)"
    using assms park by (simp add: sync_status_def)
qed

lemma new_customer_standing: "row_standing now (new_customer_row org c)"
  by (simp add: row_standing_def new_customer_row_def)

section \<open>Writing a row\<close>

lemma upsert_other_key:
  assumes "keyed key rs" "keyed f rs" "\<not> list_ex (\<lambda>r. f r = f x \<and> key r \<noteq> key x) rs"
  shows "keyed f (upsert key x rs)"
proof (cases "has_key key (key x) rs")
  case True
  have "f b \<noteq> f x" if "b \<in> set rs" "key b \<noteq> key x" for b
    using assms(3) that by (auto simp: list_ex_iff)
  with assms(1,2) have "distinct (map f (modify (\<lambda>r. key r = key x) (\<lambda>_. x) rs))"
  proof (induction rs)
    case (Cons a rs)
    have "distinct (map f (modify (\<lambda>r. key r = key x) (\<lambda>_. x) rs))"
      by (rule Cons.IH) (use Cons.prems in \<open>simp_all add: keyed_def\<close>)
    then show ?case using Cons.prems by (auto simp: keyed_def set_modify) (metis imageI | blast)+
  qed simp
  with True show ?thesis by (simp add: upsert_def keyed_def)
next
  case False
  have "f x \<notin> f ` set rs"
  proof
    assume "f x \<in> f ` set rs"
    then obtain b where "b \<in> set rs" "f b = f x" by (metis imageE)
    with assms(3) have "key b = key x" by (auto simp: list_ex_iff)
    with \<open>b \<in> set rs\<close> have "key x \<in> key ` set rs" by (metis imageI)
    with False show False by (simp add: has_key_iff)
  qed
  with False assms(2) show ?thesis by (simp add: upsert_def has_key_iff)
qed

lemma sub_save_billed:
  assumes "billed w" and "row_standing (clock w) r"
  shows "wp (sub_save r) (\<lambda>_. billed) (\<lambda>_. billed) w"
proof -
  have t: "billed (tick w)" using assms(1) by (simp add: on_tables_tick [OF billed_tables])
  have "billed ((tick w)\<lparr>subs := upsert sb_id (r\<lparr>sb_updated_at := n\<rparr>) (subs w)\<rparr>)"
    if "\<not> list_ex (\<lambda>x. sb_org x = sb_org r \<and> sb_id x \<noteq> sb_id r) (subs w)" for n
  proof -
    have "set (upsert sb_id (r\<lparr>sb_updated_at := n\<rparr>) (subs w)) \<subseteq> insert (r\<lparr>sb_updated_at := n\<rparr>) (set (subs w))"
      by (auto simp: upsert_def set_modify)
    moreover have "keyed sb_org (upsert sb_id (r\<lparr>sb_updated_at := n\<rparr>) (subs w))"
      using assms(1) that by (intro upsert_other_key) (simp_all add: billed_def)
    ultimately show ?thesis using assms by (auto simp: billed_def)
  qed
  with t show ?thesis by (simp add: sub_save_def wp_simps)
qed

lemma sub_create_billed:
  assumes "billed w" and "row_standing (clock w) r"
  shows "wp (sub_create l r) (\<lambda>_. billed) (\<lambda>_. billed) w"
  using assms unfolding sub_create_def by (auto simp: wp_simps billed_def)

lemma sub_upsert_billed:
  assumes "billed w" and "row_standing (clock w) r"
  shows "wp (sub_upsert l r) (\<lambda>_. billed) (\<lambda>_. billed) w"
proof -
  have "billed (tick w)" "row_standing (clock (tick w)) r" using assms by (simp_all add: on_tables_tick [OF billed_tables])
  then show ?thesis unfolding sub_upsert_def sub_by_org_def
    by (auto simp: wp_simps intro: sub_create_billed sub_save_billed split: option.split)
qed

section \<open>The handlers\<close>

lemma synced_period_spec:
  "wp (synced_period s i r) (\<lambda>r' w'. same_store w w' \<and> (\<exists>p c. r' = r \<or> r' = r\<lparr>sb_period_end := p, sb_cancel_at_end := c\<rparr>)) (\<lambda>_ _. False) w"
  unfolding synced_period_def get_stripe_subscription_def call_ext_def
  by (auto simp: wp_def attempt_def bnd_def ret_def split: option.split)

lemma billed_emit: "keeps billed (emit_billing s org actor action oid after)"
  unfolding emit_billing_def by (intro keeps_intros billed_tables) (simp add: billed_def)

lemma billed_row: "by_key key k (by_pk sb_id (subs w)) = Some r \<Longrightarrow> billed w \<Longrightarrow> row_standing (clock w) r"
  by (auto simp: billed_def dest!: by_key_Some)

lemma billed_subscription:
  assumes "\<And>r w. row_standing (clock w) r \<Longrightarrow> billed w \<Longrightarrow> wp (f r) (\<lambda>_. billed) (\<lambda>_. billed) w"
  shows "keeps billed (bnd (sub_by_subscription_id i) (\<lambda>found. case found of None \<Rightarrow> ret () | Some r \<Rightarrow> f r))"
proof (rule keepsI)
  fix w :: "'a plan_state_scheme" assume w: "billed w"
  then have "billed (tick w)" by (simp add: on_tables_tick [OF billed_tables])
  moreover have "row_standing (clock (tick w)) r" if "by_key sb_subscription i (by_pk sb_id (subs w)) = Some r" for r
    using billed_row [OF that w] by simp
  ultimately show "wp (bnd (sub_by_subscription_id i) (\<lambda>found. case found of None \<Rightarrow> ret () | Some r \<Rightarrow> f r)) (\<lambda>_. billed) (\<lambda>_. billed) w"
    unfolding sub_by_subscription_id_def by (auto simp: wp_simps intro: assms split: option.split)
qed

lemma billed_save:
  assumes "billed w" "row_standing (clock w) r" "\<And>x. keeps billed (f x)"
  shows "wp (bnd (sub_save r) f) (\<lambda>_. billed) (\<lambda>_. billed) w"
  by (rule wp_then_keeps [OF sub_save_billed assms(3)]) fact+

lemma billed_renewal:
  assumes "row_standing (clock w) r" "billed w"
  shows "wp (bnd (synced_period s i (r\<lparr>sb_status := SubActive, sb_grace_until := None\<rparr>)) (\<lambda>row.
          bnd (sub_save row) (\<lambda>_. emit_billing s (sb_org row) [] ''subscription.renewed'' (sb_id row)
            [(''plan'', AStr (plan_text (sb_plan row)))]))) (\<lambda>_. billed) (\<lambda>_. billed) w"
  unfolding wp_bnd [of "synced_period s i x" for i x]
proof (rule wp_mono [OF synced_period_spec])
  fix row w'
  assume *: "same_store w w' \<and> (\<exists>p c. row = r\<lparr>sb_status := SubActive, sb_grace_until := None\<rparr> \<or>
      row = r\<lparr>sb_status := SubActive, sb_grace_until := None\<rparr>\<lparr>sb_period_end := p, sb_cancel_at_end := c\<rparr>)"
  then have "billed w'" "clock w' = clock w" using assms(2) on_tables_same [OF billed_tables] by (auto simp: same_store_iff)
  with * assms(1) show "wp (bnd (sub_save row) (\<lambda>_. emit_billing s (sb_org row) [] ''subscription.renewed'' (sb_id row)
          [(''plan'', AStr (plan_text (sb_plan row)))])) (\<lambda>_. billed) (\<lambda>_. billed) w'"
    by (intro billed_save billed_emit) (auto simp: row_standing_moves)
qed simp

lemma billed_handlers:
  "keeps billed (on_invoice_paid s evt)" "keeps billed (on_invoice_failed s evt)"
  "keeps billed (on_subscription_updated s evt)" "keeps billed (on_subscription_deleted s evt)"
proof -
  show "keeps billed (on_invoice_paid s evt)"
    unfolding on_invoice_paid_def by (intro keeps_ret keeps_if keeps_case_option billed_subscription) (rule billed_renewal)
  show "keeps billed (on_invoice_failed s evt)"
    unfolding on_invoice_failed_def Let_def
    by (intro keeps_ret keeps_if keeps_case_option billed_subscription)
      (simp add: wp_bnd [of time_now] wp_time_now billed_save billed_emit row_standing_moves)
  show "keeps billed (on_subscription_updated s evt)"
    unfolding on_subscription_updated_def Let_def
    by (intro keeps_ret keeps_if keeps_case_option billed_subscription)
      (simp add: wp_bnd [of time_now] wp_time_now billed_save billed_emit row_standing_moves row_standing_plan split: option.split)
  show "keeps billed (on_subscription_deleted s evt)"
    unfolding on_subscription_deleted_def Let_def
    by (intro keeps_ret keeps_if keeps_case_option billed_subscription) (simp add: billed_save billed_emit row_standing_moves)
qed

lemma billed_upsert:
  assumes "billed w" "row_standing (clock w) r" "\<And>x. keeps billed (f x)"
  shows "wp (bnd (sub_upsert l r) f) (\<lambda>_. billed) (\<lambda>_. billed) w"
  by (rule wp_then_keeps [OF sub_upsert_billed assms(3)]) fact+

lemma billed_checkout: "keeps billed (on_checkout_completed s evt)"
proof -
  have row: "wp (bnd (if i \<noteq> [] then synced_period s i r else ret r) (\<lambda>r. bnd (sub_upsert l r) f)) (\<lambda>_. billed) (\<lambda>_. billed) w"
    if "row_standing (clock w) r" "billed w" "\<And>x. keeps billed (f x)" for i r l f w
  proof -
    have "wp (synced_period s i r) (\<lambda>r. wp (bnd (sub_upsert l r) f) (\<lambda>_. billed) (\<lambda>_. billed)) (\<lambda>_. billed) w"
    proof (rule wp_mono [OF synced_period_spec])
      fix r' w' assume *: "same_store w w' \<and> (\<exists>p c. r' = r \<or> r' = r\<lparr>sb_period_end := p, sb_cancel_at_end := c\<rparr>)"
      then have "billed w'" "clock w' = clock w" using that(2) on_tables_same [OF billed_tables] by (auto simp: same_store_iff)
      with * that show "wp (bnd (sub_upsert l r') f) (\<lambda>_. billed) (\<lambda>_. billed) w'"
        by (intro billed_upsert) auto
    qed simp
    then show ?thesis using that by (simp add: wp_bnd [of "synced_period s i r"] wp_bnd [of "ret r"] wp_ret billed_upsert)
  qed
  have tail: "keeps billed (bnd (sub_by_org org) (\<lambda>saved. bnd (emit_billing s org' actor action (oid saved) after) (\<lambda>_. ret True)))"
    for org org' actor action oid after
    by (intro keeps_intros billed_tables billed_emit)
  show ?thesis
    unfolding on_checkout_completed_def Let_def
    by (intro keeps_ret keeps_if keeps_case_option keepsI [where m = "bnd m f" for m f] row tail; (assumption | simp add: row_standing_plan new_customer_standing))
qed

lemma billed_events: "keeps billed (handle_billing_event s evt)"
  unfolding handle_billing_event_def
  by (cases "se_type evt") (auto intro!: keeps_bnd keeps_ret billed_checkout billed_handlers)

lemma billed_calls:
  "keeps billed (start_checkout s user org plan)" "keeps billed (create_portal_session s user org url)"
proof -
  note [keeps_intros] = billed_tables billed_quiet
  have "keeps billed (sub_upsert l (new_customer_row org c))" for l c
    by (rule keepsI) (rule sub_upsert_billed, assumption, rule new_customer_standing)
  then have [keeps_intros]: "keeps billed (get_or_create_customer l b org)" for l b
    unfolding get_or_create_customer_def
    by (intro keeps_bnd keeps_case_list keeps_ret keeps_plans keeps_call_ext billed_tables)
  show "keeps billed (start_checkout s user org plan)"
    unfolding start_checkout_def Let_def by (intro keeps_intros) (simp add: billed_def)
  show "keeps billed (create_portal_session s user org url)"
    unfolding create_portal_session_def by (intro keeps_intros)
qed

interpretation billing: request_invariant billed y for y
proof unfold_locales
  fix user ref0
  have "keeps billed (delete_org_assets (sy_events y) org)" for org
    by (intro keeps_event_calls billed_quiet) (simp_all add: billed_def)
  then show "keeps billed (delete_org (sy_orgs y) (Some (delete_org_assets (sy_events y))) user ref0)"
    by (intro keeps_org_calls billed_quiet) (auto simp: billed_def)
next
  fix w w' assume "backstage (sy_auth y) (sy_orgs y) (sy_admin y) (sy_survives y) w w'" "billed w"
  then show "billed w'"
    by (rule backstage_keeps)
      (rule billed_quiet, simp add: apart_def billed_def, simp add: secretless_def billed_def, intro keeps_new_member billed_tables, simp add: billed_def)
next
  fix w :: order_state and dt assume "billed w" "(0::int) \<le> dt"
  then show "billed (w\<lparr>clock := clock w + dt\<rparr>)"
    by (auto simp: billed_def intro: row_standing_later)
next
  have rows: "keeps billed (repo_create_order l x)" "keeps billed (repo_update_order x)" "keeps billed (add_sold i' n)"
      "keeps billed (repo_create_type l t)" "keeps billed (repo_update_type t)" "keeps billed (repo_delete_type i')" for l x i' n t
    unfolding repo_create_order_def repo_update_order_def add_sold_def repo_create_type_def repo_update_type_def repo_delete_type_def Let_def
    by (intro keeps_intros billed_tables; simp add: billed_def)+
  let ?I = "billed :: order_state \<Rightarrow> bool"
  note shop = keeps_shop_core [OF billed_quiet rows _ billed_events]
  show "keeps ?I (create_order (sy_orders y) user ev inp)" "keeps ?I (cancel_order (sy_orders y) user i)"
    "keeps ?I (sweep_expired (sy_orders y) batch)" "keeps ?I (create_checkout (sy_payments y) user i app)"
    "keeps ?I (handle_webhook (sy_payments y) payload sig)" "keeps ?I (create_type (sy_tickets y) caller orgref ref0 tinp)"
    "keeps ?I (update_type (sy_tickets y) caller orgref ref0 ref1 tupd)" "keeps ?I (delete_type (sy_tickets y) caller orgref ref0 ref1)"
    "keeps ?I (activate_type (sy_tickets y) caller orgref ref0 ref1)" "keeps ?I (pause_type (sy_tickets y) caller orgref ref0 ref1)"
    for user ev inp i batch app payload sig caller orgref ref0 tinp ref1 tupd
    by (rule shop; simp add: billed_def)+
qed ((intro keeps_event_calls keeps_attendee_calls keeps_kit_calls keeps_checkin_calls keeps_org_calls
    billed_calls quiet_public_event billed_quiet billed_tables;
    simp add: billed_def)+, simp_all add: billed_def)

section \<open>How long a tier lasts\<close>

text \<open>C40. A tier does not outlive its payments. Whatever requests run, an organization has at most one subscription, every
  subscription is on a known plan, and only one that is past due has a grace period, which ends within seven days. So an
  organization without an active subscription is on Free at the latest when seven days have gone by without a request that changes it.\<close>

theorem tiers_lapse:
  assumes "(request y)\<^sup>*\<^sup>* w w'" and "billed w"
  shows "keyed sb_org (subs w') \<and>
    (\<forall>r \<in> set (subs w'). plan_valid (sb_plan r) \<and> (sb_status r = PastDue \<longleftrightarrow> sb_grace_until r \<noteq> None) \<and>
       (\<forall>g. sb_grace_until r = Some g \<longrightarrow> g \<le> clock w' + 7 * 86400 * seconds)) \<and>
    (\<forall>org dt fs. 7 * 86400 * seconds \<le> dt \<and> (\<forall>r \<in> set (subs w'). sb_org r = org \<longrightarrow> sb_status r \<noteq> SubActive) \<longrightarrow>
       fst (entitlement_or_free True org (w'\<lparr>clock := clock w' + dt, faults := fs\<rparr>)) = Inr free_entitlement)"
proof (intro conjI allI impI ballI)
  have b: "billed w'" by (rule billing.steps) fact+
  then show "keyed sb_org (subs w')" by (simp add: billed_def)
  have rows: "row_standing (clock w') r" if "r \<in> set (subs w')" for r using b that by (simp add: billed_def)
  show "plan_valid (sb_plan r)" "sb_status r = PastDue \<longleftrightarrow> sb_grace_until r \<noteq> None" if "r \<in> set (subs w')" for r
    using rows [OF that] by (auto simp: row_standing_def split: sub_status.splits)
  show "g \<le> clock w' + 7 * 86400 * seconds" if "r \<in> set (subs w')" "sb_grace_until r = Some g" for r g
    using rows [OF that(1)] that(2) by (auto simp: row_standing_def grace_from_def past_due_grace_days_def split: sub_status.splits)
  fix org dt fs
  assume *: "7 * 86400 * seconds \<le> dt \<and> (\<forall>r \<in> set (subs w'). sb_org r = org \<longrightarrow> sb_status r \<noteq> SubActive)"
  have "entitlement_of (by_key sb_org org (subs w')) (clock w' + dt) = free_entitlement"
  proof (cases "by_key sb_org org (subs w')")
    case (Some r)
    then have r: "r \<in> set (subs w')" "sb_status r \<noteq> SubActive" using * by (auto dest!: by_key_Some)
    with rows [OF r(1)] r(2) * show ?thesis unfolding Some
      by (auto simp: entitlement_of_def row_standing_def grace_from_def past_due_grace_days_def split: sub_status.splits)
  qed (simp add: entitlement_of_def)
  then show "fst (entitlement_or_free True org (w'\<lparr>clock := clock w' + dt, faults := fs\<rparr>)) = Inr free_entitlement"
    by (simp add: entitlement_or_free_def entitlement_for_def sub_by_org_def select_def gets_def db_def bnd_def attempt_def ret_def
        time_now_def split: prod.split)
qed

text \<open>Acme is on Pro when Stripe reports a failed invoice.\<close>

definition acme_pro :: org_subscription where
  "acme_pro = \<lparr>sb_id = 90, sb_org = 10, sb_plan = PRO, sb_status = SubActive, sb_customer = ''cus_1'', sb_subscription = ''sub_1'',
     sb_period_end = None, sb_cancel_at_end = False, sb_grace_until = None, sb_created_at = 0, sb_updated_at = 0\<rparr>"

definition invoice_event :: "stripe_event_type \<Rightarrow> stripe_event" where
  "invoice_event ty = \<lparr>se_type = ty, se_session = None, se_invoice_subscription = Some ''sub_1'', se_subscription = None\<rparr>"

definition failing_invoices :: system where
  "failing_invoices = sample_system\<lparr>sy_payments := sample_payments\<lparr>pm_construct := \<lambda>payload sig key. Some (invoice_event InvoiceFailed)\<rparr>\<rparr>"

definition pro_world :: order_state where
  "pro_world = sample_world\<lparr>subs := [acme_pro]\<rparr>"

definition parked_world :: order_state where
  "parked_world = snd (handle_webhook (sy_payments failing_invoices) [] [] pro_world)"

lemmas eval_billing = handle_webhook_def dispatch_event_def bill_def handle_billing_event_def on_invoice_failed_def on_invoice_paid_def
  sub_by_subscription_id_def sub_save_def emit_billing_def synced_period_def park_past_due_def grace_from_def past_due_grace_days_def
  invoice_event_def acme_pro_def

lemma parked_eval: "subs parked_world = [acme_pro\<lparr>sb_status := PastDue, sb_grace_until := Some (604801 * seconds),
    sb_updated_at := seconds\<rparr>]" "clock parked_world = seconds"
  by (simp_all add: parked_world_def failing_invoices_def pro_world_def eval_billing evals by_pk_def seconds_def)

theorem tiers_lapse_witness:
  "fst (entitlement_or_free True 10 parked_world) = Inr (entitlement_for_plan PRO) \<and>
   fst (entitlement_or_free True 10 (parked_world\<lparr>clock := clock parked_world + 7 * 86400 * seconds, faults := []\<rparr>)) = Inr free_entitlement"
proof
  have "faults parked_world = []"
    by (simp add: parked_world_def failing_invoices_def pro_world_def eval_billing evals by_pk_def seconds_def)
  then show "fst (entitlement_or_free True 10 parked_world) = Inr (entitlement_for_plan PRO)"
    by (simp add: eval_reads eval_store parked_eval acme_pro_def seconds_def)
  have "request failing_invoices pro_world parked_world" unfolding parked_world_def
    by (rule Webhook, rule prod.collapse [symmetric])
  then have r: "(request failing_invoices)\<^sup>*\<^sup>* pro_world parked_world" ..
  have b: "billed pro_world" by (simp add: billed_def pro_world_def keyed_def row_standing_def acme_pro_def)
  have "\<forall>r \<in> set (subs parked_world). sb_org r = 10 \<longrightarrow> sb_status r \<noteq> SubActive" by (simp add: parked_eval)
  then show "fst (entitlement_or_free True 10 (parked_world\<lparr>clock := clock parked_world + 7 * 86400 * seconds, faults := []\<rparr>))
      = Inr free_entitlement"
    using tiers_lapse [OF r b] by (metis order_refl)
qed

text \<open>A payment that arrives after the cancellation brings the subscription back: the handler of a paid invoice does not look at the status.\<close>

lemma canceled_revived:
  "subs (snd (handle_billing_event sample_billing (invoice_event InvoicePaid) (sample_world\<lparr>subs := [acme_pro\<lparr>sb_status := Canceled\<rparr>]\<rparr>)))
     = [acme_pro\<lparr>sb_updated_at := seconds\<rparr>]"
  by (simp add: eval_billing evals by_pk_def seconds_def)

end
