(* ===== verification/RoleFacts.thy ===== *)
theory RoleFacts
  imports BillingFacts
begin

text \<open>
  Facts about custom roles: what a definition can hold, and that every request keeps the definitions of an organization
  few, distinct, well named and within the vocabulary of grants.
\<close>

section \<open>Validation\<close>

lemma normalize_role_name_ok:
  "normalize_role_name raw = Inr n \<Longrightarrow> slug_re n \<and> \<not> reserved_role_name n"
  by (auto simp: normalize_role_name_def Let_def split: if_splits)

lemma normalize_loop_ok:
  "normalize_loop ps out = Inr r \<Longrightarrow> distinct out \<Longrightarrow> list_all grantable out \<Longrightarrow>
     distinct r \<and> list_all grantable r \<and> length out \<le> length r \<and> (ps \<noteq> [] \<longrightarrow> r \<noteq> [])"
proof (induction ps out rule: normalize_loop.induct)
  case (2 p ps out)
  let ?rp = "(to_lower (trim_space (fst p)), to_lower (trim_space (snd p)))"
  show ?case
  proof (cases "?rp \<in> set out")
    case True
    then have "out \<noteq> []" by auto
    with True 2 show ?thesis by (auto simp: Let_def split: if_splits)
  next
    case False
    with 2 show ?thesis by (fastforce simp: Let_def split: if_splits)
  qed
qed simp

lemma normalize_role_permissions_ok:
  "normalize_role_permissions ps = Inr r \<Longrightarrow> r \<noteq> [] \<and> distinct r \<and> list_all grantable r"
  using normalize_loop_ok [of ps "[]" r] by (auto simp: normalize_role_permissions_def split: if_splits)

section \<open>The definitions\<close>

definition role_ok :: "role_definition \<Rightarrow> bool" where
  "role_ok d \<longleftrightarrow> slug_re (rd_name d) \<and> \<not> reserved_role_name (rd_name d) \<and>
     rd_permissions d \<noteq> [] \<and> distinct (rd_permissions d) \<and> list_all grantable (rd_permissions d)"

definition defs_ok :: "role_definition list \<Rightarrow> bool" where
  "defs_ok ds \<longleftrightarrow> keyed rd_id ds \<and> keyed (\<lambda>d. (rd_org d, rd_name d)) ds \<and> list_all role_ok ds \<and>
     (\<forall>org. count_where (\<lambda>d. rd_org d = org) ds \<le> max_custom_roles)"

definition roles_ok :: "'z org_state_scheme \<Rightarrow> bool" where
  "roles_ok w \<longleftrightarrow> defs_ok (role_defs w)"

lemma roles_tables: "on_tables roles_ok"
  by (rule on_tablesI) (simp add: roles_ok_def)

lemma roles_quiet: "quiet roles_ok"
  by (simp add: quiet_def roles_tables) (simp add: roles_ok_def)

lemma same_defs_tables: "on_tables (\<lambda>v. role_defs v = ds)"
  by (rule on_tablesI) simp

lemma count_where_filter_le: "count_where p (filter q ds) \<le> count_where p ds"
  by (induction ds) auto

lemma defs_ok_delete: "defs_ok ds \<Longrightarrow> defs_ok (filter p ds)"
  unfolding defs_ok_def keyed_def by (auto simp: distinct_map_filter list_all_iff intro: order_trans [OF count_where_filter_le])

lemma defs_ok_create:
  assumes "defs_ok ds" "role_ok d" "\<not> has_key rd_id (rd_id d) ds" "\<not> list_ex (role_row (rd_org d) (rd_name d)) ds"
    and "count_where (\<lambda>x. rd_org x = rd_org d) ds < max_custom_roles"
  shows "defs_ok (ds @ [d])"
proof -
  have "count_where (\<lambda>x. rd_org x = org) (ds @ [d]) \<le> max_custom_roles" for org
    using assms(1,5) by (cases "rd_org d = org") (auto simp: defs_ok_def)
  moreover have "\<not> has_key (\<lambda>d. (rd_org d, rd_name d)) (rd_org d, rd_name d) ds"
    using assms(4) by (auto simp: has_key_iff list_ex_iff role_row_def)
  ultimately show ?thesis using assms(1-3) unfolding defs_ok_def by simp
qed

lemma defs_ok_update:
  assumes ds: "defs_ok ds" and d0: "find (role_row org n) ds = Some d0" and "role_ok (d0\<lparr>rd_permissions := ps\<rparr>)"
  shows "defs_ok (upsert rd_id (d0\<lparr>rd_permissions := ps, rd_updated_at := now\<rparr>) ds)"
proof -
  let ?d = "d0\<lparr>rd_permissions := ps, rd_updated_at := now\<rparr>"
  have in': "d0 \<in> set ds" using d0 by (auto simp: find_Some_iff)
  then have up: "upsert rd_id ?d ds = modify (\<lambda>x. rd_id x = rd_id d0) (\<lambda>_. ?d) ds" by (auto simp: upsert_def has_key_iff)
  have same: "x = d0" if "x \<in> set ds" "rd_id x = rd_id d0" for x
    using ds that in' keyed_inj [of rd_id ds] by (auto simp: defs_ok_def)
  have one: "map f (modify (\<lambda>x. rd_id x = rd_id d0) (\<lambda>_. ?d) xs) = map f xs" if "set xs \<subseteq> set ds" "f ?d = f d0" for f :: "role_definition \<Rightarrow> 'b" and xs
    using that(1) by (induction xs) (auto simp: that(2) dest: same)
  have cnt: "count_where (\<lambda>x. rd_org x = o') (modify (\<lambda>x. rd_id x = rd_id d0) (\<lambda>_. ?d) xs) = count_where (\<lambda>x. rd_org x = o') xs"
    if "set xs \<subseteq> set ds" for o' xs
    using that by (induction xs) (auto dest: same)
  have "role_ok ?d" using assms(3) by (simp add: role_ok_def)
  then show ?thesis
    unfolding up using ds one [of ds rd_id] one [of ds "\<lambda>d. (rd_org d, rd_name d)"] cnt [of ds]
    by (auto simp: defs_ok_def keyed_def list_all_iff set_modify)
qed

section \<open>The operations\<close>

lemma after_read:
  assumes "keeps (\<lambda>v. role_defs v = ds) m" and "role_defs w = ds" and "defs_ok ds"
    and "\<And>x v. role_defs v = ds \<Longrightarrow> wp (f x) (\<lambda>_. roles_ok) (\<lambda>_. roles_ok) v"
  shows "wp (bnd m f) (\<lambda>_. roles_ok) (\<lambda>_. roles_ok) w"
  unfolding wp_bnd
  by (rule wp_mono [OF keeps_wpI [OF assms(1,2)]]) (use assms(3,4) in \<open>auto simp: roles_ok_def\<close>)

lemma after_check:
  "role_defs w = ds \<Longrightarrow> defs_ok ds \<Longrightarrow> (\<And>x. r = Inr x \<Longrightarrow> wp (f x) (\<lambda>_. roles_ok) (\<lambda>_. roles_ok) w)
    \<Longrightarrow> wp (bnd (pure_result r) f) (\<lambda>_. roles_ok) (\<lambda>_. roles_ok) w"
  "role_defs w = ds \<Longrightarrow> defs_ok ds \<Longrightarrow> (c \<Longrightarrow> wp (g ()) (\<lambda>_. roles_ok) (\<lambda>_. roles_ok) w)
    \<Longrightarrow> wp (bnd (guard c e) g) (\<lambda>_. roles_ok) (\<lambda>_. roles_ok) w"
  by (auto simp: wp_simps roles_ok_def split: sum.split)

lemma keeps_defs_reads [keeps_intros]:
  "keeps (\<lambda>v. role_defs v = ds) (require_role l user ref0 least)" "keeps (\<lambda>v. role_defs v = ds) (entitlement_or_free b org)"
  "keeps (\<lambda>v. role_defs v = ds) (role_absent org name)" "keeps (\<lambda>v. role_defs v = ds) (count_role_assignments org name)"
  unfolding role_absent_def get_role_def_def count_role_assignments_def by (intro keeps_intros same_defs_tables)+

lemma roles_rest [keeps_intros]:
  "keeps roles_ok (os_emit s e)" "keeps roles_ok (os_sync_custom_policies s org rn perms b)" "keeps roles_ok (count_role_assignments org name)"
  unfolding count_role_assignments_def
  by (intro keeps_policy_calls keeps_os_helpers keeps_intros roles_tables; simp add: roles_ok_def)+

lemma roles_tx:
  assumes "role_defs w = ds" and "defs_ok ds" and body: "\<And>v. role_defs v = ds \<Longrightarrow> wp m (\<lambda>_. roles_ok) (\<lambda>_ _. True) v"
    and rest: "\<And>x. keeps roles_ok (f x)"
  shows "wp (bnd (tx m) f) (\<lambda>_. roles_ok) (\<lambda>_. roles_ok) w"
proof (rule wp_then_keeps [OF _ rest])
  show "wp (tx m) (\<lambda>_. roles_ok) (\<lambda>_. roles_ok) w"
    by (rule wp_tx_books [OF roles_tables]) (use assms(1,2) in \<open>simp_all add: roles_ok_def body\<close>)
qed

lemma after_count:
  assumes "role_defs w = ds" and "defs_ok ds" and "\<And>v. role_defs v = ds \<Longrightarrow> wp (f (count_where p ds)) (\<lambda>_. roles_ok) (\<lambda>_. roles_ok) v"
  shows "wp (bnd (select (\<lambda>w. count_where p (role_defs w))) f) (\<lambda>_. roles_ok) (\<lambda>_. roles_ok) w"
  using assms by (simp add: wp_simps roles_ok_def)

lemma new_role:
  assumes "role_defs v = ds" "defs_ok ds" and n: "normalize_role_name name = Inr role" "normalize_role_permissions perms = Inr norm"
    and c: "count_where (\<lambda>d. rd_org d = org) ds < max_custom_roles"
  shows "wp (bnd (on_error (create_role_def l \<lparr>rd_id = uuid_nil, rd_org = org, rd_name = role, rd_permissions = norm,
          rd_created_at = 0, rd_updated_at = 0\<rparr>) h) (\<lambda>d. bnd (os_emit s (e d)) (\<lambda>_. ret d))) (\<lambda>_. roles_ok) (\<lambda>_ _. True) v"
proof -
  have "role_ok \<lparr>rd_id = i, rd_org = org, rd_name = role, rd_permissions = norm, rd_created_at = t, rd_updated_at = t\<rparr>" for i t
    using normalize_role_name_ok [OF n(1)] normalize_role_permissions_ok [OF n(2)] by (simp add: role_ok_def)
  note new = defs_ok_create [OF assms(2) this]
  have emit: "keeps (\<lambda>a. defs_ok (role_defs a)) (os_emit s x)" for x by (rule roles_rest(1) [unfolded roles_ok_def [abs_def]])
  show ?thesis
    unfolding create_role_def_def wp_bnd [of "on_error m h" for m]
    by (auto simp: wp_simps roles_ok_def assms(1) c intro!: wp_rest emit new)
qed

lemma define_role_ok: "keeps roles_ok (define_role s grantor ref0 name perms)"
proof (rule keepsI)
  fix w :: "'a org_state_scheme" assume "roles_ok w"
  then have ok: "defs_ok (role_defs w)" by (simp add: roles_ok_def)
  show "wp (define_role s grantor ref0 name perms) (\<lambda>_. roles_ok) (\<lambda>_. roles_ok) w"
    unfolding define_role_def count_role_defs_def
    by (rule after_read [OF _ refl ok], rule keeps_defs_reads, clarsimp,
      rule after_read [OF _ _ ok], rule keeps_defs_reads, assumption,
      (rule after_check [OF _ ok], assumption)+,
      rule after_read [OF _ _ ok], rule keeps_defs_reads, assumption,
      rule after_count [OF _ ok], assumption, rule after_check [OF _ ok], assumption,
      rule roles_tx [OF _ ok], assumption, erule new_role [OF _ ok], assumption+, simp, intro keeps_intros)
qed

lemma after_present:
  assumes "role_defs w = ds" and "defs_ok ds"
    and "\<And>d v. role_defs v = ds \<Longrightarrow> find (role_row org role) ds = Some d \<Longrightarrow> wp (f d) (\<lambda>_. roles_ok) (\<lambda>_. roles_ok) v"
  shows "wp (bnd (role_present org role) f) (\<lambda>_. roles_ok) (\<lambda>_. roles_ok) w"
  unfolding role_present_def get_role_def_def using assms by (auto simp: wp_simps roles_ok_def split: option.split)

lemma changed_role:
  assumes "role_defs v = ds" "defs_ok ds" and d: "find (role_row org role) ds = Some d" and n: "normalize_role_permissions perms = Inr norm"
  shows "wp (bnd (update_role_def (d\<lparr>rd_permissions := norm\<rparr>)) (\<lambda>row. bnd (os_emit s e) (\<lambda>_. ret row))) (\<lambda>_. roles_ok) (\<lambda>_ _. True) v"
proof -
  have "role_ok d" using assms(2) d by (auto simp: defs_ok_def list_all_iff find_Some_iff)
  then have "role_ok (d\<lparr>rd_permissions := norm\<rparr>)" using normalize_role_permissions_ok [OF n] by (simp add: role_ok_def)
  note new = defs_ok_update [OF assms(2) d this]
  have emit: "keeps (\<lambda>a. defs_ok (role_defs a)) (os_emit s x)" for x by (rule roles_rest(1) [unfolded roles_ok_def [abs_def]])
  show ?thesis
    unfolding update_role_def_def by (auto simp: wp_simps roles_ok_def assms(1) intro!: wp_rest emit new)
qed

lemma update_role_ok: "keeps roles_ok (update_role s grantor ref0 name perms)"
proof (rule keepsI)
  fix w :: "'a org_state_scheme" assume "roles_ok w"
  then have ok: "defs_ok (role_defs w)" by (simp add: roles_ok_def)
  show "wp (update_role s grantor ref0 name perms) (\<lambda>_. roles_ok) (\<lambda>_. roles_ok) w"
    unfolding update_role_def Let_def
    by (rule after_read [OF _ refl ok], rule keeps_defs_reads, clarsimp, (rule after_check [OF _ ok], assumption)+,
      rule after_present [OF _ ok], assumption, rule roles_tx [OF _ ok], assumption, erule changed_role [OF _ ok], assumption+,
      intro keeps_intros)
qed

lemma delete_role_ok: "keeps roles_ok (delete_role s grantor ref0 name)"
  unfolding delete_role_def role_present_def get_role_def_def delete_role_def_def
  by (intro keeps_intros roles_tables) (simp add: roles_ok_def defs_ok_delete)

section \<open>Under every sequence of requests\<close>

interpretation roles: request_invariant roles_ok y for y
proof unfold_locales
  fix user ref0
  have "keeps roles_ok (delete_org_assets (sy_events y) org)" for org
    by (intro keeps_event_calls roles_quiet) (simp_all add: roles_ok_def)
  then show "keeps roles_ok (delete_org (sy_orgs y) (Some (delete_org_assets (sy_events y))) user ref0)"
    by (intro keeps_org_calls roles_quiet) (auto simp: roles_ok_def)
next
  fix w w' :: order_state
  assume b: "backstage (sy_auth y) (sy_orgs y) (sy_admin y) (sy_survives y) w w'" and "roles_ok w"
  let ?I = "roles_ok :: order_state \<Rightarrow> bool"
  have "on_tables ?I" "\<And>w x. ?I w \<Longrightarrow> ?I (w\<lparr>jobs := jobs w @ [x]\<rparr>)" by (simp add: roles_tables) (simp add: roles_ok_def)
  note apart = auth_rows_apart [OF this]
  have rows: "auth_rows ?I" by (rule apart) (simp_all add: roles_ok_def)
  have inc: "keeps ?I (increment_otp_attempts i)" for i by (rule apart) (simp_all add: roles_ok_def)
  show "roles_ok w'"
  proof (rule backstage_rows [OF b \<open>roles_ok w\<close> roles_quiet _ _ _ _ _ _ _ rows auth_rows.code_flow [OF rows inc]])
    show "aside ?I" by (simp add: aside_def roles_ok_def)
    show "keeps ?I (repo_create_invite l x)" "keeps ?I (consume_invite i b t)" for l x i b t
      unfolding repo_create_invite_def consume_invite_def by (intro keeps_intros roles_tables; simp add: roles_ok_def)+
    show "keeps ?I (repo_create_membership l m)" for l m
      by (intro keeps_new_member roles_tables) (simp add: roles_ok_def)
  qed (rule define_role_ok update_role_ok delete_role_ok)+
qed ((intro keeps_shop_calls keeps_event_calls keeps_attendee_calls keeps_kit_calls keeps_checkin_calls keeps_org_calls
    keeps_billing_calls quiet_public_event roles_quiet roles_tables;
    simp add: roles_ok_def)+, simp_all add: roles_ok_def)

text \<open>C33. Custom roles stay within bounds. Whatever requests run, an organization has at most twenty definitions, no two of one name;
  every name is a slug and none is that of a fixed role or of the platform administrator; and a definition grants a
  non-empty set of pairs of the vocabulary, so never a wildcard, never the deletion of the organization, and nothing on the
  platform's administration.\<close>

theorem custom_roles_bounded:
  assumes "(request y)\<^sup>*\<^sup>* w w'" and "roles_ok w"
  shows "(\<forall>d \<in> set (role_defs w'). slug_re (rd_name d) \<and> rd_name d \<notin> {''owner'', ''admin'', ''member'', ''superadmin''} \<and>
       rd_permissions d \<noteq> [] \<and> distinct (rd_permissions d) \<and>
       (\<forall>(ob, ac) \<in> set (rd_permissions d). grantable (ob, ac) \<and> ob \<notin> {''*'', ''admin''} \<and> ac \<noteq> ''*'' \<and> (ob, ac) \<noteq> (''org'', ''delete''))) \<and>
    distinct (map (\<lambda>d. (rd_org d, rd_name d)) (role_defs w')) \<and>
    (\<forall>org. count_where (\<lambda>d. rd_org d = org) (role_defs w') \<le> 20)"
proof -
  have "roles_ok w'" by (rule roles.steps) fact+
  then have ok: "defs_ok (role_defs w')" by (simp add: roles_ok_def)
  have g: "ob \<notin> {''*'', ''admin''} \<and> ac \<noteq> ''*'' \<and> (ob, ac) \<noteq> (''org'', ''delete'')" if "grantable (ob, ac)" for ob ac
    using that by (auto simp: grantable_def role_registry_def split: if_splits)
  then have "\<forall>(ob, ac) \<in> set ps. grantable (ob, ac) \<and> ob \<notin> {''*'', ''admin''} \<and> ac \<noteq> ''*'' \<and> (ob, ac) \<noteq> (''org'', ''delete'')"
    if "list_all grantable ps" for ps using that by (auto simp: list_all_iff)
  with ok show ?thesis
    by (auto simp: defs_ok_def role_ok_def list_all_iff reserved_role_name_def keyed_def max_custom_roles_def)
qed

text \<open>The owner of Acme, on Pro, defines a role for the staff at the door.\<close>

definition staffed_world :: order_state where
  "staffed_world = snd (define_role sample_orgs 1 ''acme'' ''Door-Staff'' [(''checkin'', ''create''), ('' CHECKIN'', ''Create'')] pro_world)"

lemma staffed_names: "normalize_role_name ''Door-Staff'' = Inr ''door-staff''"
  "normalize_role_permissions [(''checkin'', ''create''), ('' CHECKIN'', ''Create'')] = Inr [(''checkin'', ''create'')]"
  by code_simp+

lemmas eval_roles = define_role_def require_role_def org_membership_def pure_result_def role_absent_def get_role_def_def count_role_defs_def
  create_role_def_def os_emit_def os_sync_custom_policies_def sync_custom_policies_def ensure_custom_role_def has_policy_def add_policy_def
  can_def entitlement_for_plan_def max_custom_roles_def grants_text_def

lemma staffed_eval: "map rd_name (role_defs staffed_world) = [''door-staff'']"
  by (simp add: staffed_world_def pro_world_def acme_pro_def staffed_names eval_roles evals sample_world_def empty_world_def)

theorem custom_roles_bounded_witness:
  "\<exists>d. role_defs staffed_world = [d] \<and> rd_name d = ''door-staff'' \<and> slug_re (rd_name d) \<and> rd_permissions d \<noteq> [] \<and>
     (''org'', ''delete'') \<notin> set (rd_permissions d)"
proof -
  have "request sample_system pro_world staffed_world" unfolding staffed_world_def
    by (rule Backstage, rule Define_role, simp add: sample_system_def, rule prod.collapse [symmetric])
  then have r: "(request sample_system)\<^sup>*\<^sup>* pro_world staffed_world" ..
  have ok: "roles_ok pro_world"
    by (simp add: roles_ok_def defs_ok_def pro_world_def sample_world_def empty_world_def max_custom_roles_def)
  from staffed_eval obtain d where d: "role_defs staffed_world = [d]" "rd_name d = ''door-staff''" by auto
  with custom_roles_bounded [OF r ok] show ?thesis by (intro exI [of _ d]) auto
qed

end
