(* ===== verification/Startup.thy ===== *)
theory Startup
  imports Boot RoleFacts
begin

text \<open>
  The process (\<open>cmd/api/main.go\<close>, \<open>database.go\<close>, \<open>redis.go\<close>): the order in which it opens what it needs, where a failure ends
  it, what it serves, and how it stops. What the outside answers on the way is a parameter (\<open>answers\<close>): whether the
  database, Redis and River can be reached, and whether a policy and a directory can be loaded. The platform administrators are seeded
  here, and nowhere else.
\<close>

section \<open>Connections\<close>

record answers =
  an_open :: bool
  an_ping :: bool
  an_gorm :: bool
  an_listener :: bool
  an_redis_url :: "string \<Rightarrow> redis_options option"
  an_redis_ping :: "redis_options \<Rightarrow> bool"
  an_river_client :: bool
  an_river_start :: bool
  an_enforcer :: bool
  an_uploads :: bool

text \<open>The package variables of \<open>config\<close>, and the River client: what is open.\<close>

record handles =
  hd_sql :: bool
  hd_listener :: bool
  hd_redis :: bool
  hd_river :: bool

definition no_handles :: handles where
  "no_handles = \<lparr>hd_sql = False, hd_listener = False, hd_redis = False, hd_river = False\<rparr>"

text \<open>\<open>None\<close> is \<open>os.Exit(1)\<close>.\<close>

definition connect_database :: "environment \<Rightarrow> answers \<Rightarrow> handles \<Rightarrow> handles option" where
  "connect_database env an h =
     (if env ''DATABASE_URL'' = [] then None
      else if \<not> an_open an then None
      else if \<not> an_ping an then None
      else if \<not> an_gorm an then None
      else Some (h\<lparr>hd_sql := True, hd_listener := an_listener an\<rparr>))"

definition close_database :: "handles \<Rightarrow> handles" where
  "close_database h = h\<lparr>hd_listener := False, hd_sql := False\<rparr>"

text \<open>Without an answer to the ping the client is closed again and the API runs without a cache.\<close>

definition connect_redis :: "environment \<Rightarrow> answers \<Rightarrow> handles \<Rightarrow> handles" where
  "connect_redis env an h = (if an_redis_ping an (redis_options_of (an_redis_url an) env) then h\<lparr>hd_redis := True\<rparr> else h)"

definition close_redis :: "handles \<Rightarrow> handles" where
  "close_redis h = h\<lparr>hd_redis := False\<rparr>"

section \<open>From start to stop\<close>

datatype limiter = MemoryStore | RedisStore

text \<open>A process that serves: its handles, address, CORS rule, limiter and services. The secret of the access tokens is not among
  them: every request that needs it reads it from the environment, and ends the process when it is missing.\<close>

record process =
  pc_handles :: handles
  pc_addr :: string
  pc_cors :: cors
  pc_limiter :: limiter
  pc_system :: "string \<Rightarrow> system"

datatype startup = Exited int | Serves process

definition api_process :: "foreign \<Rightarrow> environment \<Rightarrow> string \<Rightarrow> handles \<Rightarrow> process" where
  "api_process fo env qr h = \<lparr>pc_handles = h, pc_addr = listen_addr env, pc_cors = cors_of env,
     pc_limiter = (if hd_redis h then RedisStore else MemoryStore),
     pc_system = (\<lambda>jwt. wire (fo\<lparr>fo_redis := hd_redis h\<rparr>) env jwt qr)\<rparr>"

definition api_main :: "foreign \<Rightarrow> environment \<Rightarrow> answers \<Rightarrow> 'z iam_state_scheme \<Rightarrow> startup \<times> 'z iam_state_scheme" where
  "api_main fo env an w =
     (case connect_database env an no_handles of None \<Rightarrow> (Exited 1, w)
      | Some h0 \<Rightarrow>
         let h1 = connect_redis env an h0 in
         if \<not> an_river_client an then (Exited 1, w)
         else if \<not> an_river_start an then (Exited 1, w)
         else let h = h1\<lparr>hd_river := True\<rparr> in
         if \<not> an_enforcer an then (Exited 1, w)
         else (case seed_super_admins (fo_lib fo) (super_admin_emails env) w of
             (Inl _, w1) \<Rightarrow> (Exited 1, w1)
           | (Inr _, w1) \<Rightarrow>
              (case qr_signing_secret env of None \<Rightarrow> (Exited 1, w1)
               | Some qr \<Rightarrow>
                  if \<not> an_uploads an then (Exited 1, w1) else (Serves (api_process fo env qr h), w1))))"

text \<open>Both ends lead through the same lines: a signal, and a listener that fails, which only cancels the context. River is stopped,
  the deferred calls close Redis and the database, and \<open>main\<close> returns: the status is 0 either way.\<close>

datatype ending = Signalled | ListenFailed

definition api_stop :: "process \<Rightarrow> ending \<Rightarrow> handles \<times> int" where
  "api_stop p en = (close_database (close_redis ((pc_handles p)\<lparr>hd_river := False\<rparr>)), 0)"

section \<open>What a serving process has\<close>

lemma serves_iff:
  "api_main fo env an w = (Serves p, w1) \<longleftrightarrow>
     (\<exists>qr. env ''DATABASE_URL'' \<noteq> [] \<and> an_open an \<and> an_ping an \<and> an_gorm an \<and> an_river_client an \<and> an_river_start an \<and>
        an_enforcer an \<and> an_uploads an \<and> qr_signing_secret env = Some qr \<and>
        seed_super_admins (fo_lib fo) (super_admin_emails env) w = (Inr (), w1) \<and>
        p = api_process fo env qr \<lparr>hd_sql = True, hd_listener = an_listener an,
              hd_redis = an_redis_ping an (redis_options_of (an_redis_url an) env), hd_river = True\<rparr>)"
  by (auto simp: api_main_def connect_database_def connect_redis_def no_handles_def Let_def
      split: option.splits prod.splits sum.splits if_splits)

text \<open>With a secret for the access tokens the process is the wiring of \<open>Boot\<close>; everything it opened is closed when it stops.\<close>

lemma serving_boot:
  assumes "api_main fo env an w = (Serves p, w1)" and "jwt_secret env = Some jwt"
  shows "boot (fo\<lparr>fo_redis := hd_redis (pc_handles p)\<rparr>) env = Some (pc_system p jwt)"
  using assms by (auto simp: serves_iff boot_def api_process_def)

lemma stopped_clean: "fst (api_stop p en) = no_handles"
  by (simp add: api_stop_def close_database_def close_redis_def no_handles_def handles.splits)

section \<open>The platform administrators\<close>

text \<open>The accounts that the configured addresses belong to.\<close>

definition named_accounts :: "lib \<Rightarrow> string list \<Rightarrow> 'z user_state_scheme \<Rightarrow> string set" where
  "named_accounts l emails w = {uuid_text l (us_id u) | u e. e \<in> set emails \<and> by_key us_email e (live_users w) = Some u}"

lemma named_accounts_Cons:
  "named_accounts l (e # es) w =
     (case by_key us_email e (live_users w) of None \<Rightarrow> {} | Some u \<Rightarrow> {uuid_text l (us_id u)}) \<union> named_accounts l es w"
  by (auto simp: named_accounts_def split: option.splits)

lemma named_accounts_same: "users w' = users w \<Longrightarrow> named_accounts l es w' = named_accounts l es w"
  by (simp add: named_accounts_def live_users_def)

lemma add_super_spec:
  "wp (add_super u) (\<lambda>_ w'. set (g2_rows w') = insert [u, ''superadmin''] (set (g2_rows w)) \<and> users w' = users w \<and> (faults w = [] \<longrightarrow> faults w' = []))
     (\<lambda>_ w'. faults w \<noteq> []) w"
  by (cases "faults w") (auto simp: add_super_def wp_simps trips_def)

lemma named_step:
  "by_key us_email e (live_users w) = Some u \<Longrightarrow> named_accounts l (e # es) w = insert (uuid_text l (us_id u)) (named_accounts l es w)"
  "by_key us_email e (live_users w) = None \<Longrightarrow> named_accounts l (e # es) w = named_accounts l es w"
  by (simp_all add: named_accounts_Cons)

text \<open>\<open>seeded\<close>: the accounts of \<open>new\<close> have been granted, all of them named, and all the named ones when nothing failed.\<close>

definition seeded :: "lib \<Rightarrow> string list \<Rightarrow> 'z iam_state_scheme \<Rightarrow> string set \<Rightarrow> 'z iam_state_scheme \<Rightarrow> bool" where
  "seeded l es w new w' \<longleftrightarrow> set (g2_rows w') = set (g2_rows w) \<union> (\<lambda>u. [u, ''superadmin'']) ` new \<and>
     new \<subseteq> named_accounts l es w \<and> (faults w = [] \<longrightarrow> new = named_accounts l es w \<and> faults w' = [])"

lemma seeded_after:
  assumes "seeded l es v new w'" and "users v = users w" and "set (g2_rows v) = set (g2_rows w)" and "faults w = [] \<Longrightarrow> faults v = []"
    and "faults w = [] \<Longrightarrow> by_key us_email e (live_users w) = None"
  shows "seeded l (e # es) w new w'"
  using assms named_accounts_same [of v w l es]
  by (cases "by_key us_email e (live_users w)") (auto simp: seeded_def named_step)

lemma seeded_found:
  assumes "seeded l es v new w'" and "users v = users w" and "set (g2_rows v) = insert [uuid_text l (us_id u), ''superadmin''] (set (g2_rows w))"
    and "faults w = [] \<Longrightarrow> faults v = []" and "by_key us_email e (live_users w) = Some u"
  shows "seeded l (e # es) w (insert (uuid_text l (us_id u)) new) w'"
  using assms named_accounts_same [of v w l es] by (auto simp: seeded_def named_step)

lemma grant_supers_spec:
  "wp (grant_supers l want es) (\<lambda>r w'. \<exists>new. set r = set want \<union> new \<and> seeded l es w new w') (\<lambda>_ w'. faults w \<noteq> []) w"
proof (induction es arbitrary: want w)
  case Nil
  show ?case by (simp add: wp_simps seeded_def named_accounts_def)
next
  case (Cons e es)
  have rest: "wp (grant_supers l want es) (\<lambda>r w'. \<exists>new. set r = set want \<union> new \<and> seeded l (e # es) w new w') (\<lambda>_ w'. faults w \<noteq> []) v"
    if "users v = users w" "g2_rows v = g2_rows w" "faults w = [] \<longrightarrow> faults v = []"
      "faults w = [] \<longrightarrow> by_key us_email e (live_users w) = None" for v
  proof (rule wp_mono [OF Cons.IH [of want v]])
    fix r w'
    assume "\<exists>new. set r = set want \<union> new \<and> seeded l es v new w'"
    then obtain new where n: "set r = set want \<union> new" "seeded l es v new w'" by blast
    have "seeded l (e # es) w new w'"
      by (rule seeded_after [OF n(2)]) (use that in simp_all)
    with n(1) show "\<exists>new. set r = set want \<union> new \<and> seeded l (e # es) w new w'" by blast
  qed (use that in simp)
  have found: "wp (bnd (add_super (uuid_text l (us_id u))) (\<lambda>_. grant_supers l (want @ [uuid_text l (us_id u)]) es))
      (\<lambda>r w'. \<exists>new. set r = set want \<union> new \<and> seeded l (e # es) w new w') (\<lambda>_ w'. faults w \<noteq> []) v"
    if "users v = users w" "g2_rows v = g2_rows w" "faults w = [] \<longrightarrow> faults v = []"
      "by_key us_email e (live_users w) = Some u" for u v
    unfolding wp_bnd
  proof (rule wp_mono [OF add_super_spec])
    fix x and v' :: "'a iam_state_scheme"
    assume a: "set (g2_rows v') = insert [uuid_text l (us_id u), ''superadmin''] (set (g2_rows v)) \<and> users v' = users v \<and>
      (faults v = [] \<longrightarrow> faults v' = [])"
    show "wp (grant_supers l (want @ [uuid_text l (us_id u)]) es)
        (\<lambda>r w'. \<exists>new. set r = set want \<union> new \<and> seeded l (e # es) w new w') (\<lambda>_ w'. faults w \<noteq> []) v'"
    proof (rule wp_mono [OF Cons.IH])
      fix r w'
      assume "\<exists>new. set r = set (want @ [uuid_text l (us_id u)]) \<union> new \<and> seeded l es v' new w'"
      then obtain new where n: "set r = set (want @ [uuid_text l (us_id u)]) \<union> new" "seeded l es v' new w'" by blast
      have "seeded l (e # es) w (insert (uuid_text l (us_id u)) new) w'"
        by (rule seeded_found [OF n(2)]) (use that a in simp_all)
      then show "\<exists>new. set r = set want \<union> new \<and> seeded l (e # es) w new w'"
        using n(1) by (intro exI [of _ "insert (uuid_text l (us_id u)) new"]) simp
    qed (use that a in simp)
  qed (use that in simp)
  show ?case
    by (auto simp only: grant_supers.simps get_user_by_email_def wp_bnd [of "attempt m" for m] wp_attempt wp_select_first
        sum.case split: option.split if_split intro!: rest found) (auto simp: trips_def tick_def live_users_def)
qed

lemma remove_super_spec:
  "wp (remove_super u) (\<lambda>_ w'. set (g2_rows w') = set (g2_rows w) - {[u, ''superadmin'']} \<and> (faults w = [] \<longrightarrow> faults w' = []))
     (\<lambda>_ w'. faults w \<noteq> []) w"
  by (cases "faults w") (auto simp: remove_super_def wp_simps trips_def)

lemma revoke_supers_spec:
  "wp (revoke_supers want rs)
     (\<lambda>_ w'. set (g2_rows w') = set (g2_rows w) - {[hd r, ''superadmin''] | r. r \<in> set rs \<and> r \<noteq> [] \<and> hd r \<notin> set want} \<and>
        (faults w = [] \<longrightarrow> faults w' = []))
     (\<lambda>_ w'. faults w \<noteq> []) w"
proof (induction rs arbitrary: w)
  case Nil
  show ?case by (simp add: wp_simps)
next
  case (Cons r rs)
  show ?case
  proof (cases "r = [] \<or> hd r \<in> set want")
    case True
    then show ?thesis by simp (rule wp_mono [OF Cons.IH]; auto)
  next
    case False
    then show ?thesis
      by (simp add: wp_bnd) (rule wp_mono [OF remove_super_spec], rule wp_mono [OF Cons.IH]; auto)
  qed
qed

text \<open>After the seed the administrators are the named accounts, apart from those whose address could not be looked up.\<close>

lemma seed_super_admins_spec:
  assumes "es \<noteq> []"
  shows "wp (seed_super_admins l es)
     (\<lambda>_ w'. {u. [u, ''superadmin''] \<in> set (g2_rows w')} \<subseteq> named_accounts l es w \<and>
        (faults w = [] \<longrightarrow> {u. [u, ''superadmin''] \<in> set (g2_rows w')} = named_accounts l es w))
     (\<lambda>_ w'. faults w \<noteq> []) w"
proof -
  let ?Q = "\<lambda>_ w'. {u. [u, ''superadmin''] \<in> set (g2_rows w')} \<subseteq> named_accounts l es w \<and>
        (faults w = [] \<longrightarrow> {u. [u, ''superadmin''] \<in> set (g2_rows w')} = named_accounts l es w)"
  let ?f = "\<lambda>v. filter (\<lambda>r. 1 < length r \<and> r ! 1 = ''superadmin'') (g2_rows v)"
  have "wp (grant_supers l [] es) (\<lambda>want v. wp (revoke_supers want (?f v)) ?Q (\<lambda>_ _. faults w \<noteq> []) v) (\<lambda>_ _. faults w \<noteq> []) w"
  proof (rule wp_mono [OF grant_supers_spec])
    fix want and v :: "'a iam_state_scheme"
    assume "\<exists>new. set want = set [] \<union> new \<and> seeded l es w new v"
    then have s: "seeded l es w (set want) v" by auto
    have old: "[u, ''superadmin''] \<in> set (?f v) \<longleftrightarrow> [u, ''superadmin''] \<in> set (g2_rows v)" for u by simp
    show "wp (revoke_supers want (?f v)) ?Q (\<lambda>_ _. faults w \<noteq> []) v"
    proof (rule wp_mono [OF revoke_supers_spec])
      fix x and w' :: "'a iam_state_scheme"
      assume "set (g2_rows w') = set (g2_rows v) - {[hd r, ''superadmin''] | r. r \<in> set (?f v) \<and> r \<noteq> [] \<and> hd r \<notin> set want} \<and>
        (faults v = [] \<longrightarrow> faults w' = [])"
      then have g: "[u, ''superadmin''] \<in> set (g2_rows w') \<longleftrightarrow> [u, ''superadmin''] \<in> set (g2_rows v) \<and> u \<in> set want" for u
        by (auto intro!: exI [of _ "[u, ''superadmin'']"])
      then have "{u. [u, ''superadmin''] \<in> set (g2_rows w')} = set want" using s by (auto simp: seeded_def)
      then show "?Q x w'" using s by (simp add: seeded_def)
    next
      fix e and w' :: "'a iam_state_scheme"
      assume "faults v \<noteq> []" then show "faults w \<noteq> []" using s by (auto simp: seeded_def)
    qed
  qed
  then show ?thesis using assms by (simp add: seed_super_admins_def wp_bnd wp_gets)
qed

section \<open>Nobody else becomes one\<close>

definition admins_are :: "string list list \<Rightarrow> 'z iam_state_scheme \<Rightarrow> bool" where
  "admins_are rs w \<longleftrightarrow> g2_rows w = rs"

lemma admins_quiet: "quiet (admins_are rs)"
proof -
  have "on_tables (admins_are rs)" by (rule on_tablesI) (simp add: admins_are_def)
  then show ?thesis by (simp add: quiet_def) (simp add: admins_are_def)
qed

lemmas admins_tables = quiet_tables [OF admins_quiet]

interpretation platform: request_invariant "admins_are rs" y for rs y
proof unfold_locales
  fix user ref0
  have "keeps (admins_are rs) (delete_org_assets (sy_events y) org)" for org
    by (intro keeps_event_calls admins_quiet) (simp_all add: admins_are_def)
  then show "keeps (admins_are rs) (delete_org (sy_orgs y) (Some (delete_org_assets (sy_events y))) user ref0)"
    by (intro keeps_org_calls admins_quiet) (auto simp: admins_are_def)
next
  fix w w' assume "backstage (sy_auth y) (sy_orgs y) (sy_admin y) (sy_survives y) w w'" "admins_are rs w"
  then show "admins_are rs w'"
    by (rule backstage_keeps)
      (rule admins_quiet, simp add: apart_def admins_are_def, simp add: secretless_def admins_are_def,
       intro keeps_new_member admins_tables, simp add: admins_are_def)
qed ((intro keeps_shop_calls keeps_event_calls keeps_attendee_calls keeps_kit_calls keeps_checkin_calls keeps_org_calls
    keeps_billing_calls quiet_public_event admins_quiet admins_tables;
    simp add: admins_are_def)+, simp_all add: admins_are_def)

text \<open>C34. Who administers the platform. A process that serves has seeded the administrators from \<open>SUPERADMIN_EMAILS\<close>: with at least one
  address configured, they are accounts that were live and had one of the addresses then, and all of those when no access to the
  database failed. That holds in every later state: no request of whatever kind, by anybody, makes or unmakes an administrator.\<close>

theorem platform_admins:
  assumes "api_main fo env an w = (Serves p, w1)" and "super_admin_emails env \<noteq> []" and "(request (pc_system p jwt))\<^sup>*\<^sup>* w1 w2"
  shows "(is_super_admin l i w2 \<longrightarrow> uuid_text l i \<in> named_accounts (fo_lib fo) (super_admin_emails env) w) \<and>
    (faults w = [] \<longrightarrow> uuid_text l i \<in> named_accounts (fo_lib fo) (super_admin_emails env) w \<longrightarrow> is_super_admin l i w2)"
proof -
  have "admins_are (g2_rows w1) w2" by (rule platform.steps [OF assms(3)]) (simp add: admins_are_def)
  then have later: "g2_rows w2 = g2_rows w1" by (simp add: admins_are_def)
  have "seed_super_admins (fo_lib fo) (super_admin_emails env) w = (Inr (), w1)" using assms(1) by (auto simp: serves_iff)
  from wp_okD [OF this seed_super_admins_spec [OF assms(2)]] show ?thesis
    by (auto simp: is_super_admin_def super_admin_role_def later)
qed

text \<open>Ada is configured, Bob is not; founding an organization does not change that.\<close>

definition admin_env :: environment where
  "admin_env = (sample_env ''60'')(''DATABASE_URL'' := ''postgres://db'', ''SUPERADMIN_EMAILS'' := ''nobody@x.io, Ada@x.io'')"

definition all_up :: answers where
  "all_up = \<lparr>an_open = True, an_ping = True, an_gorm = True, an_listener = True, an_redis_url = (\<lambda>_. None), an_redis_ping = (\<lambda>_. False),
     an_river_client = True, an_river_start = True, an_enforcer = True, an_uploads = True\<rparr>"

lemma admin_env_eval:
  "super_admin_emails admin_env = [''nobody@x.io'', ''ada@x.io'']" "qr_signing_secret admin_env = Some (replicate 32 CHR ''q'')"
  "admin_env ''DATABASE_URL'' \<noteq> []"
  by code_simp+

lemma seeds_ada: "\<exists>p w1. api_main sample_foreign admin_env all_up sample_world = (Serves p, w1)"
  by (simp add: serves_iff all_up_def admin_env_eval seed_super_admins_def get_user_by_email_def add_super_def remove_super_def
      sample_foreign_def evals sample_world_def empty_world_def)

theorem platform_admins_witness:
  "\<exists>p w1. api_main sample_foreign admin_env all_up sample_world = (Serves p, w1) \<and>
     is_super_admin sample_lib 1 (snd (create_org (sy_orgs (pc_system p ''jwt'')) 2 ''Mine'' [] [] w1)) \<and>
     \<not> is_super_admin sample_lib 2 (snd (create_org (sy_orgs (pc_system p ''jwt'')) 2 ''Mine'' [] [] w1))"
proof -
  obtain p w1 where s: "api_main sample_foreign admin_env all_up sample_world = (Serves p, w1)" using seeds_ada by blast
  let ?w2 = "snd (create_org (sy_orgs (pc_system p ''jwt'')) 2 ''Mine'' [] [] w1)"
  have "request (pc_system p ''jwt'') w1 ?w2" by (rule Create_org, rule prod.collapse [symmetric])
  then have r: "(request (pc_system p ''jwt''))\<^sup>*\<^sup>* w1 ?w2" ..
  have n: "named_accounts sample_lib (super_admin_emails admin_env) sample_world = {sample_text 1}"
    by (simp add: admin_env_eval named_accounts_Cons live_users_def by_key_def sample_user_def) (simp add: named_accounts_def)
  have "super_admin_emails admin_env \<noteq> []" "fo_lib sample_foreign = sample_lib" by (simp_all add: admin_env_eval sample_foreign_def)
  with platform_admins [OF s _ r, of sample_lib 1] platform_admins [OF s _ r, of sample_lib 2] n
  have "is_super_admin sample_lib 1 ?w2 \<and> \<not> is_super_admin sample_lib 2 ?w2" by (simp add: sample_text_def numeral_2_eq_2)
  with s show ?thesis by blast
qed

text \<open>A lookup that fails is taken for an unknown address: one transient error of the database at start, and Ada has lost her rights
  until the next start.\<close>

lemma failed_lookup_revokes:
  "\<exists>p w1. api_main sample_foreign admin_env all_up
       (sample_world\<lparr>g2_rows := [[sample_text 1, ''superadmin'']], faults := [False, True]\<rparr>) = (Serves p, w1) \<and> g2_rows w1 = []"
  by (simp add: serves_iff all_up_def admin_env_eval seed_super_admins_def get_user_by_email_def add_super_def remove_super_def
      sample_foreign_def evals sample_world_def empty_world_def)

text \<open>A process whose listener fails at once, for want of a free port, stops in order and reports success.\<close>

lemma failed_listener_succeeds: "api_stop p ListenFailed = (no_handles, 0)"
  using stopped_clean [of p ListenFailed] by (simp add: api_stop_def)

text \<open>A server without a secret for its access tokens starts and listens; the first login ends it.\<close>

lemma serves_without_secret: "jwt_secret (admin_env(''JWT_SECRET'' := [])) = None \<and>
   (\<exists>p w1. api_main sample_foreign (admin_env(''JWT_SECRET'' := [])) all_up sample_world = (Serves p, w1))"
proof -
  have e: "jwt_secret (admin_env(''JWT_SECRET'' := [])) = None" "super_admin_emails (admin_env(''JWT_SECRET'' := [])) = super_admin_emails admin_env"
    "qr_signing_secret (admin_env(''JWT_SECRET'' := [])) = qr_signing_secret admin_env" "(admin_env(''JWT_SECRET'' := [])) ''DATABASE_URL'' = admin_env ''DATABASE_URL''"
    by code_simp+
  obtain p w1 where "api_main sample_foreign admin_env all_up sample_world = (Serves p, w1)" using seeds_ada by blast
  then have "\<exists>p'. api_main sample_foreign (admin_env(''JWT_SECRET'' := [])) all_up sample_world = (Serves p', w1)"
    unfolding serves_iff by (auto simp: e all_up_def simp del: fun_upd_apply)
  with e(1) show ?thesis by blast
qed

end
