(* ===== verification/Races.thy ===== *)
theory Races
  imports Sweeping RoleFacts
begin

text \<open>
  What the invariants do not cover: runs in which two requests overlap, and single requests the code lets through.
  The state machine of \<open>Requests\<close> runs one request after another; the code has no such guarantee wherever it reads
  a row before its transaction. Each lemma is a run over the halves of the operations, on the sample world, that ends in a
  state which no sequence of whole requests reaches, or in an answer the code does not mean to give. The races of handouts,
  owners and refresh tokens stand with their components (\<open>Handouts\<close>, \<open>Ownership\<close>, \<open>Rotation\<close>).
\<close>

section \<open>Orders\<close>

text \<open>Two holds of two units each on a type of five.\<close>

definition rivals_world :: order_state where
  "rivals_world = sample_world\<lparr>ticket_types := [sample_type 31 500 5 4],
     orders := [pending_order 60 2 PendingPayment, pending_order 61 2 PendingPayment]\<rparr>"

lemmas eval_rivals = rivals_world_def pending_order_def

text \<open>One order cancelled twice at the same time gives its units back twice. Then all five units can be claimed while two of
  them are still held.\<close>

lemma cancel_twice_race:
  "\<exists>x y a b d w1 w2 w3 w4 (w5 :: order_state).
     cancel_order_check 2 60 rivals_world = (Inr x, w1) \<and> cancel_order_check 2 60 w1 = (Inr y, w2) \<and>
     (case x of (o1, org) \<Rightarrow> cancel_order_commit sample_orders 2 o1 org) w2 = (Inr a, w3) \<and>
     (case y of (o1, org) \<Rightarrow> cancel_order_commit sample_orders 2 o1 org) w3 = (Inr b, w4) \<and>
     create_order sample_orders 1 20 \<lparr>oi_type = 31, oi_quantity = 5, oi_key = []\<rparr> w4 = (Inr d, w5) \<and>
     held 31 (orders w5) = 7 \<and> map tt_total (ticket_types w5) = [5]"
  by (simp add: eval_rivals evals order_conflict_def held_def holding_def)

text \<open>A session stored from a row read before the sweep: the hold is back, its units are not, and it can be paid.\<close>

lemma session_after_sweep_race:
  "\<exists>x d w1 w2 w3 (w4 :: order_state).
     get_order_by_id 60 rivals_world = (Inr x, w1) \<and> sweep_expired sample_orders 100 w1 = (Inr 2, w2) \<and>
     repo_update_order (x\<lparr>or_session := Some ''cs_1''\<rparr>) w2 = (Inr (), w3) \<and>
     mark_paid sample_orders 60 ''cs_1'' ''pi_1'' w3 = (Inr d, w4) \<and>
     map or_status (orders w4) = [Confirmed, Expired] \<and> map tt_sold (ticket_types w4) = [0]"
  by (simp add: eval_rivals evals order_conflict_def sweep_expired_def sweep_batch_def expired_pending_def page_of_def hold_expired_def
      expire_one_def)

text \<open>Without any overlap: a hold that ran out long ago is paid as if nothing had happened, as long as no sweep came by.\<close>

lemma lapsed_hold_paid:
  "list_all (hold_expired (clock rivals_world)) (orders rivals_world) \<and>
   (\<exists>d (w :: order_state). mark_paid sample_orders 60 ''cs_1'' [] rivals_world = (Inr d, w) \<and>
     map or_status (orders w) = [Confirmed, PendingPayment])"
  by (simp add: eval_rivals evals order_conflict_def hold_expired_def)

text \<open>Two claims with one idempotency key, both past the lookup: the second is refused by the unique index, with the error of
  the database in place of the first order.\<close>

lemma same_key_race:
  "\<exists>d w1 w2 w3 (w4 :: order_state).
     get_order_by_idempotency 2 ''k'' sample_world = (Inl RecordNotFound, w1) \<and>
     get_order_by_idempotency 2 ''k'' w1 = (Inl RecordNotFound, w2) \<and>
     create_order_fresh sample_orders 2 20 \<lparr>oi_type = 31, oi_quantity = 1, oi_key = ''k''\<rparr> ''k'' w2 = (Inr d, w3) \<and>
     create_order_fresh sample_orders 2 20 \<lparr>oi_type = 31, oi_quantity = 1, oi_key = ''k''\<rparr> ''k'' w3 = (Inl UniqueViolation, w4)"
  by (simp add: evals order_conflict_def)

text \<open>A second session for one order: the key is the same, the parameters are not, which Stripe answers with an error.\<close>

lemma hex_encode_inj: "hex_encode a = hex_encode b \<longleftrightarrow> a = b"
  by (metis hex_decode_encode option.inject)

lemma same_key_other_session:
  "sq_idempotency_key (session_request_of l p a) = sq_idempotency_key (session_request_of l p b) \<and>
   (session_request_of l p a = session_request_of l p b \<longleftrightarrow> a = b)"
  by (simp add: session_request_of_def hex_encode_inj)

section \<open>Ticket types and events\<close>

definition unchanged_type :: ticket_update where
  "unchanged_type = \<lparr>tu_name = None, tu_description = None, tu_price_cents = None, tu_currency = None, tu_total = None,
     tu_max_per_order = None, tu_sale_starts = None, tu_sale_ends = None\<rparr>"

text \<open>An edit that changes nothing, with a claim between its reading and its write: the claim is gone from the count, and the
  type sells eight of its five units.\<close>

lemma edit_type_race:
  "\<exists>x d d' w1 w2 w3 (w4 :: order_state).
     update_type_check sample_tickets (Some 1) ''acme'' ''fair'' (sample_text 31) unchanged_type sample_world = (Inr x, w1) \<and>
     create_order sample_orders 2 20 \<lparr>oi_type = 31, oi_quantity = 3, oi_key = []\<rparr> w1 = (Inr d, w2) \<and>
     repo_update_type (snd x) w2 = (Inr (), w3) \<and>
     create_order sample_orders 2 20 \<lparr>oi_type = 31, oi_quantity = 5, oi_key = []\<rparr> w3 = (Inr d', w4) \<and>
     held 31 (orders w4) = 8 \<and> map tt_total (ticket_types w4) = [3, 5]"
  by (simp add: update_type_check_def unchanged_type_def given_def given_opt_def sample_text_def list_all_iff evals order_conflict_def
      held_def holding_def)

definition smaller_hall :: update_input where
  "smaller_hall = \<lparr>ui_title = None, ui_slug = None, ui_description = None, ui_venue = None, ui_location = None, ui_starts_at = None,
     ui_ends_at = None, ui_capacity = Some 1, ui_clear_cover = False\<rparr>"

text \<open>An event may be made smaller than what its ticket types promise: eight units for one seat.\<close>

lemma capacity_below_totals:
  "\<exists>d (w :: order_state). update_event sample_events 1 ''acme'' ''fair'' smaller_hall sample_world = (Inr d, w) \<and>
     map ev_capacity (events w) = [Some 1] \<and> sum_list (map tt_total (ticket_types w)) = 8"
  by (simp add: update_event_def smaller_hall_def given_def given_opt_def save_with_audit_def repo_update_event_def event_row_ok_def
      check_dates_def es_emit_def purge_public_event_def cache_del_def diff_before_def diff_after_def event_snapshot_def evals)

section \<open>Kits\<close>

text \<open>A kit of two with both reserved can be cut down to one; then both reservations are handed out.\<close>

definition reservation :: "uuid \<Rightarrow> uuid \<Rightarrow> collection" where
  "reservation i a = \<lparr>kc_id = i, kc_kit = 4, kc_event = 20, kc_attendee = a, kc_idem = [], kc_status = Pending, kc_collected_at = None,
     kc_collected_by = None, kc_created_at = 0, kc_updated_at = 0\<rparr>"

definition reserved_world :: order_state where
  "reserved_world = kit_world\<lparr>collections := [reservation 5 2, reservation 6 3]\<rparr>"

lemma kit_below_reservations:
  "\<exists>k c1 c2 w1 w2 (w3 :: order_state).
     update_kit sample_kits 10 ''fair'' (sample_text 4) None None (Some 1) 1 reserved_world = (Inr k, w1) \<and>
     mark_collected sample_kits 10 ''fair'' (sample_text 5) 1 w1 = (Inr c1, w2) \<and>
     mark_collected sample_kits 10 ''fair'' (sample_text 6) 1 w2 = (Inr c2, w3) \<and>
     map kc_status (collections w3) = [Collected, Collected] \<and> map kt_total (kits w3) = [1]"
  by (simp add: reserved_world_def reservation_def update_kit_def with_counts_def counts_by_kit_def kit_counts_def count_collected_def repo_update_kit_def
      mark_collected_def transition_collection_def get_collection_for_update_def repo_update_collection_def get_kit_by_id_def
      collection_conflict_def eval_kits eval_door evals given_def list_all_iff numeral_2_eq_2)

section \<open>Verification codes\<close>

text \<open>Two wrong guesses that both read the fourth attempt: the sixth is counted.\<close>

lemma guesses_race:
  "\<exists>c1 c2 w1 w2 w3 (w4 :: order_state).
     latest_pending_otp 1 guessed = (Inr c1, w1) \<and> latest_pending_otp 1 w1 = (Inr c2, w2) \<and>
     ot_attempts c1 < otp_max_attempts \<and> ot_attempts c2 < otp_max_attempts \<and>
     increment_otp_attempts (email_otp.ot_id c1) w2 = (Inr (), w3) \<and> increment_otp_attempts (email_otp.ot_id c2) w3 = (Inr (), w4) \<and>
     map ot_attempts (otps w4) = [6]"
  by (simp add: guessed_def latest_pending_otp_def increment_otp_attempts_def first_of_def newest_first_def by_pk_def evals
      otp_max_attempts_def)

section \<open>Organizations\<close>

lemma acme_slug: "slug_re ''acme''"
  by code_simp

text \<open>A PATCH that names only a new slug clears the logo, and a name of blanks is stored as the empty name.\<close>

lemma patch_clears:
  "\<exists>d (w :: order_state). update_org sample_orgs 1 ''acme'' '' '' [] [] (sample_world\<lparr>orgs := [sample_org\<lparr>og_logo := Some ''logo''\<rparr>]\<rparr>) = (Inr d, w) \<and>
     map (\<lambda>og. (og_name og, og_logo og)) (orgs w) = [([], None)]"
  using acme_slug by (simp add: update_org_def repo_update_org_def require_role_def org_membership_def os_emit_def evals)

text \<open>A custom role is a subject like any other: one named as the identifier of the owner hands the owner's rights to those who
  hold it, since the matcher follows the links of a domain transitively.\<close>

definition staffed_org :: order_state where
  "staffed_org = pro_world\<lparr>memberships := [sample_member 40 1 OWNER, sample_member 41 2 MEMBER], p_rows := org_rules (sample_text 10),
     g_rows := [[sample_text 1, ''OWNER'', sample_text 10], [sample_text 2, ''MEMBER'', sample_text 10]]\<rparr>"

definition masked_org :: order_state where
  "masked_org = snd (assign_role sample_orgs False 1 ''acme'' 2 (sample_text 1)
     (snd (define_role sample_orgs 1 ''acme'' (sample_text 1) [(''checkin'', ''create'')] staffed_org)))"

lemma owner_names: "normalize_role_name (sample_text (Suc 0)) = Inr (sample_text (Suc 0))"
  "normalize_role_permissions [(''checkin'', ''create'')] = Inr [(''checkin'', ''create'')]"
  "[sample_text (Suc 0), sample_text 10, ''checkin'', ''create''] \<notin> set (org_rules (sample_text 10))"
  "sample_text (Suc 0) \<noteq> ''OWNER''" "sample_text (Suc 0) \<noteq> ''MEMBER''"
  by code_simp+

lemma masked_run: "\<exists>v. v = masked_org \<and> g_rows v = g_rows staffed_org @ [[sample_text 2, sample_text 1, sample_text 10]] \<and>
   p_rows v = p_rows staffed_org @ [[sample_text 1, sample_text 10, ''checkin'', ''create'']] \<and> g2_rows v = []"
  by (simp add: masked_org_def staffed_org_def pro_world_def acme_pro_def owner_names eval_roles assign_role_def role_present_def
      assign_custom_role_def role_row_def os_sync_custom_grouping_def sync_custom_grouping_def add_grouping_def evals sample_world_def
      empty_world_def)

lemma masked_eval:
  "g_rows masked_org = g_rows staffed_org @ [[sample_text 2, sample_text 1, sample_text 10]]"
  "p_rows masked_org = p_rows staffed_org @ [[sample_text 1, sample_text 10, ''checkin'', ''create'']]" "g2_rows masked_org = []"
  using masked_run by blast+

lemma role_named_like_owner:
  "\<not> enforce (sample_text 2) (sample_text 10) ''org'' ''delete'' staffed_org \<and>
   enforce (sample_text 2) (sample_text 10) ''org'' ''delete'' masked_org"
  unfolding enforce_def masked_eval by code_simp

text \<open>Assigning a role once more is meant to succeed quietly; Postgres has given up the transaction by then.\<close>

lemma assigned_again: "fst (assign_role sample_orgs False 1 ''acme'' 2 (sample_text 1) masked_org) = Inl DbError"
  by (simp add: masked_org_def staffed_org_def pro_world_def acme_pro_def owner_names eval_roles assign_role_def role_present_def
      assign_custom_role_def role_row_def holds_role_def os_sync_custom_grouping_def sync_custom_grouping_def add_grouping_def evals sample_world_def
      empty_world_def)

text \<open>Grants a custom role can have and no fixed role but the owner's has.\<close>

lemma beyond_matrix: "filter (\<lambda>p. p \<notin> set admin_permissions) (concat (map (\<lambda>(ob, acs). map (Pair ob) acs) role_registry)) =
    [(''role'', ''create''), (''role'', ''update''), (''role'', ''delete'')]"
  by (simp add: role_registry_def admin_permissions_def)

end
