(* ===== verification/Ceiling.thy ===== *)
theory Ceiling
  imports Races
begin

text \<open>
  The ceiling of the policy: which \<open>p\<close> rows the enforcer can ever hold, and so what it can ever allow. Rows are written by the seed of
  an organization, by the definitions of custom roles, and by the repair that an administrator starts; the first writes the
  matrices of the fixed roles, the others only validated grants under validated names.
\<close>

section \<open>The rows\<close>

definition custom_row :: "string list \<Rightarrow> bool" where
  "custom_row r \<longleftrightarrow> (\<exists>role dm ob ac. r = [role, dm, ob, ac] \<and> slug_re role \<and> \<not> reserved_role_name role \<and> grantable (ob, ac))"

definition row_ok :: "string list \<Rightarrow> bool" where
  "row_ok r \<longleftrightarrow> (\<exists>dm. r \<in> set (org_rules dm)) \<or> custom_row r"

definition rows_ok :: "'z iam_state_scheme \<Rightarrow> bool" where
  "rows_ok w \<longleftrightarrow> list_all row_ok (p_rows w)"

text \<open>A predicate about policy rows that only asks for good rows: it may be that, together with others.\<close>

definition policed :: "('z iam_state_scheme \<Rightarrow> bool) \<Rightarrow> bool" where
  "policed I \<longleftrightarrow> on_tables I \<and> (\<forall>w r. I w \<longrightarrow> row_ok r \<longrightarrow> I (w\<lparr>p_rows := p_rows w @ [r]\<rparr>)) \<and>
     (\<forall>w p. I w \<longrightarrow> I (w\<lparr>p_rows := filter p (p_rows w)\<rparr>)) \<and> (\<forall>w x. I w \<longrightarrow> I (w\<lparr>g_rows := x\<rparr>))"

lemma policed_tables: "policed I \<Longrightarrow> on_tables I"
  and policed_groupings: "policed I \<Longrightarrow> I w \<Longrightarrow> I (w\<lparr>g_rows := x\<rparr>)"
  by (simp_all add: policed_def)

lemma policed_management:
  assumes I: "policed I"
  shows "row_ok r \<Longrightarrow> keeps I (add_policy r)" "keeps I (remove_policy r)" "keeps I (remove_policies_in dm)" "keeps I (has_policy r)"
  unfolding add_policy_def remove_policy_def remove_policies_in_def has_policy_def
  by (intro keeps_intros policed_tables [OF I]; use I in \<open>simp add: policed_def\<close>)+

lemma policed_loops:
  assumes I: "policed I"
  shows "list_all row_ok rs \<Longrightarrow> keeps I (ensure_rows rs)" "keeps I (remove_rows rs)"
  by (induction rs) (auto intro!: policed_management [OF I] keeps_intros)

lemma fixed_rows: "list_all row_ok (org_rules dm)"
  by (auto simp: list_all_iff row_ok_def)

lemma custom_rows_ok:
  "slug_re role \<Longrightarrow> \<not> reserved_role_name role \<Longrightarrow> list_all grantable perms \<Longrightarrow>
    list_all row_ok (map (\<lambda>(ob, ac). [role, dm, ob, ac]) perms)"
  by (auto simp: list_all_iff row_ok_def custom_row_def)

lemma policed_seeds:
  assumes I: "policed I"
  shows "keeps I (seed_org_policies l org)" "keeps I (remove_org_policies l org)" "keeps I (os_seed s org)" "keeps I (os_seed_remove s org)"
  unfolding seed_org_policies_def remove_org_policies_def os_seed_def os_seed_remove_def
  by (intro policed_loops [OF I] policed_management [OF I] keeps_grouping_calls policed_tables [OF I] fixed_rows keeps_intros;
      rule policed_groupings [OF I]; assumption)+

lemma policed_customs:
  assumes I: "policed I"
  shows "slug_re role \<Longrightarrow> \<not> reserved_role_name role \<Longrightarrow> list_all grantable perms \<Longrightarrow> keeps I (ensure_custom_role l org role perms)"
    "keeps I (remove_custom_role l org role)"
    "b \<or> slug_re role \<and> \<not> reserved_role_name role \<and> list_all grantable perms \<Longrightarrow> keeps I (os_sync_custom_policies s org role perms b)"
proof -
  show 1: "slug_re role \<Longrightarrow> \<not> reserved_role_name role \<Longrightarrow> list_all grantable perms \<Longrightarrow> keeps I (ensure_custom_role l org role perms)" for l
    unfolding ensure_custom_role_def by (intro policed_loops [OF I] custom_rows_ok)
  show 2: "keeps I (remove_custom_role l org role)" for l
    unfolding remove_custom_role_def by (intro policed_loops [OF I] keeps_intros)
  show "b \<or> slug_re role \<and> \<not> reserved_role_name role \<and> list_all grantable perms \<Longrightarrow> keeps I (os_sync_custom_policies s org role perms b)"
    unfolding os_sync_custom_policies_def sync_custom_policies_def by (cases b) (auto intro!: 1 2 keeps_intros)
qed

section \<open>The operations that write them\<close>

lemma rows_policed: "policed rows_ok"
  by (auto simp: policed_def rows_ok_def list_all_iff intro!: on_tablesI)

lemma rows_quiet: "quiet rows_ok"
  by (simp add: quiet_def policed_tables [OF rows_policed]) (simp add: rows_ok_def)

text \<open>What a check on pure data has let through.\<close>

lemma keeps_checked: "(\<And>x. r = Inr x \<Longrightarrow> keeps I (f x)) \<Longrightarrow> keeps I (bnd (pure_result r) f)"
  by (cases r) (auto simp: pure_result_def keeps_def bnd_def ret_def fail_def)

lemma role_reads_rows:
  "keeps rows_ok (role_absent org role)" "keeps rows_ok (role_present org role)" "keeps rows_ok (count_role_defs org)"
  "keeps rows_ok (count_role_assignments org role)"
  unfolding role_absent_def role_present_def get_role_def_def count_role_defs_def count_role_assignments_def
  by (intro keeps_intros policed_tables [OF rows_policed])+

lemma define_role_rows: "keeps rows_ok (define_role s grantor ref0 name perms)"
proof -
  let ?I = "rows_ok :: 'a org_state_scheme \<Rightarrow> bool"
  note I = policed_tables [OF rows_policed]
  have emit: "keeps ?I (os_emit s e)" for e
    by (intro keeps_os_groupings I) (simp_all add: rows_ok_def)
  have new: "keeps ?I (create_role_def l x)" for l x
    unfolding create_role_def_def Let_def by (intro keeps_intros I) (simp add: rows_ok_def)
  have sync: "keeps ?I (os_sync_custom_policies s org role norm False)"
    if "normalize_role_name name = Inr role" "normalize_role_permissions perms = Inr norm" for org role norm
    by (rule policed_customs [OF rows_policed])
      (use normalize_role_name_ok [OF that(1)] normalize_role_permissions_ok [OF that(2)] in simp)
  show ?thesis
    unfolding define_role_def by (intro keeps_checked emit new sync role_reads_rows keeps_intros I; assumption)
qed

lemma update_role_rows: "keeps rows_ok (update_role s grantor ref0 name perms)"
proof -
  let ?I = "rows_ok :: 'a org_state_scheme \<Rightarrow> bool"
  note I = policed_tables [OF rows_policed]
  have emit: "keeps ?I (os_emit s e)" for e
    by (intro keeps_os_groupings I) (simp_all add: rows_ok_def)
  have new: "keeps ?I (update_role_def x)" for x
    unfolding update_role_def_def Let_def by (intro keeps_intros I) (simp add: rows_ok_def)
  have drop: "keeps ?I (os_sync_custom_policies s org role norm True)" for org role norm
    by (rule policed_customs [OF rows_policed]) simp
  have sync: "keeps ?I (os_sync_custom_policies s org role norm False)"
    if "normalize_role_name name = Inr role" "normalize_role_permissions perms = Inr norm" for org role norm
    by (rule policed_customs [OF rows_policed])
      (use normalize_role_name_ok [OF that(1)] normalize_role_permissions_ok [OF that(2)] in simp)
  show ?thesis
    unfolding update_role_def Let_def by (intro keeps_checked emit new drop sync role_reads_rows keeps_intros I; assumption)
qed

lemma delete_role_rows: "keeps rows_ok (delete_role s grantor ref0 name)"
proof -
  let ?I = "rows_ok :: 'a org_state_scheme \<Rightarrow> bool"
  note I = policed_tables [OF rows_policed]
  have emit: "keeps ?I (os_emit s e)" for e
    by (intro keeps_os_groupings I) (simp_all add: rows_ok_def)
  have drop: "keeps ?I (os_sync_custom_policies s org role norm True)" for org role norm
    by (rule policed_customs [OF rows_policed]) simp
  show ?thesis
    unfolding delete_role_def delete_role_def_def by (intro emit drop role_reads_rows keeps_intros I) (simp add: rows_ok_def)
qed

section \<open>Definitions and rows together\<close>

text \<open>The repair writes the rows of the definitions it finds, so it needs those to be good.\<close>

definition bounded :: "'z org_state_scheme \<Rightarrow> bool" where
  "bounded w \<longleftrightarrow> roles_ok w \<and> rows_ok w"

lemma bounded_policed: "policed bounded"
  using rows_policed by (auto simp: policed_def bounded_def [abs_def] roles_ok_def rows_ok_def intro!: on_tablesI)

lemma bounded_quiet: "quiet bounded"
  by (simp add: quiet_def policed_tables [OF bounded_policed]) (simp add: bounded_def roles_ok_def rows_ok_def)

lemma keeps_both: "keeps roles_ok m \<Longrightarrow> keeps rows_ok m \<Longrightarrow> keeps bounded m"
  by (simp add: keeps_def bounded_def)

lemma materialize_bounded:
  "list_all role_ok ds \<Longrightarrow> keeps bounded (materialize_defs l org ds)"
  by (induction ds) (auto simp: role_ok_def intro!: policed_customs [OF bounded_policed] keeps_intros)

lemma sweep_bounded: "keeps bounded (sweep_orphans l org defined rs n)"
  by (induction rs arbitrary: n) (auto intro!: policed_customs [OF bounded_policed] keeps_intros)

lemma keeps_found_defs:
  assumes "\<And>ds. list_all role_ok ds \<Longrightarrow> keeps bounded (f ds)"
  shows "keeps bounded (bnd (list_role_defs org) f)"
proof (rule keepsI)
  fix w :: "'a org_state_scheme" assume w: "bounded w"
  have "list_all role_ok (oldest_first rd_created_at (filter (\<lambda>d. rd_org d = org) (role_defs w)))"
    using w by (auto simp: bounded_def roles_ok_def defs_ok_def list_all_iff oldest_first_def)
  from keeps_wpI [OF assms [OF this]] show "wp (bnd (list_role_defs org) f) (\<lambda>_. bounded) (\<lambda>_. bounded) w"
    using w bounded_policed by (auto simp: list_role_defs_def wp_simps policed_def on_tables_tick)
qed

lemma reseed_bounded: "keeps bounded (reseed_org_policies d user i)"
proof -
  note I = policed_tables [OF bounded_policed]
  have emit: "keeps bounded (ad_emit d actor org action obj j)" for actor org action obj j
    unfolding ad_emit_def by (intro keeps_intros I) (simp add: bounded_def roles_ok_def rows_ok_def)
  have "keeps bounded (rematerialize_custom_roles d org)" for org
    unfolding rematerialize_custom_roles_def
    by (intro keeps_found_defs materialize_bounded sweep_bounded keeps_intros; assumption)
  then show ?thesis
    unfolding reseed_org_policies_def by (intro emit policed_seeds [OF bounded_policed] keeps_intros I)
qed

interpretation policy: request_invariant bounded y for y
proof unfold_locales
  fix user ref0
  have "keeps bounded (delete_org_assets (sy_events y) org)" for org
    by (intro keeps_event_calls bounded_quiet) (simp_all add: bounded_def roles_ok_def rows_ok_def)
  then show "keeps bounded (delete_org (sy_orgs y) (Some (delete_org_assets (sy_events y))) user ref0)"
    by (intro keeps_org_core policed_seeds bounded_quiet bounded_policed) (auto simp: bounded_def roles_ok_def rows_ok_def)
next
  fix w w' :: order_state
  assume b: "backstage (sy_auth y) (sy_orgs y) (sy_admin y) (sy_survives y) w w'" and "bounded w"
  let ?I = "bounded :: order_state \<Rightarrow> bool"
  note I = policed_tables [OF bounded_policed]
  have "on_tables ?I" "\<And>w x. ?I w \<Longrightarrow> ?I (w\<lparr>jobs := jobs w @ [x]\<rparr>)"
    by (simp_all add: I) (simp add: bounded_def roles_ok_def rows_ok_def)
  note apart = auth_rows_apart [OF this]
  have rows: "auth_rows ?I" by (rule apart) (simp_all add: bounded_def roles_ok_def rows_ok_def)
  have inc: "keeps ?I (increment_otp_attempts i)" for i by (rule apart) (simp_all add: bounded_def roles_ok_def rows_ok_def)
  show "bounded w'"
  proof (rule backstage_core [OF b \<open>bounded w\<close> bounded_quiet _ _ _ _ _ _ _ _ reseed_bounded _ rows auth_rows.code_flow [OF rows inc]])
    show "keeps ?I (repo_create_invite l x)" "keeps ?I (consume_invite i b t)" for l x i b t
      unfolding repo_create_invite_def consume_invite_def by (intro keeps_intros I; simp add: bounded_def roles_ok_def rows_ok_def)+
    show "keeps ?I (repo_create_membership l m)" for l m
      by (intro keeps_new_member I) (simp add: bounded_def roles_ok_def rows_ok_def)
    show "keeps ?I (define_role (sy_orgs y) user ref0 nm perms)" "keeps ?I (update_role (sy_orgs y) user ref0 nm perms)"
      "keeps ?I (delete_role (sy_orgs y) user ref0 nm)" for user ref0 nm perms
      by (rule keeps_both [OF define_role_ok define_role_rows] keeps_both [OF update_role_ok update_role_rows]
        keeps_both [OF delete_role_ok delete_role_rows])+
  qed (simp_all add: bounded_def roles_ok_def rows_ok_def)
qed ((intro keeps_shop_calls keeps_event_calls keeps_attendee_calls keeps_kit_calls keeps_checkin_calls keeps_org_core
    policed_seeds keeps_billing_calls quiet_public_event bounded_quiet bounded_policed policed_tables [OF bounded_policed];
    simp add: bounded_def roles_ok_def rows_ok_def)+, simp_all add: bounded_def roles_ok_def rows_ok_def)

section \<open>What the enforcer can allow\<close>

lemma org_rules_cases:
  "[sub, dm', ob', ac'] \<in> set (org_rules dm) \<longleftrightarrow> dm' = dm \<and>
     (sub = ''OWNER'' \<and> ob' = ''*'' \<and> ac' = ''*'' \<or> sub = ''ADMIN'' \<and> (ob', ac') \<in> set admin_permissions \<or>
      sub = ''MEMBER'' \<and> (ob', ac') \<in> set member_permissions)"
  by (auto simp: org_rules_def)

lemma no_stars:
  "(ob, ac) \<in> set admin_permissions \<Longrightarrow> ob \<noteq> ''*'' \<and> ac \<noteq> ''*''" "(ob, ac) \<in> set member_permissions \<Longrightarrow> ob \<noteq> ''*'' \<and> ac \<noteq> ''*''"
  "grantable (ob, ac) \<Longrightarrow> ob \<noteq> ''*'' \<and> ac \<noteq> ''*''"
  by (auto simp: admin_permissions_def member_permissions_def grantable_def role_registry_def split: if_splits)

text \<open>C17. The ceiling of the policy. Whatever requests run, what the enforcer allows somebody who does not administer the platform goes
  back to one of four sources: a link to the owner's role of that organization; a link to the administrators' role and their
  matrix; a link to the members' role and theirs; or a link to a custom role, under an unreserved slug, with a row that grants exactly
  this pair of the vocabulary. No custom role ever holds a wildcard.\<close>

theorem policy_ceiling:
  assumes "(request y)\<^sup>*\<^sup>* w w'" and "bounded w" and "enforce sub dm ob ac w'" and "[sub, ''superadmin''] \<notin> set (g2_rows w')"
  shows "role_link hierarchy_levels (g_rows w') sub ''OWNER'' dm \<or>
    role_link hierarchy_levels (g_rows w') sub ''ADMIN'' dm \<and> (ob, ac) \<in> set admin_permissions \<or>
    role_link hierarchy_levels (g_rows w') sub ''MEMBER'' dm \<and> (ob, ac) \<in> set member_permissions \<or>
    (\<exists>role org. role_link hierarchy_levels (g_rows w') sub role dm \<and> slug_re role \<and> \<not> reserved_role_name role \<and>
       [role, org, ob, ac] \<in> set (p_rows w') \<and> grantable (ob, ac))"
proof -
  have b: "list_all row_ok (p_rows w')"
    using policy.steps [OF assms(1,2)] by (simp add: bounded_def rows_ok_def)
  from assms(3,4) obtain r where r: "r \<in> set (p_rows w')" and m: "row_matches (g_rows w') sub dm ob ac r"
    by (auto simp: enforce_def super_admin_role_def list_ex_iff split: if_splits)
  then obtain role org ob' ac' where e: "r = [role, org, ob', ac']" by (auto simp: row_matches_def length_Suc_conv numeral_eq_Suc)
  have k: "row_ok r" using b r by (simp add: list_all_iff)
  from m e have l: "role_link hierarchy_levels (g_rows w') sub role dm" and o: "ob = ob' \<or> ob' = ''*''" and a: "ac = ac' \<or> ac' = ''*''"
    by (simp_all add: row_matches_def numeral_eq_Suc)
  from k e r l o a show ?thesis
    by (auto simp: row_ok_def custom_row_def org_rules_cases dest: no_stars)
qed

text \<open>Bob may delete Acme once he holds the role that is named like its owner: the fourth source does not explain it, the first does.\<close>

theorem policy_ceiling_witness:
  "enforce (sample_text 2) (sample_text 10) ''org'' ''delete'' masked_org \<and>
   role_link hierarchy_levels (g_rows masked_org) (sample_text 2) ''OWNER'' (sample_text 10)"
proof -
  let ?v = "snd (define_role sample_orgs 1 ''acme'' (sample_text 1) [(''checkin'', ''create'')] staffed_org)"
  have "request sample_system staffed_org ?v"
    by (rule Backstage, rule Define_role, simp add: sample_system_def, rule prod.collapse [symmetric])
  moreover have "request sample_system ?v masked_org" unfolding masked_org_def
    by (rule Backstage, rule Assign_role, simp add: sample_system_def, rule prod.collapse [symmetric])
  ultimately have r: "(request sample_system)\<^sup>*\<^sup>* staffed_org masked_org" by (meson converse_rtranclp_into_rtranclp r_into_rtranclp)
  have "list_all row_ok (org_rules (sample_text 10))" by (rule fixed_rows)
  then have b: "bounded staffed_org"
    by (simp add: bounded_def rows_ok_def roles_ok_def defs_ok_def staffed_org_def pro_world_def sample_world_def empty_world_def
        max_custom_roles_def)
  have e: "enforce (sample_text 2) (sample_text 10) ''org'' ''delete'' masked_org" using role_named_like_owner by blast
  have n: "(''org'', ''delete'') \<notin> set admin_permissions" "(''org'', ''delete'') \<notin> set member_permissions" "\<not> grantable (''org'', ''delete'')"
    by (simp_all add: admin_permissions_def member_permissions_def grantable_def role_registry_def)
  show ?thesis using policy_ceiling [OF r b e] n e by (simp add: masked_eval)
qed

end
