(* ===== verification/Coherence.thy ===== *)
theory Coherence
  imports Sweeping
begin

text \<open>
  The type of an order row: which combinations of status, price, hold, Stripe session and payment the services ever store. None of it is
  a constraint of the table; it is what \<open>CreateOrder\<close>, \<open>SetStripeSession\<close>, \<open>MarkPaid\<close>, \<open>CancelOrder\<close> and the sweeper write.
\<close>

section \<open>Coherent rows\<close>

text \<open>
  A free order never has a hold to expire nor anything of a payment. A priced one always has its hold; it is CONFIRMED only with a
  recorded payment, and waits or has expired only without one.
\<close>

definition order_coherent :: "order \<Rightarrow> bool" where
  "order_coherent x \<longleftrightarrow> or_key x \<noteq> Some [] \<and>
     (if or_price_cents x = 0 then (or_status x = Confirmed \<or> or_status x = OrderCancelled) \<and>
        or_expires_at x = None \<and> or_session x = None \<and> or_payment_intent x = None \<and> or_paid_at x = None
      else or_expires_at x \<noteq> None \<and> (or_paid_at x = None \<longrightarrow> or_payment_intent x = None) \<and> (or_paid_at x \<noteq> None \<longrightarrow> or_session x \<noteq> None) \<and>
        (case or_status x of OrderPending \<Rightarrow> False | PendingPayment \<Rightarrow> or_paid_at x = None | Confirmed \<Rightarrow> or_paid_at x \<noteq> None
           | OrderCancelled \<Rightarrow> True | Expired \<Rightarrow> or_paid_at x = None))"

lemma coherent_saved [simp]:
  "order_coherent (x\<lparr>or_id := i\<rparr>) = order_coherent x" "order_coherent (x\<lparr>or_created_at := t\<rparr>) = order_coherent x"
  "order_coherent (x\<lparr>or_updated_at := t\<rparr>) = order_coherent x"
  by (simp_all add: order_coherent_def split: order_status.split)

text \<open>What each operation writes, from a row it may write it to.\<close>

lemma coherent_new: "order_coherent (new_order user ev tt n key now)"
  by (simp add: order_coherent_def new_order_def)

lemma coherent_paid:
  assumes "order_coherent x" and "or_status x = PendingPayment"
  shows "order_coherent (x\<lparr>or_status := Confirmed, or_session := Some session,
    or_payment_intent := pi, or_paid_at := Some now\<rparr>)"
  using assms by (auto simp: order_coherent_def split: if_splits)

lemma coherent_session: "order_coherent x \<Longrightarrow> or_price_cents x \<noteq> 0 \<Longrightarrow> order_coherent (x\<lparr>or_session := Some session\<rparr>)"
  by (auto simp: order_coherent_def split: order_status.splits)

lemma coherent_cancelled: "order_coherent x \<Longrightarrow> order_coherent (x\<lparr>or_status := OrderCancelled\<rparr>)"
  by (auto simp: order_coherent_def split: if_splits)

lemma coherent_expired:
  "order_coherent x \<Longrightarrow> or_status x = OrderPending \<or> or_status x = PendingPayment \<Longrightarrow> order_coherent (x\<lparr>or_status := Expired\<rparr>)"
  by (auto simp: order_coherent_def split: if_splits)

definition coherent :: "'z order_state_scheme \<Rightarrow> bool" where
  "coherent w \<longleftrightarrow> (\<forall>x \<in> set (orders w). order_coherent x)"

lemma coherent_tables: "on_tables coherent"
  by (rule on_tablesI) (simp add: coherent_def)

lemma coherent_quiet: "quiet coherent"
  by (simp add: quiet_def coherent_tables) (simp add: coherent_def)

lemma coherent_same: "same_store w w' \<Longrightarrow> coherent w' = coherent w"
  by (simp add: coherent_def orders_same)

lemma coherent_tick [simp]: "coherent (tick w) = coherent w"
  by (simp add: coherent_def)

lemma coherent_read: "coherent w \<Longrightarrow> by_key or_id i (orders w) = Some x \<Longrightarrow> order_coherent x"
  by (auto simp: coherent_def dest: by_key_Some)

section \<open>Every write\<close>

lemma coherent_create: "order_coherent x \<Longrightarrow> keeps coherent (repo_create_order l x)"
  unfolding repo_create_order_def Let_def by (intro keeps_intros coherent_tables) (auto simp: coherent_def)

lemma coherent_update: "order_coherent x \<Longrightarrow> keeps coherent (repo_update_order x)"
  unfolding repo_update_order_def
  by (intro keeps_intros coherent_tables) (auto simp: coherent_def upsert_def set_modify split: if_splits)

lemma coherent_types:
  "keeps coherent (add_sold i n)" "keeps coherent (repo_create_type l t)" "keeps coherent (repo_update_type t)" "keeps coherent (repo_delete_type i)"
  unfolding add_sold_def repo_create_type_def repo_update_type_def repo_delete_type_def Let_def
  by (intro keeps_intros coherent_tables; simp add: coherent_def)+

lemma coherent_units: "keeps coherent (reserve_tx i n)" "keeps coherent (release_tx i n)"
  unfolding reserve_tx_def release_tx_def by (intro keeps_intros coherent_types coherent_tables)+

text \<open>A step that reads a row, and a rest that keeps the invariant when the row is what the step promises.\<close>

lemma keeps_read:
  assumes "\<And>w. I w \<Longrightarrow> wp m (\<lambda>x w'. I w' \<and> P x) (\<lambda>_. I) w" and "\<And>x. P x \<Longrightarrow> keeps I (f x)"
  shows "keeps I (bnd m f)"
proof (rule keepsI)
  fix w assume "I w"
  then show "wp (bnd m f) (\<lambda>_. I) (\<lambda>_. I) w"
    unfolding wp_bnd by (intro wp_mono [OF assms(1)]) (auto intro: keeps_wpI assms(2))
qed

lemma found_coherent:
  "coherent w \<Longrightarrow> wp (find_order_or e i) (\<lambda>x w'. coherent w' \<and> order_coherent x) (\<lambda>_. coherent) w"
  by (rule wp_mono [OF find_order_or_spec]) (auto simp: coherent_same dest: coherent_read)

lemma close_coherent: "order_coherent (x\<lparr>or_status := to\<rparr>) \<Longrightarrow> keeps coherent (close_order_tx s actor org action morph to x)"
  unfolding close_order_tx_def Let_def rs_emit_def
  by (intro keeps_intros coherent_tables coherent_quiet coherent_units coherent_update)

lemma create_order_coherent: "keeps coherent (create_order s user ev inp)"
proof -
  note [keeps_intros] = coherent_tables coherent_quiet coherent_units
  have fx: "keeps coherent (claim_effects s user org x)" for org x
    by (intro keeps_claim_effects coherent_quiet) (simp add: coherent_def)
  have "keeps coherent (create_order_tx s user org (new_order user ev tt n key now))" for org tt n key now
    unfolding create_order_tx_def by (intro fx keeps_intros coherent_create coherent_new)
  note this [keeps_intros]
  show ?thesis unfolding create_order_def create_order_fresh_def by (intro keeps_intros)
qed

lemma cancel_order_coherent: "keeps coherent (cancel_order s caller i)"
proof -
  have "wp (cancel_order_check caller i) (\<lambda>r w'. coherent w' \<and> order_coherent (fst r)) (\<lambda>_. coherent) w" if "coherent w" for w :: "'a order_state_scheme"
    using that by (intro wp_mono [OF cancel_order_check_spec]) (auto simp: coherent_same dest: coherent_read)
  then show ?thesis
    unfolding cancel_order_def
  proof (rule keeps_read)
    fix r :: "order \<times> uuid" assume "order_coherent (fst r)"
    then show "keeps coherent (case r of (x, org) \<Rightarrow> cancel_order_commit s caller x org)"
      by (cases r) (auto simp: cancel_order_commit_def intro!: keeps_intros close_coherent coherent_cancelled)
  qed
qed

lemma sweep_loop_coherent: "list_all (\<lambda>x. order_coherent (x\<lparr>or_status := Expired\<rparr>)) xs \<Longrightarrow> keeps coherent (sweep_loop s xs)"
  by (induction xs) (auto simp: expire_one_def intro!: keeps_intros close_coherent coherent_tables)

lemma sweep_coherent: "keeps coherent (sweep_expired s batch)"
proof -
  have due: "set (page_of n 0 (filter (hold_expired now) (orders w))) \<subseteq> {x. order_coherent (x\<lparr>or_status := Expired\<rparr>)}"
    if "coherent w" for n now and w :: "'a order_state_scheme"
    using that by (auto simp: page_of_def Let_def coherent_def hold_expired_def dest!: in_set_takeD in_set_dropD intro!: coherent_expired split: if_splits)
  have "wp (expired_pending now n) (\<lambda>xs w'. coherent w' \<and> list_all (\<lambda>x. order_coherent (x\<lparr>or_status := Expired\<rparr>)) xs) (\<lambda>_. coherent) w"
    if "coherent w" for now n and w :: "'a order_state_scheme"
    using that due [OF that, of n now] by (intro wp_mono [OF expired_pending_spec]) (auto simp: coherent_same list_all_iff)
  then show ?thesis
    unfolding sweep_expired_def by (intro keeps_intros keeps_read [where m = "expired_pending _ _"] sweep_loop_coherent)
qed

lemma mark_paid_coherent: "keeps coherent (mark_paid s i session intent)"
proof -
  have "keeps coherent (mark_paid_commit s x session intent)" if "order_coherent x" "or_status x = PendingPayment" for x
    unfolding mark_paid_commit_def Let_def rs_emit_def
    by (intro keeps_intros coherent_tables coherent_quiet coherent_update coherent_paid that)
  then have "keeps coherent (if or_status x = Confirmed then ret (to_order x)
      else bnd (guard (or_status x = PendingPayment) (OrderE order_err.ErrInvalidStatus)) (\<lambda>_. mark_paid_commit s x session intent))"
    if "order_coherent x" for x
    using that by (cases "or_status x = PendingPayment") (auto simp: keeps_def bnd_def guard_def ret_def fail_def)
  note rest = this
  show ?thesis unfolding mark_paid_def by (rule keeps_read [OF found_coherent rest])
qed


text \<open>The order whose session is stored is the one whose price was checked.\<close>

lemma checkout_coherent: "keeps coherent (create_checkout s user i app)"
proof -
  let ?found = "\<lambda>x w. coherent w \<and> by_key or_id (or_id x) (orders w) = Some x"
  have tables: "on_tables (?found x)" for x
    by (rule on_tablesI) (simp add: coherent_def)
  then have quiets: "quiet (?found x)" for x by (simp add: quiet_def) (simp add: coherent_def)
  have detail: "wp (checkout_detail_of os user i) (\<lambda>d. ?found (kd_order d)) (\<lambda>_. coherent) w" if c: "coherent w" for os and w :: "'a order_state_scheme"
  proof -
    have rest: "wp (bnd (guard (or_user x = user) (OrderE order_err.ErrOrderNotFound)) (\<lambda>_.
        bnd (guard (or_status x = PendingPayment) (OrderE order_err.ErrInvalidStatus)) (\<lambda>_.
        bnd (on_error (inspect_type (rs_tickets os) (or_type x)) (\<lambda>_. OrderE order_err.ErrOrderNotFound)) (\<lambda>(tt, _).
        bnd (on_error (event_title (or_event x)) (\<lambda>_. OrderE order_err.ErrOrderNotFound)) (\<lambda>title.
        ret \<lparr>kd_order = x, kd_ticket_name = td_name tt, kd_event_title = title\<rparr>)))))
        (\<lambda>d. ?found (kd_order d)) (\<lambda>_. coherent) v" if f: "?found x v" for x and v :: "'a order_state_scheme"
    proof -
      have k: "keeps (?found x) (inspect_type (rs_tickets os) (or_type x))" "keeps (?found x) (event_title (or_event x))"
        by (intro keeps_intros tables quiets)+
      have title: "wp (event_title (or_event x)) (\<lambda>_. ?found x) (\<lambda>_. coherent) v'" if "?found x v'" for v' :: "'a order_state_scheme"
        by (rule wp_mono [OF keeps_wpI [OF k(2) that]]) simp_all
      have "wp (inspect_type (rs_tickets os) (or_type x)) (\<lambda>_. ?found x) (\<lambda>_. coherent) v"
        by (rule wp_mono [OF keeps_wpI [OF k(1) f]]) simp_all
      note inspected = this
      have last: "wp (bnd (on_error (event_title (or_event x)) (\<lambda>_. OrderE order_err.ErrOrderNotFound)) (\<lambda>title.
          ret \<lparr>kd_order = x, kd_ticket_name = td_name tt, kd_event_title = title\<rparr>)) (\<lambda>d. ?found (kd_order d)) (\<lambda>_. coherent) v'"
        if "?found x v'" for tt and v' :: "'a order_state_scheme"
        using title [OF that] by (simp add: wp_bnd wp_on_error wp_ret)
      show ?thesis
        unfolding wp_bnd [of "guard _ _"] wp_guard wp_bnd [of "on_error (inspect_type _ _) _"] wp_on_error
        using f by (auto intro!: wp_mono [OF inspected] last)
    qed
    show ?thesis
      unfolding checkout_detail_of_def wp_bnd [of "find_order_or _ _"]
      by (intro wp_mono [OF find_order_or_spec] rest) (use c in \<open>auto simp: coherent_same orders_same\<close>)
  qed
  have store: "wp (set_stripe_session (or_id x) t) (\<lambda>_. coherent) (\<lambda>_. coherent) w"
    if "?found x w" "or_price_cents x \<noteq> 0" for x t and w :: "'a order_state_scheme"
  proof -
    have "keeps coherent (repo_update_order (x\<lparr>or_session := Some t\<rparr>))"
      using that by (intro coherent_update coherent_session) (auto dest: coherent_read)
    then show ?thesis using that
      unfolding set_stripe_session_def get_order_by_id_def wp_bnd [of "select_first _"]
      by (auto simp: wp_simps coherent_same intro!: keeps_wpI split: option.split)
  qed
  have new: "wp (create_new s pr d app) (\<lambda>_. coherent) (\<lambda>_. coherent) w"
    if "?found (kd_order d) w" "or_price_cents (kd_order d) \<noteq> 0" for pr d and w :: "'a order_state_scheme"
  proof -
    have "keeps (?found (kd_order d)) (create_session (rs_lib (pm_orders s)) pr (checkout_params_of (rs_lib (pm_orders s)) d app))"
      unfolding create_session_def by (intro keeps_intros tables)
    from wp_mono [OF keeps_wpI [OF this that(1)]] show ?thesis
      unfolding create_new_def Let_def wp_bnd [of "create_session _ _ _"]
      by (rule wp_mono) (use store that(2) in \<open>auto simp: wp_simps split: prod.split\<close>)
  qed
  show ?thesis
  proof (rule keepsI)
    fix w :: "'a order_state_scheme" assume "coherent w"
    then show "wp (create_checkout s user i app) (\<lambda>_. coherent) (\<lambda>_. coherent) w"
      unfolding create_checkout_def
      by (cases "pm_provider s")
        (auto simp: wp_simps intro!: wp_mono [OF detail] new split: option.split list.split)
  qed
qed

lemma webhook_coherent: "keeps coherent (handle_webhook s payload sig)"
proof -
  note [keeps_intros] = coherent_tables coherent_quiet mark_paid_coherent
  have "keeps coherent (handle_billing_event b evt)" for b evt
    by (intro quiet_billing coherent_quiet) (simp add: coherent_def)
  note this [keeps_intros]
  have [keeps_intros]: "keeps coherent (fulfill_session s evt)" "keeps coherent (bill s evt)" for evt
    unfolding fulfill_session_def bill_def by (intro keeps_intros)+
  have "keeps coherent (dispatch_event s evt)" for evt
    unfolding dispatch_event_def by (cases "se_type evt") (auto intro!: keeps_intros)
  then show ?thesis unfolding handle_webhook_def by (intro keeps_intros)
qed

lemma type_calls_coherent:
  "keeps coherent (create_type ts caller orgref ref0 tinp)" "keeps coherent (update_type ts caller orgref ref0 ref1 tupd)"
  "keeps coherent (delete_type ts caller orgref ref0 ref1)" "keeps coherent (activate_type ts caller orgref ref0 ref1)"
  "keeps coherent (pause_type ts caller orgref ref0 ref1)"
proof -
  note [keeps_intros] = coherent_tables coherent_quiet coherent_types
  show "keeps coherent (create_type ts caller orgref ref0 tinp)" "keeps coherent (update_type ts caller orgref ref0 ref1 tupd)"
    "keeps coherent (delete_type ts caller orgref ref0 ref1)"
    unfolding create_type_def update_type_def update_type_check_def delete_type_def by (intro keeps_intros)+
  have [keeps_intros]: "keeps coherent (set_type_status ts caller orgref ref0 ref1 to src)" for to src
    unfolding set_type_status_def set_type_status_check_def by (intro keeps_intros)
  show "keeps coherent (activate_type ts caller orgref ref0 ref1)" "keeps coherent (pause_type ts caller orgref ref0 ref1)"
    unfolding activate_type_def pause_type_def by (intro keeps_intros)+
qed

interpretation coherent_rows: request_invariant coherent y for y
proof unfold_locales
  fix user ref0
  have "keeps coherent (delete_org_assets (sy_events y) org)" for org
    by (intro keeps_event_calls coherent_quiet) (simp_all add: coherent_def)
  then show "keeps coherent (delete_org (sy_orgs y) (Some (delete_org_assets (sy_events y))) user ref0)"
    by (intro keeps_org_calls coherent_quiet) (auto simp: coherent_def)
next
  fix w w' assume "backstage (sy_auth y) (sy_orgs y) (sy_admin y) (sy_survives y) w w'" "coherent w"
  then show "coherent w'"
    by (rule backstage_keeps)
      (rule coherent_quiet, simp add: apart_def coherent_def, simp add: secretless_def coherent_def,
        intro keeps_new_member coherent_tables, simp add: coherent_def)
qed ((intro create_order_coherent cancel_order_coherent sweep_coherent checkout_coherent webhook_coherent type_calls_coherent
    keeps_event_calls keeps_attendee_calls keeps_kit_calls keeps_checkin_calls keeps_org_calls
    keeps_billing_calls quiet_public_event coherent_quiet coherent_tables; simp add: coherent_def)+, simp_all add: coherent_def)

text \<open>C25. The type of an order. In every reachable state, whatever requests and failures led to it, every order has one of four shapes:
  a free order is CONFIRMED or CANCELLED, has no expiry, and nothing of a Stripe session or a payment; a priced one always has the expiry of its
  hold; while it waits for its payment, or has expired, no payment is recorded; and it is CONFIRMED only with the time of its payment and
  the session that paid it. No order is PENDING, and no idempotency key is stored empty. The table has no constraint for any of this.\<close>

theorem order_shapes:
  assumes "reached y w" and "x \<in> set (orders w)"
  shows "or_status x \<noteq> OrderPending \<and> or_key x \<noteq> Some [] \<and>
    (or_price_cents x = 0 \<longrightarrow> or_status x \<in> {Confirmed, OrderCancelled} \<and> or_expires_at x = None \<and> or_session x = None \<and>
       or_payment_intent x = None \<and> or_paid_at x = None) \<and>
    (or_price_cents x \<noteq> 0 \<longrightarrow> or_expires_at x \<noteq> None \<and>
       (or_status x \<in> {PendingPayment, Expired} \<longrightarrow> or_paid_at x = None \<and> or_payment_intent x = None) \<and>
       (or_status x = Confirmed \<longrightarrow> or_paid_at x \<noteq> None \<and> or_session x \<noteq> None))"
proof -
  have "coherent w" by (rule coherent_rows.from_start [OF assms(1)]) (simp add: coherent_def)
  with assms(2) have "order_coherent x" by (simp add: coherent_def)
  then show ?thesis by (auto simp: order_coherent_def split: if_splits order_status.splits)
qed

text \<open>A hold of a priced type, and the same order after the signed payment of its session.\<close>

definition settled_world :: order_state where
  "settled_world = snd (handle_webhook sample_payments (sample_text 103) ''sig'' holds_world)"

lemma reached_settled: "reached sample_system holds_world" "reached sample_system settled_world"
proof -
  show h: "reached sample_system holds_world" by (rule reached_holds)
  show "reached sample_system settled_world"
    by (rule reached.request [OF h], unfold settled_world_def) (rule Webhook, simp add: sample_system_def, rule prod.collapse [symmetric])
qed

lemma settled_by: "snd (handle_webhook sample_payments (sample_text 103) ''sig'' w) = snd (mark_paid sample_orders 103 ''cs_1'' ''pi_1'' w)"
proof -
  have "sample_text 103 \<noteq> []" by (simp add: sample_text_def)
  then show ?thesis
    by (simp add: handle_webhook_def dispatch_event_def fulfill_session_def bill_def handle_billing_event_def on_checkout_completed_def
        sample_payments_def sample_construct_def paid_session_def sample_orders_def bnd_def guard_def ret_def the_or_fail_def fail_def
        on_error_def attempt_def split: prod.split sum.split)
qed

lemma settled_run: "map (\<lambda>x. (or_status x, or_price_cents x)) (orders holds_world) = [(PendingPayment, 500)]"
  "map (\<lambda>x. (or_status x, or_price_cents x)) (orders settled_world) = [(Confirmed, 500)]"
  by (simp_all add: settled_world_def [unfolded settled_by] holds_world_def seats_world_def bare_world_def paid_ticket_def day_ticket_def evals
      sample_text_def list_all_iff to_upper_def seconds_def order_conflict_def)

theorem order_shapes_witness:
  "\<exists>x x'. orders holds_world = [x] \<and> or_status x = PendingPayment \<and> or_expires_at x \<noteq> None \<and> or_paid_at x = None \<and>
     orders settled_world = [x'] \<and> or_status x' = Confirmed \<and> or_paid_at x' \<noteq> None \<and> or_session x' \<noteq> None"
proof -
  obtain x x' where x: "orders holds_world = [x]" "or_status x = PendingPayment" "or_price_cents x = 500"
      "orders settled_world = [x']" "or_status x' = Confirmed" "or_price_cents x' = 500"
    using settled_run by (auto simp: map_eq_Cons_conv)
  then show ?thesis using order_shapes [OF reached_settled(1), of x] order_shapes [OF reached_settled(2), of x'] by simp
qed

end
