(* ===== verification/Founding.thy ===== *)
theory Founding
  imports PolicyFacts
begin

text \<open>
  Founding an organization (\<open>CreateOrg\<close>): which slug it gets, what is written, and when it is refused. The slug is probed among the
  organizations that are not deleted, while the unique index covers the deleted ones as well, so the slug of a deleted organization blocks
  every later organization whose name leads to it.
\<close>

section \<open>The slug\<close>











section \<open>The transaction\<close>









section \<open>The attempts\<close>








end
