(* ===== verification/Spec2Isabelle.thy ===== *)
theory Spec2Isabelle
  imports ServingFacts Media Mail Cache Migrating Joining Startup Ceiling Coherence Founding
begin

text \<open>
  \<^bold>\<open>Rallya: a verification library of the API server.\<close>

  Rallya sells and gives away tickets: organizations publish events with ticket types, users claim tickets as orders, orders
  become attendees with signed QR codes, staff check attendees in and hand out kits, Stripe takes payments and bills the
  organizations. The program is the Go server under \<open>src/cmd/api\<close> and \<open>src/internal\<close>; every domain is a package with a model,
  a repository (GORM over Postgres), a service, HTTP handlers and routes. This library models the services, repositories,
  handlers, routes, middlewares, configuration and wiring, function by function and with the names of the code, and proves
  what they promise, up to the whole API as a state machine.

  \<^bold>\<open>How the code is modelled.\<close>

  An operation (\<open>Store.op\<close>) takes the state of the store and returns an error or a value with the new state; \<open>bnd\<close> is the
  sequence of Go statements with \<open>if err != nil { return err }\<close>, \<open>attempt\<close> is a call whose error is looked at, \<open>on_error\<close> a call
  whose error is translated. Errors are values of \<open>Errors.err\<close>, one datatype per \<open>errors.go\<close>, compared by identity as
  \<open>errors.Is\<close> does. The state is one record, extended by each component with its tables, from \<open>base\<close> (clock, script of failures,
  draws) through \<open>auth_state\<close>, \<open>plan_state\<close>, \<open>iam_state\<close>, \<open>org_state\<close>, \<open>event_state\<close> and so on to \<open>order_state\<close>. A table is the list of its rows in
  insertion order; the repositories are what their GORM calls say as SQL, with the unique indexes, the checks and the column ranges of
  \<open>src/migrations\<close> as conditions of the writes. Every access may fail: \<open>faults\<close> says which of the coming accesses return an infrastructure
  error, and a theorem that holds for every state holds for every such script. \<open>tx\<close> is \<open>db.Transaction\<close>: its body runs as one step,
  and an error of it, or a failing begin or commit, leaves the tables as they were.

  Code that reads before it opens a transaction is split into named halves (\<open>cancel_order_check\<close> and \<open>cancel_order_commit\<close>,
  \<open>collect_check\<close>, \<open>refresh_check\<close>, \<open>mark_paid_commit\<close>, \<open>remove_member_check\<close>, ...), the operation is their composition, and the
  lemmas on races interleave the halves of two calls.

  Integers are unbounded where the code cannot overflow within the limits it checks; \<open>wrap64\<close> is written where it can, and columns
  of 32 bits refuse what does not fit (\<open>fits32\<close>). Times are nanoseconds; what the API prints are whole seconds. Strings are byte
  strings, and the case functions act on the ASCII range. A UUID is identified with its canonical text, so parsing and printing
  are the parameters \<open>uuid_parse\<close> and \<open>uuid_text\<close>.

  What is not code of the repository is a parameter: the UUID generator, SHA-256, HMAC and the random source (\<open>Store.lib\<close>); bcrypt,
  the JWT library and \<open>rand.Int\<close> (\<open>Auth.auth_service\<close>); Stripe's answers (\<open>Subscription.billing\<close>, \<open>Payment.payment_service\<close>) and its check of
  signatures; the storage provider and the RFC 3339 parser (\<open>Event.event_service\<close>); Gin's router, body decoding and binding tags (bodies
  arrive as options, the path is already matched); the PNG encoder of QR codes, \<open>html/template\<close>, the SMTP server, \<open>redis.ParseURL\<close>
  and the reply of the Lua script of the rate limiter. Theorems that need a law of one of them state it as a hypothesis, and
  the library of \<open>Samples\<close> satisfies the laws.

  \<^bold>\<open>The theories.\<close>

  Foundations: \<open>Prelude\<close> (tables, counting, 64-bit wrap-around), \<open>Errors\<close>, \<open>Store\<close> (operations, \<open>wp\<close>, \<open>keeps\<close> for preserved predicates, \<open>aborts\<close> for
  failed ones), \<open>GoLib\<close> (strings, hexadecimal, numbers and times of the Go library).

  Domains, in the order in which they call each other, each theory with its records, repository, service and the frame lemmas that say
  what it leaves alone:
    \<^item> \<open>Slug\<close> (\<open>organization/utils\<close>), \<open>Trail\<close> (\<open>audit\<close>, \<open>notification/jobs\<close>), \<open>Users\<close> and \<open>Accounts\<close> (\<open>auth/model\<close>, \<open>auth/repository\<close>, \<open>auth/token\<close>),
    \<^item> \<open>Plans\<close> (\<open>subscription/model\<close>, entitlements), \<open>Iam\<close> (\<open>iam\<close>: Casbin rows, seeding, sync and the matcher of \<open>model.conf\<close>),
    \<^item> \<open>Organization\<close>, \<open>Members\<close>, \<open>Invites\<close>, \<open>Roles\<close>, \<open>ApiKeys\<close> (\<open>organization\<close>), \<open>Event\<close> (\<open>event\<close>), \<open>Ticketing\<close> (\<open>ticketing\<close>),
    \<^item> \<open>Attendee\<close>, \<open>Kit\<close>, \<open>Checkin\<close>, \<open>Order\<close> (the packages of these names), \<open>Subscription\<close> (\<open>subscription/service\<close>), \<open>Payment\<close> (\<open>payment\<close>),
    \<^item> \<open>Auth\<close> (\<open>auth/service\<close>), \<open>Gate\<close> (the three middlewares), \<open>Admin\<close> (\<open>admin\<close>),
    \<^item> \<open>Http\<close>, \<open>EventHandlers\<close>, \<open>OrgHandlers\<close>, \<open>DoorHandlers\<close>, \<open>AccountHandlers\<close> (the \<open>handler\<close> packages), \<open>Routes\<close> (the \<open>routes.go\<close> files: one
      constructor per endpoint, its chain of guards, its handler) with \<open>serve\<close>, the API,
    \<^item> \<open>Limits\<close> (\<open>ratelimit\<close>), \<open>Config\<close> (\<open>cmd/config\<close>), \<open>Boot\<close> and \<open>Startup\<close> (\<open>cmd/api/main.go\<close>: the
      wiring; the process from start to stop, with \<open>database.go\<close> and \<open>redis.go\<close>), \<open>Media\<close> (\<open>media\<close>, \<open>event/cover\<close>),
      \<open>Mail\<close> (\<open>notification/templates\<close>, \<open>mailer\<close> and the workers of \<open>notification/jobs\<close>), \<open>Cache\<close> (\<open>cache\<close>: the table
      \<open>detail_cache\<close> of the event service is such a store), \<open>Migrating\<close> (\<open>cmd/migrate\<close>).

  Facts: \<open>Reads\<close>, \<open>Frames\<close>, \<open>Backstage\<close> (frames: which tables the operations of a domain can touch), \<open>Inventory\<close>, \<open>OrderFacts\<close>, \<open>Market\<close>
  (the inventory books), \<open>Claiming\<close>, \<open>Settling\<close>, \<open>Sweeping\<close>, \<open>Coherence\<close> (how orders begin and end, and what their rows look like), \<open>Requests\<close> (the contract of invariants and the audit
  trail), \<open>Door\<close>, \<open>Ledger\<close>, \<open>Handouts\<close> (check-in and kits), \<open>Founding\<close>, \<open>Ownership\<close>, \<open>Joining\<close>, \<open>RoleFacts\<close> (organizations, members and their roles), \<open>EventFacts\<close>, \<open>AuthFacts\<close>, \<open>Rotation\<close> (sessions,
  tokens, codes), \<open>GateFacts\<close>, \<open>PolicyFacts\<close>, \<open>Ceiling\<close> (who may do what), \<open>BillingFacts\<close> (tiers), \<open>Serving\<close>, \<open>ServingFacts\<close> (the API), \<open>Races\<close> (what
  overlapping requests can do). \<open>Samples\<close>
  is a small concrete world on which the properties are instantiated.

  \<^bold>\<open>The state machine.\<close>

  \<open>Market.request\<close> is the step relation of the system: any call of any service with any arguments, whatever its result; time passing;
  another script of failures; an account created or changed elsewhere; and through \<open>Backstage.backstage\<close> the calls about accounts,
  invitations, roles, keys and policies. \<open>reached\<close> are the states reachable from any state without ticket types and orders. The locale
  \<open>Requests.request_invariant\<close> is the contract of an invariant of this machine; it is interpreted for the audit trail, the last owner, the
  unique indexes of the order table, the shapes of its rows, the event lifecycle, custom roles, policy rows, platform administrators, revocations, guesses of codes, the check-in ledger, the handouts and the subscriptions. The locale
  \<open>Auth.auth_rows\<close> is the same contract for the flows of the authentication domain, and \<open>Ledger.door_invariant\<close> extends the first for
  invariants about attendees. C30 shows that whatever an HTTP request does is a sequence of these steps, so what is proved of
  the machine holds behind the API.

  \<^bold>\<open>What is shown.\<close>

    \<^item> Inventory and orders (C1 to C8, C25 to C28): no oversell and no leak in any reachable state; an order is never lost, re-priced or revived, and its row always has one of four shapes (free or priced, waiting, paid, closed);
      what a claim, a payment, a cancellation writes, exactly; a failed claim leaves no trace; a repeated key answers with the first order; the
      sweeper implements an abstract box office, drains its backlog, and starves on holds of deleted events.
    \<^item> Door and kits (C9 to C13): QR round trip; the table of verdicts; nobody is admitted twice without a revert; handouts only to people inside.
    \<^item> Trail, organizations and events (C14 to C16, C29, C33, C39): the trail is append-only, what founding an organization writes and which slug it
      gets, the last owner stays, who joins and how, what custom roles can hold, the event lifecycle.
    \<^item> Accounts and permissions (C17 to C24, C34): what the policy can ever allow and to whom, who administers the platform; revocation is final, refresh tokens are used once, a reset logs out everywhere, guesses are
      bounded, who passes the gate, scopes, and that the enforcer allows a member what the matrix has for the fixed role and the custom roles grant, and nothing else.
    \<^item> Tiers (C40): a tier does not outlive its payments by more than the grace period.
    \<^item> The API (C30 to C32, C35 to C38): requests are steps of the machine; refused requests write nothing; only holders of a
      permission write; rate limits; a process that starts is safely configured; stored images can be deleted; what the recipient of a
      mail reads behind the dot writer of \<open>net/textproto\<close>, and how a line break in a subject becomes a header.

  Beside the properties, lemmas record the interleavings that the code allows: \<open>Ownership.owners_leave_race\<close>, \<open>Handouts.collect_revert_race\<close>,
  \<open>Rotation.refresh_race\<close>, and in \<open>Races\<close> those of cancellations, sweeps, edits of ticket types, idempotency keys and guesses; slugs
  (\<open>EventFacts.slugify_wellformed\<close>) and pages (\<open>ServingFacts.pagination_bounds\<close>); \<open>ServingFacts.sentinel_statuses\<close> lists which errors of each package the API answers as the client's.

  \<^bold>\<open>Bounds.\<close>

  Loops over lists are structural. The attempts of \<open>create_org_loop\<close> and \<open>create_event_loop\<close> are the four of the code, the slugs probed are those of
  the code (\<open>base-2\<close> to \<open>base-99\<close>, then a random one), and \<open>Mail.chunked\<close> has its termination proof.
  \<open>Iam.role_link\<close> follows at most ten links, the limit of Casbin's role manager. There is no other fuel.
  \<open>Order.sweep_expired\<close> takes the batch size of the code.

  \<^bold>\<open>Not modelled, and why.\<close>

    \<^item> \<open>docs/docs.go\<close> is generated. Of \<open>cmd/config\<close>, the pool settings of \<open>database.go\<close>, \<open>env.go\<close> and
      \<open>logger.go\<close> are calls into drivers and libraries.
    \<^item> River's scheduling and retries, and how long a stop waits.
    \<^item> Foreign keys other than that of the check-in log, and the lengths of text columns: a write they refuse is one of the failures of the script.
    \<^item> The profile of a user is kept inside its row; a listing without \<open>ORDER BY\<close> takes the rows in insertion order, and the loops over Go maps
      in \<open>admin_service.go\<close> take the keys in the order of the rows.
    \<^item> \<open>sy_survives\<close> says whether the database commits a transaction one of whose statements failed (\<open>assign_role\<close>); Postgres does not.
    \<^item> Casbin's \<open>g2\<close> is reflexive; the model asks for the row, since a subject is a UUID and never the word \<open>superadmin\<close>. \<open>AddDate(0, 0, 7)\<close> adds
      seven days of 24 hours. A retry of \<open>create_org\<close> draws a new identifier for the membership, which nobody has seen before.
    \<^item> The counters of the rate limiter are unbounded; a window would have to see more than \<open>2 ^ 63\<close> calls.
\<close>

end
